(* ===== verification/PyNum.thy ===== *)
theory PyNum
  imports Complex_Main "HOL-Library.Log_Nat"
begin

text \<open>
  Numbers of the Python program.

  The code computes with two rounded number types: \<open>decimal.Decimal\<close> under the default context
  (28 significant decimal digits, round half to even) and \<open>float\<close> (IEEE binary64: 53 significant
  bits, round half to even). Both are modelled as rational numbers whose arithmetic operations
  round the exact result: \<open>round_sig b p x\<close> rounds \<open>x\<close> to \<open>p\<close> significant
  digits in base \<open>b\<close>. Comparisons, \<open>min\<close> and \<open>max\<close> are exact in Python and
  exact here. Exponent limits (overflow, subnormal numbers), infinities, NaN and the sign of zero
  are not modelled.

  The locale \<open>rounding\<close> is the interface the other theories use: what a rounding promises
  (monotone, odd, idempotent, small relative error). It is interpreted for \<open>dec\<close> and
  \<open>flt\<close>.
\<close>

section \<open>Round half to even on rationals\<close>

definition round_half_even :: "rat \<Rightarrow> int" where
  "round_half_even x =
     (let n = \<lfloor>x\<rfloor>; d = x - of_int n in
      if d < 1/2 then n
      else if d > 1/2 then n + 1
      else if even n then n else n + 1)"

lemma rhe_bounds: "\<lfloor>x\<rfloor> \<le> round_half_even x" "round_half_even x \<le> \<lfloor>x\<rfloor> + 1"
  by (simp_all add: round_half_even_def Let_def)

lemma rhe_of_int [simp]: "round_half_even (of_int n) = n"
  by (simp add: round_half_even_def)

lemma rhe_error: "\<bar>of_int (round_half_even x) - x\<bar> \<le> 1/2"
  unfolding round_half_even_def Let_def
  by (cases "x - of_int \<lfloor>x\<rfloor> < 1/2"; cases "x - of_int \<lfloor>x\<rfloor> > 1/2") (auto simp: abs_if, linarith+)

lemma rhe_mono:
  assumes "x \<le> y"
  shows "round_half_even x \<le> round_half_even y"
proof (cases "\<lfloor>x\<rfloor> = \<lfloor>y\<rfloor>")
  case True
  with assms show ?thesis by (auto simp: round_half_even_def Let_def)
next
  case False
  from assms have "\<lfloor>x\<rfloor> \<le> \<lfloor>y\<rfloor>" by (rule floor_mono)
  with False have "\<lfloor>x\<rfloor> + 1 \<le> \<lfloor>y\<rfloor>" by simp
  with rhe_bounds(2)[of x] rhe_bounds(1)[of y] show ?thesis by linarith
qed

lemma rhe_le_of_int: "x \<le> of_int n \<Longrightarrow> round_half_even x \<le> n"
  using rhe_mono[of x "of_int n"] by simp

lemma rhe_ge_of_int: "of_int n \<le> x \<Longrightarrow> n \<le> round_half_even x"
  using rhe_mono[of "of_int n" x] by simp

section \<open>The exponent of a positive rational\<close>

definition mag :: "nat \<Rightarrow> rat \<Rightarrow> int" where
  "mag b x =
     (if x \<ge> 1 then int (floorlog b (nat \<lfloor>x\<rfloor>)) - 1
      else - int (floorlog b (nat (\<lceil>1/x\<rceil> - 1))))"

text \<open>For evaluation: the number of digits on integers, which stay in binary.\<close>

function ndigits :: "int \<Rightarrow> int \<Rightarrow> int" where
  "ndigits b n = (if n \<le> 0 \<or> b \<le> 1 then 0 else ndigits b (n div b) + 1)"
  by pat_completeness auto
termination
  by (relation "measure (\<lambda>(b, n). nat n)") (auto simp: nat_less_iff zdiv_mono2 int_div_less_self)

declare ndigits.simps [simp del]

lemma floorlog_ndigits: "int (floorlog b (nat n)) = ndigits (int b) n"
proof (induction "int b" n rule: ndigits.induct)
  case (1 n)
  show ?case
  proof (cases "n \<le> 0 \<or> int b \<le> 1")
    case True
    then show ?thesis by (subst ndigits.simps) (auto simp: floorlog_def)
  next
    case False
    then have "nat n div b = nat (n div int b)" by (simp add: nat_div_distrib)
    with False 1 show ?thesis by (subst ndigits.simps, subst compute_floorlog) simp
  qed
qed

lemma mag_code [code]:
  "mag b x = (if x \<ge> 1 then ndigits (int b) \<lfloor>x\<rfloor> - 1 else - ndigits (int b) (\<lceil>1/x\<rceil> - 1))"
  by (simp add: mag_def floorlog_ndigits)

lemma mag_bounds_ge1:
  assumes b: "1 < b" and x: "1 \<le> x"
  shows "of_nat b powi (mag b x) \<le> x \<and> x < of_nat b powi (mag b x + 1)"
proof -
  define n where "n = nat \<lfloor>x\<rfloor>"
  define k where "k = floorlog b n"
  from x have fx: "1 \<le> \<lfloor>x\<rfloor>" by (simp add: le_floor_iff)
  then have n0: "0 < n" and n_int: "int n = \<lfloor>x\<rfloor>" by (simp_all add: n_def)
  from floorlog_bounds[OF n0 b] have k: "b ^ (k - 1) \<le> n" "n < b ^ k" by (simp_all add: k_def)
  from k(2) n0 b have k0: "0 < k" by (cases k) auto
  have m: "mag b x = int (k - 1)" using x k0 by (simp add: mag_def k_def n_def)
  have rn: "(of_nat n :: rat) = of_int \<lfloor>x\<rfloor>" using n_int by (metis of_int_of_nat_eq)
  have lo: "(of_nat b :: rat) ^ (k - 1) \<le> x"
  proof -
    have "(of_nat (b ^ (k - 1)) :: rat) \<le> of_nat n" using k(1) by (simp only: of_nat_le_iff)
    also have "\<dots> \<le> x" by (simp add: rn)
    finally show ?thesis by simp
  qed
  have hi: "x < (of_nat b :: rat) ^ k"
  proof -
    have "x < of_nat n + 1" using floor_correct[of x] rn by simp
    also have "(of_nat n + 1 :: rat) = of_nat (Suc n)" by simp
    also have "\<dots> \<le> of_nat (b ^ k)" using k(2) by (simp only: of_nat_le_iff Suc_le_eq)
    finally show ?thesis by simp
  qed
  have m1: "mag b x + 1 = int k" using m k0 by simp
  show ?thesis unfolding m1 unfolding m using lo hi by (simp only: power_int_of_nat)
qed

lemma mag_bounds_lt1:
  assumes b: "1 < b" and x: "0 < x" "x < 1"
  shows "of_nat b powi (mag b x) \<le> x \<and> x < of_nat b powi (mag b x + 1)"
proof -
  define y where "y = 1 / x"
  define n where "n = nat (\<lceil>y\<rceil> - 1)"
  define k where "k = floorlog b n"
  from x have y1: "1 < y" by (simp add: y_def)
  then have c: "1 < \<lceil>y\<rceil>" by (simp add: less_ceiling_iff)
  then have n0: "0 < n" and n_int: "int n = \<lceil>y\<rceil> - 1" by (simp_all add: n_def)
  from floorlog_bounds[OF n0 b] have k: "b ^ (k - 1) \<le> n" "n < b ^ k" by (simp_all add: k_def)
  from k(2) n0 b have k0: "0 < k" by (cases k) auto
  have m: "mag b x = - int k" using x by (simp add: mag_def k_def n_def y_def)
  have rn: "(of_nat n :: rat) = of_int \<lceil>y\<rceil> - 1"
    using n_int by (metis of_int_1 of_int_diff of_int_of_nat_eq)
  have hi: "y \<le> (of_nat b :: rat) ^ k"
  proof -
    have "y \<le> of_nat n + 1" by (simp add: rn)
    also have "(of_nat n + 1 :: rat) = of_nat (Suc n)" by simp
    also have "\<dots> \<le> of_nat (b ^ k)" using k(2) by (simp only: of_nat_le_iff Suc_le_eq)
    finally show ?thesis by simp
  qed
  have lo: "(of_nat b :: rat) ^ (k - 1) < y"
  proof -
    have "(of_nat (b ^ (k - 1)) :: rat) \<le> of_nat n" using k(1) by (simp only: of_nat_le_iff)
    also have "\<dots> < y" using rn ceiling_correct[of y] by linarith
    finally show ?thesis by simp
  qed
  have bp: "0 < (of_nat b :: rat)" using b by simp
  have xy: "x = 1 / y" using x by (simp add: y_def)
  have "1 / (of_nat b :: rat) ^ k \<le> x"
    using hi y1 bp xy by (simp add: divide_left_mono)
  moreover have "x < 1 / (of_nat b :: rat) ^ (k - 1)"
    using lo y1 bp xy by (simp add: divide_strict_left_mono)
  moreover have "of_nat b powi (mag b x) = 1 / (of_nat b :: rat) ^ k"
    unfolding m by (simp only: power_int_minus_divide power_int_of_nat)
  moreover have "of_nat b powi (mag b x + 1) = 1 / (of_nat b :: rat) ^ (k - 1)"
  proof -
    have "mag b x + 1 = - int (k - 1)" using m k0 by simp
    then show ?thesis by (simp only: power_int_minus_divide power_int_of_nat)
  qed
  ultimately show ?thesis by simp
qed

lemma mag_bounds:
  assumes "1 < b" and "0 < x"
  shows "of_nat b powi (mag b x) \<le> x" and "x < of_nat b powi (mag b x + 1)"
  using mag_bounds_ge1[of b x] mag_bounds_lt1[of b x] assms by (cases "1 \<le> x"; simp)+

lemma powi_strict_mono_iff:
  assumes "1 < b"
  shows "(of_nat b :: rat) powi i < of_nat b powi j \<longleftrightarrow> i < j"
proof
  have b: "(1::rat) < of_nat b" using assms by simp
  show "i < j" if "(of_nat b :: rat) powi i < of_nat b powi j"
    using that b power_int_increasing[of j i "of_nat b :: rat"] by (cases "j \<le> i") auto
  show "(of_nat b :: rat) powi i < of_nat b powi j" if "i < j"
    using that b by (rule power_int_strict_increasing)
qed

lemma mag_less:
  assumes "1 < b" "0 < x" "x < of_nat b powi e"
  shows "mag b x < e"
proof -
  have "(of_nat b :: rat) powi (mag b x) < of_nat b powi e"
    using mag_bounds(1)[OF assms(1,2)] assms(3) by linarith
  then show ?thesis by (simp add: powi_strict_mono_iff[OF assms(1)])
qed

lemma mag_mono:
  assumes "1 < b" "0 < x" "x \<le> y"
  shows "mag b x \<le> mag b y"
proof -
  have "x < of_nat b powi (mag b y + 1)"
    using mag_bounds(2)[of b y] assms by simp
  from mag_less[OF assms(1,2) this] show ?thesis by simp
qed

section \<open>Rounding to significant digits\<close>

definition ulp_exp :: "nat \<Rightarrow> nat \<Rightarrow> rat \<Rightarrow> int" where
  "ulp_exp b p x = mag b x - int p + 1"

definition round_pos :: "nat \<Rightarrow> nat \<Rightarrow> rat \<Rightarrow> rat" where
  "round_pos b p x =
     (let q = ulp_exp b p x
      in of_int (round_half_even (x * of_nat b powi (- q))) * of_nat b powi q)"

definition round_sig :: "nat \<Rightarrow> nat \<Rightarrow> rat \<Rightarrow> rat" where
  "round_sig b p x =
     (if x = 0 then 0 else if 0 < x then round_pos b p x else - round_pos b p (- x))"

lemma round_sig_0 [simp]: "round_sig b p 0 = 0"
  by (simp add: round_sig_def)

lemma round_sig_minus: "round_sig b p (- x) = - round_sig b p x"
  by (simp add: round_sig_def)

lemma powi_pos: "1 < b \<Longrightarrow> 0 < (of_nat b :: rat) powi e"
  by (simp add: zero_less_power_int)

lemma powi_add: "1 < b \<Longrightarrow> (of_nat b :: rat) powi (m + n) = of_nat b powi m * of_nat b powi n"
  by (simp add: power_int_add)

lemma powi_cancel: "1 < b \<Longrightarrow> (of_nat b :: rat) powi (- q) * of_nat b powi q = 1"
  using powi_add[of b "- q" q] by simp

lemma scaled_bounds:
  fixes p :: nat
  assumes "1 < b" "0 < x"
  defines "q \<equiv> ulp_exp b p x"
  shows "of_nat b powi (int p - 1) \<le> x * of_nat b powi (- q)"
    and "x * of_nat b powi (- q) < of_nat b powi (int p)"
proof -
  have pos: "0 < (of_nat b :: rat) powi (- q)" using assms by (simp add: powi_pos)
  have "of_nat b powi (mag b x) * of_nat b powi (- q) \<le> x * of_nat b powi (- q)"
    using mag_bounds(1)[OF assms(1,2)] pos by (simp add: mult_right_mono)
  moreover have "mag b x + - q = int p - 1" by (simp add: q_def ulp_exp_def)
  ultimately show "of_nat b powi (int p - 1) \<le> x * of_nat b powi (- q)"
    by (metis powi_add[OF assms(1)])
  have "x * of_nat b powi (- q) < of_nat b powi (mag b x + 1) * of_nat b powi (- q)"
    using mag_bounds(2)[OF assms(1,2)] pos by (simp add: mult_strict_right_mono)
  moreover have "mag b x + 1 + - q = int p" by (simp add: q_def ulp_exp_def)
  ultimately show "x * of_nat b powi (- q) < of_nat b powi (int p)"
    by (metis powi_add[OF assms(1)])
qed

lemma rhe_scaled_bounds:
  fixes p :: nat
  assumes "1 < b" "0 < p" "0 < x"
  defines "r \<equiv> round_half_even (x * of_nat b powi (- ulp_exp b p x))"
  shows "int b ^ (p - 1) \<le> r" and "r \<le> int b ^ p"
proof -
  note sb = scaled_bounds[OF assms(1,3), of p]
  have p1: "int p - 1 = int (p - 1)" using assms(2) by simp
  have "(of_int (int b ^ (p - 1)) :: rat) \<le> x * of_nat b powi (- ulp_exp b p x)"
    using sb(1) unfolding p1 by (simp only: power_int_of_nat of_int_power of_int_of_nat_eq)
  then show "int b ^ (p - 1) \<le> r" unfolding r_def by (rule rhe_ge_of_int)
  have "x * of_nat b powi (- ulp_exp b p x) \<le> (of_int (int b ^ p) :: rat)"
    using sb(2) by (simp only: power_int_of_nat of_int_power of_int_of_nat_eq less_imp_le)
  then show "r \<le> int b ^ p" unfolding r_def by (rule rhe_le_of_int)
qed

lemma round_pos_bounds:
  assumes "1 < b" "0 < p" "0 < x"
  shows "of_nat b powi (mag b x) \<le> round_pos b p x"
    and "round_pos b p x \<le> of_nat b powi (mag b x + 1)"
proof -
  define q where "q = ulp_exp b p x"
  define r where "r = round_half_even (x * of_nat b powi (- q))"
  have rp: "round_pos b p x = of_int r * of_nat b powi q"
    by (simp add: round_pos_def Let_def q_def r_def)
  have pos: "0 \<le> (of_nat b :: rat) powi q" using assms(1) by (simp add: powi_pos less_imp_le)
  have r1: "(of_int (int b ^ (p - 1)) :: rat) \<le> of_int r"
    and r2: "(of_int r :: rat) \<le> of_int (int b ^ p)"
    using rhe_scaled_bounds[OF assms] by (simp_all only: of_int_le_iff r_def q_def)
  have e1: "(of_int (int b ^ (p - 1)) :: rat) = of_nat b powi (int p - 1)"
    using assms(2) by (simp flip: power_int_of_nat add: of_nat_diff)
  have e2: "(of_int (int b ^ p) :: rat) = of_nat b powi (int p)" by simp
  have "of_nat b powi (int p - 1) * of_nat b powi q \<le> round_pos b p x"
    unfolding rp using r1 pos unfolding e1 by (rule mult_right_mono)
  moreover have "int p - 1 + q = mag b x" by (simp add: q_def ulp_exp_def)
  ultimately show "of_nat b powi (mag b x) \<le> round_pos b p x"
    by (metis powi_add[OF assms(1)])
  have "round_pos b p x \<le> of_nat b powi (int p) * of_nat b powi q"
    unfolding rp using r2 pos unfolding e2 by (rule mult_right_mono)
  moreover have "int p + q = mag b x + 1" by (simp add: q_def ulp_exp_def)
  ultimately show "round_pos b p x \<le> of_nat b powi (mag b x + 1)"
    by (metis powi_add[OF assms(1)])
qed

lemma round_pos_mono:
  assumes "1 < b" "0 < p" "0 < x" "x \<le> y"
  shows "round_pos b p x \<le> round_pos b p y"
proof (cases "mag b x = mag b y")
  case True
  then have q: "ulp_exp b p x = ulp_exp b p y" by (simp add: ulp_exp_def)
  have pos: "0 \<le> (of_nat b :: rat) powi e" for e using assms(1) by (simp add: powi_pos less_imp_le)
  have "round_half_even (x * of_nat b powi (- ulp_exp b p y))
      \<le> round_half_even (y * of_nat b powi (- ulp_exp b p y))"
    by (rule rhe_mono) (rule mult_right_mono[OF assms(4) pos])
  then show ?thesis by (simp add: round_pos_def Let_def q mult_right_mono pos)
next
  case False
  then have "mag b x + 1 \<le> mag b y" using mag_mono[OF assms(1,3,4)] by simp
  then have "(of_nat b :: rat) powi (mag b x + 1) \<le> of_nat b powi (mag b y)"
    using assms(1) by (intro power_int_increasing) auto
  then show ?thesis
    using round_pos_bounds(2)[OF assms(1,2,3)] round_pos_bounds(1)[OF assms(1,2), of y] assms(3,4)
    by linarith
qed

lemma round_pos_nonneg: "1 < b \<Longrightarrow> 0 < p \<Longrightarrow> 0 < x \<Longrightarrow> 0 < round_pos b p x"
  using round_pos_bounds(1)[of b p x] powi_pos[of b "mag b x"] by linarith

lemma round_sig_mono:
  assumes "1 < b" "0 < p" "x \<le> y"
  shows "round_sig b p x \<le> round_sig b p y"
proof -
  consider "0 < x" | "x \<le> 0" "0 \<le> y" | "y < 0" by linarith
  then show ?thesis
  proof cases
    case 1
    then show ?thesis using round_pos_mono[of b p x y] assms by (simp add: round_sig_def)
  next
    case 2
    then have "round_sig b p x \<le> 0" "0 \<le> round_sig b p y"
      using round_pos_nonneg[OF assms(1,2), of "- x"] round_pos_nonneg[OF assms(1,2), of y]
      by (auto simp: round_sig_def)
    then show ?thesis by linarith
  next
    case 3
    then show ?thesis using round_pos_mono[of b p "- y" "- x"] assms by (simp add: round_sig_def)
  qed
qed

text \<open>Values of at most \<open>p\<close> digits are not changed.\<close>

lemma round_pos_exact:
  assumes "1 < b" "0 < m" "m < int b ^ p"
  shows "round_pos b p (of_int m * of_nat b powi e) = of_int m * of_nat b powi e"
proof -
  define x :: rat where "x = of_int m * of_nat b powi e"
  define q where "q = ulp_exp b p x"
  have x0: "0 < x" using assms(1,2) by (simp add: x_def powi_pos)
  have "x < of_nat b powi (int p + e)"
  proof -
    have "(of_int m :: rat) < of_int (int b ^ p)" using assms(3) by (simp only: of_int_less_iff)
    then have "(of_int m :: rat) < of_nat b powi (int p)" by simp
    then show ?thesis using powi_pos[OF assms(1), of e]
      by (simp add: x_def powi_add[OF assms(1)] mult_strict_right_mono)
  qed
  from mag_less[OF assms(1) x0 this] have qe: "q \<le> e" by (simp add: q_def ulp_exp_def)
  have "x * of_nat b powi (- q) = of_int m * of_nat b powi (e + - q)"
    by (simp add: x_def powi_add[OF assms(1)] mult.assoc del: add_uminus_conv_diff)
  also have "(of_nat b :: rat) powi (e + - q) = of_int (int b ^ nat (e - q))"
    using qe by (simp add: power_int_nonneg_exp)
  finally have sc: "x * of_nat b powi (- q) = of_int (m * int b ^ nat (e - q))" by simp
  have "round_pos b p x = x * of_nat b powi (- q) * of_nat b powi q"
    by (simp only: round_pos_def Let_def q_def[symmetric] sc rhe_of_int)
  also have "\<dots> = x" by (simp only: mult.assoc powi_cancel[OF assms(1)] mult_1_right)
  finally show ?thesis by (simp add: x_def)
qed

lemma round_sig_exact:
  assumes "1 < b" "\<bar>m\<bar> < int b ^ p"
  shows "round_sig b p (of_int m * of_nat b powi e) = of_int m * of_nat b powi e"
proof (cases "m = 0")
  case False
  have pos: "0 < (of_nat b :: rat) powi e" using assms(1) by (rule powi_pos)
  show ?thesis
  proof (cases "0 < m")
    case True
    then show ?thesis using round_pos_exact[OF assms(1), of m p e] assms(2) pos
      by (simp add: round_sig_def zero_less_mult_iff)
  next
    case neg: False
    with False have "m < 0" by simp
    then show ?thesis using round_pos_exact[OF assms(1), of "- m" p e] assms(2) pos
      by (simp add: round_sig_def mult_less_0_iff zero_less_mult_iff)
  qed
qed simp

lemma round_pos_idem:
  assumes "1 < b" "0 < p" "0 < x"
  shows "round_pos b p (round_pos b p x) = round_pos b p x"
proof -
  define q where "q = ulp_exp b p x"
  define r where "r = round_half_even (x * of_nat b powi (- q))"
  have rp: "round_pos b p x = of_int r * of_nat b powi q"
    by (simp add: round_pos_def Let_def q_def r_def)
  have r: "int b ^ (p - 1) \<le> r" "r \<le> int b ^ p"
    using rhe_scaled_bounds[OF assms] by (simp_all add: r_def q_def)
  have r0: "0 < r" using r(1) assms(1) by (meson less_le_trans of_nat_0_less_iff zero_less_power order.strict_trans zero_less_one)
  show ?thesis
  proof (cases "r < int b ^ p")
    case True
    then show ?thesis unfolding rp by (rule round_pos_exact[OF assms(1) r0])
  next
    case False
    with r(2) have rb: "r = int b ^ p" by simp
    have "round_pos b p x = of_int 1 * of_nat b powi (int p + q)"
      by (simp add: rp rb powi_add[OF assms(1)])
    moreover have "(1::int) < int b ^ p" using assms by simp
    ultimately show ?thesis using round_pos_exact[OF assms(1), of 1 p "int p + q"] by simp
  qed
qed

lemma round_sig_idem:
  assumes "1 < b" "0 < p"
  shows "round_sig b p (round_sig b p x) = round_sig b p x"
proof -
  have pos: "round_sig b p (round_sig b p y) = round_sig b p y" if "0 < y" for y
    using that round_pos_idem[OF assms that] round_pos_nonneg[OF assms that]
    by (simp add: round_sig_def)
  show ?thesis
  proof (cases x "0 :: rat" rule: linorder_cases)
    case less
    then show ?thesis using pos[of "- x"] by (simp add: round_sig_minus)
  qed (simp_all add: pos)
qed

lemma round_pos_error:
  assumes "1 < b" "0 < p" "0 < x"
  shows "\<bar>round_pos b p x - x\<bar> \<le> x / (2 * of_nat b ^ (p - 1))"
proof -
  define q where "q = ulp_exp b p x"
  define s where "s = x * of_nat b powi (- q)"
  have pos: "0 < (of_nat b :: rat) powi q" using assms(1) by (rule powi_pos)
  have xs: "x = s * of_nat b powi q"
    by (simp only: s_def mult.assoc powi_cancel[OF assms(1)] mult_1_right)
  have "round_pos b p x - x = (of_int (round_half_even s) - s) * of_nat b powi q"
    by (simp add: round_pos_def Let_def flip: q_def s_def) (simp add: xs[symmetric] left_diff_distrib)
  then have "\<bar>round_pos b p x - x\<bar> = \<bar>of_int (round_half_even s) - s\<bar> * of_nat b powi q"
    using pos by (simp add: abs_mult)
  also have "\<dots> \<le> 1/2 * of_nat b powi q"
    using rhe_error[of s] pos by (simp add: mult_right_mono)
  also have "\<dots> \<le> x / (2 * of_nat b ^ (p - 1))"
  proof -
    have p1: "int p - 1 = int (p - 1)" using assms(2) by simp
    have "(of_nat b :: rat) ^ (p - 1) \<le> s"
      using scaled_bounds(1)[OF assms(1,3), of p] unfolding p1 s_def q_def
      by (simp only: power_int_of_nat)
    then have "of_nat b ^ (p - 1) * of_nat b powi q \<le> x"
      unfolding xs using pos by (simp add: mult_right_mono)
    then show ?thesis using assms(1) by (simp add: field_simps)
  qed
  finally show ?thesis .
qed

lemma round_sig_error:
  assumes "1 < b" "0 < p"
  shows "\<bar>round_sig b p x - x\<bar> \<le> \<bar>x\<bar> / (2 * of_nat b ^ (p - 1))"
  using round_pos_error[OF assms, of x] round_pos_error[OF assms, of "- x"]
  by (cases x "0 :: rat" rule: linorder_cases) (auto simp: round_sig_def abs_minus_commute)

section \<open>The interface of a rounding\<close>

locale rounding =
  fixes rnd :: "rat \<Rightarrow> rat" and eps :: rat
  assumes rnd_mono: "x \<le> y \<Longrightarrow> rnd x \<le> rnd y"
    and rnd_minus: "rnd (- x) = - rnd x"
    and rnd_idem: "rnd (rnd x) = rnd x"
    and rnd_error: "\<bar>rnd x - x\<bar> \<le> eps * \<bar>x\<bar>"
    and eps_bounds: "0 < eps" "eps < 1/2"
begin

lemma rnd_0: "rnd 0 = 0"
  using rnd_error[of 0] by simp

lemma rnd_lower: "0 \<le> x \<Longrightarrow> (1 - eps) * x \<le> rnd x"
  using rnd_error[of x] by (simp add: abs_if left_diff_distrib split: if_splits)

lemma rnd_upper: "0 \<le> x \<Longrightarrow> rnd x \<le> (1 + eps) * x"
  using rnd_error[of x] by (simp add: abs_if distrib_right split: if_splits)

lemma rnd_gt_0: "0 < x \<Longrightarrow> 0 < rnd x"
  using rnd_lower[of x] eps_bounds mult_pos_pos[of "1 - eps" x] by linarith

lemma rnd_pos_iff: "0 < rnd x \<longleftrightarrow> 0 < x"
  using rnd_gt_0[of x] rnd_mono[of x 0] rnd_0 by linarith

lemma rnd_neg_iff: "rnd x < 0 \<longleftrightarrow> x < 0"
  using rnd_pos_iff[of "- x"] by (simp add: rnd_minus)

lemma rnd_ge_0_iff: "0 \<le> rnd x \<longleftrightarrow> 0 \<le> x"
  using rnd_neg_iff[of x] by linarith

lemma rnd_le_0_iff: "rnd x \<le> 0 \<longleftrightarrow> x \<le> 0"
  using rnd_pos_iff[of x] by linarith

lemma rnd_eq_0_iff: "rnd x = 0 \<longleftrightarrow> x = 0"
  using rnd_ge_0_iff[of x] rnd_le_0_iff[of x] by (simp add: order_eq_iff conj_commute)

lemma rnd_le_exact: "rnd y = y \<Longrightarrow> x \<le> y \<Longrightarrow> rnd x \<le> y"
  using rnd_mono[of x y] by simp

lemma rnd_ge_exact: "rnd y = y \<Longrightarrow> y \<le> x \<Longrightarrow> y \<le> rnd x"
  using rnd_mono[of y x] by simp

lemma rnd_abs: "rnd \<bar>x\<bar> = \<bar>rnd x\<bar>"
  using rnd_ge_0_iff[of x] by (cases "0 \<le> x") (auto simp: rnd_minus)

lemmas rnd_sign = rnd_0 rnd_pos_iff rnd_neg_iff rnd_ge_0_iff rnd_le_0_iff rnd_eq_0_iff

end

section \<open>Decimal and float\<close>

definition dec :: "rat \<Rightarrow> rat" where
  "dec x = round_sig 10 28 x"

definition flt :: "rat \<Rightarrow> rat" where
  "flt x = round_sig 2 53 x"

interpretation dec: rounding dec "1 / (2 * 10 ^ 27)"
  by unfold_locales
    (use round_sig_error[of 10 28] in
      \<open>auto simp: dec_def round_sig_mono round_sig_minus round_sig_idem\<close>)

interpretation flt: rounding flt "1 / 2 ^ 53"
  by unfold_locales
    (use round_sig_error[of 2 53] in
      \<open>auto simp: flt_def round_sig_mono round_sig_minus round_sig_idem\<close>)

declare dec.rnd_sign [simp] flt.rnd_sign [simp] dec.rnd_idem [simp] flt.rnd_idem [simp]

lemma dec_exact:
  assumes "\<bar>m\<bar> < 10 ^ 28"
  shows "dec (of_int m / 10 ^ k) = of_int m / 10 ^ k"
  using round_sig_exact[of 10 m 28 "- int k"] assms
  by (simp add: dec_def power_int_minus divide_inverse)

lemma dec_int: "\<bar>m\<bar> < 10 ^ 28 \<Longrightarrow> dec (of_int m) = of_int m"
  using dec_exact[of m 0] by simp

lemma flt_exact:
  assumes "\<bar>m\<bar> < 2 ^ 53"
  shows "flt (of_int m / 2 ^ k) = of_int m / 2 ^ k"
  using round_sig_exact[of 2 m 53 "- int k"] assms
  by (simp add: flt_def power_int_minus divide_inverse)

lemma flt_int: "\<bar>m\<bar> < 2 ^ 53 \<Longrightarrow> flt (of_int m) = of_int m"
  using flt_exact[of m 0] by simp

lemma dec_numeral [simp]: "(numeral n :: int) < 10 ^ 28 \<Longrightarrow> dec (numeral n) = numeral n"
  using dec_int[of "numeral n"] by simp

lemma dec_1 [simp]: "dec 1 = 1"
  using dec_int[of 1] by simp

lemma flt_numeral [simp]: "(numeral n :: int) < 2 ^ 53 \<Longrightarrow> flt (numeral n) = numeral n"
  using flt_int[of "numeral n"] by simp

lemma flt_1 [simp]: "flt 1 = 1"
  using flt_int[of 1] by simp

end
