(* ===== verification/Prelude.thy ===== *)
theory Prelude
  imports PyNum
begin

text \<open>
  Shared types and lemmas: the exceptions of the Python program as values of \<open>exn\<close> (a
  function that can raise returns \<open>exn + 'a\<close>), \<open>Decimal\<close> and \<open>float\<close>
  division with their exceptions, Python's truthiness-based \<open>x or default\<close>, points in time
  (microseconds, the resolution of \<open>datetime\<close>), and list and map facts used by several
  components.
\<close>

named_theorems model_defs \<open>definitions unfolded together in component proofs\<close>

section \<open>Types\<close>

datatype exn =
    ValueError string
  | KeyError string
  | AttributeError string
  | RuntimeError string
  | DivisionByZero
  | InvalidOperation
  | ZeroDivisionError
  | FileNotFoundError
  | ExternalError string
  | TypeError string
  | OSError string

type_synonym decimal = rat
type_synonym pyfloat = rat
type_synonym datetime = int
type_synonym user_id = string

text \<open>\<open>str\<close> of an exception.\<close>

fun exn_text :: "exn \<Rightarrow> string" where
  "exn_text (ValueError s) = s"
| "exn_text (KeyError s) = s"
| "exn_text (AttributeError s) = s"
| "exn_text (RuntimeError s) = s"
| "exn_text DivisionByZero = ''division by zero''"
| "exn_text InvalidOperation = ''invalid operation''"
| "exn_text ZeroDivisionError = ''float division by zero''"
| "exn_text FileNotFoundError = ''file not found''"
| "exn_text (TypeError s) = s"
| "exn_text (ExternalError s) = s"
| "exn_text (OSError s) = s"

section \<open>Results\<close>

primrec res_bind :: "exn + 'a \<Rightarrow> ('a \<Rightarrow> exn + 'b) \<Rightarrow> exn + 'b" where
  "res_bind (Inl e) k = Inl e"
| "res_bind (Inr v) k = k v"

lemma res_bind_Inr_iff: "res_bind r k = Inr w \<longleftrightarrow> (\<exists>v. r = Inr v \<and> k v = Inr w)"
  by (cases r) auto

lemma res_bind_Inl_iff:
  "res_bind r k = Inl e \<longleftrightarrow> r = Inl e \<or> (\<exists>v. r = Inr v \<and> k v = Inl e)"
  by (cases r) auto

definition is_ok :: "exn + 'a \<Rightarrow> bool" where
  "is_ok r = (case r of Inl _ \<Rightarrow> False | Inr _ \<Rightarrow> True)"

lemma is_ok_simps [simp]: "is_ok (Inr v)" "\<not> is_ok (Inl e)"
  by (simp_all add: is_ok_def)

lemma is_ok_iff: "is_ok r \<longleftrightarrow> (\<exists>v. r = Inr v)"
  by (cases r) (auto simp: is_ok_def)

section \<open>Arithmetic that can raise\<close>

definition ddiv :: "decimal \<Rightarrow> decimal \<Rightarrow> exn + decimal" where
  "ddiv a b =
     (if b = 0 then Inl (if a = 0 then InvalidOperation else DivisionByZero)
      else Inr (dec (a / b)))"

definition fdiv :: "pyfloat \<Rightarrow> pyfloat \<Rightarrow> exn + pyfloat" where
  "fdiv a b = (if b = 0 then Inl ZeroDivisionError else Inr (flt (a / b)))"

lemma ddiv_nonzero [simp]: "b \<noteq> 0 \<Longrightarrow> ddiv a b = Inr (dec (a / b))"
  by (simp add: ddiv_def)

lemma ddiv_Inr_iff: "ddiv a b = Inr q \<longleftrightarrow> b \<noteq> 0 \<and> q = dec (a / b)"
  by (auto simp: ddiv_def)

lemma ddiv_Inl_iff: "(\<exists>e. ddiv a b = Inl e) \<longleftrightarrow> b = 0"
  by (auto simp: ddiv_def)

lemma fdiv_nonzero [simp]: "b \<noteq> 0 \<Longrightarrow> fdiv a b = Inr (flt (a / b))"
  by (simp add: fdiv_def)

text \<open>\<open>abs\<close> of a \<open>Decimal\<close> rounds to the context as every operation does.\<close>

definition dabs :: "decimal \<Rightarrow> decimal" where
  "dabs x = dec \<bar>x\<bar>"

lemma dabs_nonneg [simp]: "0 \<le> dabs x"
  by (simp add: dabs_def)

lemma dabs_dec [simp]: "dabs (dec x) = \<bar>dec x\<bar>"
  by (simp add: dabs_def dec.rnd_abs)

lemma dabs_eq_0_iff [simp]: "dabs x = 0 \<longleftrightarrow> x = 0"
  by (simp add: dabs_def)

lemma dabs_mono: "\<bar>x\<bar> \<le> \<bar>y\<bar> \<Longrightarrow> dabs x \<le> dabs y"
  by (simp add: dabs_def dec.rnd_mono)

section \<open>Truthiness\<close>

text \<open>\<open>x or d\<close> on an \<open>Optional[Decimal]\<close> or \<open>Optional[float]\<close>: both
  \<open>None\<close> and zero are false.\<close>

definition py_or :: "rat option \<Rightarrow> rat \<Rightarrow> rat" where
  "py_or x d = (case x of None \<Rightarrow> d | Some v \<Rightarrow> if v = 0 then d else v)"

lemma py_or_simps [simp]:
  "py_or None d = d" "py_or (Some 0) d = d" "v \<noteq> 0 \<Longrightarrow> py_or (Some v) d = v"
  by (simp_all add: py_or_def)

lemma py_or_cases: "py_or x d = d \<or> x = Some (py_or x d)"
  by (auto simp: py_or_def split: option.splits)

section \<open>Time\<close>

text \<open>\<open>timedelta.total_seconds()\<close> of a difference in microseconds.\<close>

definition total_seconds :: "int \<Rightarrow> pyfloat" where
  "total_seconds us = flt (of_int us / 1000000)"

definition seconds :: "int \<Rightarrow> int" where
  "seconds n = n * 1000000"

lemma total_seconds_mono: "a \<le> b \<Longrightarrow> total_seconds a \<le> total_seconds b"
  by (simp add: total_seconds_def flt.rnd_mono divide_right_mono)

lemma total_seconds_seconds: "\<bar>n\<bar> < 2 ^ 53 \<Longrightarrow> total_seconds (seconds n) = of_int n"
  using flt_int[of n] by (simp add: total_seconds_def seconds_def)

section \<open>Computations with state and exceptions\<close>

text \<open>A method that reads and writes a state and can raise: an exception keeps the state
  changes made before it.\<close>

type_synonym ('s, 'a) action = "'s \<Rightarrow> 's \<times> (exn + 'a)"

definition ret :: "'a \<Rightarrow> ('s, 'a) action" where
  "ret v s = (s, Inr v)"

definition raising :: "exn \<Rightarrow> ('s, 'a) action" where
  "raising e s = (s, Inl e)"

definition lift_result :: "exn + 'a \<Rightarrow> ('s, 'a) action" where
  "lift_result r s = (s, r)"

definition andthen :: "('s, 'a) action \<Rightarrow> ('a \<Rightarrow> ('s, 'b) action) \<Rightarrow> ('s, 'b) action" where
  "andthen m k s = (case m s of (s1, Inl e) \<Rightarrow> (s1, Inl e) | (s1, Inr v) \<Rightarrow> k v s1)"

definition catching :: "('s, 'a) action \<Rightarrow> (exn \<Rightarrow> ('s, 'a) action) \<Rightarrow> ('s, 'a) action" where
  "catching m h s = (case m s of (s1, Inl e) \<Rightarrow> h e s1 | (s1, Inr v) \<Rightarrow> (s1, Inr v))"

lemma action_simps [simp]:
  "ret v s = (s, Inr v)" "raising e s = (s, Inl e)" "lift_result r s = (s, r)"
  by (simp_all add: ret_def raising_def lift_result_def)

lemma andthen_Inr: "m s = (s1, Inr v) \<Longrightarrow> andthen m k s = k v s1"
  by (simp add: andthen_def)

lemma andthen_Inl: "m s = (s1, Inl e) \<Longrightarrow> andthen m k s = (s1, Inl e)"
  by (simp add: andthen_def)

lemma andthen_ret [simp]: "andthen (ret v) k = k v"
  by (rule ext) (simp add: andthen_def)

lemma andthen_Inr_iff:
  "andthen m k s = (s2, Inr w) \<longleftrightarrow> (\<exists>s1 v. m s = (s1, Inr v) \<and> k v s1 = (s2, Inr w))"
  by (auto simp: andthen_def split: prod.splits sum.splits)

lemma andthen_Inl_iff:
  "andthen m k s = (s2, Inl e) \<longleftrightarrow>
     m s = (s2, Inl e) \<or> (\<exists>s1 v. m s = (s1, Inr v) \<and> k v s1 = (s2, Inl e))"
  by (auto simp: andthen_def split: prod.splits sum.splits)

lemma catching_Inr: "m s = (s1, Inr v) \<Longrightarrow> catching m h s = (s1, Inr v)"
  by (simp add: catching_def)

lemma catching_Inl: "m s = (s1, Inl e) \<Longrightarrow> catching m h s = h e s1"
  by (simp add: catching_def)

lemma catching_Inr_iff:
  "catching m h s = (s2, Inr w) \<longleftrightarrow>
     m s = (s2, Inr w) \<or> (\<exists>s1 e. m s = (s1, Inl e) \<and> h e s1 = (s2, Inr w))"
  by (auto simp: catching_def split: prod.splits sum.splits)

text \<open>A step preserves \<open>P\<close> when it does so whether or not it raises.\<close>

definition preserves :: "('s \<Rightarrow> bool) \<Rightarrow> ('s, 'a) action \<Rightarrow> bool" where
  "preserves P m \<longleftrightarrow> (\<forall>s. P s \<longrightarrow> P (fst (m s)))"

lemma preservesD: "preserves P m \<Longrightarrow> P s \<Longrightarrow> m s = (s1, r) \<Longrightarrow> P s1"
  by (metis fst_conv preserves_def)

lemma preserves_andthen [intro]:
  "preserves P m \<Longrightarrow> (\<And>v. preserves P (k v)) \<Longrightarrow> preserves P (andthen m k)"
  unfolding preserves_def andthen_def by (auto split: prod.splits sum.splits)

lemma preserves_catching [intro]:
  "preserves P m \<Longrightarrow> (\<And>e. preserves P (h e)) \<Longrightarrow> preserves P (catching m h)"
  unfolding preserves_def catching_def by (auto split: prod.splits sum.splits)

lemma preserves_pure [intro, simp]:
  "preserves P (ret v)" "preserves P (raising e)" "preserves P (lift_result r)"
  by (simp_all add: preserves_def)

text \<open>\<open>int()\<close> of a \<open>Decimal\<close> truncates.\<close>

definition trunc :: "decimal \<Rightarrow> int" where
  "trunc x = (if x \<ge> 0 then \<lfloor>x\<rfloor> else - \<lfloor>- x\<rfloor>)"

section \<open>Characters\<close>

text \<open>The white space, the digits and the lower case of \<open>str\<close>, on ASCII.\<close>

definition is_ws :: "char \<Rightarrow> bool" where
  "is_ws c = (of_char c = (32 :: nat) \<or> 9 \<le> (of_char c :: nat) \<and> of_char c \<le> (13 :: nat)
     \<or> 28 \<le> (of_char c :: nat) \<and> of_char c \<le> (31 :: nat))"

definition is_digit :: "char \<Rightarrow> bool" where
  "is_digit c = (48 \<le> (of_char c :: nat) \<and> of_char c \<le> (57 :: nat))"

definition digit_value :: "char \<Rightarrow> nat" where
  "digit_value c = of_char c - 48"

definition lower :: "char \<Rightarrow> char" where
  "lower c = (if 65 \<le> (of_char c :: nat) \<and> of_char c \<le> (90 :: nat) then char_of ((of_char c :: nat) + 32) else c)"

definition strip :: "string \<Rightarrow> string" where
  "strip s = rev (dropWhile is_ws (rev (dropWhile is_ws s)))"

text \<open>\<open>key in text\<close>.\<close>

fun contains :: "string \<Rightarrow> string \<Rightarrow> bool" where
  "contains k [] = (k = [])"
| "contains k (c # s) = (take (length k) (c # s) = k \<or> contains k s)"

section \<open>Texts of numbers\<close>

text \<open>\<open>f"{x:.nf}"\<close> is the decimal with \<open>n\<close> places closest to the float, half to
  even; a number in a text is kept as the number the text denotes.\<close>

definition fmt :: "nat \<Rightarrow> pyfloat \<Rightarrow> rat" where
  "fmt n x = of_int (round_half_even (x * 10 ^ n)) / 10 ^ n"

lemma fmt_nonneg: "0 \<le> x \<Longrightarrow> 0 \<le> fmt n x"
  using rhe_ge_of_int[of 0 "x * 10 ^ n"] by (simp add: fmt_def)

lemma fmt_error: "\<bar>fmt n x - x\<bar> \<le> 1 / (2 * 10 ^ n)"
proof -
  have "\<bar>of_int (round_half_even (x * 10 ^ n)) - x * 10 ^ n\<bar> / 10 ^ n \<le> (1/2) / 10 ^ n"
    by (rule divide_right_mono[OF rhe_error]) simp
  moreover have "fmt n x - x = (of_int (round_half_even (x * 10 ^ n)) - x * 10 ^ n) / 10 ^ n"
    by (simp add: fmt_def diff_divide_distrib)
  ultimately show ?thesis by (simp add: abs_divide)
qed

text \<open>\<open>str\<close> of a float is the shortest decimal that reads back as the float; 17 digits
  always do.\<close>

fun shortest_from :: "nat \<Rightarrow> nat \<Rightarrow> rat \<Rightarrow> rat" where
  "shortest_from 0 p x = round_sig 10 17 x"
| "shortest_from (Suc n) p x =
     (if flt (round_sig 10 p x) = x then round_sig 10 p x else shortest_from n (Suc p) x)"

definition float_str :: "pyfloat \<Rightarrow> rat" where
  "float_str x = shortest_from 17 1 x"

lemma shortest_from_round: "0 < p \<Longrightarrow> \<exists>q>0. shortest_from n p x = round_sig 10 q x"
proof (induction n p x rule: shortest_from.induct)
  case (1 p x)
  then show ?case by (intro exI[of _ 17]) simp
qed auto

lemma float_str_round: "\<exists>q>0. float_str x = round_sig 10 q x"
  using shortest_from_round[of 1 17 x] by (simp add: float_str_def)

lemma float_str_neg_iff [simp]: "float_str x < 0 \<longleftrightarrow> x < 0"
proof -
  obtain q where q: "0 < q" "float_str x = round_sig 10 q x" using float_str_round by blast
  have "0 < round_pos 10 q y" if "0 < y" for y using round_pos_nonneg[of 10 q y] q(1) that by simp
  from this[of x] this[of "- x"] show ?thesis by (auto simp: q(2) round_sig_def)
qed

lemma float_str_le_exact:
  assumes "x \<le> of_int m * 10 powi e" "\<bar>m\<bar> < 10"
  shows "float_str x \<le> of_int m * 10 powi e"
proof -
  obtain q where q: "0 < q" "float_str x = round_sig 10 q x" using float_str_round by blast
  have "(10 :: int) ^ 1 \<le> 10 ^ q" using q(1) by (intro power_increasing) auto
  then have "\<bar>m\<bar> < int 10 ^ q" using assms(2) by simp
  then have "round_sig 10 q (of_int m * of_nat 10 powi e) = of_int m * of_nat 10 powi e"
    by (intro round_sig_exact) simp_all
  moreover have "round_sig 10 q x \<le> round_sig 10 q (of_int m * of_nat 10 powi e)"
    using q(1) assms(1) by (intro round_sig_mono) simp_all
  ultimately show ?thesis by (simp add: q(2))
qed

text \<open>A column of type \<open>REAL\<close> keeps 24 bits.\<close>

definition real_column :: "pyfloat \<Rightarrow> pyfloat" where
  "real_column x = round_sig 2 24 x"

section \<open>Lists and maps\<close>

lemma list_all_snoc [simp]: "list_all P (xs @ [x]) \<longleftrightarrow> list_all P xs \<and> P x"
  by simp

lemma filter_length_le_if_imp:
  "(\<And>x. P x \<Longrightarrow> Q x) \<Longrightarrow> length (filter P xs) \<le> length (filter Q xs)"
  by (induction xs) (auto simp: le_SucI)

lemma map_upd_the [simp]: "(m(k \<mapsto> v)) k = Some v"
  by simp

definition map_adjust :: "'k \<Rightarrow> ('v \<Rightarrow> 'v) \<Rightarrow> ('k \<rightharpoonup> 'v) \<Rightarrow> ('k \<rightharpoonup> 'v)" where
  "map_adjust k f m = (case m k of None \<Rightarrow> m | Some v \<Rightarrow> m(k \<mapsto> f v))"

lemma map_adjust_same: "map_adjust k f m k = map_option f (m k)"
  by (simp add: map_adjust_def split: option.splits)

lemma map_adjust_other [simp]: "j \<noteq> k \<Longrightarrow> map_adjust k f m j = m j"
  by (simp add: map_adjust_def split: option.splits)

lemma dom_map_adjust [simp]: "dom (map_adjust k f m) = dom m"
  by (auto simp: map_adjust_def split: option.splits)


text \<open>A list comprehension whose element expression can raise.\<close>

primrec res_map :: "('a \<Rightarrow> exn + 'b) \<Rightarrow> 'a list \<Rightarrow> exn + 'b list" where
  "res_map f [] = Inr []"
| "res_map f (x # xs) = res_bind (f x) (\<lambda>y. res_bind (res_map f xs) (\<lambda>ys. Inr (y # ys)))"

lemma res_map_pure:
  "(\<And>x. x \<in> set xs \<Longrightarrow> f x = Inr (g x)) \<Longrightarrow> res_map f xs = Inr (map g xs)"
  by (induction xs) simp_all

section \<open>Keyed stores\<close>

text \<open>
  The contract of every table and dictionary of the program: a lookup after a write returns the
  value written, other keys are not touched. \<open>run_puts\<close> below is what a sequence of writes
  leaves behind.
\<close>

locale keyed_store =
  fixes put :: "'k \<Rightarrow> 'v \<Rightarrow> 's \<Rightarrow> 's"
    and get :: "'k \<Rightarrow> 's \<Rightarrow> 'v option"
    and del :: "'k \<Rightarrow> 's \<Rightarrow> 's"
    and inv :: "'s \<Rightarrow> bool"
  assumes get_put_same: "inv s \<Longrightarrow> get k (put k v s) = Some v"
    and get_put_other: "inv s \<Longrightarrow> j \<noteq> k \<Longrightarrow> get j (put k v s) = get j s"
    and get_del_same: "inv s \<Longrightarrow> get k (del k s) = None"
    and get_del_other: "inv s \<Longrightarrow> j \<noteq> k \<Longrightarrow> get j (del k s) = get j s"
    and inv_put: "inv s \<Longrightarrow> inv (put k v s)"
    and inv_del: "inv s \<Longrightarrow> inv (del k s)"
begin

lemma get_put: "inv s \<Longrightarrow> get j (put k v s) = (if j = k then Some v else get j s)"
  by (simp add: get_put_same get_put_other)

lemma get_del: "inv s \<Longrightarrow> get j (del k s) = (if j = k then None else get j s)"
  by (simp add: get_del_same get_del_other)

lemma inv_puts: "inv s \<Longrightarrow> inv (fold (\<lambda>(k, v). put k v) kvs s)"
  by (induction kvs arbitrary: s) (auto simp: inv_put)

lemma get_puts:
  "inv s \<Longrightarrow> get j (fold (\<lambda>(k, v). put k v) kvs s) =
     (case map_of (rev kvs) j of None \<Rightarrow> get j s | Some v \<Rightarrow> Some v)"
  by (induction kvs arbitrary: s)
    (auto simp: inv_put get_put map_add_def split: option.splits)

lemma get_put_shadow: "inv s \<Longrightarrow> get j (put k w (put k v s)) = get j (put k w s)"
  by (simp add: get_put inv_put)

lemma get_put_swap:
  "inv s \<Longrightarrow> i \<noteq> k \<Longrightarrow> get j (put i w (put k v s)) = get j (put k v (put i w s))"
  by (simp add: get_put inv_put)

end

text \<open>A dictionary with insertion order: an association list with distinct keys.\<close>

type_synonym ('k, 'v) dict = "('k \<times> 'v) list"

definition dict_ok :: "('k, 'v) dict \<Rightarrow> bool" where
  "dict_ok d = distinct (map fst d)"

definition dict_get :: "'k \<Rightarrow> ('k, 'v) dict \<Rightarrow> 'v option" where
  "dict_get k d = map_of d k"

definition dict_put :: "'k \<Rightarrow> 'v \<Rightarrow> ('k, 'v) dict \<Rightarrow> ('k, 'v) dict" where
  "dict_put k v d =
     (if k \<in> set (map fst d) then map (\<lambda>(j, w). (j, if j = k then v else w)) d else d @ [(k, v)])"

definition dict_del :: "'k \<Rightarrow> ('k, 'v) dict \<Rightarrow> ('k, 'v) dict" where
  "dict_del k d = filter (\<lambda>(j, _). j \<noteq> k) d"

lemma map_fst_update [simp]: "map fst (map (\<lambda>(j, w). (j, if j = k then v else w)) d) = map fst d"
  by (induction d) auto

lemma map_of_update:
  "map_of (map (\<lambda>(j, w). (j, if j = k then v else w)) d) i =
     (if i = k then map_option (\<lambda>_. v) (map_of d k) else map_of d i)"
  by (induction d) auto

lemma map_of_filter_key: "map_of (filter (\<lambda>(j, _). j \<noteq> k) d) i = (if i = k then None else map_of d i)"
  by (induction d) auto

lemma map_of_None_fst: "map_of d k = None \<longleftrightarrow> k \<notin> fst ` set d"
  by (simp add: map_of_eq_None_iff)

interpretation dict: keyed_store dict_put dict_get dict_del dict_ok
proof unfold_locales
  fix s :: "('a, 'b) dict" and k j :: 'a and v :: 'b
  show "dict_get k (dict_put k v s) = Some v"
  proof (cases "map_of s k")
    case None
    then have "k \<notin> fst ` set s" by (metis map_of_None_fst)
    then have "dict_put k v s = s @ [(k, v)]" by (simp add: dict_put_def)
    then show ?thesis
      unfolding dict_get_def by (simp only: map_of_append map_add_def None) simp
  next
    case (Some w)
    then have "k \<in> fst ` set s" by (metis map_of_None_fst option.distinct(1))
    with Some show ?thesis by (simp add: dict_get_def dict_put_def map_of_update)
  qed
  show "j \<noteq> k \<Longrightarrow> dict_get j (dict_put k v s) = dict_get j s"
    by (auto simp: dict_get_def dict_put_def map_of_update map_add_def split: option.splits)
  show "dict_get k (dict_del k s) = None"
    by (simp add: dict_get_def dict_del_def map_of_filter_key)
  show "j \<noteq> k \<Longrightarrow> dict_get j (dict_del k s) = dict_get j s"
    by (simp add: dict_get_def dict_del_def map_of_filter_key)
  assume ok: "dict_ok s"
  show "dict_ok (dict_put k v s)"
    using ok unfolding dict_ok_def dict_put_def by (auto simp del: map_map)
  show "dict_ok (dict_del k s)"
    using ok by (simp add: dict_ok_def dict_del_def distinct_map_filter)
qed

lemma dict_get_set: "dict_ok d \<Longrightarrow> dict_get k d = Some v \<longleftrightarrow> (k, v) \<in> set d"
  by (simp add: dict_ok_def dict_get_def)

end
