(* ===== verification/Models.thy ===== *)
theory Models
  imports Prelude
begin

text \<open>
  The data model of \<open>shared/models\<close> and \<open>shared/config/assets.py\<close>: the enumerations
  of \<open>common.py\<close>, funding and lending rates, opportunities and their scores, positions and
  the reference prices they are validated against.
\<close>

section \<open>Enumerations (common.py)\<close>

datatype asset = SOL | JITOSOL | JUPSOL | INF_asset
datatype protocol = MARGINFI | KAMINO | SOLEND | DRIFT
datatype tx_state =
  IDLE | BUILDING | BUILT | SIGNING | SIGNED | SUBMITTING | SUBMITTED | CONFIRMED | FAILED
datatype chain = SOLANA | ARBITRUM
datatype chain_status = HEALTHY | DEGRADED | OUTAGE
datatype exit_reason =
  FUNDING_FLIP | HEALTH_FACTOR | MARGIN_FRACTION | PRICE_DEVIATION | LST_DEPEG | MANUAL
  | CHAIN_OUTAGE | STOP_LOSS | TARGET_PROFIT | NEGATIVE_APY | DELTA_DRIFT

fun asset_value :: "asset \<Rightarrow> string" where
  "asset_value SOL = ''SOL''"
| "asset_value JITOSOL = ''jitoSOL''"
| "asset_value JUPSOL = ''jupSOL''"
| "asset_value INF_asset = ''INF''"

text \<open>The enum constructor \<open>Asset(s)\<close>, which raises on an unknown value.\<close>

definition asset_of_value :: "string \<Rightarrow> exn + asset" where
  "asset_of_value s =
     (if s = ''SOL'' then Inr SOL
      else if s = ''jitoSOL'' then Inr JITOSOL
      else if s = ''jupSOL'' then Inr JUPSOL
      else if s = ''INF'' then Inr INF_asset
      else Inl (ValueError s))"

fun exit_reason_value :: "exit_reason \<Rightarrow> string" where
  "exit_reason_value FUNDING_FLIP = ''funding_flip''"
| "exit_reason_value HEALTH_FACTOR = ''health_factor''"
| "exit_reason_value MARGIN_FRACTION = ''margin_fraction''"
| "exit_reason_value PRICE_DEVIATION = ''price_deviation''"
| "exit_reason_value LST_DEPEG = ''lst_depeg''"
| "exit_reason_value MANUAL = ''manual''"
| "exit_reason_value CHAIN_OUTAGE = ''chain_outage''"
| "exit_reason_value STOP_LOSS = ''stop_loss''"
| "exit_reason_value TARGET_PROFIT = ''target_profit''"
| "exit_reason_value NEGATIVE_APY = ''negative_apy''"
| "exit_reason_value DELTA_DRIFT = ''delta_drift''"

definition exit_reason_of_value :: "string \<Rightarrow> exit_reason option" where
  "exit_reason_of_value s =
     find (\<lambda>r. exit_reason_value r = s)
       [FUNDING_FLIP, HEALTH_FACTOR, MARGIN_FRACTION, PRICE_DEVIATION, LST_DEPEG, MANUAL, CHAIN_OUTAGE,
        STOP_LOSS, TARGET_PROFIT, NEGATIVE_APY, DELTA_DRIFT]"

fun tx_state_value :: "tx_state \<Rightarrow> string" where
  "tx_state_value IDLE = ''idle''"
| "tx_state_value BUILDING = ''building''"
| "tx_state_value BUILT = ''built''"
| "tx_state_value SIGNING = ''signing''"
| "tx_state_value SIGNED = ''signed''"
| "tx_state_value SUBMITTING = ''submitting''"
| "tx_state_value SUBMITTED = ''submitted''"
| "tx_state_value CONFIRMED = ''confirmed''"
| "tx_state_value FAILED = ''failed''"

definition tx_state_of_value :: "string \<Rightarrow> exn + tx_state" where
  "tx_state_of_value s =
     (case map_of (map (\<lambda>t. (tx_state_value t, t))
        [IDLE, BUILDING, BUILT, SIGNING, SIGNED, SUBMITTING, SUBMITTED, CONFIRMED, FAILED]) s
      of None \<Rightarrow> Inl (ValueError s) | Some t \<Rightarrow> Inr t)"

lemma tx_state_roundtrip [simp]: "tx_state_of_value (tx_state_value t) = Inr t"
  by (cases t) (simp_all add: tx_state_of_value_def)

lemma asset_roundtrip [simp]: "asset_of_value (asset_value a) = Inr a"
  by (cases a) (simp_all add: asset_of_value_def)

lemma tx_state_value_inject [simp]: "tx_state_value s = tx_state_value t \<longleftrightarrow> s = t"
  by (metis tx_state_roundtrip sum.inject(2))

section \<open>Assets (assets.py)\<close>

record asset_metadata =
  symbol :: string
  mint :: string
  decimals :: int
  is_lst :: bool
  staking_apy :: pyfloat

fun get_asset_metadata :: "asset \<Rightarrow> asset_metadata" where
  "get_asset_metadata SOL =
     \<lparr>symbol = ''SOL'', mint = ''So11111111111111111111111111111111111111112'',
      decimals = 9, is_lst = False, staking_apy = 0\<rparr>"
| "get_asset_metadata JITOSOL =
     \<lparr>symbol = ''jitoSOL'', mint = ''J1toso1uCk3RLmjorhTtrVwY9HJ7X8V9yYac6Y7kGCPn'',
      decimals = 9, is_lst = True, staking_apy = flt (8/100)\<rparr>"
| "get_asset_metadata JUPSOL =
     \<lparr>symbol = ''jupSOL'', mint = ''jupSoLaHXQiZZTSfEWMTRRgpnyFm8f6sZdosWBjx93v'',
      decimals = 9, is_lst = True, staking_apy = flt (75/1000)\<rparr>"
| "get_asset_metadata INF_asset =
     \<lparr>symbol = ''INF'', mint = ''5oVNBeEEQvYi1cX3ir8Dx5n1P7pdxydbGF2X6TxNxsi'',
      decimals = 9, is_lst = True, staking_apy = flt (7/100)\<rparr>"

definition is_native_sol :: "asset_metadata \<Rightarrow> bool" where
  "is_native_sol m = (symbol m = ''SOL'')"

definition get_mint :: "asset \<Rightarrow> string" where
  "get_mint a = mint (get_asset_metadata a)"

lemma native_iff_not_lst: "is_native_sol (get_asset_metadata a) \<longleftrightarrow> \<not> is_lst (get_asset_metadata a)"
  by (cases a) (simp_all add: is_native_sol_def)

lemma get_mint_inject: "get_mint a = get_mint b \<longleftrightarrow> a = b"
  by (cases a; cases b) (simp_all add: get_mint_def)

section \<open>Funding and lending rates (funding.py)\<close>

record funding_rate =
  fr_timestamp :: datetime
  fr_coin :: string
  rate_8hr :: decimal

definition rate_hourly :: "funding_rate \<Rightarrow> decimal" where
  "rate_hourly f = dec (rate_8hr f / 8)"

definition rate_annual :: "funding_rate \<Rightarrow> decimal" where
  "rate_annual f = dec (dec (rate_hourly f * 24) * 365)"

definition is_negative :: "funding_rate \<Rightarrow> bool" where
  "is_negative f = (rate_8hr f < 0)"

definition projected_annual_yield :: "funding_rate \<Rightarrow> decimal \<Rightarrow> decimal" where
  "projected_annual_yield f position_size = dec (position_size * rate_annual f)"

text \<open>The validator shared by \<open>BorrowingRate\<close> and \<open>LendingRate\<close>.\<close>

definition validate_protocol :: "int \<Rightarrow> exn + int" where
  "validate_protocol v =
     (if \<not> (0 \<le> v \<and> v \<le> 3) then Inl (ValueError ''protocol_id must be 0-3'') else Inr v)"

record borrowing_rate =
  br_protocol_id :: int
  br_token_mint :: string
  borrowing_apy :: decimal

definition make_borrowing_rate :: "int \<Rightarrow> string \<Rightarrow> decimal \<Rightarrow> exn + borrowing_rate" where
  "make_borrowing_rate pid tok apy =
     res_bind (validate_protocol pid)
       (\<lambda>p. Inr \<lparr>br_protocol_id = p, br_token_mint = tok, borrowing_apy = apy\<rparr>)"

record lending_rate =
  lr_protocol_id :: int
  lr_token_mint :: string
  lending_apy :: decimal

definition make_lending_rate :: "int \<Rightarrow> string \<Rightarrow> decimal \<Rightarrow> exn + lending_rate" where
  "make_lending_rate pid tok apy =
     res_bind (validate_protocol pid)
       (\<lambda>p. Inr \<lparr>lr_protocol_id = p, lr_token_mint = tok, lending_apy = apy\<rparr>)"

record asgard_rates =
  ar_protocol_id :: int
  token_a_mint :: string
  token_b_mint :: string
  token_a_lending_apy :: decimal
  token_b_borrowing_apy :: decimal
  token_b_max_borrow_capacity :: decimal

definition calculate_net_carry_apy :: "asgard_rates \<Rightarrow> decimal \<Rightarrow> decimal \<Rightarrow> decimal" where
  "calculate_net_carry_apy r leverage deployed =
     (let position_size = dec (deployed * leverage);
          borrowed_amount = dec (position_size - deployed);
          lending_yield = dec (position_size * token_a_lending_apy r);
          borrowing_cost = dec (borrowed_amount * token_b_borrowing_apy r);
          net_carry = dec (lending_yield - borrowing_cost)
      in if deployed = 0 then 0 else dec (net_carry / deployed))"

definition has_sufficient_capacity ::
  "asgard_rates \<Rightarrow> decimal \<Rightarrow> decimal \<Rightarrow> decimal \<Rightarrow> exn + bool" where
  "has_sufficient_capacity r position_size leverage safety_margin =
     res_bind (ddiv (dec (position_size * dec (leverage - 1))) leverage)
       (\<lambda>borrowed. let required = dec (borrowed * safety_margin)
         in Inr (token_b_max_borrow_capacity r \<ge> required))"

record funding_prediction =
  fp_coin :: string
  current_premium :: decimal
  interest_rate :: decimal
  predicted_rate_8hr :: decimal
  confidence :: decimal

definition predicted_rate_hourly :: "funding_prediction \<Rightarrow> decimal" where
  "predicted_rate_hourly p = dec (predicted_rate_8hr p / 8)"

definition is_predicted_negative :: "funding_prediction \<Rightarrow> bool" where
  "is_predicted_negative p = (predicted_rate_8hr p < 0)"

text \<open>The sign of the 8-hour rate is the sign of every derived rate.\<close>

lemma rate_hourly_neg_iff [simp]: "rate_hourly f < 0 \<longleftrightarrow> is_negative f"
  by (simp add: rate_hourly_def is_negative_def)

lemma rate_annual_neg_iff [simp]: "rate_annual f < 0 \<longleftrightarrow> is_negative f"
  by (simp add: rate_annual_def mult_less_0_iff)

lemma rate_annual_mono: "rate_8hr f \<le> rate_8hr g \<Longrightarrow> rate_annual f \<le> rate_annual g"
  by (simp add: rate_annual_def rate_hourly_def dec.rnd_mono divide_right_mono mult_right_mono)

lemma validate_protocol_Inr: "validate_protocol v = Inr w \<longleftrightarrow> w = v \<and> 0 \<le> v \<and> v \<le> 3"
  by (auto simp: validate_protocol_def)

end
