(* ===== verification/Opportunities.thy ===== *)
theory Opportunities
  imports Models
begin

text \<open>
  Arbitrage opportunities (\<open>shared/models/opportunity.py\<close>): the yield score, the opportunity
  with its leverage validator, the entry criteria and the configurable filter.
\<close>

record opportunity_score =
  funding_apy :: decimal
  net_carry_apy :: decimal
  lst_staking_apy :: decimal
  estimated_gas_cost_apy :: decimal
  estimated_slippage_apy :: decimal

definition total_gross_apy :: "opportunity_score \<Rightarrow> decimal" where
  "total_gross_apy s = dec (dec (funding_apy s + net_carry_apy s) + lst_staking_apy s)"

definition total_net_apy :: "opportunity_score \<Rightarrow> decimal" where
  "total_net_apy s =
     dec (dec (total_gross_apy s - estimated_gas_cost_apy s) - estimated_slippage_apy s)"

definition is_profitable :: "opportunity_score \<Rightarrow> bool" where
  "is_profitable s = (total_net_apy s > 0)"

record opportunity =
  opp_id :: string
  opp_timestamp :: datetime
  opp_asset :: asset
  selected_protocol :: protocol
  opp_rates :: asgard_rates
  hyperliquid_coin :: string
  current_funding :: funding_rate
  predicted_funding :: "funding_rate option"
  funding_volatility :: decimal
  opp_leverage :: decimal
  deployed_capital_usd :: decimal
  opp_position_size_usd :: decimal
  score :: opportunity_score
  opp_price_deviation :: decimal
  preflight_checks_passed :: bool
  expires_at :: "datetime option"

definition validate_leverage :: "decimal \<Rightarrow> exn + decimal" where
  "validate_leverage v =
     (if \<not> (11/10 \<le> v \<and> v \<le> 4) then Inl (ValueError ''leverage must be between 1.1 and 4'')
      else Inr v)"

text \<open>Constructing the pydantic model runs the validator on the leverage.\<close>

definition make_opportunity :: "opportunity \<Rightarrow> exn + opportunity" where
  "make_opportunity opp = res_bind (validate_leverage (opp_leverage opp)) (\<lambda>l. Inr (opp\<lparr>opp_leverage := l\<rparr>))"

definition total_expected_apy :: "opportunity \<Rightarrow> decimal" where
  "total_expected_apy opp = total_net_apy (score opp)"

definition expected_annual_profit :: "opportunity \<Rightarrow> decimal" where
  "expected_annual_profit opp = dec (deployed_capital_usd opp * total_expected_apy opp)"

definition predicted_not_negative :: "opportunity \<Rightarrow> bool" where
  "predicted_not_negative opp =
     (case predicted_funding opp of None \<Rightarrow> False | Some f \<Rightarrow> \<not> is_negative f)"

definition meets_entry_criteria :: "opportunity \<Rightarrow> bool" where
  "meets_entry_criteria opp =
     (if \<not> is_negative (current_funding opp) then False
      else if predicted_not_negative opp then False
      else if \<not> is_profitable (score opp) then False
      else if funding_volatility opp > 5/10 then False
      else if opp_price_deviation opp > 5/1000 then False
      else if \<not> preflight_checks_passed opp then False
      else True)"

record opportunity_filter =
  min_total_apy :: decimal
  max_funding_volatility :: decimal
  max_price_deviation :: decimal
  require_predicted_negative :: bool

definition default_filter :: opportunity_filter where
  "default_filter =
     \<lparr>min_total_apy = 1/100, max_funding_volatility = 5/10, max_price_deviation = 5/1000,
      require_predicted_negative = True\<rparr>"

definition filter_opportunity :: "opportunity_filter \<Rightarrow> opportunity \<Rightarrow> bool" where
  "filter_opportunity c opp =
     (if total_expected_apy opp < min_total_apy c then False
      else if funding_volatility opp > max_funding_volatility c then False
      else if opp_price_deviation opp > max_price_deviation c then False
      else if require_predicted_negative c \<and> predicted_not_negative opp then False
      else True)"

section \<open>Lemmas\<close>

lemma make_opportunity_Inr:
  "make_opportunity opp = Inr p \<longleftrightarrow> p = opp \<and> 11/10 \<le> opp_leverage opp \<and> opp_leverage opp \<le> 4"
  by (auto simp: make_opportunity_def validate_leverage_def)

lemma meets_entry_criteria_iff:
  "meets_entry_criteria opp \<longleftrightarrow>
     is_negative (current_funding opp) \<and>
     (\<forall>f. predicted_funding opp = Some f \<longrightarrow> is_negative f) \<and>
     total_net_apy (score opp) > 0 \<and> funding_volatility opp \<le> 1/2 \<and>
     opp_price_deviation opp \<le> 1/200 \<and> preflight_checks_passed opp"
  by (auto simp: meets_entry_criteria_def predicted_not_negative_def is_profitable_def
      split: option.splits)

lemma total_net_apy_mono:
  assumes "funding_apy s \<le> funding_apy t" "net_carry_apy s \<le> net_carry_apy t"
    and "lst_staking_apy s \<le> lst_staking_apy t"
    and "estimated_gas_cost_apy t \<le> estimated_gas_cost_apy s"
    and "estimated_slippage_apy t \<le> estimated_slippage_apy s"
  shows "total_net_apy s \<le> total_net_apy t"
  unfolding total_net_apy_def total_gross_apy_def
  by (intro dec.rnd_mono add_mono diff_mono assms)

text \<open>Whatever passes the default filter and has a negative current rate and passed preflight
  checks meets the entry criteria.\<close>

lemma default_filter_entry:
  assumes "filter_opportunity default_filter opp"
    and "is_negative (current_funding opp)" "preflight_checks_passed opp"
  shows "meets_entry_criteria opp"
  using assms
  by (auto simp: filter_opportunity_def default_filter_def meets_entry_criteria_def
      total_expected_apy_def is_profitable_def split: if_splits)

end
