(* ===== verification/Positions.thy ===== *)
theory Positions
  imports Opportunities
begin

text \<open>
  Positions (\<open>shared/models/position.py\<close>): the Asgard long leg, the Hyperliquid short leg,
  the combined delta-neutral position with its state history, and the validation of fill prices
  against the reference prices of the entry.
\<close>

section \<open>The long leg\<close>

record asgard_position =
  position_pda :: string
  intent_id :: string
  ap_asset :: asset
  ap_protocol :: protocol
  collateral_usd :: decimal
  position_size_usd :: decimal
  ap_leverage :: decimal
  token_a_amount :: decimal
  token_b_borrowed :: decimal
  entry_price_token_a :: decimal
  entry_price_token_b :: decimal
  current_health_factor :: decimal
  current_token_a_price :: decimal
  ap_entry_time :: datetime
  ap_last_update :: datetime
  create_tx_signature :: "string option"
  close_tx_signature :: "string option"

definition ap_is_liquidation_risk :: "asgard_position \<Rightarrow> bool" where
  "ap_is_liquidation_risk p = (current_health_factor p < 20/100)"

definition is_critical_liquidation_risk :: "asgard_position \<Rightarrow> bool" where
  "is_critical_liquidation_risk p = (current_health_factor p < 10/100)"

definition current_value_usd :: "asgard_position \<Rightarrow> decimal" where
  "current_value_usd p = dec (token_a_amount p * current_token_a_price p)"

definition pnl_usd :: "asgard_position \<Rightarrow> decimal" where
  "pnl_usd p =
     (let entry_value = dec (token_a_amount p * entry_price_token_a p);
          current_value = current_value_usd p
      in dec (current_value - entry_value))"

section \<open>The short leg\<close>

record hyperliquid_position =
  hp_coin :: string
  size_sol :: decimal
  entry_px :: decimal
  hp_leverage :: decimal
  margin_used :: decimal
  margin_fraction :: decimal
  account_value :: decimal
  cum_funding :: decimal
  mark_px :: decimal
  liquidation_px :: "decimal option"
  hp_entry_time :: datetime
  hp_last_update :: datetime

definition size_usd :: "hyperliquid_position \<Rightarrow> decimal" where
  "size_usd p = dec (dabs (size_sol p) * entry_px p)"

definition unrealized_pnl :: "hyperliquid_position \<Rightarrow> decimal" where
  "unrealized_pnl p =
     (if size_sol p = 0 then 0
      else let price_diff = dec (entry_px p - mark_px p) in dec (price_diff * dabs (size_sol p)))"

definition hp_is_liquidation_risk :: "hyperliquid_position \<Rightarrow> bool" where
  "hp_is_liquidation_risk p = (margin_fraction p < 10/100)"

definition distance_to_liquidation :: "hyperliquid_position \<Rightarrow> exn + decimal option" where
  "distance_to_liquidation p =
     (case liquidation_px p of
        None \<Rightarrow> Inr None
      | Some l \<Rightarrow>
          if l = 0 then Inr None
          else if mark_px p \<ge> l then Inr (Some 0)
          else res_bind (ddiv (dec (l - mark_px p)) (mark_px p)) (\<lambda>d. Inr (Some d)))"

section \<open>Reference prices and fill validation\<close>

record position_reference =
  asgard_entry_price :: decimal
  hyperliquid_entry_price :: decimal
  max_acceptable_deviation :: decimal

record fill_validation_result =
  fv_asgard_fill_price :: decimal
  fv_hyperliquid_fill_price :: decimal
  fv_asgard_deviation :: decimal
  fv_hyperliquid_deviation :: decimal
  asgard_within_tolerance :: bool
  hyperliquid_within_tolerance :: bool
  both_within_tolerance :: bool

definition needs_soft_stop :: "fill_validation_result \<Rightarrow> bool" where
  "needs_soft_stop r = (\<not> both_within_tolerance r)"

definition reference_validate_fills ::
  "position_reference \<Rightarrow> decimal \<Rightarrow> decimal \<Rightarrow> exn + fill_validation_result" where
  "reference_validate_fills ref afill hfill =
     res_bind (ddiv (dabs (dec (afill - asgard_entry_price ref))) (asgard_entry_price ref)) (\<lambda>adev.
     res_bind (ddiv (dabs (dec (hfill - hyperliquid_entry_price ref)))
                    (hyperliquid_entry_price ref)) (\<lambda>hdev.
     let aok = adev \<le> max_acceptable_deviation ref;
         hok = hdev \<le> max_acceptable_deviation ref
     in Inr \<lparr>fv_asgard_fill_price = afill, fv_hyperliquid_fill_price = hfill,
             fv_asgard_deviation = adev, fv_hyperliquid_deviation = hdev,
             asgard_within_tolerance = aok, hyperliquid_within_tolerance = hok,
             both_within_tolerance = (aok \<and> hok)\<rparr>))"

section \<open>The combined position\<close>

record history_entry =
  from_state :: string
  to_state :: string
  he_timestamp :: datetime
  he_metadata :: "(string \<times> string) list"

text \<open>The field \<open>status\<close> is a plain string in the code; its values are ''open'',
  ''closing'', ''closed'' and ''stuck''.\<close>

record combined_position =
  position_id :: string
  cp_user_id :: "user_id option"
  asgard :: asgard_position
  hyperliquid :: hyperliquid_position
  reference :: position_reference
  opportunity_id :: string
  status :: string
  cp_exit_reason :: "exit_reason option"
  exit_time :: "datetime option"
  total_funding_received :: decimal
  total_funding_paid :: decimal
  transaction_state :: tx_state
  state_history :: "history_entry list"
  created_at :: datetime
  updated_at :: datetime

definition is_open :: "combined_position \<Rightarrow> bool" where
  "is_open p = (status p = ''open'')"

definition is_closed :: "combined_position \<Rightarrow> bool" where
  "is_closed p = (status p = ''closed'')"

definition delta :: "combined_position \<Rightarrow> decimal" where
  "delta p = dec (current_value_usd (asgard p) - size_usd (hyperliquid p))"

definition delta_ratio :: "combined_position \<Rightarrow> decimal" where
  "delta_ratio p =
     (if position_size_usd (asgard p) = 0 then 0
      else dec (delta p / position_size_usd (asgard p)))"

definition net_funding_pnl :: "combined_position \<Rightarrow> decimal" where
  "net_funding_pnl p = dec (total_funding_received p - total_funding_paid p)"

definition total_pnl :: "combined_position \<Rightarrow> decimal" where
  "total_pnl p =
     dec (dec (pnl_usd (asgard p) + unrealized_pnl (hyperliquid p)) + net_funding_pnl p)"

definition is_at_risk :: "combined_position \<Rightarrow> bool" where
  "is_at_risk p = (ap_is_liquidation_risk (asgard p) \<or> hp_is_liquidation_risk (hyperliquid p))"

definition update_state ::
  "datetime \<Rightarrow> combined_position \<Rightarrow> tx_state \<Rightarrow> (string \<times> string) list option \<Rightarrow> combined_position"
where
  "update_state now p new_state metadata =
     p\<lparr>transaction_state := new_state, updated_at := now,
       state_history := state_history p @
         [\<lparr>from_state = tx_state_value (transaction_state p),
           to_state = tx_state_value new_state, he_timestamp = now,
           he_metadata = (case metadata of None \<Rightarrow> [] | Some m \<Rightarrow> m)\<rparr>]\<rparr>"

section \<open>Lemmas\<close>

text \<open>A history is a chain from \<open>s\<close> to \<open>t\<close>: every entry starts where the one before
  ended.\<close>

fun history_chain :: "string \<Rightarrow> history_entry list \<Rightarrow> string \<Rightarrow> bool" where
  "history_chain s [] t = (s = t)"
| "history_chain s (e # es) t = (from_state e = s \<and> history_chain (to_state e) es t)"

lemma history_chain_snoc:
  "history_chain s (es @ [e]) t \<longleftrightarrow> history_chain s es (from_state e) \<and> to_state e = t"
  by (induction es arbitrary: s) auto

lemma update_state_chain:
  assumes "history_chain s (state_history p) (tx_state_value (transaction_state p))"
  shows "history_chain s (state_history (update_state now p st md))
           (tx_state_value (transaction_state (update_state now p st md)))"
  using assms by (simp add: update_state_def history_chain_snoc)

lemma pnl_usd_mono:
  assumes "0 \<le> token_a_amount p" "current_token_a_price p \<le> c"
  shows "pnl_usd p \<le> pnl_usd (p\<lparr>current_token_a_price := c\<rparr>)"
  using assms by (simp add: pnl_usd_def Let_def current_value_usd_def dec.rnd_mono
      mult_left_mono diff_right_mono)

lemma pnl_usd_nonneg:
  assumes "0 \<le> token_a_amount p" "entry_price_token_a p \<le> current_token_a_price p"
  shows "0 \<le> pnl_usd p"
  using assms by (simp add: pnl_usd_def Let_def current_value_usd_def dec.rnd_mono mult_left_mono)

lemma pnl_usd_nonpos:
  assumes "0 \<le> token_a_amount p" "current_token_a_price p \<le> entry_price_token_a p"
  shows "pnl_usd p \<le> 0"
  using assms by (simp add: pnl_usd_def Let_def current_value_usd_def dec.rnd_mono mult_left_mono)

lemma unrealized_pnl_nonneg: "mark_px p \<le> entry_px p \<Longrightarrow> 0 \<le> unrealized_pnl p"
  by (simp add: unrealized_pnl_def)

lemma unrealized_pnl_nonpos: "entry_px p \<le> mark_px p \<Longrightarrow> unrealized_pnl p \<le> 0"
  by (simp add: unrealized_pnl_def mult_nonpos_nonneg)

lemma unrealized_pnl_antimono:
  "mark_px p \<le> m \<Longrightarrow> unrealized_pnl (p\<lparr>mark_px := m\<rparr>) \<le> unrealized_pnl p"
  by (simp add: unrealized_pnl_def Let_def dec.rnd_mono mult_right_mono)

lemma reference_validate_fills_Inr:
  assumes "reference_validate_fills ref a h = Inr r"
  shows "asgard_entry_price ref \<noteq> 0" and "hyperliquid_entry_price ref \<noteq> 0"
    and "both_within_tolerance r \<longleftrightarrow>
           fv_asgard_deviation r \<le> max_acceptable_deviation ref \<and>
           fv_hyperliquid_deviation r \<le> max_acceptable_deviation ref"
  using assms
  by (auto simp: reference_validate_fills_def res_bind_Inr_iff ddiv_Inr_iff Let_def)

end
