(* ===== verification/RiskEngine.thy ===== *)
theory RiskEngine
  imports Positions "HOL-Library.Sublist"
begin

text \<open>
  The risk engine (\<open>bot/core/risk_engine.py\<close>): health, margin, funding and drift checks, the
  proximity tracking that turns a value near its threshold into a close decision after 20 seconds,
  and the prioritised exit decision.

  The checks read attributes of the positions they are given by name. Two of the names,
  \<open>health_factor\<close> of the long leg and \<open>position_id\<close> of the short leg, are not fields of
  the classes of \<open>shared/models/position.py\<close>; other objects (the mocks of the unit tests) have
  them. The views below therefore carry these two attributes as options, where \<open>None\<close> means
  that reading the attribute raises \<open>AttributeError\<close>. A check can change the tracking state
  and then raise, so the functions return the state beside a result.
\<close>

section \<open>Results and state\<close>

datatype risk_level = NORMAL | WARNING | CRITICAL

record health_check_result =
  hc_level :: risk_level
  hc_health_factor :: decimal
  hc_threshold :: decimal
  hc_distance_to_liquidation :: decimal
  hc_in_proximity :: bool
  hc_proximity_start :: "datetime option"

definition hc_is_safe :: "health_check_result \<Rightarrow> bool" where
  "hc_is_safe r = (hc_level r = NORMAL)"

definition hc_should_close :: "health_check_result \<Rightarrow> bool" where
  "hc_should_close r = (hc_level r = CRITICAL \<or> hc_in_proximity r)"

record margin_check_result =
  mc_level :: risk_level
  mc_margin_fraction :: decimal
  mc_threshold :: decimal
  mc_distance_to_threshold :: decimal
  mc_in_proximity :: bool
  mc_proximity_start :: "datetime option"

definition mc_is_safe :: "margin_check_result \<Rightarrow> bool" where
  "mc_is_safe r = (mc_level r = NORMAL)"

definition mc_should_close :: "margin_check_result \<Rightarrow> bool" where
  "mc_should_close r = (mc_level r = CRITICAL \<or> mc_in_proximity r)"

record funding_flip_check =
  flipped :: bool
  ff_current_annual :: decimal
  ff_predicted_annual :: decimal
  was_shorts_paid :: bool
  now_longs_paid :: bool

datatype detail = DFloat pyfloat | DBool bool | DStr string

record exit_decision =
  should_exit :: bool
  ed_reason :: "exit_reason option"
  ed_level :: risk_level
  ed_details :: "(string \<times> detail) list"
  ed_timestamp :: datetime
  ed_close_cost :: "decimal option"
  ed_expected_loss :: "decimal option"

record delta_drift_result =
  drift_ratio :: decimal
  dd_threshold :: decimal
  dd_level :: risk_level
  dd_drift_cost :: "decimal option"
  dd_rebalance_cost :: "decimal option"
  should_rebalance :: bool

record risk_engine =
  min_health_factor :: decimal
  emergency_health_factor :: decimal
  critical_health_factor :: decimal
  margin_fraction_threshold :: decimal
  proximity_start_times :: "(string, datetime) dict"

text \<open>The two sections of the risk configuration; an absent key takes the default of
  \<open>__init__\<close>.\<close>

record risk_limits =
  rl_min_health_factor :: "decimal option"
  rl_emergency_health_factor :: "decimal option"
  rl_critical_health_factor :: "decimal option"
  rl_margin_fraction_threshold :: "decimal option"

definition get_default :: "decimal option \<Rightarrow> decimal \<Rightarrow> decimal" where
  "get_default x d = (case x of None \<Rightarrow> d | Some v \<Rightarrow> v)"

definition risk_engine_init :: "risk_limits \<Rightarrow> risk_engine" where
  "risk_engine_init cfg =
     \<lparr>min_health_factor = get_default (rl_min_health_factor cfg) (20/100),
      emergency_health_factor = get_default (rl_emergency_health_factor cfg) (10/100),
      critical_health_factor = get_default (rl_critical_health_factor cfg) (5/100),
      margin_fraction_threshold = get_default (rl_margin_fraction_threshold cfg) (10/100),
      proximity_start_times = []\<rparr>"

record asgard_view =
  av_position_pda :: string
  av_health_factor :: "decimal option"
  av_position_size_usd :: decimal

record hl_view =
  hv_position_id :: "string option"
  hv_margin_fraction :: decimal

text \<open>What the engine sees of the model classes: the two attributes are missing.\<close>

definition view_asgard :: "asgard_position \<Rightarrow> asgard_view" where
  "view_asgard p = \<lparr>av_position_pda = position_pda p, av_health_factor = None,
                    av_position_size_usd = position_size_usd p\<rparr>"

definition view_hl :: "hyperliquid_position \<Rightarrow> hl_view" where
  "view_hl p = \<lparr>hv_position_id = None, hv_margin_fraction = margin_fraction p\<rparr>"

section \<open>Proximity tracking\<close>

definition update_proximity_tracking ::
  "datetime \<Rightarrow> string \<Rightarrow> bool \<Rightarrow> risk_engine \<Rightarrow> risk_engine \<times> datetime option"
where
  "update_proximity_tracking now key in_prox e =
     (if in_prox
      then (case dict_get key (proximity_start_times e) of
              None \<Rightarrow> (e\<lparr>proximity_start_times := dict_put key now (proximity_start_times e)\<rparr>, Some now)
            | Some t \<Rightarrow> (e, Some t))
      else (e\<lparr>proximity_start_times := dict_del key (proximity_start_times e)\<rparr>, None))"

definition is_substring :: "string \<Rightarrow> string \<Rightarrow> bool" where
  "is_substring x y = list_ex (prefix x) (suffixes y)"

definition reset_proximity_tracking :: "string \<Rightarrow> risk_engine \<Rightarrow> risk_engine" where
  "reset_proximity_tracking pid e =
     e\<lparr>proximity_start_times := filter (\<lambda>(k, _). \<not> is_substring pid k) (proximity_start_times e)\<rparr>"

definition proximity_key :: "string \<Rightarrow> user_id option \<Rightarrow> string \<Rightarrow> string" where
  "proximity_key venue user key =
     (case user of
        None \<Rightarrow> venue @ ''_'' @ key
      | Some u \<Rightarrow> if u = '''' then venue @ ''_'' @ key else u @ '':'' @ venue @ ''_'' @ key)"

definition proximity_triggered :: "datetime \<Rightarrow> bool \<Rightarrow> datetime option \<Rightarrow> bool" where
  "proximity_triggered now in_prox start =
     (in_prox \<and> (case start of None \<Rightarrow> False | Some t \<Rightarrow> total_seconds (now - t) \<ge> 20))"

section \<open>Checks\<close>

definition health_level :: "risk_engine \<Rightarrow> decimal \<Rightarrow> risk_level" where
  "health_level e hf =
     (if hf \<le> critical_health_factor e then CRITICAL
      else if hf \<le> emergency_health_factor e then CRITICAL
      else if hf \<le> min_health_factor e then WARNING
      else NORMAL)"

definition health_in_proximity :: "risk_engine \<Rightarrow> decimal \<Rightarrow> bool" where
  "health_in_proximity e hf = (hf \<le> dec (min_health_factor e * dec (1 + 20/100)))"

text \<open>\<open>current_health_factor or position.health_factor\<close>: a given value of zero counts as
  absent.\<close>

definition effective_health_factor :: "asgard_view \<Rightarrow> decimal option \<Rightarrow> exn + decimal" where
  "effective_health_factor p cur =
     (case cur of
        Some v \<Rightarrow>
          if v \<noteq> 0 then Inr v
          else (case av_health_factor p of
                  None \<Rightarrow> Inl (AttributeError ''health_factor'') | Some h \<Rightarrow> Inr h)
      | None \<Rightarrow>
          (case av_health_factor p of
             None \<Rightarrow> Inl (AttributeError ''health_factor'') | Some h \<Rightarrow> Inr h))"

definition check_asgard_health ::
  "datetime \<Rightarrow> datetime \<Rightarrow> asgard_view \<Rightarrow> decimal option \<Rightarrow> user_id option \<Rightarrow> risk_engine
     \<Rightarrow> risk_engine \<times> (exn + health_check_result)"
where
  "check_asgard_health now now' p cur user e =
     (case effective_health_factor p cur of
        Inl x \<Rightarrow> (e, Inl x)
      | Inr hf \<Rightarrow>
          let in_prox = health_in_proximity e hf;
              (e', start) = update_proximity_tracking now
                (proximity_key ''asgard'' user (av_position_pda p)) in_prox e
          in (e', Inr \<lparr>hc_level = health_level e hf, hc_health_factor = hf,
                       hc_threshold = min_health_factor e, hc_distance_to_liquidation = hf,
                       hc_in_proximity = proximity_triggered now' in_prox start,
                       hc_proximity_start = start\<rparr>))"

definition margin_level :: "risk_engine \<Rightarrow> decimal \<Rightarrow> risk_level" where
  "margin_level e mf =
     (if mf \<le> dec (margin_fraction_threshold e * (5/10)) then CRITICAL
      else if mf \<le> margin_fraction_threshold e then WARNING
      else NORMAL)"

definition margin_in_proximity :: "risk_engine \<Rightarrow> decimal \<Rightarrow> bool" where
  "margin_in_proximity e mf = (mf \<le> dec (margin_fraction_threshold e * dec (1 + 20/100)))"

definition check_hyperliquid_margin ::
  "datetime \<Rightarrow> datetime \<Rightarrow> hl_view \<Rightarrow> decimal option \<Rightarrow> user_id option \<Rightarrow> risk_engine
     \<Rightarrow> risk_engine \<times> (exn + margin_check_result)"
where
  "check_hyperliquid_margin now now' p cur user e =
     (let mf = py_or cur (hv_margin_fraction p);
          dist = dec (mf - margin_fraction_threshold e);
          in_prox = margin_in_proximity e mf
      in case hv_position_id p of
           None \<Rightarrow> (e, Inl (AttributeError ''position_id''))
         | Some pid \<Rightarrow>
             let (e', start) = update_proximity_tracking now
                   (proximity_key ''hyperliquid'' user pid) in_prox e
             in (e', Inr \<lparr>mc_level = margin_level e mf, mc_margin_fraction = mf,
                          mc_threshold = margin_fraction_threshold e,
                          mc_distance_to_threshold = dist,
                          mc_in_proximity = proximity_triggered now' in_prox start,
                          mc_proximity_start = start\<rparr>))"

definition check_funding_flip :: "decimal \<Rightarrow> decimal \<Rightarrow> funding_flip_check" where
  "check_funding_flip current predicted =
     (let shorts_currently_paid = current < 0; shorts_predicted_paid = predicted < 0
      in \<lparr>flipped = (shorts_currently_paid \<and> \<not> shorts_predicted_paid),
          ff_current_annual = current, ff_predicted_annual = predicted,
          was_shorts_paid = shorts_currently_paid, now_longs_paid = (\<not> shorts_predicted_paid)\<rparr>)"

definition check_delta_drift ::
  "decimal \<Rightarrow> decimal option \<Rightarrow> decimal option \<Rightarrow> delta_drift_result"
where
  "check_delta_drift ratio drift_cost rebalance_cost =
     (let abs_delta = dabs ratio;
          level = (if abs_delta \<ge> 2/100 then CRITICAL
                   else if abs_delta \<ge> 5/1000 then WARNING else NORMAL);
          rebal = (case (drift_cost, rebalance_cost) of
                     (Some d, Some r) \<Rightarrow> d > r
                   | _ \<Rightarrow> level = CRITICAL)
      in \<lparr>drift_ratio = ratio, dd_threshold = 5/1000, dd_level = level,
          dd_drift_cost = drift_cost, dd_rebalance_cost = rebalance_cost,
          should_rebalance = rebal\<rparr>)"

section \<open>The exit decision\<close>

record market_inputs =
  mi_current_apy :: "decimal option"
  mi_estimated_close_cost :: "decimal option"
  mi_health_factor :: "decimal option"
  mi_margin_fraction :: "decimal option"
  mi_current_funding_annual :: "decimal option"
  mi_predicted_funding_annual :: "decimal option"
  mi_price_deviation :: "decimal option"
  mi_lst_depegged :: bool
  mi_chain_outage :: "string option"

definition exit_now :: "datetime \<Rightarrow> exit_reason \<Rightarrow> risk_level \<Rightarrow> (string \<times> detail) list \<Rightarrow> exit_decision" where
  "exit_now now r lvl ds =
     \<lparr>should_exit = True, ed_reason = Some r, ed_level = lvl, ed_details = ds,
      ed_timestamp = now, ed_close_cost = None, ed_expected_loss = None\<rparr>"

definition no_exit :: "datetime \<Rightarrow> risk_level \<Rightarrow> exit_decision" where
  "no_exit now lvl =
     \<lparr>should_exit = False, ed_reason = None, ed_level = lvl, ed_details = [],
      ed_timestamp = now, ed_close_cost = None, ed_expected_loss = None\<rparr>"

definition five_min_loss :: "asgard_view \<Rightarrow> decimal \<Rightarrow> decimal" where
  "five_min_loss p apy = dec (dec (dec (av_position_size_usd p * dabs apy) * 5) / 525600)"

fun level_order :: "risk_level \<Rightarrow> nat" where
  "level_order NORMAL = 0"
| "level_order WARNING = 1"
| "level_order CRITICAL = 2"

definition worse_level :: "risk_level \<Rightarrow> risk_level \<Rightarrow> risk_level" where
  "worse_level a b = (if level_order a \<ge> level_order b then a else b)"

definition outage_set :: "market_inputs \<Rightarrow> bool" where
  "outage_set m = (case mi_chain_outage m of None \<Rightarrow> False | Some c \<Rightarrow> c \<noteq> '''')"

definition price_deviates :: "market_inputs \<Rightarrow> bool" where
  "price_deviates m =
     (case mi_price_deviation m of None \<Rightarrow> False | Some d \<Rightarrow> d \<noteq> 0 \<and> d > 2/100)"

definition negative_apy_exit :: "asgard_view \<Rightarrow> market_inputs \<Rightarrow> bool" where
  "negative_apy_exit p m =
     (case mi_current_apy m of
        None \<Rightarrow> False
      | Some apy \<Rightarrow> apy < 0 \<and> py_or (mi_estimated_close_cost m) 0 < five_min_loss p apy)"

definition funding_flips :: "market_inputs \<Rightarrow> bool" where
  "funding_flips m =
     (case (mi_current_funding_annual m, mi_predicted_funding_annual m) of
        (Some c, Some p) \<Rightarrow> flipped (check_funding_flip c p)
      | _ \<Rightarrow> False)"

definition float_detail :: "string \<Rightarrow> decimal option \<Rightarrow> string \<times> detail" where
  "float_detail k x = (k, DFloat (case x of None \<Rightarrow> 0 | Some v \<Rightarrow> flt v))"

definition evaluate_exit_trigger ::
  "datetime \<Rightarrow> datetime \<Rightarrow> asgard_view \<Rightarrow> hl_view \<Rightarrow> market_inputs \<Rightarrow> risk_engine
     \<Rightarrow> risk_engine \<times> (exn + exit_decision)"
where
  "evaluate_exit_trigger now now' ap hp m e =
     (if outage_set m
      then (e, Inr (exit_now now CHAIN_OUTAGE CRITICAL
                      [(''affected_chain'', DStr (the (mi_chain_outage m)))]))
      else case check_asgard_health now now' ap (mi_health_factor m) None e of
        (e1, Inl x) \<Rightarrow> (e1, Inl x)
      | (e1, Inr ah) \<Rightarrow>
        if hc_should_close ah
        then (e1, Inr (exit_now now HEALTH_FACTOR (hc_level ah)
                [(''health_factor'', DFloat (flt (hc_health_factor ah))),
                 (''threshold'', DFloat (flt (hc_threshold ah))),
                 (''in_proximity'', DBool (hc_in_proximity ah))]))
        else case check_hyperliquid_margin now now' hp (mi_margin_fraction m) None e1 of
          (e2, Inl x) \<Rightarrow> (e2, Inl x)
        | (e2, Inr hm) \<Rightarrow>
          if mc_should_close hm
          then (e2, Inr (exit_now now MARGIN_FRACTION (mc_level hm)
                  [(''margin_fraction'', DFloat (flt (mc_margin_fraction hm))),
                   (''threshold'', DFloat (flt (mc_threshold hm))),
                   (''in_proximity'', DBool (mc_in_proximity hm))]))
          else if mi_lst_depegged m
          then (e2, Inr (exit_now now LST_DEPEG CRITICAL []))
          else if price_deviates m
          then (e2, Inr (exit_now now PRICE_DEVIATION CRITICAL
                  [float_detail ''price_deviation'' (mi_price_deviation m),
                   (''threshold'', DFloat (flt (2/100)))]))
          else if negative_apy_exit ap m
          then let apy = the (mi_current_apy m); loss = five_min_loss ap apy;
                   cost = py_or (mi_estimated_close_cost m) 0
               in (e2, Inr ((exit_now now NEGATIVE_APY WARNING
                    [(''current_apy'', DFloat (flt apy)),
                     (''estimated_close_cost'', DFloat (flt cost)),
                     (''five_min_expected_loss'', DFloat (flt loss))])
                    \<lparr>ed_close_cost := Some cost, ed_expected_loss := Some loss\<rparr>))
          else if funding_flips m
          then (e2, Inr (exit_now now FUNDING_FLIP WARNING
                  [float_detail ''current_funding'' (mi_current_funding_annual m),
                   float_detail ''predicted_funding'' (mi_predicted_funding_annual m)]))
          else (e2, Inr (no_exit now (worse_level (hc_level ah) (mc_level hm)))))"

record risk_summary =
  overall_risk :: risk_level
  rs_health_factor :: pyfloat
  rs_asgard_level :: risk_level
  rs_asgard_should_close :: bool
  rs_margin_fraction :: pyfloat
  rs_hl_level :: risk_level
  rs_hl_should_close :: bool

definition get_risk_summary ::
  "datetime \<Rightarrow> datetime \<Rightarrow> asgard_view \<Rightarrow> hl_view \<Rightarrow> risk_engine \<Rightarrow> risk_engine \<times> (exn + risk_summary)"
where
  "get_risk_summary now now' ap hp e =
     (case check_asgard_health now now' ap None None e of
        (e1, Inl x) \<Rightarrow> (e1, Inl x)
      | (e1, Inr ah) \<Rightarrow>
        (case check_hyperliquid_margin now now' hp None None e1 of
           (e2, Inl x) \<Rightarrow> (e2, Inl x)
         | (e2, Inr hm) \<Rightarrow>
             (e2, Inr \<lparr>overall_risk = worse_level (hc_level ah) (mc_level hm),
                       rs_health_factor = flt (hc_health_factor ah),
                       rs_asgard_level = hc_level ah, rs_asgard_should_close = hc_should_close ah,
                       rs_margin_fraction = flt (mc_margin_fraction hm),
                       rs_hl_level = mc_level hm, rs_hl_should_close = mc_should_close hm\<rparr>)))"

section \<open>Lemmas\<close>

lemma view_simps [simp]:
  "av_health_factor (view_asgard p) = None" "av_position_pda (view_asgard p) = position_pda p"
  "hv_position_id (view_hl q) = None"
  by (simp_all add: view_asgard_def view_hl_def)

lemma tracking_start:
  "snd (update_proximity_tracking now key prx e) =
     (if prx then Some (case dict_get key (proximity_start_times e) of None \<Rightarrow> now | Some t \<Rightarrow> t)
      else None)"
  by (simp add: update_proximity_tracking_def split: option.splits)

lemma tracking_lookup:
  assumes "dict_ok (proximity_start_times e)"
  shows "dict_get k (proximity_start_times (fst (update_proximity_tracking now key prx e))) =
     (if k = key then snd (update_proximity_tracking now key prx e)
      else dict_get k (proximity_start_times e))"
  using assms
  by (simp add: update_proximity_tracking_def dict.get_put dict.get_del split: option.splits)

lemma tracking_ok:
  "dict_ok (proximity_start_times e) \<Longrightarrow>
     dict_ok (proximity_start_times (fst (update_proximity_tracking now key prx e)))"
  by (simp add: update_proximity_tracking_def dict.inv_put dict.inv_del split: option.splits)

lemma tracking_thresholds [simp]:
  "min_health_factor (fst (update_proximity_tracking now key prx e)) = min_health_factor e"
  "emergency_health_factor (fst (update_proximity_tracking now key prx e)) = emergency_health_factor e"
  "critical_health_factor (fst (update_proximity_tracking now key prx e)) = critical_health_factor e"
  "margin_fraction_threshold (fst (update_proximity_tracking now key prx e))
     = margin_fraction_threshold e"
  by (simp_all add: update_proximity_tracking_def split: option.splits)

lemma check_asgard_health_Inr:
  assumes "effective_health_factor p cur = Inr hf"
  shows "check_asgard_health now now' p cur user e =
    (let u = update_proximity_tracking now (proximity_key ''asgard'' user (av_position_pda p))
               (health_in_proximity e hf) e
     in (fst u, Inr \<lparr>hc_level = health_level e hf, hc_health_factor = hf,
           hc_threshold = min_health_factor e, hc_distance_to_liquidation = hf,
           hc_in_proximity = proximity_triggered now' (health_in_proximity e hf) (snd u),
           hc_proximity_start = snd u\<rparr>))"
  using assms by (simp add: check_asgard_health_def Let_def split: prod.splits)

lemma check_hyperliquid_margin_Inr:
  assumes "hv_position_id p = Some pid"
  shows "check_hyperliquid_margin now now' p cur user e =
    (let mf = py_or cur (hv_margin_fraction p);
         u = update_proximity_tracking now (proximity_key ''hyperliquid'' user pid)
               (margin_in_proximity e mf) e
     in (fst u, Inr \<lparr>mc_level = margin_level e mf, mc_margin_fraction = mf,
           mc_threshold = margin_fraction_threshold e,
           mc_distance_to_threshold = dec (mf - margin_fraction_threshold e),
           mc_in_proximity = proximity_triggered now' (margin_in_proximity e mf) (snd u),
           mc_proximity_start = snd u\<rparr>))"
  using assms by (simp add: check_hyperliquid_margin_def Let_def split: prod.splits)

text \<open>When the two checks ask for a close, stated on the values and the tracked start time.\<close>

definition closes_by_proximity :: "datetime \<Rightarrow> datetime \<Rightarrow> string \<Rightarrow> bool \<Rightarrow> risk_engine \<Rightarrow> bool" where
  "closes_by_proximity now now' key prx e \<longleftrightarrow>
     prx \<and> total_seconds (now' - (case dict_get key (proximity_start_times e) of
                                   None \<Rightarrow> now | Some t \<Rightarrow> t)) \<ge> 20"

definition health_closes ::
  "datetime \<Rightarrow> datetime \<Rightarrow> asgard_view \<Rightarrow> decimal \<Rightarrow> risk_engine \<Rightarrow> bool" where
  "health_closes now now' p hf e \<longleftrightarrow>
     hf \<le> max (critical_health_factor e) (emergency_health_factor e) \<or>
     closes_by_proximity now now' (''asgard_'' @ av_position_pda p) (health_in_proximity e hf) e"

definition margin_closes :: "datetime \<Rightarrow> datetime \<Rightarrow> string \<Rightarrow> decimal \<Rightarrow> risk_engine \<Rightarrow> bool" where
  "margin_closes now now' pid mf e \<longleftrightarrow>
     mf \<le> dec (margin_fraction_threshold e * (1/2)) \<or>
     closes_by_proximity now now' (''hyperliquid_'' @ pid) (margin_in_proximity e mf) e"

lemma health_level_CRITICAL:
  "health_level e hf = CRITICAL \<longleftrightarrow> hf \<le> max (critical_health_factor e) (emergency_health_factor e)"
  by (auto simp: health_level_def)

lemma margin_level_CRITICAL:
  "margin_level e mf = CRITICAL \<longleftrightarrow> mf \<le> dec (margin_fraction_threshold e * (1/2))"
  by (auto simp: margin_level_def)

lemma health_should_close:
  assumes "effective_health_factor p cur = Inr hf"
  shows "\<exists>r. snd (check_asgard_health now now' p cur None e) = Inr r \<and>
     (hc_should_close r \<longleftrightarrow> health_closes now now' p hf e)"
  by (simp add: check_asgard_health_Inr[OF assms] Let_def hc_should_close_def health_level_CRITICAL
      health_closes_def tracking_start proximity_triggered_def closes_by_proximity_def
      proximity_key_def)

lemma hl_key_differs: "''hyperliquid_'' @ x \<noteq> ''asgard_'' @ y"
  by simp

lemma margin_should_close:
  assumes "hv_position_id p = Some pid"
  shows "\<exists>r. snd (check_hyperliquid_margin now now' p cur None e) = Inr r \<and>
     (mc_should_close r \<longleftrightarrow> margin_closes now now' pid (py_or cur (hv_margin_fraction p)) e)"
  by (simp add: check_hyperliquid_margin_Inr[OF assms] Let_def mc_should_close_def
      margin_level_CRITICAL margin_closes_def tracking_start proximity_triggered_def
      closes_by_proximity_def proximity_key_def)

lemma margin_closes_after_health:
  assumes "dict_ok (proximity_start_times e)"
  shows "margin_closes now now' pid mf (fst (check_asgard_health now now' p cur None e))
       = margin_closes now now' pid mf e"
proof (cases "effective_health_factor p cur")
  case (Inl x)
  then show ?thesis by (simp add: check_asgard_health_def)
next
  case (Inr hf)
  show ?thesis
    by (simp add: check_asgard_health_Inr[OF Inr] Let_def margin_closes_def
        closes_by_proximity_def margin_in_proximity_def proximity_key_def
        tracking_lookup[OF assms] hl_key_differs)
qed

text \<open>The reason of the first condition that holds.\<close>

definition first_reason :: "(bool \<times> exit_reason) list \<Rightarrow> exit_reason option" where
  "first_reason cs = map_option snd (find fst cs)"

lemma first_reason_simps [simp]:
  "first_reason [] = None"
  "first_reason ((c, r) # cs) = (if c then Some r else first_reason cs)"
  by (simp_all add: first_reason_def)

lemma first_reason_None: "first_reason cs = None \<longleftrightarrow> (\<forall>cr \<in> set cs. \<not> fst cr)"
  by (auto simp: first_reason_def find_None_iff)

lemma exit_now_simps [simp]:
  "ed_reason (exit_now now r l ds) = Some r" "should_exit (exit_now now r l ds)"
  "ed_reason (no_exit now l) = None" "\<not> should_exit (no_exit now l)"
  by (simp_all add: exit_now_def no_exit_def)

lemma evaluate_reason:
  assumes ok: "dict_ok (proximity_start_times e)"
    and hf: "effective_health_factor ap (mi_health_factor m) = Inr hf"
    and pid: "hv_position_id hp = Some pid"
  shows "\<exists>d. snd (evaluate_exit_trigger now now' ap hp m e) = Inr d \<and>
     should_exit d = (ed_reason d \<noteq> None) \<and>
     ed_reason d = first_reason
       [(outage_set m, CHAIN_OUTAGE),
        (health_closes now now' ap hf e, HEALTH_FACTOR),
        (margin_closes now now' pid (py_or (mi_margin_fraction m) (hv_margin_fraction hp)) e,
           MARGIN_FRACTION),
        (mi_lst_depegged m, LST_DEPEG),
        (price_deviates m, PRICE_DEVIATION),
        (negative_apy_exit ap m, NEGATIVE_APY),
        (funding_flips m, FUNDING_FLIP)]"
proof -
  obtain e1 ah where c1: "check_asgard_health now now' ap (mi_health_factor m) None e = (e1, Inr ah)"
    and h: "hc_should_close ah \<longleftrightarrow> health_closes now now' ap hf e"
    using health_should_close[OF hf, of now now' e] by (metis prod.collapse)
  obtain e2 hm where
      c2: "check_hyperliquid_margin now now' hp (mi_margin_fraction m) None e1 = (e2, Inr hm)"
    and mc: "mc_should_close hm \<longleftrightarrow> margin_closes now now' pid
               (py_or (mi_margin_fraction m) (hv_margin_fraction hp)) e1"
    using margin_should_close[OF pid, of now now' "mi_margin_fraction m" e1] by (metis prod.collapse)
  have e1: "margin_closes now now' pid mf e1 = margin_closes now now' pid mf e" for mf
    using margin_closes_after_health[OF ok, of now now' pid mf ap "mi_health_factor m"] c1 by simp
  show ?thesis
    unfolding evaluate_exit_trigger_def
    by (simp add: c1 c2 h mc e1 Let_def)
qed

text \<open>Runs of health checks of one position.\<close>

fun run_health :: "asgard_view \<Rightarrow> user_id option \<Rightarrow> (datetime \<times> decimal) list \<Rightarrow> risk_engine \<Rightarrow> risk_engine"
where
  "run_health p user [] e = e"
| "run_health p user ((t, hf) # xs) e =
     run_health p user xs (fst (check_asgard_health t t p (Some hf) user e))"

lemma effective_Some [simp]: "v \<noteq> 0 \<Longrightarrow> effective_health_factor p (Some v) = Inr v"
  by (simp add: effective_health_factor_def)

lemma check_health_keeps:
  assumes "hf \<noteq> 0"
  shows "min_health_factor (fst (check_asgard_health t t' p (Some hf) user e)) = min_health_factor e"
    and "dict_ok (proximity_start_times e) \<Longrightarrow>
      dict_ok (proximity_start_times (fst (check_asgard_health t t' p (Some hf) user e)))"
  using assms by (simp_all add: check_asgard_health_Inr[of p "Some hf" hf] Let_def tracking_ok)

lemma run_health_start:
  assumes "dict_ok (proximity_start_times e)"
    and "\<forall>(t, hf) \<in> set xs. hf \<noteq> 0 \<and> health_in_proximity e hf"
    and "dict_get (proximity_key ''asgard'' user (av_position_pda p)) (proximity_start_times e) = Some t0"
  shows "dict_ok (proximity_start_times (run_health p user xs e)) \<and>
     min_health_factor (run_health p user xs e) = min_health_factor e \<and>
     dict_get (proximity_key ''asgard'' user (av_position_pda p))
       (proximity_start_times (run_health p user xs e)) = Some t0"
  using assms
proof (induction xs arbitrary: e)
  case (Cons x xs)
  obtain t hf where x: "x = (t, hf)" by (cases x)
  define e' where "e' = fst (check_asgard_health t t p (Some hf) user e)"
  from Cons.prems x have hf: "hf \<noteq> 0" "health_in_proximity e hf" by auto
  have ok': "dict_ok (proximity_start_times e')" and mh: "min_health_factor e' = min_health_factor e"
    using check_health_keeps[OF hf(1)] Cons.prems(1) by (simp_all add: e'_def)
  have pr: "health_in_proximity e' = health_in_proximity e"
    by (rule ext) (simp add: health_in_proximity_def mh)
  have "dict_get (proximity_key ''asgard'' user (av_position_pda p)) (proximity_start_times e') = Some t0"
    using Cons.prems(3) hf
    by (simp add: e'_def check_asgard_health_Inr[of p "Some hf" hf] Let_def
        tracking_lookup[OF Cons.prems(1)] tracking_start)
  with Cons.IH[OF ok'] Cons.prems(2) show ?case by (simp add: x pr mh e'_def[symmetric])
qed simp

section \<open>Properties\<close>

text \<open>C31: The priority of the exit decision in the code: on positions that have the attributes the
  engine reads, it always returns, and its reason is that of the first condition that holds in the order
  chain outage, health factor, margin fraction, LST depeg, price deviation, negative APY, funding flip; it
  exits exactly when one of them holds. (The docstring names a manual override, which is not there, and
  puts the proximity warnings last: they are part of the second and third condition.)\<close>

theorem exit_priority:
  assumes "dict_ok (proximity_start_times e)"
    and "effective_health_factor ap (mi_health_factor m) = Inr hf"
    and "hv_position_id hp = Some pid"
  shows "\<exists>d. snd (evaluate_exit_trigger now now' ap hp m e) = Inr d \<and>
     should_exit d = (ed_reason d \<noteq> None) \<and>
     ed_reason d = first_reason
       [(outage_set m, CHAIN_OUTAGE),
        (health_closes now now' ap hf e, HEALTH_FACTOR),
        (margin_closes now now' pid (py_or (mi_margin_fraction m) (hv_margin_fraction hp)) e,
           MARGIN_FRACTION),
        (mi_lst_depegged m, LST_DEPEG),
        (price_deviates m, PRICE_DEVIATION),
        (negative_apy_exit ap m, NEGATIVE_APY),
        (funding_flips m, FUNDING_FLIP)]"
  using assms by (rule evaluate_reason)

definition wit_engine :: risk_engine where
  "wit_engine = risk_engine_init \<lparr>rl_min_health_factor = None, rl_emergency_health_factor = None,
     rl_critical_health_factor = None, rl_margin_fraction_threshold = None\<rparr>"

definition wit_inputs :: market_inputs where
  "wit_inputs = \<lparr>mi_current_apy = None, mi_estimated_close_cost = None, mi_health_factor = None,
     mi_margin_fraction = None, mi_current_funding_annual = None, mi_predicted_funding_annual = None,
     mi_price_deviation = Some (3/100), mi_lst_depegged = True, mi_chain_outage = None\<rparr>"

definition wit_ap :: asgard_view where
  "wit_ap = \<lparr>av_position_pda = ''pda'', av_health_factor = Some (1/2), av_position_size_usd = 15000\<rparr>"

definition wit_hp :: hl_view where
  "wit_hp = \<lparr>hv_position_id = Some ''p1'', hv_margin_fraction = 3/10\<rparr>"

theorem exit_priority_witness:
  "\<exists>d. snd (evaluate_exit_trigger 0 0 wit_ap wit_hp wit_inputs wit_engine) = Inr d \<and>
     ed_reason d = Some LST_DEPEG"
proof -
  have a: "dict_ok (proximity_start_times wit_engine)"
    "effective_health_factor wit_ap (mi_health_factor wit_inputs) = Inr (1/2)"
    "hv_position_id wit_hp = Some ''p1''"
    by code_simp+
  have c: "\<not> outage_set wit_inputs" "\<not> health_closes 0 0 wit_ap (1/2) wit_engine"
    "\<not> margin_closes 0 0 ''p1'' (py_or (mi_margin_fraction wit_inputs) (hv_margin_fraction wit_hp))
        wit_engine" "mi_lst_depegged wit_inputs"
    by code_simp+
  show ?thesis using exit_priority[OF a, of 0 0] c by auto
qed

text \<open>The engine cannot evaluate the position classes of the program: on an
  \<open>AsgardPosition\<close> and a \<open>HyperliquidPosition\<close> without a given health factor (as the bot
  calls it) and without a chain outage, it raises \<open>AttributeError\<close> for the missing attribute
  \<open>health_factor\<close> and leaves its state alone; so no risk exit of the bot's monitor can fire.\<close>

theorem model_positions_raise:
  assumes "\<not> outage_set m" and "mi_health_factor m = None \<or> mi_health_factor m = Some 0"
  shows "evaluate_exit_trigger now now' (view_asgard p) (view_hl q) m e
       = (e, Inl (AttributeError ''health_factor''))"
  using assms
  by (auto simp: evaluate_exit_trigger_def check_asgard_health_def effective_health_factor_def)

definition wit_position :: asgard_position where
  "wit_position = \<lparr>position_pda = ''pda'', intent_id = ''i'', ap_asset = SOL, ap_protocol = KAMINO,
     collateral_usd = 100, position_size_usd = 300, ap_leverage = 3, token_a_amount = 2,
     token_b_borrowed = 200, entry_price_token_a = 150, entry_price_token_b = 1,
     current_health_factor = 1/100, current_token_a_price = 150, ap_entry_time = 0,
     ap_last_update = 0, create_tx_signature = None, close_tx_signature = None\<rparr>"

definition wit_hl_short :: hyperliquid_position where
  "wit_hl_short = \<lparr>hp_coin = ''SOL'', size_sol = -2, entry_px = 150, hp_leverage = 3,
     margin_used = 100, margin_fraction = 1/100, account_value = 100, cum_funding = 0,
     mark_px = 150, liquidation_px = None, hp_entry_time = 0, hp_last_update = 0\<rparr>"

theorem model_positions_raise_witness:
  "snd (evaluate_exit_trigger 0 0 (view_asgard wit_position) (view_hl wit_hl_short) wit_inputs wit_engine)
     = Inl (AttributeError ''health_factor'')"
proof -
  have "\<not> outage_set wit_inputs" "mi_health_factor wit_inputs = None \<or> mi_health_factor wit_inputs = Some 0"
    by (simp_all add: outage_set_def wit_inputs_def)
  from model_positions_raise[OF this] show ?thesis by simp
qed

text \<open>Proximity needs 20 seconds: when a position enters the proximity band at \<open>t0\<close> and
  every later check stays inside the band, a check at \<open>t\<close> reports the band as triggered exactly
  when 20 seconds have passed since \<open>t0\<close>, however many checks there were in between.\<close>

theorem proximity_timer:
  assumes "dict_ok (proximity_start_times e)"
    and "dict_get (proximity_key ''asgard'' user (av_position_pda p)) (proximity_start_times e) = None"
    and "\<forall>(t, hf) \<in> set ((t0, h0) # xs @ [(t, hf)]). hf \<noteq> 0 \<and> health_in_proximity e hf"
  shows "\<exists>r. snd (check_asgard_health t t p (Some hf) user (run_health p user ((t0, h0) # xs) e))
       = Inr r \<and> (hc_in_proximity r \<longleftrightarrow> total_seconds (t - t0) \<ge> 20)"
proof -
  define e0 where "e0 = fst (check_asgard_health t0 t0 p (Some h0) user e)"
  define e1 where "e1 = run_health p user xs e0"
  from assms(3) have h: "h0 \<noteq> 0" "health_in_proximity e h0" "hf \<noteq> 0" "health_in_proximity e hf" by auto
  have ok0: "dict_ok (proximity_start_times e0)" and m0: "min_health_factor e0 = min_health_factor e"
    using check_health_keeps[OF h(1)] assms(1) by (simp_all add: e0_def)
  have pr0: "health_in_proximity e0 = health_in_proximity e"
    by (rule ext) (simp add: health_in_proximity_def m0)
  have s0: "dict_get (proximity_key ''asgard'' user (av_position_pda p)) (proximity_start_times e0) = Some t0"
    using assms(2) h
    by (simp add: e0_def check_asgard_health_Inr[of p "Some h0" h0] Let_def
        tracking_lookup[OF assms(1)] tracking_start)
  have "\<forall>(t, hf) \<in> set xs. hf \<noteq> 0 \<and> health_in_proximity e0 hf" using assms(3) by (simp add: pr0)
  from run_health_start[OF ok0 this s0]
  have ok1: "dict_ok (proximity_start_times e1)" and m1: "min_health_factor e1 = min_health_factor e0"
    and s1: "dict_get (proximity_key ''asgard'' user (av_position_pda p)) (proximity_start_times e1) = Some t0"
    by (simp_all add: e1_def)
  have "health_in_proximity e1 hf" using h(4) by (simp add: health_in_proximity_def m0 m1)
  then show ?thesis
    using s1 h(3)
    by (simp add: e0_def[symmetric] e1_def[symmetric] check_asgard_health_Inr[of p "Some hf" hf] Let_def
        tracking_start proximity_triggered_def)
qed

lemma wit_band: "health_in_proximity wit_engine hf \<longleftrightarrow> hf \<le> 24/100"
proof -
  have "min_health_factor wit_engine = 20/100"
    by (simp add: wit_engine_def risk_engine_init_def get_default_def)
  moreover have "dec (20/100 * dec (1 + 20/100)) = 24/100" by code_simp
  ultimately show ?thesis by (simp only: health_in_proximity_def)
qed

theorem proximity_timer_witness:
  "\<exists>r. snd (check_asgard_health 25000000 25000000 wit_ap (Some (22/100)) None
        (run_health wit_ap None [(1000000, 21/100), (7000000, 23/100)] wit_engine)) = Inr r \<and>
     hc_in_proximity r"
proof -
  have a: "dict_ok (proximity_start_times wit_engine)"
    "dict_get (proximity_key ''asgard'' None (av_position_pda wit_ap))
       (proximity_start_times wit_engine) = None"
    "\<forall>(t :: int, hf) \<in> set ((1000000, 21/100) # [(7000000, 23/100)] @ [(25000000, 22/100)]).
       hf \<noteq> 0 \<and> health_in_proximity wit_engine hf"
    by (simp_all add: wit_band) (simp_all add: wit_engine_def risk_engine_init_def dict_ok_def dict_get_def)
  have "total_seconds (25000000 - 1000000) \<ge> 20" by code_simp
  with proximity_timer[OF a] show ?thesis by auto
qed

text \<open>When the engine returns without an exit, the position is safe: the health factor it used is
  above both critical thresholds, the margin fraction above half its threshold, no chain outage and
  no LST depeg was reported and the price deviation is at most 2%.\<close>

theorem no_exit_is_safe:
  assumes "dict_ok (proximity_start_times e)"
    and "evaluate_exit_trigger now now' ap hp m e = (e', Inr d)" and "\<not> should_exit d"
  shows "\<exists>hf. effective_health_factor ap (mi_health_factor m) = Inr hf \<and>
     critical_health_factor e < hf \<and> emergency_health_factor e < hf \<and>
     dec (margin_fraction_threshold e * (1/2)) < py_or (mi_margin_fraction m) (hv_margin_fraction hp) \<and>
     \<not> outage_set m \<and> \<not> mi_lst_depegged m \<and>
     (\<forall>x. mi_price_deviation m = Some x \<longrightarrow> x \<le> 2/100)"
proof (cases "outage_set m")
  case True
  with assms(2,3) show ?thesis by (auto simp: evaluate_exit_trigger_def)
next
  case no: False
  show ?thesis
  proof (cases "effective_health_factor ap (mi_health_factor m)")
    case (Inl x)
    with no assms(2) show ?thesis by (simp add: evaluate_exit_trigger_def check_asgard_health_def)
  next
    case (Inr hf)
    show ?thesis
    proof (cases "hv_position_id hp")
      case None
      obtain e1 ah where c1: "check_asgard_health now now' ap (mi_health_factor m) None e = (e1, Inr ah)"
        using health_should_close[OF Inr, of now now' e] by (metis prod.collapse)
      from None no assms(2,3) show ?thesis
        by (auto simp: evaluate_exit_trigger_def c1 check_hyperliquid_margin_def Let_def split: if_splits)
    next
      case (Some pid)
      from evaluate_reason[OF assms(1) Inr Some, of now now'] assms(2,3)
      have "first_reason
       [(outage_set m, CHAIN_OUTAGE),
        (health_closes now now' ap hf e, HEALTH_FACTOR),
        (margin_closes now now' pid (py_or (mi_margin_fraction m) (hv_margin_fraction hp)) e,
           MARGIN_FRACTION),
        (mi_lst_depegged m, LST_DEPEG),
        (price_deviates m, PRICE_DEVIATION),
        (negative_apy_exit ap m, NEGATIVE_APY),
        (funding_flips m, FUNDING_FLIP)] = None"
        by (auto simp del: first_reason_simps)
      then have c: "\<not> outage_set m" "\<not> health_closes now now' ap hf e" "\<not> mi_lst_depegged m"
        "\<not> margin_closes now now' pid (py_or (mi_margin_fraction m) (hv_margin_fraction hp)) e"
        "\<not> price_deviates m"
        unfolding first_reason_None by simp_all
      have "x \<le> 2/100" if "mi_price_deviation m = Some x" for x
        using c(5) that by (auto simp: price_deviates_def)
      with c Inr show ?thesis
        by (auto simp: health_closes_def margin_closes_def not_le)
    qed
  qed
qed

definition wit_calm :: market_inputs where
  "wit_calm = wit_inputs\<lparr>mi_lst_depegged := False, mi_price_deviation := None\<rparr>"

theorem no_exit_is_safe_witness:
  "\<exists>hf. effective_health_factor wit_ap (mi_health_factor wit_calm) = Inr hf \<and>
     emergency_health_factor wit_engine < hf"
proof -
  have ok: "dict_ok (proximity_start_times wit_engine)" by code_simp
  have ev: "evaluate_exit_trigger 0 0 wit_ap wit_hp wit_calm wit_engine
      = (wit_engine, Inr (no_exit 0 NORMAL))" by code_simp
  have no: "\<not> should_exit (no_exit 0 NORMAL)" by simp
  from no_exit_is_safe[OF ok ev no] show ?thesis by blast
qed

end
