(* ===== verification/PauseController.thy ===== *)
theory PauseController
  imports Prelude
begin

text \<open>
  The pause controller and its circuit breakers (\<open>bot/core/pause_controller.py\<close>).

  The controller's state is a record: the pause flag with its scope, reason, time and author, the
  history of breaker events and the registered callbacks. A callback is an identifier; calling it
  appends to \<open>pc_calls\<close> (the code catches whatever a callback raises, so it cannot change the
  course of an operation). \<open>now\<close> is the clock of the operation. The per-user pause lives in the
  database table \<open>users\<close>, a map from the user to the two pause columns.
\<close>

section \<open>State\<close>

datatype breaker_type =
  ASGARD_HEALTH | HYPERLIQUID_MARGIN | NEGATIVE_APY_BREAKER | PRICE_DEVIATION_BREAKER
  | LST_DEPEG_BREAKER | HIGH_GAS | CHAIN_OUTAGE_BREAKER | MANUAL_BREAKER

datatype pause_scope = ALL_OPS | ENTRY | EXIT | ASGARD | HYPERLIQUID

fun breaker_value :: "breaker_type \<Rightarrow> string" where
  "breaker_value ASGARD_HEALTH = ''asgard_health''"
| "breaker_value HYPERLIQUID_MARGIN = ''hyperliquid_margin''"
| "breaker_value NEGATIVE_APY_BREAKER = ''negative_apy''"
| "breaker_value PRICE_DEVIATION_BREAKER = ''price_deviation''"
| "breaker_value LST_DEPEG_BREAKER = ''lst_depeg''"
| "breaker_value HIGH_GAS = ''high_gas''"
| "breaker_value CHAIN_OUTAGE_BREAKER = ''chain_outage''"
| "breaker_value MANUAL_BREAKER = ''manual''"

record breaker_event =
  breaker_type :: breaker_type
  triggered_at :: datetime
  be_reason :: string
  be_scope :: pause_scope
  auto_recovery :: bool
  recovery_time :: "datetime option"
  cooldown_seconds :: "int option"
  resolved_at :: "datetime option"
  resolved_by :: "string option"

definition is_active :: "breaker_event \<Rightarrow> bool" where
  "is_active b = (resolved_at b = None)"

definition age_seconds :: "datetime \<Rightarrow> breaker_event \<Rightarrow> pyfloat" where
  "age_seconds now b = total_seconds (now - triggered_at b)"

record pause_state =
  ps_paused :: bool
  ps_scope :: pause_scope
  ps_reason :: "string option"
  ps_paused_at :: "datetime option"
  ps_paused_by :: "string option"
  ps_active_breakers :: "breaker_type list"

datatype callback_call = PauseCall nat pause_state | ResumeCall nat

record controller =
  admin_api_key :: string
  default_cooldown :: int
  paused :: bool
  pause_scope :: pause_scope
  pause_reason :: "string option"
  paused_at :: "datetime option"
  paused_by :: "string option"
  circuit_breakers :: "breaker_event list"
  pause_callbacks :: "nat list"
  resume_callbacks :: "nat list"
  pc_calls :: "callback_call list"

fun default_cooldowns :: "breaker_type \<Rightarrow> int option" where
  "default_cooldowns ASGARD_HEALTH = Some 0"
| "default_cooldowns HYPERLIQUID_MARGIN = Some 0"
| "default_cooldowns NEGATIVE_APY_BREAKER = Some 0"
| "default_cooldowns PRICE_DEVIATION_BREAKER = Some 1800"
| "default_cooldowns LST_DEPEG_BREAKER = Some 0"
| "default_cooldowns HIGH_GAS = Some 0"
| "default_cooldowns CHAIN_OUTAGE_BREAKER = Some 0"
| "default_cooldowns MANUAL_BREAKER = Some 0"

definition controller_init :: "string \<Rightarrow> int \<Rightarrow> controller" where
  "controller_init key cooldown =
     \<lparr>admin_api_key = key, default_cooldown = cooldown, paused = False, pause_scope = ALL_OPS,
      pause_reason = None, paused_at = None, paused_by = None, circuit_breakers = [],
      pause_callbacks = [], resume_callbacks = [], pc_calls = []\<rparr>"

section \<open>Queries\<close>

definition get_active_breakers :: "controller \<Rightarrow> breaker_event list" where
  "get_active_breakers c = filter is_active (circuit_breakers c)"

definition has_active_breakers :: "controller \<Rightarrow> bool" where
  "has_active_breakers c = list_ex is_active (circuit_breakers c)"

definition get_pause_state :: "controller \<Rightarrow> pause_state" where
  "get_pause_state c =
     \<lparr>ps_paused = paused c, ps_scope = pause_scope c, ps_reason = pause_reason c,
      ps_paused_at = paused_at c, ps_paused_by = paused_by c,
      ps_active_breakers = map breaker_type (get_active_breakers c)\<rparr>"

definition get_circuit_breaker_history :: "controller \<Rightarrow> breaker_type option \<Rightarrow> breaker_event list" where
  "get_circuit_breaker_history c bt =
     (case bt of
        None \<Rightarrow> circuit_breakers c
      | Some t \<Rightarrow> filter (\<lambda>b. breaker_type b = t) (circuit_breakers c))"

definition check_paused :: "controller \<Rightarrow> pause_scope option \<Rightarrow> bool" where
  "check_paused c scope =
     (if \<not> paused c then False
      else case scope of
        None \<Rightarrow> paused c
      | Some s \<Rightarrow> if pause_scope c = ALL_OPS then True else s = pause_scope c)"

definition assert_not_paused :: "controller \<Rightarrow> pause_scope option \<Rightarrow> exn + unit" where
  "assert_not_paused c scope =
     (if check_paused c scope then Inl (RuntimeError ''Operations paused'') else Inr ())"

definition blocked_scopes :: "string \<Rightarrow> pause_scope list" where
  "blocked_scopes operation =
     (if operation = ''entry'' then [ALL_OPS, ENTRY]
      else if operation = ''exit'' then [ALL_OPS, EXIT]
      else if operation = ''asgard'' then [ALL_OPS, ASGARD]
      else if operation = ''hyperliquid'' then [ALL_OPS, HYPERLIQUID]
      else [ALL_OPS])"

definition can_execute :: "controller \<Rightarrow> string \<Rightarrow> bool" where
  "can_execute c operation =
     (if \<not> paused c then True else pause_scope c \<notin> set (blocked_scopes operation))"

section \<open>Operations\<close>

definition call_pause_callbacks :: "controller \<Rightarrow> controller" where
  "call_pause_callbacks c =
     c\<lparr>pc_calls := pc_calls c @ map (\<lambda>k. PauseCall k (get_pause_state c)) (pause_callbacks c)\<rparr>"

definition call_resume_callbacks :: "controller \<Rightarrow> controller" where
  "call_resume_callbacks c = c\<lparr>pc_calls := pc_calls c @ map ResumeCall (resume_callbacks c)\<rparr>"

definition add_pause_callback :: "nat \<Rightarrow> controller \<Rightarrow> controller" where
  "add_pause_callback k c = c\<lparr>pause_callbacks := pause_callbacks c @ [k]\<rparr>"

definition add_resume_callback :: "nat \<Rightarrow> controller \<Rightarrow> controller" where
  "add_resume_callback k c = c\<lparr>resume_callbacks := resume_callbacks c @ [k]\<rparr>"

definition pause ::
  "datetime \<Rightarrow> string \<Rightarrow> string \<Rightarrow> pause_scope \<Rightarrow> controller \<Rightarrow> exn + controller" where
  "pause now key reason scope c =
     (if key \<noteq> admin_api_key c then Inl (ValueError ''Invalid API key'')
      else Inr (call_pause_callbacks
        (c\<lparr>paused := True, pause_scope := scope, pause_reason := Some reason,
          paused_at := Some now, paused_by := Some ''admin'',
          circuit_breakers := circuit_breakers c @
            [\<lparr>breaker_type = MANUAL_BREAKER, triggered_at = now, be_reason = reason,
              be_scope = scope, auto_recovery = False, recovery_time = None,
              cooldown_seconds = None, resolved_at = None, resolved_by = None\<rparr>]\<rparr>)))"

definition mark_resolved ::
  "datetime \<Rightarrow> string \<Rightarrow> breaker_type \<Rightarrow> breaker_event \<Rightarrow> breaker_event" where
  "mark_resolved now who bt b =
     (if breaker_type b = bt \<and> is_active b
      then b\<lparr>resolved_at := Some now, resolved_by := Some who\<rparr> else b)"

definition resume :: "datetime \<Rightarrow> string \<Rightarrow> controller \<Rightarrow> exn + controller" where
  "resume now key c =
     (if key \<noteq> admin_api_key c then Inl (ValueError ''Invalid API key'')
      else let c' = c\<lparr>paused := False, pause_scope := ALL_OPS, pause_reason := None,
                      paused_at := None, paused_by := None,
                      circuit_breakers :=
                        map (mark_resolved now ''manual'' MANUAL_BREAKER) (circuit_breakers c)\<rparr>
           in Inr (if paused c then call_resume_callbacks c' else c'))"

definition trigger_circuit_breaker ::
  "datetime \<Rightarrow> breaker_type \<Rightarrow> string \<Rightarrow> pause_scope \<Rightarrow> bool \<Rightarrow> int option \<Rightarrow> controller
     \<Rightarrow> controller \<times> breaker_event"
where
  "trigger_circuit_breaker now bt reason scope auto cooldown c =
     (let cd = (case cooldown of
                  Some s \<Rightarrow> s
                | None \<Rightarrow> (case default_cooldowns bt of None \<Rightarrow> default_cooldown c | Some s \<Rightarrow> s));
          rt = (if auto \<and> cd > 0 then Some (now + seconds cd) else None);
          event = \<lparr>breaker_type = bt, triggered_at = now, be_reason = reason, be_scope = scope,
                   auto_recovery = auto, recovery_time = rt, cooldown_seconds = Some cd,
                   resolved_at = None, resolved_by = None\<rparr>;
          c' = c\<lparr>circuit_breakers := circuit_breakers c @ [event], paused := True,
                 pause_scope := scope,
                 pause_reason := Some (''Circuit breaker: '' @ breaker_value bt @ '' - '' @ reason),
                 paused_at := Some now, paused_by := Some ''circuit_breaker''\<rparr>
      in (call_pause_callbacks c', event))"

definition resolve_circuit_breaker ::
  "datetime \<Rightarrow> breaker_type \<Rightarrow> string \<Rightarrow> controller \<Rightarrow> controller \<times> bool" where
  "resolve_circuit_breaker now bt who c =
     (let resolved_any = list_ex (\<lambda>b. breaker_type b = bt \<and> is_active b) (circuit_breakers c);
          c' = c\<lparr>circuit_breakers := map (mark_resolved now who bt) (circuit_breakers c)\<rparr>
      in if resolved_any \<and> \<not> has_active_breakers c'
         then (call_resume_callbacks
                 (c'\<lparr>paused := False, pause_scope := ALL_OPS, pause_reason := None\<rparr>), resolved_any)
         else (c', resolved_any))"

definition recovery_due :: "datetime \<Rightarrow> breaker_event \<Rightarrow> bool" where
  "recovery_due now b =
     (is_active b \<and> auto_recovery b \<and>
      (case recovery_time b of None \<Rightarrow> False | Some t \<Rightarrow> now \<ge> t))"

text \<open>The loop of \<open>check_and_recover\<close> walks the live list, whose events the calls of
  \<open>resolve_circuit_breaker\<close> change in place: the loop is over positions.\<close>

fun recover_from ::
  "datetime \<Rightarrow> nat list \<Rightarrow> controller \<times> breaker_type list \<Rightarrow> controller \<times> breaker_type list" where
  "recover_from now [] acc = acc"
| "recover_from now (i # is) (c, recovered) =
     (let b = circuit_breakers c ! i in
      if recovery_due now b
      then recover_from now is
             (fst (resolve_circuit_breaker now (breaker_type b) ''auto'' c), recovered @ [breaker_type b])
      else recover_from now is (c, recovered))"

definition check_and_recover :: "datetime \<Rightarrow> controller \<Rightarrow> controller \<times> breaker_type list" where
  "check_and_recover now c = recover_from now [0..<length (circuit_breakers c)] (c, [])"

section \<open>Per-user pause and gas thresholds\<close>

record user_row =
  user_paused_at :: "datetime option"
  user_paused_reason :: "string option"

type_synonym users = "user_id \<rightharpoonup> user_row"

definition check_user_paused :: "controller \<Rightarrow> users \<Rightarrow> user_id \<Rightarrow> bool" where
  "check_user_paused c db u =
     (if paused c then True
      else case db u of None \<Rightarrow> False | Some r \<Rightarrow> user_paused_at r \<noteq> None)"

definition pause_user :: "datetime \<Rightarrow> user_id \<Rightarrow> string \<Rightarrow> users \<Rightarrow> users" where
  "pause_user now u reason db =
     map_adjust u (\<lambda>r. r\<lparr>user_paused_at := Some now, user_paused_reason := Some reason\<rparr>) db"

definition resume_user :: "user_id \<Rightarrow> users \<Rightarrow> users" where
  "resume_user u db =
     map_adjust u (\<lambda>r. r\<lparr>user_paused_at := None, user_paused_reason := None\<rparr>) db"

definition is_high_gas :: "decimal \<Rightarrow> bool" where
  "is_high_gas gas = (gas > 1/100)"

definition should_recover_from_high_gas :: "decimal \<Rightarrow> bool" where
  "should_recover_from_high_gas gas = (gas < 5/1000)"

section \<open>Runs of operations\<close>

datatype pc_op =
    Pause datetime string string pause_scope
  | Resume datetime string
  | Trigger datetime breaker_type string pause_scope bool "int option"
  | Resolve datetime breaker_type string
  | CheckAndRecover datetime
  | AddPauseCallback nat
  | AddResumeCallback nat

text \<open>An operation that raises leaves the controller as it was.\<close>

fun pc_step :: "pc_op \<Rightarrow> controller \<Rightarrow> controller" where
  "pc_step (Pause now key r s) c = (case pause now key r s c of Inl _ \<Rightarrow> c | Inr c' \<Rightarrow> c')"
| "pc_step (Resume now key) c = (case resume now key c of Inl _ \<Rightarrow> c | Inr c' \<Rightarrow> c')"
| "pc_step (Trigger now bt r s a cd) c = fst (trigger_circuit_breaker now bt r s a cd c)"
| "pc_step (Resolve now bt who) c = fst (resolve_circuit_breaker now bt who c)"
| "pc_step (CheckAndRecover now) c = fst (check_and_recover now c)"
| "pc_step (AddPauseCallback k) c = add_pause_callback k c"
| "pc_step (AddResumeCallback k) c = add_resume_callback k c"

definition pc_run :: "pc_op list \<Rightarrow> controller \<Rightarrow> controller" where
  "pc_run ops c = fold pc_step ops c"

section \<open>Lemmas\<close>

lemma call_callbacks_simps [simp]:
  "paused (call_pause_callbacks c) = paused c" "pause_scope (call_pause_callbacks c) = pause_scope c"
  "circuit_breakers (call_pause_callbacks c) = circuit_breakers c"
  "admin_api_key (call_pause_callbacks c) = admin_api_key c"
  "paused (call_resume_callbacks c) = paused c" "pause_scope (call_resume_callbacks c) = pause_scope c"
  "circuit_breakers (call_resume_callbacks c) = circuit_breakers c"
  "admin_api_key (call_resume_callbacks c) = admin_api_key c"
  by (simp_all add: call_pause_callbacks_def call_resume_callbacks_def)

lemma has_active_iff: "has_active_breakers c \<longleftrightarrow> (\<exists>b \<in> set (circuit_breakers c). is_active b)"
  by (simp add: has_active_breakers_def list_ex_iff)

lemma mark_resolved_simps [simp]:
  "breaker_type (mark_resolved now who bt b) = breaker_type b"
  "recovery_time (mark_resolved now who bt b) = recovery_time b"
  "auto_recovery (mark_resolved now who bt b) = auto_recovery b"
  "is_active (mark_resolved now who bt b) \<longleftrightarrow> is_active b \<and> breaker_type b \<noteq> bt"
  by (auto simp: mark_resolved_def is_active_def)

lemma mark_resolved_inactive: "\<not> is_active b \<or> breaker_type b \<noteq> bt \<Longrightarrow> mark_resolved now who bt b = b"
  by (auto simp: mark_resolved_def)

lemma resolve_breakers [simp]:
  "circuit_breakers (fst (resolve_circuit_breaker now bt who c))
     = map (mark_resolved now who bt) (circuit_breakers c)"
  by (simp add: resolve_circuit_breaker_def Let_def)

lemma resolve_paused:
  "paused (fst (resolve_circuit_breaker now bt who c)) \<longleftrightarrow>
     paused c \<and> (\<not> snd (resolve_circuit_breaker now bt who c) \<or>
       has_active_breakers (fst (resolve_circuit_breaker now bt who c)))"
  by (auto simp: resolve_circuit_breaker_def Let_def has_active_iff)

lemma resolve_snd [simp]:
  "snd (resolve_circuit_breaker now bt who c) \<longleftrightarrow>
     (\<exists>b \<in> set (circuit_breakers c). breaker_type b = bt \<and> is_active b)"
  by (simp add: resolve_circuit_breaker_def Let_def list_ex_iff)

lemma resolve_key [simp]:
  "admin_api_key (fst (resolve_circuit_breaker now bt who c)) = admin_api_key c"
  by (simp add: resolve_circuit_breaker_def Let_def)

lemma trigger_simps [simp]:
  "paused (fst (trigger_circuit_breaker now bt r s a cd c))"
  "pause_scope (fst (trigger_circuit_breaker now bt r s a cd c)) = s"
  "circuit_breakers (fst (trigger_circuit_breaker now bt r s a cd c))
     = circuit_breakers c @ [snd (trigger_circuit_breaker now bt r s a cd c)]"
  "is_active (snd (trigger_circuit_breaker now bt r s a cd c))"
  by (simp_all add: trigger_circuit_breaker_def Let_def is_active_def)

text \<open>A property that every resolution keeps is kept by the recovery loop.\<close>

lemma recover_from_induct:
  assumes "P c" and "\<And>c bt. P c \<Longrightarrow> P (fst (resolve_circuit_breaker now bt ''auto'' c))"
  shows "P (fst (recover_from now is (c, rec)))"
  using assms(1)
proof (induction "is" arbitrary: c rec)
  case (Cons i "is")
  then show ?case by (simp add: Let_def assms(2))
qed simp

lemma recover_length [simp]:
  "length (circuit_breakers (fst (recover_from now is (c, rec)))) = length (circuit_breakers c)"
  by (rule recover_from_induct[where P = "\<lambda>d. length (circuit_breakers d) = length (circuit_breakers c)"])
    simp_all

definition pause_justified :: "controller \<Rightarrow> bool" where
  "pause_justified c \<longleftrightarrow> (paused c \<longrightarrow> has_active_breakers c)"

lemma resolve_justified:
  assumes "pause_justified c"
  shows "pause_justified (fst (resolve_circuit_breaker now bt who c))"
proof (cases "snd (resolve_circuit_breaker now bt who c)")
  case True
  then show ?thesis by (simp add: pause_justified_def resolve_paused)
next
  case False
  then have "map (mark_resolved now who bt) (circuit_breakers c) = circuit_breakers c"
    by (auto intro!: map_idI mark_resolved_inactive)
  then have "has_active_breakers (fst (resolve_circuit_breaker now bt who c)) = has_active_breakers c"
    by (simp add: has_active_iff)
  with assms show ?thesis by (simp add: pause_justified_def resolve_paused)
qed

lemma pc_step_justified: "pause_justified c \<Longrightarrow> pause_justified (pc_step op c)"
proof (cases op)
  case (Pause now key r s)
  then show "pause_justified c \<Longrightarrow> ?thesis"
    by (auto simp: pause_def pause_justified_def has_active_iff is_active_def)
next
  case (Resume now key)
  then show "pause_justified c \<Longrightarrow> ?thesis"
    by (auto simp: resume_def pause_justified_def Let_def)
next
  case (Trigger now bt r s a cd)
  then show ?thesis by (simp add: pause_justified_def has_active_iff)
next
  case (CheckAndRecover now)
  then show "pause_justified c \<Longrightarrow> ?thesis"
    by (simp add: check_and_recover_def recover_from_induct[where P = pause_justified] resolve_justified)
next
  case (Resolve now bt who)
  then show "pause_justified c \<Longrightarrow> ?thesis" by (simp add: resolve_justified)
qed (simp_all add: pause_justified_def add_pause_callback_def add_resume_callback_def has_active_iff)

text \<open>The converse needs that nobody resumes.\<close>

definition breakers_pause :: "controller \<Rightarrow> bool" where
  "breakers_pause c \<longleftrightarrow> (has_active_breakers c \<longrightarrow> paused c)"

lemma resolve_breakers_pause:
  "breakers_pause c \<Longrightarrow> breakers_pause (fst (resolve_circuit_breaker now bt who c))"
  unfolding breakers_pause_def resolve_paused by (auto simp: has_active_iff)

definition is_resume :: "pc_op \<Rightarrow> bool" where
  "is_resume op = (case op of Resume _ _ \<Rightarrow> True | _ \<Rightarrow> False)"

lemma pc_step_breakers_pause:
  "breakers_pause c \<Longrightarrow> \<not> is_resume op \<Longrightarrow> breakers_pause (pc_step op c)"
proof (cases op)
  case (Pause now key r s)
  then show "breakers_pause c \<Longrightarrow> ?thesis"
    by (auto simp: pause_def breakers_pause_def)
next
  case (Resolve now bt who)
  then show "breakers_pause c \<Longrightarrow> ?thesis" by (simp add: resolve_breakers_pause)
next
  case (CheckAndRecover now)
  then show "breakers_pause c \<Longrightarrow> ?thesis"
    by (simp add: check_and_recover_def recover_from_induct[where P = breakers_pause]
        resolve_breakers_pause)
qed (simp_all add: breakers_pause_def is_resume_def add_pause_callback_def add_resume_callback_def
      has_active_iff)

lemma pc_run_invariant:
  assumes "P c" "\<And>op c. op \<in> set ops \<Longrightarrow> P c \<Longrightarrow> P (pc_step op c)"
  shows "P (pc_run ops c)"
  using assms unfolding pc_run_def by (induction ops arbitrary: c) auto

section \<open>Recovery\<close>

lemma due_mark_resolved:
  "recovery_due now (mark_resolved now' who bt b) \<longleftrightarrow> recovery_due now b \<and> breaker_type b \<noteq> bt"
  by (auto simp: recovery_due_def)

text \<open>What the loop over the positions \<open>is\<close> does to a list of events: all active events of the
  types found due are resolved, nothing else changes.\<close>

lemma recover_from_spec:
  assumes "\<forall>i \<in> set is. i < length (circuit_breakers c)"
  shows "\<exists>new. snd (recover_from now is (c, rec)) = rec @ new \<and> distinct new \<and>
     set new = {breaker_type (circuit_breakers c ! i) | i. i \<in> set is \<and> recovery_due now (circuit_breakers c ! i)} \<and>
     circuit_breakers (fst (recover_from now is (c, rec))) =
       map (\<lambda>b. if breaker_type b \<in> set new then mark_resolved now ''auto'' (breaker_type b) b else b)
         (circuit_breakers c)"
  using assms
proof (induction "is" arbitrary: c rec)
  case (Cons i "is")
  let ?b = "circuit_breakers c ! i"
  show ?case
  proof (cases "recovery_due now ?b")
    case False
    from Cons.IH[of c rec] Cons.prems obtain new where
      "snd (recover_from now is (c, rec)) = rec @ new" "distinct new"
      "set new = {breaker_type (circuit_breakers c ! i) | i. i \<in> set is \<and> recovery_due now (circuit_breakers c ! i)}"
      "circuit_breakers (fst (recover_from now is (c, rec))) =
       map (\<lambda>b. if breaker_type b \<in> set new then mark_resolved now ''auto'' (breaker_type b) b else b)
         (circuit_breakers c)" by auto
    with False show ?thesis by (intro exI[of _ new]) auto
  next
    case True
    define c1 where "c1 = fst (resolve_circuit_breaker now (breaker_type ?b) ''auto'' c)"
    have cb1: "circuit_breakers c1 = map (mark_resolved now ''auto'' (breaker_type ?b)) (circuit_breakers c)"
      by (simp add: c1_def)
    from Cons.IH[of c1 "rec @ [breaker_type ?b]"] Cons.prems obtain new where
      new: "snd (recover_from now is (c1, rec @ [breaker_type ?b])) = (rec @ [breaker_type ?b]) @ new"
      and dn: "distinct new"
      and sn: "set new = {breaker_type (circuit_breakers c1 ! i) | i.
            i \<in> set is \<and> recovery_due now (circuit_breakers c1 ! i)}"
      and cb: "circuit_breakers (fst (recover_from now is (c1, rec @ [breaker_type ?b]))) =
       map (\<lambda>b. if breaker_type b \<in> set new then mark_resolved now ''auto'' (breaker_type b) b else b)
         (circuit_breakers c1)" by (auto simp: cb1)
    have sn': "set new = {breaker_type (circuit_breakers c ! j) | j.
        j \<in> set is \<and> recovery_due now (circuit_breakers c ! j)} - {breaker_type ?b}"
    proof (rule set_eqI)
      fix x
      have nth: "circuit_breakers c1 ! j = mark_resolved now ''auto'' (breaker_type ?b) (circuit_breakers c ! j)"
        if "j \<in> set is" for j
        using that Cons.prems by (simp add: cb1)
      have "(\<exists>j. x = breaker_type (circuit_breakers c1 ! j) \<and> j \<in> set is \<and>
            recovery_due now (circuit_breakers c1 ! j)) \<longleftrightarrow>
          (\<exists>j. x = breaker_type (circuit_breakers c ! j) \<and> j \<in> set is \<and>
            recovery_due now (circuit_breakers c ! j) \<and> breaker_type (circuit_breakers c ! j) \<noteq> breaker_type ?b)"
        by (rule ex_cong1) (use nth in \<open>auto simp: due_mark_resolved\<close>)
      then show "x \<in> set new \<longleftrightarrow> x \<in> {breaker_type (circuit_breakers c ! j) | j.
          j \<in> set is \<and> recovery_due now (circuit_breakers c ! j)} - {breaker_type ?b}"
        unfolding sn by auto
    qed
    have "set (breaker_type ?b # new) = {breaker_type (circuit_breakers c ! j) | j.
        j \<in> set (i # is) \<and> recovery_due now (circuit_breakers c ! j)}"
      using True by (auto simp: sn')
    moreover have "distinct (breaker_type ?b # new)" using dn sn' by auto
    moreover have "circuit_breakers (fst (recover_from now (i # is) (c, rec))) =
       map (\<lambda>b. if breaker_type b \<in> set (breaker_type ?b # new)
                then mark_resolved now ''auto'' (breaker_type b) b else b) (circuit_breakers c)"
    proof -
      have notin: "breaker_type ?b \<notin> set new" using sn' by simp
      have step: "recover_from now (i # is) (c, rec) = recover_from now is (c1, rec @ [breaker_type ?b])"
        using True by (simp add: Let_def c1_def)
      show ?thesis unfolding step cb cb1 map_map
        by (rule map_cong[OF refl]) (use notin in \<open>auto simp: mark_resolved_def\<close>)
    qed
    moreover have "snd (recover_from now (i # is) (c, rec)) = rec @ (breaker_type ?b # new)"
      using True new by (simp add: Let_def c1_def[symmetric])
    ultimately show ?thesis by blast
  qed
qed simp

lemma check_and_recover_spec:
  shows "distinct (snd (check_and_recover now c))"
    and "set (snd (check_and_recover now c))
      = breaker_type ` {b \<in> set (circuit_breakers c). recovery_due now b}"
    and "circuit_breakers (fst (check_and_recover now c)) =
       map (\<lambda>b. if breaker_type b \<in> set (snd (check_and_recover now c))
                then mark_resolved now ''auto'' (breaker_type b) b else b) (circuit_breakers c)"
proof -
  let ?is = "[0..<length (circuit_breakers c)]"
  have len: "\<forall>i \<in> set ?is. i < length (circuit_breakers c)" by simp
  obtain new where new: "snd (recover_from now ?is (c, [])) = [] @ new" and d: "distinct new"
    and sn: "set new = {breaker_type (circuit_breakers c ! i) | i.
      i \<in> set ?is \<and> recovery_due now (circuit_breakers c ! i)}"
    and cb: "circuit_breakers (fst (recover_from now ?is (c, []))) =
       map (\<lambda>b. if breaker_type b \<in> set new then mark_resolved now ''auto'' (breaker_type b) b else b)
         (circuit_breakers c)"
    using recover_from_spec[OF len, of now "[]"] by (elim exE conjE)
  have eq: "snd (check_and_recover now c) = new" using new by (simp only: check_and_recover_def append_Nil)
  show "distinct (snd (check_and_recover now c))" unfolding eq by (rule d)
  show "set (snd (check_and_recover now c))
      = breaker_type ` {b \<in> set (circuit_breakers c). recovery_due now b}"
    unfolding eq sn by (auto simp: in_set_conv_nth)
  show "circuit_breakers (fst (check_and_recover now c)) =
       map (\<lambda>b. if breaker_type b \<in> set (snd (check_and_recover now c))
                then mark_resolved now ''auto'' (breaker_type b) b else b) (circuit_breakers c)"
    unfolding eq using cb by (simp only: check_and_recover_def)
qed

section \<open>Properties\<close>

lemma pause_justified_run: "pause_justified (pc_run ops (controller_init key cd))"
proof (rule pc_run_invariant)
  show "pause_justified (controller_init key cd)" by (simp add: pause_justified_def controller_init_def)
qed (rule pc_step_justified)

lemma breakers_pause_run:
  assumes "\<forall>op \<in> set ops. \<not> is_resume op"
  shows "breakers_pause (pc_run ops (controller_init key cd))"
proof (rule pc_run_invariant)
  show "breakers_pause (controller_init key cd)"
    by (simp add: breakers_pause_def controller_init_def has_active_iff)
  show "breakers_pause (pc_step op c)" if "op \<in> set ops" "breakers_pause c" for op c
    using that assms pc_step_breakers_pause by blast
qed

text \<open>In every run of operations from a fresh controller, operations are paused only while some
  circuit breaker (manual ones included) is active: a pause never outlives its causes.\<close>

theorem pause_has_active_breaker:
  "paused (pc_run ops (controller_init key cd)) \<longrightarrow> has_active_breakers (pc_run ops (controller_init key cd))"
  using pause_justified_run by (simp add: pause_justified_def)

theorem pause_has_active_breaker_witness:
  "paused (pc_run [Trigger 5 HIGH_GAS ''gas'' ASGARD False None] (controller_init ''k'' 1800)) \<and>
   has_active_breakers (pc_run [Trigger 5 HIGH_GAS ''gas'' ASGARD False None] (controller_init ''k'' 1800))"
proof -
  have "paused (pc_run [Trigger 5 HIGH_GAS ''gas'' ASGARD False None] (controller_init ''k'' 1800))"
    by (simp add: pc_run_def)
  then show ?thesis
    using pause_has_active_breaker[of "[Trigger 5 HIGH_GAS ''gas'' ASGARD False None]" "''k''" 1800]
    by simp
qed

text \<open>As long as no administrator resumes, an active breaker keeps the bot paused: in every run
  without \<open>resume\<close>, operations are paused exactly while some breaker is active.\<close>

theorem paused_iff_active_breaker:
  assumes "\<forall>op \<in> set ops. \<not> is_resume op"
  shows "paused (pc_run ops (controller_init key cd))
       \<longleftrightarrow> has_active_breakers (pc_run ops (controller_init key cd))"
  using pause_justified_run[of ops key cd] breakers_pause_run[OF assms, of key cd]
  by (auto simp: pause_justified_def breakers_pause_def)

definition wit_ops :: "pc_op list" where
  "wit_ops = [Trigger 0 PRICE_DEVIATION_BREAKER ''dev'' ENTRY True None,
              Trigger 1 HIGH_GAS ''gas'' ASGARD False None, CheckAndRecover (seconds 1800)]"

theorem paused_iff_active_breaker_witness:
  "paused (pc_run wit_ops (controller_init ''k'' 1800)) \<and>
   has_active_breakers (pc_run wit_ops (controller_init ''k'' 1800))"
proof -
  have "\<forall>op \<in> set wit_ops. \<not> is_resume op" by (simp add: wit_ops_def is_resume_def)
  note iff = paused_iff_active_breaker[OF this, of "''k''" 1800]
  have "has_active_breakers (pc_run wit_ops (controller_init ''k'' 1800))" by code_simp
  with iff show ?thesis by simp
qed

text \<open>\<open>check_and_recover\<close> is exact: it reports each breaker type that has a due automatic
  recovery once, resolves the active breakers of exactly these types and no others, and leaves no
  due breaker behind.\<close>

theorem check_and_recover_exact:
  "distinct (snd (check_and_recover now c)) \<and>
   set (snd (check_and_recover now c))
     = breaker_type ` {b \<in> set (circuit_breakers c). recovery_due now b} \<and>
   circuit_breakers (fst (check_and_recover now c)) =
     map (\<lambda>b. if breaker_type b \<in> set (snd (check_and_recover now c))
              then mark_resolved now ''auto'' (breaker_type b) b else b) (circuit_breakers c) \<and>
   (\<forall>b \<in> set (circuit_breakers (fst (check_and_recover now c))). \<not> recovery_due now b)"
proof (intro conjI)
  show "\<forall>b \<in> set (circuit_breakers (fst (check_and_recover now c))). \<not> recovery_due now b"
  proof
    fix b'
    assume "b' \<in> set (circuit_breakers (fst (check_and_recover now c)))"
    then obtain b where b: "b \<in> set (circuit_breakers c)"
      and b': "b' = (if breaker_type b \<in> set (snd (check_and_recover now c))
                then mark_resolved now ''auto'' (breaker_type b) b else b)"
      unfolding check_and_recover_spec(3) by auto
    show "\<not> recovery_due now b'"
    proof (cases "breaker_type b \<in> set (snd (check_and_recover now c))")
      case True
      then show ?thesis using b' by (simp add: due_mark_resolved)
    next
      case False
      then have "\<not> recovery_due now b" using b unfolding check_and_recover_spec(2) by blast
      with False b' show ?thesis by simp
    qed
  qed
qed (rule check_and_recover_spec)+

lemma set_singleton_distinct: "set xs = {x} \<Longrightarrow> distinct xs \<Longrightarrow> xs = [x]"
  by (cases xs; cases "tl xs") (auto dest: subset_singletonD simp: subset_singleton_iff)

theorem check_and_recover_exact_witness:
  "snd (check_and_recover (seconds 1800)
      (pc_run [Trigger 0 PRICE_DEVIATION_BREAKER ''dev'' ENTRY True None] (controller_init ''k'' 1800)))
     = [PRICE_DEVIATION_BREAKER]"
proof -
  let ?c = "pc_run [Trigger 0 PRICE_DEVIATION_BREAKER ''dev'' ENTRY True None] (controller_init ''k'' 1800)"
  have "{b \<in> set (circuit_breakers ?c). recovery_due (seconds 1800) b} = set (circuit_breakers ?c)"
    by (auto simp: pc_run_def trigger_circuit_breaker_def Let_def controller_init_def recovery_due_def
        is_active_def)
  moreover have "breaker_type ` set (circuit_breakers ?c) = {PRICE_DEVIATION_BREAKER}"
    by (auto simp: pc_run_def trigger_circuit_breaker_def Let_def controller_init_def)
  ultimately have img: "breaker_type ` {b \<in> set (circuit_breakers ?c). recovery_due (seconds 1800) b}
      = {PRICE_DEVIATION_BREAKER}" by (simp only:)
  note ex = check_and_recover_exact[of "seconds 1800" ?c]
  from ex img have "set (snd (check_and_recover (seconds 1800) ?c)) = {PRICE_DEVIATION_BREAKER}"
    by (elim conjE) (simp only:)
  moreover from ex have "distinct (snd (check_and_recover (seconds 1800) ?c))" by (elim conjE)
  ultimately show ?thesis by (rule set_singleton_distinct)
qed

text \<open>The administrator's \<open>resume\<close> clears the pause but resolves only the manual breakers:
  every other active breaker stays active while nothing is blocked any more.\<close>

theorem resume_keeps_automatic_breakers:
  assumes "resume now (admin_api_key c) c = Inr c'"
  shows "\<not> paused c' \<and> can_execute c' op \<and>
     get_active_breakers c' = filter (\<lambda>b. breaker_type b \<noteq> MANUAL_BREAKER) (get_active_breakers c)"
proof -
  have cb: "circuit_breakers c' = map (mark_resolved now ''manual'' MANUAL_BREAKER) (circuit_breakers c)"
    and p: "\<not> paused c'"
    using assms by (auto simp: resume_def Let_def split: if_splits)
  have "filter is_active (map (mark_resolved now ''manual'' MANUAL_BREAKER) bs)
      = filter (\<lambda>b. breaker_type b \<noteq> MANUAL_BREAKER) (filter is_active bs)" for bs
    by (induction bs) (auto simp: mark_resolved_inactive)
  then show ?thesis using p by (simp add: get_active_breakers_def cb can_execute_def)
qed

theorem resume_keeps_automatic_breakers_witness:
  "\<exists>c'. resume 9 ''k'' (pc_run [Trigger 5 ASGARD_HEALTH ''hf'' ALL_OPS False None] (controller_init ''k'' 1800))
      = Inr c' \<and> \<not> paused c' \<and> map breaker_type (get_active_breakers c') = [ASGARD_HEALTH]"
proof -
  let ?c = "pc_run [Trigger 5 ASGARD_HEALTH ''hf'' ALL_OPS False None] (controller_init ''k'' 1800)"
  have key: "admin_api_key ?c = ''k''"
    by (simp add: pc_run_def trigger_circuit_breaker_def Let_def controller_init_def)
  obtain c' where r: "resume 9 (admin_api_key ?c) ?c = Inr c'"
    by (simp add: resume_def Let_def)
  have "map breaker_type (filter (\<lambda>b. breaker_type b \<noteq> MANUAL_BREAKER) (get_active_breakers ?c))
      = [ASGARD_HEALTH]" by code_simp
  with resume_keeps_automatic_breakers[OF r, of "''entry''"] r key show ?thesis by metis
qed

text \<open>The scope of the latest trigger alone decides what is blocked: after a trigger with scope
  \<open>s\<close>, an operation can run exactly when \<open>s\<close> does not block it, whatever wider pauses
  (with breakers that are still active) were in force before.\<close>

theorem latest_trigger_decides_scope:
  "can_execute (fst (trigger_circuit_breaker now bt reason s auto cooldown c)) operation
     \<longleftrightarrow> s \<notin> set (blocked_scopes operation)"
  by (simp add: can_execute_def)

text \<open>The two ways to ask agree: for each operation kind, \<open>can_execute\<close> allows it exactly
  when \<open>check_paused\<close> does not report its scope as paused.\<close>

theorem can_execute_iff_not_check_paused:
  "\<forall>(operation, scope) \<in> {(''entry'', ENTRY), (''exit'', EXIT), (''asgard'', ASGARD),
       (''hyperliquid'', HYPERLIQUID)}.
     can_execute c operation \<longleftrightarrow> \<not> check_paused c (Some scope)"
  by (auto simp: can_execute_def check_paused_def blocked_scopes_def)

theorem can_execute_iff_not_check_paused_witness:
  "\<not> can_execute (pc_run [Trigger 5 HIGH_GAS ''g'' ASGARD False None] (controller_init ''k'' 0)) ''asgard''"
  using can_execute_iff_not_check_paused
    [of "pc_run [Trigger 5 HIGH_GAS ''g'' ASGARD False None] (controller_init ''k'' 0)"]
  by (simp add: check_paused_def pc_run_def)

end
