(* ===== verification/PositionSizer.thy ===== *)
theory PositionSizer
  imports Prelude
begin

text \<open>
  Position sizing (\<open>bot/core/position_sizer.py\<close>): how much capital each leg of a trade gets.
  \<open>calculate_position_size\<close> runs inside a \<open>try\<close> that turns every exception into a failed
  \<open>SizingResult\<close>; the error texts are the constructors of \<open>sizing_error\<close>.
\<close>

record position_size =
  per_leg_deployment_usd :: decimal
  ps_position_size_usd :: decimal
  borrowed_usd :: decimal
  ps_leverage :: decimal
  deployment_pct_used :: decimal
  was_capped_by_min :: bool
  was_capped_by_max :: bool
  was_capped_by_balance :: bool

datatype sizing_error =
  NegativeBalances | InsufficientForMinimum decimal decimal | CalculationFailed exn

record sizing_result =
  sz_success :: bool
  sz_size :: "position_size option"
  sz_error :: "sizing_error option"
  solana_balance_usd :: "decimal option"
  hyperliquid_balance_usd :: "decimal option"
  limiting_balance_usd :: "decimal option"

record sizer =
  min_position_usd :: decimal
  default_deployment_pct :: decimal
  max_deployment_pct :: decimal
  default_leverage :: decimal
  max_leverage :: decimal

text \<open>The constructor; \<open>cfg_default\<close> and \<open>cfg_max\<close> are the leverages of the risk
  configuration (3 and 4 when the keys are absent).\<close>

definition sizer_init ::
  "decimal option \<Rightarrow> decimal option \<Rightarrow> decimal option \<Rightarrow> decimal option \<Rightarrow> decimal option
     \<Rightarrow> decimal option \<Rightarrow> decimal option \<Rightarrow> sizer"
where
  "sizer_init mn dep mx lev mxlev cfg_default cfg_max =
     \<lparr>min_position_usd = py_or mn 100, default_deployment_pct = py_or dep (10/100),
      max_deployment_pct = py_or mx (50/100),
      default_leverage = py_or lev (case cfg_default of None \<Rightarrow> 3 | Some d \<Rightarrow> d),
      max_leverage = py_or mxlev (case cfg_max of None \<Rightarrow> 4 | Some d \<Rightarrow> d)\<rparr>"

definition clamp_leverage :: "sizer \<Rightarrow> decimal \<Rightarrow> decimal" where
  "clamp_leverage s lev =
     (if lev > max_leverage s then max_leverage s else if lev < 1 then 1 else lev)"

definition failed_sizing :: "sizing_error \<Rightarrow> sizing_result" where
  "failed_sizing e =
     \<lparr>sz_success = False, sz_size = None, sz_error = Some e, solana_balance_usd = None,
      hyperliquid_balance_usd = None, limiting_balance_usd = None\<rparr>"

definition sized ::
  "sizer \<Rightarrow> decimal \<Rightarrow> decimal \<Rightarrow> decimal \<Rightarrow> decimal \<Rightarrow> decimal \<Rightarrow> decimal \<Rightarrow> decimal \<Rightarrow> bool \<Rightarrow> sizing_result"
where
  "sized s sol hl pct lev per_leg pos borrowed capped =
     (let limiting = min sol hl
      in \<lparr>sz_success = True,
          sz_size = Some \<lparr>per_leg_deployment_usd = per_leg, ps_position_size_usd = pos,
            borrowed_usd = borrowed, ps_leverage = lev, deployment_pct_used = pct,
            was_capped_by_min = capped, was_capped_by_max = (pct \<ge> max_deployment_pct s),
            was_capped_by_balance = (limiting = sol \<or> limiting = hl)\<rparr>,
          sz_error = None, solana_balance_usd = Some sol, hyperliquid_balance_usd = Some hl,
          limiting_balance_usd = Some limiting\<rparr>)"

text \<open>The body of the \<open>try\<close>.\<close>

definition calculate_body ::
  "sizer \<Rightarrow> decimal \<Rightarrow> decimal \<Rightarrow> decimal option \<Rightarrow> decimal option \<Rightarrow> exn + sizing_result"
where
  "calculate_body s sol hl pct0 lev0 =
     (if sol < 0 \<or> hl < 0 then Inr (failed_sizing NegativeBalances)
      else
        let lev = clamp_leverage s (py_or lev0 (default_leverage s));
            pct = min (py_or pct0 (default_deployment_pct s)) (max_deployment_pct s);
            limiting = min sol hl;
            total = dec (limiting * pct);
            per_leg = dec (total / 2);
            pos = dec (per_leg * lev);
            borrowed = dec (pos - per_leg)
        in if pos < min_position_usd s
           then res_bind (ddiv (min_position_usd s) pos) (\<lambda>scale_factor.
                res_bind (ddiv (min_position_usd s) lev) (\<lambda>per_leg'.
                let total' = dec (per_leg' * 2)
                in if total' > limiting
                   then Inr ((failed_sizing (InsufficientForMinimum total' limiting))
                          \<lparr>solana_balance_usd := Some sol, hyperliquid_balance_usd := Some hl,
                           limiting_balance_usd := Some limiting\<rparr>)
                   else Inr (sized s sol hl pct lev per_leg' (min_position_usd s)
                               (dec (min_position_usd s - per_leg')) True)))
           else Inr (sized s sol hl pct lev per_leg pos borrowed False))"

definition calculate_position_size ::
  "sizer \<Rightarrow> decimal \<Rightarrow> decimal \<Rightarrow> decimal option \<Rightarrow> decimal option \<Rightarrow> sizing_result"
where
  "calculate_position_size s sol hl pct0 lev0 =
     (case calculate_body s sol hl pct0 lev0 of
        Inl e \<Rightarrow> failed_sizing (CalculationFailed e)
      | Inr r \<Rightarrow> r)"

definition calculate_for_opportunity ::
  "sizer \<Rightarrow> decimal \<Rightarrow> decimal \<Rightarrow> decimal option \<Rightarrow> decimal option \<Rightarrow> exn + sizing_result"
where
  "calculate_for_opportunity s sol hl target lev0 =
     (let lev = py_or lev0 (default_leverage s)
      in case target of
           None \<Rightarrow> Inr (calculate_position_size s sol hl None (Some lev))
         | Some t \<Rightarrow>
             if t = 0 then Inr (calculate_position_size s sol hl None (Some lev))
             else res_bind (ddiv t lev) (\<lambda>per_leg.
               let total = dec (per_leg * 2); limiting = min sol hl
               in if total > dec (limiting * max_deployment_pct s)
                  then Inr (calculate_position_size s sol hl (Some (max_deployment_pct s)) (Some lev))
                  else if per_leg > sol \<or> per_leg > hl
                  then Inr (calculate_position_size s sol hl (Some (max_deployment_pct s)) (Some lev))
                  else res_bind (ddiv total limiting) (\<lambda>pct.
                    Inr (calculate_position_size s sol hl
                           (Some (min pct (max_deployment_pct s))) (Some lev)))))"

definition get_max_position_size :: "sizer \<Rightarrow> decimal \<Rightarrow> decimal \<Rightarrow> decimal option \<Rightarrow> decimal" where
  "get_max_position_size s sol hl lev0 =
     (let lev = py_or lev0 (max_leverage s);
          max_per_leg = dec (dec (min sol hl * max_deployment_pct s) / 2)
      in dec (max_per_leg * lev))"

definition can_afford_position ::
  "sizer \<Rightarrow> decimal \<Rightarrow> decimal \<Rightarrow> decimal \<Rightarrow> decimal option \<Rightarrow> exn + bool"
where
  "can_afford_position s sol hl target lev0 =
     (let lev = py_or lev0 (default_leverage s)
      in res_bind (ddiv target lev) (\<lambda>per_leg.
           Inr (sol \<ge> per_leg \<and> hl \<ge> per_leg \<and>
                dec (per_leg * 2) \<le> dec (min sol hl * max_deployment_pct s))))"

section \<open>Lemmas\<close>

definition sizer_ok :: "sizer \<Rightarrow> bool" where
  "sizer_ok s \<longleftrightarrow>
     0 < min_position_usd s \<and> 0 < default_deployment_pct s \<and>
     0 < max_deployment_pct s \<and> max_deployment_pct s \<le> 1 \<and> 1 \<le> max_leverage s"

lemma sizer_ok_default: "sizer_ok (sizer_init None None None None None None None)"
  by (simp add: sizer_ok_def sizer_init_def)

lemma clamp_leverage_bounds:
  "1 \<le> max_leverage s \<Longrightarrow> 1 \<le> clamp_leverage s lev \<and> clamp_leverage s lev \<le> max_leverage s"
  by (simp add: clamp_leverage_def)

lemma sized_simps [simp]:
  "sz_success (sized s sol hl pct lev per_leg pos borrowed capped)"
  "sz_size (sized s sol hl pct lev per_leg pos borrowed capped) =
     Some \<lparr>per_leg_deployment_usd = per_leg, ps_position_size_usd = pos,
       borrowed_usd = borrowed, ps_leverage = lev, deployment_pct_used = pct,
       was_capped_by_min = capped, was_capped_by_max = (pct \<ge> max_deployment_pct s),
       was_capped_by_balance = (min sol hl = sol \<or> min sol hl = hl)\<rparr>"
  by (simp_all add: sized_def Let_def)

lemma failed_sizing_simps [simp]:
  "\<not> sz_success (failed_sizing e)" "sz_size (failed_sizing e) = None"
  by (simp_all add: failed_sizing_def)

text \<open>The two ways to succeed.\<close>

lemma sizing_success_cases:
  assumes "sz_size (calculate_position_size s sol hl pct0 lev0) = Some z"
  obtains (plain) lev pct per_leg where
      "lev = clamp_leverage s (py_or lev0 (default_leverage s))"
      "pct = min (py_or pct0 (default_deployment_pct s)) (max_deployment_pct s)"
      "per_leg = dec (dec (min sol hl * pct) / 2)" "0 \<le> sol" "0 \<le> hl"
      "per_leg_deployment_usd z = per_leg" "ps_position_size_usd z = dec (per_leg * lev)"
      "borrowed_usd z = dec (ps_position_size_usd z - per_leg)"
      "min_position_usd s \<le> ps_position_size_usd z" "ps_leverage z = lev"
      "\<not> was_capped_by_min z"
    | (scaled) lev per_leg where
      "lev = clamp_leverage s (py_or lev0 (default_leverage s))"
      "per_leg = dec (min_position_usd s / lev)" "dec (per_leg * 2) \<le> min sol hl" "0 \<le> sol" "0 \<le> hl"
      "per_leg_deployment_usd z = per_leg" "ps_position_size_usd z = min_position_usd s"
      "borrowed_usd z = dec (min_position_usd s - per_leg)" "ps_leverage z = lev" "lev \<noteq> 0"
      "was_capped_by_min z"
proof -
  obtain r where r: "calculate_body s sol hl pct0 lev0 = Inr r" and z: "sz_size r = Some z"
    using assms by (auto simp: calculate_position_size_def split: sum.splits)
  have nn: "0 \<le> sol" "0 \<le> hl"
    using r z by (auto simp: calculate_body_def not_less split: if_splits)
  define lev where "lev = clamp_leverage s (py_or lev0 (default_leverage s))"
  define pct where "pct = min (py_or pct0 (default_deployment_pct s)) (max_deployment_pct s)"
  define per_leg where "per_leg = dec (dec (min sol hl * pct) / 2)"
  note body = r[unfolded calculate_body_def, folded lev_def pct_def, unfolded Let_def, folded per_leg_def]
  show thesis
  proof (cases "dec (per_leg * lev) < min_position_usd s")
    case True
    with body nn obtain q where l0: "lev \<noteq> 0" and q: "q = dec (min_position_usd s / lev)"
      and res: "(if dec (q * 2) > min sol hl
                   then Inr ((failed_sizing (InsufficientForMinimum (dec (q * 2)) (min sol hl)))
                          \<lparr>solana_balance_usd := Some sol, hyperliquid_balance_usd := Some hl,
                           limiting_balance_usd := Some (min sol hl)\<rparr>)
                   else Inr (sized s sol hl pct lev q (min_position_usd s)
                               (dec (min_position_usd s - q)) True)) = (Inr r :: exn + sizing_result)"
      by (auto simp: res_bind_Inr_iff ddiv_Inr_iff)
    have le: "dec (q * 2) \<le> min sol hl" using res z by (auto split: if_splits simp: failed_sizing_def)
    with res have "r = sized s sol hl pct lev q (min_position_usd s) (dec (min_position_usd s - q)) True"
      by simp
    with z have zz: "z = \<lparr>per_leg_deployment_usd = q, ps_position_size_usd = min_position_usd s,
       borrowed_usd = dec (min_position_usd s - q), ps_leverage = lev, deployment_pct_used = pct,
       was_capped_by_min = True, was_capped_by_max = (pct \<ge> max_deployment_pct s),
       was_capped_by_balance = (min sol hl = sol \<or> min sol hl = hl)\<rparr>" by simp
    show thesis by (rule scaled[of lev q]) (use q le nn l0 lev_def in \<open>simp_all add: zz\<close>)
  next
    case False
    with body nn have "r = sized s sol hl pct lev per_leg (dec (per_leg * lev))
        (dec (dec (per_leg * lev) - per_leg)) False" by simp
    with z have zz: "z = \<lparr>per_leg_deployment_usd = per_leg, ps_position_size_usd = dec (per_leg * lev),
       borrowed_usd = dec (dec (per_leg * lev) - per_leg), ps_leverage = lev, deployment_pct_used = pct,
       was_capped_by_min = False, was_capped_by_max = (pct \<ge> max_deployment_pct s),
       was_capped_by_balance = (min sol hl = sol \<or> min sol hl = hl)\<rparr>" by simp
    show thesis
      by (rule plain[of lev pct per_leg]) (use False nn in \<open>simp_all add: lev_def pct_def per_leg_def zz\<close>)
  qed
qed

lemma half_of_deployment_le:
  assumes "0 \<le> l" "0 < p" "p \<le> 1"
  shows "dec (dec (l * p) / 2) \<le> l"
proof -
  have lp: "0 \<le> l * p" "l * p \<le> l" using assms by (simp_all add: mult_left_le)
  let ?e = "1 / (2 * 10 ^ 27) :: rat"
  have e: "0 \<le> 1 + ?e" "(1 + ?e) * (1 + ?e) \<le> 2" by simp_all
  have "dec (l * p) \<le> (1 + ?e) * (l * p)" using dec.rnd_upper[OF lp(1)] .
  also have "\<dots> \<le> (1 + ?e) * l" using lp(2) e(1) by (rule mult_left_mono)
  finally have a: "dec (l * p) / 2 \<le> (1 + ?e) * l / 2" by simp
  have "dec (dec (l * p) / 2) \<le> (1 + ?e) * (dec (l * p) / 2)"
    using dec.rnd_upper[of "dec (l * p) / 2"] lp(1) by simp
  also have "\<dots> \<le> (1 + ?e) * ((1 + ?e) * l / 2)" using a e(1) by (rule mult_left_mono)
  also have "\<dots> = ((1 + ?e) * (1 + ?e)) * (l / 2)" by (simp only: times_divide_eq_right mult.assoc)
  also have "\<dots> \<le> 2 * (l / 2)" using e(2) assms(1) by (intro mult_right_mono) simp_all
  finally show ?thesis by simp
qed

section \<open>Properties\<close>

text \<open>Every size that is returned is at least the minimum position, uses a leverage between 1 and
  the maximum, and asks neither chain for more than its balance; the balances were not negative.\<close>

theorem sizing_sound:
  assumes "sizer_ok s" and "\<forall>p. pct0 = Some p \<longrightarrow> 0 \<le> p"
    and "sz_size (calculate_position_size s sol hl pct0 lev0) = Some z"
  shows "min_position_usd s \<le> ps_position_size_usd z \<and> 1 \<le> ps_leverage z \<and>
     ps_leverage z \<le> max_leverage s \<and> 0 \<le> per_leg_deployment_usd z \<and>
     per_leg_deployment_usd z \<le> sol \<and> per_leg_deployment_usd z \<le> hl"
proof -
  from assms(1) have s: "0 < min_position_usd s" "0 < max_deployment_pct s" "max_deployment_pct s \<le> 1"
    "0 < default_deployment_pct s" "1 \<le> max_leverage s" by (simp_all add: sizer_ok_def)
  note lv = clamp_leverage_bounds[OF s(5)]
  from assms(3) show ?thesis
  proof (cases rule: sizing_success_cases)
    case (plain lev pct per_leg)
    have "0 < py_or pct0 (default_deployment_pct s)"
      using py_or_cases[of pct0 "default_deployment_pct s"] assms(2) s(4)
      by (cases pct0) (auto simp: py_or_def less_le)
    then have p: "0 < pct" "pct \<le> 1" using s plain(2) by auto
    have "0 \<le> min sol hl" using plain(4,5) by simp
    from half_of_deployment_le[OF this p] have "per_leg \<le> min sol hl" by (simp only: plain(3))
    moreover have "0 \<le> per_leg" using p \<open>0 \<le> min sol hl\<close> by (simp add: plain(3))
    ultimately show ?thesis using plain lv by simp
  next
    case (scaled lev per_leg)
    have l1: "1 \<le> lev" using lv scaled(1) by simp
    then have nn: "0 \<le> per_leg" using s(1) by (simp add: scaled(2))
    have "per_leg = dec per_leg" by (simp add: scaled(2))
    also have "\<dots> \<le> dec (per_leg * 2)" using nn by (intro dec.rnd_mono) simp
    finally have "per_leg \<le> min sol hl" using scaled(3) by simp
    then show ?thesis using scaled lv nn by simp
  qed
qed

definition wit_sizer :: sizer where
  "wit_sizer = sizer_init None None None None None None None"

lemma wit_sizer_ok: "sizer_ok wit_sizer"
  unfolding wit_sizer_def by (rule sizer_ok_default)

definition wit_z :: position_size where
  "wit_z = \<lparr>per_leg_deployment_usd = 2500, ps_position_size_usd = 7500, borrowed_usd = 5000,
       ps_leverage = 3, deployment_pct_used = 1/10, was_capped_by_min = False,
       was_capped_by_max = False, was_capped_by_balance = True\<rparr>"

lemma wit_size: "sz_size (calculate_position_size wit_sizer 50000 60000 None None) = Some wit_z"
  by code_simp

theorem sizing_sound_witness:
  "\<exists>z. sz_size (calculate_position_size wit_sizer 50000 60000 None None) = Some z \<and>
     per_leg_deployment_usd z \<le> 50000"
proof -
  have "\<forall>p. None = Some p \<longrightarrow> (0::rat) \<le> p" by simp
  from sizing_sound[OF wit_sizer_ok this wit_size]
  have "per_leg_deployment_usd wit_z \<le> 50000" by (elim conjE)
  with wit_size show ?thesis by blast
qed

text \<open>A size that was not scaled up to the minimum never exceeds the maximum position size
  for the balances and the leverage used.\<close>

theorem sizing_below_maximum:
  assumes "sizer_ok s" and "sz_size (calculate_position_size s sol hl pct0 lev0) = Some z"
    and "\<not> was_capped_by_min z"
  shows "ps_position_size_usd z \<le> get_max_position_size s sol hl (Some (ps_leverage z))"
  using assms(2)
proof (cases rule: sizing_success_cases)
  case (plain lev pct per_leg)
  have l1: "1 \<le> lev" using clamp_leverage_bounds assms(1) plain(1) by (simp add: sizer_ok_def)
  have "min sol hl * pct \<le> min sol hl * max_deployment_pct s"
    using plain(2,4,5) by (intro mult_left_mono) auto
  then have "per_leg \<le> dec (dec (min sol hl * max_deployment_pct s) / 2)"
    unfolding plain(3) by (intro dec.rnd_mono divide_right_mono) simp_all
  then have "dec (per_leg * lev) \<le> dec (dec (dec (min sol hl * max_deployment_pct s) / 2) * lev)"
    using l1 by (intro dec.rnd_mono mult_right_mono) simp_all
  then show ?thesis using plain(7,10) l1 by (simp add: get_max_position_size_def Let_def)
next
  case (scaled lev per_leg)
  with assms(3) show ?thesis by simp
qed

theorem sizing_below_maximum_witness:
  "7500 \<le> get_max_position_size wit_sizer 50000 60000 (Some 3)"
proof -
  have "\<not> was_capped_by_min wit_z" by (simp add: wit_z_def)
  from sizing_below_maximum[OF wit_sizer_ok wit_size this] show ?thesis by (simp add: wit_z_def)
qed

text \<open>Scaling up to the minimum position ignores the deployment cap: with the default limits and
  70 dollars on each chain the sizer deploys 66.67 dollars in total, 95 percent of the limiting
  balance, although at most 50 percent may be deployed.\<close>

theorem minimum_overrides_deployment_cap:
  "\<exists>z. sz_size (calculate_position_size (sizer_init None None None None None None None) 70 70 None None)
        = Some z \<and>
     was_capped_by_min z \<and>
     per_leg_deployment_usd z * 2 > 95/100 * 70 \<and>
     ps_position_size_usd z >
       get_max_position_size (sizer_init None None None None None None None) 70 70 (Some (ps_leverage z))
       - 20 \<and> per_leg_deployment_usd z * 2 >
       max_deployment_pct (sizer_init None None None None None None None) * 70"
proof -
  have "sz_size (calculate_position_size (sizer_init None None None None None None None) 70 70 None None)
    = Some \<lparr>per_leg_deployment_usd = 3333333333333333333333333333 / 10 ^ 26,
        ps_position_size_usd = 100, borrowed_usd = 6666666666666666666666666667 / 10 ^ 26,
        ps_leverage = 3, deployment_pct_used = 1/10, was_capped_by_min = True,
        was_capped_by_max = False, was_capped_by_balance = True\<rparr>" by code_simp
  moreover have "get_max_position_size (sizer_init None None None None None None None) 70 70 (Some 3) = 105/2"
    by code_simp
  moreover have "max_deployment_pct (sizer_init None None None None None None None) = 1/2"
    by (simp add: sizer_init_def)
  ultimately show ?thesis by simp
qed

text \<open>Without funds on one chain the sizer fails on a division by zero, which it reports as a
  failed calculation; it never returns a size.\<close>

theorem sizing_empty_balance:
  assumes "sizer_ok s" and "0 \<le> sol" "0 \<le> hl" "min sol hl = 0"
  shows "calculate_position_size s sol hl pct0 lev0 = failed_sizing (CalculationFailed DivisionByZero)"
  using assms
  by (simp add: calculate_position_size_def calculate_body_def Let_def sizer_ok_def ddiv_def not_less)

theorem sizing_empty_balance_witness:
  "calculate_position_size wit_sizer 0 5000 None None = failed_sizing (CalculationFailed DivisionByZero)"
  using sizing_empty_balance[OF sizer_ok_default, of 0 5000 None None] by (simp add: wit_sizer_def)

text \<open>What \<open>can_afford_position\<close> accepts is sized from its own target: the fallbacks of
  \<open>calculate_for_opportunity\<close> to the maximum deployment are not taken.\<close>

theorem affordable_target_is_sized:
  assumes "can_afford_position s sol hl target lev0 = Inr True" and "target \<noteq> 0" and "min sol hl \<noteq> 0"
  shows "calculate_for_opportunity s sol hl (Some target) lev0 =
     Inr (calculate_position_size s sol hl
       (Some (min (dec (dec (dec (target / py_or lev0 (default_leverage s)) * 2) / min sol hl))
                  (max_deployment_pct s)))
       (Some (py_or lev0 (default_leverage s))))"
  using assms
  by (auto simp: can_afford_position_def calculate_for_opportunity_def Let_def res_bind_Inr_iff
      ddiv_Inr_iff not_less)

theorem affordable_target_is_sized_witness:
  "calculate_for_opportunity wit_sizer 10000 20000 (Some 6000) None =
     Inr (calculate_position_size wit_sizer 10000 20000 (Some (4/10)) (Some 3))"
proof -
  have a: "can_afford_position wit_sizer 10000 20000 6000 None = Inr True" by code_simp
  have b: "min (dec (dec (dec (6000 / py_or None (default_leverage wit_sizer)) * 2) / min 10000 20000))
                  (max_deployment_pct wit_sizer) = 4/10" by code_simp
  have c: "py_or None (default_leverage wit_sizer) = 3" by code_simp
  have n: "(6000::rat) \<noteq> 0" "min 10000 20000 \<noteq> (0::rat)" by simp_all
  show ?thesis using affordable_target_is_sized[OF a n] unfolding b unfolding c .
qed

end
