(* ===== verification/MarketData.thy ===== *)
theory MarketData
  imports Models
begin

text \<open>
  Asgard market data (\<open>bot/venues/asgard/market_data.py\<close>): the parsing of the markets
  response into rates per lending protocol, the two caches, and the choice of the protocol with the
  best net carry. The answer of the markets endpoint is the argument \<open>ans\<close> (a failed call is
  an exception value); numeric fields are the floats their texts parse to.
\<close>

fun protocol_value :: "protocol \<Rightarrow> int" where
  "protocol_value MARGINFI = 0"
| "protocol_value KAMINO = 1"
| "protocol_value SOLEND = 2"
| "protocol_value DRIFT = 3"

definition protocol_of_value :: "int \<Rightarrow> protocol option" where
  "protocol_of_value v =
     (if v = 0 then Some MARGINFI else if v = 1 then Some KAMINO
      else if v = 2 then Some SOLEND else if v = 3 then Some DRIFT else None)"

lemma protocol_of_value_iff: "protocol_of_value v = Some p \<longleftrightarrow> protocol_value p = v"
  by (cases p) (auto simp: protocol_of_value_def)

lemma protocol_value_inj: "protocol_value p = protocol_value q \<longleftrightarrow> p = q"
  by (cases p; cases q) simp_all

text \<open>Protocols are ordered by their value, the order of the tie-breaker.\<close>

instantiation protocol :: linorder
begin

definition less_eq_protocol :: "protocol \<Rightarrow> protocol \<Rightarrow> bool" where
  "p \<le> q \<longleftrightarrow> protocol_value p \<le> protocol_value q"

definition less_protocol :: "protocol \<Rightarrow> protocol \<Rightarrow> bool" where
  "p < q \<longleftrightarrow> protocol_value p < protocol_value q"

instance
  by standard (auto simp: less_eq_protocol_def less_protocol_def protocol_value_inj)

end

section \<open>Records\<close>

definition USDC_MINT :: string where
  "USDC_MINT = ''EPjFWdd5AufqSSqeM2qN1xzybapC8G4wEGGkZwyTDt1v''"

record protocol_rate =
  pr_protocol :: protocol
  pr_lending_rate :: pyfloat
  pr_borrowing_rate :: pyfloat
  max_borrow_capacity :: pyfloat
  pr_token_a_mint :: string
  pr_token_b_mint :: string
  token_a_bank :: string
  token_b_bank :: string
  pr_max_leverage :: pyfloat

record net_carry_result =
  nc_protocol :: protocol
  nc_lending_rate :: pyfloat
  nc_borrowing_rate :: pyfloat
  net_carry_rate :: pyfloat
  nc_net_carry_apy :: pyfloat
  nc_leverage :: pyfloat
  has_capacity :: bool

text \<open>A liquidity source of the response; \<open>None\<close> is an absent key (for the capacity also a
  text that is not a number).\<close>

record liquidity_source =
  ls_isActive :: "bool option"
  ls_lendingProtocol :: "int option"
  ls_tokenALendingApyRate :: "pyfloat option"
  ls_tokenBBorrowingApyRate :: "pyfloat option"
  ls_tokenBMaxBorrowCapacity :: "pyfloat option"
  ls_longMaxLeverage :: "pyfloat option"
  ls_tokenABank :: "string option"
  ls_tokenBBank :: "string option"

record market_strategy =
  ms_tokenAMint :: "string option"
  ms_tokenBMint :: "string option"
  ms_liquiditySources :: "liquidity_source list"

record market_data =
  strategies_cache :: "market_strategy list option"
  rates_cache :: "(string, protocol_rate list) dict option"

definition market_data_init :: market_data where
  "market_data_init = \<lparr>strategies_cache = None, rates_cache = None\<rparr>"

definition get_or :: "'a option \<Rightarrow> 'a \<Rightarrow> 'a" where
  "get_or x d = (case x of None \<Rightarrow> d | Some v \<Rightarrow> v)"

section \<open>Fetching and parsing\<close>

definition get_markets ::
  "exn + market_strategy list \<Rightarrow> bool \<Rightarrow> (market_data, market_strategy list) action" where
  "get_markets ans use_cache md =
     (case (if use_cache then strategies_cache md else None) of
        Some ss \<Rightarrow> (md, Inr ss)
      | None \<Rightarrow>
          (case ans of
             Inl e \<Rightarrow> (md, Inl e)
           | Inr ss \<Rightarrow> (md\<lparr>strategies_cache := Some ss\<rparr>, Inr ss)))"

definition source_rate :: "market_strategy \<Rightarrow> liquidity_source \<Rightarrow> protocol_rate option" where
  "source_rate st s =
     (if \<not> get_or (ls_isActive s) False then None
      else case protocol_of_value (get_or (ls_lendingProtocol s) (-1)) of
             None \<Rightarrow> None
           | Some p \<Rightarrow> Some
               \<lparr>pr_protocol = p, pr_lending_rate = get_or (ls_tokenALendingApyRate s) 0,
                pr_borrowing_rate = get_or (ls_tokenBBorrowingApyRate s) 0,
                max_borrow_capacity = get_or (ls_tokenBMaxBorrowCapacity s) 0,
                pr_token_a_mint = get_or (ms_tokenAMint st) '''',
                pr_token_b_mint = get_or (ms_tokenBMint st) '''',
                token_a_bank = get_or (ls_tokenABank s) '''',
                token_b_bank = get_or (ls_tokenBBank s) '''',
                pr_max_leverage = get_or (ls_longMaxLeverage s) 4\<rparr>)"

definition strategy_rates :: "string \<Rightarrow> market_strategy \<Rightarrow> protocol_rate list" where
  "strategy_rates mnt st =
     (if ms_tokenAMint st \<noteq> Some mnt \<or> ms_tokenBMint st \<noteq> Some USDC_MINT then []
      else List.map_filter (source_rate st) (ms_liquiditySources st))"

definition parse_rates :: "string \<Rightarrow> market_strategy list \<Rightarrow> protocol_rate list" where
  "parse_rates mnt ss = sort_key (\<lambda>r. protocol_value (pr_protocol r)) (concat (map (strategy_rates mnt) ss))"

definition get_borrowing_rates ::
  "exn + market_strategy list \<Rightarrow> string \<Rightarrow> bool \<Rightarrow> (market_data, protocol_rate list) action" where
  "get_borrowing_rates ans mnt use_cache md =
     (case (if use_cache then Option.bind (rates_cache md) (dict_get mnt) else None) of
        Some rs \<Rightarrow> (md, Inr rs)
      | None \<Rightarrow>
          andthen (get_markets ans use_cache) (\<lambda>ss md1.
            let rs = parse_rates mnt ss
            in (md1\<lparr>rates_cache := Some (dict_put mnt rs (get_or (rates_cache md1) []))\<rparr>, Inr rs)) md)"

definition clear_cache :: "market_data \<Rightarrow> market_data" where
  "clear_cache md = md\<lparr>strategies_cache := None, rates_cache := None\<rparr>"

section \<open>Net carry\<close>

definition net_carry :: "pyfloat \<Rightarrow> protocol_rate \<Rightarrow> pyfloat" where
  "net_carry lev r =
     flt (flt (lev * pr_lending_rate r) - flt (flt (lev - 1) * pr_borrowing_rate r))"

definition carry_result :: "pyfloat \<Rightarrow> bool \<Rightarrow> protocol_rate \<Rightarrow> net_carry_result" where
  "carry_result lev cap r =
     \<lparr>nc_protocol = pr_protocol r, nc_lending_rate = pr_lending_rate r,
      nc_borrowing_rate = pr_borrowing_rate r, net_carry_rate = net_carry lev r,
      nc_net_carry_apy = net_carry lev r, nc_leverage = lev, has_capacity = cap\<rparr>"

definition protocol_net_carry_apy ::
  "exn + market_strategy list \<Rightarrow> protocol \<Rightarrow> string \<Rightarrow> pyfloat
     \<Rightarrow> (market_data, net_carry_result option) action"
where
  "protocol_net_carry_apy ans p mnt lev =
     andthen (get_borrowing_rates ans mnt True) (\<lambda>rs.
       ret (map_option (carry_result lev True) (find (\<lambda>r. pr_protocol r = p) rs)))"

definition required_capacity :: "pyfloat \<Rightarrow> pyfloat \<Rightarrow> pyfloat \<Rightarrow> pyfloat" where
  "required_capacity size_usd lev buffer = flt (flt (size_usd * flt (lev - 1)) * buffer)"

text \<open>One iteration of the selection loop.\<close>

definition consider_rate ::
  "pyfloat \<Rightarrow> pyfloat \<Rightarrow> protocol_rate \<Rightarrow> net_carry_result option \<Rightarrow> net_carry_result option" where
  "consider_rate required lev r best =
     (if pr_max_leverage r < lev then best
      else if \<not> max_borrow_capacity r \<ge> required then best
      else let x = carry_result lev True r in
        case best of
          None \<Rightarrow> Some x
        | Some b \<Rightarrow>
            if nc_net_carry_apy x > nc_net_carry_apy b then Some x
            else if nc_net_carry_apy x = nc_net_carry_apy b \<and>
                    protocol_value (nc_protocol x) < protocol_value (nc_protocol b) then Some x
            else Some b)"

definition select_best_protocol ::
  "exn + market_strategy list \<Rightarrow> asset \<Rightarrow> pyfloat \<Rightarrow> pyfloat \<Rightarrow> pyfloat
     \<Rightarrow> (market_data, net_carry_result option) action"
where
  "select_best_protocol ans a size_usd lev buffer =
     andthen (get_borrowing_rates ans (get_mint a) True) (\<lambda>rs.
       ret (fold (consider_rate (required_capacity size_usd lev buffer) lev) rs None))"

section \<open>Lemmas\<close>

definition eligible :: "pyfloat \<Rightarrow> pyfloat \<Rightarrow> protocol_rate \<Rightarrow> bool" where
  "eligible required lev r \<longleftrightarrow> lev \<le> pr_max_leverage r \<and> required \<le> max_borrow_capacity r"

lemma carry_result_sel [simp]:
  "nc_protocol (carry_result lev cap r) = pr_protocol r"
  "nc_net_carry_apy (carry_result lev cap r) = net_carry lev r"
  "has_capacity (carry_result lev cap r) = cap"
  by (simp_all add: carry_result_def)

text \<open>The lexicographic preference of the selection: higher carry, then lower protocol.\<close>

definition preferred :: "net_carry_result \<Rightarrow> net_carry_result \<Rightarrow> bool" where
  "preferred b x \<longleftrightarrow>
     nc_net_carry_apy x < nc_net_carry_apy b \<or>
     nc_net_carry_apy x = nc_net_carry_apy b \<and> nc_protocol b \<le> nc_protocol x"

lemma preferred_refl [simp]: "preferred b b"
  by (simp add: preferred_def)

lemma preferred_trans: "preferred a b \<Longrightarrow> preferred b c \<Longrightarrow> preferred a c"
  by (auto simp: preferred_def)

lemma consider_rate_cases:
  "consider_rate required lev r best =
     (if \<not> eligible required lev r then best
      else case best of None \<Rightarrow> Some (carry_result lev True r)
        | Some b \<Rightarrow> if preferred b (carry_result lev True r) then Some b
                    else Some (carry_result lev True r))"
  by (auto simp: consider_rate_def eligible_def preferred_def Let_def less_eq_protocol_def
      split: option.splits)

lemma select_fold:
  assumes "fold (consider_rate required lev) rs best = out"
  shows "(out = None \<longleftrightarrow> best = None \<and> filter (eligible required lev) rs = []) \<and>
    (\<forall>b. out = Some b \<longrightarrow>
       (best = Some b \<or> (\<exists>r \<in> set rs. eligible required lev r \<and> b = carry_result lev True r)) \<and>
       (\<forall>c. best = Some c \<longrightarrow> preferred b c) \<and>
       (\<forall>r \<in> set rs. eligible required lev r \<longrightarrow> preferred b (carry_result lev True r)))"
  using assms
proof (induction rs arbitrary: best)
  case (Cons r rs)
  define best1 where "best1 = consider_rate required lev r best"
  have f: "fold (consider_rate required lev) rs best1 = out"
    using Cons.prems by (simp add: best1_def)
  note IH = Cons.IH[OF f]
  show ?case
  proof (cases "eligible required lev r")
    case False
    then have "best1 = best" by (simp add: best1_def consider_rate_cases)
    with IH False show ?thesis by auto
  next
    case True
    define x where "x = carry_result lev True r"
    have total: "preferred d x \<or> preferred x d" for d
      by (auto simp: preferred_def)
    obtain c where c: "best1 = Some c" "preferred c x" "c = x \<or> best = Some c"
      "\<And>d. best = Some d \<Longrightarrow> preferred c d"
    proof (cases best)
      case None
      then have "best1 = Some x" using True by (simp add: best1_def consider_rate_cases x_def)
      with None that show ?thesis by simp
    next
      case (Some d)
      then have "best1 = Some (if preferred d x then d else x)"
        using True by (simp add: best1_def consider_rate_cases x_def)
      with Some that total[of d] show ?thesis by (cases "preferred d x") auto
    qed
    from IH c(1) obtain b where b: "out = Some b" by (cases out) auto
    with IH c(1) have bc: "preferred b c" by simp
    have "preferred b x" using preferred_trans[OF bc c(2)] .
    moreover have "preferred b d" if "best = Some d" for d
      using preferred_trans[OF bc c(4)[OF that]] .
    ultimately show ?thesis using IH b c(1,3) True by (auto simp: x_def)
  qed
qed auto

lemma get_borrowing_rates_fresh:
  assumes "rates_cache md = None" "strategies_cache md = None"
  shows "snd (get_borrowing_rates ans mnt True md) =
     (case ans of Inl e \<Rightarrow> Inl e | Inr ss \<Rightarrow> Inr (parse_rates mnt ss))"
  using assms
  by (simp add: get_borrowing_rates_def andthen_def get_markets_def Let_def split: sum.splits)

lemma get_borrowing_rates_stored:
  assumes "get_borrowing_rates ans mnt True md = (md1, Inr rs)"
    and "case rates_cache md of None \<Rightarrow> True | Some d \<Rightarrow> dict_ok d"
  shows "Option.bind (rates_cache md1) (dict_get mnt) = Some rs"
proof (cases "Option.bind (rates_cache md) (dict_get mnt)")
  case (Some rs')
  with assms(1) show ?thesis by (auto simp: get_borrowing_rates_def)
next
  case None
  with assms(1) obtain md0 ss where g: "get_markets ans True md = (md0, Inr ss)"
    and md1: "md1 = md0\<lparr>rates_cache := Some (dict_put mnt rs (get_or (rates_cache md0) []))\<rparr>"
    by (auto simp: get_borrowing_rates_def andthen_Inr_iff Let_def)
  have "rates_cache md0 = rates_cache md"
    using g by (auto simp: get_markets_def split: option.splits sum.splits)
  then have "dict_ok (get_or (rates_cache md0) [])"
    using assms(2) by (simp add: get_or_def dict_ok_def split: option.splits)
  then show ?thesis using dict.get_put_same by (simp add: md1)
qed

lemma get_borrowing_rates_cached:
  assumes "get_borrowing_rates ans mnt True md = (md1, Inr rs)"
    and "case rates_cache md of None \<Rightarrow> True | Some d \<Rightarrow> dict_ok d"
  shows "get_borrowing_rates ans' mnt True md1 = (md1, Inr rs)"
  using get_borrowing_rates_stored[OF assms] by (simp add: get_borrowing_rates_def)

section \<open>Properties\<close>

text \<open>On fresh caches \<open>select_best_protocol\<close> returns the best eligible protocol: among
  the parsed rates that support the leverage and have the required capacity it returns one of
  maximal net carry, the lowest protocol on a tie, and nothing exactly when none is eligible.\<close>

theorem select_best_protocol_optimal:
  assumes "rates_cache md = None" "strategies_cache md = None"
    and "select_best_protocol (Inr ss) a size_usd lev buffer md = (md1, Inr out)"
  shows "let rs = filter (eligible (required_capacity size_usd lev buffer) lev) (parse_rates (get_mint a) ss)
     in (out = None \<longleftrightarrow> rs = []) \<and>
        (\<forall>b. out = Some b \<longrightarrow>
           (\<exists>r \<in> set rs. b = carry_result lev True r) \<and>
           (\<forall>r \<in> set rs. net_carry lev r < nc_net_carry_apy b \<or>
              net_carry lev r = nc_net_carry_apy b \<and> nc_protocol b \<le> pr_protocol r))"
proof -
  let ?req = "required_capacity size_usd lev buffer"
  let ?rs = "parse_rates (get_mint a) ss"
  obtain md0 rs where g: "get_borrowing_rates (Inr ss) (get_mint a) True md = (md0, Inr rs)"
    and out: "fold (consider_rate ?req lev) rs None = out"
    using assms(3) by (auto simp: select_best_protocol_def andthen_Inr_iff)
  have "rs = ?rs"
    using get_borrowing_rates_fresh[OF assms(1,2), of "Inr ss" "get_mint a"] g by simp
  with select_fold[OF out] show ?thesis by (auto simp: Let_def preferred_def)
qed

definition wit_source :: "int \<Rightarrow> pyfloat \<Rightarrow> liquidity_source" where
  "wit_source p lend =
     \<lparr>ls_isActive = Some True, ls_lendingProtocol = Some p, ls_tokenALendingApyRate = Some lend,
      ls_tokenBBorrowingApyRate = Some (1/16), ls_tokenBMaxBorrowCapacity = Some 100000,
      ls_longMaxLeverage = None, ls_tokenABank = None, ls_tokenBBank = None\<rparr>"

definition wit_markets :: "market_strategy list" where
  "wit_markets =
     [\<lparr>ms_tokenAMint = Some (get_mint SOL), ms_tokenBMint = Some USDC_MINT,
       ms_liquiditySources = [wit_source 3 (1/16), wit_source 1 (1/8), wit_source 7 1]\<rparr>]"

lemma wit_rates:
  "parse_rates (get_mint SOL) wit_markets =
     map (\<lambda>(p, lend). \<lparr>pr_protocol = p, pr_lending_rate = lend, pr_borrowing_rate = 1/16,
        max_borrow_capacity = 100000, pr_token_a_mint = get_mint SOL, pr_token_b_mint = USDC_MINT,
        token_a_bank = [], token_b_bank = [], pr_max_leverage = 4\<rparr>) [(KAMINO, 1/8), (DRIFT, 1/16)]"
  by (simp add: parse_rates_def strategy_rates_def wit_markets_def wit_source_def source_rate_def
      get_or_def protocol_of_value_def List.map_filter_def)

lemma wit_best:
  "\<exists>md1 b. select_best_protocol (Inr wit_markets) SOL 3000 3 (flt (12/10)) market_data_init =
     (md1, Inr (Some b)) \<and> nc_protocol b = KAMINO"
proof -
  have c: "\<not> flt (flt (3/8) - flt (1/8)) < flt (flt (3/16) - flt (1/8))" by code_simp
  have r: "\<not> 100000 < required_capacity 3000 3 (flt (12/10))" by code_simp
  show ?thesis
    using r c
    by (auto simp: select_best_protocol_def andthen_def get_borrowing_rates_def get_markets_def
        market_data_init_def wit_rates Let_def consider_rate_def carry_result_def net_carry_def not_le)
qed

theorem select_best_protocol_optimal_witness:
  "\<exists>md1 b. select_best_protocol (Inr wit_markets) SOL 3000 3 (flt (12/10)) market_data_init =
     (md1, Inr (Some b)) \<and> nc_protocol b = KAMINO \<and>
     (\<forall>r \<in> set (filter (eligible (required_capacity 3000 3 (flt (12/10))) 3)
        (parse_rates (get_mint SOL) wit_markets)). net_carry 3 r \<le> nc_net_carry_apy b)"
proof -
  let ?r = "select_best_protocol (Inr wit_markets) SOL 3000 3 (flt (12/10)) market_data_init"
  obtain md1 b where r: "?r = (md1, Inr (Some b))" and k: "nc_protocol b = KAMINO"
    using wit_best by blast
  have "rates_cache market_data_init = None" "strategies_cache market_data_init = None"
    by (simp_all add: market_data_init_def)
  from select_best_protocol_optimal[OF this r] r k show ?thesis
    by (force simp: Let_def)
qed

end
