(* ===== verification/FundingOracle.thy ===== *)
theory FundingOracle
  imports MarketData
begin

text \<open>
  The Hyperliquid funding oracle (\<open>bot/venues/hyperliquid/funding_oracle.py\<close>): parsing of the
  metadata and context response, current rates, the cached funding history, the prediction from the
  price spread, the volatility filter and the entry criteria on the funding side.

  Responses of the client are arguments (an exception value is a failed call). The key
  \<open>coin_hours\<close> of the history cache is the pair of its parts. The square root is correctly
  rounded. The class's \<open>FundingRate\<close> and \<open>FundingPrediction\<close> are not the models of the same
  name.
\<close>

section \<open>Data\<close>

record hl_funding =
  hf_coin :: string
  hf_funding_rate :: pyfloat
  hf_timestamp_ms :: int
  annualized_rate :: pyfloat

definition hf_rate_8hr :: "hl_funding \<Rightarrow> pyfloat" where
  "hf_rate_8hr f = flt (hf_funding_rate f * 8)"

record hl_prediction =
  hq_coin :: string
  predicted_rate :: pyfloat
  hq_confidence :: string
  hq_premium :: pyfloat
  hq_interest_rate :: pyfloat

text \<open>A field of a response read with \<open>float(d.get(key, default))\<close>.\<close>

datatype num_field = Absent | Number pyfloat | NotNumber

fun float_of :: "num_field \<Rightarrow> pyfloat \<Rightarrow> exn + pyfloat" where
  "float_of Absent d = Inr d"
| "float_of (Number x) d = Inr x"
| "float_of NotNumber d = Inl (ValueError ''could not convert to float'')"

record coin_ctx =
  cx_funding :: num_field
  cx_markPx :: num_field
  cx_oraclePx :: num_field
  cx_premium :: num_field

text \<open>The response in its two accepted shapes; absent keys of the dictionary are empty lists, and
  a name is absent when the key is missing.\<close>

datatype meta_response =
    PairOf "string option list" "coin_ctx list"
  | DictOf "string option list" "coin_ctx list"
  | OtherShape

record funding_entry =
  fe_fundingRate :: num_field
  fe_time :: "int option"

record funding_oracle =
  history_cache :: "(string \<times> int, hl_funding list) dict"

definition funding_oracle_init :: funding_oracle where
  "funding_oracle_init = \<lparr>history_cache = []\<rparr>"

definition ANNUALIZE_FACTOR :: pyfloat where "ANNUALIZE_FACTOR = 24 * 365"

section \<open>Current rates\<close>

fun parse_meta_and_ctxs :: "meta_response \<Rightarrow> exn + (string option list \<times> coin_ctx list)" where
  "parse_meta_and_ctxs (PairOf u cs) = Inr (u, cs)"
| "parse_meta_and_ctxs (DictOf u cs) = Inr (u, cs)"
| "parse_meta_and_ctxs OtherShape = Inl (ValueError ''Unexpected metaAndAssetCtxs format'')"

text \<open>The loop over the universe with its contexts; it breaks when the contexts run out.\<close>

fun collect_rates ::
  "int \<Rightarrow> string option list \<Rightarrow> coin_ctx list \<Rightarrow> (string, hl_funding) dict \<Rightarrow> exn + (string, hl_funding) dict"
where
  "collect_rates now (n # ns) (c # cs) d =
     (case n of
        None \<Rightarrow> collect_rates now ns cs d
      | Some coin \<Rightarrow>
          if coin = [] then collect_rates now ns cs d
          else (case float_of (cx_funding c) 0 of
                  Inl e \<Rightarrow> Inl e
                | Inr f \<Rightarrow> collect_rates now ns cs
                    (dict_put coin \<lparr>hf_coin = coin, hf_funding_rate = f, hf_timestamp_ms = now,
                       annualized_rate = flt (f * ANNUALIZE_FACTOR)\<rparr> d)))"
| "collect_rates now ns cs d = Inr d"

definition get_current_funding_rates ::
  "int \<Rightarrow> exn + meta_response \<Rightarrow> exn + (string, hl_funding) dict" where
  "get_current_funding_rates now ans =
     res_bind ans (\<lambda>r. res_bind (parse_meta_and_ctxs r) (\<lambda>(u, cs). collect_rates now u cs []))"

fun find_coin_ctx :: "string option list \<Rightarrow> coin_ctx list \<Rightarrow> string \<Rightarrow> coin_ctx option" where
  "find_coin_ctx (n # ns) (c # cs) coin = (if n = Some coin then Some c else find_coin_ctx ns cs coin)"
| "find_coin_ctx ns cs coin = None"

section \<open>Funding history\<close>

definition history_rate :: "string \<Rightarrow> funding_entry \<Rightarrow> exn + hl_funding" where
  "history_rate coin h =
     res_bind (float_of (fe_fundingRate h) 0) (\<lambda>r.
       Inr \<lparr>hf_coin = coin, hf_funding_rate = r, hf_timestamp_ms = get_or (fe_time h) 0,
            annualized_rate = flt (r * ANNUALIZE_FACTOR)\<rparr>)"

definition get_funding_history ::
  "exn + funding_entry list \<Rightarrow> string \<Rightarrow> int \<Rightarrow> (funding_oracle, hl_funding list) action" where
  "get_funding_history ans coin hours fo =
     (case dict_get (coin, hours) (history_cache fo) of
        Some h \<Rightarrow> (fo, Inr h)
      | None \<Rightarrow>
          (case res_bind ans (res_map (history_rate coin)) of
             Inl e \<Rightarrow> (fo, Inl e)
           | Inr rs \<Rightarrow>
               (let h = sort_key hf_timestamp_ms rs
                in (fo\<lparr>history_cache := dict_put (coin, hours) h (history_cache fo)\<rparr>, Inr h))))"

section \<open>Prediction\<close>

definition calculate_premium :: "pyfloat \<Rightarrow> pyfloat \<Rightarrow> pyfloat" where
  "calculate_premium mark index =
     (if index = 0 then 0 else flt (flt (mark - index) / index))"

definition interest :: pyfloat where
  "interest = max (- flt (5/10000)) (min (flt (5/10000)) (flt (1/10000)))"

definition prediction_of :: "string \<Rightarrow> coin_ctx \<Rightarrow> exn + hl_prediction" where
  "prediction_of coin c =
     res_bind (float_of (cx_markPx c) 0) (\<lambda>mark.
     res_bind (float_of (cx_oraclePx c) mark) (\<lambda>index.
     let premium = calculate_premium mark index in
     res_bind (float_of (cx_premium c) 0) (\<lambda>api.
       Inr \<lparr>hq_coin = coin, predicted_rate = flt (premium + interest),
            hq_confidence = (if (api < 0) = (premium < 0)
              then (if \<bar>premium\<bar> > flt (5/10000) then ''high'' else ''medium'') else ''low''),
            hq_premium = premium, hq_interest_rate = interest\<rparr>)))"

definition predict_next_funding :: "exn + meta_response \<Rightarrow> string \<Rightarrow> exn + hl_prediction" where
  "predict_next_funding ans coin =
     res_bind ans (\<lambda>r. res_bind (parse_meta_and_ctxs r) (\<lambda>(u, cs).
       case find_coin_ctx u cs coin of
         None \<Rightarrow> Inl (ValueError ''Coin not found in asset contexts'')
       | Some c \<Rightarrow> prediction_of coin c))"

section \<open>Volatility\<close>

text \<open>\<open>x ** 0.5\<close>: the integer square root of the scaled argument, one digit in base 4 per call,
  with a sticky bit so that the final rounding to 53 bits is correct.\<close>

function isqrt :: "nat \<Rightarrow> nat" where
  "isqrt n = (if n = 0 then 0
     else let r = 2 * isqrt (n div 4) in if (r + 1) * (r + 1) \<le> n then r + 1 else r)"
  by pat_completeness auto
termination by (relation "measure id") auto

declare isqrt.simps [simp del]

definition fsqrt :: "pyfloat \<Rightarrow> pyfloat" where
  "fsqrt x =
     (if x \<le> 0 then 0
      else let k = 64 - mag 2 x div 2;
               y = x * 4 powi k;
               r = isqrt (nat \<lfloor>y\<rfloor>)
           in flt (of_nat (2 * r + (if of_nat (r * r) = y then 0 else 1)) / (2 * 2 powi k)))"

definition fsum :: "pyfloat list \<Rightarrow> pyfloat" where
  "fsum xs = fold (\<lambda>x acc. flt (acc + x)) xs 0"

definition fmean :: "pyfloat list \<Rightarrow> pyfloat" where
  "fmean xs = flt (fsum xs / of_nat (length xs))"

definition square_dev :: "pyfloat \<Rightarrow> pyfloat \<Rightarrow> pyfloat" where
  "square_dev m r = (let d = flt (r - m) in flt (d * d))"

definition volatility_of :: "pyfloat list \<Rightarrow> pyfloat" where
  "volatility_of rates =
     (if length rates < 2 then 0
      else let mean_abs = fmean (map abs rates)
           in if mean_abs = 0 then 0
              else flt (fsqrt (fmean (map (square_dev (fmean rates)) rates)) / mean_abs))"

definition calculate_funding_volatility ::
  "exn + funding_entry list \<Rightarrow> string \<Rightarrow> int \<Rightarrow> (funding_oracle, pyfloat) action" where
  "calculate_funding_volatility ans coin hours =
     andthen (get_funding_history ans coin hours) (\<lambda>h. ret (volatility_of (map hf_funding_rate h)))"

section \<open>Entry criteria\<close>

record funding_criteria =
  current_negative :: bool
  predicted_negative :: bool
  volatility_acceptable :: bool
  cri_current_rate :: pyfloat
  cri_current_annualized :: pyfloat
  cri_predicted_rate :: pyfloat
  cri_volatility :: pyfloat
  cri_confidence :: string
  should_enter :: bool

text \<open>The dictionary of criteria, or the error text that replaces it.\<close>

definition check_funding_entry ::
  "int \<Rightarrow> exn + meta_response \<Rightarrow> exn + meta_response \<Rightarrow> exn + funding_entry list \<Rightarrow> string
     \<Rightarrow> (funding_oracle, bool \<times> (string + funding_criteria)) action"
where
  "check_funding_entry now cur pred hist coin =
     catching
       (andthen (lift_result (get_current_funding_rates now cur)) (\<lambda>rates.
        case dict_get coin rates of
          None \<Rightarrow> ret (False, Inl ''No funding data'')
        | Some c \<Rightarrow>
            andthen (lift_result (predict_next_funding pred coin)) (\<lambda>q.
            andthen (calculate_funding_volatility hist coin 168) (\<lambda>v.
            let cn = hf_funding_rate c < 0; pn = predicted_rate q < 0; va = v < 5/10;
                enter = cn \<and> pn \<and> va
            in ret (enter, Inr \<lparr>current_negative = cn, predicted_negative = pn, volatility_acceptable = va,
                 cri_current_rate = hf_funding_rate c, cri_current_annualized = annualized_rate c,
                 cri_predicted_rate = predicted_rate q, cri_volatility = v,
                 cri_confidence = hq_confidence q, should_enter = enter\<rparr>)))))
       (\<lambda>e. ret (False, Inl ''error''))"

definition clear_history :: "funding_oracle \<Rightarrow> funding_oracle" where
  "clear_history fo = fo\<lparr>history_cache := []\<rparr>"

section \<open>Lemmas\<close>

lemma isqrt_bounds: "isqrt n * isqrt n \<le> n \<and> n < (isqrt n + 1) * (isqrt n + 1)"
proof (induction n rule: isqrt.induct)
  case (1 n)
  show ?case
  proof (cases "n = 0")
    case True
    then show ?thesis by (simp add: isqrt.simps)
  next
    case False
    define r where "r = isqrt (n div 4)"
    have "r * r \<le> n div 4" "n div 4 < (r + 1) * (r + 1)" using 1[OF False] by (auto simp: r_def)
    then have "4 * (r * r) \<le> n" "n < 4 * ((r + 1) * (r + 1))" by linarith+
    moreover have "(2 * r + 1 + 1) * (2 * r + 1 + 1) = 4 * ((r + 1) * (r + 1))"
      "(2 * r) * (2 * r) = 4 * (r * r)" by (simp_all add: algebra_simps)
    ultimately show ?thesis
      using False by (simp add: isqrt.simps[of n] r_def[symmetric] Let_def)
  qed
qed

lemma fsqrt_nonneg: "0 \<le> fsqrt x"
  by (simp add: fsqrt_def Let_def)

lemma fsqrt_0 [simp]: "fsqrt 0 = 0"
  by (simp add: fsqrt_def)

lemma fsum_snoc: "fsum (xs @ [x]) = flt (fsum xs + x)"
  by (simp add: fsum_def)

lemma fsum_nonneg: "\<forall>x \<in> set xs. 0 \<le> x \<Longrightarrow> 0 \<le> fsum xs"
  by (induction xs rule: rev_induct) (simp_all add: fsum_snoc, simp add: fsum_def)

lemma fmean_nonneg: "\<forall>x \<in> set xs. 0 \<le> x \<Longrightarrow> 0 \<le> fmean xs"
  by (simp add: fmean_def fsum_nonneg)

lemma volatility_nonneg: "0 \<le> volatility_of rates"
  by (auto simp: volatility_of_def Let_def fsqrt_nonneg intro!: divide_nonneg_nonneg fmean_nonneg)

lemma interest_pos: "0 < interest"
  by (simp add: interest_def less_max_iff_disj)

text \<open>A prediction is negative exactly when the premium is below minus the interest rate.\<close>

lemma predicted_negative_iff:
  assumes "prediction_of coin c = Inr q"
  shows "predicted_rate q < 0 \<longleftrightarrow> hq_premium q < - interest"
  using assms by (auto simp: prediction_of_def res_bind_Inr_iff Let_def)

text \<open>A history that was fetched once is the history for ever: later calls do not look at the
  answer.\<close>

lemma get_funding_history_cached:
  assumes "dict_get (coin, hours) (history_cache fo) = Some h"
  shows "get_funding_history ans coin hours fo = (fo, Inr h)"
  using assms by (simp add: get_funding_history_def)

lemma get_funding_history_stored:
  assumes "dict_ok (history_cache fo)" "get_funding_history ans coin hours fo = (fo1, Inr h)"
  shows "dict_get (coin, hours) (history_cache fo1) = Some h \<and> dict_ok (history_cache fo1)"
  using assms
  by (auto simp: get_funding_history_def Let_def dict.get_put_same dict.inv_put split: option.splits sum.splits)

section \<open>Instances\<close>

definition wit_ctx :: coin_ctx where
  "wit_ctx = \<lparr>cx_funding = Number (-1/1024), cx_markPx = Number 128, cx_oraclePx = Number 129,
     cx_premium = Absent\<rparr>"

definition wit_meta :: "exn + meta_response" where
  "wit_meta = Inr (PairOf [Some ''SOL''] [wit_ctx])"

lemma wit_meta_rate: "\<exists>r f. get_current_funding_rates now wit_meta = Inr r \<and> dict_get ''SOL'' r = Some f"
  by (simp add: get_current_funding_rates_def wit_meta_def wit_ctx_def dict_put_def dict_get_def)

end
