(* ===== verification/OpportunityDetector.thy ===== *)
theory OpportunityDetector
  imports FundingOracle Opportunities "HOL-Library.Product_Lexorder"
begin

text \<open>
  The opportunity detector (\<open>bot/core/opportunity_detector.py\<close>): scanning the allowed assets,
  the analysis of one asset, the opportunity it creates, and the filters and rankings on
  opportunities. The detector holds the market data and the funding oracle with their caches; the
  client sessions that entering and leaving its context opens and closes are left out. The venue
  answers, the clock and the new UUID of each analysed asset are the arguments \<open>ans k\<close>.
\<close>

section \<open>State\<close>

record detector =
  dt_asgard :: market_data
  dt_hyperliquid :: funding_oracle
  dt_leverage :: decimal
  dt_deployed_capital_usd :: decimal

definition ALLOWED_ASSETS :: "asset list" where "ALLOWED_ASSETS = [SOL]"
definition FUNDING_LOOKBACK_HOURS :: int where "FUNDING_LOOKBACK_HOURS = 168"
definition MAX_FUNDING_VOLATILITY :: decimal where "MAX_FUNDING_VOLATILITY = 5/10"

definition make_detector :: "market_data \<Rightarrow> funding_oracle \<Rightarrow> decimal \<Rightarrow> decimal \<Rightarrow> exn + detector" where
  "make_detector md fo lev capital =
     (if \<not> (2 \<le> lev \<and> lev \<le> 4) then Inl (ValueError ''Leverage must be between 2 and 4'')
      else Inr \<lparr>dt_asgard = md, dt_hyperliquid = fo, dt_leverage = lev, dt_deployed_capital_usd = capital\<rparr>)"

record asset_answers =
  sa_markets :: "exn + market_strategy list"
  sa_predict :: "exn + meta_response"
  sa_history :: "exn + funding_entry list"
  sa_now :: datetime
  sa_id :: string

definition on_market :: "(market_data, 'a) action \<Rightarrow> (detector, 'a) action" where
  "on_market m d = (case m (dt_asgard d) of (md, r) \<Rightarrow> (d\<lparr>dt_asgard := md\<rparr>, r))"

definition on_oracle :: "(funding_oracle, 'a) action \<Rightarrow> (detector, 'a) action" where
  "on_oracle m d = (case m (dt_hyperliquid d) of (fo, r) \<Rightarrow> (d\<lparr>dt_hyperliquid := fo\<rparr>, r))"

section \<open>Scanning\<close>

definition create_opportunity ::
  "asset_answers \<Rightarrow> detector \<Rightarrow> asset \<Rightarrow> net_carry_result \<Rightarrow> funding_rate \<Rightarrow> hl_prediction \<Rightarrow> decimal
     \<Rightarrow> exn + opportunity"
where
  "create_opportunity a d as pr fund q vol =
     make_opportunity
      \<lparr>opp_id = sa_id a, opp_timestamp = sa_now a, opp_asset = as, selected_protocol = nc_protocol pr,
       opp_rates = \<lparr>ar_protocol_id = protocol_value (nc_protocol pr), token_a_mint = get_mint as,
         token_b_mint = USDC_MINT, token_a_lending_apy = float_str (nc_lending_rate pr),
         token_b_borrowing_apy = float_str (nc_borrowing_rate pr), token_b_max_borrow_capacity = 0\<rparr>,
       hyperliquid_coin = ''SOL'', current_funding = fund,
       predicted_funding = Some \<lparr>fr_timestamp = sa_now a, fr_coin = ''SOL'',
         rate_8hr = float_str (flt (predicted_rate q * 8))\<rparr>,
       funding_volatility = vol, opp_leverage = dt_leverage d,
       deployed_capital_usd = dt_deployed_capital_usd d,
       opp_position_size_usd = dec (dt_deployed_capital_usd d * dt_leverage d),
       score = \<lparr>funding_apy = dec (dabs (rate_annual fund) * dt_leverage d),
         net_carry_apy = float_str (nc_net_carry_apy pr), lst_staking_apy = 0,
         estimated_gas_cost_apy = 0, estimated_slippage_apy = 0\<rparr>,
       opp_price_deviation = 0, preflight_checks_passed = False, expires_at = None\<rparr>"

definition analyze_asset ::
  "asset_answers \<Rightarrow> asset \<Rightarrow> funding_rate option \<Rightarrow> (detector, opportunity option) action" where
  "analyze_asset a as current d =
     (case current of
        None \<Rightarrow> (d, Inr None)
      | Some fund \<Rightarrow>
          if rate_8hr fund \<ge> 0 then (d, Inr None)
          else andthen
            (on_market (select_best_protocol (sa_markets a) as
               (flt (dec (dt_deployed_capital_usd d * dt_leverage d))) (flt (dt_leverage d)) (flt (12/10)))) (\<lambda>best.
          case best of
            None \<Rightarrow> ret None
          | Some pr \<Rightarrow>
              andthen (lift_result (predict_next_funding (sa_predict a) ''SOL'')) (\<lambda>q.
              if predicted_rate q \<ge> 0 then ret None
              else andthen
                (on_oracle (calculate_funding_volatility (sa_history a) ''SOL'' FUNDING_LOOKBACK_HOURS)) (\<lambda>v.
              if v > flt MAX_FUNDING_VOLATILITY then ret None
              else andthen (lift_result (create_opportunity a d as pr fund q (float_str v)))
                     (\<lambda>opp. ret (Some opp))))) d)"

text \<open>The loop over the assets: an asset whose analysis raises is skipped.\<close>

fun scan_assets ::
  "(nat \<Rightarrow> asset_answers) \<Rightarrow> (string, hl_funding) dict \<Rightarrow> nat \<Rightarrow> asset list \<Rightarrow> detector \<Rightarrow> opportunity list
     \<Rightarrow> detector \<times> opportunity list"
where
  "scan_assets ans rates k [] d opps = (d, opps)"
| "scan_assets ans rates k (as # ass) d opps =
     (let current = map_option (\<lambda>f. \<lparr>fr_timestamp = sa_now (ans k), fr_coin = ''SOL'',
            rate_8hr = float_str (hf_rate_8hr f)\<rparr>) (dict_get ''SOL'' rates)
      in case analyze_asset (ans k) as current d of
           (d1, Inr (Some opp)) \<Rightarrow> scan_assets ans rates (Suc k) ass d1 (opps @ [opp])
         | (d1, _) \<Rightarrow> scan_assets ans rates (Suc k) ass d1 opps)"

text \<open>The sort by yield is stable and descending; an empty list of assets stands for the allowed
  ones, as the default does.\<close>

definition scan_opportunities ::
  "int \<Rightarrow> exn + meta_response \<Rightarrow> (nat \<Rightarrow> asset_answers) \<Rightarrow> asset list \<Rightarrow> (detector, opportunity list) action" where
  "scan_opportunities now cur ans assets =
     andthen (lift_result (get_current_funding_rates now cur)) (\<lambda>rates d.
       case scan_assets ans rates 0 (if assets = [] then ALLOWED_ASSETS else assets) d [] of
         (d1, opps) \<Rightarrow> (d1, Inr (sort_key (\<lambda>x. - total_expected_apy x) opps)))"

section \<open>Yields, filters and ranking\<close>

definition calculate_total_apy ::
  "exn + market_strategy list \<Rightarrow> asset \<Rightarrow> protocol \<Rightarrow> decimal \<Rightarrow> (detector, decimal \<times> decimal \<times> decimal) action"
where
  "calculate_total_apy ans as p rate d =
     andthen (on_market (protocol_net_carry_apy ans p (get_mint as) (flt (dt_leverage d)))) (\<lambda>r.
       case r of
         None \<Rightarrow> ret (0, 0, 0)
       | Some nc \<Rightarrow> ret (dec (dabs rate * dt_leverage d), float_str (nc_net_carry_apy nc),
           if is_lst (get_asset_metadata as) then float_str (staking_apy (get_asset_metadata as)) else 0)) d"

definition passes_filter :: "decimal \<Rightarrow> decimal \<Rightarrow> bool \<Rightarrow> opportunity \<Rightarrow> bool" where
  "passes_filter min_apy max_vol require_neg opp =
     (if total_expected_apy opp < min_apy then False
      else if funding_volatility opp > max_vol then False
      else if require_neg \<and> predicted_not_negative opp then False
      else True)"

definition filter_opportunities ::
  "opportunity list \<Rightarrow> decimal \<Rightarrow> decimal option \<Rightarrow> bool \<Rightarrow> opportunity list" where
  "filter_opportunities opps min_apy max_vol require_neg =
     filter (passes_filter min_apy (py_or max_vol MAX_FUNDING_VOLATILITY) require_neg) opps"

text \<open>A stable descending sort by a triple is a stable ascending sort by its negation.\<close>

definition rank_key :: "opportunity \<Rightarrow> decimal \<times> decimal \<times> int" where
  "rank_key x = (- total_expected_apy x, - dec (- funding_volatility x),
                 - (if opp_asset x = SOL then 0 else 1))"

definition get_best_opportunity :: "opportunity list \<Rightarrow> opportunity option" where
  "get_best_opportunity opps =
     (if opps = [] then None else Some (sort_key rank_key opps ! 0))"

record entry_criteria =
  current_funding_negative :: bool
  predicted_funding_negative :: bool
  total_apy_positive :: bool
  ec_volatility_acceptable :: bool
  price_deviation_acceptable :: bool
  preflight_passed :: bool

definition check_entry_criteria :: "opportunity \<Rightarrow> bool \<times> entry_criteria" where
  "check_entry_criteria opp =
     (let c = \<lparr>current_funding_negative = is_negative (current_funding opp),
               predicted_funding_negative = (case predicted_funding opp of None \<Rightarrow> False | Some f \<Rightarrow> is_negative f),
               total_apy_positive = is_profitable (score opp),
               ec_volatility_acceptable = funding_volatility opp < MAX_FUNDING_VOLATILITY,
               price_deviation_acceptable = opp_price_deviation opp < 5/1000,
               preflight_passed = preflight_checks_passed opp\<rparr>
      in (list_all id [current_funding_negative c, predicted_funding_negative c, total_apy_positive c,
            ec_volatility_acceptable c, price_deviation_acceptable c, preflight_passed c], c))"

definition clear_caches :: "detector \<Rightarrow> detector" where
  "clear_caches d = d\<lparr>dt_asgard := MarketData.clear_cache (dt_asgard d),
                     dt_hyperliquid := clear_history (dt_hyperliquid d)\<rparr>"

section \<open>Lemmas\<close>

lemma on_parts [simp]:
  "dt_leverage (fst (on_market m d)) = dt_leverage d"
  "dt_deployed_capital_usd (fst (on_market m d)) = dt_deployed_capital_usd d"
  "dt_leverage (fst (on_oracle n d)) = dt_leverage d"
  "dt_deployed_capital_usd (fst (on_oracle n d)) = dt_deployed_capital_usd d"
  by (auto simp: on_market_def on_oracle_def split: prod.splits)

text \<open>What the detector promises of an opportunity.\<close>

definition detected :: "detector \<Rightarrow> opportunity \<Rightarrow> bool" where
  "detected d opp \<longleftrightarrow>
     is_negative (current_funding opp) \<and>
     (\<exists>f. predicted_funding opp = Some f \<and> is_negative f) \<and>
     funding_volatility opp \<le> 1/2 \<and> opp_price_deviation opp = 0 \<and>
     opp_leverage opp = dt_leverage d \<and> deployed_capital_usd opp = dt_deployed_capital_usd d \<and>
     opp_position_size_usd opp = dec (deployed_capital_usd opp * opp_leverage opp) \<and>
     \<not> preflight_checks_passed opp"

lemma flt_half [simp]: "flt (1/2) = 1/2"
  using flt_exact[of 1 1] by simp

lemma create_opportunity_detected:
  assumes "create_opportunity a d as pr fund q (float_str v) = Inr opp"
    and "is_negative fund" "predicted_rate q < 0" "v * 2 \<le> 1"
  shows "detected d opp \<and> opp_asset opp = as"
proof -
  have "float_str v \<le> of_int 5 * 10 powi (-1)" by (rule float_str_le_exact) (use assms(4) in simp_all)
  moreover have "is_negative \<lparr>fr_timestamp = t, fr_coin = c, rate_8hr = float_str (flt (predicted_rate q * 8))\<rparr>" for t c
    using assms(3) by (simp add: is_negative_def mult_less_0_iff)
  ultimately show ?thesis
    using assms by (auto simp: create_opportunity_def make_opportunity_Inr detected_def)
qed

lemma analyze_asset_keeps:
  assumes "analyze_asset a as cur d = (d1, r)"
  shows "dt_leverage d1 = dt_leverage d \<and> dt_deployed_capital_usd d1 = dt_deployed_capital_usd d"
  using assms
  by (auto simp: analyze_asset_def andthen_def on_market_def on_oracle_def
      split: option.splits if_splits prod.splits sum.splits)

lemma analyze_asset_detected:
  assumes "analyze_asset a as cur d = (d1, Inr (Some opp))"
  shows "detected d opp \<and> opp_asset opp = as"
  using assms
  by (auto simp: analyze_asset_def andthen_Inr_iff MAX_FUNDING_VOLATILITY_def is_negative_def not_le not_less
      split: option.splits if_splits dest: create_opportunity_detected)

lemma detected_same:
  assumes "dt_leverage d1 = dt_leverage d" "dt_deployed_capital_usd d1 = dt_deployed_capital_usd d"
  shows "detected d1 opp = detected d opp"
  using assms by (simp add: detected_def)

lemma scan_assets_step:
  obtains d1 ys where
    "scan_assets ans rates k (as # ass) d opps = scan_assets ans rates (Suc k) ass d1 (opps @ ys)"
    "detected d1 = detected d" "\<forall>x \<in> set ys. detected d x \<and> opp_asset x = as"
proof -
  define cur where "cur = map_option (\<lambda>f. \<lparr>fr_timestamp = sa_now (ans k), fr_coin = ''SOL'',
      rate_8hr = float_str (hf_rate_8hr f)\<rparr>) (dict_get ''SOL'' rates)"
  obtain d1 r where a: "analyze_asset (ans k) as cur d = (d1, r)" by force
  have keep: "detected d1 = detected d"
    using analyze_asset_keeps[OF a] by (intro ext detected_same) simp_all
  define ys where "ys = (case r of Inr (Some x) \<Rightarrow> [x] | _ \<Rightarrow> [])"
  have "scan_assets ans rates k (as # ass) d opps = scan_assets ans rates (Suc k) ass d1 (opps @ ys)"
    using a by (auto simp: cur_def[symmetric] ys_def split: sum.splits option.splits)
  moreover have "\<forall>x \<in> set ys. detected d x \<and> opp_asset x = as"
    using analyze_asset_detected a by (auto simp: ys_def split: sum.splits option.splits)
  ultimately show thesis using keep that by blast
qed

lemma scan_assets_detected:
  assumes "scan_assets ans rates k ass d opps = (d1, opps1)"
    and "\<forall>x \<in> set opps. detected d x \<and> opp_asset x \<in> A" "set ass \<subseteq> A"
  shows "\<forall>x \<in> set opps1. detected d x \<and> opp_asset x \<in> A"
  using assms
proof (induction ass arbitrary: k d opps)
  case (Cons as ass)
  obtain d' ys where s: "scan_assets ans rates k (as # ass) d opps
      = scan_assets ans rates (Suc k) ass d' (opps @ ys)"
    "detected d' = detected d" "\<forall>x \<in> set ys. detected d x \<and> opp_asset x = as"
    by (rule scan_assets_step)
  have "\<forall>x \<in> set (opps @ ys). detected d' x \<and> opp_asset x \<in> A"
    using Cons.prems(2,3) s(2,3) by auto
  from Cons.IH[OF _ this] Cons.prems(1,3) s(1,2) show ?case by simp
qed simp

text \<open>The caches of the detector hold what the analysis of an asset needs.\<close>

definition caches_ok :: "detector \<Rightarrow> bool" where
  "caches_ok d \<longleftrightarrow> (case rates_cache (dt_asgard d) of None \<Rightarrow> True | Some m \<Rightarrow> dict_ok m) \<and>
     dict_ok (history_cache (dt_hyperliquid d))"

definition warm :: "asset \<Rightarrow> detector \<Rightarrow> bool" where
  "warm as d \<longleftrightarrow> Option.bind (rates_cache (dt_asgard d)) (dict_get (get_mint as)) \<noteq> None \<and>
     dict_get (''SOL'', FUNDING_LOOKBACK_HOURS) (history_cache (dt_hyperliquid d)) \<noteq> None"

lemma analyze_asset_warms:
  assumes "analyze_asset a as cur d = (d1, Inr (Some opp))" "caches_ok d"
  shows "warm as d1"
proof -
  obtain s1 sz lev pr v where m: "on_market (select_best_protocol (sa_markets a) as sz lev (flt (12/10))) d
        = (s1, Inr (Some pr))"
    and h: "on_oracle (calculate_funding_volatility (sa_history a) ''SOL'' FUNDING_LOOKBACK_HOURS) s1 = (d1, Inr v)"
    using assms(1)
    by (auto simp: analyze_asset_def andthen_Inr_iff split: option.splits if_splits)
  obtain md1 rs where g: "get_borrowing_rates (sa_markets a) (get_mint as) True (dt_asgard d) = (md1, Inr rs)"
    and s1: "s1 = d\<lparr>dt_asgard := md1\<rparr>"
    using m by (auto simp: on_market_def select_best_protocol_def andthen_Inr_iff split: prod.splits)
  obtain fo1 hist where f: "get_funding_history (sa_history a) ''SOL'' FUNDING_LOOKBACK_HOURS (dt_hyperliquid d)
      = (fo1, Inr hist)" and d1: "d1 = s1\<lparr>dt_hyperliquid := fo1\<rparr>"
    using h by (auto simp: on_oracle_def calculate_funding_volatility_def andthen_Inr_iff s1 split: prod.splits)
  have "Option.bind (rates_cache md1) (dict_get (get_mint as)) = Some rs"
    using get_borrowing_rates_stored[OF g] assms(2) by (simp add: caches_ok_def)
  moreover have "dict_get (''SOL'', FUNDING_LOOKBACK_HOURS) (history_cache fo1) = Some hist"
    using get_funding_history_stored[OF _ f] assms(2) by (simp add: caches_ok_def)
  ultimately show ?thesis by (simp add: warm_def d1 s1)
qed

lemma analyze_asset_warm:
  assumes "warm as d" "sa_predict b = sa_predict a" "sa_now b = sa_now a" "sa_id b = sa_id a"
  shows "analyze_asset b as cur d = analyze_asset a as cur d \<and> fst (analyze_asset a as cur d) = d"
proof -
  obtain m rs h where c: "rates_cache (dt_asgard d) = Some m" "dict_get (get_mint as) m = Some rs"
    "dict_get (''SOL'', FUNDING_LOOKBACK_HOURS) (history_cache (dt_hyperliquid d)) = Some h"
    using assms(1) by (auto simp: warm_def bind_eq_Some_conv)
  have sel: "on_market (select_best_protocol ms as sz lev buf) d =
      (d, Inr (fold (consider_rate (required_capacity sz lev buf) lev) rs None))" for ms sz lev buf
    using c by (simp add: on_market_def select_best_protocol_def andthen_def get_borrowing_rates_def)
  have vol: "on_oracle (calculate_funding_volatility hs ''SOL'' FUNDING_LOOKBACK_HOURS) d =
      (d, Inr (volatility_of (map hf_funding_rate h)))" for hs
    using c by (simp add: on_oracle_def calculate_funding_volatility_def andthen_def get_funding_history_def)
  have cr: "create_opportunity b d as pr fund q v = create_opportunity a d as pr fund q v" for pr fund q v
    using assms by (simp add: create_opportunity_def)
  show ?thesis
    by (auto simp: analyze_asset_def andthen_def sel vol cr assms(2) split: option.splits sum.splits)
qed

text \<open>The tie-breaker of the ranking is reversed like the rest of the key: of two opportunities
  with the same yield and volatility the staking token wins over native SOL.\<close>

lemma tie_break_prefers_lst:
  assumes "opp_asset x = SOL" "opp_asset y \<noteq> SOL"
    and "total_expected_apy x = total_expected_apy y" "funding_volatility x = funding_volatility y"
  shows "get_best_opportunity [x, y] = Some y" "get_best_opportunity [y, x] = Some y"
  using assms by (simp_all add: get_best_opportunity_def rank_key_def)

lemma short_history_passes: "length rates < 2 \<Longrightarrow> volatility_of rates = 0"
  by (simp add: volatility_of_def)

lemma scan_opportunities_Inr:
  assumes "scan_opportunities now cur ans assets d = (d1, Inr opps)"
  obtains rates raw where
    "scan_assets ans rates 0 (if assets = [] then ALLOWED_ASSETS else assets) d [] = (d1, raw)"
    "opps = sort_key (\<lambda>x. - total_expected_apy x) raw"
  using assms that
  by (cases "get_current_funding_rates now cur")
    (auto simp: scan_opportunities_def andthen_def split: prod.splits)

definition asset_funding :: "asset_answers \<Rightarrow> (string, hl_funding) dict \<Rightarrow> funding_rate option" where
  "asset_funding a rates = map_option (\<lambda>f. \<lparr>fr_timestamp = sa_now a, fr_coin = ''SOL'',
     rate_8hr = float_str (hf_rate_8hr f)\<rparr>) (dict_get ''SOL'' rates)"

lemma scan_one:
  "scan_assets ans rates 0 [as] d [] =
     (let (d1, r) = analyze_asset (ans 0) as (asset_funding (ans 0) rates) d
      in (d1, case r of Inr (Some x) \<Rightarrow> [x] | _ \<Rightarrow> []))"
  by (auto simp: asset_funding_def split: prod.splits sum.splits option.splits)

section \<open>Properties\<close>

text \<open>Every opportunity a scan returns has a negative current and predicted rate, a volatility
  of at most 50% and the detector's leverage and capital, and belongs to a scanned asset; the list is
  sorted by yield; and none of them meets the entry criteria, because the pre-flight flag is never set:
  with the flag set, an opportunity meets them exactly when it is profitable.\<close>

theorem scan_sound:
  assumes "scan_opportunities now cur ans assets d = (d1, Inr opps)"
  shows "sorted_wrt (\<lambda>x y. total_expected_apy y \<le> total_expected_apy x) opps \<and>
     (\<forall>x \<in> set opps. detected d x \<and> opp_asset x \<in> set (if assets = [] then ALLOWED_ASSETS else assets) \<and>
        \<not> meets_entry_criteria x \<and>
        (meets_entry_criteria (x\<lparr>preflight_checks_passed := True\<rparr>) \<longleftrightarrow> is_profitable (score x)))"
proof -
  let ?A = "if assets = [] then ALLOWED_ASSETS else assets"
  obtain rates raw where r: "scan_assets ans rates 0 ?A d [] = (d1, raw)"
    and opps: "opps = sort_key (\<lambda>x. - total_expected_apy x) raw"
    using assms by (rule scan_opportunities_Inr)
  have "sorted_wrt (\<lambda>x y. total_expected_apy y \<le> total_expected_apy x) opps"
    using sorted_sort_key[of "\<lambda>x. - total_expected_apy x" raw]
    by (simp add: opps sorted_map)
  moreover have "\<forall>x \<in> set opps. detected d x \<and> opp_asset x \<in> set ?A"
    using scan_assets_detected[OF r, of "set ?A"] by (simp add: opps)
  ultimately show ?thesis
    by (auto simp: detected_def meets_entry_criteria_iff is_profitable_def)
qed

text \<open>The yields the detector compares are frozen: once a scan has found an opportunity, no
  later answer of the lending markets or of the funding history is looked at, the caches have no
  expiry; only the current rate and the predicted rate still come from the venue.\<close>

theorem scan_uses_frozen_rates:
  assumes "caches_ok d" "scan_opportunities now cur ans [] d = (d1, Inr opps)" "opps \<noteq> []"
    and "\<forall>k. sa_predict (ans3 k) = sa_predict (ans2 k) \<and> sa_now (ans3 k) = sa_now (ans2 k) \<and>
       sa_id (ans3 k) = sa_id (ans2 k)"
  shows "scan_opportunities now' cur' ans3 [] d1 = scan_opportunities now' cur' ans2 [] d1 \<and>
     fst (scan_opportunities now' cur' ans2 [] d1) = d1"
proof -
  obtain rates raw where r: "scan_assets ans rates 0 [SOL] d [] = (d1, raw)"
    and "opps = sort_key (\<lambda>x. - total_expected_apy x) raw"
    using scan_opportunities_Inr[OF assms(2)] by (auto simp: ALLOWED_ASSETS_def)
  with assms(3) have "raw \<noteq> []" by auto
  with r have "\<exists>c opp. analyze_asset (ans 0) SOL c d = (d1, Inr (Some opp))"
    by (auto simp: scan_one Let_def split: prod.splits sum.splits option.splits)
  with assms(1) have w: "warm SOL d1" using analyze_asset_warms by blast
  have "analyze_asset (ans3 0) SOL c d1 = analyze_asset (ans2 0) SOL c d1 \<and>
      fst (analyze_asset (ans2 0) SOL c d1) = d1" for c
    using analyze_asset_warm[OF w] assms(4) by blast
  moreover have "asset_funding (ans3 0) = asset_funding (ans2 0)"
    using assms(4) by (intro ext) (simp add: asset_funding_def)
  ultimately have "scan_assets ans3 rs 0 [SOL] d1 [] = scan_assets ans2 rs 0 [SOL] d1 []"
    "fst (scan_assets ans2 rs 0 [SOL] d1 []) = d1" for rs
    by (simp_all add: scan_one Let_def split_def del: scan_assets.simps)
  then show ?thesis
    by (simp add: scan_opportunities_def andthen_def ALLOWED_ASSETS_def split_def
        del: scan_assets.simps split: sum.splits)
qed

section \<open>Instances\<close>

definition wit_scan :: "nat \<Rightarrow> asset_answers" where
  "wit_scan k = \<lparr>sa_markets = Inr wit_markets, sa_predict = wit_meta,
     sa_history = Inr [\<lparr>fe_fundingRate = Number (-1/1024), fe_time = Some 2\<rparr>,
                       \<lparr>fe_fundingRate = Number (-1/1024), fe_time = Some 1\<rparr>],
     sa_now = 0, sa_id = ''o1''\<rparr>"

definition wit_detector :: detector where
  "wit_detector = \<lparr>dt_asgard = market_data_init, dt_hyperliquid = funding_oracle_init, dt_leverage = 3,
     dt_deployed_capital_usd = 1000\<rparr>"

lemma wit_prediction: "\<exists>q. predict_next_funding wit_meta ''SOL'' = Inr q \<and> predicted_rate q < 0"
proof -
  have "flt (calculate_premium 128 129 + interest) < 0" by code_simp
  then show ?thesis
    by (simp add: predict_next_funding_def wit_meta_def wit_ctx_def prediction_of_def Let_def)
qed

lemma wit_volatility:
  "\<exists>fo. calculate_funding_volatility (sa_history (wit_scan 0)) ''SOL'' FUNDING_LOOKBACK_HOURS
     funding_oracle_init = (fo, Inr 0)"
proof -
  have "volatility_of [-1/1024, -1/1024] = 0" by code_simp
  then show ?thesis
    by (simp add: calculate_funding_volatility_def andthen_def get_funding_history_def wit_scan_def
        funding_oracle_init_def dict_get_def history_rate_def Let_def)
qed

lemma wit_analysis:
  assumes "rate_8hr fund < 0"
  shows "\<exists>d1 x. analyze_asset (wit_scan 0) SOL (Some fund) wit_detector = (d1, Inr (Some x))"
proof -
  obtain md1 b where b: "select_best_protocol (Inr wit_markets) SOL 3000 3 (flt (12/10)) market_data_init
      = (md1, Inr (Some b))" using wit_best by blast
  obtain q where q: "predict_next_funding wit_meta ''SOL'' = Inr q" "predicted_rate q < 0"
    using wit_prediction by blast
  obtain fo where v: "calculate_funding_volatility (sa_history (wit_scan 0)) ''SOL'' FUNDING_LOOKBACK_HOURS
      funding_oracle_init = (fo, Inr 0)" using wit_volatility by blast
  have "sa_markets (wit_scan 0) = Inr wit_markets" "sa_predict (wit_scan 0) = wit_meta"
    by (simp_all add: wit_scan_def)
  then show ?thesis
    using assms b q v
    by (simp add: analyze_asset_def andthen_def on_market_def on_oracle_def wit_detector_def
        MAX_FUNDING_VOLATILITY_def create_opportunity_def make_opportunity_def validate_leverage_def)
qed

lemma wit_scan_result:
  obtains d1 x where "scan_opportunities 0 wit_meta wit_scan [] wit_detector = (d1, Inr [x])"
proof -
  have "flt (-1/1024 * 8) < 0" by simp
  then obtain d1 x where "analyze_asset (wit_scan 0) SOL
      (Some \<lparr>fr_timestamp = sa_now (wit_scan 0), fr_coin = ''SOL'', rate_8hr = float_str (flt (-1/1024 * 8))\<rparr>)
      wit_detector = (d1, Inr (Some x))"
    using wit_analysis by (metis float_str_neg_iff funding_rate.select_convs(3))
  then have "scan_opportunities 0 wit_meta wit_scan [] wit_detector = (d1, Inr [x])"
    by (simp add: scan_opportunities_def andthen_def get_current_funding_rates_def wit_meta_def wit_ctx_def
        dict_put_def dict_get_def ALLOWED_ASSETS_def hf_rate_8hr_def)
  then show thesis by (rule that)
qed

theorem scan_sound_witness:
  "\<exists>d1 x. scan_opportunities 0 wit_meta wit_scan [] wit_detector = (d1, Inr [x]) \<and>
     detected wit_detector x \<and> \<not> meets_entry_criteria x"
proof -
  obtain d1 x where r: "scan_opportunities 0 wit_meta wit_scan [] wit_detector = (d1, Inr [x])"
    by (rule wit_scan_result)
  from scan_sound[OF r] r show ?thesis by auto
qed

theorem scan_uses_frozen_rates_witness:
  "\<exists>d1 x. scan_opportunities 0 wit_meta wit_scan [] wit_detector = (d1, Inr [x]) \<and>
     scan_opportunities 1 wit_meta (\<lambda>k. (wit_scan k)\<lparr>sa_markets := Inr [], sa_history := Inr []\<rparr>) [] d1
       = scan_opportunities 1 wit_meta wit_scan [] d1"
proof -
  obtain d1 x where r: "scan_opportunities 0 wit_meta wit_scan [] wit_detector = (d1, Inr [x])"
    by (rule wit_scan_result)
  have "caches_ok wit_detector"
    by (simp add: caches_ok_def wit_detector_def market_data_init_def funding_oracle_init_def dict_ok_def)
  from scan_uses_frozen_rates[OF this r] r show ?thesis by auto
qed

end
