(* ===== verification/TxStateMachine.thy ===== *)
theory TxStateMachine
  imports Models
begin

text \<open>
  The transaction state machine (\<open>bot/state/state_machine.py\<close>): the SQLite table of
  \<open>StateStore\<close> with its statements, the transition table and the guarded
  \<open>transition\<close> of \<open>TransactionStateMachine\<close>, and crash recovery.

  The table is an association list in row order (\<open>INSERT OR REPLACE\<close> deletes the old row and
  appends the new one). The state column holds the text of the enum, which reading decodes; the
  timestamp column holds an ISO text, which \<open>isoformat\<close> and \<open>fromisoformat\<close> convert
  without loss, so it is kept as a number. \<open>now\<close> stands for \<open>datetime.utcnow()\<close>.
\<close>

section \<open>The store\<close>

record tx_row =
  state_text :: string
  row_timestamp :: datetime
  row_signature :: "string option"
  row_metadata :: "string option"
  row_error :: "string option"

type_synonym tx_table = "(string, tx_row) dict"

record transaction_record =
  rec_intent_id :: string
  rec_state :: tx_state
  rec_timestamp :: datetime
  rec_signature :: "string option"
  rec_metadata :: "string option"
  rec_error :: "string option"

definition replace_row :: "string \<Rightarrow> tx_row \<Rightarrow> tx_table \<Rightarrow> tx_table" where
  "replace_row i r tbl = dict_del i tbl @ [(i, r)]"

definition save_state ::
  "datetime \<Rightarrow> string \<Rightarrow> tx_state \<Rightarrow> string option \<Rightarrow> string option \<Rightarrow> string option \<Rightarrow> tx_table \<Rightarrow> tx_table"
where
  "save_state now i st sig md err tbl =
     replace_row i \<lparr>state_text = tx_state_value st, row_timestamp = now, row_signature = sig,
                    row_metadata = md, row_error = err\<rparr> tbl"

definition record_of_row :: "string \<times> tx_row \<Rightarrow> exn + transaction_record" where
  "record_of_row ir =
     (case ir of (i, r) \<Rightarrow>
        res_bind (tx_state_of_value (state_text r)) (\<lambda>st.
          Inr \<lparr>rec_intent_id = i, rec_state = st, rec_timestamp = row_timestamp r,
               rec_signature = row_signature r, rec_metadata = row_metadata r,
               rec_error = row_error r\<rparr>))"

definition get_state :: "tx_table \<Rightarrow> string \<Rightarrow> exn + transaction_record option" where
  "get_state tbl i =
     (case dict_get i tbl of
        None \<Rightarrow> Inr None
      | Some r \<Rightarrow> res_bind (record_of_row (i, r)) (\<lambda>t. Inr (Some t)))"

definition incomplete_states :: "string list" where
  "incomplete_states =
     map tx_state_value [IDLE, BUILDING, BUILT, SIGNING, SIGNED, SUBMITTING, SUBMITTED]"

definition get_incomplete_transactions :: "tx_table \<Rightarrow> exn + transaction_record list" where
  "get_incomplete_transactions tbl =
     res_map record_of_row (filter (\<lambda>(i, r). state_text r \<in> set incomplete_states) tbl)"

definition get_transactions_by_state :: "tx_table \<Rightarrow> tx_state \<Rightarrow> exn + transaction_record list" where
  "get_transactions_by_state tbl st =
     res_map record_of_row (filter (\<lambda>(i, r). state_text r = tx_state_value st) tbl)"

definition delete_transaction :: "string \<Rightarrow> tx_table \<Rightarrow> tx_table" where
  "delete_transaction i tbl = dict_del i tbl"

section \<open>The state machine\<close>

fun valid_transitions :: "tx_state \<Rightarrow> tx_state set" where
  "valid_transitions IDLE = {BUILDING, FAILED}"
| "valid_transitions BUILDING = {BUILT, FAILED}"
| "valid_transitions BUILT = {SIGNING, FAILED}"
| "valid_transitions SIGNING = {SIGNED, FAILED}"
| "valid_transitions SIGNED = {SUBMITTING, FAILED}"
| "valid_transitions SUBMITTING = {SUBMITTED, FAILED}"
| "valid_transitions SUBMITTED = {CONFIRMED, FAILED}"
| "valid_transitions CONFIRMED = {}"
| "valid_transitions FAILED = {}"

definition can_transition :: "tx_state \<Rightarrow> tx_state \<Rightarrow> bool" where
  "can_transition current target = (target \<in> valid_transitions current)"

record tx_request =
  rq_intent_id :: string
  rq_target :: tx_state
  rq_signature :: "string option"
  rq_metadata :: "string option"
  rq_error :: "string option"

text \<open>\<open>transition\<close> returns the new table and the record; on an error the table is
  unchanged, which the exception-only result says. \<open>now\<close> is the clock of the save,
  \<open>now'\<close> the clock of the returned record.\<close>

definition transition ::
  "datetime \<Rightarrow> datetime \<Rightarrow> tx_request \<Rightarrow> tx_table \<Rightarrow> exn + (tx_table \<times> transaction_record)"
where
  "transition now now' rq tbl =
     res_bind (get_state tbl (rq_intent_id rq)) (\<lambda>current.
     res_bind
       (case current of
          None \<Rightarrow>
            if rq_target rq \<noteq> BUILDING
            then Inl (ValueError ''New transaction must start from BUILDING'')
            else Inr IDLE
        | Some t \<Rightarrow> Inr (rec_state t)) (\<lambda>current_state.
     if \<not> can_transition current_state (rq_target rq)
     then Inl (ValueError ''Invalid transition'')
     else Inr (save_state now (rq_intent_id rq) (rq_target rq) (rq_signature rq)
                 (rq_metadata rq) (rq_error rq) tbl,
               \<lparr>rec_intent_id = rq_intent_id rq, rec_state = rq_target rq, rec_timestamp = now',
                rec_signature = rq_signature rq, rec_metadata = rq_metadata rq,
                rec_error = rq_error rq\<rparr>)))"

definition recover_on_startup :: "tx_table \<Rightarrow> exn + transaction_record list" where
  "recover_on_startup tbl = get_incomplete_transactions tbl"

text \<open>A caller that issues a sequence of requests, each of which may raise.\<close>

fun run_requests :: "datetime \<Rightarrow> tx_request list \<Rightarrow> tx_table \<Rightarrow> tx_table" where
  "run_requests now [] tbl = tbl"
| "run_requests now (rq # rqs) tbl =
     (case transition now now rq tbl of
        Inl _ \<Rightarrow> run_requests now rqs tbl
      | Inr (tbl', _) \<Rightarrow> run_requests now rqs tbl')"

section \<open>Store laws\<close>

definition tx_table_ok :: "tx_table \<Rightarrow> bool" where
  "tx_table_ok tbl \<longleftrightarrow>
     dict_ok tbl \<and> (\<forall>(i, r) \<in> set tbl. \<exists>st. st \<noteq> IDLE \<and> state_text r = tx_state_value st)"

interpretation txs: keyed_store replace_row dict_get delete_transaction dict_ok
proof unfold_locales
  fix s :: tx_table and k j :: string and v :: tx_row
  assume ok: "dict_ok s"
  have nk: "map_of (dict_del k s) k = None"
    using dict.get_del_same[OF ok, of k] by (simp add: dict_get_def)
  show "dict_get k (replace_row k v s) = Some v"
    by (simp add: dict_get_def replace_row_def map_add_def nk)
  show "dict_get j (replace_row k v s) = dict_get j s" if "j \<noteq> k"
    using that dict.get_del_other[OF ok that]
    by (auto simp: dict_get_def replace_row_def map_add_def split: option.splits)
  show "dict_get k (delete_transaction k s) = None"
    unfolding delete_transaction_def by (rule dict.get_del_same[OF ok])
  show "dict_get j (delete_transaction k s) = dict_get j s" if "j \<noteq> k"
    unfolding delete_transaction_def by (rule dict.get_del_other[OF ok that])
  show "dict_ok (replace_row k v s)"
    using dict.inv_del[OF ok, of k]
    by (auto simp: dict_ok_def replace_row_def dict_del_def)
  show "dict_ok (delete_transaction k s)"
    unfolding delete_transaction_def by (rule dict.inv_del[OF ok])
qed

text \<open>The abstract view: the decoded state of every intent.\<close>

definition state_of :: "tx_table \<Rightarrow> string \<Rightarrow> tx_state" where
  "state_of tbl i =
     (case dict_get i tbl of
        None \<Rightarrow> IDLE
      | Some r \<Rightarrow> (case tx_state_of_value (state_text r) of Inl _ \<Rightarrow> IDLE | Inr st \<Rightarrow> st))"

lemma tx_table_ok_empty: "tx_table_ok []"
  by (simp add: tx_table_ok_def dict_ok_def)

lemma state_of_empty [simp]: "state_of [] i = IDLE"
  by (simp add: state_of_def dict_get_def)

lemma tx_table_okD:
  assumes "tx_table_ok tbl" "dict_get i tbl = Some r"
  obtains st where "st \<noteq> IDLE" "state_text r = tx_state_value st"
  using assms dict_get_set[of tbl i r] unfolding tx_table_ok_def by fastforce

lemma get_state_ok:
  assumes "tx_table_ok tbl"
  shows "get_state tbl i =
     Inr (map_option (\<lambda>r. \<lparr>rec_intent_id = i, rec_state = state_of tbl i,
       rec_timestamp = row_timestamp r, rec_signature = row_signature r,
       rec_metadata = row_metadata r, rec_error = row_error r\<rparr>) (dict_get i tbl))"
proof (cases "dict_get i tbl")
  case None
  then show ?thesis by (simp add: get_state_def)
next
  case (Some r)
  from assms Some obtain st where "state_text r = tx_state_value st" by (rule tx_table_okD)
  with Some show ?thesis by (simp add: get_state_def record_of_row_def state_of_def)
qed

lemma state_of_IDLE_iff:
  assumes "tx_table_ok tbl"
  shows "state_of tbl i = IDLE \<longleftrightarrow> dict_get i tbl = None"
proof (cases "dict_get i tbl")
  case (Some r)
  from assms Some obtain st where "st \<noteq> IDLE" "state_text r = tx_state_value st"
    by (rule tx_table_okD)
  with Some show ?thesis by (simp add: state_of_def)
qed (simp add: state_of_def)

lemma tx_table_ok_save:
  assumes "tx_table_ok tbl" "st \<noteq> IDLE"
  shows "tx_table_ok (save_state now i st sig md err tbl)"
  using assms txs.inv_put[of tbl]
  by (auto simp: tx_table_ok_def save_state_def replace_row_def dict_del_def)

lemma state_of_save:
  assumes "tx_table_ok tbl"
  shows "state_of (save_state now i st sig md err tbl) j = (if j = i then st else state_of tbl j)"
  using assms txs.get_put[of tbl j i]
  by (simp add: tx_table_ok_def state_of_def save_state_def)

section \<open>Refinement of the abstract machine\<close>

text \<open>The abstract specification: one intent moves along the edges of the diagram.\<close>

inductive tx_step :: "tx_state \<Rightarrow> tx_state \<Rightarrow> bool" where
  start: "tx_step IDLE BUILDING"
| build: "tx_step BUILDING BUILT"
| sign: "tx_step BUILT SIGNING"
| signed: "tx_step SIGNING SIGNED"
| submit: "tx_step SIGNED SUBMITTING"
| submitted: "tx_step SUBMITTING SUBMITTED"
| confirm: "tx_step SUBMITTED CONFIRMED"
| fail: "st \<notin> {IDLE, CONFIRMED, FAILED} \<Longrightarrow> tx_step st FAILED"

inductive_cases tx_step_confirmedE: "tx_step CONFIRMED t"
inductive_cases tx_step_failedE: "tx_step FAILED t"
inductive_simps tx_step_simps: "tx_step st st'"

lemma can_transition_step:
  "can_transition st st' \<longleftrightarrow> tx_step st st' \<or> (st = IDLE \<and> st' = FAILED)"
  by (cases st; cases st') (auto simp: can_transition_def tx_step_simps)

lemma not_step_to_IDLE: "\<not> tx_step st IDLE"
  by (auto elim: tx_step.cases)

lemma transition_cases:
  assumes "tx_table_ok tbl"
  shows "transition now now' rq tbl =
     (if tx_step (state_of tbl (rq_intent_id rq)) (rq_target rq)
      then Inr (save_state now (rq_intent_id rq) (rq_target rq) (rq_signature rq)
                  (rq_metadata rq) (rq_error rq) tbl,
                \<lparr>rec_intent_id = rq_intent_id rq, rec_state = rq_target rq, rec_timestamp = now',
                 rec_signature = rq_signature rq, rec_metadata = rq_metadata rq,
                 rec_error = rq_error rq\<rparr>)
      else if state_of tbl (rq_intent_id rq) = IDLE
      then Inl (ValueError ''New transaction must start from BUILDING'')
      else Inl (ValueError ''Invalid transition''))"
proof (cases "dict_get (rq_intent_id rq) tbl")
  case None
  then have "state_of tbl (rq_intent_id rq) = IDLE" by (simp add: state_of_def)
  with None show ?thesis
    by (cases "rq_target rq")
      (auto simp: transition_def get_state_def can_transition_def tx_step_simps)
next
  case (Some r)
  then have "state_of tbl (rq_intent_id rq) \<noteq> IDLE" by (simp add: state_of_IDLE_iff[OF assms])
  with Some show ?thesis
    by (simp add: transition_def get_state_ok[OF assms] can_transition_step)
qed

lemma transition_Inr_iff:
  assumes "tx_table_ok tbl"
  shows "is_ok (transition now now' rq tbl) \<longleftrightarrow>
     tx_step (state_of tbl (rq_intent_id rq)) (rq_target rq)"
  by (simp add: transition_cases[OF assms])

lemma transition_ok_preserved:
  assumes "tx_table_ok tbl" "transition now now' rq tbl = Inr (tbl', t)"
  shows "tx_table_ok tbl'"
    and "tx_step (state_of tbl (rq_intent_id rq)) (rq_target rq)"
    and "state_of tbl' = (state_of tbl)(rq_intent_id rq := rq_target rq)"
proof -
  from assms have step: "tx_step (state_of tbl (rq_intent_id rq)) (rq_target rq)"
    and tbl': "tbl' = save_state now (rq_intent_id rq) (rq_target rq) (rq_signature rq)
      (rq_metadata rq) (rq_error rq) tbl"
    by (auto simp: transition_cases[OF assms(1)] split: if_splits)
  have "rq_target rq \<noteq> IDLE" using step not_step_to_IDLE by metis
  then show "tx_table_ok tbl'" unfolding tbl' by (rule tx_table_ok_save[OF assms(1)])
  show "tx_step (state_of tbl (rq_intent_id rq)) (rq_target rq)" by (rule step)
  show "state_of tbl' = (state_of tbl)(rq_intent_id rq := rq_target rq)"
    unfolding tbl' by (rule ext) (simp add: state_of_save[OF assms(1)])
qed

lemma run_requests_ok: "tx_table_ok tbl \<Longrightarrow> tx_table_ok (run_requests now rqs tbl)"
  by (induction rqs arbitrary: tbl)
    (auto split: sum.splits dest: transition_ok_preserved(1))

lemma run_requests_path:
  "tx_table_ok tbl \<Longrightarrow> tx_step\<^sup>*\<^sup>* (state_of tbl i) (state_of (run_requests now rqs tbl) i)"
proof (induction rqs arbitrary: tbl)
  case (Cons rq rqs)
  show ?case
  proof (cases "transition now now rq tbl")
    case (Inl e)
    with Cons show ?thesis by simp
  next
    case (Inr p)
    obtain tbl' t where p: "p = (tbl', t)" by (cases p)
    note tr = transition_ok_preserved[OF Cons.prems Inr[unfolded p]]
    have "tx_step\<^sup>*\<^sup>* (state_of tbl i) (state_of tbl' i)"
      using tr(2,3) by (cases "i = rq_intent_id rq") auto
    moreover have "tx_step\<^sup>*\<^sup>* (state_of tbl' i) (state_of (run_requests now rqs tbl') i)"
      by (rule Cons.IH[OF tr(1)])
    ultimately show ?thesis using Inr p by simp
  qed
qed simp

text \<open>Progress measure: how many steps can still follow.\<close>

fun steps_left :: "tx_state \<Rightarrow> nat" where
  "steps_left IDLE = 7"
| "steps_left BUILDING = 6"
| "steps_left BUILT = 5"
| "steps_left SIGNING = 4"
| "steps_left SIGNED = 3"
| "steps_left SUBMITTING = 2"
| "steps_left SUBMITTED = 1"
| "steps_left CONFIRMED = 0"
| "steps_left FAILED = 0"

lemma tx_step_decreases: "tx_step s t \<Longrightarrow> steps_left t < steps_left s"
  by (cases s; cases t) (auto simp: tx_step_simps)

text \<open>How many requests for intent \<open>i\<close> succeed in a run.\<close>

fun successes :: "datetime \<Rightarrow> string \<Rightarrow> tx_request list \<Rightarrow> tx_table \<Rightarrow> nat" where
  "successes now i [] tbl = 0"
| "successes now i (rq # rqs) tbl =
     (case transition now now rq tbl of
        Inl _ \<Rightarrow> successes now i rqs tbl
      | Inr (tbl', _) \<Rightarrow> (if rq_intent_id rq = i then 1 else 0) + successes now i rqs tbl')"

lemma successes_bound:
  "tx_table_ok tbl \<Longrightarrow>
     successes now i rqs tbl + steps_left (state_of (run_requests now rqs tbl) i)
       \<le> steps_left (state_of tbl i)"
proof (induction rqs arbitrary: tbl)
  case (Cons rq rqs)
  show ?case
  proof (cases "transition now now rq tbl")
    case (Inl e)
    with Cons show ?thesis by simp
  next
    case (Inr p)
    obtain tbl' t where p: "p = (tbl', t)" by (cases p)
    note tr = transition_ok_preserved[OF Cons.prems Inr[unfolded p]]
    have "(if rq_intent_id rq = i then 1 else 0) + steps_left (state_of tbl' i)
        \<le> steps_left (state_of tbl i)"
      using tr(3) tx_step_decreases[OF tr(2)] by auto
    with Cons.IH[OF tr(1)] show ?thesis using Inr p by simp
  qed
qed simp

lemma terminal_path:
  assumes "tx_step\<^sup>*\<^sup>* st t" "st = CONFIRMED \<or> st = FAILED"
  shows "t = st"
  using assms by (induction rule: rtranclp_induct) (auto elim: tx_step_confirmedE tx_step_failedE)

lemma mem_incomplete_iff [simp]:
  "tx_state_value st \<in> set incomplete_states \<longleftrightarrow> st \<noteq> CONFIRMED \<and> st \<noteq> FAILED"
  by (cases st) (simp_all add: incomplete_states_def)

lemma incomplete_records:
  assumes "tx_table_ok tbl"
  shows "\<exists>rs. get_incomplete_transactions tbl = Inr rs \<and>
     map rec_intent_id rs = map fst (filter (\<lambda>(i, r). state_text r \<in> set incomplete_states) tbl) \<and>
     (\<forall>t \<in> set rs. rec_state t = state_of tbl (rec_intent_id t))"
proof -
  define dec_row where "dec_row ir = (case ir of (i, r) \<Rightarrow>
      \<lparr>rec_intent_id = i, rec_state = state_of tbl i, rec_timestamp = row_timestamp r,
       rec_signature = row_signature r, rec_metadata = row_metadata r, rec_error = row_error r\<rparr>)"
    for ir :: "string \<times> tx_row"
  let ?xs = "filter (\<lambda>(i, r). state_text r \<in> set incomplete_states) tbl"
  have "record_of_row ir = Inr (dec_row ir)" if "ir \<in> set ?xs" for ir
  proof -
    obtain i r where ir: "ir = (i, r)" by (cases ir)
    with that have get: "dict_get i tbl = Some r"
      using assms by (simp add: tx_table_ok_def dict_get_set)
    with assms obtain st where "state_text r = tx_state_value st" by (rule tx_table_okD)
    with get show ?thesis by (simp add: ir record_of_row_def dec_row_def state_of_def)
  qed
  then have "get_incomplete_transactions tbl = Inr (map dec_row ?xs)"
    unfolding get_incomplete_transactions_def by (rule res_map_pure)
  moreover have "map rec_intent_id (map dec_row ?xs) = map fst ?xs"
    by (simp add: dec_row_def split: prod.splits)
  moreover have "\<forall>t \<in> set (map dec_row ?xs). rec_state t = state_of tbl (rec_intent_id t)"
    by (auto simp: dec_row_def)
  ultimately show ?thesis by blast
qed

section \<open>Properties\<close>

text \<open>C8: Every call of \<open>transition\<close> on a well-formed table refines one step of the abstract
  machine: it succeeds exactly when the diagram has the edge, then moves that intent along it,
  leaves every other intent alone and keeps the table well formed; otherwise it raises
  \<open>ValueError\<close>.\<close>

theorem transition_refines:
  assumes "tx_table_ok tbl"
  shows "case transition now now' rq tbl of
     Inr (tbl', r) \<Rightarrow>
       tx_step (state_of tbl (rq_intent_id rq)) (rq_target rq) \<and>
       state_of tbl' = (state_of tbl)(rq_intent_id rq := rq_target rq) \<and>
       tx_table_ok tbl' \<and> rec_state r = rq_target rq
   | Inl e \<Rightarrow>
       \<not> tx_step (state_of tbl (rq_intent_id rq)) (rq_target rq) \<and> (\<exists>m. e = ValueError m)"
proof (cases "transition now now' rq tbl")
  case (Inl e)
  then show ?thesis using transition_cases[OF assms, of now now' rq] by (auto split: if_splits)
next
  case (Inr p)
  obtain tbl' r where p: "p = (tbl', r)" by (cases p)
  have "rec_state r = rq_target rq"
    using transition_cases[OF assms, of now now' rq] Inr p by (auto split: if_splits)
  then show ?thesis using transition_ok_preserved[OF assms Inr[unfolded p]] Inr p by simp
qed

definition wit_rq :: "tx_state \<Rightarrow> tx_request" where
  "wit_rq st = \<lparr>rq_intent_id = ''i1'', rq_target = st, rq_signature = None, rq_metadata = None,
     rq_error = None\<rparr>"

theorem transition_refines_witness:
  "tx_table_ok [] \<and>
   (case transition 5 6 (wit_rq BUILDING) [] of
      Inr (tbl', r) \<Rightarrow> state_of tbl' ''i1'' = BUILDING \<and> rec_state r = BUILDING
    | Inl e \<Rightarrow> False)"
  using transition_refines[OF tx_table_ok_empty, where now = 5 and now' = 6 and rq = "wit_rq BUILDING"]
  by (auto simp: tx_table_ok_empty wit_rq_def tx_step_simps split: sum.splits)

text \<open>C32: From an empty database, in any sequence of requests (valid or not, for any intents) at
  most seven requests of one intent succeed, so the life of a transaction is bounded.\<close>

theorem transitions_per_intent_bounded: "successes now i rqs [] \<le> 7"
  using successes_bound[OF tx_table_ok_empty, of now i rqs] by simp

text \<open>A transaction that is CONFIRMED or FAILED stays so, whatever requests follow.\<close>

theorem terminal_is_final:
  assumes "state_of (run_requests now rqs []) i \<in> {CONFIRMED, FAILED}"
  shows "state_of (run_requests now' rqs' (run_requests now rqs [])) i
       = state_of (run_requests now rqs []) i"
  using run_requests_path[OF run_requests_ok[OF tx_table_ok_empty], of now rqs i now' rqs'] assms
  by (auto dest: terminal_path)

theorem terminal_is_final_witness:
  "state_of (run_requests 1 [wit_rq SIGNING] (run_requests 0 [wit_rq BUILDING, wit_rq FAILED] [])) ''i1''
     = FAILED"
proof -
  have "state_of (run_requests 0 [wit_rq BUILDING, wit_rq FAILED] []) ''i1'' = FAILED"
    by code_simp
  then show ?thesis
    using terminal_is_final[where now = 0 and rqs = "[wit_rq BUILDING, wit_rq FAILED]" and i = "''i1''"
      and now' = 1 and rqs' = "[wit_rq SIGNING]"]
    by simp
qed

text \<open>After any run from an empty database, startup recovery returns without error, lists each
  intent at most once, lists exactly the intents that were started and are neither CONFIRMED nor
  FAILED, and reports their current state.\<close>

theorem recovery_exact:
  "\<exists>rs. recover_on_startup (run_requests now rqs []) = Inr rs \<and>
     distinct (map rec_intent_id rs) \<and>
     set (map rec_intent_id rs) =
       {i. state_of (run_requests now rqs []) i \<notin> {IDLE, CONFIRMED, FAILED}} \<and>
     map rec_state rs = map (\<lambda>t. state_of (run_requests now rqs []) (rec_intent_id t)) rs"
proof -
  define tbl where "tbl = run_requests now rqs []"
  have ok: "tx_table_ok tbl" unfolding tbl_def by (rule run_requests_ok[OF tx_table_ok_empty])
  then have d: "dict_ok tbl" by (simp add: tx_table_ok_def)
  obtain rs where rs: "get_incomplete_transactions tbl = Inr rs"
    and ids: "map rec_intent_id rs =
      map fst (filter (\<lambda>(i, r). state_text r \<in> set incomplete_states) tbl)"
    and st: "\<forall>t \<in> set rs. rec_state t = state_of tbl (rec_intent_id t)"
    using incomplete_records[OF ok] by blast
  have "distinct (map rec_intent_id rs)"
    unfolding ids using d by (simp add: dict_ok_def distinct_map_filter)
  moreover have "set (map rec_intent_id rs) = {i. state_of tbl i \<notin> {IDLE, CONFIRMED, FAILED}}"
  proof (rule set_eqI)
    fix i
    have row: "state_text r \<in> set incomplete_states \<longleftrightarrow> state_of tbl i \<notin> {IDLE, CONFIRMED, FAILED}"
      if get: "dict_get i tbl = Some r" for r
    proof -
      from ok get obtain s where "s \<noteq> IDLE" "state_text r = tx_state_value s" by (rule tx_table_okD)
      with get show ?thesis by (simp add: state_of_def)
    qed
    have "i \<in> set (map rec_intent_id rs) \<longleftrightarrow>
        (\<exists>r. dict_get i tbl = Some r \<and> state_text r \<in> set incomplete_states)"
      unfolding ids by (force simp: dict_get_set[OF d])
    also have "\<dots> \<longleftrightarrow> state_of tbl i \<notin> {IDLE, CONFIRMED, FAILED}"
      using row state_of_IDLE_iff[OF ok, of i] by auto
    finally show "i \<in> set (map rec_intent_id rs) \<longleftrightarrow>
        i \<in> {i. state_of tbl i \<notin> {IDLE, CONFIRMED, FAILED}}" by simp
  qed
  moreover have "map rec_state rs = map (\<lambda>t. state_of tbl (rec_intent_id t)) rs" using st by simp
  ultimately show ?thesis using rs unfolding recover_on_startup_def tbl_def by blast
qed

end
