(* ===== verification/AsgardManager.thy ===== *)
theory AsgardManager
  imports MarketData TxStateMachine Positions
begin

text \<open>
  The Asgard transaction builder and position manager (\<open>bot/venues/asgard/transactions.py\<close>,
  \<open>bot/venues/asgard/manager.py\<close>), over the transaction state machine.

  The Asgard API and the Privy signer are an \<open>asgard_api\<close>: functions from the request to the
  answer (a failed call is an exception value; an answer's base64 field is the bytes it decodes to).
  The state is the transaction table and the trace of the calls made. \<open>json.dumps\<close> of the
  metadata is the argument \<open>dumps\<close> of the API record: its text is stored and never read. All
  clock readings of one call are \<open>now\<close>; a new UUID is an argument \<open>intent\<close>.
\<close>

section \<open>The venue\<close>

record create_payload =
  cp_intentId :: string
  cp_protocol :: int
  cp_tokenAMint :: string
  cp_tokenBMint :: string
  cp_tokenAAmount :: pyfloat
  cp_tokenBAmount :: pyfloat
  cp_owner :: string

datatype tx_meta =
    CreateMeta asset protocol pyfloat pyfloat
  | CloseMeta string
  | SlotMeta "int option"

datatype asgard_call =
    PostCreate create_payload
  | PostClose string string string
  | SignTx string string
  | PostSubmitCreate string string
  | PostSubmitClose string string
  | PostRefresh string
  | QuerySignature string

text \<open>\<open>br_transaction\<close>: absent or empty, undecodable, or the bytes. \<open>sr_signature\<close> is
  \<open>None\<close> for a null field (an absent one is the empty text).\<close>

record build_response =
  br_transaction :: "(exn + string) option"
  br_blockhash :: string

record submit_response =
  sr_signature :: "string option"
  sr_confirmed :: bool
  sr_slot :: "int option"

record venue_position =
  vp_collateral :: pyfloat
  vp_borrow :: pyfloat
  vp_health_factor :: pyfloat

text \<open>The RPC's answer on a signature, and what \<open>SolanaClient.get_signature_status\<close>
  (\<open>shared/chain/solana.py\<close>) makes of it.\<close>

record rpc_status =
  confirmation_status :: "string option"
  rpc_err :: "string option"

record signature_status =
  ss_confirmed :: bool
  ss_err :: "string option"

definition signature_status_of :: "rpc_status option \<Rightarrow> signature_status option" where
  "signature_status_of r =
     map_option (\<lambda>x. \<lparr>ss_confirmed = (confirmation_status x \<noteq> None), ss_err = rpc_err x\<rparr>) r"

record asgard_api =
  api_create :: "create_payload \<Rightarrow> exn + build_response"
  api_close :: "string \<Rightarrow> string \<Rightarrow> string \<Rightarrow> exn + build_response"
  api_sign :: "string \<Rightarrow> exn + string"
  api_submit_create :: "string \<Rightarrow> string \<Rightarrow> exn + submit_response"
  api_submit_close :: "string \<Rightarrow> string \<Rightarrow> exn + submit_response"
  api_refresh :: "string \<Rightarrow> exn + venue_position list"
  api_signature :: "string \<Rightarrow> exn + rpc_status option"
  api_markets :: "exn + market_strategy list"
  dumps :: "tx_meta \<Rightarrow> string"

record asgard_state =
  tx_store :: tx_table
  asgard_calls :: "asgard_call list"

section \<open>The transaction builder\<close>

record build_result =
  bu_intent_id :: string
  unsigned_tx :: string
  blockhash :: string
  bu_protocol :: protocol

record sign_result =
  sg_intent_id :: string
  signed_tx :: string
  sg_signature :: string

record submit_result =
  sb_intent_id :: string
  sb_signature :: "string option"
  confirmed :: bool
  slot :: "int option"

record tx_builder =
  tb_wallet_address :: string

definition request ::
  "string \<Rightarrow> tx_state \<Rightarrow> string option \<Rightarrow> string option \<Rightarrow> string option \<Rightarrow> tx_request" where
  "request i st sig md err =
     \<lparr>rq_intent_id = i, rq_target = st, rq_signature = sig, rq_metadata = md, rq_error = err\<rparr>"

definition machine_step :: "datetime \<Rightarrow> tx_request \<Rightarrow> (asgard_state, unit) action" where
  "machine_step now rq s =
     (case transition now now rq (tx_store s) of
        Inl e \<Rightarrow> (s, Inl e)
      | Inr (tbl, _) \<Rightarrow> (s\<lparr>tx_store := tbl\<rparr>, Inr ()))"

definition call :: "asgard_call \<Rightarrow> exn + 'a \<Rightarrow> (asgard_state, 'a) action" where
  "call c ans s = (s\<lparr>asgard_calls := asgard_calls s @ [c]\<rparr>, ans)"

text \<open>The \<open>except\<close> branch of every builder step: record \<open>FAILED\<close>, raise again.\<close>

definition or_failed ::
  "datetime \<Rightarrow> string \<Rightarrow> (asgard_state, 'a) action \<Rightarrow> (asgard_state, 'a) action" where
  "or_failed now i body =
     catching body (\<lambda>e. andthen (machine_step now (request i FAILED None None (Some (exn_text e))))
       (\<lambda>_. raising e))"

definition decoded_tx :: "build_response \<Rightarrow> exn + string" where
  "decoded_tx r =
     (case br_transaction r of None \<Rightarrow> Inl (ExternalError ''No transaction in response'') | Some t \<Rightarrow> t)"

definition build_create_position ::
  "asgard_api \<Rightarrow> tx_builder \<Rightarrow> datetime \<Rightarrow> string \<Rightarrow> asset \<Rightarrow> protocol \<Rightarrow> pyfloat \<Rightarrow> pyfloat
     \<Rightarrow> string \<Rightarrow> string \<Rightarrow> (asgard_state, build_result) action"
where
  "build_create_position api tb now i a p collateral borrow cmint bmint =
     andthen (machine_step now (request i BUILDING None None None)) (\<lambda>_.
     or_failed now i (
       let payload = \<lparr>cp_intentId = i, cp_protocol = protocol_value p, cp_tokenAMint = cmint,
                      cp_tokenBMint = bmint, cp_tokenAAmount = collateral, cp_tokenBAmount = borrow,
                      cp_owner = tb_wallet_address tb\<rparr>
       in andthen (call (PostCreate payload) (api_create api payload)) (\<lambda>r.
          andthen (lift_result (decoded_tx r)) (\<lambda>tx.
          andthen (machine_step now (request i BUILT None
                     (Some (dumps api (CreateMeta a p collateral borrow))) None)) (\<lambda>_.
          ret \<lparr>bu_intent_id = i, unsigned_tx = tx, blockhash = br_blockhash r,
               bu_protocol = p\<rparr>)))))"

definition sign_transaction ::
  "asgard_api \<Rightarrow> datetime \<Rightarrow> string \<Rightarrow> string \<Rightarrow> (asgard_state, sign_result) action"
where
  "sign_transaction api now i tx =
     andthen (machine_step now (request i SIGNING None None None)) (\<lambda>_.
     or_failed now i (
       andthen (call (SignTx i tx) (api_sign api tx)) (\<lambda>signed.
       andthen (machine_step now (request i SIGNED (Some i) None None)) (\<lambda>_.
       ret \<lparr>sg_intent_id = i, signed_tx = signed, sg_signature = i\<rparr>))))"

text \<open>The common tail of both submissions. \<open>sliced\<close>: the success log of
  \<open>submit_transaction\<close> slices the signature, which raises on a null one.\<close>

definition record_submission ::
  "asgard_api \<Rightarrow> datetime \<Rightarrow> string \<Rightarrow> bool \<Rightarrow> submit_response \<Rightarrow> (asgard_state, submit_result) action"
where
  "record_submission api now i sliced r =
     andthen (if sr_confirmed r
              then machine_step now (request i CONFIRMED (sr_signature r)
                     (Some (dumps api (SlotMeta (sr_slot r)))) None)
              else machine_step now (request i SUBMITTED (sr_signature r) None None)) (\<lambda>_.
     if sliced \<and> sr_signature r = None then raising (ExternalError ''NoneType is not subscriptable'')
     else ret \<lparr>sb_intent_id = i, sb_signature = sr_signature r, confirmed = sr_confirmed r,
               slot = sr_slot r\<rparr>)"

definition submit_transaction ::
  "asgard_api \<Rightarrow> datetime \<Rightarrow> string \<Rightarrow> string \<Rightarrow> (asgard_state, submit_result) action"
where
  "submit_transaction api now i signed =
     andthen (machine_step now (request i SUBMITTING None None None)) (\<lambda>_.
     or_failed now i (
       andthen (call (PostSubmitCreate i signed) (api_submit_create api i signed))
         (record_submission api now i True)))"

definition build_close_position ::
  "asgard_api \<Rightarrow> tx_builder \<Rightarrow> datetime \<Rightarrow> string \<Rightarrow> string \<Rightarrow> (asgard_state, build_result) action"
where
  "build_close_position api tb now i pda =
     andthen (machine_step now (request i BUILDING None None None)) (\<lambda>_.
     or_failed now i (
       andthen (call (PostClose i pda (tb_wallet_address tb))
                  (api_close api i pda (tb_wallet_address tb))) (\<lambda>r.
       andthen (lift_result (decoded_tx r)) (\<lambda>tx.
       andthen (machine_step now (request i BUILT None (Some (dumps api (CloseMeta pda))) None)) (\<lambda>_.
       ret \<lparr>bu_intent_id = i, unsigned_tx = tx, blockhash = br_blockhash r,
            bu_protocol = MARGINFI\<rparr>)))))"

definition submit_close_transaction ::
  "asgard_api \<Rightarrow> datetime \<Rightarrow> string \<Rightarrow> string \<Rightarrow> (asgard_state, submit_result) action"
where
  "submit_close_transaction api now i signed =
     andthen (machine_step now (request i SUBMITTING None None None)) (\<lambda>_.
     or_failed now i (
       andthen (call (PostSubmitClose i signed) (api_submit_close api i signed))
         (record_submission api now i False)))"

section \<open>The position manager of the long leg\<close>

record open_position_result =
  op_success :: bool
  op_position :: "asgard_position option"
  op_intent_id :: "string option"
  op_signature :: "string option"
  op_error :: "string option"

record close_position_result =
  cl_success :: bool
  cl_signature :: "string option"
  cl_error :: "string option"

text \<open>\<open>am_builder\<close> is \<open>None\<close> when no wallet or signer is configured;
  \<open>am_max_leverage\<close> is the key of the risk configuration, \<open>am_has_solana\<close> whether
  there is a Solana client.\<close>

record asgard_manager =
  am_builder :: "tx_builder option"
  am_max_leverage :: "pyfloat option"
  am_has_solana :: bool
  am_market_data :: market_data

definition text_of :: "string option \<Rightarrow> exn + string" where
  "text_of x = (case x of None \<Rightarrow> Inl (ExternalError ''NoneType is not subscriptable'') | Some s \<Rightarrow> Inr s)"

definition failed_open :: "string option \<Rightarrow> string \<Rightarrow> open_position_result" where
  "failed_open i err =
     \<lparr>op_success = False, op_position = None, op_intent_id = i, op_signature = None,
      op_error = Some err\<rparr>"

definition new_asgard_position ::
  "datetime \<Rightarrow> string \<Rightarrow> asset \<Rightarrow> protocol \<Rightarrow> pyfloat \<Rightarrow> pyfloat \<Rightarrow> pyfloat \<Rightarrow> pyfloat \<Rightarrow> string
     \<Rightarrow> asgard_position"
where
  "new_asgard_position now i a p collateral psize borrow lev sig =
     \<lparr>position_pda = take 32 sig, intent_id = i, ap_asset = a, ap_protocol = p,
      collateral_usd = float_str collateral, position_size_usd = float_str psize,
      ap_leverage = float_str lev, token_a_amount = float_str collateral,
      token_b_borrowed = float_str borrow, entry_price_token_a = 0, entry_price_token_b = 1,
      current_health_factor = 20/100, current_token_a_price = 0, ap_entry_time = now,
      ap_last_update = now, create_tx_signature = Some sig, close_tx_signature = None\<rparr>"

text \<open>The \<open>try\<close> body, after the protocol has been chosen.\<close>

definition open_with_protocol ::
  "asgard_api \<Rightarrow> asgard_manager \<Rightarrow> datetime \<Rightarrow> string \<Rightarrow> asset \<Rightarrow> pyfloat \<Rightarrow> pyfloat \<Rightarrow> protocol
     \<Rightarrow> (asgard_state, open_position_result) action"
where
  "open_with_protocol api am now i a collateral lev p =
     (case am_builder am of
        None \<Rightarrow> ret (failed_open None ''Transaction builder not available (missing private key)'')
      | Some tb \<Rightarrow>
          let psize = flt (collateral * lev); borrow = flt (collateral * flt (lev - 1))
          in andthen (build_create_position api tb now i a p collateral borrow (get_mint a) USDC_MINT) (\<lambda>b.
             andthen (sign_transaction api now i (unsigned_tx b)) (\<lambda>sg.
             andthen (submit_transaction api now i (signed_tx sg)) (\<lambda>sb.
             if \<not> confirmed sb
             then ret \<lparr>op_success = True, op_position = None, op_intent_id = Some i,
                       op_signature = sb_signature sb,
                       op_error = Some ''Transaction submitted but pending confirmation''\<rparr>
             else andthen (lift_result (text_of (sb_signature sb))) (\<lambda>sig.
                  ret \<lparr>op_success = True,
                       op_position = Some (new_asgard_position now i a p collateral psize borrow lev sig),
                       op_intent_id = Some i, op_signature = Some sig, op_error = None\<rparr>)))))"

definition open_long_position ::
  "asgard_api \<Rightarrow> asgard_manager \<Rightarrow> datetime \<Rightarrow> string \<Rightarrow> asset \<Rightarrow> pyfloat \<Rightarrow> pyfloat \<Rightarrow> protocol option
     \<Rightarrow> (asgard_state, open_position_result) action"
where
  "open_long_position api am now i a collateral lev p =
     catching
       (if lev > get_or (am_max_leverage am) 4 then raising (ValueError ''Leverage exceeds maximum'')
        else case p of
          Some p' \<Rightarrow> open_with_protocol api am now i a collateral lev p'
        | None \<Rightarrow>
            andthen (lift_result (snd (select_best_protocol (api_markets api) a collateral lev
                       (flt (12/10)) (am_market_data am)))) (\<lambda>best.
            case best of
              None \<Rightarrow> ret (failed_open None ''No suitable protocol found with sufficient capacity'')
            | Some b \<Rightarrow> open_with_protocol api am now i a collateral lev (nc_protocol b)))
       (\<lambda>e. ret (failed_open (Some i) (exn_text e)))"

definition close_asgard ::
  "asgard_api \<Rightarrow> asgard_manager \<Rightarrow> datetime \<Rightarrow> string \<Rightarrow> string
     \<Rightarrow> (asgard_state, close_position_result) action"
where
  "close_asgard api am now i pda =
     catching
       (case am_builder am of
          None \<Rightarrow> ret \<lparr>cl_success = False, cl_signature = None,
                       cl_error = Some ''Transaction builder not available''\<rparr>
        | Some tb \<Rightarrow>
            andthen (build_close_position api tb now i pda) (\<lambda>b.
            andthen (sign_transaction api now i (unsigned_tx b)) (\<lambda>sg.
            andthen (submit_close_transaction api now i (signed_tx sg)) (\<lambda>sb.
            andthen (lift_result (text_of (sb_signature sb))) (\<lambda>sig.
            ret \<lparr>cl_success = True, cl_signature = Some sig, cl_error = None\<rparr>)))))
       (\<lambda>e. ret \<lparr>cl_success = False, cl_signature = None, cl_error = Some (exn_text e)\<rparr>)"

section \<open>Monitoring\<close>

record position_state =
  po_position_pda :: string
  collateral_amount :: pyfloat
  borrow_amount :: pyfloat
  po_health_factor :: pyfloat

definition get_position_state ::
  "asgard_api \<Rightarrow> string \<Rightarrow> (asgard_state, position_state option) action" where
  "get_position_state api pda =
     catching
       (andthen (call (PostRefresh pda) (api_refresh api pda)) (\<lambda>ps.
        ret (case ps of
               [] \<Rightarrow> None
             | v # _ \<Rightarrow> Some \<lparr>po_position_pda = pda, collateral_amount = vp_collateral v,
                              borrow_amount = vp_borrow v, po_health_factor = vp_health_factor v\<rparr>)))
       (\<lambda>_. ret None)"

record health_status =
  hs_position_pda :: string
  hs_health_factor :: pyfloat
  is_healthy :: bool
  liquidation_proximity :: pyfloat

datatype health_label = HL_CRITICAL | HL_EMERGENCY | HL_WARNING | HL_HEALTHY

definition health_label :: "health_status \<Rightarrow> health_label" where
  "health_label h =
     (if hs_health_factor h \<le> flt (5/100) then HL_CRITICAL
      else if hs_health_factor h \<le> flt (10/100) then HL_EMERGENCY
      else if hs_health_factor h \<le> flt (20/100) then HL_WARNING
      else HL_HEALTHY)"

definition monitor_health ::
  "asgard_api \<Rightarrow> string \<Rightarrow> (asgard_state, health_status option) action" where
  "monitor_health api pda =
     andthen (get_position_state api pda) (\<lambda>ps.
     ret (case ps of
            None \<Rightarrow> None
          | Some p \<Rightarrow>
              let hf = po_health_factor p
              in Some \<lparr>hs_position_pda = pda, hs_health_factor = hf,
                       is_healthy = (hf > flt (20/100)),
                       liquidation_proximity = max 0 (flt (1 - flt (hf / flt (20/100))))\<rparr>))"

text \<open>Only a confirmed or failed status changes anything; the rebroadcast itself is a stub in the
  code.\<close>

definition rebroadcast_if_stuck ::
  "asgard_api \<Rightarrow> asgard_manager \<Rightarrow> datetime \<Rightarrow> string \<Rightarrow> (asgard_state, bool) action" where
  "rebroadcast_if_stuck api am now i s =
     andthen (lift_result (get_state (tx_store s) i)) (\<lambda>cur.
     case cur of
       None \<Rightarrow> ret False
     | Some t \<Rightarrow>
         if rec_state t = CONFIRMED then ret True
         else if rec_state t \<noteq> SIGNED \<and> rec_state t \<noteq> SUBMITTED then ret False
         else if rec_signature t = None \<or> rec_signature t = Some '''' then ret False
         else if \<not> am_has_solana am then ret False
         else catching
           (andthen (call (QuerySignature (the (rec_signature t)))
                       (api_signature api (the (rec_signature t)))) (\<lambda>st.
            case signature_status_of st of
              None \<Rightarrow> ret False
            | Some x \<Rightarrow>
                if ss_confirmed x
                then andthen (machine_step now (request i CONFIRMED (rec_signature t) None None)) (\<lambda>_. ret True)
                else (case ss_err x of
                        None \<Rightarrow> ret False
                      | Some err \<Rightarrow>
                          andthen (machine_step now (request i FAILED None None (Some err))) (\<lambda>_. ret False))))
           (\<lambda>_. ret False)) s"

section \<open>Lemmas\<close>

abbreviation ok :: "asgard_state \<Rightarrow> bool" where
  "ok s \<equiv> tx_table_ok (tx_store s)"

abbreviation intent_state :: "asgard_state \<Rightarrow> string \<Rightarrow> tx_state" where
  "intent_state s i \<equiv> state_of (tx_store s) i"

text \<open>\<open>moves i st m st'\<close>: started with intent \<open>i\<close> in state \<open>st\<close> the step
  either succeeds and leaves it in \<open>st'\<close>, or raises and leaves it in \<open>FAILED\<close>.\<close>

definition moves :: "string \<Rightarrow> tx_state \<Rightarrow> (asgard_state, 'a) action \<Rightarrow> tx_state \<Rightarrow> bool" where
  "moves i st m st' \<longleftrightarrow>
     (\<forall>s s1 r. ok s \<and> intent_state s i = st \<and> m s = (s1, r) \<longrightarrow>
        ok s1 \<and> (case r of Inl _ \<Rightarrow> intent_state s1 i = FAILED | Inr _ \<Rightarrow> intent_state s1 i = st'))"

text \<open>\<open>try_body i st m st'\<close>: the same inside the \<open>try\<close>, where a raise leaves a state
  that can still fail.\<close>

definition try_body :: "string \<Rightarrow> tx_state \<Rightarrow> (asgard_state, 'a) action \<Rightarrow> tx_state \<Rightarrow> bool" where
  "try_body i st m st' \<longleftrightarrow>
     (\<forall>s s1 r. ok s \<and> intent_state s i = st \<and> m s = (s1, r) \<longrightarrow>
        ok s1 \<and> (case r of Inl _ \<Rightarrow> tx_step (intent_state s1 i) FAILED
                 | Inr _ \<Rightarrow> intent_state s1 i = st'))"

lemma movesD:
  assumes "moves i st m st'" "ok s" "intent_state s i = st" "m s = (s1, r)"
  shows "ok s1" "r = Inr v \<Longrightarrow> intent_state s1 i = st'" "r = Inl e \<Longrightarrow> intent_state s1 i = FAILED"
  using assms unfolding moves_def by fastforce+

lemma try_bodyD:
  assumes "try_body i st m st'" "ok s" "intent_state s i = st" "m s = (s1, r)"
  shows "ok s1" "r = Inr v \<Longrightarrow> intent_state s1 i = st'"
    "r = Inl e \<Longrightarrow> tx_step (intent_state s1 i) FAILED"
  using assms unfolding try_body_def by fastforce+

lemma machine_step_cases:
  assumes "ok s"
  shows "machine_step now (request i st sig md err) s =
     (if tx_step (intent_state s i) st
      then (s\<lparr>tx_store := save_state now i st sig md err (tx_store s)\<rparr>, Inr ())
      else (s, Inl (if intent_state s i = IDLE
                    then ValueError ''New transaction must start from BUILDING''
                    else ValueError ''Invalid transition'')))"
  by (simp add: machine_step_def transition_cases[OF assms] request_def)

lemma machine_step_ok:
  assumes "ok s"
  shows "ok (fst (machine_step now (request i st sig md err) s))"
    and "intent_state (fst (machine_step now (request i st sig md err) s)) i =
       (if tx_step (intent_state s i) st then st else intent_state s i)"
  using assms not_step_to_IDLE
  by (auto simp: machine_step_cases[OF assms] state_of_save[OF assms] intro!: tx_table_ok_save)

lemma call_eq: "call c ans s = (s1, r) \<longleftrightarrow> s1 = s\<lparr>asgard_calls := asgard_calls s @ [c]\<rparr> \<and> r = ans"
  by (auto simp: call_def)

lemma try_body_step:
  assumes "tx_step st st'" "tx_step st FAILED"
  shows "try_body i st (machine_step now (request i st' sig md err)) st'"
  using assms not_step_to_IDLE
  by (auto simp: try_body_def machine_step_cases state_of_save intro!: tx_table_ok_save)

lemma try_body_quiet:
  assumes "tx_step st FAILED" "\<And>s s1 r. m s = (s1, r) \<Longrightarrow> tx_store s1 = tx_store s"
  shows "try_body i st m st"
  unfolding try_body_def using assms by (fastforce split: sum.splits)

lemma try_body_call: "tx_step st FAILED \<Longrightarrow> try_body i st (call c ans) st"
  by (rule try_body_quiet) (auto simp: call_eq)

lemma try_body_pure: "tx_step st FAILED \<Longrightarrow> try_body i st (ret v) st"
  "tx_step st FAILED \<Longrightarrow> try_body i st (lift_result r) st"
  by (rule try_body_quiet; simp)+

lemma try_body_andthen:
  assumes "try_body i st m st1" "\<And>v. try_body i st1 (k v) st2"
  shows "try_body i st (andthen m k) st2"
  unfolding try_body_def
proof (intro allI impI, elim conjE)
  fix s s2 r assume s: "ok s" "intent_state s i = st" and mk: "andthen m k s = (s2, r)"
  obtain s1 r1 where m: "m s = (s1, r1)" by force
  note 1 = try_bodyD[OF assms(1) s m]
  show "ok s2 \<and> (case r of Inl _ \<Rightarrow> tx_step (intent_state s2 i) FAILED
      | Inr _ \<Rightarrow> intent_state s2 i = st2)"
  proof (cases r1)
    case (Inl e)
    with mk m 1 show ?thesis by (auto simp: andthen_def)
  next
    case (Inr v)
    with mk m have "k v s1 = (s2, r)" by (simp add: andthen_def)
    from try_bodyD[OF assms(2) 1(1) 1(2)[OF Inr] this] show ?thesis by (cases r) auto
  qed
qed

lemma moves_step:
  assumes "tx_step st st1" "try_body i st1 m st2"
  shows "moves i st (andthen (machine_step now (request i st1 None None None)) (\<lambda>_. or_failed now i m)) st2"
  unfolding moves_def
proof (intro allI impI, elim conjE)
  fix s s3 r
  assume s: "ok s" "intent_state s i = st"
    and run: "andthen (machine_step now (request i st1 None None None)) (\<lambda>_. or_failed now i m) s = (s3, r)"
  define s1 where "s1 = s\<lparr>tx_store := save_state now i st1 None None None (tx_store s)\<rparr>"
  have 1: "ok s1" "intent_state s1 i = st1"
    using s assms(1) not_step_to_IDLE
    by (auto simp: s1_def state_of_save[OF s(1)] intro!: tx_table_ok_save)
  have ms: "or_failed now i m s1 = (s3, r)"
    using run s assms(1) by (simp add: andthen_def machine_step_cases s1_def)
  obtain s2 r2 where m: "m s1 = (s2, r2)" by force
  note 2 = try_bodyD[OF assms(2) 1 m]
  show "ok s3 \<and> (case r of Inl _ \<Rightarrow> intent_state s3 i = FAILED | Inr _ \<Rightarrow> intent_state s3 i = st2)"
  proof (cases r2)
    case (Inr v)
    with ms m 2 show ?thesis by (auto simp: or_failed_def catching_def)
  next
    case (Inl e)
    with ms m 2 show ?thesis
      by (auto simp: or_failed_def catching_def andthen_def machine_step_cases
          state_of_save tx_table_ok_save)
  qed
qed

lemma step_facts [simp]:
  "tx_step IDLE BUILDING" "tx_step BUILDING BUILT" "tx_step BUILT SIGNING" "tx_step SIGNING SIGNED"
  "tx_step SIGNED SUBMITTING" "tx_step SUBMITTING SUBMITTED" "\<not> tx_step SUBMITTING CONFIRMED"
  "tx_step BUILDING FAILED" "tx_step BUILT FAILED" "tx_step SIGNING FAILED" "tx_step SIGNED FAILED"
  "tx_step SUBMITTING FAILED" "tx_step SUBMITTED FAILED"
  by (simp_all add: tx_step_simps)

lemma build_create_moves: "moves i IDLE (build_create_position api tb now i a p c b cm bm) BUILT"
  unfolding build_create_position_def Let_def
  by (intro moves_step try_body_andthen[where ?st1.0 = BUILDING] try_body_andthen[where ?st1.0 = BUILT]
      try_body_call try_body_pure try_body_step) simp_all

lemma build_close_moves: "moves i IDLE (build_close_position api tb now i pda) BUILT"
  unfolding build_close_position_def
  by (intro moves_step try_body_andthen[where ?st1.0 = BUILDING] try_body_andthen[where ?st1.0 = BUILT]
      try_body_call try_body_pure try_body_step) simp_all

lemma sign_moves: "moves i BUILT (sign_transaction api now i tx) SIGNED"
  unfolding sign_transaction_def
  by (intro moves_step try_body_andthen[where ?st1.0 = SIGNING] try_body_andthen[where ?st1.0 = SIGNED]
      try_body_call try_body_pure try_body_step) simp_all

text \<open>The edge from \<open>SUBMITTING\<close> to \<open>CONFIRMED\<close> is missing, so recording a confirmed
  submission raises.\<close>

lemma record_submission_cases:
  assumes "ok s" "intent_state s i = SUBMITTING"
  shows "record_submission api now i sliced r s =
     (if sr_confirmed r then (s, Inl (ValueError ''Invalid transition''))
      else (s\<lparr>tx_store := save_state now i SUBMITTED (sr_signature r) None None (tx_store s)\<rparr>,
            if sliced \<and> sr_signature r = None
            then Inl (ExternalError ''NoneType is not subscriptable'')
            else Inr \<lparr>sb_intent_id = i, sb_signature = sr_signature r, confirmed = False,
                      slot = sr_slot r\<rparr>))"
  using assms by (simp add: record_submission_def andthen_def machine_step_cases)

lemma record_submission_body:
  "try_body i SUBMITTING (record_submission api now i sliced r) SUBMITTED"
  by (auto simp: try_body_def record_submission_cases state_of_save intro!: tx_table_ok_save
      split: if_splits)

lemma submit_moves: "moves i SIGNED (submit_transaction api now i tx) SUBMITTED"
  unfolding submit_transaction_def
  by (intro moves_step try_body_andthen[where ?st1.0 = SUBMITTING] try_body_call
      record_submission_body) simp_all

lemma submit_close_moves: "moves i SIGNED (submit_close_transaction api now i tx) SUBMITTED"
  unfolding submit_close_transaction_def
  by (intro moves_step try_body_andthen[where ?st1.0 = SUBMITTING] try_body_call
      record_submission_body) simp_all

lemmas builder_moves = build_create_moves build_close_moves sign_moves submit_moves submit_close_moves

definition failed_store :: "datetime \<Rightarrow> string \<Rightarrow> exn \<Rightarrow> asgard_state \<Rightarrow> asgard_state" where
  "failed_store now i e s =
     s\<lparr>tx_store := save_state now i FAILED None None (Some (exn_text e)) (tx_store s)\<rparr>"

lemma failed_store_simps [simp]:
  "asgard_calls (failed_store now i e s) = asgard_calls s"
  "ok s \<Longrightarrow> ok (failed_store now i e s)"
  "ok s \<Longrightarrow> intent_state (failed_store now i e s) i = FAILED"
  by (simp_all add: failed_store_def state_of_save tx_table_ok_save)

lemma or_failed_Inl:
  assumes "body s = (s1, Inl e)" "ok s1" "tx_step (intent_state s1 i) FAILED"
  shows "or_failed now i body s = (failed_store now i e s1, Inl e)"
  using assms
  by (simp add: or_failed_def catching_def andthen_def machine_step_cases failed_store_def)

lemma or_failed_Inr: "body s = (s1, Inr v) \<Longrightarrow> or_failed now i body s = (s1, Inr v)"
  by (simp add: or_failed_def catching_def)

lemma or_failed_cong: "m s = m' s' \<Longrightarrow> or_failed now i m s = or_failed now i m' s'"
  by (simp add: or_failed_def catching_def)

text \<open>What a submission does from \<open>SIGNED\<close>, in full.\<close>

definition submitting_store :: "datetime \<Rightarrow> string \<Rightarrow> asgard_call \<Rightarrow> asgard_state \<Rightarrow> asgard_state" where
  "submitting_store now i c s =
     s\<lparr>tx_store := save_state now i SUBMITTING None None None (tx_store s),
       asgard_calls := asgard_calls s @ [c]\<rparr>"

lemma submitting_store_simps [simp]:
  "asgard_calls (submitting_store now i c s) = asgard_calls s @ [c]"
  "ok s \<Longrightarrow> ok (submitting_store now i c s)"
  "ok s \<Longrightarrow> intent_state (submitting_store now i c s) i = SUBMITTING"
  by (simp_all add: submitting_store_def state_of_save tx_table_ok_save)

lemma submit_body:
  assumes "ok s" "intent_state s i = SIGNED"
  shows "submit_transaction api now i tx s =
     or_failed now i (\<lambda>_. case api_submit_create api i tx of
        Inl e \<Rightarrow> (submitting_store now i (PostSubmitCreate i tx) s, Inl e)
      | Inr r \<Rightarrow> record_submission api now i True r (submitting_store now i (PostSubmitCreate i tx) s))
       s"
  and "submit_close_transaction api now i tx s =
     or_failed now i (\<lambda>_. case api_submit_close api i tx of
        Inl e \<Rightarrow> (submitting_store now i (PostSubmitClose i tx) s, Inl e)
      | Inr r \<Rightarrow> record_submission api now i False r (submitting_store now i (PostSubmitClose i tx) s))
       s"
proof -
  let ?s1 = "s\<lparr>tx_store := save_state now i SUBMITTING None None None (tx_store s)\<rparr>"
  have step: "andthen (machine_step now (request i SUBMITTING None None None)) k s = k () ?s1"
    for k :: "unit \<Rightarrow> (asgard_state, submit_result) action"
    using assms by (simp add: andthen_def machine_step_cases)
  show "submit_transaction api now i tx s =
     or_failed now i (\<lambda>_. case api_submit_create api i tx of
        Inl e \<Rightarrow> (submitting_store now i (PostSubmitCreate i tx) s, Inl e)
      | Inr r \<Rightarrow> record_submission api now i True r (submitting_store now i (PostSubmitCreate i tx) s))
       s"
    unfolding submit_transaction_def step
    by (rule or_failed_cong) (simp add: andthen_def call_def submitting_store_def split: sum.splits)
  show "submit_close_transaction api now i tx s =
     or_failed now i (\<lambda>_. case api_submit_close api i tx of
        Inl e \<Rightarrow> (submitting_store now i (PostSubmitClose i tx) s, Inl e)
      | Inr r \<Rightarrow> record_submission api now i False r (submitting_store now i (PostSubmitClose i tx) s))
       s"
    unfolding submit_close_transaction_def step
    by (rule or_failed_cong) (simp add: andthen_def call_def submitting_store_def split: sum.splits)
qed

lemma submit_not_confirmed:
  assumes s: "ok s" "intent_state s i = SIGNED"
    and m: "submit_transaction api now i tx s = (s1, Inr sb)"
  shows "\<not> confirmed sb"
  using m s unfolding submit_body(1)[OF s] or_failed_def catching_Inr_iff
  by (auto simp: andthen_Inr_iff record_submission_cases split: sum.splits if_splits)

lemma submit_confirmed_fails:
  assumes s: "ok s" "intent_state s i = SIGNED"
    and "api_submit_create api i tx = Inr r" "sr_confirmed r"
  shows "submit_transaction api now i tx s =
     (failed_store now i (ValueError ''Invalid transition'')
        (submitting_store now i (PostSubmitCreate i tx) s), Inl (ValueError ''Invalid transition''))"
  unfolding submit_body(1)[OF s]
  by (rule or_failed_Inl) (use assms in \<open>simp_all add: record_submission_cases\<close>)

lemma submit_close_confirmed_fails:
  assumes s: "ok s" "intent_state s i = SIGNED"
    and "api_submit_close api i tx = Inr r" "sr_confirmed r"
  shows "submit_close_transaction api now i tx s =
     (failed_store now i (ValueError ''Invalid transition'')
        (submitting_store now i (PostSubmitClose i tx) s), Inl (ValueError ''Invalid transition''))"
  unfolding submit_body(2)[OF s]
  by (rule or_failed_Inl) (use assms in \<open>simp_all add: record_submission_cases\<close>)

text \<open>The three builder steps in a row.\<close>

lemma open_with_protocol_outcome:
  assumes "ok s" "intent_state s i = IDLE"
    and run: "open_with_protocol api am now i a c lev p s = (s1, out)"
  shows "ok s1" and "out = Inl e \<Longrightarrow> intent_state s1 i = FAILED"
    and "out = Inr r \<Longrightarrow> op_position r = None \<and> intent_state s1 i = (if op_success r then SUBMITTED else IDLE)"
proof -
  have "ok s1 \<and> (case out of Inl _ \<Rightarrow> intent_state s1 i = FAILED
     | Inr r \<Rightarrow> op_position r = None \<and> intent_state s1 i = (if op_success r then SUBMITTED else IDLE))"
  proof (cases "am_builder am")
    case None
    with run assms show ?thesis
      by (auto simp: open_with_protocol_def failed_open_def)
  next
    case (Some tb)
    let ?build = "build_create_position api tb now i a p c (flt (c * flt (lev - 1))) (get_mint a) USDC_MINT"
    obtain s2 r2 where b: "?build s = (s2, r2)" by force
    note B = movesD[OF build_create_moves assms(1,2) b]
    show ?thesis
    proof (cases r2)
      case (Inl e)
      with run b B Some show ?thesis by (auto simp: open_with_protocol_def andthen_def Let_def)
    next
      case (Inr bu)
      obtain s3 r3 where g: "sign_transaction api now i (unsigned_tx bu) s2 = (s3, r3)" by force
      note G = movesD[OF sign_moves B(1) B(2)[OF Inr] g]
      show ?thesis
      proof (cases r3)
        case (Inl e)
        with run b Inr g G Some show ?thesis by (auto simp: open_with_protocol_def andthen_def Let_def)
      next
        case (Inr sg)
        obtain s4 r4 where t: "submit_transaction api now i (signed_tx sg) s3 = (s4, r4)" by force
        note T = movesD[OF submit_moves G(1) G(2)[OF Inr] t]
        show ?thesis
        proof (cases r4)
          case (Inl e)
          with run b \<open>r2 = Inr bu\<close> g \<open>r3 = Inr sg\<close> t T Some show ?thesis
            by (auto simp: open_with_protocol_def andthen_def Let_def)
        next
          case (Inr sb)
          with t have "\<not> confirmed sb" using submit_not_confirmed[OF G(1) G(2)[OF \<open>r3 = Inr sg\<close>]] by simp
          with run b \<open>r2 = Inr bu\<close> g \<open>r3 = Inr sg\<close> t Inr T Some show ?thesis
            by (auto simp: open_with_protocol_def andthen_def Let_def)
        qed
      qed
    qed
  qed
  then show "ok s1" and "out = Inl e \<Longrightarrow> intent_state s1 i = FAILED"
    and "out = Inr r \<Longrightarrow> op_position r = None \<and> intent_state s1 i = (if op_success r then SUBMITTED else IDLE)"
    by (auto split: sum.splits)
qed

lemma open_long_returns: "\<exists>s1 r. open_long_position api am now i a c lev p s = (s1, Inr r)"
  by (auto simp: open_long_position_def catching_def split: prod.splits sum.splits)

text \<open>The path on which every answer is good.\<close>

definition stored ::
  "datetime \<Rightarrow> string \<Rightarrow> tx_state \<Rightarrow> string option \<Rightarrow> string option \<Rightarrow> asgard_state \<Rightarrow> asgard_state" where
  "stored now i st sig md s = s\<lparr>tx_store := save_state now i st sig md None (tx_store s)\<rparr>"

lemma stored_simps [simp]:
  "asgard_calls (stored now i st sig md s) = asgard_calls s"
  "ok s \<Longrightarrow> st \<noteq> IDLE \<Longrightarrow> ok (stored now i st sig md s)"
  "ok s \<Longrightarrow> intent_state (stored now i st sig md s) i = st"
  by (simp_all add: stored_def state_of_save tx_table_ok_save)

lemma machine_step_stored:
  "ok s \<Longrightarrow> tx_step (intent_state s i) st \<Longrightarrow>
     machine_step now (request i st sig md None) s = (stored now i st sig md s, Inr ())"
  by (simp add: machine_step_cases stored_def)

lemma machine_then:
  "ok s \<Longrightarrow> tx_step (intent_state s i) st \<Longrightarrow>
     andthen (machine_step now (request i st sig md None)) k s = k () (stored now i st sig md s)"
  by (simp add: andthen_def machine_step_stored)

lemma build_create_ok:
  assumes s: "ok s" "intent_state s i = IDLE"
    and api: "api_create api payload = Inr b" "decoded_tx b = Inr tx"
    and payload: "payload = \<lparr>cp_intentId = i, cp_protocol = protocol_value p, cp_tokenAMint = cm,
      cp_tokenBMint = bm, cp_tokenAAmount = c, cp_tokenBAmount = bw, cp_owner = tb_wallet_address tb\<rparr>"
  shows "\<exists>s1 bu. build_create_position api tb now i a p c bw cm bm s = (s1, Inr bu) \<and>
     unsigned_tx bu = tx \<and> asgard_calls s1 = asgard_calls s @ [PostCreate payload]"
proof -
  define s0 where "s0 = stored now i BUILDING None None s"
  define s1 where "s1 = s0\<lparr>asgard_calls := asgard_calls s @ [PostCreate payload]\<rparr>"
  have 1: "ok s1" "intent_state s1 i = BUILDING" using s by (simp_all add: s1_def s0_def)
  have c: "asgard_calls s0 = asgard_calls s" by (simp add: s0_def)
  show ?thesis
    unfolding build_create_position_def payload[symmetric] Let_def
    using 1 api s
    by (intro exI conjI, subst machine_then)
      (simp_all add: s0_def[symmetric] or_failed_Inr andthen_def call_def c s1_def[symmetric]
        machine_step_stored, simp_all add: s1_def)
qed

lemma build_close_ok:
  assumes s: "ok s" "intent_state s i = IDLE"
    and api: "api_close api i pda (tb_wallet_address tb) = Inr b" "decoded_tx b = Inr tx"
  shows "\<exists>s1 bu. build_close_position api tb now i pda s = (s1, Inr bu) \<and>
     unsigned_tx bu = tx \<and> asgard_calls s1 = asgard_calls s @ [PostClose i pda (tb_wallet_address tb)]"
proof -
  define s0 where "s0 = stored now i BUILDING None None s"
  define s1 where "s1 = s0\<lparr>asgard_calls := asgard_calls s @ [PostClose i pda (tb_wallet_address tb)]\<rparr>"
  have 1: "ok s1" "intent_state s1 i = BUILDING" using s by (simp_all add: s1_def s0_def)
  have c: "asgard_calls s0 = asgard_calls s" by (simp add: s0_def)
  show ?thesis
    unfolding build_close_position_def
    using 1 api s
    by (intro exI conjI, subst machine_then)
      (simp_all add: s0_def[symmetric] or_failed_Inr andthen_def call_def c s1_def[symmetric]
        machine_step_stored, simp_all add: s1_def)
qed

lemma sign_ok:
  assumes s: "ok s" "intent_state s i = BUILT" and api: "api_sign api tx = Inr signed"
  shows "\<exists>s1 sg. sign_transaction api now i tx s = (s1, Inr sg) \<and>
     signed_tx sg = signed \<and> asgard_calls s1 = asgard_calls s @ [SignTx i tx]"
proof -
  define s0 where "s0 = stored now i SIGNING None None s"
  define s1 where "s1 = s0\<lparr>asgard_calls := asgard_calls s @ [SignTx i tx]\<rparr>"
  have 1: "ok s1" "intent_state s1 i = SIGNING" using s by (simp_all add: s1_def s0_def)
  have c: "asgard_calls s0 = asgard_calls s" by (simp add: s0_def)
  show ?thesis
    unfolding sign_transaction_def
    using 1 api s
    by (intro exI conjI, subst machine_then)
      (simp_all add: s0_def[symmetric] or_failed_Inr andthen_def call_def c s1_def[symmetric]
        machine_step_stored, simp_all add: s1_def)
qed

lemma close_success_pending:
  assumes "ok s" "intent_state s i = IDLE" and run: "close_asgard api am now i pda s = (s1, Inr r)"
    and ok: "cl_success r"
  shows "intent_state s1 i = SUBMITTED"
proof -
  from run ok obtain tb b s2 sg s3 sb where
    "build_close_position api tb now i pda s = (s2, Inr b)"
    "sign_transaction api now i (unsigned_tx b) s2 = (s3, Inr sg)"
    "submit_close_transaction api now i (signed_tx sg) s3 = (s1, Inr sb)"
    by (auto simp: close_asgard_def catching_Inr_iff andthen_Inr_iff split: option.splits)
  then show ?thesis
    using movesD[OF build_close_moves assms(1,2)] movesD[OF sign_moves] movesD(2)[OF submit_close_moves]
    by metis
qed

lemma confirmed_open_fails:
  assumes "ok s" "intent_state s i = IDLE" "am_builder am = Some tb"
    and "api_sign api tx = Inr signed" "decoded_tx b = Inr tx" "sr_confirmed r"
    and lev: "lev \<le> get_or (am_max_leverage am) 4" and cr: "\<And>payload. api_create api payload = Inr b"
    and sub: "api_submit_create api i signed = Inr r"
  shows "\<exists>s1. open_long_position api am now i a c lev (Some p) s =
         (s1, Inr (failed_open (Some i) ''Invalid transition'')) \<and>
       intent_state s1 i = FAILED \<and> PostSubmitCreate i signed \<in> set (asgard_calls s1)"
proof -
  let ?build = "build_create_position api tb now i a p c (flt (c * flt (lev - 1))) (get_mint a) USDC_MINT"
  obtain s1 bu where b: "?build s = (s1, Inr bu)" "unsigned_tx bu = tx"
    using build_create_ok[OF assms(1,2) cr assms(5) refl] by blast
  note B = movesD[OF build_create_moves assms(1,2) b(1)]
  obtain s2 sg where g: "sign_transaction api now i tx s1 = (s2, Inr sg)" "signed_tx sg = signed"
    using sign_ok[OF B(1) B(2)[OF refl] assms(4)] by blast
  note G = movesD[OF sign_moves B(1) B(2)[OF refl] g(1)]
  note t = submit_confirmed_fails[OF G(1) G(2)[OF refl] sub assms(6)]
  show "\<exists>s1. open_long_position api am now i a c lev (Some p) s =
         (s1, Inr (failed_open (Some i) ''Invalid transition'')) \<and>
       intent_state s1 i = FAILED \<and> PostSubmitCreate i signed \<in> set (asgard_calls s1)"
    using lev b g t G(1) assms(3)
    by (auto simp: open_long_position_def open_with_protocol_def catching_def andthen_def Let_def)
qed

lemma confirmed_close_fails:
  assumes "ok s" "intent_state s i = IDLE" "am_builder am = Some tb"
    and "api_sign api tx = Inr signed" "decoded_tx b = Inr tx" "sr_confirmed r"
    and cl: "api_close api i pda (tb_wallet_address tb) = Inr b"
    and sub: "api_submit_close api i signed = Inr r"
  shows "\<exists>s1 res. close_asgard api am now i pda s = (s1, Inr res) \<and> \<not> cl_success res \<and>
       intent_state s1 i = FAILED \<and> PostSubmitClose i signed \<in> set (asgard_calls s1)"
proof -
  obtain s1 bu where b: "build_close_position api tb now i pda s = (s1, Inr bu)" "unsigned_tx bu = tx"
    using build_close_ok[OF assms(1,2) cl assms(5)] by blast
  note B = movesD[OF build_close_moves assms(1,2) b(1)]
  obtain s2 sg where g: "sign_transaction api now i tx s1 = (s2, Inr sg)" "signed_tx sg = signed"
    using sign_ok[OF B(1) B(2)[OF refl] assms(4)] by blast
  note G = movesD[OF sign_moves B(1) B(2)[OF refl] g(1)]
  note t = submit_close_confirmed_fails[OF G(1) G(2)[OF refl] sub assms(6)]
  show "\<exists>s1 res. close_asgard api am now i pda s = (s1, Inr res) \<and> \<not> cl_success res \<and>
       intent_state s1 i = FAILED \<and> PostSubmitClose i signed \<in> set (asgard_calls s1)"
    using b g t G(1) assms(3) by (auto simp: close_asgard_def catching_def andthen_def)
qed

lemma open_long_outcome:
  assumes "ok s" "intent_state s i = IDLE"
  shows "\<exists>s1 r. open_long_position api am now i a c lev p s = (s1, Inr r) \<and> ok s1 \<and>
     op_position r = None \<and>
     (op_success r \<longleftrightarrow> intent_state s1 i = SUBMITTED) \<and>
     (\<not> op_success r \<longleftrightarrow> intent_state s1 i \<in> {IDLE, FAILED})"
proof -
  obtain s1 r where run: "open_long_position api am now i a c lev p s = (s1, Inr r)"
    using open_long_returns by blast
  have main: "op_position r = None \<and> ok s1 \<and>
      intent_state s1 i \<in> (if op_success r then {SUBMITTED} else {IDLE, FAILED})"
    if o: "open_with_protocol api am now i a c lev q s = (s2, out)"
      "(s1, Inr r) = (case out of Inl e \<Rightarrow> (s2, Inr (failed_open (Some i) (exn_text e))) | Inr r' \<Rightarrow> (s2, Inr r'))"
    for q s2 out
    using open_with_protocol_outcome[OF assms o(1)] o(2)
    by (cases out) (auto simp: failed_open_def)
  have idle: ?thesis if "s1 = s" "op_position r = None" "\<not> op_success r"
    using that run assms by auto
  show ?thesis
  proof (cases "lev > get_or (am_max_leverage am) 4")
    case True
    then show ?thesis
      using run by (intro idle) (auto simp: open_long_position_def catching_def failed_open_def)
  next
    case False
    have fin: ?thesis if "catching (open_with_protocol api am now i a c lev q)
        (\<lambda>e. ret (failed_open (Some i) (exn_text e))) s = (s1, Inr r)" for q
    proof -
      obtain s2 out where o: "open_with_protocol api am now i a c lev q s = (s2, out)" by force
      with that have "(s1, Inr r) = (case out of Inl e \<Rightarrow> (s2, Inr (failed_open (Some i) (exn_text e)))
          | Inr r' \<Rightarrow> (s2, Inr r'))" by (auto simp: catching_def split: sum.splits)
      from main[OF o this] run show ?thesis by (auto split: if_splits)
    qed
    show ?thesis
    proof (cases p)
      case (Some q)
      with run False show ?thesis by (intro fin[of q]) (simp add: open_long_position_def)
    next
      case None
      let ?best = "snd (select_best_protocol (api_markets api) a c lev (flt (12/10)) (am_market_data am))"
      show ?thesis
      proof (cases ?best)
        case (Inl e)
        with run False None show ?thesis
          by (intro idle) (auto simp: open_long_position_def catching_def andthen_def failed_open_def)
      next
        case (Inr best)
        show ?thesis
        proof (cases best)
          case None
          with run False \<open>p = None\<close> Inr show ?thesis
            by (intro idle) (auto simp: open_long_position_def catching_def andthen_def failed_open_def)
        next
          case (Some b)
          with run False \<open>p = None\<close> Inr show ?thesis
            by (intro fin[of "nc_protocol b"]) (simp add: open_long_position_def catching_def andthen_def)
        qed
      qed
    qed
  qed
qed

section \<open>Properties\<close>

text \<open>Opening a long never produces a position: whatever the API, the signer and the table
  answer, for a new intent the call returns, and with it either a success without a position (the
  intent left \<open>SUBMITTED\<close>) or a failure (the intent not created, or left \<open>FAILED\<close>). The
  branch that builds the position is dead, because the state machine has no edge from
  \<open>SUBMITTING\<close> to \<open>CONFIRMED\<close>.\<close>

theorem open_long_never_yields_position:
  assumes "ok s" "intent_state s i = IDLE"
  shows "\<exists>s1 r. open_long_position api am now i a c lev p s = (s1, Inr r) \<and> ok s1 \<and>
     op_position r = None \<and>
     (op_success r \<longleftrightarrow> intent_state s1 i = SUBMITTED) \<and>
     (\<not> op_success r \<longleftrightarrow> intent_state s1 i \<in> {IDLE, FAILED})"
  using assms by (rule open_long_outcome)


text \<open>A confirmed transaction is reported as failed, for openings and closings alike: when the
  API accepts every step and answers the submission with a confirmation, the call returns a failure
  and the intent is recorded \<open>FAILED\<close>, although the transaction was submitted.\<close>

theorem confirmed_submission_reported_failed:
  assumes "ok s" "intent_state s i = IDLE" "am_builder am = Some tb"
    and "api_sign api tx = Inr signed" "decoded_tx b = Inr tx" "sr_confirmed r"
  shows "(lev \<le> get_or (am_max_leverage am) 4 \<and> (\<forall>payload. api_create api payload = Inr b) \<and>
       api_submit_create api i signed = Inr r \<longrightarrow>
       (\<exists>s1. open_long_position api am now i a c lev (Some p) s =
           (s1, Inr (failed_open (Some i) ''Invalid transition'')) \<and>
         intent_state s1 i = FAILED \<and> PostSubmitCreate i signed \<in> set (asgard_calls s1))) \<and>
     (api_close api i pda (tb_wallet_address tb) = Inr b \<and> api_submit_close api i signed = Inr r \<longrightarrow>
       (\<exists>s1 res. close_asgard api am now i pda s = (s1, Inr res) \<and> \<not> cl_success res \<and>
         intent_state s1 i = FAILED \<and> PostSubmitClose i signed \<in> set (asgard_calls s1)))"
  using confirmed_open_fails[OF assms] confirmed_close_fails[OF assms] by blast

definition wit_api :: "bool \<Rightarrow> asgard_api" where
  "wit_api conf =
     \<lparr>api_create = (\<lambda>_. Inr \<lparr>br_transaction = Some (Inr ''tx''), br_blockhash = ''bh''\<rparr>),
      api_close = (\<lambda>_ _ _. Inr \<lparr>br_transaction = Some (Inr ''tx''), br_blockhash = ''bh''\<rparr>),
      api_sign = (\<lambda>t. Inr (''signed-'' @ t)),
      api_submit_create = (\<lambda>_ _. Inr \<lparr>sr_signature = Some ''5sig'', sr_confirmed = conf, sr_slot = Some 7\<rparr>),
      api_submit_close = (\<lambda>_ _. Inr \<lparr>sr_signature = Some ''5sig'', sr_confirmed = conf, sr_slot = Some 7\<rparr>),
      api_refresh = (\<lambda>_. Inr []), api_signature = (\<lambda>_. Inr None), api_markets = Inr [],
      dumps = (\<lambda>_. ''{}'')\<rparr>"

definition wit_am :: asgard_manager where
  "wit_am = \<lparr>am_builder = Some \<lparr>tb_wallet_address = ''wallet''\<rparr>, am_max_leverage = None,
             am_has_solana = False, am_market_data = market_data_init\<rparr>"

definition wit_asgard :: asgard_state where
  "wit_asgard = \<lparr>tx_store = [], asgard_calls = []\<rparr>"

theorem open_long_never_yields_position_witness:
  "\<exists>s1 r. open_long_position (wit_api False) wit_am 0 ''i1'' SOL 500 3 (Some KAMINO) wit_asgard = (s1, Inr r) \<and>
     op_position r = None"
proof -
  have "ok wit_asgard" "intent_state wit_asgard ''i1'' = IDLE"
    by (simp_all add: wit_asgard_def tx_table_ok_empty)
  from open_long_never_yields_position[OF this] show ?thesis by blast
qed

theorem confirmed_submission_reported_failed_witness:
  "\<exists>s1. open_long_position (wit_api True) wit_am 0 ''i1'' SOL 500 3 (Some KAMINO) wit_asgard =
     (s1, Inr (failed_open (Some ''i1'') ''Invalid transition'')) \<and> intent_state s1 ''i1'' = FAILED"
proof -
  have "ok wit_asgard" "intent_state wit_asgard ''i1'' = IDLE"
    by (simp_all add: wit_asgard_def tx_table_ok_empty)
  then show ?thesis
    using confirmed_submission_reported_failed[of wit_asgard "''i1''" wit_am
        "\<lparr>tb_wallet_address = ''wallet''\<rparr>" "wit_api True" "''tx''" "''signed-tx''"
        "\<lparr>br_transaction = Some (Inr ''tx''), br_blockhash = ''bh''\<rparr>"
        "\<lparr>sr_signature = Some ''5sig'', sr_confirmed = True, sr_slot = Some 7\<rparr>" 3 0 SOL 500 KAMINO "''pda''"]
    by (auto simp: wit_am_def wit_api_def decoded_tx_def get_or_def)
qed

text \<open>A submitted transaction that landed with an error is recorded \<open>CONFIRMED\<close>: the
  status counts as confirmed as soon as the chain reports any confirmation level, and that test comes
  before the test of the error.\<close>

theorem rebroadcast_confirms_landed_error:
  assumes "ok s" "get_state (tx_store s) i = Inr (Some t)" "rec_state t = SUBMITTED"
    and "rec_signature t = Some sig" "sig \<noteq> ''''" "am_has_solana am"
    and "api_signature api sig = Inr (Some \<lparr>confirmation_status = Some lvl, rpc_err = Some e\<rparr>)"
  shows "\<exists>s1. rebroadcast_if_stuck api am now i s = (s1, Inr True) \<and> intent_state s1 i = CONFIRMED"
proof -
  have st: "intent_state s i = SUBMITTED"
    using assms(2,3) by (auto simp: get_state_ok[OF assms(1)])
  define s0 where "s0 = s\<lparr>asgard_calls := asgard_calls s @ [QuerySignature sig]\<rparr>"
  have 0: "ok s0" "tx_step (intent_state s0 i) CONFIRMED" "tx_store s0 = tx_store s"
    using assms(1) st by (simp_all add: s0_def tx_step_simps)
  have "rebroadcast_if_stuck api am now i s = (stored now i CONFIRMED (Some sig) None s0, Inr True)"
    using assms 0
    by (simp add: rebroadcast_if_stuck_def andthen_def catching_def call_def signature_status_of_def
        s0_def[symmetric] machine_step_stored)
  then show ?thesis using 0(1) by simp
qed

definition wit_stuck :: asgard_state where
  "wit_stuck = \<lparr>tx_store = [(''i1'', \<lparr>state_text = ''submitted'', row_timestamp = 0,
     row_signature = Some ''sig'', row_metadata = None, row_error = None\<rparr>)], asgard_calls = []\<rparr>"

definition wit_landed :: asgard_api where
  "wit_landed = (wit_api True)\<lparr>api_signature :=
     (\<lambda>_. Inr (Some \<lparr>confirmation_status = Some ''processed'', rpc_err = Some ''InsufficientFunds''\<rparr>))\<rparr>"

theorem rebroadcast_confirms_landed_error_witness:
  "\<exists>s1. rebroadcast_if_stuck wit_landed (wit_am\<lparr>am_has_solana := True\<rparr>) 0 ''i1'' wit_stuck = (s1, Inr True) \<and>
     intent_state s1 ''i1'' = CONFIRMED"
proof -
  define t where "t = \<lparr>rec_intent_id = ''i1'', rec_state = SUBMITTED, rec_timestamp = 0,
     rec_signature = Some ''sig'', rec_metadata = None, rec_error = None\<rparr>"
  have st: "state_text r = tx_state_value SUBMITTED" if "state_text r = ''submitted''" for r
    using that by simp
  have o: "ok wit_stuck"
    by (simp add: tx_table_ok_def dict_ok_def wit_stuck_def) (rule exI[of _ SUBMITTED], simp)
  have g: "get_state (tx_store wit_stuck) ''i1'' = Inr (Some t)" unfolding t_def by code_simp
  show ?thesis
    by (rule rebroadcast_confirms_landed_error[OF o g, where sig = "''sig''" and lvl = "''processed''"
          and e = "''InsufficientFunds''"])
      (simp_all add: t_def wit_landed_def)
qed

end
