(* ===== verification/Trader.thy ===== *)
theory Trader
  imports MarketData
begin

text \<open>
  The Hyperliquid trader (\<open>bot/venues/hyperliquid/trader.py\<close>): asset index resolution,
  leverage, market orders, opening a short with retries and a stop-loss, closing it, and the account
  queries.

  The exchange's answers are arguments, one record per attempt (a failed call or signature is an
  exception value); texts of numbers are the numbers they denote. What the trader sends is traced in
  \<open>hl_calls\<close>; an order is in the trace as soon as it is sent, whatever comes back. The waiting
  between attempts is not modelled.
\<close>

section \<open>Data\<close>

record order =
  od_asset :: int
  is_buy :: bool
  od_sz :: rat
  limit_px :: rat
  reduce_only :: bool

datatype hl_call =
    SetLeverage int int bool
  | PlaceOrder order
  | ClassTransfer rat bool

record trader =
  has_signer :: bool
  wallet_address :: "string option"
  asset_index_cache :: "(string, int) dict"
  hl_calls :: "hl_call list"

record order_result =
  or_success :: bool
  order_id :: "string option"
  filled_sz :: "rat option"
  remaining_sz :: "rat option"
  avg_px :: "rat option"
  or_error :: "string option"

record position_info =
  pi_coin :: string
  pi_size :: pyfloat
  pi_entry_px :: pyfloat
  pi_leverage :: int
  pi_margin_used :: pyfloat
  pi_margin_fraction :: pyfloat
  pi_unrealized_pnl :: pyfloat
  pi_liquidation_px :: "pyfloat option"

record stop_loss_trigger =
  triggered :: bool
  trigger_price :: pyfloat
  sl_current_price :: pyfloat
  move_pct :: pyfloat

text \<open>Answers. A status entry is a fill (the fields as present), a resting order or anything
  else; a reply is accepted (status ok) or refused.\<close>

datatype order_status = Filled "rat option" "rat option" | Resting | OtherStatus
datatype order_reply = Accepted "order_status list" | Refused

type_synonym mids = "exn + (string \<rightharpoonup> pyfloat)"

record order_answers =
  oa_meta :: "exn + string option list"
  oa_mids :: mids
  oa_sign :: "exn + unit"
  oa_reply :: "exn + order_reply"

record attempt_answers =
  at_stop_mids :: mids
  at_order :: order_answers

text \<open>The clearinghouse state of the wallet; \<open>None\<close> is an absent field.\<close>

record clearinghouse =
  ch_account_value :: "pyfloat option"
  ch_total_margin :: "pyfloat option"
  ch_withdrawable :: "pyfloat option"
  ch_positions :: "position_info list"

record open_answers =
  oq_mids :: mids
  oq_state :: "exn + clearinghouse"
  oq_attempt :: "nat \<Rightarrow> attempt_answers"
  oq_close :: "nat \<Rightarrow> order_answers"

definition failed_order :: "string \<Rightarrow> order_result" where
  "failed_order e = \<lparr>or_success = False, order_id = None, filled_sz = None, remaining_sz = None,
     avg_px = None, or_error = Some e\<rparr>"

section \<open>Asset index and prices\<close>

fun cache_universe :: "int \<Rightarrow> string option list \<Rightarrow> (string, int) dict \<Rightarrow> (string, int) dict" where
  "cache_universe i [] d = d"
| "cache_universe i (n # ns) d =
     cache_universe (i + 1) ns
       (case n of None \<Rightarrow> d | Some x \<Rightarrow> if x = '''' then d else dict_put x i d)"

definition resolve_asset_index :: "exn + string option list \<Rightarrow> string \<Rightarrow> (trader, int) action" where
  "resolve_asset_index meta coin t =
     (case dict_get coin (asset_index_cache t) of
        Some i \<Rightarrow> (t, Inr i)
      | None \<Rightarrow>
          (case meta of
             Inl e \<Rightarrow> (t, Inl e)
           | Inr universe \<Rightarrow>
               let t1 = t\<lparr>asset_index_cache := cache_universe 0 universe (asset_index_cache t)\<rparr>
               in (t1, case dict_get coin (asset_index_cache t1) of
                         None \<Rightarrow> Inl (ValueError ''coin not found'') | Some i \<Rightarrow> Inr i)))"

definition get_current_price :: "mids \<Rightarrow> string \<Rightarrow> pyfloat option" where
  "get_current_price ms coin = (case ms of Inl _ \<Rightarrow> None | Inr m \<Rightarrow> m coin)"

section \<open>Leverage\<close>

definition update_leverage ::
  "exn + string option list \<Rightarrow> exn + unit \<Rightarrow> exn + bool \<Rightarrow> string \<Rightarrow> int \<Rightarrow> bool
     \<Rightarrow> (trader, bool) action"
where
  "update_leverage meta sign reply coin lev cross t =
     (if \<not> has_signer t then (t, Inr False)
      else catching
        (andthen (resolve_asset_index meta coin) (\<lambda>i.
         andthen (lift_result sign) (\<lambda>_.
         \<lambda>s. (s\<lparr>hl_calls := hl_calls s @ [SetLeverage i lev cross]\<rparr>, reply))))
        (\<lambda>_. ret False) t)"

section \<open>Orders\<close>

definition submit_order ::
  "order_answers \<Rightarrow> string \<Rightarrow> bool \<Rightarrow> rat \<Rightarrow> bool \<Rightarrow> (trader, order_reply) action" where
  "submit_order a coin buy sz reduce =
     andthen (resolve_asset_index (oa_meta a) coin) (\<lambda>i.
     case get_current_price (oa_mids a) coin of
       None \<Rightarrow> raising (ValueError ''Could not get current price'')
     | Some p \<Rightarrow>
         andthen (lift_result (oa_sign a)) (\<lambda>_.
         \<lambda>s. (s\<lparr>hl_calls := hl_calls s @
                 [PlaceOrder \<lparr>od_asset = i, is_buy = buy, od_sz = sz,
                    limit_px = (if buy then fmt 1 (flt (p * flt (102/100)))
                                else fmt 1 (flt (p * flt (98/100)))),
                    reduce_only = reduce\<rparr>]\<rparr>, oa_reply a)))"

section \<open>Closing\<close>

fun first_fill :: "order_status list \<Rightarrow> (rat option \<times> rat option) option" where
  "first_fill [] = None"
| "first_fill (Filled sz px # ss) = Some (sz, px)"
| "first_fill (Resting # ss) = first_fill ss"
| "first_fill (OtherStatus # ss) = first_fill ss"

fun close_loop ::
  "(nat \<Rightarrow> order_answers) \<Rightarrow> string \<Rightarrow> rat \<Rightarrow> nat \<Rightarrow> nat \<Rightarrow> trader \<Rightarrow> trader \<times> order_result" where
  "close_loop ans coin sz k 0 t = (t, failed_order ''Failed to close short'')"
| "close_loop ans coin sz k (Suc n) t =
     (case submit_order (ans k) coin True sz True t of
        (t1, Inl _) \<Rightarrow> close_loop ans coin sz (Suc k) n t1
      | (t1, Inr Refused) \<Rightarrow> close_loop ans coin sz (Suc k) n t1
      | (t1, Inr (Accepted ss)) \<Rightarrow>
          (case first_fill ss of
             None \<Rightarrow> close_loop ans coin sz (Suc k) n t1
           | Some (fsz, px) \<Rightarrow>
               (t1, \<lparr>or_success = True, order_id = None, filled_sz = Some (get_or fsz sz),
                     remaining_sz = None, avg_px = px, or_error = None\<rparr>)))"

definition close_short ::
  "(nat \<Rightarrow> order_answers) \<Rightarrow> string \<Rightarrow> rat \<Rightarrow> nat \<Rightarrow> trader \<Rightarrow> trader \<times> order_result" where
  "close_short ans coin sz max_retries t =
     (if \<not> has_signer t then (t, failed_order ''Signer not configured'')
      else close_loop ans coin sz 0 max_retries t)"

section \<open>Account state\<close>

definition has_wallet :: "trader \<Rightarrow> bool" where
  "has_wallet t = (case wallet_address t of None \<Rightarrow> False | Some w \<Rightarrow> w \<noteq> '''')"

definition get_hl_position :: "exn + clearinghouse \<Rightarrow> string \<Rightarrow> trader \<Rightarrow> position_info option" where
  "get_hl_position ans coin t =
     (if \<not> has_wallet t then None
      else case ans of
        Inl _ \<Rightarrow> None
      | Inr ch \<Rightarrow> find (\<lambda>p. pi_coin p = coin) (ch_positions ch))"

definition get_deposited_balance :: "exn + clearinghouse \<Rightarrow> trader \<Rightarrow> pyfloat" where
  "get_deposited_balance ans t =
     (if \<not> has_wallet t then 0
      else case ans of
        Inl _ \<Rightarrow> 0
      | Inr ch \<Rightarrow>
          (case ch_account_value ch of
             Some v \<Rightarrow> v
           | None \<Rightarrow> (case ch_withdrawable ch of Some w \<Rightarrow> w | None \<Rightarrow> 0)))"

definition get_withdrawable_balance :: "exn + clearinghouse \<Rightarrow> trader \<Rightarrow> pyfloat" where
  "get_withdrawable_balance ans t =
     (if \<not> has_wallet t then 0
      else case ans of
        Inl _ \<Rightarrow> 0
      | Inr ch \<Rightarrow>
          (case ch_withdrawable ch of
             Some w \<Rightarrow> w
           | None \<Rightarrow>
               (case (ch_account_value ch, ch_total_margin ch) of
                  (Some v, Some m) \<Rightarrow> max 0 (flt (v - m))
                | _ \<Rightarrow> 0)))"

definition transfer_spot_to_perp ::
  "exn + unit \<Rightarrow> exn + bool \<Rightarrow> pyfloat \<Rightarrow> (trader, bool) action" where
  "transfer_spot_to_perp sign reply amount t =
     (if \<not> has_signer t then (t, Inr False)
      else catching
        (andthen (lift_result sign) (\<lambda>_.
         \<lambda>s. (s\<lparr>hl_calls := hl_calls s @ [ClassTransfer (fmt 2 amount) True]\<rparr>, reply)))
        (\<lambda>_. ret False) t)"

section \<open>Opening\<close>

definition check_stop_loss ::
  "mids \<Rightarrow> string \<Rightarrow> pyfloat \<Rightarrow> pyfloat \<Rightarrow> bool \<Rightarrow> exn + stop_loss_trigger" where
  "check_stop_loss ms coin entry_price stop_loss_price is_short =
     (case get_current_price ms coin of
        None \<Rightarrow> Inr \<lparr>triggered = False, trigger_price = stop_loss_price, sl_current_price = 0, move_pct = 0\<rparr>
      | Some p \<Rightarrow>
          res_bind (fdiv (if is_short then flt (p - entry_price) else flt (entry_price - p)) entry_price)
            (\<lambda>mv. Inr \<lparr>triggered = (if is_short then p \<ge> stop_loss_price else p \<le> stop_loss_price),
                       trigger_price = stop_loss_price, sl_current_price = p, move_pct = mv\<rparr>))"

definition execute_stop_loss ::
  "(nat \<Rightarrow> order_answers) \<Rightarrow> string \<Rightarrow> pyfloat \<Rightarrow> trader \<Rightarrow> trader \<times> order_result" where
  "execute_stop_loss ans coin filled t =
     (if filled > 0
      then (let (t1, r) = close_short ans coin (float_str filled) 15 t
            in (t1, \<lparr>or_success = or_success r, order_id = None, filled_sz = None, remaining_sz = None,
                     avg_px = None, or_error = Some (''STOP-LOSS TRIGGERED: '' @ get_or (or_error r) '''')\<rparr>))
      else (t, failed_order ''STOP-LOSS TRIGGERED: No position to unwind''))"

fun add_fills :: "order_status list \<Rightarrow> pyfloat \<Rightarrow> pyfloat" where
  "add_fills [] f = f"
| "add_fills (Filled sz px # ss) f =
     (let x = flt (get_or sz 0) in add_fills ss (if x > 0 then flt (f + x) else f))"
| "add_fills (Resting # ss) f = add_fills ss f"
| "add_fills (OtherStatus # ss) f = add_fills ss f"

fun open_loop ::
  "open_answers \<Rightarrow> string \<Rightarrow> pyfloat \<Rightarrow> pyfloat \<Rightarrow> pyfloat \<Rightarrow> nat \<Rightarrow> nat \<Rightarrow> pyfloat \<Rightarrow> trader
     \<Rightarrow> trader \<times> order_result"
where
  "open_loop ans coin entry stop target k 0 filled t =
     (t, if filled > 0
         then \<lparr>or_success = True, order_id = None, filled_sz = Some (float_str filled),
               remaining_sz = Some (float_str (flt (target - filled))), avg_px = Some (float_str entry),
               or_error = Some ''Max retries exceeded - partial fill''\<rparr>
         else failed_order ''Failed to fill'')"
| "open_loop ans coin entry stop target k (Suc n) filled t =
     (let aa = oq_attempt ans k in
      case check_stop_loss (at_stop_mids aa) coin entry stop True of
        Inl _ \<Rightarrow> open_loop ans coin entry stop target (Suc k) n filled t
      | Inr sl \<Rightarrow>
          if triggered sl then execute_stop_loss (oq_close ans) coin filled t
          else
            (case submit_order (at_order aa) coin False (fmt 4 (flt (target - filled))) False t of
               (t1, Inl _) \<Rightarrow> open_loop ans coin entry stop target (Suc k) n filled t1
             | (t1, Inr Refused) \<Rightarrow> open_loop ans coin entry stop target (Suc k) n filled t1
             | (t1, Inr (Accepted ss)) \<Rightarrow>
                 let filled1 = add_fills ss filled
                 in if filled1 \<ge> flt (target * flt (999/1000))
                    then (t1, \<lparr>or_success = True, order_id = None, filled_sz = Some (float_str filled1),
                               remaining_sz = None, avg_px = Some (float_str entry), or_error = None\<rparr>)
                    else open_loop ans coin entry stop target (Suc k) n filled1 t1))"

definition open_short ::
  "open_answers \<Rightarrow> string \<Rightarrow> rat \<Rightarrow> nat \<Rightarrow> pyfloat \<Rightarrow> trader \<Rightarrow> trader \<times> order_result" where
  "open_short ans coin sz max_retries stop_loss_pct t =
     (if \<not> has_signer t then (t, failed_order ''Signer not configured'')
      else case get_current_price (oq_mids ans) coin of
        None \<Rightarrow> (t, failed_order ''Could not get current price'')
      | Some entry \<Rightarrow>
          let stop = flt (entry * flt (1 + stop_loss_pct));
              target = flt sz;
              required = flt (flt (entry * target) / 3)
          in if get_deposited_balance (oq_state ans) t < flt (required * flt (95/100))
             then (t, failed_order ''Insufficient deposited balance'')
             else open_loop ans coin entry stop target 0 max_retries 0 t)"

section \<open>Lemmas\<close>







definition buys :: "order list \<Rightarrow> bool" where
  "buys os \<longleftrightarrow> list_all (\<lambda>od. is_buy od \<and> reduce_only od) os"

definition sells :: "order list \<Rightarrow> bool" where
  "sells os \<longleftrightarrow> list_all (\<lambda>od. \<not> is_buy od \<and> \<not> reduce_only od) os"

lemma buys_sells_simps [simp]:
  "buys []" "sells []" "buys (os @ ps) \<longleftrightarrow> buys os \<and> buys ps" "sells (os @ ps) \<longleftrightarrow> sells os \<and> sells ps"
  "buys (od # os) \<longleftrightarrow> is_buy od \<and> reduce_only od \<and> buys os"
  "sells (od # os) \<longleftrightarrow> \<not> is_buy od \<and> \<not> reduce_only od \<and> sells os"
  by (simp_all add: buys_def sells_def)





text \<open>What a reply adds to the filled size: the positive fills it lists, in their order. With it the part of
  an attempt after the reply is one equation.\<close>

definition fills_of :: "order_status list \<Rightarrow> pyfloat list" where
  "fills_of ss = List.map_filter (\<lambda>x. case x of Filled sz px \<Rightarrow> Some (flt (get_or sz 0)) | _ \<Rightarrow> None) ss"

definition reply_fill :: "exn + order_reply \<Rightarrow> pyfloat \<Rightarrow> pyfloat" where
  "reply_fill r f = (case r of
     Inr (Accepted ss) \<Rightarrow> fold (\<lambda>x f. if x > 0 then flt (f + x) else f) (fills_of ss) f | _ \<Rightarrow> f)"

lemma add_fills_fold: "add_fills ss f = fold (\<lambda>x f. if x > 0 then flt (f + x) else f) (fills_of ss) f"
  by (induction ss f rule: add_fills.induct) (simp_all add: fills_of_def Let_def)

definition is_accepted :: "exn + order_reply \<Rightarrow> bool" where
  "is_accepted r = (case r of Inr (Accepted ss) \<Rightarrow> True | _ \<Rightarrow> False)"

definition filled_result :: "pyfloat \<Rightarrow> pyfloat \<Rightarrow> order_result" where
  "filled_result entry f =
     \<lparr>or_success = True, order_id = None, filled_sz = Some (float_str f), remaining_sz = None,
      avg_px = Some (float_str entry), or_error = None\<rparr>"

lemma open_loop_attempt:
  assumes "check_stop_loss (at_stop_mids (oq_attempt ans k)) coin entry stop True = Inr sl" "\<not> triggered sl"
    and "submit_order (at_order (oq_attempt ans k)) coin False (fmt 4 (flt (target - filled))) False t = (t2, r2)"
  shows "open_loop ans coin entry stop target k (Suc n) filled t =
     (if is_accepted r2 \<and> flt (target * flt (999/1000)) \<le> reply_fill r2 filled
      then (t2, filled_result entry (reply_fill r2 filled))
      else open_loop ans coin entry stop target (Suc k) n (reply_fill r2 filled) t2)"
  using assms
  by (simp add: Let_def is_accepted_def reply_fill_def filled_result_def add_fills_fold
      split: sum.splits order_reply.splits)











section \<open>Properties\<close>


text \<open>A retry is not idempotent: when every reply is lost after the order was sent (the prices
  are known and below the stop), \<open>open_short\<close> sends the full size \<open>max_retries\<close> times and
  reports that nothing was filled.\<close>

theorem lost_replies_resend_full_size:
  assumes "has_signer t" "get_current_price (oq_mids ans) coin = Some entry"
    and "flt (flt (flt (entry * flt sz) / 3) * flt (95/100)) \<le> get_deposited_balance (oq_state ans) t"
    and "dict_get coin (asset_index_cache t) = Some i"
    and "\<And>k. check_stop_loss (at_stop_mids (oq_attempt ans k)) coin entry (flt (entry * flt (1 + pct))) True = Inr sl"
    and "\<not> triggered sl"
    and "\<And>k. at_order (oq_attempt ans k) = a"
    and "get_current_price (oa_mids a) coin = Some p" "oa_sign a = Inr ()" "oa_reply a = Inl e"
  shows "\<exists>od t1. open_short ans coin sz n pct t = (t1, failed_order ''Failed to fill'') \<and>
     hl_calls t1 = hl_calls t @ replicate n (PlaceOrder od) \<and>
     \<not> is_buy od \<and> \<not> reduce_only od \<and> od_sz od = fmt 4 (flt sz)"
proof -
  let ?stop = "flt (entry * flt (1 + pct))"
  define od where "od = \<lparr>od_asset = i, is_buy = False, od_sz = fmt 4 (flt sz),
     limit_px = fmt 1 (flt (p * flt (98/100))), reduce_only = False\<rparr>"
  have sub: "submit_order a coin False (fmt 4 (flt (flt sz - 0))) False t' =
      (t'\<lparr>hl_calls := hl_calls t' @ [PlaceOrder od]\<rparr>, Inl e)"
    if "dict_get coin (asset_index_cache t') = Some i" for t'
    using that assms(8-10)
    by (simp add: submit_order_def andthen_def resolve_asset_index_def od_def flt.rnd_idem)
  have "open_loop ans coin entry ?stop (flt sz) k n 0 t' =
      (t'\<lparr>hl_calls := hl_calls t' @ replicate n (PlaceOrder od)\<rparr>, failed_order ''Failed to fill'')"
    if "dict_get coin (asset_index_cache t') = Some i" for k t'
    using that
  proof (induction n arbitrary: k t')
    case (Suc n)
    have "open_loop ans coin entry ?stop (flt sz) k (Suc n) 0 t' =
        open_loop ans coin entry ?stop (flt sz) (Suc k) n 0 (t'\<lparr>hl_calls := hl_calls t' @ [PlaceOrder od]\<rparr>)"
    proof -
      have "submit_order (at_order (oq_attempt ans k)) coin False (fmt 4 (flt (flt sz - 0))) False t' =
          (t'\<lparr>hl_calls := hl_calls t' @ [PlaceOrder od]\<rparr>, Inl e)"
        using sub[OF Suc.prems] by (simp only: assms(7))
      from open_loop_attempt[OF assms(5,6) this] show ?thesis
        by (simp add: is_accepted_def reply_fill_def del: open_loop.simps)
    qed
    with Suc show ?case by (simp del: open_loop.simps)
  qed simp
  from this[OF assms(4), of 0] assms(1-3) show ?thesis
    by (intro exI[of _ od]) (simp add: open_short_def Let_def od_def)
qed

definition wit_trader :: trader where
  "wit_trader = \<lparr>has_signer = True, wallet_address = Some ''0x1'',
     asset_index_cache = [(''SOL'', 5)], hl_calls = []\<rparr>"

definition wit_lost :: order_answers where
  "wit_lost = \<lparr>oa_meta = Inr [], oa_mids = Inr [''SOL'' \<mapsto> 100], oa_sign = Inr (),
     oa_reply = Inl (ExternalError ''timeout'')\<rparr>"

definition wit_open :: open_answers where
  "wit_open = \<lparr>oq_mids = Inr [''SOL'' \<mapsto> 100],
     oq_state = Inr \<lparr>ch_account_value = Some 5000, ch_total_margin = None, ch_withdrawable = None,
       ch_positions = []\<rparr>,
     oq_attempt = (\<lambda>_. \<lparr>at_stop_mids = Inl (ExternalError ''timeout''), at_order = wit_lost\<rparr>),
     oq_close = (\<lambda>_. wit_lost)\<rparr>"

theorem lost_replies_resend_full_size_witness:
  "\<exists>od t1. open_short wit_open ''SOL'' 10 15 (flt (1/100)) wit_trader = (t1, failed_order ''Failed to fill'') \<and>
     hl_calls t1 = replicate 15 (PlaceOrder od) \<and> od_sz od = fmt 4 10"
proof -
  have b: "flt (flt (flt (100 * flt 10) / 3) * flt (95/100)) \<le> (5000::rat)" by code_simp
  have f: "flt (10::rat) = 10" by simp
  have h: "hl_calls wit_trader = []" by (simp add: wit_trader_def)
  have "\<exists>od t1. open_short wit_open ''SOL'' 10 15 (flt (1/100)) wit_trader = (t1, failed_order ''Failed to fill'') \<and>
     hl_calls t1 = hl_calls wit_trader @ replicate 15 (PlaceOrder od) \<and>
     \<not> is_buy od \<and> \<not> reduce_only od \<and> od_sz od = fmt 4 (flt 10)"
    by (rule lost_replies_resend_full_size[where entry = 100 and i = 5 and p = 100 and a = wit_lost
          and e = "ExternalError ''timeout''" and sl = "\<lparr>triggered = False,
            trigger_price = flt (100 * flt (1 + flt (1/100))), sl_current_price = 0, move_pct = 0\<rparr>"])
      (use b in \<open>simp_all add: wit_trader_def wit_open_def wit_lost_def get_current_price_def
        check_stop_loss_def get_deposited_balance_def has_wallet_def dict_get_def\<close>)
  then show ?thesis unfolding h f append_Nil by blast
qed


text \<open>\<open>close_short\<close> reports success on the first fill of any size: a partial fill of the
  first order ends the retries, so the rest of the short stays open and unreported.\<close>

theorem partial_close_reported_success:
  assumes "has_signer t" "submit_order (ans 0) coin True sz True t = (t1, Inr (Accepted (Filled (Some part) px # ss)))"
  shows "close_short ans coin sz (Suc n) t =
     (t1, \<lparr>or_success = True, order_id = None, filled_sz = Some part, remaining_sz = None,
           avg_px = px, or_error = None\<rparr>)"
  using assms by (simp add: close_short_def get_or_def)

theorem partial_close_reported_success_witness:
  "\<exists>t1. close_short (\<lambda>_. wit_lost\<lparr>oa_reply := Inr (Accepted [Filled (Some 1) (Some 101)])\<rparr>) ''SOL'' 10 15
     wit_trader = (t1, \<lparr>or_success = True, order_id = None, filled_sz = Some 1, remaining_sz = None,
       avg_px = Some 101, or_error = None\<rparr>)"
proof -
  let ?a = "wit_lost\<lparr>oa_reply := Inr (Accepted [Filled (Some 1) (Some 101)])\<rparr>"
  have "\<exists>t1. submit_order ?a ''SOL'' True 10 True wit_trader = (t1, Inr (Accepted [Filled (Some 1) (Some 101)]))"
    by (simp add: submit_order_def andthen_def resolve_asset_index_def wit_trader_def wit_lost_def
        get_current_price_def dict_get_def)
  moreover have "has_signer wit_trader" by (simp add: wit_trader_def)
  ultimately show ?thesis
    using partial_close_reported_success[of wit_trader "\<lambda>_. ?a" "''SOL''" 10 _ 1 "Some 101" "[]" 14]
    by fastforce
qed

end
