(* ===== verification/FillValidator.thy ===== *)
theory FillValidator
  imports Opportunities
begin

text \<open>
  Price consensus between the venues (\<open>bot/core/price_consensus.py\<close>) and the validation of
  execution fills with its soft and hard stops (\<open>bot/core/fill_validator.py\<close>).

  The answers of the venues' clients are data: the Hyperliquid universe (coin names, by position)
  with its asset contexts, and the strategies of Asgard's markets. A failed call is an exception
  value in their place. Price fields are the numbers \<open>Decimal(str(...))\<close> makes of them.
\<close>

section \<open>Price consensus\<close>

record consensus_result =
  cr_asgard_price :: decimal
  cr_hyperliquid_price :: decimal
  cr_price_deviation :: decimal
  deviation_percent :: decimal
  cr_asset :: asset
  is_within_threshold :: bool
  cr_threshold :: decimal

definition consensus_price :: "consensus_result \<Rightarrow> decimal" where
  "consensus_price r = dec (dec (cr_asgard_price r + cr_hyperliquid_price r) / 2)"

datatype divergence = AsgardHigher | HyperliquidHigher | EqualPrices

definition price_divergence :: "consensus_result \<Rightarrow> divergence" where
  "price_divergence r =
     (if cr_asgard_price r > cr_hyperliquid_price r then AsgardHigher
      else if cr_hyperliquid_price r > cr_asgard_price r then HyperliquidHigher
      else EqualPrices)"

record asset_ctx =
  mark_px_field :: "decimal option"
  oracle_px_field :: "decimal option"

record strategy =
  strategy_name :: string
  token_a_mint_field :: "string option"
  oracle_price_field :: "decimal option"
  price_field :: "decimal option"
  token_a_price_field :: "decimal option"

record venue_prices =
  vp_meta :: "exn + (string list \<times> asset_ctx list)"
  vp_markets :: "exn + strategy list"

definition calculate_deviation :: "decimal \<Rightarrow> decimal \<Rightarrow> exn + decimal" where
  "calculate_deviation p1 p2 =
     (if p1 = 0 \<and> p2 = 0 then Inr 0
      else if p1 = 0 \<or> p2 = 0 then Inr 1
      else let diff = dabs (dec (p1 - p2)); avg = dec (dec (p1 + p2) / 2) in ddiv diff avg)"

fun index_of :: "string \<Rightarrow> string list \<Rightarrow> nat option" where
  "index_of c [] = None"
| "index_of c (n # ns) = (if n = c then Some 0 else map_option Suc (index_of c ns))"

definition get_hyperliquid_prices ::
  "venue_prices \<Rightarrow> string \<Rightarrow> exn + (decimal \<times> decimal option)" where
  "get_hyperliquid_prices v coin =
     res_bind (vp_meta v) (\<lambda>(universe, ctxs).
     case index_of coin universe of
       None \<Rightarrow> Inl (ValueError ''coin not found'')
     | Some i \<Rightarrow>
         if i \<ge> length ctxs then Inl (ValueError ''coin not found'')
         else let ctx = ctxs ! i in
           (case (mark_px_field ctx, oracle_px_field ctx) of
              (None, None) \<Rightarrow> Inl (ValueError ''no price available'')
            | (None, Some orc) \<Rightarrow> Inr (orc, None)
            | (Some mk, orc) \<Rightarrow> Inr (mk, orc)))"

definition get_hyperliquid_price :: "venue_prices \<Rightarrow> string \<Rightarrow> exn + decimal" where
  "get_hyperliquid_price v coin = res_bind (get_hyperliquid_prices v coin) (\<lambda>(mk, _). Inr mk)"

definition contains_SOL :: "string \<Rightarrow> bool" where
  "contains_SOL n = list_ex (\<lambda>i. take 3 (drop i n) = ''SOL'') [0..<length n]"

fun fallback_price :: "strategy list \<Rightarrow> exn + decimal" where
  "fallback_price [] = Inl (ValueError ''no fallback price'')"
| "fallback_price (s # ss) =
     (if contains_SOL (strategy_name s)
      then (let p = py_or (oracle_price_field s) (case price_field s of None \<Rightarrow> 0 | Some q \<Rightarrow> q)
            in if p \<noteq> 0 then Inr p else fallback_price ss)
      else fallback_price ss)"

definition strategy_price :: "strategy \<Rightarrow> decimal option" where
  "strategy_price s =
     (case oracle_price_field s of
        Some p \<Rightarrow> Some p
      | None \<Rightarrow> (case price_field s of Some p \<Rightarrow> Some p | None \<Rightarrow> token_a_price_field s))"

fun market_price :: "string \<Rightarrow> strategy list \<Rightarrow> decimal option" where
  "market_price m [] = None"
| "market_price m (s # ss) =
     (if token_a_mint_field s = Some m
      then (case strategy_price s of Some p \<Rightarrow> Some p | None \<Rightarrow> market_price m ss)
      else market_price m ss)"

definition get_asgard_price :: "venue_prices \<Rightarrow> asset \<Rightarrow> exn + decimal" where
  "get_asgard_price v a =
     res_bind (vp_markets v) (\<lambda>ss.
     case market_price (get_mint a) ss of
       Some p \<Rightarrow> Inr p
     | None \<Rightarrow> fallback_price ss)"

text \<open>The pair is (asgard price, hyperliquid price).\<close>

definition fetch_prices :: "venue_prices \<Rightarrow> asset \<Rightarrow> string \<Rightarrow> exn + (decimal \<times> decimal)" where
  "fetch_prices v a coin =
     res_bind (get_hyperliquid_prices v coin) (\<lambda>(hl_mark, hl_oracle).
     case hl_oracle of
       Some orc \<Rightarrow> Inr (orc, hl_mark)
     | None \<Rightarrow>
         (case get_asgard_price v a of
            Inr p \<Rightarrow> Inr (p, hl_mark)
          | Inl _ \<Rightarrow> Inr (hl_mark, hl_mark)))"

definition check_consensus ::
  "decimal \<Rightarrow> venue_prices \<Rightarrow> asset \<Rightarrow> string \<Rightarrow> exn + consensus_result" where
  "check_consensus max_deviation v a coin =
     res_bind (fetch_prices v a coin) (\<lambda>(ap, hp).
     res_bind (calculate_deviation ap hp) (\<lambda>d.
     Inr \<lparr>cr_asgard_price = ap, cr_hyperliquid_price = hp, cr_price_deviation = d,
          deviation_percent = d, cr_asset = a, is_within_threshold = (d \<le> max_deviation),
          cr_threshold = max_deviation\<rparr>))"

definition calculate_slippage_adjusted_prices ::
  "consensus_result \<Rightarrow> decimal \<Rightarrow> decimal \<times> decimal" where
  "calculate_slippage_adjusted_prices r bps =
     (let pct = dec (bps / 10000)
      in (dec (cr_asgard_price r * dec (1 + pct)), dec (cr_hyperliquid_price r * dec (1 - pct))))"

section \<open>Fill validation\<close>

datatype fill_action = Proceed | SoftStop | HardStop

record fill_info =
  fi_venue :: string
  fi_side :: string
  fi_size_usd :: decimal
  filled_price :: decimal
  expected_price :: decimal
  slippage_bps :: "decimal option"
  fees_usd :: "decimal option"

text \<open>\<open>__post_init__\<close> fills in the slippage.\<close>

definition make_fill :: "fill_info \<Rightarrow> fill_info" where
  "make_fill f =
     (if slippage_bps f = None \<and> expected_price f > 0
      then f\<lparr>slippage_bps := Some (dec (dec (dabs (dec (filled_price f - expected_price f))
               / expected_price f) * 10000))\<rparr>
      else f)"

datatype soft_stop_reason = BothFills decimal | AsgardFill decimal | HyperliquidFill decimal | QuickCheck

record validation_result =
  is_valid :: bool
  vr_action :: fill_action
  vr_asgard_deviation :: decimal
  vr_hyperliquid_deviation :: decimal
  vr_max_deviation :: decimal
  apy_at_fills :: decimal
  soft_stop_triggered :: bool
  soft_stop_reason :: "soft_stop_reason option"
  should_unwind :: bool

definition fill_deviation :: "decimal \<Rightarrow> decimal \<Rightarrow> decimal" where
  "fill_deviation actual expected =
     (if expected = 0 then 0 else dec (dabs (dec (actual - expected)) / expected))"

definition price_impact :: "decimal \<Rightarrow> decimal \<Rightarrow> bool \<Rightarrow> decimal" where
  "price_impact filled expected is_long =
     (if expected = 0 then 0
      else let diff = dec (filled - expected)
           in if is_long
              then (if diff > 0 then dec (diff / expected) else 0)
              else (if diff < 0 then dec (dabs diff / expected) else 0))"

definition recalculate_apy_at_fills :: "fill_info \<Rightarrow> fill_info \<Rightarrow> opportunity \<Rightarrow> decimal" where
  "recalculate_apy_at_fills af hf opp =
     (let ai = price_impact (filled_price af) (expected_price af) True;
          hi = price_impact (filled_price hf) (expected_price hf) False
      in dec (total_expected_apy opp - dec (ai + hi)))"

definition get_soft_stop_reason :: "decimal \<Rightarrow> decimal \<Rightarrow> decimal \<Rightarrow> decimal \<Rightarrow> soft_stop_reason" where
  "get_soft_stop_reason max_deviation ad hdev md =
     (if ad > max_deviation \<and> hdev > max_deviation then BothFills md
      else if ad > max_deviation then AsgardFill ad
      else HyperliquidFill hdev)"

definition validate_fills ::
  "decimal \<Rightarrow> fill_info \<Rightarrow> fill_info \<Rightarrow> opportunity \<Rightarrow> validation_result" where
  "validate_fills max_deviation af hf opp =
     (let ad = fill_deviation (filled_price af) (expected_price af);
          hdev = fill_deviation (filled_price hf) (expected_price hf);
          md = max ad hdev;
          triggered = md > max_deviation;
          apy = (if triggered then recalculate_apy_at_fills af hf opp else total_expected_apy opp);
          unwind = (triggered \<and> apy < 0)
      in \<lparr>is_valid = (\<not> triggered \<or> \<not> unwind),
          vr_action = (if \<not> triggered then Proceed else if unwind then HardStop else SoftStop),
          vr_asgard_deviation = ad, vr_hyperliquid_deviation = hdev, vr_max_deviation = md,
          apy_at_fills = apy, soft_stop_triggered = triggered,
          soft_stop_reason =
            (if triggered then Some (get_soft_stop_reason max_deviation ad hdev md) else None),
          should_unwind = unwind\<rparr>)"

definition validate_quick ::
  "decimal \<Rightarrow> decimal \<Rightarrow> decimal \<Rightarrow> decimal \<Rightarrow> decimal \<Rightarrow> validation_result" where
  "validate_quick max_deviation afill hfill aexp hexp =
     (let ad = fill_deviation afill aexp; hdev = fill_deviation hfill hexp; md = max ad hdev;
          soft = md > max_deviation
      in \<lparr>is_valid = True, vr_action = (if soft then SoftStop else Proceed),
          vr_asgard_deviation = ad, vr_hyperliquid_deviation = hdev, vr_max_deviation = md,
          apy_at_fills = 0, soft_stop_triggered = soft,
          soft_stop_reason = (if soft then Some QuickCheck else None), should_unwind = False\<rparr>)"

text \<open>The module's own reference class, with a timestamp.\<close>

record entry_reference =
  er_asgard_entry_price :: decimal
  er_hyperliquid_entry_price :: decimal
  er_max_acceptable_deviation :: decimal
  er_timestamp :: "datetime option"

definition price_spread :: "entry_reference \<Rightarrow> decimal" where
  "price_spread r = dabs (dec (er_asgard_entry_price r - er_hyperliquid_entry_price r))"

definition avg_price :: "entry_reference \<Rightarrow> decimal" where
  "avg_price r = dec (dec (er_asgard_entry_price r + er_hyperliquid_entry_price r) / 2)"

definition create_position_reference :: "datetime \<Rightarrow> decimal \<Rightarrow> consensus_result \<Rightarrow> entry_reference" where
  "create_position_reference now max_deviation c =
     \<lparr>er_asgard_entry_price = cr_asgard_price c,
      er_hyperliquid_entry_price = cr_hyperliquid_price c,
      er_max_acceptable_deviation = max_deviation, er_timestamp = Some now\<rparr>"

section \<open>Lemmas\<close>

lemma calculate_deviation_sym: "calculate_deviation p1 p2 = calculate_deviation p2 p1"
proof -
  have "dec (p1 - p2) = - dec (p2 - p1)"
    using dec.rnd_minus[of "p2 - p1"] by simp
  then have "dabs (dec (p1 - p2)) = dabs (dec (p2 - p1))"
    by (simp add: dabs_def)
  then show ?thesis by (simp add: calculate_deviation_def add.commute conj_commute disj_commute)
qed

lemma calculate_deviation_pos:
  assumes "0 < p1" "0 < p2"
  shows "calculate_deviation p1 p2 = Inr (dec (\<bar>dec (p1 - p2)\<bar> / dec (dec (p1 + p2) / 2)))"
    and "0 < dec (dec (p1 + p2) / 2)"
proof -
  show pos: "0 < dec (dec (p1 + p2) / 2)" using assms by simp
  then show "calculate_deviation p1 p2 = Inr (dec (\<bar>dec (p1 - p2)\<bar> / dec (dec (p1 + p2) / 2)))"
    using assms by (simp add: calculate_deviation_def Let_def)
qed

lemma deviation_zero_iff:
  assumes "0 < p1" "0 < p2"
  shows "calculate_deviation p1 p2 = Inr 0 \<longleftrightarrow> p1 = p2"
  using calculate_deviation_pos[OF assms] by auto

lemma fill_deviation_nonneg: "0 \<le> expected \<Longrightarrow> 0 \<le> fill_deviation actual expected"
  by (simp add: fill_deviation_def)

lemma price_impact_nonneg: "0 < expected \<Longrightarrow> 0 \<le> price_impact filled expected is_long"
  by (auto simp: price_impact_def Let_def divide_nonpos_pos)

lemma apy_at_fills_le:
  assumes "0 < expected_price af" "0 < expected_price hf"
  shows "recalculate_apy_at_fills af hf opp \<le> dec (total_expected_apy opp)"
  unfolding recalculate_apy_at_fills_def Let_def
  using price_impact_nonneg[OF assms(1), of "filled_price af" True]
    price_impact_nonneg[OF assms(2), of "filled_price hf" False]
  by (intro dec.rnd_mono) simp

section \<open>Properties\<close>

text \<open>The soft-stop rule: fills within the tolerance proceed; otherwise the position is unwound
  exactly when the yield at the actual prices is negative, and held (flagged) when it is not. The
  result is invalid exactly when it is to be unwound.\<close>

theorem fill_validation_rule:
  "let r = validate_fills max_deviation af hf opp;
       dev = max (fill_deviation (filled_price af) (expected_price af))
                 (fill_deviation (filled_price hf) (expected_price hf))
   in (vr_action r = Proceed \<longleftrightarrow> dev \<le> max_deviation) \<and>
      (vr_action r = HardStop \<longleftrightarrow>
         dev > max_deviation \<and> recalculate_apy_at_fills af hf opp < 0) \<and>
      (vr_action r = SoftStop \<longleftrightarrow>
         dev > max_deviation \<and> 0 \<le> recalculate_apy_at_fills af hf opp) \<and>
      (is_valid r \<longleftrightarrow> vr_action r \<noteq> HardStop) \<and> (should_unwind r \<longleftrightarrow> vr_action r = HardStop)"
  by (auto simp: validate_fills_def Let_def not_less)

text \<open>Fills never improve the expected yield: at positive expected prices the re-evaluated yield is
  at most the original one, so an opportunity that was unprofitable when it was entered is always
  unwound once a fill leaves the tolerance.\<close>

theorem unprofitable_fills_unwound:
  assumes "0 < expected_price af" "0 < expected_price hf" and "total_expected_apy opp < 0"
    and "max_deviation < fill_deviation (filled_price hf) (expected_price hf)"
  shows "vr_action (validate_fills max_deviation af hf opp) = HardStop"
proof -
  have "recalculate_apy_at_fills af hf opp \<le> dec (total_expected_apy opp)"
    using assms(1,2) by (rule apy_at_fills_le)
  also have "\<dots> < 0" using assms(3) by simp
  finally show ?thesis using assms(4) by (simp add: validate_fills_def Let_def less_max_iff_disj)
qed

definition wit_fill :: "decimal \<Rightarrow> decimal \<Rightarrow> fill_info" where
  "wit_fill f e = \<lparr>fi_venue = ''hyperliquid'', fi_side = ''short'', fi_size_usd = 100,
     filled_price = f, expected_price = e, slippage_bps = None, fees_usd = None\<rparr>"

definition wit_opp :: "decimal \<Rightarrow> opportunity" where
  "wit_opp apy = \<lparr>opp_id = ''o1'', opp_timestamp = 0, opp_asset = SOL, selected_protocol = MARGINFI,
     opp_rates = \<lparr>ar_protocol_id = 0, token_a_mint = '''', token_b_mint = '''',
       token_a_lending_apy = 5/100, token_b_borrowing_apy = 8/100,
       token_b_max_borrow_capacity = 100000\<rparr>,
     hyperliquid_coin = ''SOL'',
     current_funding = \<lparr>fr_timestamp = 0, fr_coin = ''SOL'', rate_8hr = -1/1000\<rparr>,
     predicted_funding = None, funding_volatility = 3/10, opp_leverage = 3,
     deployed_capital_usd = 1000, opp_position_size_usd = 3000,
     score = \<lparr>funding_apy = apy, net_carry_apy = 0, lst_staking_apy = 0,
       estimated_gas_cost_apy = 0, estimated_slippage_apy = 0\<rparr>,
     opp_price_deviation = 0, preflight_checks_passed = True, expires_at = None\<rparr>"

theorem unprofitable_fills_unwound_witness:
  "vr_action (validate_fills (5/1000) (wit_fill 100 100) (wit_fill 99 100) (wit_opp (-1/100))) = HardStop"
proof -
  have a: "0 < expected_price (wit_fill 100 100)" "0 < expected_price (wit_fill 99 100)"
    by (simp_all add: wit_fill_def)
  have b: "total_expected_apy (wit_opp (-1/100)) < 0" by code_simp
  have c: "5/1000 < fill_deviation (filled_price (wit_fill 99 100)) (expected_price (wit_fill 99 100))"
    by code_simp
  from unprofitable_fills_unwound[OF a b c] show ?thesis .
qed

text \<open>When Hyperliquid reports no oracle price and Asgard's price cannot be read, the consensus
  check compares the mark price with itself: it reports no deviation and, for any nonnegative
  tolerance, agreement.\<close>

theorem consensus_trivial_without_second_source:
  assumes "get_hyperliquid_prices v coin = Inr (mk, None)" and "get_asgard_price v a = Inl e"
    and "0 \<le> max_deviation" and "0 < mk"
  shows "\<exists>r. check_consensus max_deviation v a coin = Inr r \<and> cr_price_deviation r = 0 \<and>
     is_within_threshold r"
  using assms deviation_zero_iff[OF assms(4) assms(4)]
  by (simp add: check_consensus_def fetch_prices_def)

definition wit_venues :: venue_prices where
  "wit_venues = \<lparr>vp_meta = Inr ([''BTC'', ''SOL''],
       [\<lparr>mark_px_field = Some 60000, oracle_px_field = None\<rparr>,
        \<lparr>mark_px_field = None, oracle_px_field = Some 150\<rparr>]),
     vp_markets = Inl (ExternalError ''timeout'')\<rparr>"

theorem consensus_trivial_without_second_source_witness:
  "\<exists>r. check_consensus (5/1000) wit_venues JITOSOL ''SOL'' = Inr r \<and> is_within_threshold r"
proof -
  have a: "get_hyperliquid_prices wit_venues ''SOL'' = Inr (150, None)"
    and b: "get_asgard_price wit_venues JITOSOL = Inl (ExternalError ''timeout'')"
    by (simp_all add: get_hyperliquid_prices_def wit_venues_def Let_def get_asgard_price_def)
  have "(0::rat) \<le> 5/1000" "(0::rat) < 150" by simp_all
  from consensus_trivial_without_second_source[OF a b this] show ?thesis by blast
qed

text \<open>For two positive prices the consensus check returns, its deviation does not depend on the
  order of the venues, is never negative, and is zero exactly when the prices are equal.\<close>

theorem deviation_sound:
  assumes "0 < p1" "0 < p2"
  shows "\<exists>d. calculate_deviation p1 p2 = Inr d \<and> calculate_deviation p2 p1 = Inr d \<and>
     0 \<le> d \<and> (d = 0 \<longleftrightarrow> p1 = p2)"
  using calculate_deviation_pos[OF assms] calculate_deviation_sym[of p1 p2] deviation_zero_iff[OF assms]
  by simp

theorem deviation_sound_witness:
  "\<exists>d. calculate_deviation 100 101 = Inr d \<and> calculate_deviation 101 100 = Inr d \<and> 0 \<le> d \<and> d \<noteq> 0"
  using deviation_sound[of 100 101] by auto

end
