(* ===== verification/PositionManager.thy ===== *)
theory PositionManager
  imports AsgardManager Trader FillValidator
begin

text \<open>
  The position manager (\<open>bot/core/position_manager.py\<close>): pre-flight checks, opening both legs
  with unwinding, closing, delta tracking, the rebalance decision and the registry of positions.

  The state holds the Asgard side (transaction table and API calls), the Hyperliquid trader, the two
  dictionaries of the class and the trace \<open>leg_calls\<close> of the calls it makes to its two venue
  managers. Answers of the venues, new UUIDs and clock readings are arguments, grouped in a record per
  operation. \<open>open_position_with\<close> takes the call that opens the long leg as an argument, so that
  its lemmas hold for any provider; \<open>open_position\<close> passes the one of AsgardManager. Error texts are
  abbreviated, log texts are left out (but not the exceptions that building them raises).
\<close>

section \<open>Data\<close>

record preflight_result =
  pf_passed :: bool
  pf_checks :: "(string \<times> bool) list"
  pf_errors :: "string list"

definition all_checks_passed :: "preflight_result \<Rightarrow> bool" where
  "all_checks_passed r = list_all snd (pf_checks r)"

record delta_info =
  di_delta_usd :: decimal
  di_delta_ratio :: decimal
  long_value_usd :: decimal
  short_value_usd :: decimal
  lst_appreciation_usd :: decimal
  effective_delta_usd :: decimal
  threshold_warning :: decimal
  threshold_critical :: decimal

definition is_neutral :: "delta_info \<Rightarrow> bool" where
  "is_neutral d = (dabs (di_delta_ratio d) \<le> threshold_warning d)"

definition needs_rebalance :: "delta_info \<Rightarrow> bool" where
  "needs_rebalance d = (dabs (di_delta_ratio d) > threshold_warning d)"

definition di_is_critical :: "delta_info \<Rightarrow> bool" where
  "di_is_critical d = (dabs (di_delta_ratio d) > threshold_critical d)"

definition drift_direction :: "delta_info \<Rightarrow> string" where
  "drift_direction d =
     (if di_delta_ratio d > threshold_warning d then ''long_heavy''
      else if di_delta_ratio d < dec (- threshold_warning d) then ''short_heavy''
      else ''neutral'')"

record rebalance_result =
  rebalanced :: bool
  rb_reason :: string
  rb_drift_cost :: "decimal option"
  rb_rebalance_cost :: "decimal option"
  rb_tx_signature :: "string option"
  rb_error :: "string option"

record open_context =
  oc_position_id :: string
  oc_opportunity :: opportunity
  oc_consensus_result :: consensus_result
  oc_entry_time :: datetime
  oc_asgard_collateral_usd :: decimal
  oc_hyperliquid_size_sol :: decimal
  oc_leverage :: decimal

record manager_result =
  mr_success :: bool
  mr_position :: "combined_position option"
  mr_error :: "string option"
  mr_stage :: "string option"

datatype leg_call =
    OpenLong asset pyfloat pyfloat protocol
  | UpdateLeverage string int
  | OpenShort string rat
  | CloseShort string rat
  | CloseLong string

record manager =
  pm_asgard :: asgard_state
  pm_trader :: trader
  pm_positions :: "(string, combined_position) dict"
  pm_contexts :: "(string, open_context) dict"
  leg_calls :: "leg_call list"

definition fail_at :: "string \<Rightarrow> string option \<Rightarrow> manager_result" where
  "fail_at err stage = \<lparr>mr_success = False, mr_position = None, mr_error = Some err, mr_stage = stage\<rparr>"

section \<open>Pre-flight checks\<close>

record preflight_answers =
  pa_sol_balance :: "exn + pyfloat"
  pa_usdc_balance :: "exn + pyfloat"
  pa_hl_state :: "exn + clearinghouse"
  pa_prices :: venue_prices
  pa_markets :: "exn + market_strategy list"

definition half_deployed :: "opportunity \<Rightarrow> pyfloat" where
  "half_deployed opp = flt (flt (deployed_capital_usd opp) / 2)"

definition check_wallet_balance :: "preflight_answers \<Rightarrow> trader \<Rightarrow> opportunity \<Rightarrow> bool" where
  "check_wallet_balance a t opp =
     (case pa_sol_balance a of
        Inl _ \<Rightarrow> True
      | Inr sol \<Rightarrow>
          if sol < flt (1/10) then False
          else (case pa_usdc_balance a of
                  Inl _ \<Rightarrow> True
                | Inr usdc \<Rightarrow>
                    if usdc < flt (half_deployed opp * flt (95/100)) then False
                    else get_deposited_balance (pa_hl_state a) t \<ge> flt (half_deployed opp * flt (95/100))))"

definition check_funding_validation :: "opportunity \<Rightarrow> bool" where
  "check_funding_validation opp =
     (if \<not> is_negative (current_funding opp) then False
      else if predicted_not_negative opp then False else True)"

text \<open>The check replaces the protocol of the opportunity by the best one; a new
  \<open>AsgardMarketData\<close> starts with empty caches.\<close>

definition check_protocol_capacity :: "preflight_answers \<Rightarrow> opportunity \<Rightarrow> opportunity \<times> bool" where
  "check_protocol_capacity a opp =
     (case snd (select_best_protocol (pa_markets a) (opp_asset opp) (flt (opp_position_size_usd opp))
                  (flt (opp_leverage opp)) (flt (12/10)) market_data_init) of
        Inl _ \<Rightarrow> (opp, True)
      | Inr None \<Rightarrow> (opp, False)
      | Inr (Some b) \<Rightarrow> (opp\<lparr>selected_protocol := nc_protocol b\<rparr>, True))"

definition simulate_opportunity :: "opportunity \<Rightarrow> bool" where
  "simulate_opportunity opp = True"

text \<open>The consensus check is \<open>check_consensus(asset)\<close> with its default coin. The result is the
  verdict and the opportunity as the checks leave it.\<close>

definition run_preflight_checks ::
  "decimal \<Rightarrow> preflight_answers \<Rightarrow> trader \<Rightarrow> opportunity \<Rightarrow> opportunity \<times> preflight_result" where
  "run_preflight_checks max_dev a t opp =
     (let wallet = check_wallet_balance a t opp;
          (opp1, consensus, err2) =
            (case check_consensus max_dev (pa_prices a) (opp_asset opp) ''SOL'' of
               Inl e \<Rightarrow> (opp, False, [''Price consensus check failed''])
             | Inr c \<Rightarrow> (opp\<lparr>opp_price_deviation := cr_price_deviation c\<rparr>, is_within_threshold c,
                        if is_within_threshold c then [] else [''Price deviation exceeds 0.5%'']));
          funding = check_funding_validation opp1;
          (opp2, capacity) = check_protocol_capacity a opp1;
          simulation = simulate_opportunity opp2;
          checks = [(''wallet_balance'', wallet), (''price_consensus'', consensus),
                    (''funding_validation'', funding), (''protocol_capacity'', capacity),
                    (''fee_market'', True), (''opportunity_simulation'', simulation)];
          errors = (if wallet then [] else [''Insufficient wallet balance'']) @ err2
                 @ (if funding then [] else [''Funding rate validation failed''])
                 @ (if capacity then [] else [''Selected protocol lacks capacity''])
                 @ (if simulation then [] else [''Opportunity simulation failed'']);
          passed = list_all snd checks
      in (if passed then opp2\<lparr>preflight_checks_passed := True\<rparr> else opp2,
          \<lparr>pf_passed = passed, pf_checks = checks, pf_errors = errors\<rparr>))"

section \<open>Calls to the venue managers\<close>

text \<open>\<open>on_asgard\<close> and \<open>on_trader\<close> run an action of a component on its part of the
  state, after tracing the call.\<close>

definition on_asgard :: "leg_call \<Rightarrow> (asgard_state, 'a) action \<Rightarrow> (manager, 'a) action" where
  "on_asgard c m s =
     (case m (pm_asgard s) of
        (a1, r) \<Rightarrow> (s\<lparr>pm_asgard := a1, leg_calls := leg_calls s @ [c]\<rparr>, r))"

definition on_trader :: "leg_call \<Rightarrow> (trader, 'a) action \<Rightarrow> (manager, 'a) action" where
  "on_trader c m s =
     (case m (pm_trader s) of
        (t1, r) \<Rightarrow> (s\<lparr>pm_trader := t1, leg_calls := leg_calls s @ [c]\<rparr>, r))"

definition pure_trader :: "(trader \<Rightarrow> trader \<times> 'a) \<Rightarrow> (trader, 'a) action" where
  "pure_trader f t = (case f t of (t1, r) \<Rightarrow> (t1, Inr r))"

section \<open>Opening\<close>

record open_position_answers =
  ap_now :: datetime
  ap_position_id :: string
  ap_close_intent :: string
  ap_prices :: venue_prices
  ap_lev_meta :: "exn + string option list"
  ap_lev_sign :: "exn + unit"
  ap_lev_reply :: "exn + bool"
  ap_open :: open_answers
  ap_state :: "exn + clearinghouse"
  ap_close :: "nat \<Rightarrow> order_answers"

record hl_open_result =
  ho_success :: bool
  ho_order_id :: "string option"
  ho_avg_px :: "rat option"
  ho_position_info :: "hyperliquid_position option"
  ho_error :: "string option"

definition HYPERLIQUID_RETRY_ATTEMPTS :: nat where "HYPERLIQUID_RETRY_ATTEMPTS = 15"

definition size_text :: "decimal \<Rightarrow> rat" where
  "size_text x = fmt 6 (flt x)"

definition hl_position_of ::
  "datetime \<Rightarrow> string \<Rightarrow> decimal \<Rightarrow> int \<Rightarrow> rat option \<Rightarrow> position_info option \<Rightarrow> hyperliquid_position" where
  "hl_position_of now coin ssz lev px info =
     (let mu = (case info of None \<Rightarrow> 0 | Some p \<Rightarrow> float_str (pi_margin_used p));
          mf = (case info of None \<Rightarrow> 0 | Some p \<Rightarrow> float_str (pi_margin_fraction p))
      in \<lparr>hp_coin = coin, size_sol = dec (- ssz), entry_px = get_or px 0,
          hp_leverage = of_int lev, margin_used = mu, margin_fraction = mf,
          account_value = (if mf > 0 then dec (mu / mf) else dec (mu * 4)), cum_funding = 0,
          mark_px = (case info of None \<Rightarrow> 0 | Some p \<Rightarrow> float_str (pi_entry_px p)),
          liquidation_px = None, hp_entry_time = now, hp_last_update = now\<rparr>)"

text \<open>Everything from the short on stands in a \<open>try\<close>, whose failure counts as a failed short. After a
  successful short nothing in it raises here: \<open>get_position\<close> catches what its reading raises, and
  the margins it read are finite numbers (on a NaN the comparison would raise).\<close>

definition open_hyperliquid_position ::
  "open_position_answers \<Rightarrow> string \<Rightarrow> decimal \<Rightarrow> int \<Rightarrow> (manager, hl_open_result) action" where
  "open_hyperliquid_position a coin ssz lev =
     andthen
       (catching
         (on_trader (UpdateLeverage coin lev)
            (update_leverage (ap_lev_meta a) (ap_lev_sign a) (ap_lev_reply a) coin lev True))
         (\<lambda>_. ret False)) (\<lambda>_.
     andthen
       (on_trader (OpenShort coin (size_text ssz))
          (pure_trader (open_short (ap_open a) coin (size_text ssz) HYPERLIQUID_RETRY_ATTEMPTS
             (flt (1/100))))) (\<lambda>r.
     if \<not> or_success r
     then ret \<lparr>ho_success = False, ho_order_id = None, ho_avg_px = None, ho_position_info = None,
               ho_error = (case or_error r of
                 None \<Rightarrow> Some ''Order failed'' | Some e \<Rightarrow> Some (if e = '''' then ''Order failed'' else e))\<rparr>
     else (\<lambda>s. (s, Inr \<lparr>ho_success = True, ho_order_id = order_id r, ho_avg_px = avg_px r,
                 ho_position_info = Some (hl_position_of (ap_now a) coin ssz lev (avg_px r)
                   (get_hl_position (ap_state a) coin (pm_trader s))),
                 ho_error = None\<rparr>))))"

text \<open>\<open>close_position\<close> of the Asgard manager cannot raise; the \<open>except\<close> branch is kept.\<close>

definition unwind_asgard_position ::
  "asgard_api \<Rightarrow> asgard_manager \<Rightarrow> datetime \<Rightarrow> string \<Rightarrow> string \<Rightarrow> (manager, bool) action" where
  "unwind_asgard_position api am now i pda =
     catching (andthen (on_asgard (CloseLong pda) (close_asgard api am now i pda)) (\<lambda>r. ret (cl_success r)))
       (\<lambda>_. ret False)"

definition emergency_close_position ::
  "asgard_api \<Rightarrow> asgard_manager \<Rightarrow> open_position_answers \<Rightarrow> string \<Rightarrow> string \<Rightarrow> decimal
     \<Rightarrow> (manager, unit) action"
where
  "emergency_close_position api am a pda coin sz =
     andthen
       (on_trader (CloseShort coin (size_text sz))
          (pure_trader (close_short (ap_close a) coin (size_text sz) 15))) (\<lambda>_.
     andthen
       (catching (andthen (on_asgard (CloseLong pda) (close_asgard api am (ap_now a) (ap_close_intent a) pda))
                    (\<lambda>_. ret ())) (\<lambda>_. ret ())) (\<lambda>_. ret ()))"

text \<open>The texts built for a hard or a soft stop read \<open>validation.reason\<close>, an attribute that
  \<open>ValidationResult\<close> does not have.\<close>

definition validate_position_entry ::
  "decimal \<Rightarrow> asgard_position option \<Rightarrow> hl_open_result \<Rightarrow> opportunity \<Rightarrow> consensus_result option
     \<Rightarrow> exn + manager_result"
where
  "validate_position_entry fill_dev ap ho opp consensus =
     (case (ap, ho_position_info ho) of
        (Some p, Some h) \<Rightarrow>
          let hl_px = get_or (ho_avg_px ho) 0;
              af = make_fill \<lparr>fi_venue = ''asgard'', fi_side = ''long'',
                     fi_size_usd = position_size_usd p, filled_price = entry_price_token_a p,
                     expected_price = entry_price_token_a p, slippage_bps = None, fees_usd = None\<rparr>;
              hf = make_fill \<lparr>fi_venue = ''hyperliquid'', fi_side = ''short'',
                     fi_size_usd = dec (dabs (size_sol h) * hl_px), filled_price = hl_px,
                     expected_price = (case consensus of None \<Rightarrow> hl_px | Some c \<Rightarrow> cr_hyperliquid_price c),
                     slippage_bps = None, fees_usd = None\<rparr>
          in (case vr_action (validate_fills fill_dev af hf opp) of
                HardStop \<Rightarrow> Inl (AttributeError ''reason'')
              | SoftStop \<Rightarrow> Inl (AttributeError ''reason'')
              | Proceed \<Rightarrow> Inr \<lparr>mr_success = True, mr_position = None, mr_error = None, mr_stage = None\<rparr>)
      | _ \<Rightarrow> Inr (fail_at ''Missing position data for validation'' None))"

definition new_combined_position ::
  "open_position_answers \<Rightarrow> asgard_position \<Rightarrow> hyperliquid_position \<Rightarrow> decimal \<Rightarrow> opportunity
     \<Rightarrow> combined_position"
where
  "new_combined_position a ap hp hl_px opp =
     \<lparr>position_id = ap_position_id a, cp_user_id = None, asgard = ap, hyperliquid = hp,
      reference = \<lparr>asgard_entry_price = entry_price_token_a ap, hyperliquid_entry_price = hl_px,
        max_acceptable_deviation = 5/1000\<rparr>,
      opportunity_id = opp_id opp, status = ''open'', cp_exit_reason = None, exit_time = None,
      total_funding_received = 0, total_funding_paid = 0, transaction_state = IDLE,
      state_history = [], created_at = ap_now a, updated_at = ap_now a\<rparr>"

definition new_context ::
  "open_position_answers \<Rightarrow> consensus_result option \<Rightarrow> decimal \<Rightarrow> decimal \<Rightarrow> decimal \<Rightarrow> opportunity
     \<Rightarrow> open_context"
where
  "new_context a consensus token_price collateral sz opp =
     \<lparr>oc_position_id = ap_position_id a, oc_opportunity = opp,
      oc_consensus_result = (case consensus of
        Some c \<Rightarrow> c
      | None \<Rightarrow> \<lparr>cr_asgard_price = token_price, cr_hyperliquid_price = token_price,
                 cr_price_deviation = 0, deviation_percent = 0, cr_asset = opp_asset opp,
                 is_within_threshold = True, cr_threshold = 5/1000\<rparr>),
      oc_entry_time = ap_now a, oc_asgard_collateral_usd = collateral,
      oc_hyperliquid_size_sol = sz, oc_leverage = opp_leverage opp\<rparr>"

definition token_price_of :: "consensus_result option \<Rightarrow> decimal" where
  "token_price_of consensus =
     (case consensus of
        None \<Rightarrow> 100
      | Some c \<Rightarrow> if consensus_price c \<noteq> 0 then consensus_price c else 100)"

text \<open>The limits of the two checks the manager was built with.\<close>

record limits =
  lm_consensus :: decimal
  lm_fill :: decimal

type_synonym long_opener =
  "asset \<Rightarrow> pyfloat \<Rightarrow> pyfloat \<Rightarrow> protocol \<Rightarrow> (asgard_state, open_position_result) action"

text \<open>The steps after the long leg is open, with its position.\<close>

definition open_second_leg ::
  "asgard_api \<Rightarrow> asgard_manager \<Rightarrow> limits \<Rightarrow> open_position_answers \<Rightarrow> opportunity
     \<Rightarrow> consensus_result option \<Rightarrow> asgard_position \<Rightarrow> (manager, manager_result) action"
where
  "open_second_leg api am lts a opp consensus ap =
     (let token_price = token_price_of consensus;
          sz = dec (dec (opp_position_size_usd opp / 2) / token_price)
      in andthen (open_hyperliquid_position a ''SOL'' sz (trunc (opp_leverage opp))) (\<lambda>ho.
         if \<not> ho_success ho
         then andthen (unwind_asgard_position api am (ap_now a) (ap_close_intent a) (position_pda ap))
                (\<lambda>_. ret (fail_at ''Failed to open Hyperliquid position'' (Some ''hyperliquid_open'')))
         else andthen (lift_result (validate_position_entry (lm_fill lts) (Some ap) ho opp consensus)) (\<lambda>v.
           case ho_position_info ho of
             Some hp \<Rightarrow>
               if mr_success v
               then (\<lambda>s. let p = new_combined_position a ap hp (get_or (ho_avg_px ho) token_price) opp
                      in (s\<lparr>pm_positions := dict_put (ap_position_id a) p (pm_positions s),
                            pm_contexts := dict_put (ap_position_id a)
                              (new_context a consensus token_price (dec (deployed_capital_usd opp / 2)) sz opp)
                              (pm_contexts s)\<rparr>,
                          Inr \<lparr>mr_success = True, mr_position = Some p, mr_error = None, mr_stage = None\<rparr>))
               else andthen (emergency_close_position api am a (position_pda ap) ''SOL'' sz)
                      (\<lambda>_. ret (fail_at ''Validation failed'' (Some ''validation'')))
           | None \<Rightarrow> andthen (emergency_close_position api am a (position_pda ap) ''SOL'' sz)
                      (\<lambda>_. ret (fail_at ''Validation failed'' (Some ''validation''))))))"

definition open_position_with ::
  "long_opener \<Rightarrow> asgard_api \<Rightarrow> asgard_manager \<Rightarrow> limits \<Rightarrow> open_position_answers \<Rightarrow> opportunity
     \<Rightarrow> (manager, manager_result) action"
where
  "open_position_with open_long api am lts a opp =
     (if \<not> preflight_checks_passed opp
      then ret (fail_at ''Preflight checks not passed'' (Some ''preflight''))
      else
        let consensus = (case check_consensus (lm_consensus lts) (ap_prices a) (opp_asset opp) ''SOL'' of
                           Inl _ \<Rightarrow> None | Inr c \<Rightarrow> Some c);
            collateral = dec (deployed_capital_usd opp / 2)
        in if token_price_of consensus = 0
           then ret (fail_at ''Cannot determine token price'' (Some ''pricing''))
           else andthen
             (on_asgard (OpenLong (opp_asset opp) (flt collateral) (flt (opp_leverage opp)) (selected_protocol opp))
                (open_long (opp_asset opp) (flt collateral) (flt (opp_leverage opp)) (selected_protocol opp))) (\<lambda>r.
           if \<not> op_success r
           then ret (fail_at ''Failed to open Asgard position'' (Some ''asgard_open''))
           else case op_position r of
             None \<Rightarrow> raising (AttributeError ''position_pda'')
           | Some ap \<Rightarrow> open_second_leg api am lts a opp consensus ap))"

definition open_position ::
  "asgard_api \<Rightarrow> asgard_manager \<Rightarrow> string \<Rightarrow> limits \<Rightarrow> open_position_answers \<Rightarrow> opportunity
     \<Rightarrow> (manager, manager_result) action"
where
  "open_position api am i lts a opp =
     open_position_with
       (\<lambda>as c lev p. open_long_position api am (ap_now a) i as c lev (Some p)) api am lts a opp"

section \<open>Closing\<close>

record close_answers =
  ca_now :: datetime
  ca_exit_time :: datetime
  ca_intent :: string
  ca_close :: "nat \<Rightarrow> order_answers"

record leg_result =
  lg_success :: bool
  lg_ref :: "string option"
  lg_error :: "string option"

definition close_hyperliquid_position ::
  "close_answers \<Rightarrow> combined_position \<Rightarrow> (manager, leg_result) action" where
  "close_hyperliquid_position a p =
     (let sz = size_text (dabs (size_sol (hyperliquid p)))
      in catching
        (andthen (on_trader (CloseShort (hp_coin (hyperliquid p)) sz)
             (pure_trader (close_short (ca_close a) (hp_coin (hyperliquid p)) sz HYPERLIQUID_RETRY_ATTEMPTS))) (\<lambda>r.
         ret (if or_success r then \<lparr>lg_success = True, lg_ref = order_id r, lg_error = None\<rparr>
              else \<lparr>lg_success = False, lg_ref = None, lg_error = or_error r\<rparr>)))
        (\<lambda>e. ret \<lparr>lg_success = False, lg_ref = None, lg_error = Some (exn_text e)\<rparr>))"

definition close_asgard_position ::
  "asgard_api \<Rightarrow> asgard_manager \<Rightarrow> close_answers \<Rightarrow> combined_position \<Rightarrow> (manager, leg_result) action" where
  "close_asgard_position api am a p =
     catching
       (andthen (on_asgard (CloseLong (position_pda (asgard p)))
            (close_asgard api am (ca_now a) (ca_intent a) (position_pda (asgard p)))) (\<lambda>r.
        ret (if cl_success r then \<lparr>lg_success = True, lg_ref = cl_signature r, lg_error = None\<rparr>
             else \<lparr>lg_success = False, lg_ref = None, lg_error = cl_error r\<rparr>)))
       (\<lambda>e. ret \<lparr>lg_success = False, lg_ref = None, lg_error = Some (exn_text e)\<rparr>)"

definition set_position :: "string \<Rightarrow> combined_position \<Rightarrow> manager \<Rightarrow> manager" where
  "set_position i p s = s\<lparr>pm_positions := dict_put i p (pm_positions s)\<rparr>"

definition close_position ::
  "asgard_api \<Rightarrow> asgard_manager \<Rightarrow> close_answers \<Rightarrow> string \<Rightarrow> exit_reason \<Rightarrow> (manager, manager_result) action"
where
  "close_position api am a i reason s =
     (case dict_get i (pm_positions s) of
        None \<Rightarrow> (s, Inr (fail_at (''Position '' @ i @ '' not found'') None))
      | Some p \<Rightarrow>
          if status p \<noteq> ''open'' then (s, Inr (fail_at (''Position '' @ i @ '' is not open (status: '' @ status p @ '')'') None))
          else
            let p1 = p\<lparr>status := ''closing'', cp_exit_reason := Some reason\<rparr>
            in andthen (close_hyperliquid_position a p1) (\<lambda>hl.
               andthen (close_asgard_position api am a p1) (\<lambda>ag.
               if \<not> lg_success ag \<and> \<not> lg_success hl
               then (\<lambda>s. (set_position i (p1\<lparr>status := ''stuck''\<rparr>) s,
                          Inr (fail_at ''Failed to close both legs'' (Some ''close_both''))))
               else (let p2 = p1\<lparr>status := ''closed'', exit_time := Some (ca_exit_time a)\<rparr>
                     in (\<lambda>s. (set_position i p2 s,
                          Inr \<lparr>mr_success = True, mr_position = Some p2, mr_error = None, mr_stage = None\<rparr>)))))
              (set_position i p1 s))"

section \<open>Delta and rebalancing\<close>

definition get_position_delta :: "combined_position \<Rightarrow> delta_info" where
  "get_position_delta p =
     (let lv = current_value_usd (asgard p);
          sv = size_usd (hyperliquid p);
          d = dec (lv - sv);
          appreciation = (if is_lst (get_asset_metadata (ap_asset (asgard p)))
                          then dec (lv - dec (token_a_amount (asgard p) * entry_price_token_a (asgard p)))
                          else 0);
          effective = dec (d + appreciation);
          ratio = (if position_size_usd (asgard p) > 0 then dec (effective / position_size_usd (asgard p)) else 0)
      in \<lparr>di_delta_usd = d, di_delta_ratio = ratio, long_value_usd = lv, short_value_usd = sv,
          lst_appreciation_usd = appreciation, effective_delta_usd = effective,
          threshold_warning = 5/1000, threshold_critical = 2/100\<rparr>)"

definition calculate_drift_cost :: "delta_info \<Rightarrow> decimal" where
  "calculate_drift_cost d = dec (dabs (effective_delta_usd d) * (1/10000))"

definition calculate_rebalance_cost :: "combined_position \<Rightarrow> decimal" where
  "calculate_rebalance_cost p = dec (10 + dec (position_size_usd (asgard p) * (1/1000)))"

definition execute_rebalance :: "combined_position \<Rightarrow> delta_info \<Rightarrow> exn + rebalance_result" where
  "execute_rebalance p d =
     Inr \<lparr>rebalanced = False, rb_reason = ''Rebalance execution not yet implemented'',
          rb_drift_cost = None, rb_rebalance_cost = None, rb_tx_signature = None, rb_error = None\<rparr>"

definition rebalance_if_needed :: "combined_position \<Rightarrow> rebalance_result" where
  "rebalance_if_needed p =
     (let d = get_position_delta p
      in if \<not> needs_rebalance d
         then \<lparr>rebalanced = False, rb_reason = ''Delta ratio within threshold'', rb_drift_cost = None,
               rb_rebalance_cost = None, rb_tx_signature = None, rb_error = None\<rparr>
         else
           let drift = calculate_drift_cost d; cost = calculate_rebalance_cost p
           in if drift \<le> cost
              then \<lparr>rebalanced = False, rb_reason = ''Drift cost <= rebalance cost'',
                    rb_drift_cost = Some drift, rb_rebalance_cost = Some cost,
                    rb_tx_signature = None, rb_error = None\<rparr>
              else (case execute_rebalance p d of
                      Inr r \<Rightarrow> r
                    | Inl e \<Rightarrow> \<lparr>rebalanced = False, rb_reason = ''Rebalance execution failed'',
                               rb_drift_cost = Some drift, rb_rebalance_cost = Some cost,
                               rb_tx_signature = None, rb_error = None\<rparr>))"

section \<open>Registry\<close>

definition get_position :: "manager \<Rightarrow> string \<Rightarrow> combined_position option" where
  "get_position s i = dict_get i (pm_positions s)"

definition get_all_positions :: "manager \<Rightarrow> combined_position list" where
  "get_all_positions s = map snd (pm_positions s)"

definition get_open_positions :: "manager \<Rightarrow> combined_position list" where
  "get_open_positions s = filter (\<lambda>p. status p = ''open'') (get_all_positions s)"

text \<open>An absent Asgard state raises inside the \<open>try\<close>, like a failed call: the leg is left as
  it was.\<close>

definition refresh_position ::
  "asgard_api \<Rightarrow> exn + clearinghouse \<Rightarrow> datetime \<Rightarrow> string \<Rightarrow> (manager, combined_position option) action" where
  "refresh_position api ch now i s =
     (case dict_get i (pm_positions s) of
        None \<Rightarrow> (s, Inr None)
      | Some p \<Rightarrow>
          (case get_position_state api (position_pda (asgard p)) (pm_asgard s) of
             (a1, st) \<Rightarrow>
               let p1 = (case st of
                      Inr (Some x) \<Rightarrow> p\<lparr>asgard := (asgard p)\<lparr>current_health_factor := float_str (po_health_factor x),
                                                            ap_last_update := now\<rparr>\<rparr>
                    | _ \<Rightarrow> p);
                   p2 = (case get_hl_position ch ''SOL'' (pm_trader s) of
                      Some h \<Rightarrow> p1\<lparr>hyperliquid := (hyperliquid p1)\<lparr>margin_fraction := float_str (pi_margin_fraction h),
                                     mark_px := float_str (pi_entry_px h), hp_last_update := now\<rparr>\<rparr>
                    | None \<Rightarrow> p1);
                   p3 = p2\<lparr>updated_at := now\<rparr>
               in (set_position i p3 (s\<lparr>pm_asgard := a1\<rparr>), Inr (Some p3))))"

section \<open>Lemmas\<close>

text \<open>The trader after the leverage call, which is made whatever it answers, and the answer to the
  short that follows.\<close>

definition levered :: "open_position_answers \<Rightarrow> int \<Rightarrow> trader \<Rightarrow> trader" where
  "levered a lev t =
     fst (update_leverage (ap_lev_meta a) (ap_lev_sign a) (ap_lev_reply a) ''SOL'' lev True t)"

lemma open_hyperliquid_position_eq:
  assumes "open_short (ap_open a) ''SOL'' (size_text ssz) HYPERLIQUID_RETRY_ATTEMPTS (flt (1/100))
      (levered a lev (pm_trader s)) = (t2, r)"
  shows "\<exists>ho. open_hyperliquid_position a ''SOL'' ssz lev s =
       (s\<lparr>pm_trader := t2, leg_calls := leg_calls s @ [UpdateLeverage ''SOL'' lev, OpenShort ''SOL'' (size_text ssz)]\<rparr>,
        Inr ho) \<and> ho_success ho = or_success r \<and>
     (or_success r \<longrightarrow> ho_avg_px ho = avg_px r \<and>
        ho_position_info ho = Some (hl_position_of (ap_now a) ''SOL'' ssz lev (avg_px r)
          (get_hl_position (ap_state a) ''SOL'' t2)))"
proof -
  obtain t1 r0 where l: "update_leverage (ap_lev_meta a) (ap_lev_sign a) (ap_lev_reply a) ''SOL'' lev True
      (pm_trader s) = (t1, r0)" by force
  with assms have "open_short (ap_open a) ''SOL'' (size_text ssz) HYPERLIQUID_RETRY_ATTEMPTS (flt (1/100)) t1
      = (t2, r)" by (simp add: levered_def)
  with l show ?thesis
    by (cases r0) (auto simp: open_hyperliquid_position_def catching_def andthen_def on_trader_def
        pure_trader_def Let_def)
qed

text \<open>The deviation that decides the validation of an entry: the Asgard fill is compared with
  itself, so only the Hyperliquid fill counts.\<close>

definition entry_deviation :: "rat option \<Rightarrow> consensus_result option \<Rightarrow> decimal" where
  "entry_deviation px consensus =
     (case consensus of None \<Rightarrow> 0
      | Some c \<Rightarrow> fill_deviation (get_or px 0) (cr_hyperliquid_price c))"

lemma fill_deviation_same [simp]: "fill_deviation x x = 0"
  by (simp add: fill_deviation_def)

lemma make_fill_prices [simp]:
  "filled_price (make_fill f) = filled_price f" "expected_price (make_fill f) = expected_price f"
  by (simp_all add: make_fill_def)

lemma validate_position_entry_cases:
  assumes "ho_position_info ho = Some h"
  shows "validate_position_entry fd (Some ap) ho opp consensus =
     (if max 0 (entry_deviation (ho_avg_px ho) consensus) > fd then Inl (AttributeError ''reason'')
      else Inr \<lparr>mr_success = True, mr_position = None, mr_error = None, mr_stage = None\<rparr>)"
  using assms
  by (auto simp: validate_position_entry_def Let_def validate_fills_def entry_deviation_def
      split: option.splits)

lemma unwind_eq:
  "\<exists>b. unwind_asgard_position api am now i pda s =
     (s\<lparr>pm_asgard := fst (close_asgard api am now i pda (pm_asgard s)),
        leg_calls := leg_calls s @ [CloseLong pda]\<rparr>, Inr b)"
  by (auto simp: unwind_asgard_position_def catching_def andthen_def on_asgard_def
      split: prod.splits sum.splits)

text \<open>What opening does once the long leg is open, by the answer to the short and by the price it
  was filled at.\<close>

lemma open_second_leg_exact:
  fixes s :: manager and consensus :: "consensus_result option" and opp :: opportunity
  defines "sz \<equiv> dec (dec (opp_position_size_usd opp / 2) / token_price_of consensus)"
  defines "lev \<equiv> trunc (opp_leverage opp)"
  defines "legs \<equiv> [UpdateLeverage ''SOL'' lev, OpenShort ''SOL'' (size_text sz)]"
  assumes short: "open_short (ap_open a) ''SOL'' (size_text sz) HYPERLIQUID_RETRY_ATTEMPTS (flt (1/100))
      (levered a lev (pm_trader s)) = (t2, r)"
    and run: "open_second_leg api am lts a opp consensus ap s = (s1, out)"
  shows "\<not> or_success r \<Longrightarrow>
      out = Inr (fail_at ''Failed to open Hyperliquid position'' (Some ''hyperliquid_open'')) \<and>
      leg_calls s1 = leg_calls s @ legs @ [CloseLong (position_pda ap)] \<and>
      pm_asgard s1 = fst (close_asgard api am (ap_now a) (ap_close_intent a) (position_pda ap) (pm_asgard s)) \<and>
      pm_trader s1 = t2 \<and> pm_positions s1 = pm_positions s \<and> pm_contexts s1 = pm_contexts s"
    and "or_success r \<Longrightarrow> lm_fill lts < max 0 (entry_deviation (avg_px r) consensus) \<Longrightarrow>
      out = Inl (AttributeError ''reason'') \<and> s1 = s\<lparr>pm_trader := t2, leg_calls := leg_calls s @ legs\<rparr>"
    and "or_success r \<Longrightarrow> max 0 (entry_deviation (avg_px r) consensus) \<le> lm_fill lts \<Longrightarrow>
      \<exists>h p. h = hl_position_of (ap_now a) ''SOL'' sz lev (avg_px r) (get_hl_position (ap_state a) ''SOL'' t2) \<and>
      p = new_combined_position a ap h (get_or (avg_px r) (token_price_of consensus)) opp \<and>
      out = Inr \<lparr>mr_success = True, mr_position = Some p, mr_error = None, mr_stage = None\<rparr> \<and>
      leg_calls s1 = leg_calls s @ legs \<and> pm_asgard s1 = pm_asgard s \<and> pm_trader s1 = t2 \<and>
      pm_positions s1 = dict_put (ap_position_id a) p (pm_positions s)"
proof -
  obtain ho where o: "open_hyperliquid_position a ''SOL'' sz lev s =
       (s\<lparr>pm_trader := t2, leg_calls := leg_calls s @ legs\<rparr>, Inr ho)"
    and ho: "ho_success ho = or_success r"
      "or_success r \<Longrightarrow> ho_avg_px ho = avg_px r"
      "or_success r \<Longrightarrow> ho_position_info ho = Some (hl_position_of (ap_now a) ''SOL'' sz lev (avg_px r)
          (get_hl_position (ap_state a) ''SOL'' t2))"
    using open_hyperliquid_position_eq[OF short] unfolding legs_def by blast
  note run' = run[unfolded open_second_leg_def Let_def, folded sz_def, folded lev_def]
  obtain b where "unwind_asgard_position api am (ap_now a) (ap_close_intent a) (position_pda ap)
      (s\<lparr>pm_trader := t2, leg_calls := leg_calls s @ legs\<rparr>) =
      (s\<lparr>pm_trader := t2, leg_calls := leg_calls s @ legs\<rparr>
        \<lparr>pm_asgard := fst (close_asgard api am (ap_now a) (ap_close_intent a) (position_pda ap) (pm_asgard s)),
         leg_calls := (leg_calls s @ legs) @ [CloseLong (position_pda ap)]\<rparr>, Inr b)"
    using unwind_eq[of api am "ap_now a" "ap_close_intent a" "position_pda ap"
        "s\<lparr>pm_trader := t2, leg_calls := leg_calls s @ legs\<rparr>"] by auto
  with run' o ho(1) show "\<not> or_success r \<Longrightarrow>
      out = Inr (fail_at ''Failed to open Hyperliquid position'' (Some ''hyperliquid_open'')) \<and>
      leg_calls s1 = leg_calls s @ legs @ [CloseLong (position_pda ap)] \<and>
      pm_asgard s1 = fst (close_asgard api am (ap_now a) (ap_close_intent a) (position_pda ap) (pm_asgard s)) \<and>
      pm_trader s1 = t2 \<and> pm_positions s1 = pm_positions s \<and> pm_contexts s1 = pm_contexts s"
    by (auto simp: andthen_def)
  show "or_success r \<Longrightarrow> lm_fill lts < max 0 (entry_deviation (avg_px r) consensus) \<Longrightarrow>
      out = Inl (AttributeError ''reason'') \<and> s1 = s\<lparr>pm_trader := t2, leg_calls := leg_calls s @ legs\<rparr>"
    using run' o ho by (auto simp: andthen_def validate_position_entry_cases)
  show "or_success r \<Longrightarrow> max 0 (entry_deviation (avg_px r) consensus) \<le> lm_fill lts \<Longrightarrow>
      \<exists>h p. h = hl_position_of (ap_now a) ''SOL'' sz lev (avg_px r) (get_hl_position (ap_state a) ''SOL'' t2) \<and>
      p = new_combined_position a ap h (get_or (avg_px r) (token_price_of consensus)) opp \<and>
      out = Inr \<lparr>mr_success = True, mr_position = Some p, mr_error = None, mr_stage = None\<rparr> \<and>
      leg_calls s1 = leg_calls s @ legs \<and> pm_asgard s1 = pm_asgard s \<and> pm_trader s1 = t2 \<and>
      pm_positions s1 = dict_put (ap_position_id a) p (pm_positions s)"
  proof -
    assume r: "or_success r" and "max 0 (entry_deviation (avg_px r) consensus) \<le> lm_fill lts"
    then have dev: "\<not> lm_fill lts < max 0 (entry_deviation (avg_px r) consensus)" by (simp only: not_less)
    show ?thesis
      using run' ho(1) ho(2,3)[OF r] r
      by (simp add: andthen_def o validate_position_entry_cases Let_def dev del: max_less_iff_conj less_max_iff_disj)
        (elim conjE; hypsubst; simp)
  qed
qed

text \<open>The outcomes of \<open>open_position_with\<close> by what the long provider answers.\<close>

lemma open_position_with_cases:
  assumes run: "open_position_with open_long api am lts a opp s = (s1, out)"
  obtains (not_started) "s1 = s" "\<exists>r. out = Inr r \<and> \<not> mr_success r"
  | (raised) e ag where "out = Inl e" "pm_asgard s1 = ag" "pm_positions s1 = pm_positions s"
      "pm_trader s1 = pm_trader s" "pm_contexts s1 = pm_contexts s"
      "open_long (opp_asset opp) (flt (dec (deployed_capital_usd opp / 2))) (flt (opp_leverage opp))
         (selected_protocol opp) (pm_asgard s) = (ag, Inl e)"
  | (answered) ag r where
      "open_long (opp_asset opp) (flt (dec (deployed_capital_usd opp / 2))) (flt (opp_leverage opp))
         (selected_protocol opp) (pm_asgard s) = (ag, Inr r)"
      "op_position r = None \<or> \<not> op_success r \<Longrightarrow>
         pm_asgard s1 = ag \<and> pm_positions s1 = pm_positions s \<and> pm_trader s1 = pm_trader s \<and>
         pm_contexts s1 = pm_contexts s \<and>
         (if op_success r then out = Inl (AttributeError ''position_pda'')
          else out = Inr (fail_at ''Failed to open Asgard position'' (Some ''asgard_open'')))"
proof (cases "preflight_checks_passed opp \<and>
    token_price_of (case check_consensus (lm_consensus lts) (ap_prices a) (opp_asset opp) ''SOL'' of
      Inl _ \<Rightarrow> None | Inr c \<Rightarrow> Some c) \<noteq> 0")
  case False
  with run not_started show ?thesis
    by (auto simp: open_position_with_def Let_def fail_at_def split: if_splits)
next
  case True
  let ?call = "open_long (opp_asset opp) (flt (dec (deployed_capital_usd opp / 2))) (flt (opp_leverage opp))
      (selected_protocol opp) (pm_asgard s)"
  obtain ag res where c: "?call = (ag, res)" by force
  show ?thesis
  proof (cases res)
    case (Inl e)
    with run True c show ?thesis
      by (intro raised[of e ag]) (auto simp: open_position_with_def Let_def andthen_def on_asgard_def)
  next
    case (Inr r)
    with run True c show ?thesis
      by (intro answered[of ag r])
        (auto simp: open_position_with_def Let_def andthen_def on_asgard_def)
  qed
qed

section \<open>Providers of the long leg\<close>

text \<open>
  The contract of the provider as far as the manager depends on it: for a fresh intent it returns,
  with a position only when \<open>yields\<close>, and a success leaves the intent \<open>pending\<close>.
\<close>

locale long_leg =
  fixes open_long :: long_opener
    and fresh :: "asgard_state \<Rightarrow> bool" and pending :: "asgard_state \<Rightarrow> bool"
  assumes returns: "fresh s \<Longrightarrow> \<exists>s1 r. open_long as c lev p s = (s1, Inr r)"
    and no_position: "fresh s \<Longrightarrow> open_long as c lev p s = (s1, Inr r) \<Longrightarrow> op_position r = None"
    and success_pending: "fresh s \<Longrightarrow> open_long as c lev p s = (s1, Inr r) \<Longrightarrow> op_success r \<Longrightarrow> pending s1"
begin

lemma never_opens:
  assumes "fresh (pm_asgard s)" "open_position_with open_long api am lts a opp s = (s1, out)"
  shows "pm_positions s1 = pm_positions s \<and> pm_contexts s1 = pm_contexts s \<and> pm_trader s1 = pm_trader s \<and>
     (\<forall>r. out = Inr r \<longrightarrow> \<not> mr_success r) \<and>
     (\<forall>e. out = Inl e \<longrightarrow> e = AttributeError ''position_pda'' \<and> pending (pm_asgard s1))"
  using assms(2)
proof (cases rule: open_position_with_cases)
  case (raised e ag)
  then show ?thesis using returns[OF assms(1)] by (metis prod.inject sum.distinct(1))
next
  case (answered ag r)
  from no_position[OF assms(1) answered(1)] answered success_pending[OF assms(1) answered(1)]
  show ?thesis by (auto simp: fail_at_def split: if_splits)
qed auto

end

interpretation asgard_long: long_leg
  "\<lambda>as c lev p. open_long_position api am now i as c lev (Some p)"
  "\<lambda>s. ok s \<and> intent_state s i = IDLE" "\<lambda>s. intent_state s i = SUBMITTED"
  for api am now i
proof unfold_locales
  fix s s1 as c lev p r
  assume fresh: "ok s \<and> intent_state s i = IDLE"
  note outcome = open_long_outcome[of s i api am now as c lev "Some p"]
  show "\<exists>s1 r. open_long_position api am now i as c lev (Some p) s = (s1, Inr r)"
    by (rule open_long_returns)
  assume run: "open_long_position api am now i as c lev (Some p) s = (s1, Inr r)"
  show "op_position r = None" using outcome fresh run by auto
  show "op_success r \<Longrightarrow> intent_state s1 i = SUBMITTED" using outcome fresh run by auto
qed

section \<open>Lemmas on closing and rebalancing\<close>

lemma close_hyperliquid_position_eq:
  "\<exists>t1. close_hyperliquid_position a p s =
     (s\<lparr>pm_trader := t1, leg_calls := leg_calls s @
          [CloseShort (hp_coin (hyperliquid p)) (size_text (dabs (size_sol (hyperliquid p))))]\<rparr>,
      Inr (let r = snd (close_short (ca_close a) (hp_coin (hyperliquid p))
                     (size_text (dabs (size_sol (hyperliquid p)))) HYPERLIQUID_RETRY_ATTEMPTS (pm_trader s))
           in if or_success r then \<lparr>lg_success = True, lg_ref = order_id r, lg_error = None\<rparr>
              else \<lparr>lg_success = False, lg_ref = None, lg_error = or_error r\<rparr>))"
  by (cases "close_short (ca_close a) (hp_coin (hyperliquid p))
        (size_text (dabs (size_sol (hyperliquid p)))) HYPERLIQUID_RETRY_ATTEMPTS (pm_trader s)")
    (auto simp: close_hyperliquid_position_def catching_def andthen_def on_trader_def pure_trader_def
      Let_def)

definition long_closes ::
  "asgard_api \<Rightarrow> asgard_manager \<Rightarrow> close_answers \<Rightarrow> combined_position \<Rightarrow> asgard_state \<Rightarrow> bool" where
  "long_closes api am a p ag =
     (case snd (close_asgard api am (ca_now a) (ca_intent a) (position_pda (asgard p)) ag) of
        Inl _ \<Rightarrow> False | Inr r \<Rightarrow> cl_success r)"

definition short_closes :: "close_answers \<Rightarrow> combined_position \<Rightarrow> trader \<Rightarrow> bool" where
  "short_closes a p t =
     or_success (snd (close_short (ca_close a) (hp_coin (hyperliquid p))
       (size_text (dabs (size_sol (hyperliquid p)))) HYPERLIQUID_RETRY_ATTEMPTS t))"

lemma close_asgard_position_eq:
  "\<exists>ag1 l. close_asgard_position api am a p s =
     (s\<lparr>pm_asgard := ag1, leg_calls := leg_calls s @ [CloseLong (position_pda (asgard p))]\<rparr>, Inr l) \<and>
     lg_success l = long_closes api am a p (pm_asgard s)"
  by (auto simp: close_asgard_position_def catching_def andthen_def on_asgard_def long_closes_def
      split: prod.splits sum.splits)

lemma close_position_open:
  assumes "dict_get i (pm_positions s) = Some p" "status p = ''open''"
    and run: "close_position api am a i reason s = (s1, out)"
  defines "hl \<equiv> short_closes a p (pm_trader s)" and "ag \<equiv> long_closes api am a p (pm_asgard s)"
  defines "p2 \<equiv> p\<lparr>status := ''closing'', cp_exit_reason := Some reason,
      status := (if hl \<or> ag then ''closed'' else ''stuck''),
      exit_time := (if hl \<or> ag then Some (ca_exit_time a) else exit_time p)\<rparr>"
  shows "pm_positions s1 = dict_put i p2 (dict_put i (p\<lparr>status := ''closing'', cp_exit_reason := Some reason\<rparr>)
      (pm_positions s))"
    and "leg_calls s1 = leg_calls s @ [CloseShort (hp_coin (hyperliquid p))
        (size_text (dabs (size_sol (hyperliquid p)))), CloseLong (position_pda (asgard p))]"
    and "out = Inr (if hl \<or> ag
       then \<lparr>mr_success = True, mr_position = Some p2, mr_error = None, mr_stage = None\<rparr>
       else fail_at ''Failed to close both legs'' (Some ''close_both''))"
proof -
  define p1 where "p1 = p\<lparr>status := ''closing'', cp_exit_reason := Some reason\<rparr>"
  define s0 where "s0 = set_position i p1 s"
  have s0: "pm_trader s0 = pm_trader s" "pm_asgard s0 = pm_asgard s" "leg_calls s0 = leg_calls s"
    "pm_positions s0 = dict_put i p1 (pm_positions s)"
    by (simp_all add: s0_def set_position_def)
  have legs: "short_closes a p1 t = short_closes a p t" "long_closes api am a p1 x = long_closes api am a p x"
    for t x by (simp_all add: p1_def short_closes_def long_closes_def)
  obtain t1 l where h: "close_hyperliquid_position a p1 s0 =
     (s0\<lparr>pm_trader := t1, leg_calls := leg_calls s0 @
          [CloseShort (hp_coin (hyperliquid p)) (size_text (dabs (size_sol (hyperliquid p))))]\<rparr>, Inr l)"
    "lg_success l = hl"
    using close_hyperliquid_position_eq[of a p1 s0]
    by (auto simp: p1_def Let_def hl_def short_closes_def s0)
  obtain ag1 m where g: "close_asgard_position api am a p1
      (s0\<lparr>pm_trader := t1, leg_calls := leg_calls s0 @
          [CloseShort (hp_coin (hyperliquid p)) (size_text (dabs (size_sol (hyperliquid p))))]\<rparr>) =
     (s0\<lparr>pm_trader := t1, pm_asgard := ag1, leg_calls := leg_calls s0 @
          [CloseShort (hp_coin (hyperliquid p)) (size_text (dabs (size_sol (hyperliquid p)))),
           CloseLong (position_pda (asgard p))]\<rparr>, Inr m)"
    "lg_success m = ag"
    using close_asgard_position_eq[of api am a p1 "s0\<lparr>pm_trader := t1, leg_calls := leg_calls s0 @
          [CloseShort (hp_coin (hyperliquid p)) (size_text (dabs (size_sol (hyperliquid p))))]\<rparr>"]
    by (auto simp: p1_def ag_def long_closes_def s0)
  have c: "close_position api am a i reason s =
      (if \<not> lg_success m \<and> \<not> lg_success l
       then (set_position i (p1\<lparr>status := ''stuck''\<rparr>) (s0\<lparr>pm_trader := t1, pm_asgard := ag1,
               leg_calls := leg_calls s0 @ [CloseShort (hp_coin (hyperliquid p))
                 (size_text (dabs (size_sol (hyperliquid p)))), CloseLong (position_pda (asgard p))]\<rparr>),
             Inr (fail_at ''Failed to close both legs'' (Some ''close_both'')))
       else (set_position i (p1\<lparr>status := ''closed'', exit_time := Some (ca_exit_time a)\<rparr>)
               (s0\<lparr>pm_trader := t1, pm_asgard := ag1,
               leg_calls := leg_calls s0 @ [CloseShort (hp_coin (hyperliquid p))
                 (size_text (dabs (size_sol (hyperliquid p)))), CloseLong (position_pda (asgard p))]\<rparr>),
             Inr \<lparr>mr_success = True, mr_position = Some (p1\<lparr>status := ''closed'',
               exit_time := Some (ca_exit_time a)\<rparr>), mr_error = None, mr_stage = None\<rparr>))"
    using assms(1,2) h(1) g(1)
    by (simp add: close_position_def Let_def andthen_def p1_def[symmetric] s0_def[symmetric])
  show "pm_positions s1 = dict_put i p2 (dict_put i (p\<lparr>status := ''closing'', cp_exit_reason := Some reason\<rparr>)
      (pm_positions s))"
    and "leg_calls s1 = leg_calls s @ [CloseShort (hp_coin (hyperliquid p))
        (size_text (dabs (size_sol (hyperliquid p)))), CloseLong (position_pda (asgard p))]"
    and "out = Inr (if hl \<or> ag
       then \<lparr>mr_success = True, mr_position = Some p2, mr_error = None, mr_stage = None\<rparr>
       else fail_at ''Failed to close both legs'' (Some ''close_both''))"
    using run c h(2) g(2)
    by (auto simp: set_position_def s0 p2_def p1_def split: if_splits)
qed

section \<open>Properties\<close>

text \<open>C1: With the program's own long provider no position is ever opened: for a new intent
  \<open>open_position\<close> reports no success, registers nothing and sends nothing to Hyperliquid; and it
  raises exactly because the long was submitted but not confirmed, which leaves that long unhedged and
  untracked.\<close>

theorem open_position_never_succeeds:
  assumes "ok (pm_asgard s)" "intent_state (pm_asgard s) i = IDLE"
    and "open_position api am i lts a opp s = (s1, out)"
  shows "pm_positions s1 = pm_positions s \<and> pm_contexts s1 = pm_contexts s \<and> pm_trader s1 = pm_trader s \<and>
     (\<forall>r. out = Inr r \<longrightarrow> \<not> mr_success r) \<and>
     (\<forall>e. out = Inl e \<longrightarrow> e = AttributeError ''position_pda'' \<and> intent_state (pm_asgard s1) i = SUBMITTED)"
  using asgard_long.never_opens[OF _ assms(3)[unfolded open_position_def]] assms(1,2) by simp

text \<open>C3: What opening does with a provider that returns a position. The calls are the long, the
  leverage (whatever it answers), the short of half the position size at the consensus price (100 when
  there is none), in this order. Then exactly one of three, decided by the answer to the short and by the
  price it was filled at: if the short failed, the long is unwound by one closing call and the call fails;
  if it was filled off the reference price by more than the tolerance, the call raises with both legs
  open and none tracked; otherwise the position is registered as open with both legs.\<close>

theorem open_position_outcomes:
  assumes "preflight_checks_passed opp"
    and "open_long (opp_asset opp) (flt (dec (deployed_capital_usd opp / 2))) (flt (opp_leverage opp))
       (selected_protocol opp) (pm_asgard s) = (ag, Inr r)" "op_success r" "op_position r = Some ap"
    and "open_position_with open_long api am lts a opp s = (s1, out)"
  shows "let consensus = (case check_consensus (lm_consensus lts) (ap_prices a) (opp_asset opp) ''SOL'' of
             Inl _ \<Rightarrow> None | Inr c \<Rightarrow> Some c);
           price = (case consensus of None \<Rightarrow> 100
             | Some c \<Rightarrow> if consensus_price c \<noteq> 0 then consensus_price c else 100);
           sz = dec (dec (opp_position_size_usd opp / 2) / price);
           lev = trunc (opp_leverage opp);
           legs = [OpenLong (opp_asset opp) (flt (dec (deployed_capital_usd opp / 2)))
                     (flt (opp_leverage opp)) (selected_protocol opp),
                   UpdateLeverage ''SOL'' lev, OpenShort ''SOL'' (fmt 6 (flt sz))];
           t1 = fst (update_leverage (ap_lev_meta a) (ap_lev_sign a) (ap_lev_reply a) ''SOL'' lev True
                  (pm_trader s));
           (t2, sr) = open_short (ap_open a) ''SOL'' (fmt 6 (flt sz)) 15 (flt (1/100)) t1;
           fill = get_or (avg_px sr) 0;
           deviation = (case consensus of None \<Rightarrow> 0
             | Some c \<Rightarrow> let ref = cr_hyperliquid_price c
                 in if ref = 0 then 0 else dec (dabs (dec (fill - ref)) / ref))
       in pm_trader s1 = t2 \<and>
          (if \<not> or_success sr
           then out = Inr (fail_at ''Failed to open Hyperliquid position'' (Some ''hyperliquid_open'')) \<and>
             leg_calls s1 = leg_calls s @ legs @ [CloseLong (position_pda ap)] \<and>
             pm_asgard s1 = fst (close_asgard api am (ap_now a) (ap_close_intent a) (position_pda ap) ag) \<and>
             pm_positions s1 = pm_positions s
           else if lm_fill lts < max 0 deviation
           then out = Inl (AttributeError ''reason'') \<and> leg_calls s1 = leg_calls s @ legs \<and>
             pm_asgard s1 = ag \<and> pm_positions s1 = pm_positions s
           else leg_calls s1 = leg_calls s @ legs \<and> pm_asgard s1 = ag \<and>
             (\<exists>p. out = Inr \<lparr>mr_success = True, mr_position = Some p, mr_error = None, mr_stage = None\<rparr> \<and>
                pm_positions s1 = dict_put (ap_position_id a) p (pm_positions s) \<and>
                position_id p = ap_position_id a \<and> status p = ''open'' \<and> asgard p = ap \<and>
                hp_coin (hyperliquid p) = ''SOL'' \<and> size_sol (hyperliquid p) = dec (- sz) \<and>
                entry_px (hyperliquid p) = fill))"
proof -
  define consensus where "consensus = (case check_consensus (lm_consensus lts) (ap_prices a) (opp_asset opp) ''SOL''
      of Inl _ \<Rightarrow> None | Inr c \<Rightarrow> Some c)"
  define long where "long = OpenLong (opp_asset opp) (flt (dec (deployed_capital_usd opp / 2)))
      (flt (opp_leverage opp)) (selected_protocol opp)"
  define sz where "sz = dec (dec (opp_position_size_usd opp / 2) / token_price_of consensus)"
  have price: "token_price_of consensus \<noteq> 0" by (simp add: token_price_of_def split: option.splits)
  define s0 where "s0 = s\<lparr>pm_asgard := ag, leg_calls := leg_calls s @ [long]\<rparr>"
  have run: "open_second_leg api am lts a opp consensus ap s0 = (s1, out)"
    using assms price
    by (simp add: open_position_with_def Let_def consensus_def[symmetric] andthen_def on_asgard_def
        s0_def long_def)
  obtain t2 sr where short: "open_short (ap_open a) ''SOL'' (size_text sz) HYPERLIQUID_RETRY_ATTEMPTS (flt (1/100))
      (levered a (trunc (opp_leverage opp)) (pm_trader s0)) = (t2, sr)" by force
  note ends = open_second_leg_exact[OF short[unfolded sz_def] run, folded sz_def]
  have short': "open_short (ap_open a) ''SOL'' (fmt 6 (flt sz)) 15 (flt (1/100))
      (fst (update_leverage (ap_lev_meta a) (ap_lev_sign a) (ap_lev_reply a) ''SOL'' (trunc (opp_leverage opp)) True
        (pm_trader s))) = (t2, sr)"
    using short by (simp add: size_text_def HYPERLIQUID_RETRY_ATTEMPTS_def levered_def s0_def)
  have dev: "(case consensus of None \<Rightarrow> 0 | Some c \<Rightarrow> let ref = cr_hyperliquid_price c
        in if ref = 0 then 0 else dec (dabs (dec (get_or (avg_px sr) 0 - ref)) / ref)) =
      entry_deviation (avg_px sr) consensus"
    by (simp add: entry_deviation_def fill_deviation_def Let_def split: option.splits)
  have tp: "(case consensus of None \<Rightarrow> 100
        | Some c \<Rightarrow> if consensus_price c \<noteq> 0 then consensus_price c else 100) = token_price_of consensus"
    by (simp add: token_price_of_def)
  have s0: "leg_calls s0 = leg_calls s @ [long]" "pm_positions s0 = pm_positions s" "pm_asgard s0 = ag"
    by (simp_all add: s0_def)
  show ?thesis
    unfolding consensus_def[symmetric] Let_def[of consensus] tp Let_def[of "token_price_of consensus"]
      sz_def[symmetric] Let_def[of sz] Let_def[of "trunc (opp_leverage opp)"] long_def[symmetric]
    using ends short' dev s0
    by (auto simp: Let_def size_text_def hl_position_of_def new_combined_position_def not_less)
qed

text \<open>C4: Closing an open position calls the short first and then the long, once each, and ends
  \<open>closed\<close> with success as soon as one of the two legs closed (so also with the other leg still
  open), \<open>stuck\<close> only when both failed; a second close is refused without any call.\<close>

theorem close_position_outcomes:
  assumes "dict_ok (pm_positions s)" "dict_get i (pm_positions s) = Some p" "status p = ''open''"
    and "close_position api am a i reason s = (s1, out)"
  shows "\<exists>r p2. out = Inr r \<and> dict_get i (pm_positions s1) = Some p2 \<and>
     (mr_success r \<longleftrightarrow> short_closes a p (pm_trader s) \<or> long_closes api am a p (pm_asgard s)) \<and>
     status p2 = (if mr_success r then ''closed'' else ''stuck'') \<and> cp_exit_reason p2 = Some reason \<and>
     leg_calls s1 = leg_calls s @ [CloseShort (hp_coin (hyperliquid p))
        (size_text (dabs (size_sol (hyperliquid p)))), CloseLong (position_pda (asgard p))] \<and>
     (\<forall>j. j \<noteq> i \<longrightarrow> dict_get j (pm_positions s1) = dict_get j (pm_positions s)) \<and>
     (\<forall>a' reason'. close_position api am a' i reason' s1 =
        (s1, Inr (fail_at (''Position '' @ i @ '' is not open (status: '' @ status p2 @ '')'') None)))"
proof -
  note c = close_position_open[OF assms(2-4)]
  note ok1 = dict.inv_put[OF assms(1)]
  have "dict_get i (pm_positions s1) = Some (p\<lparr>status := ''closing'', cp_exit_reason := Some reason,
      status := (if short_closes a p (pm_trader s) \<or> long_closes api am a p (pm_asgard s) then ''closed'' else ''stuck''),
      exit_time := (if short_closes a p (pm_trader s) \<or> long_closes api am a p (pm_asgard s)
        then Some (ca_exit_time a) else exit_time p)\<rparr>)"
    unfolding c(1) by (rule dict.get_put_same[OF ok1])
  moreover have "dict_get j (pm_positions s1) = dict_get j (pm_positions s)" if "j \<noteq> i" for j
    unfolding c(1) using that by (simp add: dict.get_put_other[OF ok1] dict.get_put_other[OF assms(1)])
  ultimately show ?thesis
    using c(2,3) by (auto simp: close_position_def fail_at_def)
qed

text \<open>Pre-flight passes exactly when the funding rates are negative, the price consensus holds,
  some protocol has capacity (or the capacity could not be asked) and the balances suffice (or one of
  the Solana balances could not be read: then the Hyperliquid balance is not checked at all); only then
  is the opportunity marked as passed.\<close>

theorem preflight_exact:
  assumes "run_preflight_checks max_dev a t opp = (opp1, r)" "\<not> preflight_checks_passed opp"
  shows "(pf_passed r \<longleftrightarrow> preflight_checks_passed opp1) \<and> pf_passed r = all_checks_passed r \<and>
     (pf_passed r \<longleftrightarrow> pf_errors r = []) \<and>
     (pf_passed r \<longleftrightarrow>
        is_negative (current_funding opp) \<and> \<not> predicted_not_negative opp \<and>
        (\<exists>c. check_consensus max_dev (pa_prices a) (opp_asset opp) ''SOL'' = Inr c \<and> is_within_threshold c) \<and>
        snd (select_best_protocol (pa_markets a) (opp_asset opp) (flt (opp_position_size_usd opp))
               (flt (opp_leverage opp)) (flt (12/10)) market_data_init) \<noteq> Inr None \<and>
        (case pa_sol_balance a of Inl _ \<Rightarrow> True | Inr sol \<Rightarrow> flt (1/10) \<le> sol \<and>
           (case pa_usdc_balance a of Inl _ \<Rightarrow> True | Inr usdc \<Rightarrow>
              flt (half_deployed opp * flt (95/100)) \<le> min usdc (get_deposited_balance (pa_hl_state a) t))))"
proof -
  define sel where "sel = snd (select_best_protocol (pa_markets a) (opp_asset opp) (flt (opp_position_size_usd opp))
      (flt (opp_leverage opp)) (flt (12/10)) market_data_init)"
  define cons where "cons = check_consensus max_dev (pa_prices a) (opp_asset opp) ''SOL''"
  have wallet: "check_wallet_balance a t opp \<longleftrightarrow>
      (case pa_sol_balance a of Inl _ \<Rightarrow> True | Inr sol \<Rightarrow> flt (1/10) \<le> sol \<and>
           (case pa_usdc_balance a of Inl _ \<Rightarrow> True | Inr usdc \<Rightarrow>
              flt (half_deployed opp * flt (95/100)) \<le> min usdc (get_deposited_balance (pa_hl_state a) t)))"
    by (auto simp: check_wallet_balance_def split: sum.splits)
  have cap: "check_protocol_capacity a o1 = (o2, b) \<Longrightarrow> opp_asset o1 = opp_asset opp \<Longrightarrow>
      opp_position_size_usd o1 = opp_position_size_usd opp \<Longrightarrow> opp_leverage o1 = opp_leverage opp \<Longrightarrow>
      (b \<longleftrightarrow> sel \<noteq> Inr None) \<and> preflight_checks_passed o2 = preflight_checks_passed o1" for o1 o2 b
    by (auto simp: check_protocol_capacity_def sel_def split: sum.splits option.splits)
  have fund: "check_funding_validation (opp\<lparr>opp_price_deviation := d\<rparr>) \<longleftrightarrow>
      is_negative (current_funding opp) \<and> \<not> predicted_not_negative opp"
    "check_funding_validation opp \<longleftrightarrow> is_negative (current_funding opp) \<and> \<not> predicted_not_negative opp" for d
    by (auto simp: check_funding_validation_def predicted_not_negative_def)
  have nil: "(if b then [] else [x]) = [] \<longleftrightarrow> b" for b and x :: string by simp
  show ?thesis
  proof (cases cons)
    case (Inl e)
    obtain o2 b where c: "check_protocol_capacity a opp = (o2, b)" by force
    from cap[OF c] assms Inl c show ?thesis
      unfolding run_preflight_checks_def cons_def[symmetric] sel_def[symmetric] wallet[symmetric]
      by (auto simp: Let_def all_checks_passed_def simulate_opportunity_def fund nil
          split: if_splits)
  next
    case (Inr k)
    obtain o2 b where c: "check_protocol_capacity a (opp\<lparr>opp_price_deviation := cr_price_deviation k\<rparr>) = (o2, b)"
      by force
    from cap[OF c] assms Inr c show ?thesis
      unfolding run_preflight_checks_def cons_def[symmetric] sel_def[symmetric] wallet[symmetric]
      by (auto simp: Let_def all_checks_passed_def simulate_opportunity_def fund nil
          split: if_splits)
  qed
qed

text \<open>Rebalancing is never found worthwhile below a drift of ten times the position: the
  estimated daily drift cost (0.01% of the exposure) stays at or below the rebalance cost (10 plus 0.1%
  of the size), so no drift between the 0.5% threshold and 1000% of the position leads to a
  rebalance; and no position at all is reported as rebalanced.\<close>

theorem rebalance_never_worthwhile:
  assumes "\<bar>effective_delta_usd (get_position_delta p)\<bar> \<le> 10 * position_size_usd (asgard p)"
  shows "calculate_drift_cost (get_position_delta p) \<le> calculate_rebalance_cost p \<and>
     \<not> rebalanced (rebalance_if_needed p) \<and>
     rb_reason (rebalance_if_needed p) \<in> {''Delta ratio within threshold'', ''Drift cost <= rebalance cost''}"
proof -
  let ?e = "effective_delta_usd (get_position_delta p)" and ?s = "position_size_usd (asgard p)"
  have e: "dabs ?e = \<bar>?e\<bar>"
    by (simp add: get_position_delta_def Let_def)
  have "dec (dabs ?e * (1/10000)) \<le> dec (?s * (1/1000))"
    unfolding e using assms by (intro dec.rnd_mono) simp
  also have "\<dots> \<le> dec (10 + dec (?s * (1/1000)))"
    by (rule dec.rnd_ge_exact) (simp_all add: dec.rnd_idem)
  finally have "calculate_drift_cost (get_position_delta p) \<le> calculate_rebalance_cost p"
    by (simp add: calculate_drift_cost_def calculate_rebalance_cost_def)
  then show ?thesis by (auto simp: rebalance_if_needed_def Let_def)
qed

section \<open>Instances\<close>

definition wit_leg :: asgard_position where
  "wit_leg = new_asgard_position 0 ''i1'' SOL KAMINO 500 1500 1000 3 ''5sig''"

definition wit_short :: hyperliquid_position where
  "wit_short = \<lparr>hp_coin = ''SOL'', size_sol = -15, entry_px = 100, hp_leverage = 3, margin_used = 500,
     margin_fraction = 1/4, account_value = 2000, cum_funding = 0, mark_px = 100, liquidation_px = None,
     hp_entry_time = 0, hp_last_update = 0\<rparr>"

definition wit_answers :: open_position_answers where
  "wit_answers = \<lparr>ap_now = 0, ap_position_id = ''p1'', ap_close_intent = ''i2'', ap_prices = wit_venues,
     ap_lev_meta = Inr [], ap_lev_sign = Inr (), ap_lev_reply = Inr True, ap_open = wit_open,
     ap_state = Inl (ExternalError ''timeout''), ap_close = (\<lambda>_. wit_lost)\<rparr>"

definition wit_pair :: combined_position where
  "wit_pair = new_combined_position wit_answers wit_leg wit_short 100 (wit_opp (1/10))"

definition wit_manager :: manager where
  "wit_manager = \<lparr>pm_asgard = wit_asgard, pm_trader = wit_trader, pm_positions = [(''p1'', wit_pair)],
     pm_contexts = [], leg_calls = []\<rparr>"

definition wit_limits :: limits where
  "wit_limits = \<lparr>lm_consensus = 5/1000, lm_fill = 5/1000\<rparr>"

definition wit_provider :: long_opener where
  "wit_provider as c lev p s = (s, Inr \<lparr>op_success = True, op_position = Some wit_leg,
     op_intent_id = Some ''i1'', op_signature = Some ''5sig'', op_error = None\<rparr>)"

theorem open_position_never_succeeds_witness:
  "\<exists>s1 out. open_position (wit_api False) wit_am ''i1'' wit_limits wit_answers (wit_opp (1/10)) wit_manager = (s1, out) \<and>
     pm_positions s1 = pm_positions wit_manager \<and> pm_trader s1 = pm_trader wit_manager"
proof -
  obtain s1 out where o: "open_position (wit_api False) wit_am ''i1'' wit_limits wit_answers (wit_opp (1/10))
      wit_manager = (s1, out)" by force
  have "ok (pm_asgard wit_manager)" "intent_state (pm_asgard wit_manager) ''i1'' = IDLE"
    by (simp_all add: wit_manager_def wit_asgard_def tx_table_ok_empty)
  from open_position_never_succeeds[OF this o] o show ?thesis by blast
qed

theorem open_position_outcomes_witness:
  "\<exists>s1 c sz. open_position_with wit_provider (wit_api False) wit_am wit_limits wit_answers (wit_opp (1/10))
       (wit_manager\<lparr>pm_trader := wit_trader\<lparr>has_signer := False\<rparr>\<rparr>) =
       (s1, Inr (fail_at ''Failed to open Hyperliquid position'' (Some ''hyperliquid_open''))) \<and>
     leg_calls s1 = [OpenLong SOL c 3 MARGINFI, UpdateLeverage ''SOL'' 3, OpenShort ''SOL'' sz,
       CloseLong (position_pda wit_leg)]"
proof -
  let ?m = "wit_manager\<lparr>pm_trader := wit_trader\<lparr>has_signer := False\<rparr>\<rparr>"
  obtain s1 out where o: "open_position_with wit_provider (wit_api False) wit_am wit_limits wit_answers
      (wit_opp (1/10)) ?m = (s1, out)" by force
  have p: "preflight_checks_passed (wit_opp (1/10))" by (simp add: wit_opp_def)
  have l: "leg_calls ?m = []" "opp_asset (wit_opp (1/10)) = SOL" "opp_leverage (wit_opp (1/10)) = 3"
    "selected_protocol (wit_opp (1/10)) = MARGINFI" "pm_trader ?m = wit_trader\<lparr>has_signer := False\<rparr>"
    by (simp_all add: wit_manager_def wit_opp_def)
  have t: "trunc 3 = 3" by (simp add: trunc_def)
  have f: "update_leverage m s r c k b (wit_trader\<lparr>has_signer := False\<rparr>) = (wit_trader\<lparr>has_signer := False\<rparr>, Inr False)"
    "open_short a c z n x (wit_trader\<lparr>has_signer := False\<rparr>) =
       (wit_trader\<lparr>has_signer := False\<rparr>, failed_order ''Signer not configured'')"
    "\<not> or_success (failed_order e)" for m s r c k b a z n x e
    by (simp_all add: update_leverage_def open_short_def failed_order_def)
  have "out = Inr (fail_at ''Failed to open Hyperliquid position'' (Some ''hyperliquid_open''))"
    "\<exists>c sz. leg_calls s1 = [] @ [OpenLong SOL c 3 MARGINFI, UpdateLeverage ''SOL'' 3, OpenShort ''SOL'' sz] @
       [CloseLong (position_pda wit_leg)]"
    using open_position_outcomes[OF p wit_provider_def _ _ o]
    by (simp_all add: Let_def l(2-4) t f wit_manager_def) blast?
  with o show ?thesis by auto
qed

theorem close_position_outcomes_witness:
  "\<exists>s1 r. close_position (wit_api False) wit_am
       \<lparr>ca_now = 1, ca_exit_time = 2, ca_intent = ''i2'', ca_close = (\<lambda>_. wit_lost)\<rparr> ''p1'' FUNDING_FLIP wit_manager
       = (s1, Inr r) \<and> length (leg_calls s1) = 2"
proof -
  obtain s1 out where o: "close_position (wit_api False) wit_am
      \<lparr>ca_now = 1, ca_exit_time = 2, ca_intent = ''i2'', ca_close = (\<lambda>_. wit_lost)\<rparr> ''p1'' FUNDING_FLIP wit_manager
      = (s1, out)" by force
  have "dict_ok (pm_positions wit_manager)" "dict_get ''p1'' (pm_positions wit_manager) = Some wit_pair"
    "status wit_pair = ''open''" "leg_calls wit_manager = []"
    by (simp_all add: wit_manager_def dict_ok_def dict_get_def wit_pair_def new_combined_position_def)
  with close_position_outcomes[OF this(1-3) o] o show ?thesis by auto
qed

theorem preflight_exact_witness:
  "\<exists>opp1 r. run_preflight_checks (5/1000)
       \<lparr>pa_sol_balance = Inl (ExternalError ''timeout''), pa_usdc_balance = Inr 0,
        pa_hl_state = Inl (ExternalError ''timeout''), pa_prices = wit_venues,
        pa_markets = Inl (ExternalError ''timeout'')\<rparr> wit_trader
       ((wit_opp (1/10))\<lparr>preflight_checks_passed := False\<rparr>) = (opp1, r) \<and>
     pf_passed r = preflight_checks_passed opp1"
proof -
  let ?a = "\<lparr>pa_sol_balance = Inl (ExternalError ''timeout''), pa_usdc_balance = Inr 0,
        pa_hl_state = Inl (ExternalError ''timeout''), pa_prices = wit_venues,
        pa_markets = Inl (ExternalError ''timeout'')\<rparr>"
  obtain opp1 r where o: "run_preflight_checks (5/1000) ?a wit_trader
      ((wit_opp (1/10))\<lparr>preflight_checks_passed := False\<rparr>) = (opp1, r)" by force
  have "\<not> preflight_checks_passed ((wit_opp (1/10))\<lparr>preflight_checks_passed := False\<rparr>)" by simp
  from preflight_exact[OF o this] o show ?thesis by blast
qed

theorem rebalance_never_worthwhile_witness:
  "\<not> rebalanced (rebalance_if_needed wit_pair) \<and>
     calculate_drift_cost (get_position_delta wit_pair) \<le> calculate_rebalance_cost wit_pair"
proof -
  have "\<bar>effective_delta_usd (get_position_delta wit_pair)\<bar> \<le> 10 * position_size_usd (asgard wit_pair)"
    by code_simp
  from rebalance_never_worthwhile[OF this] show ?thesis by blast
qed

end
