(* ===== verification/Persistence.thy ===== *)
theory Persistence
  imports Positions MarketData
begin

text \<open>
  State persistence (\<open>bot/state/persistence.py\<close>): the positions, action log and key-value tables,
  saving a position as JSON, decoding it again and the recovery at startup.

  A JSON text is its value. A text written by \<open>str\<close> of a \<open>Decimal\<close> is \<open>JDec\<close>, which
  \<open>Decimal\<close> reads back exactly; \<open>decode_decimal\<close> turns every other text that happens to be a
  decimal literal into a \<open>Decimal\<close> too, with the infinities and NaNs that Python's syntax allows.
  \<open>io\<close> is the outcome of the database call of an operation. Timestamp texts are compared as
  texts: SQLite's \<open>CURRENT_TIMESTAMP\<close> separates date and time by a space, \<open>isoformat\<close> by
  the letter T.
\<close>

section \<open>Decimal literals\<close>

datatype dec_value = Finite decimal | Infinite | NotANumber

definition digits_value :: "string \<Rightarrow> nat" where
  "digits_value ds = fold (\<lambda>c n. n * 10 + digit_value c) ds 0"

fun split_sign :: "string \<Rightarrow> bool \<times> string" where
  "split_sign [] = (False, [])"
| "split_sign (c # s) =
     (if c = CHR ''-'' then (True, s) else if c = CHR ''+'' then (False, s) else (False, c # s))"

definition exponent :: "string \<Rightarrow> int option" where
  "exponent s =
     (case s of
        [] \<Rightarrow> Some 0
      | c # u \<Rightarrow>
          if c \<noteq> CHR ''e'' then None
          else (let (neg, ds) = split_sign u
                in if ds = [] \<or> \<not> list_all is_digit ds then None
                   else Some (if neg then - int (digits_value ds) else int (digits_value ds))))"

definition finite_literal :: "string \<Rightarrow> decimal option" where
  "finite_literal u =
     (let ip = takeWhile is_digit u; r = dropWhile is_digit u;
          (fp, r2) = (case r of
              [] \<Rightarrow> ([], [])
            | c # v \<Rightarrow> if c = CHR ''.'' then (takeWhile is_digit v, dropWhile is_digit v) else ([], r))
      in if ip = [] \<and> fp = [] then None
         else map_option (\<lambda>e. of_nat (digits_value (ip @ fp)) * 10 powi (e - int (length fp))) (exponent r2))"

text \<open>What \<open>Decimal(s)\<close> makes of a text, or None when it raises \<open>InvalidOperation\<close>.\<close>

definition decimal_literal :: "string \<Rightarrow> dec_value option" where
  "decimal_literal s =
     (let (neg, u) = split_sign (map lower (filter (\<lambda>c. c \<noteq> CHR ''_'') (strip s)))
      in if u = ''inf'' \<or> u = ''infinity'' then Some Infinite
         else if take 3 u = ''nan'' \<and> list_all is_digit (drop 3 u)
              \<or> take 4 u = ''snan'' \<and> list_all is_digit (drop 4 u) then Some NotANumber
         else map_option (\<lambda>x. Finite (if neg then - x else x)) (finite_literal u))"

section \<open>JSON and decoding\<close>

datatype json = JNull | JStr string | JDec decimal | JInt int | JObj "(string \<times> json) list"
datatype pval = VNone | VStr string | VDec dec_value | VInt int | VDict "(string \<times> pval) list"

fun decode_value :: "json \<Rightarrow> pval" where
  "decode_value JNull = VNone"
| "decode_value (JStr s) = (case decimal_literal s of None \<Rightarrow> VStr s | Some d \<Rightarrow> VDec d)"
| "decode_value (JDec d) = VDec (Finite d)"
| "decode_value (JInt i) = VInt i"
| "decode_value (JObj kvs) = VDict (map (\<lambda>(k, v). (k, decode_value v)) kvs)"

definition vget :: "string \<Rightarrow> pval \<Rightarrow> pval \<Rightarrow> pval" where
  "vget k d v = (case v of VDict kvs \<Rightarrow> (case map_of kvs k of None \<Rightarrow> d | Some x \<Rightarrow> x) | _ \<Rightarrow> d)"

text \<open>Validation of the model fields: a text field takes only a text, a decimal field a finite
  number.\<close>

fun str_field :: "pval \<Rightarrow> exn + string" where
  "str_field (VStr s) = Inr s"
| "str_field v = Inl (ValueError ''string expected'')"

fun opt_str_field :: "pval \<Rightarrow> exn + string option" where
  "opt_str_field VNone = Inr None"
| "opt_str_field (VStr s) = Inr (Some s)"
| "opt_str_field v = Inl (ValueError ''string expected'')"

fun dec_field :: "pval \<Rightarrow> exn + decimal" where
  "dec_field (VDec (Finite d)) = Inr d"
| "dec_field (VInt i) = Inr (of_int i)"
| "dec_field v = Inl (ValueError ''decimal expected'')"

section \<open>Positions as dictionaries\<close>

definition asgard_to_dict :: "asgard_position \<Rightarrow> json" where
  "asgard_to_dict p = JObj
     [(''type'', JStr ''asgard''), (''position_pda'', JStr (position_pda p)),
      (''intent_id'', JStr (intent_id p)), (''asset'', JStr (asset_value (ap_asset p))),
      (''protocol'', JInt (protocol_value (ap_protocol p))), (''collateral_usd'', JDec (collateral_usd p)),
      (''position_size_usd'', JDec (position_size_usd p)), (''leverage'', JDec (ap_leverage p)),
      (''token_a_amount'', JDec (token_a_amount p)), (''token_b_borrowed'', JDec (token_b_borrowed p)),
      (''entry_price_token_a'', JDec (entry_price_token_a p)),
      (''current_health_factor'', JDec (current_health_factor p)),
      (''current_token_a_price'', JDec (current_token_a_price p))]"

definition hyperliquid_to_dict :: "hyperliquid_position \<Rightarrow> json" where
  "hyperliquid_to_dict p = JObj
     [(''type'', JStr ''hyperliquid''), (''coin'', JStr (hp_coin p)), (''size_sol'', JDec (size_sol p)),
      (''entry_px'', JDec (entry_px p)), (''leverage'', JDec (hp_leverage p)),
      (''margin_used'', JDec (margin_used p)), (''margin_fraction'', JDec (margin_fraction p)),
      (''account_value'', JDec (account_value p)), (''mark_px'', JDec (mark_px p))]"

text \<open>The text \<open>created_at\<close> of the dictionary is never read; its value is a date text, which is
  not a decimal literal.\<close>

definition position_data :: "combined_position \<Rightarrow> json" where
  "position_data p = JObj
     [(''position_id'', JStr (position_id p)),
      (''user_id'', case cp_user_id p of None \<Rightarrow> JNull | Some u \<Rightarrow> JStr u),
      (''asset'', JStr (asset_value (ap_asset (asgard p)))),
      (''asgard'', asgard_to_dict (asgard p)), (''hyperliquid'', hyperliquid_to_dict (hyperliquid p)),
      (''reference'', JObj [(''asgard_entry_price'', JDec (asgard_entry_price (reference p))),
        (''hyperliquid_entry_price'', JDec (hyperliquid_entry_price (reference p)))]),
      (''opportunity_id'', JStr (opportunity_id p)), (''status'', JStr (status p)),
      (''created_at'', JStr ''timestamp'')]"

text \<open>\<open>Asset(v)\<close> with its fallback, and \<open>Protocol(v)\<close> without one.\<close>

definition asset_field :: "pval \<Rightarrow> asset" where
  "asset_field v =
     (case v of VStr s \<Rightarrow> (case asset_of_value s of Inr a \<Rightarrow> a | Inl _ \<Rightarrow> SOL) | _ \<Rightarrow> SOL)"

definition protocol_field :: "pval \<Rightarrow> exn + protocol" where
  "protocol_field v =
     (case v of
        VInt i \<Rightarrow> (case protocol_of_value i of Some p \<Rightarrow> Inr p | None \<Rightarrow> Inl (ValueError ''protocol''))
      | VDec (Finite d) \<Rightarrow>
          (if d = of_int \<lfloor>d\<rfloor>
           then (case protocol_of_value \<lfloor>d\<rfloor> of Some p \<Rightarrow> Inr p | None \<Rightarrow> Inl (ValueError ''protocol''))
           else Inl (ValueError ''protocol''))
      | _ \<Rightarrow> Inl (ValueError ''protocol''))"

definition dict_to_asgard :: "datetime \<Rightarrow> asset \<Rightarrow> pval \<Rightarrow> exn + asgard_position" where
  "dict_to_asgard now a v =
     res_bind (protocol_field (vget ''protocol'' (VInt 0) v)) (\<lambda>pr.
     res_bind (str_field (vget ''position_pda'' (VStr '''') v)) (\<lambda>pda.
     res_bind (str_field (vget ''intent_id'' (VStr ''test_intent'') v)) (\<lambda>i.
     res_bind (dec_field (vget ''collateral_usd'' (VInt 0) v)) (\<lambda>col.
     res_bind (dec_field (vget ''position_size_usd'' (VInt 0) v)) (\<lambda>sz.
     res_bind (dec_field (vget ''leverage'' (VInt 3) v)) (\<lambda>lev.
     res_bind (dec_field (vget ''token_a_amount'' (VInt 0) v)) (\<lambda>ta.
     res_bind (dec_field (vget ''token_b_borrowed'' (VInt 0) v)) (\<lambda>tb.
     res_bind (dec_field (vget ''entry_price_token_a'' (VInt 0) v)) (\<lambda>px.
     res_bind (dec_field (vget ''current_token_a_price'' (VInt 0) v)) (\<lambda>cur.
     res_bind (dec_field (vget ''current_health_factor'' (VDec (Finite (25/100))) v)) (\<lambda>hf.
       Inr \<lparr>position_pda = pda, intent_id = i, ap_asset = a, ap_protocol = pr, collateral_usd = col,
            position_size_usd = sz, ap_leverage = lev, token_a_amount = ta, token_b_borrowed = tb,
            entry_price_token_a = px, entry_price_token_b = 1, current_health_factor = hf,
            current_token_a_price = cur, ap_entry_time = now, ap_last_update = now,
            create_tx_signature = None, close_tx_signature = None\<rparr>)))))))))))"

definition dict_to_hyperliquid :: "datetime \<Rightarrow> pval \<Rightarrow> exn + hyperliquid_position" where
  "dict_to_hyperliquid now v =
     res_bind (str_field (vget ''coin'' (VStr ''SOL'') v)) (\<lambda>coin.
     res_bind (dec_field (vget ''size_sol'' (VInt 0) v)) (\<lambda>sz.
     res_bind (dec_field (vget ''entry_px'' (VInt 0) v)) (\<lambda>px.
     res_bind (dec_field (vget ''leverage'' (VInt 3) v)) (\<lambda>lev.
     res_bind (dec_field (vget ''margin_used'' (VInt 0) v)) (\<lambda>mu.
     res_bind (dec_field (vget ''margin_fraction'' (VDec (Finite (15/100))) v)) (\<lambda>mf.
     res_bind (dec_field (vget ''account_value'' (VInt 0) v)) (\<lambda>av.
     res_bind (dec_field (vget ''mark_px'' (VInt 0) v)) (\<lambda>mk.
       Inr \<lparr>hp_coin = coin, size_sol = sz, entry_px = px, hp_leverage = lev, margin_used = mu,
            margin_fraction = mf, account_value = av, cum_funding = 0, mark_px = mk,
            liquidation_px = None, hp_entry_time = now, hp_last_update = now\<rparr>))))))))"

definition dict_to_position :: "datetime \<Rightarrow> pval \<Rightarrow> exn + combined_position" where
  "dict_to_position now v =
     (let a = asset_field (vget ''asset'' (VStr ''SOL'') v);
          ref = vget ''reference'' (VDict []) v
      in res_bind (dict_to_asgard now a (vget ''asgard'' (VDict []) v)) (\<lambda>ap.
         res_bind (dict_to_hyperliquid now (vget ''hyperliquid'' (VDict []) v)) (\<lambda>hp.
         res_bind (dec_field (vget ''asgard_entry_price'' (VInt 0) ref)) (\<lambda>ra.
         res_bind (dec_field (vget ''hyperliquid_entry_price'' (VInt 0) ref)) (\<lambda>rh.
         res_bind (str_field (vget ''position_id'' (VStr '''') v)) (\<lambda>pid.
         res_bind (opt_str_field (vget ''user_id'' VNone v)) (\<lambda>uid.
         res_bind (str_field (vget ''opportunity_id'' (VStr '''') v)) (\<lambda>oid.
         res_bind (str_field (vget ''status'' (VStr ''open'') v)) (\<lambda>st.
           Inr \<lparr>position_id = pid, cp_user_id = uid, asgard = ap, hyperliquid = hp,
                reference = \<lparr>asgard_entry_price = ra, hyperliquid_entry_price = rh,
                  max_acceptable_deviation = 5/1000\<rparr>,
                opportunity_id = oid, status = st, cp_exit_reason = None, exit_time = None,
                total_funding_received = 0, total_funding_paid = 0, transaction_state = IDLE,
                state_history = [], created_at = now, updated_at = now\<rparr>)))))))))"

section \<open>Tables\<close>

record position_row =
  pr_user_id :: "string option"
  pr_data :: json
  pr_created_at :: datetime
  pr_updated_at :: datetime
  pr_is_closed :: bool

record action_row =
  ar_type :: string
  ar_data :: json
  ar_timestamp :: datetime

record persistence =
  db_open :: bool
  positions_table :: "(string, position_row) dict"
  action_log :: "action_row list"
  state_table :: "(string, json) dict"

definition setup_db :: "persistence \<Rightarrow> persistence" where
  "setup_db s = s\<lparr>db_open := True\<rparr>"

definition close_db :: "persistence \<Rightarrow> persistence" where
  "close_db s = s\<lparr>db_open := False\<rparr>"

text \<open>Every operation first needs an open connection, then runs its statement in a \<open>try\<close>
  whose handler returns the given default.\<close>

definition statement ::
  "exn + unit \<Rightarrow> (persistence \<Rightarrow> persistence \<times> 'a) \<Rightarrow> 'a \<Rightarrow> (persistence, 'a) action" where
  "statement io f d s =
     (if \<not> db_open s then (s, Inl (RuntimeError ''Database not initialized''))
      else case io of Inl e \<Rightarrow> (s, Inr d) | Inr u \<Rightarrow> (case f s of (s1, r) \<Rightarrow> (s1, Inr r)))"

text \<open>\<open>INSERT OR REPLACE\<close> deletes the old row, so the creation time is reset too.\<close>

definition save_position :: "exn + unit \<Rightarrow> datetime \<Rightarrow> combined_position \<Rightarrow> (persistence, bool) action" where
  "save_position io now p =
     statement io (\<lambda>s.
       (s\<lparr>positions_table := dict_put (position_id p)
            \<lparr>pr_user_id = cp_user_id p, pr_data = position_data p, pr_created_at = now,
             pr_updated_at = now, pr_is_closed = (status p \<noteq> ''open'')\<rparr>
            (dict_del (position_id p) (positions_table s))\<rparr>, True)) False"

definition parse_row :: "datetime \<Rightarrow> position_row \<Rightarrow> exn + combined_position" where
  "parse_row now r = dict_to_position now (decode_value (pr_data r))"

definition row_selected :: "bool \<Rightarrow> string option \<Rightarrow> position_row \<Rightarrow> bool" where
  "row_selected include_closed user r =
     ((case user of None \<Rightarrow> True | Some u \<Rightarrow> u = '''' \<or> pr_user_id r = Some u) \<and>
      (include_closed \<or> \<not> pr_is_closed r))"

definition right_option :: "exn + 'a \<Rightarrow> 'a option" where
  "right_option r = (case r of Inl _ \<Rightarrow> None | Inr v \<Rightarrow> Some v)"

definition load_positions ::
  "exn + unit \<Rightarrow> datetime \<Rightarrow> bool \<Rightarrow> string option \<Rightarrow> (persistence, combined_position list) action" where
  "load_positions io now include_closed user =
     statement io (\<lambda>s.
       (s, List.map_filter (\<lambda>r. right_option (parse_row now r))
             (sort_key (\<lambda>r. - pr_created_at r)
               (filter (row_selected include_closed user) (map snd (positions_table s)))))) []"

definition get_stored_position ::
  "exn + unit \<Rightarrow> datetime \<Rightarrow> string \<Rightarrow> string option \<Rightarrow> (persistence, combined_position option) action" where
  "get_stored_position io now i user =
     statement io (\<lambda>s.
       (s, case dict_get i (positions_table s) of
             None \<Rightarrow> None
           | Some r \<Rightarrow>
               if (case user of None \<Rightarrow> False | Some u \<Rightarrow> u \<noteq> '''' \<and> pr_user_id r \<noteq> Some u) then None
               else right_option (parse_row now r))) None"

definition delete_position :: "exn + unit \<Rightarrow> datetime \<Rightarrow> string \<Rightarrow> (persistence, bool) action" where
  "delete_position io now i =
     statement io (\<lambda>s.
       (s\<lparr>positions_table := (case dict_get i (positions_table s) of
            None \<Rightarrow> positions_table s
          | Some r \<Rightarrow> dict_put i (r\<lparr>pr_is_closed := True, pr_updated_at := now\<rparr>) (positions_table s))\<rparr>, True))
       False"

section \<open>Action log and key-value state\<close>

definition log_action :: "exn + unit \<Rightarrow> datetime \<Rightarrow> (string \<times> json) list \<Rightarrow> (persistence, bool) action" where
  "log_action io now a =
     statement io (\<lambda>s.
       (s\<lparr>action_log := action_log s @
            [\<lparr>ar_type = (case map_of a ''type'' of Some (JStr t) \<Rightarrow> t | _ \<Rightarrow> ''unknown''),
              ar_data = JObj a, ar_timestamp = now\<rparr>]\<rparr>, True)) False"

definition day_of :: "datetime \<Rightarrow> int" where
  "day_of t = t div seconds 86400"

definition time_of :: "datetime \<Rightarrow> int" where
  "time_of t = t mod seconds 86400"

text \<open>Text order of a \<open>CURRENT_TIMESTAMP\<close> text (whole seconds, a space) and an \<open>isoformat\<close>
  text (the letter T): on the same day the former comes first, whatever the times.\<close>

definition stamp_ge :: "datetime \<Rightarrow> datetime \<Rightarrow> bool" where
  "stamp_ge row start = (day_of row > day_of start)"

definition stamp_le :: "datetime \<Rightarrow> datetime \<Rightarrow> bool" where
  "stamp_le row until = (day_of row \<le> day_of until)"

definition action_selected ::
  "datetime option \<Rightarrow> datetime option \<Rightarrow> string option \<Rightarrow> action_row \<Rightarrow> bool" where
  "action_selected start until typ r =
     ((case start of None \<Rightarrow> True | Some t \<Rightarrow> stamp_ge (ar_timestamp r) t) \<and>
      (case until of None \<Rightarrow> True | Some t \<Rightarrow> stamp_le (ar_timestamp r) t) \<and>
      (case typ of None \<Rightarrow> True | Some y \<Rightarrow> y = '''' \<or> ar_type r = y))"

text \<open>The result pairs the data with the \<open>_timestamp\<close> added to it.\<close>

definition get_audit_log ::
  "exn + unit \<Rightarrow> datetime option \<Rightarrow> datetime option \<Rightarrow> string option \<Rightarrow> nat
     \<Rightarrow> (persistence, (json \<times> datetime) list) action"
where
  "get_audit_log io start until typ n =
     statement io (\<lambda>s.
       (s, map (\<lambda>r. (ar_data r, ar_timestamp r))
             (take n (sort_key (\<lambda>r. - (ar_timestamp r div seconds 1))
               (filter (action_selected start until typ) (action_log s)))))) []"

definition set_state :: "exn + unit \<Rightarrow> string \<Rightarrow> json \<Rightarrow> (persistence, bool) action" where
  "set_state io k v =
     statement io (\<lambda>s. (s\<lparr>state_table := dict_put k v (dict_del k (state_table s))\<rparr>, True)) False"

definition get_kv_state :: "exn + unit \<Rightarrow> string \<Rightarrow> json \<Rightarrow> (persistence, json) action" where
  "get_kv_state io k d =
     statement io (\<lambda>s. (s, case dict_get k (state_table s) of None \<Rightarrow> d | Some v \<Rightarrow> v)) d"

definition delete_state :: "exn + unit \<Rightarrow> string \<Rightarrow> (persistence, bool) action" where
  "delete_state io k =
     statement io (\<lambda>s. (s\<lparr>state_table := dict_del k (state_table s)\<rparr>, True)) False"

record recovery_result =
  rr_success :: bool
  positions_recovered :: nat
  incomplete_transactions :: nat
  rr_errors :: "string list"

definition recovery_on_startup :: "exn + unit \<Rightarrow> datetime \<Rightarrow> (persistence, recovery_result) action" where
  "recovery_on_startup io now =
     catching (andthen (load_positions io now False None) (\<lambda>ps.
        ret \<lparr>rr_success = True, positions_recovered = length ps, incomplete_transactions = 0, rr_errors = []\<rparr>))
       (\<lambda>e. ret \<lparr>rr_success = False, positions_recovered = 0, incomplete_transactions = 0,
             rr_errors = [''error'']\<rparr>)"

section \<open>Lemmas\<close>

text \<open>A text that stays a text.\<close>

definition plain :: "string \<Rightarrow> bool" where
  "plain s \<longleftrightarrow> decimal_literal s = None"

lemma decode_plain: "plain s \<Longrightarrow> decode_value (JStr s) = VStr s"
  by (simp add: plain_def)

lemma asset_plain: "plain ''SOL''" "plain ''jitoSOL''" "plain ''jupSOL''" "\<not> plain ''INF''"
  by code_simp+

lemma str_field_decode: "str_field (decode_value (JStr s)) = (if plain s then Inr s else Inl (ValueError ''string expected''))"
  by (auto simp: plain_def split: option.splits)

lemma opt_str_field_decode:
  "opt_str_field (decode_value (JStr s)) = (if plain s then Inr (Some s) else Inl (ValueError ''string expected''))"
  by (auto simp: plain_def split: option.splits)

lemma type_texts [simp]: "decode_value (JStr ''asgard'') = VStr ''asgard''"
  "decode_value (JStr ''hyperliquid'') = VStr ''hyperliquid''" "decode_value (JStr ''timestamp'') = VStr ''timestamp''"
  by (rule decode_plain, code_simp)+

text \<open>What is left of a position after a save and a load: identities, sizes and prices stay; times,
  signatures, funding totals, exit data, the liquidation price and the state history are reset, and a
  position in INF comes back as one in SOL.\<close>

definition reloaded_asset :: "asset \<Rightarrow> asset" where
  "reloaded_asset a = (if a = INF_asset then SOL else a)"

definition reloaded :: "datetime \<Rightarrow> combined_position \<Rightarrow> combined_position" where
  "reloaded now p =
     p\<lparr>asgard := (asgard p)\<lparr>ap_asset := reloaded_asset (ap_asset (asgard p)), entry_price_token_b := 1,
         ap_entry_time := now, ap_last_update := now, create_tx_signature := None, close_tx_signature := None\<rparr>,
       hyperliquid := (hyperliquid p)\<lparr>cum_funding := 0, liquidation_px := None, hp_entry_time := now,
         hp_last_update := now\<rparr>,
       reference := (reference p)\<lparr>max_acceptable_deviation := 5/1000\<rparr>,
       cp_exit_reason := None, exit_time := None, total_funding_received := 0, total_funding_paid := 0,
       transaction_state := IDLE, state_history := [], created_at := now, updated_at := now\<rparr>"

definition texts_plain :: "combined_position \<Rightarrow> bool" where
  "texts_plain p \<longleftrightarrow> list_all plain
     ([position_id p, opportunity_id p, status p, position_pda (asgard p), intent_id (asgard p),
       hp_coin (hyperliquid p)] @ (case cp_user_id p of None \<Rightarrow> [] | Some u \<Rightarrow> [u]))"

lemma asset_field_decode: "asset_field (decode_value (JStr (asset_value a))) = reloaded_asset a"
proof (cases a)
  case INF_asset
  have "decimal_literal ''INF'' \<noteq> None" using asset_plain(4) by (simp add: plain_def)
  then show ?thesis using INF_asset by (auto simp: asset_field_def reloaded_asset_def)
qed (use asset_plain in \<open>simp_all add: decode_plain asset_field_def reloaded_asset_def asset_of_value_def
      del: decode_value.simps\<close>)

lemma protocol_field_decode: "protocol_field (VInt (protocol_value p)) = Inr p"
  by (cases p) (simp_all add: protocol_field_def protocol_of_value_def)

lemmas decode_simps = str_field_decode opt_str_field_decode protocol_field_decode vget_def

lemma asgard_reload:
  "dict_to_asgard now a (decode_value (asgard_to_dict p)) =
     (if \<not> plain (position_pda p) \<or> \<not> plain (intent_id p) then Inl (ValueError ''string expected'')
      else Inr (p\<lparr>ap_asset := a, entry_price_token_b := 1, ap_entry_time := now, ap_last_update := now,
                 create_tx_signature := None, close_tx_signature := None\<rparr>))"
  unfolding asgard_to_dict_def dict_to_asgard_def decode_value.simps(5) list.map prod.case
  by (simp add: decode_simps del: decode_value.simps(2))

lemma hyperliquid_reload:
  "dict_to_hyperliquid now (decode_value (hyperliquid_to_dict p)) =
     (if \<not> plain (hp_coin p) then Inl (ValueError ''string expected'')
      else Inr (p\<lparr>cum_funding := 0, liquidation_px := None, hp_entry_time := now, hp_last_update := now\<rparr>))"
  unfolding hyperliquid_to_dict_def dict_to_hyperliquid_def decode_value.simps(5) list.map prod.case
  by (simp add: decode_simps del: decode_value.simps(2))

lemma position_reload:
  "dict_to_position now (decode_value (position_data p)) =
     (if texts_plain p then Inr (reloaded now p) else Inl (ValueError ''string expected''))"
proof -
  have ref: "decode_value (JObj [(''asgard_entry_price'', JDec a), (''hyperliquid_entry_price'', JDec b)])
      = VDict [(''asgard_entry_price'', VDec (Finite a)), (''hyperliquid_entry_price'', VDec (Finite b))]" for a b
    by simp
  show ?thesis
  proof (cases "cp_user_id p")
    case None
    then show ?thesis
      unfolding position_data_def dict_to_position_def decode_value.simps(5)[of "_ # _ # _ # _"] list.map prod.case
      by (simp add: decode_simps asgard_reload hyperliquid_reload asset_field_decode texts_plain_def
          reloaded_def Let_def del: decode_value.simps(2))
  next
    case (Some u)
    then show ?thesis
      unfolding position_data_def dict_to_position_def decode_value.simps(5)[of "_ # _ # _ # _"] list.map prod.case
      by (simp add: decode_simps asgard_reload hyperliquid_reload asset_field_decode texts_plain_def
          reloaded_def Let_def del: decode_value.simps(2))
  qed
qed

lemma saved_row:
  assumes "dict_ok (positions_table s)" "save_position (Inr ()) now p s = (s1, Inr True)"
  shows "dict_get (position_id p) (positions_table s1) = Some \<lparr>pr_user_id = cp_user_id p,
     pr_data = position_data p, pr_created_at = now, pr_updated_at = now, pr_is_closed = (status p \<noteq> ''open'')\<rparr>"
    "db_open s1" "dict_ok (positions_table s1)"
  using assms
  by (auto simp: save_position_def statement_def dict.get_put_same dict.inv_del dict.inv_put split: if_splits)

text \<open>The abstract store: the last position saved under an identity and whether it counts as closed.\<close>

datatype store_op = SaveOp datetime combined_position | DeleteOp datetime string

fun store_step :: "store_op \<Rightarrow> persistence \<Rightarrow> persistence" where
  "store_step (SaveOp t p) s = fst (save_position (Inr ()) t p s)"
| "store_step (DeleteOp t i) s = fst (delete_position (Inr ()) t i s)"

fun spec_step :: "store_op \<Rightarrow> (string \<rightharpoonup> combined_position \<times> bool) \<Rightarrow> (string \<rightharpoonup> combined_position \<times> bool)" where
  "spec_step (SaveOp t p) m = m(position_id p \<mapsto> (p, status p \<noteq> ''open''))"
| "spec_step (DeleteOp t i) m = map_adjust i (\<lambda>(p, _). (p, True)) m"

definition store_rel :: "(string \<rightharpoonup> combined_position \<times> bool) \<Rightarrow> persistence \<Rightarrow> bool" where
  "store_rel m s \<longleftrightarrow> db_open s \<and> dict_ok (positions_table s) \<and>
     (\<forall>i. map_option (\<lambda>r. (pr_data r, pr_is_closed r)) (dict_get i (positions_table s)) =
          map_option (\<lambda>(p, c). (position_data p, c)) (m i))"

lemma store_rel_step: "store_rel m s \<Longrightarrow> store_rel (spec_step x m) (store_step x s)"
proof (induction x)
  case (SaveOp t p)
  then show ?case
    by (auto simp: store_rel_def save_position_def statement_def dict.inv_put dict.inv_del
        dict.get_put dict.get_del)
next
  case (DeleteOp t i)
  then have ok: "dict_ok (positions_table s)"
    and r: "\<And>j. map_option (\<lambda>r. (pr_data r, pr_is_closed r)) (dict_get j (positions_table s)) =
          map_option (\<lambda>(p, c). (position_data p, c)) (m j)"
    by (auto simp: store_rel_def)
  from r[of i] DeleteOp ok show ?case
    by (cases "m i"; cases "dict_get i (positions_table s)")
      (auto simp: store_rel_def delete_position_def statement_def map_adjust_def dict.inv_put dict.get_put)
qed

lemma store_rel_run: "store_rel m s \<Longrightarrow> store_rel (fold spec_step xs m) (fold store_step xs s)"
  by (induction xs arbitrary: m s) (auto intro: store_rel_step)

lemma in_map_filter: "y \<in> set (List.map_filter f xs) \<longleftrightarrow> (\<exists>x \<in> set xs. f x = Some y)"
  by (induction xs) (auto simp: List.map_filter_simps split: option.splits)

lemma reload_option:
  "right_option (dict_to_position now (decode_value (position_data p))) = Some y \<longleftrightarrow>
     texts_plain p \<and> y = reloaded now p"
  by (auto simp: position_reload right_option_def)

text \<open>An audit query with a start bound returns nothing of the day of that bound.\<close>

lemma audit_log_skips_start_day:
  assumes "get_audit_log (Inr ()) (Some t) until typ n s = (s1, Inr xs)" "(d, u) \<in> set xs"
  shows "day_of t < day_of u"
  using assms set_take_subset
  by (fastforce simp: get_audit_log_def statement_def action_selected_def stamp_ge_def split: if_splits)

lemma store_rel_load:
  assumes "store_rel m s"
  shows "\<exists>ps. load_positions (Inr ()) now False None s = (s, Inr ps) \<and>
     set ps = {reloaded now p |p. texts_plain p \<and> (\<exists>i. m i = Some (p, False))}"
proof -
  let ?t = "positions_table s"
  have op: "db_open s" and ok: "dict_ok ?t"
    and r: "\<And>i. map_option (\<lambda>r. (pr_data r, pr_is_closed r)) (dict_get i ?t) =
          map_option (\<lambda>(p, c). (position_data p, c)) (m i)"
    using assms by (auto simp: store_rel_def)
  define ps where "ps = List.map_filter (\<lambda>r. right_option (parse_row now r))
             (sort_key (\<lambda>r. - pr_created_at r) (filter (row_selected False None) (map snd ?t)))"
  have "y \<in> set ps \<longleftrightarrow> (\<exists>i r. dict_get i ?t = Some r \<and> \<not> pr_is_closed r \<and> right_option (parse_row now r) = Some y)" for y
    using dict_get_set[OF ok] by (force simp: ps_def in_map_filter row_selected_def)
  also have "\<dots> y \<longleftrightarrow> (\<exists>i p. m i = Some (p, False) \<and> right_option (dict_to_position now (decode_value (position_data p))) = Some y)" for y
  proof
    assume "\<exists>i r. dict_get i ?t = Some r \<and> \<not> pr_is_closed r \<and> right_option (parse_row now r) = Some y"
    then obtain i r' where a: "dict_get i ?t = Some r'" "\<not> pr_is_closed r'" "right_option (parse_row now r') = Some y" by blast
    with r[of i] show "\<exists>i p. m i = Some (p, False) \<and> right_option (dict_to_position now (decode_value (position_data p))) = Some y"
      by (cases "m i") (auto simp: parse_row_def intro!: exI[of _ i])
  next
    assume "\<exists>i p. m i = Some (p, False) \<and> right_option (dict_to_position now (decode_value (position_data p))) = Some y"
    then obtain i p where a: "m i = Some (p, False)" "right_option (dict_to_position now (decode_value (position_data p))) = Some y" by blast
    with r[of i] show "\<exists>i r. dict_get i ?t = Some r \<and> \<not> pr_is_closed r \<and> right_option (parse_row now r) = Some y"
      by (auto simp: parse_row_def intro!: exI[of _ i])
  qed
  finally have "set ps = {reloaded now p |p. texts_plain p \<and> (\<exists>i. m i = Some (p, False))}"
    unfolding reload_option by blast
  moreover have "load_positions (Inr ()) now False None s = (s, Inr ps)"
    using op by (simp add: load_positions_def statement_def ps_def)
  ultimately show ?thesis by blast
qed

section \<open>Properties\<close>

text \<open>C29: A saved position is read back with its identities, sizes, prices and status when all its
  texts are plain, and not at all otherwise: \<open>decode_decimal\<close> turns a text that looks like a number
  into a \<open>Decimal\<close>, which the model rejects. The asset INF looks like infinity and comes back as
  SOL.\<close>

theorem position_roundtrip:
  assumes "dict_ok (positions_table s)" "save_position (Inr ()) t p s = (s1, Inr True)"
  shows "get_stored_position (Inr ()) now (position_id p) None s1 =
     (s1, Inr (if texts_plain p then Some (reloaded now p) else None))"
  using saved_row[OF assms]
  by (simp add: get_stored_position_def statement_def parse_row_def position_reload right_option_def)

text \<open>C26: Recovery after any history of saves and deletions loads exactly the positions whose last
  save had the status \<open>open\<close> and that were not deleted since, among those with plain texts: a position
  saved as \<open>closing\<close> or \<open>stuck\<close> is not recovered although it still holds legs.\<close>

theorem recovery_refines_history:
  assumes "db_open s" "positions_table s = []"
  shows "\<exists>ps. load_positions (Inr ()) now False None (fold store_step ops s) = (fold store_step ops s, Inr ps) \<and>
     set ps = {reloaded now p |p. texts_plain p \<and> (\<exists>i. fold spec_step ops Map.empty i = Some (p, False))}"
proof (rule store_rel_load, rule store_rel_run)
  show "store_rel Map.empty s"
    using assms by (simp add: store_rel_def dict_ok_def dict_get_def)
qed

section \<open>Instances\<close>

definition wit_stored :: "asset \<Rightarrow> combined_position" where
  "wit_stored a =
     \<lparr>position_id = ''p-1'', cp_user_id = None,
      asgard = \<lparr>position_pda = ''5sig'', intent_id = ''i-1'', ap_asset = a, ap_protocol = KAMINO,
        collateral_usd = 500, position_size_usd = 1500, ap_leverage = 3, token_a_amount = 10,
        token_b_borrowed = 1000, entry_price_token_a = 100, entry_price_token_b = 1,
        current_health_factor = 1/5, current_token_a_price = 100, ap_entry_time = 0, ap_last_update = 0,
        create_tx_signature = None, close_tx_signature = None\<rparr>,
      hyperliquid = \<lparr>hp_coin = ''SOL'', size_sol = -15, entry_px = 100, hp_leverage = 3, margin_used = 500,
        margin_fraction = 1/4, account_value = 2000, cum_funding = 0, mark_px = 100, liquidation_px = None,
        hp_entry_time = 0, hp_last_update = 0\<rparr>,
      reference = \<lparr>asgard_entry_price = 100, hyperliquid_entry_price = 100, max_acceptable_deviation = 5/1000\<rparr>,
      opportunity_id = ''o-1'', status = ''open'', cp_exit_reason = None, exit_time = None,
      total_funding_received = 0, total_funding_paid = 0, transaction_state = IDLE,
      state_history = [], created_at = 0, updated_at = 0\<rparr>"

definition wit_db :: persistence where
  "wit_db = \<lparr>db_open = True, positions_table = [], action_log = [], state_table = []\<rparr>"

lemma wit_stored_plain: "texts_plain (wit_stored a)"
proof -
  have "plain ''p-1''" "plain ''5sig''" "plain ''i-1''" "plain ''o-1''" "plain ''open''" "plain ''SOL''"
    by code_simp+
  then show ?thesis by (simp add: texts_plain_def wit_stored_def)
qed

theorem position_roundtrip_witness:
  "\<exists>s1 p. save_position (Inr ()) 1 (wit_stored INF_asset) wit_db = (s1, Inr True) \<and>
     get_stored_position (Inr ()) 2 ''p-1'' None s1 = (s1, Inr (Some p)) \<and> ap_asset (asgard p) = SOL"
proof -
  obtain s1 where o: "save_position (Inr ()) 1 (wit_stored INF_asset) wit_db = (s1, Inr True)"
    by (simp add: save_position_def statement_def wit_db_def)
  have "dict_ok (positions_table wit_db)" "position_id (wit_stored INF_asset) = ''p-1''"
    "ap_asset (asgard (reloaded 2 (wit_stored INF_asset))) = SOL"
    by (simp_all add: wit_db_def dict_ok_def wit_stored_def reloaded_def reloaded_asset_def)
  with position_roundtrip[OF _ o, of 2] wit_stored_plain o show ?thesis by auto
qed

lemma two_saves:
  assumes "position_id q = position_id p" "status q \<noteq> ''open''"
  shows "fold spec_step [SaveOp t p, SaveOp u q] Map.empty i \<noteq> Some (x, False)"
  using assms by auto

theorem recovery_refines_history_witness:
  "\<exists>ps. snd (load_positions (Inr ()) 3 False None
       (fold store_step [SaveOp 1 (wit_stored SOL), SaveOp 2 ((wit_stored SOL)\<lparr>status := ''stuck''\<rparr>)] wit_db)) = Inr ps \<and>
     ps = []"
proof -
  define ops where "ops = [SaveOp 1 (wit_stored SOL), SaveOp 2 ((wit_stored SOL)\<lparr>status := ''stuck''\<rparr>)]"
  have "db_open wit_db" "positions_table wit_db = []" by (simp_all add: wit_db_def)
  from recovery_refines_history[OF this, of 3 ops] obtain ps where
    l: "load_positions (Inr ()) 3 False None (fold store_step ops wit_db) = (fold store_step ops wit_db, Inr ps)"
    and ps: "set ps = {reloaded 3 p |p. texts_plain p \<and> (\<exists>i. fold spec_step ops Map.empty i = Some (p, False))}"
    by blast
  have no: "fold spec_step ops Map.empty i \<noteq> Some (p, False)" for i p
    unfolding ops_def by (rule two_saves) simp_all
  have "set ps = {}" by (simp add: ps no)
  then have "ps = []" by simp
  then have "snd (load_positions (Inr ()) 3 False None (fold store_step ops wit_db)) = Inr ps \<and> ps = []"
    by (simp only: l snd_conv)
  then show ?thesis unfolding ops_def by (rule exI)
qed

end
