(* ===== verification/Bot.thy ===== *)
theory Bot
  imports RiskEngine PauseController PositionSizer OpportunityDetector PositionManager Persistence
begin

text \<open>
  The bot (\<open>bot/core/bot.py\<close>) and its kill switch (\<open>bot/core/kill_switch.py\<close>): the components
  it holds, the monitor and scan cycles, entry and exit, recovery, and the file that pauses it.

  The state starts where \<open>setup\<close> leaves it. The answers of the venues, of the database and of the
  clock are one record per cycle; \<open>bot_env\<close> holds what never changes. A callback is its number; the
  calls are traced in \<open>bt_calls\<close>, and an exception it raises is swallowed by the code. Log texts
  are left out. \<open>CombinedPosition\<close> has no field \<open>expected_apy\<close>, so \<open>_calculate_current_apy\<close>
  always takes its second branch.
\<close>

section \<open>State\<close>

record bot_stats =
  opportunities_found :: nat
  positions_opened :: nat
  positions_closed :: nat
  cycle_errors :: "(string \<times> exn) list"

record bot_config =
  max_concurrent_positions :: int
  min_opportunity_apy :: decimal
  enable_auto_exit :: bool
  config_api_key :: "string option"

datatype bot_call =
    OpportunityCallback nat opportunity
  | OpenedCallback nat combined_position
  | ClosedCallback nat combined_position string

record bot =
  bt_config :: bot_config
  bt_settings_key :: string
  bt_positions :: "(string, (string, combined_position) dict) dict"
  bt_stats :: bot_stats
  bt_controller :: controller
  bt_engine :: risk_engine
  bt_sizer :: sizer
  bt_detector :: detector
  bt_manager :: manager
  bt_store :: persistence
  bt_running :: bool
  opportunity_callbacks :: "nat list"
  opened_callbacks :: "nat list"
  closed_callbacks :: "nat list"
  bt_calls :: "bot_call list"

record bot_env =
  en_api :: asgard_api
  en_asgard :: asgard_manager
  en_limits :: limits

definition default_config :: bot_config where
  "default_config = \<lparr>max_concurrent_positions = 5, min_opportunity_apy = 1/100, enable_auto_exit = True,
     config_api_key = None\<rparr>"

definition stats_init :: bot_stats where
  "stats_init = \<lparr>opportunities_found = 0, positions_opened = 0, positions_closed = 0, cycle_errors = []\<rparr>"

text \<open>\<open>config.admin_api_key or get_settings().admin_api_key\<close>; an empty text counts as absent.\<close>

definition api_key_of :: "bot \<Rightarrow> string" where
  "api_key_of b =
     (case config_api_key (bt_config b) of
        None \<Rightarrow> bt_settings_key b
      | Some k \<Rightarrow> if k = '''' then bt_settings_key b else k)"

text \<open>\<open>setup\<close>: without a key the pause controller gets a temporary one that nothing else keeps.\<close>

definition setup_bot ::
  "bot_config \<Rightarrow> string \<Rightarrow> string \<Rightarrow> risk_limits \<Rightarrow> sizer \<Rightarrow> detector \<Rightarrow> manager \<Rightarrow> persistence \<Rightarrow> bot" where
  "setup_bot cfg settings_key temp rl sz d m db =
     (let b = \<lparr>bt_config = cfg, bt_settings_key = settings_key, bt_positions = [], bt_stats = stats_init,
           bt_controller = controller_init temp 1800, bt_engine = risk_engine_init rl, bt_sizer = sz,
           bt_detector = d, bt_manager = m, bt_store = setup_db db, bt_running = False,
           opportunity_callbacks = [], opened_callbacks = [], closed_callbacks = [], bt_calls = []\<rparr>
      in b\<lparr>bt_controller := controller_init (if api_key_of b = '''' then temp else api_key_of b) 1800\<rparr>)"

definition count_positions :: "bot \<Rightarrow> nat" where
  "count_positions b = sum_list (map (\<lambda>(u, d). length d) (bt_positions b))"

definition get_positions :: "bot \<Rightarrow> string option \<Rightarrow> (string, combined_position) dict" where
  "get_positions b user =
     (case user of
        Some u \<Rightarrow>
          if u = '''' then fold (\<lambda>(_, d) acc. fold (\<lambda>(i, p) acc. dict_put i p acc) d acc) (bt_positions b) []
          else (case dict_get u (bt_positions b) of None \<Rightarrow> [] | Some d \<Rightarrow> d)
      | None \<Rightarrow> fold (\<lambda>(_, d) acc. fold (\<lambda>(i, p) acc. dict_put i p acc) d acc) (bt_positions b) [])"

definition owner_of :: "combined_position \<Rightarrow> string" where
  "owner_of p = (case cp_user_id p of None \<Rightarrow> ''default'' | Some u \<Rightarrow> if u = '''' then ''default'' else u)"

definition store_user_position :: "string \<Rightarrow> combined_position \<Rightarrow> bot \<Rightarrow> bot" where
  "store_user_position u p b =
     b\<lparr>bt_positions := dict_put u
         (dict_put (position_id p) p (case dict_get u (bt_positions b) of None \<Rightarrow> [] | Some d \<Rightarrow> d))
         (bt_positions b)\<rparr>"

definition drop_user_position :: "string \<Rightarrow> string \<Rightarrow> bot \<Rightarrow> bot" where
  "drop_user_position u i b =
     (case dict_get u (bt_positions b) of
        None \<Rightarrow> b
      | Some d \<Rightarrow>
          (case dict_get i d of
             None \<Rightarrow> b
           | Some _ \<Rightarrow>
               (if dict_del i d = [] then b\<lparr>bt_positions := dict_del u (bt_positions b)\<rparr>
                else b\<lparr>bt_positions := dict_put u (dict_del i d) (bt_positions b)\<rparr>)))"

section \<open>Parts of the state\<close>

definition on_manager :: "(manager, 'a) action \<Rightarrow> (bot, 'a) action" where
  "on_manager m b = (case m (bt_manager b) of (s, r) \<Rightarrow> (b\<lparr>bt_manager := s\<rparr>, r))"

definition on_store :: "(persistence, 'a) action \<Rightarrow> (bot, 'a) action" where
  "on_store m b = (case m (bt_store b) of (s, r) \<Rightarrow> (b\<lparr>bt_store := s\<rparr>, r))"

definition on_detector :: "(detector, 'a) action \<Rightarrow> (bot, 'a) action" where
  "on_detector m b = (case m (bt_detector b) of (s, r) \<Rightarrow> (b\<lparr>bt_detector := s\<rparr>, r))"

definition updating :: "(bot \<Rightarrow> bot) \<Rightarrow> (bot, unit) action" where
  "updating f b = (f b, Inr ())"

definition count_closed :: "bot \<Rightarrow> bot" where
  "count_closed b = b\<lparr>bt_stats := (bt_stats b)\<lparr>positions_closed := positions_closed (bt_stats b) + 1\<rparr>\<rparr>"

definition count_opened :: "bot \<Rightarrow> bot" where
  "count_opened b = b\<lparr>bt_stats := (bt_stats b)\<lparr>positions_opened := positions_opened (bt_stats b) + 1\<rparr>\<rparr>"

definition count_found :: "nat \<Rightarrow> bot \<Rightarrow> bot" where
  "count_found n b = b\<lparr>bt_stats := (bt_stats b)\<lparr>opportunities_found := opportunities_found (bt_stats b) + n\<rparr>\<rparr>"

definition call_back :: "bot_call list \<Rightarrow> bot \<Rightarrow> bot" where
  "call_back cs b = b\<lparr>bt_calls := bt_calls b @ cs\<rparr>"

section \<open>Exit\<close>

record exit_answers =
  ea_now :: datetime
  ea_close :: close_answers
  ea_delete_io :: "exn + unit"
  ea_log_io :: "exn + unit"

definition execute_exit :: "bot_env \<Rightarrow> exit_answers \<Rightarrow> combined_position \<Rightarrow> string \<Rightarrow> bot \<Rightarrow> bot" where
  "execute_exit env a p reason b =
     fst (catching
       (andthen (on_manager (close_position (en_api env) (en_asgard env) (ea_close a) (position_id p)
            (case exit_reason_of_value reason of None \<Rightarrow> MANUAL | Some r \<Rightarrow> r))) (\<lambda>r.
        if \<not> mr_success r then ret ()
        else andthen (updating (\<lambda>b. count_closed (drop_user_position (owner_of p) (position_id p) b))) (\<lambda>_.
             andthen (on_store (delete_position (ea_delete_io a) (ea_now a) (position_id p))) (\<lambda>_.
             andthen (on_store (log_action (ea_log_io a) (ea_now a)
                 [(''type'', JStr ''position_closed''), (''position_id'', JStr (position_id p)),
                  (''reason'', JStr reason), (''timestamp'', JStr ''timestamp'')])) (\<lambda>_.
             updating (\<lambda>b. call_back (map (\<lambda>k. ClosedCallback k p reason) (closed_callbacks b)) b))))))
       (\<lambda>_. ret ()) b)"

section \<open>Monitoring\<close>

definition calculate_current_apy :: "combined_position \<Rightarrow> decimal" where
  "calculate_current_apy p = 0"

definition monitor_inputs :: "combined_position \<Rightarrow> market_inputs" where
  "monitor_inputs p =
     \<lparr>mi_current_apy = Some (calculate_current_apy p), mi_estimated_close_cost = None, mi_health_factor = None,
      mi_margin_fraction = None, mi_current_funding_annual = None, mi_predicted_funding_annual = None,
      mi_price_deviation = None, mi_lst_depegged = False, mi_chain_outage = None\<rparr>"

definition exit_breaker :: "exit_reason \<Rightarrow> breaker_type option" where
  "exit_breaker r =
     (case r of HEALTH_FACTOR \<Rightarrow> Some ASGARD_HEALTH | MARGIN_FRACTION \<Rightarrow> Some HYPERLIQUID_MARGIN
      | LST_DEPEG \<Rightarrow> Some LST_DEPEG_BREAKER | _ \<Rightarrow> None)"

record monitor_answers =
  ma_now :: datetime
  ma_check :: datetime
  ma_exit :: exit_answers

definition monitor_position :: "bot_env \<Rightarrow> monitor_answers \<Rightarrow> combined_position \<Rightarrow> (bot, unit) action" where
  "monitor_position env a p b =
     (case evaluate_exit_trigger (ma_now a) (ma_check a) (view_asgard (asgard p)) (view_hl (hyperliquid p))
            (monitor_inputs p) (bt_engine b) of
        (e, Inl x) \<Rightarrow> (b\<lparr>bt_engine := e\<rparr>, Inl x)
      | (e, Inr d) \<Rightarrow>
          let b1 = b\<lparr>bt_engine := e\<rparr>
          in if should_exit d \<and> enable_auto_exit (bt_config b)
             then (case ed_reason d of
                     None \<Rightarrow> (b1, Inl (AttributeError ''value''))
                   | Some r \<Rightarrow>
                       let b2 = (case exit_breaker r of
                                   None \<Rightarrow> b1
                                 | Some t \<Rightarrow> b1\<lparr>bt_controller := fst (trigger_circuit_breaker (ma_now a) t
                                     (''Exit triggered: '' @ exit_reason_value r) ALL_OPS False None
                                     (bt_controller b1))\<rparr>)
                       in (execute_exit env (ma_exit a) p (exit_reason_value r) b2, Inr ()))
             else (b1, Inr ()))"

text \<open>An exception while monitoring one position is logged and the loop goes on.\<close>

definition monitor_all ::
  "bot_env \<Rightarrow> (string \<Rightarrow> monitor_answers) \<Rightarrow> (string, combined_position) dict \<Rightarrow> bot \<Rightarrow> bot" where
  "monitor_all env ans ps b = fold (\<lambda>(i, p) b. fst (monitor_position env (ans i) p b)) ps b"

definition monitor_cycle :: "bot_env \<Rightarrow> datetime \<Rightarrow> (string \<Rightarrow> monitor_answers) \<Rightarrow> bot \<Rightarrow> bot" where
  "monitor_cycle env now ans b =
     (if check_paused (bt_controller b) None then b
      else let b1 = b\<lparr>bt_controller := fst (check_and_recover now (bt_controller b))\<rparr>
           in monitor_all env ans (get_positions b1 None) b1)"

section \<open>Entry and scanning\<close>

record entry_answers =
  ey_sol_balance :: "exn + pyfloat"
  ey_hl_balance :: "exn + decimal"
  ey_intent :: string
  ey_open :: open_position_answers
  ey_now :: datetime
  ey_save_io :: "exn + unit"

text \<open>The balances are the native balances of the two wallets (SOL and ETH); the sizing only
  decides whether to go on, its size is not passed to \<open>open_position\<close>.\<close>

definition execute_entry :: "bot_env \<Rightarrow> entry_answers \<Rightarrow> opportunity \<Rightarrow> bot \<Rightarrow> bot" where
  "execute_entry env a opp b =
     fst (catching
       (andthen (lift_result (ey_sol_balance a)) (\<lambda>sol.
        andthen (lift_result (ey_hl_balance a)) (\<lambda>hl b.
        if \<not> sz_success (calculate_position_size (bt_sizer b) (float_str sol) hl None None) then (b, Inr ())
        else andthen
          (on_manager (open_position (en_api env) (en_asgard env) (ey_intent a) (en_limits env) (ey_open a) opp))
          (\<lambda>r. case (mr_success r, mr_position r) of
             (True, Some p) \<Rightarrow>
               andthen (updating (\<lambda>b. count_opened (store_user_position (owner_of p) p b))) (\<lambda>_.
               andthen (on_store (save_position (ey_save_io a) (ey_now a) p)) (\<lambda>_.
               updating (\<lambda>b. call_back (map (\<lambda>k. OpenedCallback k p) (opened_callbacks b)) b)))
           | _ \<Rightarrow> ret ()) b)))
       (\<lambda>_. ret ()) b)"

record scan_answers =
  sc_now :: int
  sc_rates :: "exn + meta_response"
  sc_assets :: "nat \<Rightarrow> asset_answers"
  sc_entry :: entry_answers

definition scan_cycle :: "bot_env \<Rightarrow> scan_answers \<Rightarrow> (bot, unit) action" where
  "scan_cycle env a b =
     (if check_paused (bt_controller b) (Some ALL_OPS) then (b, Inr ())
      else if \<not> can_execute (bt_controller b) ''entry'' then (b, Inr ())
      else if int (count_positions b) \<ge> max_concurrent_positions (bt_config b) then (b, Inr ())
      else andthen (on_detector (scan_opportunities (sc_now a) (sc_rates a) (sc_assets a) [])) (\<lambda>opps b.
        case opps of
          [] \<Rightarrow> (b, Inr ())
        | best # _ \<Rightarrow>
            let b1 = count_found (length opps) b
            in if total_expected_apy best < min_opportunity_apy (bt_config b1) then (b1, Inr ())
               else (execute_entry env (sc_entry a) best
                       (call_back (map (\<lambda>k. OpportunityCallback k best) (opportunity_callbacks b1)) b1),
                     Inr ())) b)"

text \<open>One turn of the scan loop: an exception of the cycle is recorded in the statistics.\<close>

definition scan_turn :: "bot_env \<Rightarrow> scan_answers \<Rightarrow> bot \<Rightarrow> bot" where
  "scan_turn env a b =
     (case scan_cycle env a b of
        (b1, Inr u) \<Rightarrow> b1
      | (b1, Inl e) \<Rightarrow>
          b1\<lparr>bt_stats := (bt_stats b1)\<lparr>cycle_errors := cycle_errors (bt_stats b1) @ [(''scan'', e)]\<rparr>\<rparr>)"

section \<open>Recovery and administration\<close>

definition recover_state :: "exn + unit \<Rightarrow> datetime \<Rightarrow> string option \<Rightarrow> (bot, unit) action" where
  "recover_state io now user =
     andthen (on_store (load_positions io now False user)) (\<lambda>ps b.
       (fold (\<lambda>p b.
          if is_closed p then b
          else store_user_position
            (case cp_user_id p of
               Some u \<Rightarrow> if u \<noteq> '''' then u else (case user of None \<Rightarrow> ''default'' | Some v \<Rightarrow> if v = '''' then ''default'' else v)
             | None \<Rightarrow> (case user of None \<Rightarrow> ''default'' | Some v \<Rightarrow> if v = '''' then ''default'' else v)) p b) ps b,
        Inr ()))"

definition pause_bot :: "datetime \<Rightarrow> string \<Rightarrow> string \<Rightarrow> pause_scope \<Rightarrow> (bot, unit) action" where
  "pause_bot now key reason scope b =
     (case pause now key reason scope (bt_controller b) of
        Inl e \<Rightarrow> (b, Inl e) | Inr c \<Rightarrow> (b\<lparr>bt_controller := c\<rparr>, Inr ()))"

definition resume_bot :: "datetime \<Rightarrow> string \<Rightarrow> (bot, unit) action" where
  "resume_bot now key b =
     (case resume now key (bt_controller b) of
        Inl e \<Rightarrow> (b, Inl e) | Inr c \<Rightarrow> (b\<lparr>bt_controller := c\<rparr>, Inr ()))"

definition on_kill_switch_triggered :: "datetime \<Rightarrow> string \<Rightarrow> bot \<Rightarrow> bot" where
  "on_kill_switch_triggered now reason b =
     (if api_key_of b \<noteq> ''''
      then fst (pause_bot now (api_key_of b) (''Kill switch: '' @ reason) ALL_OPS b)
      else b)"

section \<open>The kill switch\<close>

datatype kill_file = Missing | Unreadable string | Content string

text \<open>\<open>kw_registered\<close> says whether a callback is registered, \<open>kw_task\<close> whether the loop's task
  is still alive.\<close>

record kill_switch =
  kw_file :: kill_file
  kw_running :: bool
  kw_task :: bool
  kw_registered :: bool

definition kill_switch_init :: "kill_file \<Rightarrow> kill_switch" where
  "kill_switch_init f = \<lparr>kw_file = f, kw_running = False, kw_task = False, kw_registered = False\<rparr>"

definition kw_on_triggered :: "kill_switch \<Rightarrow> kill_switch" where
  "kw_on_triggered k = k\<lparr>kw_registered := True\<rparr>"

definition kw_start :: "kill_switch \<Rightarrow> kill_switch" where
  "kw_start k = (if kw_running k then k else k\<lparr>kw_running := True, kw_task := True\<rparr>)"

definition kw_stop :: "kill_switch \<Rightarrow> kill_switch" where
  "kw_stop k = (if \<not> kw_running k then k else k\<lparr>kw_running := False, kw_task := False\<rparr>)"

definition kw_is_running :: "kill_switch \<Rightarrow> bool" where
  "kw_is_running k = (kw_running k \<and> kw_task k)"

definition file_reason :: "kill_file \<Rightarrow> string" where
  "file_reason f =
     (case f of
        Content s \<Rightarrow> if strip s = [] then ''Kill switch file detected'' else strip s
      | _ \<Rightarrow> ''Kill switch file detected (could not read contents)'')"

text \<open>The check with the bot as its callback; \<open>unlink\<close> is the outcome of removing the file.\<close>

definition check_kill_switch ::
  "exn + unit \<Rightarrow> datetime \<Rightarrow> kill_switch \<Rightarrow> bot \<Rightarrow> kill_switch \<times> bot" where
  "check_kill_switch unlink now k b =
     (if kw_file k = Missing then (k, b)
      else let k1 = (case unlink of Inl _ \<Rightarrow> k | Inr _ \<Rightarrow> k\<lparr>kw_file := Missing\<rparr>);
               b1 = (if kw_registered k then on_kill_switch_triggered now (file_reason (kw_file k)) b else b)
           in (k1\<lparr>kw_running := False\<rparr>, b1))"

text \<open>One turn of the monitor loop; the task ends when the loop does.\<close>

definition kw_turn :: "exn + unit \<Rightarrow> datetime \<Rightarrow> kill_switch \<Rightarrow> bot \<Rightarrow> kill_switch \<times> bot" where
  "kw_turn unlink now k b =
     (if \<not> kw_is_running k then (k, b)
      else case check_kill_switch unlink now k b of (k1, b1) \<Rightarrow> (k1\<lparr>kw_task := kw_running k1\<rparr>, b1))"

definition kill_switch_trigger :: "exn + unit \<Rightarrow> string \<Rightarrow> string \<Rightarrow> kill_file \<Rightarrow> kill_file \<times> bool" where
  "kill_switch_trigger io reason stamp f =
     (case io of
        Inl _ \<Rightarrow> (f, False)
      | Inr _ \<Rightarrow> (Content (reason @ [CHR 0x0A] @ ''Triggered at: '' @ stamp @ [CHR 0x0A]), True))"

definition kill_switch_status :: "kill_file \<Rightarrow> bool \<times> string option" where
  "kill_switch_status f =
     (case f of Missing \<Rightarrow> (False, None) | Content s \<Rightarrow> (True, Some (strip s))
      | Unreadable e \<Rightarrow> (True, Some (''Error reading: '' @ e)))"

definition kill_switch_clear :: "exn + unit \<Rightarrow> kill_file \<Rightarrow> kill_file \<times> bool" where
  "kill_switch_clear io f =
     (if f = Missing then (f, True)
      else case io of Inl _ \<Rightarrow> (f, False) | Inr _ \<Rightarrow> (Missing, True))"

section \<open>Runs\<close>

text \<open>One step of the running bot: a turn of one of its two loops, the recovery at startup, a call of
  its administration or a turn of the kill switch. The loops interleave in any order.\<close>

inductive bot_step :: "bot_env \<Rightarrow> bot \<Rightarrow> bot \<Rightarrow> bool" for env where
  monitor: "bot_step env b (monitor_cycle env now ans b)"
| scan: "bot_step env b (scan_turn env a b)"
| recover: "bot_step env b (fst (recover_state io now user b))"
| pause: "bot_step env b (fst (pause_bot now key reason scope b))"
| resume: "bot_step env b (fst (resume_bot now key b))"
| kill: "bot_step env b (snd (kw_turn unlink now k b))"

inductive bot_reach :: "bot_env \<Rightarrow> bot \<Rightarrow> bot \<Rightarrow> bool" for env b0 where
  start: "bot_reach env b0 b0"
| step: "bot_reach env b0 b \<Longrightarrow> bot_step env b b1 \<Longrightarrow> bot_reach env b0 b1"

section \<open>Lemmas\<close>

text \<open>What the bot passes to the engine gives no health factor, and the position classes have
  none.\<close>

lemma bot_evaluation_raises:
  "evaluate_exit_trigger now now' (view_asgard ap) (view_hl hp) (monitor_inputs p) e
     = (e, Inl (AttributeError ''health_factor''))"
  by (simp add: evaluate_exit_trigger_def outage_set_def monitor_inputs_def check_asgard_health_def
      effective_health_factor_def)

lemma monitor_position_raises:
  "monitor_position env a p b = (b, Inl (AttributeError ''health_factor''))"
  by (simp add: monitor_position_def bot_evaluation_raises)

lemma monitor_all_id: "monitor_all env ans ps b = b"
  unfolding monitor_all_def
  by (induction ps arbitrary: b) (auto simp: monitor_position_raises)

lemma monitor_cycle_effect:
  "monitor_cycle env now ans b =
     (if paused (bt_controller b) then b
      else b\<lparr>bt_controller := fst (check_and_recover now (bt_controller b))\<rparr>)"
  by (simp add: monitor_cycle_def check_paused_def monitor_all_id Let_def)

text \<open>What an opportunity without passed pre-flight checks leaves of an entry: nothing.\<close>

lemma open_without_preflight:
  "\<not> preflight_checks_passed opp \<Longrightarrow>
     open_position api am i lts a opp s = (s, Inr (fail_at ''Preflight checks not passed'' (Some ''preflight'')))"
  by (simp add: open_position_def open_position_with_def)

lemma entry_without_preflight:
  assumes "\<not> preflight_checks_passed opp"
  shows "execute_entry env a opp b = b"
  using open_without_preflight[OF assms]
  by (auto simp: execute_entry_def catching_def andthen_def on_manager_def fail_at_def
      split: sum.splits)

text \<open>The parts of the bot that hold its trades.\<close>

definition same_trades :: "bot \<Rightarrow> bot \<Rightarrow> bool" where
  "same_trades b c \<longleftrightarrow> bt_manager c = bt_manager b \<and> bt_store c = bt_store b \<and>
     positions_opened (bt_stats c) = positions_opened (bt_stats b) \<and>
     positions_closed (bt_stats c) = positions_closed (bt_stats b) \<and>
     admin_api_key (bt_controller c) = admin_api_key (bt_controller b) \<and>
     bt_config c = bt_config b \<and> bt_settings_key c = bt_settings_key b"

lemma same_trades_refl [simp]: "same_trades b b"
  by (simp add: same_trades_def)

lemma same_trades_trans: "same_trades a b \<Longrightarrow> same_trades b c \<Longrightarrow> same_trades a c"
  by (simp add: same_trades_def)

lemma scan_cycle_same:
  assumes "scan_cycle env a b = (b1, r)"
  shows "same_trades b b1 \<and> bt_positions b1 = bt_positions b"
proof -
  have pre: "\<not> preflight_checks_passed best"
    if s: "scan_opportunities (sc_now a) (sc_rates a) (sc_assets a) [] d = (d1, Inr (best # rest))" for d d1 best rest
  proof -
    obtain rates raw where r: "scan_assets (sc_assets a) rates 0 ALLOWED_ASSETS d [] = (d1, raw)"
      and o: "best # rest = sort_key (\<lambda>x. - total_expected_apy x) raw"
      using scan_opportunities_Inr[OF s] by auto
    have "best \<in> set raw" by (metis o list.set_intros(1) set_sort)
    then show ?thesis
      using scan_assets_detected[OF r, of UNIV] by (auto simp: detected_def)
  qed
  show ?thesis
    using assms pre
    by (auto simp: scan_cycle_def andthen_def on_detector_def Let_def entry_without_preflight
        same_trades_def count_found_def call_back_def
        split: if_splits prod.splits sum.splits list.splits)
qed

text \<open>None of the controller's operations changes its key.\<close>

lemma resolve_admin_key [simp]: "admin_api_key (fst (resolve_circuit_breaker now t who c)) = admin_api_key c"
  by (simp add: resolve_circuit_breaker_def call_resume_callbacks_def Let_def)

lemma recover_key: "admin_api_key (fst (recover_from now is acc)) = admin_api_key (fst acc)"
  by (induction now "is" acc rule: recover_from.induct) (simp_all add: Let_def)

lemma check_and_recover_key [simp]: "admin_api_key (fst (check_and_recover now c)) = admin_api_key c"
  by (simp add: check_and_recover_def recover_key)

lemma pause_key: "PauseController.pause now key reason scope c = Inr c1 \<Longrightarrow> admin_api_key c1 = admin_api_key c"
  by (auto simp: PauseController.pause_def call_pause_callbacks_def split: if_splits)

lemma resume_key: "PauseController.resume now key c = Inr c1 \<Longrightarrow> admin_api_key c1 = admin_api_key c"
  by (auto simp: PauseController.resume_def call_resume_callbacks_def Let_def split: if_splits)

lemma store_user_position_same [simp]: "same_trades b (store_user_position u p b)"
  by (simp add: same_trades_def store_user_position_def)

lemma recover_fold_same:
  "same_trades b (fold (\<lambda>p b. if is_closed p then b else store_user_position (f p) p b) ps b)"
proof (induction ps arbitrary: b)
  case (Cons p ps)
  show ?case using Cons[of "store_user_position (f p) p b"] Cons[of b]
    by (auto intro: same_trades_trans[OF store_user_position_same])
qed simp

lemma recover_state_same: "same_trades b (fst (recover_state io now user b))"
  using recover_fold_same
  by (auto simp: recover_state_def andthen_def on_store_def load_positions_def statement_def
      split: prod.splits sum.splits)

lemma bot_step_same:
  assumes "bot_step env b c"
  shows "same_trades b c"
  using assms
proof (cases rule: bot_step.cases)
  case (monitor now ans)
  then show ?thesis by (simp add: monitor_cycle_effect same_trades_def)
next
  case (scan a)
  obtain b1 r where "scan_cycle env a b = (b1, r)" by force
  with scan_cycle_same[OF this] scan show ?thesis
    by (auto simp: scan_turn_def same_trades_def split: sum.splits)
next
  case (recover io now user)
  then show ?thesis by (simp add: recover_state_same)
next
  case (pause now key reason scope)
  then show ?thesis by (auto simp: pause_bot_def same_trades_def pause_key split: sum.splits)
next
  case (resume now key)
  then show ?thesis by (auto simp: resume_bot_def same_trades_def resume_key split: sum.splits)
next
  case (kill unlink now k)
  then show ?thesis
    by (auto simp: kw_turn_def check_kill_switch_def on_kill_switch_triggered_def pause_bot_def
        same_trades_def pause_key Let_def split: sum.splits prod.splits)
qed

lemma bot_reach_same: "bot_reach env b0 b \<Longrightarrow> same_trades b0 b"
  by (induction rule: bot_reach.induct) (auto intro: same_trades_trans bot_step_same)

lemma exit_unregistered:
  assumes "pm_positions (bt_manager b) = []"
  shows "execute_exit env a p reason b = b"
  using assms
  by (simp add: execute_exit_def catching_def andthen_def on_manager_def close_position_def fail_at_def
      dict_get_def)

lemma setup_fields [simp]:
  "bt_manager (setup_bot cfg key temp rl sz d m db) = m"
  "bt_config (setup_bot cfg key temp rl sz d m db) = cfg"
  "bt_settings_key (setup_bot cfg key temp rl sz d m db) = key"
  "bt_store (setup_bot cfg key temp rl sz d m db) = setup_db db"
  by (simp_all add: setup_bot_def Let_def)

lemma api_key_same: "bt_config c = bt_config b \<Longrightarrow> bt_settings_key c = bt_settings_key b \<Longrightarrow> api_key_of c = api_key_of b"
  by (simp add: api_key_of_def split: option.splits)

lemma setup_key:
  "admin_api_key (bt_controller (setup_bot cfg key temp rl sz d m db)) =
     (let k = api_key_of (setup_bot cfg key temp rl sz d m db) in if k = [] then temp else k)"
proof -
  have key: "api_key_of (setup_bot cfg key temp rl sz d m db)
    = (case config_api_key cfg of None \<Rightarrow> key | Some k \<Rightarrow> if k = [] then key else k)"
    by (simp add: api_key_of_def split: option.splits)
  show ?thesis unfolding key
    by (simp add: setup_bot_def api_key_of_def controller_init_def Let_def split: option.splits)
qed

lemma everything_blocked:
  "paused c \<Longrightarrow> pause_scope c = ALL_OPS \<Longrightarrow> \<not> can_execute c opn"
  by (auto simp: can_execute_def blocked_scopes_def)

lemma kill_callback_pauses:
  assumes "api_key_of b \<noteq> []" and "admin_api_key (bt_controller b) = api_key_of b"
    and "b1 = on_kill_switch_triggered now reason b"
  shows "paused (bt_controller b1) \<and> pause_scope (bt_controller b1) = ALL_OPS"
  using assms
  by (simp add: on_kill_switch_triggered_def pause_bot_def PauseController.pause_def call_pause_callbacks_def)

lemma kill_callback_without_key: "api_key_of b = [] \<Longrightarrow> on_kill_switch_triggered now reason b = b"
  by (simp add: on_kill_switch_triggered_def)

lemma kw_turn_found:
  assumes "kw_is_running k" "kw_registered k" "kw_file k \<noteq> Missing"
  shows "kw_turn (Inr ()) now k b =
     (k\<lparr>kw_file := Missing, kw_running := False, kw_task := False\<rparr>,
      on_kill_switch_triggered now (file_reason (kw_file k)) b)"
  using assms by (simp add: kw_turn_def check_kill_switch_def)

section \<open>Properties\<close>

text \<open>A monitoring cycle never exits a position and never changes anything but the breakers:
  evaluating any position raises before the first exit condition is reached, and while the bot is
  paused not even the recovery of the breakers runs.\<close>

theorem monitor_cycle_never_exits:
  "monitor_cycle env now ans b =
     (if paused (bt_controller b) then b
      else b\<lparr>bt_controller := fst (check_and_recover now (bt_controller b))\<rparr>)"
  by (rule monitor_cycle_effect)

text \<open>A scan never opens a position: whatever the venues answer, the positions, the position
  manager with its calls to the venues, the stored positions and the count of opened positions stay as
  they are, because no opportunity of the detector has passed the pre-flight checks and the bot does
  not run them.\<close>

theorem scan_never_opens:
  "let c = fst (scan_cycle env a b) in
     bt_manager c = bt_manager b \<and> bt_positions c = bt_positions b \<and> bt_store c = bt_store b \<and>
     positions_opened (bt_stats c) = positions_opened (bt_stats b)"
  using scan_cycle_same[of env a b "fst (scan_cycle env a b)" "snd (scan_cycle env a b)"]
  by (simp add: Let_def same_trades_def)

text \<open>C2: The running bot never trades: from its setup on, over any interleaving of its loops, its
  recovery, its administration and its kill switch, no call reaches a venue through the position manager
  and nothing is stored or counted as opened or closed; and positions recovered from the store cannot
  be closed, since the manager does not know them.\<close>

theorem bot_never_trades:
  assumes "bot_reach env (setup_bot cfg key temp rl sz d m db) b" and "pm_positions m = []"
  shows "bt_manager b = m \<and> bt_store b = setup_db db \<and> positions_opened (bt_stats b) = 0 \<and>
     positions_closed (bt_stats b) = 0 \<and> (\<forall>a p reason. execute_exit env a p reason b = b)"
proof -
  note same = bot_reach_same[OF assms(1), unfolded same_trades_def, simplified]
  have "bt_stats (setup_bot cfg key temp rl sz d m db) = stats_init" by (simp add: setup_bot_def Let_def)
  with same assms(2) show ?thesis by (simp add: stats_init_def exit_unregistered)
qed

text \<open>C30: The kill switch pauses the bot exactly when an API key is configured: in every state
  reached from the setup, a turn that finds the file pauses everything if there is a key and otherwise
  leaves the bot running; in both cases the file is consumed (when it can be removed) and the switch
  stops looking.\<close>

theorem kill_switch_needs_key:
  assumes "bot_reach env (setup_bot cfg key temp rl sz d m db) b"
    and "kw_is_running k" "kw_registered k" "kw_file k \<noteq> Missing"
    and "kw_turn (Inr ()) now k b = (k1, b1)"
  shows "kw_file k1 = Missing \<and> \<not> kw_is_running k1 \<and>
     (if api_key_of (setup_bot cfg key temp rl sz d m db) = [] then b1 = b
      else paused (bt_controller b1) \<and> pause_scope (bt_controller b1) = ALL_OPS \<and>
           (\<forall>opn. \<not> can_execute (bt_controller b1) opn))"
proof -
  note same = bot_reach_same[OF assms(1), unfolded same_trades_def]
  have k: "api_key_of b = api_key_of (setup_bot cfg key temp rl sz d m db)"
    using same by (intro api_key_same) simp_all
  have a: "admin_api_key (bt_controller b) = (if api_key_of b = [] then temp else api_key_of b)"
    using same by (simp add: setup_key k Let_def)
  have t: "k1 = k\<lparr>kw_file := Missing, kw_running := False, kw_task := False\<rparr>"
    "b1 = on_kill_switch_triggered now (file_reason (kw_file k)) b"
    using assms(5) kw_turn_found[OF assms(2-4)] by simp_all
  show ?thesis
  proof (cases "api_key_of b = []")
    case True
    then show ?thesis by (simp add: t k[symmetric] kill_callback_without_key kw_is_running_def)
  next
    case False
    with a have "admin_api_key (bt_controller b) = api_key_of b" by simp
    from kill_callback_pauses[OF False this t(2)] False show ?thesis
      by (simp add: t(1) k[symmetric] kw_is_running_def everything_blocked)
  qed
qed

section \<open>Instances\<close>

definition wit_env :: bot_env where
  "wit_env = \<lparr>en_api = wit_api False, en_asgard = wit_am, en_limits = wit_limits\<rparr>"

definition wit_bot :: "string \<Rightarrow> bot" where
  "wit_bot key = setup_bot default_config key ''temp'' \<lparr>rl_min_health_factor = None,
     rl_emergency_health_factor = None, rl_critical_health_factor = None, rl_margin_fraction_threshold = None\<rparr>
     wit_sizer wit_detector (wit_manager\<lparr>pm_positions := []\<rparr>) wit_db"

lemma wit_bot_runs: "bot_reach wit_env (wit_bot key) (fst (recover_state (Inr ()) 0 None (wit_bot key)))"
  by (rule bot_reach.step[OF bot_reach.start bot_step.recover])

theorem bot_never_trades_witness:
  "let b = fst (recover_state (Inr ()) 0 None (wit_bot ''k'')) in
     pm_positions (bt_manager b) = [] \<and> positions_closed (bt_stats b) = 0"
proof -
  have empty: "pm_positions (wit_manager\<lparr>pm_positions := []\<rparr>) = []" by simp
  define b where "b = fst (recover_state (Inr ()) 0 None (wit_bot ''k''))"
  have "bot_reach wit_env (wit_bot ''k'') b" unfolding b_def by (rule wit_bot_runs)
  note same = bot_never_trades[OF this[unfolded wit_bot_def] empty]
  have "bt_manager b = wit_manager\<lparr>pm_positions := []\<rparr>"
    by (rule same[THEN conjunct1])
  moreover have "positions_closed (bt_stats b) = 0"
    by (rule same[THEN conjunct2, THEN conjunct2, THEN conjunct2, THEN conjunct1])
  ultimately
  show ?thesis by (simp only: b_def[symmetric] Let_def empty simp_thms)
qed

theorem kill_switch_needs_key_witness:
  "let k = kw_start (kw_on_triggered (kill_switch_init (Content ''stop''))) in
     snd (kw_turn (Inr ()) 5 k (fst (recover_state (Inr ()) 0 None (wit_bot []))))
       = fst (recover_state (Inr ()) 0 None (wit_bot [])) \<and>
     paused (bt_controller (snd (kw_turn (Inr ()) 5 k (fst (recover_state (Inr ()) 0 None (wit_bot ''k''))))))"
proof -
  let ?k = "kw_start (kw_on_triggered (kill_switch_init (Content ''stop'')))"
  have k: "kw_is_running ?k" "kw_registered ?k" "kw_file ?k \<noteq> Missing"
    by (simp_all add: kw_start_def kw_on_triggered_def kill_switch_init_def kw_is_running_def)
  have key: "api_key_of (wit_bot x) = x" for x
    by (simp add: wit_bot_def api_key_of_def default_config_def)
  obtain k1 b1 k2 b2 where t: "kw_turn (Inr ()) 5 ?k (fst (recover_state (Inr ()) 0 None (wit_bot []))) = (k1, b1)"
    "kw_turn (Inr ()) 5 ?k (fst (recover_state (Inr ()) 0 None (wit_bot ''k''))) = (k2, b2)" by force
  note a = kill_switch_needs_key[OF wit_bot_runs[of "[]", unfolded wit_bot_def] k
      t(1)[unfolded wit_bot_def], folded wit_bot_def]
  note b = kill_switch_needs_key[OF wit_bot_runs[of "''k''", unfolded wit_bot_def] k
      t(2)[unfolded wit_bot_def], folded wit_bot_def]
  from a b show ?thesis by (simp add: t Let_def key)
qed

end
