(* ===== verification/UserRisk.thy ===== *)
theory UserRisk
  imports Prelude
begin

text \<open>
  Per-user risk limits (\<open>bot/core/user_risk_manager.py\<close>, with the limits of
  \<open>shared/config/strategy_defaults.py\<close>): drawdown against a high-water mark, the daily trade
  limit and the consecutive-failure circuit breaker.

  The two tables the class writes, \<open>user_risk_tracking\<close> and \<open>user_strategy_config\<close>,
  are maps from the user to the columns used; every statement of the class is the update written
  here. The \<open>NUMERIC\<close> balances hold the rational they were given (a sum or product that
  PostgreSQL computes is exact up to its display scale, which is not modelled). \<open>now\<close> is
  \<open>datetime.utcnow()\<close>, \<open>today\<close> is \<open>date.today()\<close> and, in the default of a new
  row, \<open>CURRENT_DATE\<close>; \<open>NOW()\<close> of \<open>updated_at\<close> is left out.
\<close>

record risk_row =
  peak_balance_usd :: rat
  current_balance_usd :: rat
  daily_trade_count :: int
  daily_trade_date :: "int option"
  consecutive_failures :: int
  last_failure_reason :: "string option"
  last_failure_at :: "datetime option"

datatype pause_cause = DrawdownLimit pyfloat | CircuitBreaker int string | UserRequested | EmergencyCloseAll

record strategy_pause =
  sp_paused_at :: datetime
  sp_paused_reason :: pause_cause

record risk_db =
  risk_tracking :: "user_id \<rightharpoonup> risk_row"
  strategy_pauses :: "user_id \<rightharpoonup> strategy_pause"

definition RISK_MAX_DRAWDOWN_PCT :: pyfloat where "RISK_MAX_DRAWDOWN_PCT = 20"
definition RISK_MAX_DAILY_TRADES :: int where "RISK_MAX_DAILY_TRADES = 20"
definition RISK_CIRCUIT_BREAKER_FAILURES :: int where "RISK_CIRCUIT_BREAKER_FAILURES = 3"

section \<open>Helpers of the class\<close>

definition update_risk :: "user_id \<Rightarrow> (risk_row \<Rightarrow> risk_row) \<Rightarrow> risk_db \<Rightarrow> risk_db" where
  "update_risk u f db = db\<lparr>risk_tracking := map_adjust u f (risk_tracking db)\<rparr>"

definition upsert_risk_row :: "int \<Rightarrow> user_id \<Rightarrow> rat option \<Rightarrow> rat option \<Rightarrow> risk_db \<Rightarrow> risk_db" where
  "upsert_risk_row today u peak current db =
     (case risk_tracking db u of
        Some _ \<Rightarrow> db
      | None \<Rightarrow> db\<lparr>risk_tracking := (risk_tracking db)(u \<mapsto>
          \<lparr>peak_balance_usd = (case peak of None \<Rightarrow> 0 | Some p \<Rightarrow> p),
           current_balance_usd = (case current of None \<Rightarrow> 0 | Some c \<Rightarrow> c),
           daily_trade_count = 0, daily_trade_date = Some today, consecutive_failures = 0,
           last_failure_reason = None, last_failure_at = None\<rparr>)\<rparr>)"

definition pause_for_risk :: "datetime \<Rightarrow> user_id \<Rightarrow> pause_cause \<Rightarrow> risk_db \<Rightarrow> risk_db" where
  "pause_for_risk now u cause db =
     db\<lparr>strategy_pauses := (strategy_pauses db)(u \<mapsto>
         \<lparr>sp_paused_at = now, sp_paused_reason = cause\<rparr>)\<rparr>"

section \<open>Drawdown\<close>

definition drawdown_pct :: "pyfloat \<Rightarrow> pyfloat \<Rightarrow> pyfloat" where
  "drawdown_pct peak current = flt (flt (flt (peak - current) / peak) * 100)"

definition check_drawdown ::
  "datetime \<Rightarrow> int \<Rightarrow> user_id \<Rightarrow> pyfloat \<Rightarrow> risk_db \<Rightarrow> risk_db \<times> bool" where
  "check_drawdown now today u balance db =
     (case risk_tracking db u of
        None \<Rightarrow> (upsert_risk_row today u (Some balance) (Some balance) db, True)
      | Some row \<Rightarrow>
          if flt (peak_balance_usd row) \<le> 0
          then (upsert_risk_row today u (Some balance) (Some balance) db, True)
          else let peak = flt (peak_balance_usd row);
                   db1 = update_risk u (\<lambda>r. r\<lparr>current_balance_usd := balance\<rparr>) db
               in if balance > peak
                  then (update_risk u (\<lambda>r. r\<lparr>peak_balance_usd := balance\<rparr>) db1, True)
                  else if peak > 0
                  then (let dd = drawdown_pct peak balance
                        in if dd \<ge> RISK_MAX_DRAWDOWN_PCT
                           then (pause_for_risk now u (DrawdownLimit dd) db1, False)
                           else (db1, True))
                  else (db1, True))"

definition update_peak_on_deposit :: "user_id \<Rightarrow> pyfloat \<Rightarrow> risk_db \<Rightarrow> risk_db" where
  "update_peak_on_deposit u amount db =
     update_risk u (\<lambda>r. r\<lparr>peak_balance_usd := peak_balance_usd r + amount,
                          current_balance_usd := current_balance_usd r + amount\<rparr>) db"

definition update_peak_on_withdrawal :: "user_id \<Rightarrow> pyfloat \<Rightarrow> pyfloat \<Rightarrow> risk_db \<Rightarrow> risk_db" where
  "update_peak_on_withdrawal u before after db =
     (if before \<le> 0 then db
      else let ratio = flt (after / before)
           in update_risk u (\<lambda>r. r\<lparr>peak_balance_usd := peak_balance_usd r * ratio,
                                  current_balance_usd := after\<rparr>) db)"

section \<open>Daily trades\<close>

definition check_daily_trade_limit :: "int \<Rightarrow> user_id \<Rightarrow> risk_db \<Rightarrow> risk_db \<times> bool" where
  "check_daily_trade_limit today u db =
     (case risk_tracking db u of
        None \<Rightarrow> (db, True)
      | Some row \<Rightarrow>
          if (case daily_trade_date row of None \<Rightarrow> True | Some d \<Rightarrow> d < today)
          then (update_risk u (\<lambda>r. r\<lparr>daily_trade_count := 0, daily_trade_date := Some today\<rparr>) db, True)
          else (db, daily_trade_count row < RISK_MAX_DAILY_TRADES))"

definition record_trade :: "int \<Rightarrow> user_id \<Rightarrow> risk_db \<Rightarrow> risk_db" where
  "record_trade today u db =
     update_risk u (\<lambda>r. r\<lparr>daily_trade_count :=
           (if daily_trade_date r = Some today then daily_trade_count r + 1 else 1),
         daily_trade_date := Some today, consecutive_failures := 0,
         last_failure_reason := None\<rparr>)
       (upsert_risk_row today u None None db)"

section \<open>Consecutive failures\<close>

definition record_failure ::
  "datetime \<Rightarrow> int \<Rightarrow> user_id \<Rightarrow> string \<Rightarrow> risk_db \<Rightarrow> risk_db \<times> bool" where
  "record_failure now today u reason db =
     (let db1 = update_risk u (\<lambda>r. r\<lparr>consecutive_failures := consecutive_failures r + 1,
                   last_failure_reason := Some reason, last_failure_at := Some now\<rparr>)
                 (upsert_risk_row today u None None db)
      in case risk_tracking db1 u of
           None \<Rightarrow> (db1, True)
         | Some row \<Rightarrow>
             if consecutive_failures row \<ge> RISK_CIRCUIT_BREAKER_FAILURES
             then (pause_for_risk now u (CircuitBreaker (consecutive_failures row) reason) db1, False)
             else (db1, True))"

definition record_success :: "int \<Rightarrow> user_id \<Rightarrow> risk_db \<Rightarrow> risk_db" where
  "record_success today u db =
     update_risk u (\<lambda>r. r\<lparr>consecutive_failures := 0, last_failure_reason := None\<rparr>)
       (upsert_risk_row today u None None db)"

section \<open>Dashboard status\<close>

text \<open>\<open>round(x, 2)\<close> on a float is correctly rounded.\<close>

definition round2 :: "pyfloat \<Rightarrow> pyfloat" where
  "round2 x = flt (of_int (round_half_even (x * 100)) / 100)"

record risk_status =
  rst_drawdown_pct :: pyfloat
  rst_peak_balance_usd :: pyfloat
  rst_daily_trades :: int
  rst_daily_trade_limit :: int
  rst_consecutive_failures :: int
  rst_last_failure_reason :: "string option option"

definition get_risk_status :: "user_id \<Rightarrow> risk_db \<Rightarrow> risk_status" where
  "get_risk_status u db =
     (case risk_tracking db u of
        None \<Rightarrow> \<lparr>rst_drawdown_pct = 0, rst_peak_balance_usd = 0, rst_daily_trades = 0,
                 rst_daily_trade_limit = RISK_MAX_DAILY_TRADES, rst_consecutive_failures = 0,
                 rst_last_failure_reason = None\<rparr>
      | Some r \<Rightarrow>
          let peak = flt (peak_balance_usd r);
              current = flt (current_balance_usd r);
              drawdown = (if peak > 0 then drawdown_pct peak current else 0)
          in \<lparr>rst_drawdown_pct = round2 drawdown, rst_peak_balance_usd = round2 peak,
              rst_daily_trades = daily_trade_count r,
              rst_daily_trade_limit = RISK_MAX_DAILY_TRADES,
              rst_consecutive_failures = consecutive_failures r,
              rst_last_failure_reason = Some (last_failure_reason r)\<rparr>)"

section \<open>Lemmas\<close>

lemma update_risk_lookup [simp]:
  "risk_tracking (update_risk u f db) v =
     (if v = u then map_option f (risk_tracking db u) else risk_tracking db v)"
  "strategy_pauses (update_risk u f db) = strategy_pauses db"
  by (simp_all add: update_risk_def map_adjust_same)

lemma upsert_pauses [simp]: "strategy_pauses (upsert_risk_row today u p c db) = strategy_pauses db"
  by (simp add: upsert_risk_row_def split: option.splits)

lemma upsert_other [simp]: "v \<noteq> u \<Longrightarrow> risk_tracking (upsert_risk_row today u p c db) v = risk_tracking db v"
  by (simp add: upsert_risk_row_def split: option.splits)

lemma upsert_some: "\<exists>r. risk_tracking (upsert_risk_row today u p c db) u = Some r"
  by (simp add: upsert_risk_row_def split: option.splits)

lemma pause_for_risk_simps [simp]:
  "risk_tracking (pause_for_risk now u cause db) = risk_tracking db"
  "strategy_pauses (pause_for_risk now u cause db) =
     (strategy_pauses db)(u \<mapsto> \<lparr>sp_paused_at = now, sp_paused_reason = cause\<rparr>)"
  by (simp_all add: pause_for_risk_def)

text \<open>The failure counter of a user; a missing row counts as none.\<close>

definition failures :: "risk_db \<Rightarrow> user_id \<Rightarrow> int" where
  "failures db u = (case risk_tracking db u of None \<Rightarrow> 0 | Some r \<Rightarrow> consecutive_failures r)"

definition trades_today :: "int \<Rightarrow> risk_db \<Rightarrow> user_id \<Rightarrow> int" where
  "trades_today today db u =
     (case risk_tracking db u of
        None \<Rightarrow> 0
      | Some r \<Rightarrow> if daily_trade_date r = Some today then daily_trade_count r else 0)"

lemma failures_upsert [simp]: "failures (upsert_risk_row today u p c db) v = failures db v"
  by (simp add: failures_def upsert_risk_row_def split: option.splits)

lemma failures_record_failure:
  "failures (fst (record_failure now today u reason db)) v = failures db v + (if v = u then 1 else 0)"
proof -
  obtain r where r: "risk_tracking (upsert_risk_row today u None None db) u = Some r"
    using upsert_some by blast
  have "failures db u = consecutive_failures r"
    using failures_upsert[of today u None None db u] r by (simp add: failures_def)
  moreover have "failures db v = (case risk_tracking db v of None \<Rightarrow> 0 | Some r \<Rightarrow> consecutive_failures r)"
    by (simp add: failures_def)
  ultimately show ?thesis
    by (simp add: record_failure_def Let_def r failures_def)
qed

lemma record_failure_ok:
  "snd (record_failure now today u reason db) \<longleftrightarrow> failures db u + 1 < RISK_CIRCUIT_BREAKER_FAILURES"
proof -
  obtain r where r: "risk_tracking (upsert_risk_row today u None None db) u = Some r"
    using upsert_some by blast
  have "failures db u = consecutive_failures r"
    using failures_upsert[of today u None None db u] r by (simp add: failures_def)
  then show ?thesis by (simp add: record_failure_def Let_def r)
qed

lemma failures_record_trade [simp]:
  "failures (record_trade today u db) v = (if v = u then 0 else failures db v)"
  using upsert_some[of today u None None db]
  by (auto simp: record_trade_def failures_def)

lemma failures_record_success [simp]:
  "failures (record_success today u db) v = (if v = u then 0 else failures db v)"
  using upsert_some[of today u None None db]
  by (auto simp: record_success_def failures_def)

lemma trades_record_trade:
  "trades_today today (record_trade today u db) v = trades_today today db v + (if v = u then 1 else 0)"
  by (auto simp: record_trade_def trades_today_def upsert_risk_row_def split: option.splits)

lemma trades_check_limit:
  "trades_today today (fst (check_daily_trade_limit today u db)) v = trades_today today db v"
  by (auto simp: check_daily_trade_limit_def trades_today_def split: option.splits)

section \<open>Runs\<close>

text \<open>The events that touch the failure counter of a user.\<close>

datatype risk_event = Failure datetime string | Success | Trade

fun risk_step :: "int \<Rightarrow> user_id \<Rightarrow> risk_event \<Rightarrow> risk_db \<Rightarrow> risk_db" where
  "risk_step today u (Failure now r) db = fst (record_failure now today u r db)"
| "risk_step today u Success db = record_success today u db"
| "risk_step today u Trade db = record_trade today u db"

fun trailing_failures :: "risk_event list \<Rightarrow> int" where
  "trailing_failures [] = 0"
| "trailing_failures (e # es) = (case e of Failure _ _ \<Rightarrow> 1 + trailing_failures es | _ \<Rightarrow> 0)"

lemma failures_risk_step:
  "failures (risk_step today u e db) u = (case e of Failure _ _ \<Rightarrow> failures db u + 1 | _ \<Rightarrow> 0)"
  by (cases e) (simp_all add: failures_record_failure)

lemma failures_run:
  assumes "failures db u = 0"
  shows "failures (fold (risk_step today u) es db) u = trailing_failures (rev es)"
proof (induction es rule: rev_induct)
  case (snoc e es)
  then show ?case by (cases e) (simp_all add: failures_record_failure)
qed (simp add: assms)

text \<open>A caller that checks the limit before each trade, as the scanner does; \<open>True\<close> in the
  result list marks a trade.\<close>

fun guarded_trades :: "int \<Rightarrow> user_id \<Rightarrow> nat \<Rightarrow> risk_db \<Rightarrow> risk_db \<times> bool list" where
  "guarded_trades today u 0 db = (db, [])"
| "guarded_trades today u (Suc n) db =
     (let (db1, ok) = check_daily_trade_limit today u db;
          db2 = (if ok then record_trade today u db1 else db1);
          (db3, oks) = guarded_trades today u n db2
      in (db3, ok # oks))"

lemma check_limit_ok:
  "snd (check_daily_trade_limit today u db) \<Longrightarrow> trades_today today db u < RISK_MAX_DAILY_TRADES"
  by (auto simp: check_daily_trade_limit_def trades_today_def RISK_MAX_DAILY_TRADES_def
      split: option.splits if_splits)

lemma guarded_trades_bound:
  assumes "trades_today today db u \<le> RISK_MAX_DAILY_TRADES"
  shows "trades_today today db u + int (length (filter id (snd (guarded_trades today u n db))))
       \<le> RISK_MAX_DAILY_TRADES"
  using assms
proof (induction n arbitrary: db)
  case (Suc n)
  obtain db1 ok where c: "check_daily_trade_limit today u db = (db1, ok)" by force
  define db2 where "db2 = (if ok then record_trade today u db1 else db1)"
  have t1: "trades_today today db1 u = trades_today today db u"
    using trades_check_limit[of today u db u] c by simp
  have t2: "trades_today today db2 u = trades_today today db u + (if ok then 1 else 0)"
    by (simp add: db2_def trades_record_trade t1)
  have "trades_today today db2 u \<le> RISK_MAX_DAILY_TRADES"
    using check_limit_ok[of today u db] c Suc.prems by (auto simp: t2)
  from Suc.IH[OF this] show ?case
    by (simp add: c db2_def[symmetric] t2 split: prod.splits) (auto split: if_splits)
qed simp

lemma drawdown_pct_mono:
  assumes "0 < peak" "c \<le> c'"
  shows "drawdown_pct peak c' \<le> drawdown_pct peak c"
  unfolding drawdown_pct_def using assms
  by (intro flt.rnd_mono mult_right_mono divide_right_mono) auto

section \<open>Properties\<close>

text \<open>C34: The circuit breaker trips exactly on the third failure in a row: after any sequence of
  failures, successes and trades of a user without earlier failures, recording one more failure
  reports a trip exactly when the trailing run of failures (this one included) has length at least
  3, and then the user is paused with that cause; no other user is paused by it.\<close>

theorem circuit_breaker_trips_on_third_failure:
  assumes "failures db u = 0"
  shows "let db1 = fold (risk_step today u) es db;
             n = trailing_failures (rev es) + 1;
             (db2, ok) = record_failure now today u reason db1
         in (ok \<longleftrightarrow> n < 3) \<and>
            strategy_pauses db2 = (if ok then strategy_pauses db1
              else (strategy_pauses db1)(u \<mapsto>
                \<lparr>sp_paused_at = now, sp_paused_reason = CircuitBreaker n reason\<rparr>))"
proof -
  define db1 where "db1 = fold (risk_step today u) es db"
  obtain db2 ok where rf: "record_failure now today u reason db1 = (db2, ok)" by force
  obtain r where r: "risk_tracking (upsert_risk_row today u None None db1) u = Some r"
    using upsert_some by blast
  have f: "failures db1 u = trailing_failures (rev es)"
    unfolding db1_def by (rule failures_run[OF assms])
  have fr: "failures db1 u = consecutive_failures r"
    using failures_upsert[of today u None None db1 u] r by (simp add: failures_def)
  have "ok \<longleftrightarrow> trailing_failures (rev es) + 1 < 3"
    using record_failure_ok[of now today u reason db1] rf f
    by (simp add: RISK_CIRCUIT_BREAKER_FAILURES_def)
  moreover have "strategy_pauses db2 = (if ok then strategy_pauses db1
      else (strategy_pauses db1)(u \<mapsto> \<lparr>sp_paused_at = now,
        sp_paused_reason = CircuitBreaker (trailing_failures (rev es) + 1) reason\<rparr>))"
    using rf f fr by (auto simp: record_failure_def Let_def r split: if_splits)
  ultimately show ?thesis by (simp add: db1_def[symmetric] rf)
qed

definition wit_risk_db :: risk_db where
  "wit_risk_db = \<lparr>risk_tracking = Map.empty, strategy_pauses = Map.empty\<rparr>"

theorem circuit_breaker_trips_on_third_failure_witness:
  "\<not> snd (record_failure 9 0 ''u'' ''e'' (fold (risk_step 0 ''u'')
       [Failure 1 ''a'', Success, Failure 2 ''b'', Failure 3 ''c''] wit_risk_db))"
proof -
  have "failures wit_risk_db ''u'' = 0" by (simp add: failures_def wit_risk_db_def)
  from circuit_breaker_trips_on_third_failure[OF this, where today = 0 and now = 9 and reason = "''e''"
      and es = "[Failure 1 ''a'', Success, Failure 2 ''b'', Failure 3 ''c'']"]
  show ?thesis by (auto simp: Let_def)
qed

text \<open>A caller that asks \<open>check_daily_trade_limit\<close> before each trade never makes more than
  20 trades of a user in a day, counting those already recorded that day.\<close>

theorem daily_trades_bounded:
  assumes "trades_today today db u \<le> 20"
  shows "trades_today today db u + int (length (filter id (snd (guarded_trades today u n db)))) \<le> 20"
  using guarded_trades_bound[of today db u n] assms by (simp add: RISK_MAX_DAILY_TRADES_def)

theorem daily_trades_bounded_witness:
  "int (length (filter id (snd (guarded_trades 3 ''u'' 30 wit_risk_db)))) \<le> 20"
proof -
  have t: "trades_today 3 wit_risk_db ''u'' = 0" by (simp add: trades_today_def wit_risk_db_def)
  then have "trades_today 3 wit_risk_db ''u'' \<le> 20" by simp
  from daily_trades_bounded[OF this, of 30] t show ?thesis by simp
qed

text \<open>The drawdown guard: with a tracked positive peak, the check fails exactly when the balance is
  not above the peak and the (rounded) drawdown is at least 20 percent; failing pauses the user; in
  every case the recorded peak afterwards is the larger of the old peak and the balance.\<close>

theorem drawdown_guard:
  assumes "risk_tracking db u = Some row" and "flt (peak_balance_usd row) = peak_balance_usd row"
    and "0 < peak_balance_usd row"
  shows "let (db', ok) = check_drawdown now today u balance db
         in (ok \<longleftrightarrow> balance > peak_balance_usd row \<or> drawdown_pct (peak_balance_usd row) balance < 20) \<and>
            (\<not> ok \<longrightarrow> strategy_pauses db' u = Some \<lparr>sp_paused_at = now,
               sp_paused_reason = DrawdownLimit (drawdown_pct (peak_balance_usd row) balance)\<rparr>) \<and>
            map_option peak_balance_usd (risk_tracking db' u) = Some (max (peak_balance_usd row) balance) \<and>
            map_option current_balance_usd (risk_tracking db' u) = Some balance"
  using assms
  by (auto simp: check_drawdown_def Let_def RISK_MAX_DRAWDOWN_PCT_def max_def)

definition wit_row :: risk_row where
  "wit_row = \<lparr>peak_balance_usd = 1000, current_balance_usd = 1000, daily_trade_count = 0,
     daily_trade_date = Some 0, consecutive_failures = 0, last_failure_reason = None,
     last_failure_at = None\<rparr>"

theorem drawdown_guard_witness:
  "\<not> snd (check_drawdown 5 0 ''u'' 800 (wit_risk_db\<lparr>risk_tracking := [''u'' \<mapsto> wit_row]\<rparr>))"
proof -
  let ?db = "wit_risk_db\<lparr>risk_tracking := [''u'' \<mapsto> wit_row]\<rparr>"
  have a: "risk_tracking ?db ''u'' = Some wit_row" "flt (peak_balance_usd wit_row) = peak_balance_usd wit_row"
    "0 < peak_balance_usd wit_row" by (simp_all add: wit_row_def)
  have "drawdown_pct (peak_balance_usd wit_row) 800 = 20" "peak_balance_usd wit_row = 1000" by code_simp+
  with drawdown_guard[OF a, of 5 0 800] show ?thesis by (auto split: prod.splits)
qed

text \<open>A row that exists without a positive peak (as \<open>record_trade\<close> and
  \<open>record_failure\<close> create it) is never initialised: every later drawdown check of that user
  passes and changes nothing, whatever the balance.\<close>

theorem drawdown_never_initialised:
  assumes "risk_tracking db u = Some row" and "peak_balance_usd row \<le> 0"
  shows "check_drawdown now today u balance db = (db, True)"
  using assms by (simp add: check_drawdown_def upsert_risk_row_def)

theorem drawdown_never_initialised_witness:
  "check_drawdown 5 0 ''u'' (-500) (record_trade 0 ''u'' wit_risk_db) = (record_trade 0 ''u'' wit_risk_db, True)"
proof -
  obtain row where r: "risk_tracking (record_trade 0 ''u'' wit_risk_db) ''u'' = Some row"
    and p: "peak_balance_usd row \<le> 0"
    by (simp add: record_trade_def upsert_risk_row_def wit_risk_db_def)
  from drawdown_never_initialised[OF r p] show ?thesis .
qed

end
