(* ===== verification/LstMonitor.thy ===== *)
theory LstMonitor
  imports Models
begin

text \<open>
  The LST peg monitor (\<open>bot/core/lst_monitor.py\<close>): premium and discount thresholds, alert
  callbacks (identifiers; a call appends to \<open>lm_calls\<close>, what a callback raises is caught) and
  the delta of a position corrected for the peg. Log texts are not modelled.
\<close>

datatype peg_status = PegNormal | PegWarning | PegCritical

record peg_check_result =
  lst_asset :: asset
  pc_lst_price_usd :: decimal
  pc_sol_price_usd :: decimal
  premium_pct :: decimal
  peg_status :: peg_status
  warning_threshold_crossed :: "string option"
  critical_threshold_crossed :: "string option"
  pc_timestamp :: datetime

definition is_depegged :: "peg_check_result \<Rightarrow> bool" where
  "is_depegged r = (peg_status r \<noteq> PegNormal)"

definition is_critical_peg :: "peg_check_result \<Rightarrow> bool" where
  "is_critical_peg r = (peg_status r = PegCritical)"

definition is_premium :: "peg_check_result \<Rightarrow> bool" where
  "is_premium r = (premium_pct r > 0)"

definition is_discount :: "peg_check_result \<Rightarrow> bool" where
  "is_discount r = (premium_pct r < 0)"

datatype adjustment_reason = NotAnLst | LstPremium decimal | LstDiscount decimal | AtPeg

record lst_delta_adjustment =
  original_delta_usd :: decimal
  adjusted_delta_usd :: decimal
  adjustment_usd :: decimal
  adj_reason :: adjustment_reason

datatype peg_call = WarningCall nat peg_check_result | CriticalCall nat peg_check_result

record lst_monitor =
  warning_premium :: decimal
  critical_premium :: decimal
  warning_discount :: decimal
  critical_discount :: decimal
  warning_callbacks :: "nat list"
  critical_callbacks :: "nat list"
  lm_calls :: "peg_call list"

definition LST_ASSETS :: "asset list" where
  "LST_ASSETS = [JITOSOL, JUPSOL, INF_asset]"

definition lst_monitor_init ::
  "decimal option \<Rightarrow> decimal option \<Rightarrow> decimal option \<Rightarrow> decimal option \<Rightarrow> lst_monitor" where
  "lst_monitor_init wp cp wd cd =
     \<lparr>warning_premium = py_or wp (3/100), critical_premium = py_or cp (5/100),
      warning_discount = py_or wd (1/100), critical_discount = py_or cd (2/100),
      warning_callbacks = [], critical_callbacks = [], lm_calls = []\<rparr>"

definition add_warning_callback :: "nat \<Rightarrow> lst_monitor \<Rightarrow> lst_monitor" where
  "add_warning_callback k m = m\<lparr>warning_callbacks := warning_callbacks m @ [k]\<rparr>"

definition add_critical_callback :: "nat \<Rightarrow> lst_monitor \<Rightarrow> lst_monitor" where
  "add_critical_callback k m = m\<lparr>critical_callbacks := critical_callbacks m @ [k]\<rparr>"

definition classify_premium ::
  "lst_monitor \<Rightarrow> decimal \<Rightarrow> peg_status \<times> string option \<times> string option" where
  "classify_premium m p =
     (if p \<ge> critical_premium m then (PegCritical, None, Some ''premium'')
      else if p \<ge> warning_premium m then (PegWarning, Some ''premium'', None)
      else if p \<le> dec (- critical_discount m) then (PegCritical, None, Some ''discount'')
      else if p \<le> dec (- warning_discount m) then (PegWarning, Some ''discount'', None)
      else (PegNormal, None, None))"

definition notify_peg :: "peg_check_result \<Rightarrow> lst_monitor \<Rightarrow> lst_monitor" where
  "notify_peg r m =
     (case peg_status r of
        PegCritical \<Rightarrow> m\<lparr>lm_calls := lm_calls m @ map (\<lambda>k. CriticalCall k r) (critical_callbacks m)\<rparr>
      | PegWarning \<Rightarrow> m\<lparr>lm_calls := lm_calls m @ map (\<lambda>k. WarningCall k r) (warning_callbacks m)\<rparr>
      | PegNormal \<Rightarrow> m)"

definition check_lst_peg ::
  "datetime \<Rightarrow> asset \<Rightarrow> decimal \<Rightarrow> decimal \<Rightarrow> lst_monitor \<Rightarrow> exn + (lst_monitor \<times> peg_check_result)"
where
  "check_lst_peg now a lst_price sol_price m =
     (if a \<notin> set LST_ASSETS then Inl (ValueError ''not an LST'')
      else res_bind (ddiv lst_price sol_price) (\<lambda>q.
        let p = dec (q - 1);
            (st, w, c) = classify_premium m p;
            r = \<lparr>lst_asset = a, pc_lst_price_usd = lst_price, pc_sol_price_usd = sol_price,
                 premium_pct = p, peg_status = st, warning_threshold_crossed = w,
                 critical_threshold_crossed = c, pc_timestamp = now\<rparr>
        in Inr (notify_peg r m, r)))"

text \<open>The loop over the LST assets; the results keep the order of the loop.\<close>

fun check_pegs_from ::
  "datetime \<Rightarrow> asset list \<Rightarrow> (asset \<rightharpoonup> decimal) \<Rightarrow> decimal \<Rightarrow> lst_monitor
     \<Rightarrow> exn + (lst_monitor \<times> (asset \<times> peg_check_result) list)"
where
  "check_pegs_from now [] prices sol m = Inr (m, [])"
| "check_pegs_from now (a # as) prices sol m =
     (case prices a of
        None \<Rightarrow> check_pegs_from now as prices sol m
      | Some p \<Rightarrow>
          res_bind (check_lst_peg now a p sol m) (\<lambda>(m1, r).
          res_bind (check_pegs_from now as prices sol m1) (\<lambda>(m2, rs). Inr (m2, (a, r) # rs))))"

definition check_all_lst_pegs ::
  "datetime \<Rightarrow> (asset \<rightharpoonup> decimal) \<Rightarrow> lst_monitor \<Rightarrow> exn + (lst_monitor \<times> (asset \<times> peg_check_result) list)"
where
  "check_all_lst_pegs now prices m =
     (case prices SOL of
        None \<Rightarrow> Inl (ValueError ''SOL price required for peg checks'')
      | Some sol \<Rightarrow> check_pegs_from now LST_ASSETS prices sol m)"

definition calculate_effective_delta ::
  "asset \<Rightarrow> decimal \<Rightarrow> decimal \<Rightarrow> decimal \<Rightarrow> exn + lst_delta_adjustment" where
  "calculate_effective_delta a d lst_price sol_price =
     (if a \<notin> set LST_ASSETS
      then Inr \<lparr>original_delta_usd = d, adjusted_delta_usd = d, adjustment_usd = 0,
                adj_reason = NotAnLst\<rparr>
      else res_bind (ddiv lst_price sol_price) (\<lambda>ratio.
           res_bind (ddiv d ratio) (\<lambda>adjusted.
           let pct = dec (dec (ratio - 1) * 100)
           in Inr \<lparr>original_delta_usd = d, adjusted_delta_usd = adjusted,
                  adjustment_usd = dec (adjusted - d),
                  adj_reason = (if pct > 0 then LstPremium pct
                                else if pct < 0 then LstDiscount pct else AtPeg)\<rparr>)))"

definition should_emergency_close :: "peg_check_result \<Rightarrow> bool" where
  "should_emergency_close r = is_critical_peg r"

definition get_threshold_summary :: "lst_monitor \<Rightarrow> (string \<times> decimal) list" where
  "get_threshold_summary m =
     [(''warning_premium'', warning_premium m), (''critical_premium'', critical_premium m),
      (''warning_discount'', warning_discount m), (''critical_discount'', critical_discount m)]"

definition is_lst_asset :: "asset \<Rightarrow> bool" where
  "is_lst_asset a = (a \<in> set LST_ASSETS)"

section \<open>Lemmas\<close>

lemma is_lst_asset_metadata: "is_lst_asset a \<longleftrightarrow> is_lst (get_asset_metadata a)"
  by (cases a) (simp_all add: is_lst_asset_def LST_ASSETS_def)

lemma check_lst_peg_Inr:
  assumes "check_lst_peg now a lp sp m = Inr (m', r)"
  shows "is_lst_asset a" and "sp \<noteq> 0" and "premium_pct r = dec (dec (lp / sp) - 1)"
    and "(peg_status r, warning_threshold_crossed r, critical_threshold_crossed r)
       = classify_premium m (premium_pct r)"
    and "m' = notify_peg r m" and "lst_asset r = a"
  using assms
  by (auto simp: check_lst_peg_def is_lst_asset_def res_bind_Inr_iff ddiv_Inr_iff Let_def
      split: if_splits prod.splits)

lemma notify_peg_thresholds [simp]:
  "warning_premium (notify_peg r m) = warning_premium m"
  "critical_premium (notify_peg r m) = critical_premium m"
  "warning_discount (notify_peg r m) = warning_discount m"
  "critical_discount (notify_peg r m) = critical_discount m"
  by (simp_all add: notify_peg_def split: peg_status.splits)

text \<open>The specification's table: the status by how far the price is off the peg.\<close>

fun severity :: "peg_status \<Rightarrow> nat" where
  "severity PegNormal = 0"
| "severity PegWarning = 1"
| "severity PegCritical = 2"

definition thresholds_ok :: "lst_monitor \<Rightarrow> bool" where
  "thresholds_ok m \<longleftrightarrow>
     0 < warning_premium m \<and> warning_premium m \<le> critical_premium m \<and>
     0 < warning_discount m \<and> warning_discount m \<le> critical_discount m"

lemma classify_severity:
  assumes "thresholds_ok m"
  shows "severity (fst (classify_premium m p)) =
     (if critical_premium m \<le> p \<or> p \<le> - dec (critical_discount m) then 2
      else if warning_premium m \<le> p \<or> p \<le> - dec (warning_discount m) then 1 else 0)"
proof -
  define cd wd where "cd = dec (critical_discount m)" and "wd = dec (warning_discount m)"
  have "0 < cd" "0 < wd" "wd \<le> cd"
    using assms by (simp_all add: thresholds_ok_def cd_def wd_def dec.rnd_mono)
  moreover have "dec (- critical_discount m) = - cd" "dec (- warning_discount m) = - wd"
    by (simp_all add: cd_def wd_def dec.rnd_minus)
  moreover have "0 < warning_premium m" "warning_premium m \<le> critical_premium m"
    using assms by (simp_all add: thresholds_ok_def)
  ultimately show ?thesis
    unfolding cd_def[symmetric] wd_def[symmetric] classify_premium_def by simp
qed

section \<open>Properties\<close>

text \<open>A peg check classifies exactly by the documented table: critical at or beyond the critical
  premium or discount, otherwise warning at or beyond the warning premium or discount, otherwise
  normal; an emergency close is due exactly in the critical case.\<close>

theorem peg_classification:
  assumes "thresholds_ok m" and "check_lst_peg now a lp sp m = Inr (m', r)"
  shows "severity (peg_status r) =
       (if critical_premium m \<le> premium_pct r \<or> premium_pct r \<le> - dec (critical_discount m) then 2
        else if warning_premium m \<le> premium_pct r \<or> premium_pct r \<le> - dec (warning_discount m) then 1
        else 0) \<and>
     premium_pct r = dec (dec (lp / sp) - 1) \<and>
     (should_emergency_close r \<longleftrightarrow>
        critical_premium m \<le> premium_pct r \<or> premium_pct r \<le> - dec (critical_discount m))"
proof -
  note r = check_lst_peg_Inr[OF assms(2)]
  have st: "peg_status r = fst (classify_premium m (premium_pct r))" using r(4) by (metis fst_conv)
  have sev: "should_emergency_close r \<longleftrightarrow> severity (peg_status r) = 2"
    by (cases "peg_status r") (simp_all add: should_emergency_close_def is_critical_peg_def)
  show ?thesis using classify_severity[OF assms(1), of "premium_pct r"] r(3) sev st by auto
qed

theorem peg_classification_witness:
  "\<exists>m' r. check_lst_peg 0 JITOSOL 98 100 (lst_monitor_init None None None None) = Inr (m', r) \<and>
     should_emergency_close r"
proof -
  let ?m = "lst_monitor_init None None None None"
  have ok: "thresholds_ok ?m" by (simp add: thresholds_ok_def lst_monitor_init_def)
  have p: "dec (dec (98 / 100) - 1) = - dec (critical_discount ?m)" by code_simp
  have "is_ok (check_lst_peg 0 JITOSOL 98 100 ?m)" by code_simp
  then obtain m' r where c: "check_lst_peg 0 JITOSOL 98 100 ?m = Inr (m', r)"
    by (auto simp: is_ok_iff)
  from peg_classification[OF ok c] p have "should_emergency_close r" by simp
  with c show ?thesis by blast
qed

text \<open>The effective delta never has a larger magnitude than the (rounded) nominal delta when the LST
  trades at or above the peg, and never a smaller one when it trades at or below it; its sign is that
  of the nominal delta.\<close>

theorem effective_delta_direction:
  assumes "calculate_effective_delta a d lp sp = Inr adj" and "is_lst_asset a" and "0 < lp" "0 < sp"
  shows "(sp \<le> lp \<longrightarrow> \<bar>adjusted_delta_usd adj\<bar> \<le> \<bar>dec d\<bar>) \<and>
     (lp \<le> sp \<longrightarrow> \<bar>dec d\<bar> \<le> \<bar>adjusted_delta_usd adj\<bar>) \<and>
     (0 < adjusted_delta_usd adj \<longleftrightarrow> 0 < d) \<and> (adjusted_delta_usd adj < 0 \<longleftrightarrow> d < 0)"
proof -
  define ratio where "ratio = dec (lp / sp)"
  have r0: "0 < ratio" using assms(3,4) by (simp add: ratio_def)
  have adj: "adjusted_delta_usd adj = dec (d / ratio)"
  proof -
    have "ddiv lp sp = Inr ratio" using assms(4) by (simp add: ratio_def)
    moreover have "ddiv d ratio = Inr (dec (d / ratio))" using r0 by simp
    ultimately
    show ?thesis using assms(1,2)
      by (auto simp: calculate_effective_delta_def is_lst_asset_def Let_def simp del: ddiv_nonzero)
  qed
  have abs: "\<bar>dec (d / ratio)\<bar> = dec (\<bar>d\<bar> / ratio)" "\<bar>dec d\<bar> = dec \<bar>d\<bar>"
    using r0 by (simp_all add: dec.rnd_abs[symmetric])
  have up: "\<bar>adjusted_delta_usd adj\<bar> \<le> \<bar>dec d\<bar>" if "sp \<le> lp"
  proof -
    have "1 \<le> ratio" unfolding ratio_def
      by (rule dec.rnd_ge_exact) (use that assms(4) in simp_all)
    then have "\<bar>d\<bar> / ratio \<le> \<bar>d\<bar>" by (simp add: divide_le_eq mult_le_cancel_left1 r0)
    then show ?thesis unfolding adj abs by (rule dec.rnd_mono)
  qed
  have dn: "\<bar>dec d\<bar> \<le> \<bar>adjusted_delta_usd adj\<bar>" if "lp \<le> sp"
  proof -
    have "ratio \<le> 1" unfolding ratio_def
      by (rule dec.rnd_le_exact) (use that assms(4) in simp_all)
    then have "\<bar>d\<bar> \<le> \<bar>d\<bar> / ratio" using r0 by (simp add: le_divide_eq mult_left_le)
    then show ?thesis unfolding adj abs by (rule dec.rnd_mono)
  qed
  show ?thesis using up dn r0 by (simp add: adj zero_less_divide_iff divide_less_0_iff)
qed

theorem effective_delta_direction_witness:
  "\<exists>adj. calculate_effective_delta JITOSOL 10000 104 100 = Inr adj \<and>
     \<bar>adjusted_delta_usd adj\<bar> \<le> \<bar>dec 10000\<bar>"
proof -
  have "is_ok (calculate_effective_delta JITOSOL 10000 104 100)" by code_simp
  then obtain adj where c: "calculate_effective_delta JITOSOL 10000 104 100 = Inr adj"
    by (auto simp: is_ok_iff)
  have "is_lst_asset JITOSOL" "(0::rat) < 104" "(0::rat) < 100" by (simp_all add: is_lst_asset_def LST_ASSETS_def)
  from effective_delta_direction[OF c this] c show ?thesis by auto
qed

end
