(* ===== verification/Json.thy ===== *)
theory Json
  imports Prelude
begin

text \<open>
  JSON documents as the program reads them: \<open>dict.get\<close>, truthiness and \<open>float\<close>. A text that denotes a
  number is that number.
\<close>

section \<open>JSON values\<close>

datatype jsv = NullV | TextV string | NumV pyfloat | DictV "(string \<times> jsv) list"

type_synonym jdata = "(string, jsv) dict"

definition field :: "jdata \<Rightarrow> string \<Rightarrow> jsv \<Rightarrow> jsv" where
  "field d k v = (case dict_get k d of None \<Rightarrow> v | Some w \<Rightarrow> w)"

fun truthy_v :: "jsv \<Rightarrow> bool" where
  "truthy_v NullV = False"
| "truthy_v (TextV s) = (s \<noteq> [])"
| "truthy_v (NumV x) = (x \<noteq> 0)"
| "truthy_v (DictV d) = (d \<noteq> [])"

fun to_float :: "jsv \<Rightarrow> exn + pyfloat" where
  "to_float (NumV x) = Inr x"
| "to_float (TextV s) = Inl (ValueError ''could not convert string to float'')"
| "to_float _ = Inl (TypeError ''float() argument must be a string or a real number'')"

definition num_opt :: "pyfloat option \<Rightarrow> jsv" where
  "num_opt x = (case x of None \<Rightarrow> NullV | Some v \<Rightarrow> NumV v)"

section \<open>Lemmas\<close>

lemma field_None: "dict_get k d = None \<Longrightarrow> field d k v = v"
  by (simp add: field_def)

lemma field_Some: "dict_get k d = Some w \<Longrightarrow> field d k v = w"
  by (simp add: field_def)

end
