(* ===== verification/UserContext.thy ===== *)
theory UserContext
  imports AsgardManager Trader
begin

text \<open>
  The per-user trading context (\<open>bot/venues/user_context.py\<close>) and the constructors it calls
  (\<open>HyperliquidTrader.__init__\<close>, \<open>AsgardPositionManager.__init__\<close>): which wallet signs for
  which user.

  The row of \<open>users\<close> is the answer of the database. The constructor of the Hyperliquid signer is
  an argument, from the wallet address it is given (none for the platform's) to its outcome. Client
  sessions are left out.
\<close>

section \<open>Data\<close>

record user_row =
  usr_solana_address :: "string option"
  usr_evm_address :: "string option"
  usr_server_evm_wallet_id :: "string option"
  usr_server_evm_address :: "string option"
  usr_server_solana_wallet_id :: "string option"
  usr_server_solana_address :: "string option"

record settings =
  set_solana_wallet_address :: string
  set_wallet_address :: string
  set_privy_app_id :: string
  set_solana_rpc_url :: string
  set_max_leverage :: "pyfloat option"

record user_context =
  uc_user_id :: string
  uc_solana_address :: "string option"
  uc_evm_address :: "string option"
  uc_evm_wallet_id :: "string option"
  uc_solana_wallet_id :: "string option"
  uc_trader :: "trader option"
  uc_asgard :: "asgard_manager option"

text \<open>\<open>x or y\<close> and truthiness on optional texts.\<close>

definition truthy :: "string option \<Rightarrow> bool" where
  "truthy x = (case x of None \<Rightarrow> False | Some s \<Rightarrow> s \<noteq> [])"

definition or_text :: "string option \<Rightarrow> string option \<Rightarrow> string option" where
  "or_text x y = (if truthy x then x else y)"

section \<open>Loading a context\<close>

definition from_user_id :: "exn + user_row option \<Rightarrow> string \<Rightarrow> exn + user_context" where
  "from_user_id ans u =
     res_bind ans (\<lambda>row. case row of
       None \<Rightarrow> Inl (ValueError ''User not found'')
     | Some r \<Rightarrow>
         let evm = or_text (usr_server_evm_address r) (usr_evm_address r);
             sol = or_text (usr_server_solana_address r) (usr_solana_address r)
         in if \<not> truthy sol \<and> \<not> truthy evm
            then Inl (ValueError ''no wallet addresses configured'')
            else Inr \<lparr>uc_user_id = u, uc_solana_address = sol, uc_evm_address = evm,
                   uc_evm_wallet_id = usr_server_evm_wallet_id r,
                   uc_solana_wallet_id = usr_server_solana_wallet_id r,
                   uc_trader = None, uc_asgard = None\<rparr>)"

section \<open>The venue components\<close>

text \<open>With a wallet address every failure of the signer is caught; without one only a
  \<open>ValueError\<close> is.\<close>

definition trader_init :: "settings \<Rightarrow> (string option \<Rightarrow> exn + unit) \<Rightarrow> string option \<Rightarrow> exn + trader" where
  "trader_init st signer wallet =
     (if truthy wallet
      then Inr \<lparr>has_signer = is_ok (signer wallet), wallet_address = wallet, asset_index_cache = [],
             hl_calls = []\<rparr>
      else
        let none = \<lparr>has_signer = False, wallet_address = wallet, asset_index_cache = [], hl_calls = []\<rparr>
        in if set_wallet_address st \<noteq> '''' \<and> set_privy_app_id st \<noteq> ''''
           then (case signer None of
                   Inr _ \<Rightarrow> Inr (none\<lparr>has_signer := True, wallet_address := Some (set_wallet_address st)\<rparr>)
                 | Inl (ValueError _) \<Rightarrow> Inr none
                 | Inl e \<Rightarrow> Inl e)
           else Inr none)"

definition asgard_manager_init :: "settings \<Rightarrow> string option \<Rightarrow> asgard_manager" where
  "asgard_manager_init st wallet =
     (let w = (if truthy wallet then the wallet else set_solana_wallet_address st)
      in \<lparr>am_builder = (if w \<noteq> '''' \<and> set_privy_app_id st \<noteq> ''''
                        then Some \<lparr>tb_wallet_address = w\<rparr> else None),
          am_max_leverage = set_max_leverage st,
          am_has_solana = (set_solana_rpc_url st \<noteq> ''''),
          am_market_data = market_data_init\<rparr>)"

definition get_hl_trader ::
  "settings \<Rightarrow> (string option \<Rightarrow> exn + unit) \<Rightarrow> (user_context, trader) action" where
  "get_hl_trader st signer c =
     (case uc_trader c of
        Some t \<Rightarrow> (c, Inr t)
      | None \<Rightarrow>
          (case trader_init st signer (uc_evm_address c) of
             Inl e \<Rightarrow> (c, Inl e)
           | Inr t \<Rightarrow> (c\<lparr>uc_trader := Some t\<rparr>, Inr t)))"

definition get_asgard_manager :: "settings \<Rightarrow> (user_context, asgard_manager) action" where
  "get_asgard_manager st c =
     (case uc_asgard c of
        Some m \<Rightarrow> (c, Inr m)
      | None \<Rightarrow> let m = asgard_manager_init st (uc_solana_address c) in (c\<lparr>uc_asgard := Some m\<rparr>, Inr m))"

section \<open>Lemmas\<close>

lemma truthy_simps [simp]: "\<not> truthy None" "truthy (Some s) \<longleftrightarrow> s \<noteq> []"
  by (simp_all add: truthy_def)

lemma from_user_id_Inr:
  assumes "from_user_id (Inr (Some r)) u = Inr c"
  shows "uc_user_id c = u" "uc_trader c = None" "uc_asgard c = None"
    "uc_evm_address c = or_text (usr_server_evm_address r) (usr_evm_address r)"
    "uc_solana_address c = or_text (usr_server_solana_address r) (usr_solana_address r)"
    "truthy (uc_solana_address c) \<or> truthy (uc_evm_address c)"
  using assms by (auto simp: from_user_id_def Let_def split: if_splits)

text \<open>A component is created once and then returned unchanged.\<close>

lemma get_hl_trader_again:
  "get_hl_trader st signer c = (c1, Inr t) \<Longrightarrow> get_hl_trader st' signer' c1 = (c1, Inr t)"
  by (auto simp: get_hl_trader_def split: option.splits sum.splits)

lemma get_asgard_manager_again:
  "get_asgard_manager st c = (c1, Inr m) \<Longrightarrow> get_asgard_manager st' c1 = (c1, Inr m)"
  by (auto simp: get_asgard_manager_def Let_def split: option.splits)

lemma asgard_wallet:
  "set_privy_app_id st \<noteq> '''' \<Longrightarrow> set_solana_wallet_address st \<noteq> '''' \<Longrightarrow>
     am_builder (asgard_manager_init st w) =
       Some \<lparr>tb_wallet_address = the (or_text w (Some (set_solana_wallet_address st)))\<rparr>"
  by (cases w) (simp_all add: asgard_manager_init_def or_text_def Let_def)

lemma trader_wallet:
  assumes "set_privy_app_id st \<noteq> ''''" "set_wallet_address st \<noteq> ''''" "\<And>w. signer w = Inr ()"
    "trader_init st signer w = Inr t"
  shows "has_signer t \<and> wallet_address t = or_text w (Some (set_wallet_address st))"
  using assms by (auto simp: trader_init_def or_text_def Let_def split: if_splits)

section \<open>Properties\<close>

text \<open>Which wallets a loaded context trades with: on each chain the server wallet, else the embedded
  one, else the wallet of the platform's settings. A user with a wallet on one chain only is accepted,
  and the other leg is signed with the platform's wallet.\<close>

theorem context_wallets:
  assumes "from_user_id (Inr (Some r)) u = Inr c"
    and "get_asgard_manager st c = (c1, Inr m)" and "get_hl_trader st signer c1 = (c2, Inr t)"
    and "set_privy_app_id st \<noteq> ''''" "set_wallet_address st \<noteq> ''''" "set_solana_wallet_address st \<noteq> ''''"
    and "\<And>w. signer w = Inr ()"
  shows "am_builder m = Some \<lparr>tb_wallet_address =
           the (or_text (or_text (usr_server_solana_address r) (usr_solana_address r))
              (Some (set_solana_wallet_address st)))\<rparr>
     \<and> has_signer t \<and> wallet_address t =
           or_text (or_text (usr_server_evm_address r) (usr_evm_address r)) (Some (set_wallet_address st))"
proof -
  note c = from_user_id_Inr[OF assms(1)]
  have m: "m = asgard_manager_init st (uc_solana_address c)"
    and c1: "uc_trader c1 = None" "uc_evm_address c1 = uc_evm_address c"
    using assms(2) c(2,3) by (auto simp: get_asgard_manager_def Let_def)
  have t: "trader_init st signer (uc_evm_address c) = Inr t"
    using assms(3) c1 by (simp add: get_hl_trader_def split: sum.splits)
  show ?thesis
    using trader_wallet[OF assms(4,5,7) t] by (simp add: m c asgard_wallet assms(4,6))
qed

section \<open>Instances\<close>

definition wit_settings :: settings where
  "wit_settings = \<lparr>set_solana_wallet_address = ''PlatformSol'', set_wallet_address = ''0xplatform'',
     set_privy_app_id = ''app'', set_solana_rpc_url = ''rpc'', set_max_leverage = None\<rparr>"

definition wit_user :: user_row where
  "wit_user = \<lparr>usr_solana_address = None, usr_evm_address = Some ''0xuser'', usr_server_evm_wallet_id = None,
     usr_server_evm_address = None, usr_server_solana_wallet_id = None, usr_server_solana_address = None\<rparr>"

theorem context_wallets_witness:
  "\<exists>c c1 m. from_user_id (Inr (Some wit_user)) ''u1'' = Inr c \<and>
     get_asgard_manager wit_settings c = (c1, Inr m) \<and> am_builder m = Some \<lparr>tb_wallet_address = ''PlatformSol''\<rparr>"
proof -
  obtain c where c: "from_user_id (Inr (Some wit_user)) ''u1'' = Inr c"
    by (simp add: from_user_id_def wit_user_def or_text_def Let_def)
  obtain c1 m where m: "get_asgard_manager wit_settings c = (c1, Inr m)"
    using from_user_id_Inr[OF c] by (simp add: get_asgard_manager_def Let_def)
  have "uc_trader c1 = None" "truthy (uc_evm_address c1)"
    using m from_user_id_Inr[OF c] by (auto simp: get_asgard_manager_def Let_def wit_user_def or_text_def)
  then obtain c2 t where t: "get_hl_trader wit_settings (\<lambda>_. Inr ()) c1 = (c2, Inr t)"
    by (simp add: get_hl_trader_def trader_init_def)
  have "set_privy_app_id wit_settings \<noteq> ''''" "set_wallet_address wit_settings \<noteq> ''''"
    "set_solana_wallet_address wit_settings \<noteq> ''''"
    by (simp_all add: wit_settings_def)
  from context_wallets[OF c m t this] c m show ?thesis
    by (simp add: wit_user_def wit_settings_def or_text_def)
qed

end
