(* ===== verification/ServiceDb.thy ===== *)
theory ServiceDb
  imports Json UserContext UserRisk FundingOracle
begin

text \<open>
  The PostgreSQL tables the multi-tenant services share (\<open>migrations/*.sql\<close>, read and written by
  \<open>bot/core/position_monitor.py\<close>, \<open>intent_scanner.py\<close> and
  \<open>autonomous_scanner.py\<close>).

  A row is a record of the columns used; a statement either runs or raises, which is an argument of the
  operation that runs it. Time stamps that nothing reads
  are left out.
\<close>

section \<open>Rows\<close>

record position_entry =
  pe_user_id :: string
  pe_data :: jdata
  pe_is_closed :: bool

record closed_entry =
  ce_user_id :: string
  ce_asset :: string
  ce_pnl_usd :: jsv
  ce_funding_earned_usd :: jsv

datatype intent_status = Pending | Active | Executed | Cancelled | Expired | Failed_intent

record intent_row =
  in_user_id :: string
  in_asset :: string
  in_leverage :: pyfloat
  in_size_usd :: pyfloat
  in_min_funding_rate :: "pyfloat option"
  in_max_funding_volatility :: "pyfloat option"
  in_max_entry_price :: "pyfloat option"
  in_status :: intent_status
  in_position_id :: "string option"
  in_execution_error :: "string option"
  in_expires_at :: "datetime option"

record strategy_row =
  sg_enabled :: bool
  sg_assets :: "string list option"
  sg_min_carry_apy :: "pyfloat option"
  sg_min_funding_rate_8hr :: "pyfloat option"
  sg_max_funding_volatility :: "pyfloat option"
  sg_max_position_pct :: "pyfloat option"
  sg_max_concurrent_positions :: "int option"
  sg_max_leverage :: "pyfloat option"
  sg_min_exit_carry_apy :: "pyfloat option"
  sg_take_profit_pct :: "pyfloat option"
  sg_stop_loss_pct :: "pyfloat option"
  sg_cooldown_minutes :: "int option"
  sg_last_close_time :: "datetime option"
  sg_cooldown_at_close :: "int option"
  sg_protocols :: "string list option"
  sg_auto_reopen :: "bool option"
  sg_version :: int

text \<open>\<open>user_strategy_config.paused_at\<close> is the part \<open>strategy_pauses\<close> of the risk
  tables.\<close>

record service_db =
  sv_users :: "string \<rightharpoonup> user_row"
  sv_user_paused :: "string \<rightharpoonup> datetime"
  sv_positions :: "(string, position_entry) dict"
  sv_history :: "(string, closed_entry) dict"
  sv_intents :: "(string, intent_row) dict"
  sv_strategy :: "(string, strategy_row) dict"
  sv_risk :: risk_db

section \<open>Statements\<close>

definition set_position_data :: "string \<Rightarrow> jdata \<Rightarrow> service_db \<Rightarrow> service_db" where
  "set_position_data i d db =
     (case dict_get i (sv_positions db) of
        None \<Rightarrow> db
      | Some p \<Rightarrow> db\<lparr>sv_positions := dict_put i (p\<lparr>pe_data := d\<rparr>) (sv_positions db)\<rparr>)"

definition close_position_entry :: "string \<Rightarrow> jdata \<Rightarrow> service_db \<Rightarrow> service_db" where
  "close_position_entry i d db =
     (case dict_get i (sv_positions db) of
        None \<Rightarrow> db
      | Some p \<Rightarrow> db\<lparr>sv_positions := dict_put i (p\<lparr>pe_data := d, pe_is_closed := True\<rparr>) (sv_positions db)\<rparr>)"

text \<open>An insert fails when the primary key exists.\<close>

definition insert_history :: "string \<Rightarrow> closed_entry \<Rightarrow> service_db \<Rightarrow> exn + service_db" where
  "insert_history i h db =
     (if dict_get i (sv_history db) = None then Inr (db\<lparr>sv_history := dict_put i h (sv_history db)\<rparr>)
      else Inl (ExternalError ''duplicate key''))"

definition insert_position :: "string \<Rightarrow> string \<Rightarrow> jdata \<Rightarrow> service_db \<Rightarrow> exn + service_db" where
  "insert_position i u d db =
     (if dict_get i (sv_positions db) = None
      then Inr (db\<lparr>sv_positions := dict_put i \<lparr>pe_user_id = u, pe_data = d, pe_is_closed = False\<rparr>
                  (sv_positions db)\<rparr>)
      else Inl (ExternalError ''duplicate key''))"

definition update_intent :: "string \<Rightarrow> (intent_row \<Rightarrow> intent_row) \<Rightarrow> service_db \<Rightarrow> service_db" where
  "update_intent i f db =
     (case dict_get i (sv_intents db) of
        None \<Rightarrow> db
      | Some r \<Rightarrow> db\<lparr>sv_intents := dict_put i (f r) (sv_intents db)\<rparr>)"

definition update_strategy :: "string \<Rightarrow> (strategy_row \<Rightarrow> strategy_row) \<Rightarrow> service_db \<Rightarrow> service_db" where
  "update_strategy u f db =
     (case dict_get u (sv_strategy db) of
        None \<Rightarrow> db
      | Some r \<Rightarrow> db\<lparr>sv_strategy := dict_put u (f r) (sv_strategy db)\<rparr>)"

text \<open>A statement whose connection may fail, and a transaction: all of it or nothing.\<close>

definition run_stmt :: "exn + unit \<Rightarrow> (service_db \<Rightarrow> service_db) \<Rightarrow> (service_db, unit) action" where
  "run_stmt io f db = (case io of Inl e \<Rightarrow> (db, Inl e) | Inr _ \<Rightarrow> (f db, Inr ()))"

definition run_tx :: "exn + unit \<Rightarrow> (service_db \<Rightarrow> exn + service_db) \<Rightarrow> (service_db, unit) action" where
  "run_tx io f db =
     (case io of
        Inl e \<Rightarrow> (db, Inl e)
      | Inr _ \<Rightarrow> (case f db of Inl e \<Rightarrow> (db, Inl e) | Inr db1 \<Rightarrow> (db1, Inr ())))"

section \<open>Lemmas\<close>

text \<open>The tables a statement does not name stay as they are.\<close>

lemma set_position_data_frame [simp]:
  "sv_users (set_position_data i d db) = sv_users db"
  "sv_user_paused (set_position_data i d db) = sv_user_paused db"
  "sv_history (set_position_data i d db) = sv_history db"
  "sv_intents (set_position_data i d db) = sv_intents db"
  "sv_strategy (set_position_data i d db) = sv_strategy db"
  "sv_risk (set_position_data i d db) = sv_risk db"
  by (simp_all add: set_position_data_def split: option.splits)

lemma close_position_entry_frame [simp]:
  "sv_users (close_position_entry i d db) = sv_users db"
  "sv_user_paused (close_position_entry i d db) = sv_user_paused db"
  "sv_history (close_position_entry i d db) = sv_history db"
  "sv_intents (close_position_entry i d db) = sv_intents db"
  "sv_strategy (close_position_entry i d db) = sv_strategy db"
  "sv_risk (close_position_entry i d db) = sv_risk db"
  by (simp_all add: close_position_entry_def split: option.splits)

lemma update_intent_frame [simp]:
  "sv_users (update_intent i f db) = sv_users db"
  "sv_user_paused (update_intent i f db) = sv_user_paused db"
  "sv_positions (update_intent i f db) = sv_positions db"
  "sv_history (update_intent i f db) = sv_history db"
  "sv_strategy (update_intent i f db) = sv_strategy db"
  "sv_risk (update_intent i f db) = sv_risk db"
  by (simp_all add: update_intent_def split: option.splits)

lemma update_strategy_frame [simp]:
  "sv_users (update_strategy u f db) = sv_users db"
  "sv_user_paused (update_strategy u f db) = sv_user_paused db"
  "sv_positions (update_strategy u f db) = sv_positions db"
  "sv_history (update_strategy u f db) = sv_history db"
  "sv_intents (update_strategy u f db) = sv_intents db"
  "sv_risk (update_strategy u f db) = sv_risk db"
  by (simp_all add: update_strategy_def split: option.splits)

lemma get_set_position_data:
  assumes "dict_ok (sv_positions db)"
  shows "dict_get j (sv_positions (set_position_data i d db)) =
    (if j = i then map_option (\<lambda>p. p\<lparr>pe_data := d\<rparr>) (dict_get i (sv_positions db))
     else dict_get j (sv_positions db))"
  using assms by (simp add: set_position_data_def dict.get_put split: option.splits)

lemma get_close_position_entry:
  assumes "dict_ok (sv_positions db)"
  shows "dict_get j (sv_positions (close_position_entry i d db)) =
    (if j = i then map_option (\<lambda>p. p\<lparr>pe_data := d, pe_is_closed := True\<rparr>) (dict_get i (sv_positions db))
     else dict_get j (sv_positions db))"
  using assms by (simp add: close_position_entry_def dict.get_put split: option.splits)

lemma get_update_intent:
  assumes "dict_ok (sv_intents db)"
  shows "dict_get j (sv_intents (update_intent i f db)) =
    (if j = i then map_option f (dict_get i (sv_intents db)) else dict_get j (sv_intents db))"
  using assms by (simp add: update_intent_def dict.get_put split: option.splits)

lemma get_update_strategy:
  assumes "dict_ok (sv_strategy db)"
  shows "dict_get j (sv_strategy (update_strategy u f db)) =
    (if j = u then map_option f (dict_get u (sv_strategy db)) else dict_get j (sv_strategy db))"
  using assms by (simp add: update_strategy_def dict.get_put split: option.splits)

definition db_ok :: "service_db \<Rightarrow> bool" where
  "db_ok db \<longleftrightarrow> dict_ok (sv_positions db) \<and> dict_ok (sv_history db) \<and> dict_ok (sv_intents db)
     \<and> dict_ok (sv_strategy db)"

lemma db_ok_statements [simp]:
  "db_ok db \<Longrightarrow> db_ok (set_position_data i d db)"
  "db_ok db \<Longrightarrow> db_ok (close_position_entry i d db)"
  "db_ok db \<Longrightarrow> db_ok (update_intent i f db)"
  "db_ok db \<Longrightarrow> db_ok (update_strategy u g db)"
  by (auto simp: db_ok_def set_position_data_def close_position_entry_def update_intent_def
      update_strategy_def dict.inv_put split: option.splits)

end
