(* ===== verification/UserOpening.thy ===== *)
theory UserOpening
  imports ServiceDb PositionManager
begin

text \<open>
  Opening a position for a user, as both scanners do it (\<open>bot/core/intent_scanner.py\<close>,
  \<open>bot/core/autonomous_scanner.py\<close>): load the user's context, build a position manager from it
  (\<open>PositionManager.from_user_context\<close>), open, and drop both.

  The state is the tables, the transaction store with the Asgard calls, and the trace of the leg calls
  with the user they were made for.
\<close>

record scanner_state =
  ns_db :: service_db
  ns_asgard :: asgard_state
  ns_legs :: "(string \<times> leg_call) list"

definition on_tables :: "(service_db, 'a) action \<Rightarrow> (scanner_state, 'a) action" where
  "on_tables m s = (case m (ns_db s) of (d, r) \<Rightarrow> (s\<lparr>ns_db := d\<rparr>, r))"

definition from_user_context ::
  "settings \<Rightarrow> (string option \<Rightarrow> exn + unit) \<Rightarrow> asgard_state \<Rightarrow> user_context \<Rightarrow> exn + (asgard_manager \<times> manager)"
where
  "from_user_context st signer ag c =
     (case get_asgard_manager st c of
        (c1, Inl e) \<Rightarrow> Inl e
      | (c1, Inr am) \<Rightarrow>
          (case get_hl_trader st signer c1 of
             (_, Inl e) \<Rightarrow> Inl e
           | (_, Inr t) \<Rightarrow> Inr (am, \<lparr>pm_asgard = ag, pm_trader = t, pm_positions = [], pm_contexts = [],
                leg_calls = []\<rparr>)))"

record opening_answers =
  og_user_io :: "exn + unit"
  og_intent :: string
  og_open :: open_position_answers

definition open_for_user ::
  "asgard_api \<Rightarrow> settings \<Rightarrow> (string option \<Rightarrow> exn + unit) \<Rightarrow> limits \<Rightarrow> opening_answers \<Rightarrow> string
     \<Rightarrow> opportunity \<Rightarrow> (scanner_state, manager_result) action"
where
  "open_for_user api st signer lts a u opp s =
     (case res_bind (og_user_io a) (\<lambda>_. from_user_id (Inr (sv_users (ns_db s) u)) u) of
        Inl e \<Rightarrow> (s, Inl e)
      | Inr c \<Rightarrow>
          (case from_user_context st signer (ns_asgard s) c of
             Inl e \<Rightarrow> (s, Inl e)
           | Inr (am, pm) \<Rightarrow>
               (case open_position api am (og_intent a) lts (og_open a) opp pm of
                  (pm1, r) \<Rightarrow> (s\<lparr>ns_asgard := pm_asgard pm1,
                                ns_legs := ns_legs s @ map (Pair u) (leg_calls pm1)\<rparr>, r))))"

section \<open>Lemmas\<close>

lemma on_tables_keeps [simp]:
  "ns_asgard (fst (on_tables m s)) = ns_asgard s" "ns_legs (fst (on_tables m s)) = ns_legs s"
  by (simp_all add: on_tables_def split: prod.splits)

lemma from_user_context_fresh:
  "from_user_context st signer ag c = Inr (am, pm) \<Longrightarrow> pm_asgard pm = ag \<and> leg_calls pm = [] \<and> pm_positions pm = []"
  by (auto simp: from_user_context_def split: prod.splits sum.splits)

lemma open_for_user_db: "ns_db (fst (open_for_user api st signer lts a u opp s)) = ns_db s"
  by (auto simp: open_for_user_def split: sum.splits prod.splits)

text \<open>With the program's own Asgard manager an opening never succeeds.\<close>

lemma open_for_user_fails:
  assumes "ok (ns_asgard s)" "intent_state (ns_asgard s) (og_intent a) = IDLE"
    and "open_for_user api st signer lts a u opp s = (s1, Inr r)"
  shows "\<not> mr_success r"
proof -
  obtain c am pm pm1 where pm: "from_user_context st signer (ns_asgard s) c = Inr (am, pm)"
    and o: "open_position api am (og_intent a) lts (og_open a) opp pm = (pm1, Inr r)"
    using assms(3) by (auto simp: open_for_user_def split: sum.splits prod.splits)
  from asgard_long.never_opens[OF _ o[unfolded open_position_def]] from_user_context_fresh[OF pm] assms(1,2)
  show ?thesis by simp
qed

text \<open>The calls of an opening are made for its user only.\<close>

lemma open_for_user_legs:
  "\<exists>cs. ns_legs (fst (open_for_user api st signer lts a u opp s)) = ns_legs s @ map (Pair u) cs"
  by (auto simp: open_for_user_def split: sum.splits prod.splits intro: exI[of _ "[]"])

text \<open>With the program's own Asgard manager the only call an opening can make is the one that opens the
  long leg.\<close>

lemma open_position_first_call:
  assumes "ok (pm_asgard s)" "intent_state (pm_asgard s) i = IDLE" "open_position api am i lts a opp s = (s1, out)"
  shows "leg_calls s1 = leg_calls s \<or>
     leg_calls s1 = leg_calls s @ [OpenLong (opp_asset opp) (flt (dec (deployed_capital_usd opp / 2)))
       (flt (opp_leverage opp)) (selected_protocol opp)]"
proof -
  let ?call = "open_long_position api am (ap_now a) i (opp_asset opp) (flt (dec (deployed_capital_usd opp / 2)))
    (flt (opp_leverage opp)) (Some (selected_protocol opp)) (pm_asgard s)"
  obtain ag res where c: "?call = (ag, res)" by force
  have "op_position r = None" if "res = Inr r" for r
    using asgard_long.no_position[of "pm_asgard s"] assms(1,2) c that by blast
  with assms(3) c show ?thesis
    by (auto simp: open_position_def open_position_with_def Let_def andthen_def on_asgard_def
        split: if_splits sum.splits)
qed

lemma open_for_user_orders:
  assumes "ok (ns_asgard s)" "intent_state (ns_asgard s) (og_intent a) = IDLE"
    and "open_for_user api st signer lts a u opp s = (s1, out)"
  shows "ns_legs s1 = ns_legs s \<or>
     ns_legs s1 = ns_legs s @ [(u, OpenLong (opp_asset opp) (flt (dec (deployed_capital_usd opp / 2)))
       (flt (opp_leverage opp)) (selected_protocol opp))]"
proof (cases "ns_legs s1 = ns_legs s")
  case False
  then obtain c am pm pm1 where pm: "from_user_context st signer (ns_asgard s) c = Inr (am, pm)"
    and o: "open_position api am (og_intent a) lts (og_open a) opp pm = (pm1, out)"
    and s1: "ns_legs s1 = ns_legs s @ map (Pair u) (leg_calls pm1)"
    using assms(3) by (auto simp: open_for_user_def split: sum.splits prod.splits)
  from open_position_first_call[OF _ _ o] from_user_context_fresh[OF pm] assms(1,2) s1 show ?thesis by auto
qed simp

end
