(* ===== verification/IntentScanner.thy ===== *)
theory IntentScanner
  imports UserOpening
begin

text \<open>
  The intent scanner (\<open>bot/core/intent_scanner.py\<close>): one scan over the pending and active intents,
  their expiry and activation, the three entry criteria, and the execution of an intent that passes.

  The rows are in the order of their creation. The answers of the venues, the database and the clock are
  a record per intent. The three checks catch what they raise, so that the handler around them is never
  reached. Reasons and the saved snapshot are abbreviated; waiting and the background task are left out.
\<close>

section \<open>Criteria\<close>

record criterion =
  cn_passed :: bool
  cn_reason :: "string option"
  cn_current :: "pyfloat option"

record criteria_result =
  cs_all_passed :: bool
  cs_checks :: "(string \<times> criterion) list"

record intent_answers =
  ia_now :: datetime
  ia_time :: int
  ia_rates :: "exn + meta_response"
  ia_history :: "exn + funding_entry list"
  ia_mids :: mids
  ia_expire_io :: "exn + unit"
  ia_activate_io :: "exn + unit"
  ia_snapshot_io :: "exn + unit"
  ia_fail_io :: "exn + unit"
  ia_tx_io :: "exn + unit"
  ia_opening :: opening_answers

definition passed :: "pyfloat option \<Rightarrow> criterion" where
  "passed x = \<lparr>cn_passed = True, cn_reason = None, cn_current = x\<rparr>"

definition refused :: "string \<Rightarrow> pyfloat option \<Rightarrow> criterion" where
  "refused why x = \<lparr>cn_passed = False, cn_reason = Some why, cn_current = x\<rparr>"

definition check_funding :: "intent_answers \<Rightarrow> intent_row \<Rightarrow> criterion" where
  "check_funding a r =
     (case get_current_funding_rates (ia_time a) (ia_rates a) of
        Inl e \<Rightarrow> refused ''Funding check error'' None
      | Inr rates \<Rightarrow>
          (case dict_get (in_asset r) rates of
             None \<Rightarrow> refused ''No funding data'' None
           | Some f \<Rightarrow>
               let x = hf_funding_rate f
               in if x \<ge> 0 then refused ''Funding is non-negative'' (Some x)
                  else if (case in_min_funding_rate r of None \<Rightarrow> False | Some m \<Rightarrow> x > m)
                  then refused ''Funding rate above min threshold'' (Some x)
                  else passed (Some x)))"

definition check_volatility :: "intent_answers \<Rightarrow> intent_row \<Rightarrow> criterion" where
  "check_volatility a r =
     (case snd (calculate_funding_volatility (ia_history a) (in_asset r) 168 funding_oracle_init) of
        Inl e \<Rightarrow> refused ''Volatility check error'' None
      | Inr v \<Rightarrow>
          if v > py_or (in_max_funding_volatility r) (flt (50/100)) then refused ''Volatility exceeds max'' (Some v)
          else passed (Some v))"

definition check_price :: "intent_answers \<Rightarrow> intent_row \<Rightarrow> criterion" where
  "check_price a r =
     (case in_max_entry_price r of
        None \<Rightarrow> passed None
      | Some m \<Rightarrow>
          (case ia_mids a of
             Inl e \<Rightarrow> refused ''Price check error'' None
           | Inr ms \<Rightarrow>
               (case ms (in_asset r) of
                  None \<Rightarrow> refused ''No price data'' None
                | Some x \<Rightarrow> if x > m then refused ''Price exceeds max'' (Some x) else passed (Some x))))"

definition check_criteria :: "intent_answers \<Rightarrow> intent_row \<Rightarrow> criteria_result" where
  "check_criteria a r =
     (let cs = [(''funding_rate'', check_funding a r), (''funding_volatility'', check_volatility a r),
                (''entry_price'', check_price a r)]
      in \<lparr>cs_all_passed = list_all (\<lambda>(_, c). cn_passed c) cs, cs_checks = cs\<rparr>)"

section \<open>Execution\<close>

definition criterion_rate :: "criteria_result \<Rightarrow> pyfloat" where
  "criterion_rate c =
     (case dict_get ''funding_rate'' (cs_checks c) of
        None \<Rightarrow> flt (-1/1000)
      | Some k \<Rightarrow> (case cn_current k of None \<Rightarrow> flt (-1/1000) | Some x \<Rightarrow> x))"

definition intent_opportunity :: "datetime \<Rightarrow> string \<Rightarrow> intent_row \<Rightarrow> criteria_result \<Rightarrow> exn + opportunity" where
  "intent_opportunity now i r c =
     res_bind (asset_of_value (in_asset r)) (\<lambda>as.
       let capital = float_str (in_size_usd r); lev = float_str (in_leverage r); sz = dec (capital * lev);
           fund = \<lparr>fr_timestamp = now, fr_coin = in_asset r, rate_8hr = float_str (criterion_rate c)\<rparr>
       in make_opportunity
         \<lparr>opp_id = ''intent-'' @ i, opp_timestamp = now, opp_asset = as, selected_protocol = MARGINFI,
          opp_rates = \<lparr>ar_protocol_id = protocol_value MARGINFI, token_a_mint = [], token_b_mint = USDC_MINT,
            token_a_lending_apy = 5/100, token_b_borrowing_apy = 8/100,
            token_b_max_borrow_capacity = dec (sz * 2)\<rparr>,
          hyperliquid_coin = ''SOL'', current_funding = fund, predicted_funding = None,
          funding_volatility = 3/10, opp_leverage = lev, deployed_capital_usd = capital,
          opp_position_size_usd = sz,
          score = \<lparr>funding_apy = dabs (rate_annual fund), net_carry_apy = 0, lst_staking_apy = 0,
            estimated_gas_cost_apy = 0, estimated_slippage_apy = 0\<rparr>,
          opp_price_deviation = 0, preflight_checks_passed = True, expires_at = None\<rparr>)"

definition intent_data :: "string \<Rightarrow> intent_row \<Rightarrow> jdata" where
  "intent_data i r =
     [(''asset'', TextV (in_asset r)), (''leverage'', NumV (in_leverage r)), (''size_usd'', NumV (in_size_usd r)),
      (''intent_id'', TextV i), (''created_at'', TextV ''timestamp'')]"

definition executed_tx :: "string \<Rightarrow> intent_row \<Rightarrow> string \<Rightarrow> service_db \<Rightarrow> exn + service_db" where
  "executed_tx i r pid db =
     res_bind (insert_position pid (in_user_id r) (intent_data i r) db) (\<lambda>db1.
       Inr (update_intent i (\<lambda>r. r\<lparr>in_status := Executed, in_position_id := Some pid\<rparr>) db1))"

definition fail_intent :: "intent_answers \<Rightarrow> string \<Rightarrow> string \<Rightarrow> (scanner_state, unit) action" where
  "fail_intent a i err =
     on_tables (run_stmt (ia_fail_io a)
       (update_intent i (\<lambda>r. r\<lparr>in_status := Failed_intent, in_execution_error := Some err\<rparr>)))"

definition expire_intent :: "intent_answers \<Rightarrow> string \<Rightarrow> (scanner_state, unit) action" where
  "expire_intent a i =
     on_tables (run_stmt (ia_expire_io a) (update_intent i (\<lambda>r. r\<lparr>in_status := Expired\<rparr>)))"

definition error_text :: "manager_result \<Rightarrow> string" where
  "error_text r =
     (case mr_error r of None \<Rightarrow> ''Unknown error'' | Some e \<Rightarrow> if e = [] then ''Unknown error'' else e)"

definition execute_intent ::
  "asgard_api \<Rightarrow> settings \<Rightarrow> (string option \<Rightarrow> exn + unit) \<Rightarrow> limits \<Rightarrow> intent_answers \<Rightarrow> string
     \<Rightarrow> intent_row \<Rightarrow> criteria_result \<Rightarrow> (scanner_state, unit) action"
where
  "execute_intent api st signer lts a i r c =
     catching
       (andthen (lift_result (intent_opportunity (ia_now a) i r c)) (\<lambda>opp.
        andthen (open_for_user api st signer lts (ia_opening a) (in_user_id r) opp) (\<lambda>res.
        case (mr_success res, mr_position res) of
          (True, Some p) \<Rightarrow> on_tables (run_tx (ia_tx_io a) (executed_tx i r (position_id p)))
        | _ \<Rightarrow> fail_intent a i (error_text res))))
       (\<lambda>e. fail_intent a i (exn_text e))"

section \<open>One intent, one scan\<close>

definition process_intent ::
  "asgard_api \<Rightarrow> settings \<Rightarrow> (string option \<Rightarrow> exn + unit) \<Rightarrow> limits \<Rightarrow> intent_answers \<Rightarrow> datetime \<Rightarrow> string
     \<Rightarrow> intent_row \<Rightarrow> (scanner_state, unit) action"
where
  "process_intent api st signer lts a now i r =
     (if (case in_expires_at r of None \<Rightarrow> False | Some t \<Rightarrow> now > t) then expire_intent a i
      else
        andthen (if in_status r = Pending
                 then on_tables (run_stmt (ia_activate_io a) (update_intent i (\<lambda>r. r\<lparr>in_status := Active\<rparr>)))
                 else ret ()) (\<lambda>_.
        andthen (on_tables (run_stmt (ia_snapshot_io a) id)) (\<lambda>_.
        if cs_all_passed (check_criteria a r)
        then execute_intent api st signer lts a i r (check_criteria a r) else ret ())))"

definition scannable :: "service_db \<Rightarrow> (string \<times> intent_row) list" where
  "scannable db = filter (\<lambda>(i, r). in_status r = Pending \<or> in_status r = Active) (sv_intents db)"

definition intent_scan ::
  "asgard_api \<Rightarrow> settings \<Rightarrow> (string option \<Rightarrow> exn + unit) \<Rightarrow> limits \<Rightarrow> exn + unit \<Rightarrow> datetime
     \<Rightarrow> (string \<Rightarrow> intent_answers) \<Rightarrow> (scanner_state, unit) action"
where
  "intent_scan api st signer lts io now ans s =
     (case io of
        Inl e \<Rightarrow> (s, Inl e)
      | Inr _ \<Rightarrow>
          (fold (\<lambda>(i, r) s. fst (process_intent api st signer lts (ans i) now i r s)) (scannable (ns_db s)) s,
           Inr ()))"

section \<open>The documented life of an intent\<close>

inductive intent_edge :: "intent_status \<Rightarrow> intent_status \<Rightarrow> bool" where
  activated: "intent_edge Pending Active"
| expired: "st = Pending \<or> st = Active \<Longrightarrow> intent_edge st Expired"
| executed: "intent_edge Active Executed"
| failed: "intent_edge Active Failed_intent"
| cancelled: "st = Pending \<or> st = Active \<Longrightarrow> intent_edge st Cancelled"

inductive_cases intent_edgeE: "intent_edge st st'"

lemma edge_final:
  "intent_edge\<^sup>*\<^sup>* st st' \<Longrightarrow> st \<noteq> Pending \<Longrightarrow> st \<noteq> Active \<Longrightarrow> st' = st"
  by (induction rule: rtranclp_induct) (auto elim: intent_edgeE)

lemma edge_paths:
  "st \<in> {Active, Executed, Failed_intent, Expired} \<Longrightarrow> intent_edge\<^sup>*\<^sup>* Active st"
  "st \<in> {Pending, Active, Executed, Failed_intent, Expired} \<Longrightarrow> intent_edge\<^sup>*\<^sup>* Pending st"
proof -
  show a: "intent_edge\<^sup>*\<^sup>* Active st" if "st \<in> {Active, Executed, Failed_intent, Expired}" for st
    using that by (auto intro: intent_edge.intros)
  show "intent_edge\<^sup>*\<^sup>* Pending st" if "st \<in> {Pending, Active, Executed, Failed_intent, Expired}"
    using that a[of st] by (cases "st = Pending") (auto intro: converse_rtranclp_into_rtranclp activated)
qed

text \<open>What holds while intent \<open>i\<close> is processed: it stays the user's, its status is one of
  \<open>A\<close>, an executed one has its position, and nothing else changes but new positions.\<close>

definition has_position :: "service_db \<Rightarrow> intent_row \<Rightarrow> bool" where
  "has_position db r \<longleftrightarrow> (in_status r = Executed \<longrightarrow> (\<exists>pid p. in_position_id r = Some pid \<and>
     dict_get pid (sv_positions db) = Some p \<and> pe_user_id p = in_user_id r))"

definition working :: "service_db \<Rightarrow> string \<Rightarrow> string \<Rightarrow> intent_status set \<Rightarrow> scanner_state \<Rightarrow> bool" where
  "working db0 i u A s \<longleftrightarrow> db_ok (ns_db s) \<and>
     (\<forall>j. j \<noteq> i \<longrightarrow> dict_get j (sv_intents (ns_db s)) = dict_get j (sv_intents db0)) \<and>
     (\<forall>pid p. dict_get pid (sv_positions db0) = Some p \<longrightarrow> dict_get pid (sv_positions (ns_db s)) = Some p) \<and>
     (\<exists>r. dict_get i (sv_intents (ns_db s)) = Some r \<and> in_status r \<in> A \<and> in_user_id r = u \<and>
          has_position (ns_db s) r)"

lemma working_mono: "working db0 i u A s \<Longrightarrow> A \<subseteq> B \<Longrightarrow> working db0 i u B s"
  by (auto simp: working_def)

lemma working_update:
  assumes "working db0 i u A s" "\<And>r. in_user_id (f r) = in_user_id r" "\<And>r. in_status (f r) = st" "st \<noteq> Executed"
  shows "working db0 i u {st} (s\<lparr>ns_db := update_intent i f (ns_db s)\<rparr>)"
proof -
  have "dict_ok (sv_intents (ns_db s))" using assms(1) by (simp add: working_def db_ok_def)
  then show ?thesis
    using assms by (auto simp: working_def get_update_intent has_position_def)
qed

lemma working_run:
  assumes "working db0 i u A s" "\<And>r. in_user_id (f r) = in_user_id r" "\<And>r. in_status (f r) = st" "st \<noteq> Executed"
    and "st \<in> B" "A \<subseteq> B"
  shows "working db0 i u B (fst (on_tables (run_stmt io (update_intent i f)) s))"
  using working_update[OF assms(1-4)] working_mono[OF assms(1,6)] assms(5)
  by (auto simp: on_tables_def run_stmt_def intro: working_mono split: sum.splits)

lemma working_executed:
  assumes "working db0 i u A s" "Executed \<in> B" "A \<subseteq> B" "in_user_id r = u"
  shows "working db0 i u B (fst (on_tables (run_tx io (executed_tx i r pid)) s))"
proof (cases "io = Inr () \<and> dict_get pid (sv_positions (ns_db s)) = None")
  case False
  then show ?thesis
    using working_mono[OF assms(1,3)]
    by (auto simp: on_tables_def run_tx_def executed_tx_def insert_position_def split: sum.splits)
next
  case True
  define db1 where "db1 = (ns_db s)\<lparr>sv_positions := dict_put pid
      \<lparr>pe_user_id = u, pe_data = intent_data i r, pe_is_closed = False\<rparr> (sv_positions (ns_db s))\<rparr>"
  define db2 where "db2 = update_intent i (\<lambda>r. r\<lparr>in_status := Executed, in_position_id := Some pid\<rparr>) db1"
  have run: "fst (on_tables (run_tx io (executed_tx i r pid)) s) = s\<lparr>ns_db := db2\<rparr>"
    using True assms(4) by (simp add: on_tables_def run_tx_def executed_tx_def insert_position_def db1_def db2_def)
  have ok: "db_ok (ns_db s)" using assms(1) by (simp add: working_def)
  then have ok1: "db_ok db1" by (simp add: db1_def db_ok_def dict.inv_put)
  then have ok2: "db_ok db2" by (simp add: db2_def)
  have pos: "dict_get q (sv_positions db2) = (if q = pid
      then Some \<lparr>pe_user_id = u, pe_data = intent_data i r, pe_is_closed = False\<rparr>
      else dict_get q (sv_positions (ns_db s)))" for q
    using ok by (simp add: db2_def db1_def db_ok_def dict.get_put)
  have ints: "dict_get j (sv_intents db2) = (if j = i then map_option
      (\<lambda>r. r\<lparr>in_status := Executed, in_position_id := Some pid\<rparr>) (dict_get i (sv_intents (ns_db s)))
      else dict_get j (sv_intents (ns_db s)))" for j
    using ok1 by (simp add: db2_def db_ok_def get_update_intent) (simp add: db1_def)
  show ?thesis
    using assms(1,2) True ok2 unfolding run
    by (auto simp: working_def pos ints has_position_def)
qed

text \<open>Every operation of the scanner keeps \<open>working\<close>.\<close>

lemma working_open: "working db0 i u A s \<Longrightarrow> working db0 i u A (fst (open_for_user api st signer lts a v opp s))"
  by (simp add: working_def open_for_user_db)

abbreviation (input) "done_set \<equiv> {Active, Executed, Failed_intent}"

lemma fail_intent_working:
  "working db0 i u done_set s \<Longrightarrow> working db0 i u done_set (fst (fail_intent a i err s))"
  unfolding fail_intent_def
  by (rule working_run[where A = done_set and st = Failed_intent]) auto

lemma execute_intent_working:
  assumes "in_user_id r = u"
  shows "preserves (working db0 i u done_set) (execute_intent api st signer lts a i r c)"
proof -
  have fail: "preserves (working db0 i u done_set) (fail_intent a i err)" for err
    by (simp add: preserves_def fail_intent_working)
  have tx: "preserves (working db0 i u done_set) (on_tables (run_tx (ia_tx_io a) (executed_tx i r pid)))" for pid
    using working_executed[OF _ _ _ assms, where A = done_set and B = done_set] by (simp add: preserves_def)
  have opn: "preserves (working db0 i u done_set) (open_for_user api st signer lts (ia_opening a) v opp)" for v opp
    by (simp add: preserves_def working_open)
  show ?thesis unfolding execute_intent_def
    by (intro preserves_catching preserves_andthen preserves_pure opn)
      (auto intro: fail tx split: option.splits bool.splits)
qed

lemma process_intent_working:
  assumes "working db0 i (in_user_id r) {in_status r} s" "in_status r = Pending \<or> in_status r = Active"
  shows "\<exists>st'. intent_edge\<^sup>*\<^sup>* (in_status r) st' \<and>
     working db0 i (in_user_id r) {st'} (fst (process_intent api st signer lts a now i r s))"
proof -
  let ?w = "working db0 i (in_user_id r)"
  have pick: "\<exists>st'\<in>A. ?w {st'} t" if "?w A t" for A t using that by (auto simp: working_def)
  have goal: "\<exists>st'. intent_edge\<^sup>*\<^sup>* (in_status r) st' \<and> ?w {st'} t"
    if "?w A t" "A \<subseteq> {in_status r, Active, Executed, Failed_intent, Expired}" for A t
    using pick[OF that(1)] that(2) assms(2) edge_paths[of st' for st'] by (elim disjE) (fastforce simp: subset_iff)+
  define later where "later = andthen (on_tables (run_stmt (ia_snapshot_io a) id)) (\<lambda>_.
        if cs_all_passed (check_criteria a r)
        then execute_intent api st signer lts a i r (check_criteria a r) else ret ())"
  have later: "?w done_set (fst (later t))" if "?w {Active} t" for t
  proof -
    have "preserves (?w done_set) (on_tables (run_stmt (ia_snapshot_io a) id))"
      by (auto simp: preserves_def on_tables_def run_stmt_def split: sum.splits)
    then have "preserves (?w done_set) later" unfolding later_def
      by (intro preserves_andthen) (auto intro: execute_intent_working)
    moreover have "?w done_set t" using that by (rule working_mono) simp
    ultimately show ?thesis by (simp add: preserves_def)
  qed
  let ?act = "on_tables (run_stmt (ia_activate_io a) (update_intent i (\<lambda>r. r\<lparr>in_status := Active\<rparr>)))"
  consider (expired) "(case in_expires_at r of None \<Rightarrow> False | Some t \<Rightarrow> now > t)"
    | (pending) "\<not> (case in_expires_at r of None \<Rightarrow> False | Some t \<Rightarrow> now > t)" "in_status r = Pending"
    | (active) "\<not> (case in_expires_at r of None \<Rightarrow> False | Some t \<Rightarrow> now > t)" "in_status r = Active"
    using assms(2) by blast
  then show ?thesis
  proof cases
    case expired
    have "?w {in_status r, Expired} (fst (expire_intent a i s))"
      unfolding expire_intent_def by (rule working_run[OF assms(1), where st = Expired]) auto
    from goal[OF this] expired show ?thesis by (simp add: process_intent_def)
  next
    case pending
    have run: "process_intent api st signer lts a now i r s = andthen ?act (\<lambda>_. later) s"
      using pending by (simp add: process_intent_def later_def)
    show ?thesis
    proof (cases "ia_activate_io a")
      case (Inl e)
      with run assms(1) goal[of "{in_status r}" s] show ?thesis
        by (simp add: andthen_def on_tables_def run_stmt_def)
    next
      case (Inr v)
      have "?w {Active} (fst (?act s))"
        using working_update[OF assms(1), of "\<lambda>r. r\<lparr>in_status := Active\<rparr>" Active] Inr
        by (simp add: on_tables_def run_stmt_def)
      from goal[OF later[OF this]] run Inr show ?thesis
        by (simp add: andthen_def on_tables_def run_stmt_def)
    qed
  next
    case active
    have "process_intent api st signer lts a now i r s = later s"
      using active by (simp add: process_intent_def later_def)
    with goal[OF later] assms(1) active show ?thesis by simp
  qed
qed

lemma has_position_mono:
  "has_position db r \<Longrightarrow> (\<And>pid p. dict_get pid (sv_positions db) = Some p \<Longrightarrow> dict_get pid (sv_positions db') = Some p)
     \<Longrightarrow> has_position db' r"
  by (fastforce simp: has_position_def)

lemma scan_fold:
  fixes api st signer lts ans now s xs
  assumes "db_ok (ns_db s)" "distinct (map fst xs)"
    and "\<And>i r. (i, r) \<in> set xs \<Longrightarrow> dict_get i (sv_intents (ns_db s)) = Some r \<and> (in_status r = Pending \<or> in_status r = Active)"
  defines "t \<equiv> fold (\<lambda>(i, r) s. fst (process_intent api st signer lts (ans i) now i r s)) xs s"
  shows "db_ok (ns_db t) \<and>
    (\<forall>j. j \<notin> fst ` set xs \<longrightarrow> dict_get j (sv_intents (ns_db t)) = dict_get j (sv_intents (ns_db s))) \<and>
    (\<forall>pid p. dict_get pid (sv_positions (ns_db s)) = Some p \<longrightarrow> dict_get pid (sv_positions (ns_db t)) = Some p) \<and>
    (\<forall>(i, r) \<in> set xs. \<exists>r1. dict_get i (sv_intents (ns_db t)) = Some r1 \<and> intent_edge\<^sup>*\<^sup>* (in_status r) (in_status r1)
       \<and> in_user_id r1 = in_user_id r \<and> has_position (ns_db t) r1)"
  using assms(1-3) unfolding t_def
proof (induction xs arbitrary: s)
  case (Cons x xs)
  obtain i r where x: "x = (i, r)" by force
  define s1 where "s1 = fst (process_intent api st signer lts (ans i) now i r s)"
  have r: "dict_get i (sv_intents (ns_db s)) = Some r" "in_status r = Pending \<or> in_status r = Active"
    using Cons.prems(3)[of i r] x by auto
  have "working (ns_db s) i (in_user_id r) {in_status r} s"
    using Cons.prems(1) r by (auto simp: working_def has_position_def)
  then obtain st' where st': "intent_edge\<^sup>*\<^sup>* (in_status r) st'" and w: "working (ns_db s) i (in_user_id r) {st'} s1"
    unfolding s1_def using process_intent_working r(2) by blast
  have keys: "i \<notin> fst ` set xs" "distinct (map fst xs)" using Cons.prems(2) x by auto
  have rest: "dict_get j (sv_intents (ns_db s1)) = Some q \<and> (in_status q = Pending \<or> in_status q = Active)"
    if "(j, q) \<in> set xs" for j q
  proof -
    have "j \<noteq> i" using that keys(1) by force
    then show ?thesis using w Cons.prems(3)[of j q] that by (auto simp: working_def)
  qed
  have ok1: "db_ok (ns_db s1)" using w by (simp add: working_def)
  note ih = Cons.IH[OF ok1 keys(2) rest]
  define t where "t = fold (\<lambda>(i, r) s. fst (process_intent api st signer lts (ans i) now i r s)) xs s1"
  note ih = ih[folded t_def]
  obtain r1 where r1: "dict_get i (sv_intents (ns_db s1)) = Some r1" "in_status r1 = st'" "in_user_id r1 = in_user_id r"
    "has_position (ns_db s1) r1" using w by (auto simp: working_def)
  have "has_position (ns_db t) r1" using has_position_mono[OF r1(4)] ih by blast
  with r1 ih keys(1) st' have head: "\<exists>r1. dict_get i (sv_intents (ns_db t)) = Some r1 \<and>
      intent_edge\<^sup>*\<^sup>* (in_status r) (in_status r1) \<and> in_user_id r1 = in_user_id r \<and> has_position (ns_db t) r1"
    by auto
  have mono: "\<forall>pid p. dict_get pid (sv_positions (ns_db s)) = Some p \<longrightarrow> dict_get pid (sv_positions (ns_db t)) = Some p"
    using w ih by (auto simp: working_def)
  have others: "\<forall>j. j \<notin> fst ` set (x # xs) \<longrightarrow> dict_get j (sv_intents (ns_db t)) = dict_get j (sv_intents (ns_db s))"
    using w ih x by (auto simp: working_def)
  show ?case using ih head mono others by (simp add: x s1_def[symmetric] t_def[symmetric])
qed simp

lemma scannable_rows:
  assumes "db_ok db"
  shows "distinct (map fst (scannable db))"
    and "(i, r) \<in> set (scannable db) \<longleftrightarrow>
      dict_get i (sv_intents db) = Some r \<and> (in_status r = Pending \<or> in_status r = Active)"
proof -
  have ok: "dict_ok (sv_intents db)" using assms by (simp add: db_ok_def)
  then show "distinct (map fst (scannable db))"
    by (simp add: scannable_def dict_ok_def distinct_map_filter)
  show "(i, r) \<in> set (scannable db) \<longleftrightarrow>
      dict_get i (sv_intents db) = Some r \<and> (in_status r = Pending \<or> in_status r = Active)"
    using ok by (auto simp: scannable_def dict_get_set)
qed

section \<open>Properties\<close>

text \<open>C13: A scan moves every intent along the documented life only: from pending over active to executed or
  failed, or to expired; the final states are kept, an intent stays its user's, and an intent that
  became executed has a position of that user.\<close>

theorem intent_lifecycle:
  assumes "db_ok (ns_db s)" "dict_get i (sv_intents (ns_db s)) = Some r"
    and "intent_scan api st signer lts io now ans s = (s1, out)"
  shows "\<exists>r1. dict_get i (sv_intents (ns_db s1)) = Some r1 \<and> intent_edge\<^sup>*\<^sup>* (in_status r) (in_status r1) \<and>
     in_user_id r1 = in_user_id r \<and> (in_status r1 = in_status r \<or> has_position (ns_db s1) r1)"
proof (cases io)
  case (Inl e)
  with assms show ?thesis by (auto simp: intent_scan_def)
next
  case (Inr v)
  note rows = scannable_rows[OF assms(1)]
  have t: "s1 = fold (\<lambda>(i, r) s. fst (process_intent api st signer lts (ans i) now i r s)) (scannable (ns_db s)) s"
    using assms(3) Inr by (simp add: intent_scan_def)
  note run = scan_fold[OF assms(1) rows(1), of api st signer lts ans now, folded t]
  have "dict_get j (sv_intents (ns_db s)) = Some q \<and> (in_status q = Pending \<or> in_status q = Active)"
    if "(j, q) \<in> set (scannable (ns_db s))" for j q
    using that by (simp add: rows(2))
  note run = run[OF this]
  show ?thesis
  proof (cases "in_status r = Pending \<or> in_status r = Active")
    case True
    then have "(i, r) \<in> set (scannable (ns_db s))" using assms(2) by (simp add: rows(2))
    with run show ?thesis by fastforce
  next
    case False
    then have "i \<notin> fst ` set (scannable (ns_db s))" using assms(2) by (auto simp: rows(2))
    with run assms(2) show ?thesis by auto
  qed
qed

lemma andthen_post:
  assumes "preserves P m" "\<And>t. P t \<Longrightarrow> Q t" "\<And>v t. P t \<Longrightarrow> Q (fst (k v t))" "P s"
  shows "Q (fst (andthen m k s))"
  using assms by (auto simp: andthen_def preserves_def split: prod.splits sum.splits)

text \<open>Without an execution: the positions stay, and the intent is not executed.\<close>

definition unexecuted :: "(string, position_entry) dict \<Rightarrow> string \<Rightarrow> scanner_state \<Rightarrow> bool" where
  "unexecuted ps i s \<longleftrightarrow> db_ok (ns_db s) \<and> sv_positions (ns_db s) = ps \<and>
     (\<exists>r1. dict_get i (sv_intents (ns_db s)) = Some r1 \<and> in_status r1 \<noteq> Executed)"

lemma unexecuted_update:
  assumes "\<And>r. in_status (f r) \<noteq> Executed"
  shows "preserves (unexecuted ps i) (on_tables (run_stmt io (update_intent i f)))"
proof -
  have "dict_get i (sv_intents (update_intent i f d)) = map_option f (dict_get i (sv_intents d))" if "db_ok d" for d
    using that by (simp add: db_ok_def get_update_intent)
  then show ?thesis
    using assms by (auto simp: preserves_def unexecuted_def on_tables_def run_stmt_def split: sum.splits)
qed

lemma execute_intent_unexecuted:
  assumes "ok (ns_asgard s)" "intent_state (ns_asgard s) (og_intent (ia_opening a)) = IDLE" "unexecuted ps i s"
  shows "unexecuted ps i (fst (execute_intent api st signer lts a i r c s))"
proof -
  have fail: "unexecuted ps i t \<Longrightarrow> unexecuted ps i (fst (fail_intent a i err t))" for err t
    using unexecuted_update[of "\<lambda>r. r\<lparr>in_status := Failed_intent, in_execution_error := Some err\<rparr>" ps i "ia_fail_io a"]
    by (simp add: preserves_def fail_intent_def)
  show ?thesis
  proof (cases "intent_opportunity (ia_now a) i r c")
    case (Inl e)
    then show ?thesis using fail[OF assms(3)]
      by (simp add: execute_intent_def catching_def andthen_def lift_result_def)
  next
    case (Inr opp)
    obtain s1 out where o: "open_for_user api st signer lts (ia_opening a) (in_user_id r) opp s = (s1, out)" by force
    have "unexecuted ps i s1"
      using assms(3) open_for_user_db[of api st signer lts "ia_opening a" "in_user_id r" opp s] o
      by (simp add: unexecuted_def)
    note f1 = fail[OF this]
    show ?thesis
    proof (cases out)
      case (Inl e)
      with Inr o f1 show ?thesis by (simp add: execute_intent_def catching_def andthen_def lift_result_def)
    next
      case (Inr res)
      have "\<not> mr_success res" using open_for_user_fails[OF assms(1,2)] o Inr by blast
      with \<open>intent_opportunity _ _ _ _ = _\<close> o Inr f1 show ?thesis
        by (auto simp: execute_intent_def catching_def andthen_def lift_result_def split: prod.splits sum.splits)
          (metis fail fst_conv)+
    qed
  qed
qed

text \<open>With the program's own Asgard manager no intent is ever executed: processing an intent with a fresh
  transaction id leaves the positions as they are and the intent not executed, whatever the venues
  answer.\<close>

theorem intent_never_executed:
  assumes "db_ok (ns_db s)" "dict_get i (sv_intents (ns_db s)) = Some r" "in_status r = Pending \<or> in_status r = Active"
    and "ok (ns_asgard s)" "intent_state (ns_asgard s) (og_intent (ia_opening a)) = IDLE"
    and "process_intent api st signer lts a now i r s = (s1, out)"
  shows "sv_positions (ns_db s1) = sv_positions (ns_db s) \<and>
    (\<exists>r1. dict_get i (sv_intents (ns_db s1)) = Some r1 \<and> in_status r1 \<noteq> Executed)"
proof -
  let ?u = "unexecuted (sv_positions (ns_db s)) i"
  let ?p = "\<lambda>t. ?u t \<and> ns_asgard t = ns_asgard s"
  have u: "?p s" using assms(1-3) by (auto simp: unexecuted_def)
  have upd: "preserves ?p (on_tables (run_stmt io (update_intent i (\<lambda>r. r\<lparr>in_status := st\<rparr>))))"
    if "st \<noteq> Executed" for io st
    using unexecuted_update[of "\<lambda>r. r\<lparr>in_status := st\<rparr>" "sv_positions (ns_db s)" i io] that
    by (simp add: preserves_def)
  have snap: "preserves ?p (on_tables (run_stmt io id))" for io
    by (auto simp: preserves_def on_tables_def run_stmt_def unexecuted_def split: sum.splits)
  have act: "preserves ?p (if in_status r = Pending
      then on_tables (run_stmt (ia_activate_io a) (update_intent i (\<lambda>r. r\<lparr>in_status := Active\<rparr>))) else ret ())"
    using upd by simp
  have "?u (fst (process_intent api st signer lts a now i r s))"
  proof (cases "case in_expires_at r of None \<Rightarrow> False | Some t \<Rightarrow> now > t")
    case True
    with upd[of Expired "ia_expire_io a"] u show ?thesis
      by (simp add: process_intent_def expire_intent_def preserves_def)
  next
    case False
    have run: "?u (fst ((if cs_all_passed (check_criteria a r)
        then execute_intent api st signer lts a i r (check_criteria a r) else ret ()) t))" if "?p t" for t
      using that execute_intent_unexecuted assms(4,5) by simp
    define later where "later = andthen (on_tables (run_stmt (ia_snapshot_io a) id)) (\<lambda>_.
      if cs_all_passed (check_criteria a r)
      then execute_intent api st signer lts a i r (check_criteria a r) else ret ())"
    have "?u (fst (later t))" if "?p t" for t
      unfolding later_def by (rule andthen_post[where P = ?p, OF snap _ _ that]) (simp, rule run)
    note later = this
    have "?u (fst (andthen (if in_status r = Pending
      then on_tables (run_stmt (ia_activate_io a) (update_intent i (\<lambda>r. r\<lparr>in_status := Active\<rparr>))) else ret ())
      (\<lambda>_. later) s))"
      by (rule andthen_post[where P = ?p and Q = ?u, OF act _ _ u]) (erule conjunct1, erule later)
    with False show ?thesis by (simp add: process_intent_def later_def)
  qed
  with assms(6) show ?thesis by (simp add: unexecuted_def)
qed

lemma execute_intent_skipped:
  assumes "ns_legs (fst (process_intent api st signer lts a now i r s)) \<noteq> ns_legs s"
  shows "\<not> (case in_expires_at r of None \<Rightarrow> False | Some t \<Rightarrow> now > t) \<and> cs_all_passed (check_criteria a r)"
  using assms
  by (auto simp: process_intent_def expire_intent_def andthen_def split: if_splits prod.splits sum.splits
      dest!: arg_cong[where f = "ns_legs \<circ> fst"])

lemma check_criteria_passed:
  "cs_all_passed (check_criteria a r) \<longleftrightarrow>
     cn_passed (check_funding a r) \<and> cn_passed (check_volatility a r) \<and> cn_passed (check_price a r)"
  by (simp add: check_criteria_def Let_def)

lemma check_funding_passed:
  "cn_passed (check_funding a r) \<longleftrightarrow>
     (\<exists>rates f. get_current_funding_rates (ia_time a) (ia_rates a) = Inr rates \<and> dict_get (in_asset r) rates = Some f \<and>
        hf_funding_rate f < 0 \<and> (\<forall>m. in_min_funding_rate r = Some m \<longrightarrow> hf_funding_rate f \<le> m))"
  by (auto simp: check_funding_def Let_def passed_def refused_def split: sum.splits option.splits)

lemma check_volatility_passed:
  "cn_passed (check_volatility a r) \<longleftrightarrow>
     (\<exists>v. snd (calculate_funding_volatility (ia_history a) (in_asset r) 168 funding_oracle_init) = Inr v \<and>
        v \<le> py_or (in_max_funding_volatility r) (flt (50/100)))"
  by (auto simp: check_volatility_def passed_def refused_def split: sum.splits)

lemma check_price_passed:
  "cn_passed (check_price a r) \<longleftrightarrow>
     (\<forall>m. in_max_entry_price r = Some m \<longrightarrow> (\<exists>ms x. ia_mids a = Inr ms \<and> ms (in_asset r) = Some x \<and> x \<le> m))"
  by (auto simp: check_price_def passed_def refused_def split: sum.splits option.splits)

text \<open>C14: A venue call is made for an intent only when it has not expired and its three criteria hold: the
  present rate is negative and, if the user set a bound, not above it; the volatility is within the
  limit, where a limit of zero counts as 50 percent; the mid price is within the limit, if any.\<close>

theorem intent_orders_need_criteria:
  assumes "process_intent api st signer lts a now i r s = (s1, out)"
  shows "ns_legs s1 = ns_legs s \<or>
    ((\<forall>t. in_expires_at r = Some t \<longrightarrow> now \<le> t) \<and>
     (\<exists>rates f. get_current_funding_rates (ia_time a) (ia_rates a) = Inr rates \<and> dict_get (in_asset r) rates = Some f \<and>
        hf_funding_rate f < 0 \<and> (\<forall>m. in_min_funding_rate r = Some m \<longrightarrow> hf_funding_rate f \<le> m)) \<and>
     (\<exists>v. snd (calculate_funding_volatility (ia_history a) (in_asset r) 168 funding_oracle_init) = Inr v \<and>
        v \<le> py_or (in_max_funding_volatility r) (flt (50/100))) \<and>
     (\<forall>m. in_max_entry_price r = Some m \<longrightarrow> (\<exists>ms x. ia_mids a = Inr ms \<and> ms (in_asset r) = Some x \<and> x \<le> m)))"
proof (cases "ns_legs s1 = ns_legs s")
  case False
  then have "ns_legs (fst (process_intent api st signer lts a now i r s)) \<noteq> ns_legs s" using assms by simp
  from execute_intent_skipped[OF this] show ?thesis
    by (auto simp: check_criteria_passed check_funding_passed check_volatility_passed check_price_passed
        not_less split: option.splits)
qed simp

text \<open>A row read before its owner cancelled the intent revives it: the activation writes over whatever
  status the table has, so that a cancelled intent becomes active again.\<close>

theorem cancelled_intent_revived:
  assumes "db_ok (ns_db s)" "dict_get i (sv_intents (ns_db s)) = Some r0" "in_status r0 = Cancelled"
    and "in_status r = Pending" "in_expires_at r = None" "ia_activate_io a = Inr ()"
    and "\<not> cs_all_passed (check_criteria a r)"
  shows "\<exists>r1. dict_get i (sv_intents (ns_db (fst (process_intent api st signer lts a now i r s)))) = Some r1 \<and>
    in_status r1 = Active"
proof -
  have "dict_ok (sv_intents (ns_db s))" using assms(1) by (simp add: db_ok_def)
  then show ?thesis
    using assms by (auto simp: process_intent_def andthen_def on_tables_def run_stmt_def get_update_intent
        split: sum.splits prod.splits)
qed

section \<open>Instances\<close>

definition wit_intent :: intent_row where
  "wit_intent = \<lparr>in_user_id = ''u1'', in_asset = ''SOL'', in_leverage = 3, in_size_usd = 1000,
     in_min_funding_rate = None, in_max_funding_volatility = None, in_max_entry_price = None,
     in_status = Pending, in_position_id = None, in_execution_error = None, in_expires_at = None\<rparr>"

definition wit_scanner :: "intent_status \<Rightarrow> scanner_state" where
  "wit_scanner x = \<lparr>ns_db = \<lparr>sv_users = [''u1'' \<mapsto> wit_user], sv_user_paused = Map.empty, sv_positions = [],
     sv_history = [], sv_intents = [(''n1'', wit_intent\<lparr>in_status := x\<rparr>)], sv_strategy = [], sv_risk = wit_risk_db\<rparr>,
     ns_asgard = wit_asgard, ns_legs = []\<rparr>"

definition wit_intent_answers :: intent_answers where
  "wit_intent_answers = \<lparr>ia_now = 0, ia_time = 0, ia_rates = Inl (ExternalError ''timeout''),
     ia_history = Inl (ExternalError ''timeout''), ia_mids = Inl (ExternalError ''timeout''),
     ia_expire_io = Inr (), ia_activate_io = Inr (), ia_snapshot_io = Inr (), ia_fail_io = Inr (),
     ia_tx_io = Inr (), ia_opening = \<lparr>og_user_io = Inr (), og_intent = ''i1'', og_open = wit_answers\<rparr>\<rparr>"

lemma wit_scanner_row:
  "db_ok (ns_db (wit_scanner x))"
  "dict_get ''n1'' (sv_intents (ns_db (wit_scanner x))) = Some (wit_intent\<lparr>in_status := x\<rparr>)"
  by (simp_all add: wit_scanner_def db_ok_def dict_ok_def dict_get_def)

lemma wit_intent_refused: "\<not> cs_all_passed (check_criteria wit_intent_answers r)"
  by (simp add: check_criteria_passed check_funding_passed wit_intent_answers_def get_current_funding_rates_def)

theorem intent_lifecycle_witness:
  "\<exists>s1 r1. intent_scan (wit_api False) wit_settings (\<lambda>_. Inr ()) wit_limits (Inr ()) 9 (\<lambda>_. wit_intent_answers)
       (wit_scanner Executed) = (s1, Inr ()) \<and> dict_get ''n1'' (sv_intents (ns_db s1)) = Some r1 \<and>
     in_status r1 = Executed"
proof -
  obtain s1 where s1: "intent_scan (wit_api False) wit_settings (\<lambda>_. Inr ()) wit_limits (Inr ()) 9
      (\<lambda>_. wit_intent_answers) (wit_scanner Executed) = (s1, Inr ())"
    by (simp add: intent_scan_def)
  from intent_lifecycle[OF wit_scanner_row s1] s1 show ?thesis
    by (fastforce dest: edge_final)
qed

theorem intent_never_executed_witness:
  "sv_positions (ns_db (fst (process_intent (wit_api True) wit_settings (\<lambda>_. Inr ()) wit_limits wit_intent_answers 9
      ''n1'' (wit_intent\<lparr>in_status := Pending\<rparr>) (wit_scanner Pending)))) = []"
proof -
  obtain s1 out where p: "process_intent (wit_api True) wit_settings (\<lambda>_. Inr ()) wit_limits wit_intent_answers 9
      ''n1'' (wit_intent\<lparr>in_status := Pending\<rparr>) (wit_scanner Pending) = (s1, out)" by force
  have "in_status (wit_intent\<lparr>in_status := Pending\<rparr>) = Pending \<or> in_status (wit_intent\<lparr>in_status := Pending\<rparr>) = Active"
    "ok (ns_asgard (wit_scanner Pending))"
    "intent_state (ns_asgard (wit_scanner Pending)) (og_intent (ia_opening wit_intent_answers)) = IDLE"
    by (simp_all add: wit_scanner_def wit_asgard_def tx_table_ok_empty)
  from intent_never_executed[OF wit_scanner_row this p] p show ?thesis
    by (simp add: wit_scanner_def)
qed

theorem intent_orders_need_criteria_witness:
  "ns_legs (fst (process_intent (wit_api True) wit_settings (\<lambda>_. Inr ()) wit_limits wit_intent_answers 9
      ''n1'' wit_intent (wit_scanner Pending))) = []"
proof -
  obtain s1 out where p: "process_intent (wit_api True) wit_settings (\<lambda>_. Inr ()) wit_limits wit_intent_answers 9
      ''n1'' wit_intent (wit_scanner Pending) = (s1, out)" by force
  have "get_current_funding_rates (ia_time wit_intent_answers) (ia_rates wit_intent_answers) \<noteq> Inr rates" for rates
    by (simp add: wit_intent_answers_def get_current_funding_rates_def)
  with intent_orders_need_criteria[OF p] p show ?thesis by (simp add: wit_scanner_def)
qed

theorem cancelled_intent_revived_witness:
  "\<exists>r1. dict_get ''n1'' (sv_intents (ns_db (fst (process_intent (wit_api True) wit_settings (\<lambda>_. Inr ()) wit_limits
      wit_intent_answers 9 ''n1'' wit_intent (wit_scanner Cancelled))))) = Some r1 \<and> in_status r1 = Active"
  by (rule cancelled_intent_revived[OF wit_scanner_row _ _ _ _ wit_intent_refused])
    (simp_all add: wit_intent_def wit_intent_answers_def)

end
