(* ===== verification/AutonomousScanner.thy ===== *)
theory AutonomousScanner
  imports UserOpening
begin

text \<open>
  The autonomous scanner (\<open>bot/core/autonomous_scanner.py\<close>, with the caps of
  \<open>shared/config/strategy_defaults.py\<close>): one cycle over the users with an enabled strategy, the
  pre-flight checks of a user, the entry thresholds, the cooldown, the sizing, and the opening with the
  circuit breaker behind it.

  The state is the scanners' (\<open>UserOpening\<close>); the answers of the venues, the database and the
  clock are a record per user. A column that is NULL makes the comparison or product with it raise.
  Waiting and the background task are left out.
\<close>

section \<open>Data\<close>

definition SYSTEM_MIN_COOLDOWN_MINUTES :: int where "SYSTEM_MIN_COOLDOWN_MINUTES = 5"
definition SYSTEM_MAX_POSITIONS :: int where "SYSTEM_MAX_POSITIONS = 3"
definition SYSTEM_MIN_POSITION_USD :: rat where "SYSTEM_MIN_POSITION_USD = 100"
definition SYSTEM_MAX_POSITION_USD :: rat where "SYSTEM_MAX_POSITION_USD = 50000"

record market_view =
  mw_funding_rates :: "(string, hl_funding) dict"
  mw_volatilities :: "(string, pyfloat) dict"

record entry_terms =
  et_funding_rate_8hr :: pyfloat
  et_estimated_carry_apy :: pyfloat
  et_volatility :: pyfloat
  et_leverage :: pyfloat

datatype entry_choice = Skip string | Enter entry_terms

record auto_answers =
  au_now :: datetime
  au_today :: int
  au_lock :: "exn + bool"
  au_paused_io :: "exn + unit"
  au_count_io :: "exn + unit"
  au_limit_io :: "exn + unit"
  au_user_io :: "exn + unit"
  au_balance :: "exn + clearinghouse"
  au_opening :: opening_answers
  au_insert_io :: "exn + unit"
  au_trade_io :: "exn + unit"
  au_failure_io :: "bool \<Rightarrow> exn + unit"

text \<open>A column whose value an operation needs.\<close>

definition required :: "'a option \<Rightarrow> exn + 'a" where
  "required x = (case x of None \<Rightarrow> Inl (TypeError ''unsupported operand type NoneType'') | Some v \<Rightarrow> Inr v)"

section \<open>Market data\<close>

definition add_volatility ::
  "(string \<Rightarrow> exn + funding_entry list) \<Rightarrow> string \<Rightarrow> funding_oracle \<times> (string, pyfloat) dict
     \<Rightarrow> funding_oracle \<times> (string, pyfloat) dict"
where
  "add_volatility hist coin acc =
     (case calculate_funding_volatility (hist coin) coin 168 (fst acc) of
        (fo, r) \<Rightarrow> (fo, dict_put coin (case r of Inl e \<Rightarrow> 1 | Inr v \<Rightarrow> v) (snd acc)))"

definition fetch_market_data ::
  "int \<Rightarrow> exn + meta_response \<Rightarrow> (string \<Rightarrow> exn + funding_entry list) \<Rightarrow> market_view option"
where
  "fetch_market_data t meta hist =
     (case get_current_funding_rates t meta of
        Inl e \<Rightarrow> None
      | Inr rates \<Rightarrow> Some \<lparr>mw_funding_rates = rates,
          mw_volatilities = snd (fold (add_volatility hist) (map fst rates) (funding_oracle_init, []))\<rparr>)"

section \<open>Entry criteria\<close>

definition estimated_carry :: "pyfloat \<Rightarrow> pyfloat \<Rightarrow> pyfloat" where
  "estimated_carry rate lev = flt (flt (flt (flt (\<bar>rate\<bar> * 3) * 365) * lev) * 100)"

definition check_auto_entry ::
  "strategy_row \<Rightarrow> string \<Rightarrow> hl_funding \<Rightarrow> (string, pyfloat) dict \<Rightarrow> exn + entry_choice"
where
  "check_auto_entry cfg asset f vols =
     (let x = hf_rate_8hr f; vol = get_or (dict_get asset vols) 1
      in if x \<ge> 0 then Inr (Skip ''funding_positive'')
         else res_bind (required (sg_min_funding_rate_8hr cfg)) (\<lambda>m.
           if \<bar>x\<bar> < m then Inr (Skip ''funding_below_threshold'')
           else res_bind (required (sg_max_funding_volatility cfg)) (\<lambda>mv.
             if vol > mv then Inr (Skip ''volatility_too_high'')
             else res_bind (required (sg_max_leverage cfg)) (\<lambda>lev.
               res_bind (required (sg_min_carry_apy cfg)) (\<lambda>mc.
                 if estimated_carry x lev < mc then Inr (Skip ''carry_below_threshold'')
                 else Inr (Enter \<lparr>et_funding_rate_8hr = x, et_estimated_carry_apy = estimated_carry x lev,
                        et_volatility = vol, et_leverage = lev\<rparr>))))))"

section \<open>Cooldown\<close>

definition cooldown_elapsed :: "datetime \<Rightarrow> strategy_row \<Rightarrow> exn + bool" where
  "cooldown_elapsed now cfg =
     (case sg_last_close_time cfg of
        None \<Rightarrow> Inr True
      | Some t \<Rightarrow>
          res_bind (case sg_cooldown_at_close cfg of
                      Some c \<Rightarrow> Inr c
                    | None \<Rightarrow> required (sg_cooldown_minutes cfg)) (\<lambda>c.
            Inr (now - t \<ge> max c SYSTEM_MIN_COOLDOWN_MINUTES * 60 * 10 ^ 6)))"

section \<open>Opening\<close>

definition auto_capital :: "pyfloat \<Rightarrow> pyfloat \<Rightarrow> rat" where
  "auto_capital balance pct =
     min (max (float_str (flt (balance * pct))) SYSTEM_MIN_POSITION_USD) SYSTEM_MAX_POSITION_USD"

definition auto_opportunity ::
  "datetime \<Rightarrow> string \<Rightarrow> string \<Rightarrow> entry_terms \<Rightarrow> rat \<Rightarrow> exn + opportunity"
where
  "auto_opportunity now u asset e capital =
     res_bind (asset_of_value asset) (\<lambda>as.
       let lev = float_str (et_leverage e); sz = dec (capital * lev);
           fund = \<lparr>fr_timestamp = now, fr_coin = asset, rate_8hr = float_str (et_funding_rate_8hr e)\<rparr>
       in make_opportunity
         \<lparr>opp_id = ''auto-'' @ u, opp_timestamp = now, opp_asset = as, selected_protocol = MARGINFI,
          opp_rates = \<lparr>ar_protocol_id = protocol_value MARGINFI, token_a_mint = [], token_b_mint = USDC_MINT,
            token_a_lending_apy = 5/100, token_b_borrowing_apy = 8/100,
            token_b_max_borrow_capacity = dec (sz * 2)\<rparr>,
          hyperliquid_coin = ''SOL'', current_funding = fund, predicted_funding = None,
          funding_volatility = float_str (et_volatility e), opp_leverage = lev, deployed_capital_usd = capital,
          opp_position_size_usd = sz,
          score = \<lparr>funding_apy = dec (dabs (rate_annual fund) * lev),
            net_carry_apy = float_str (flt (et_estimated_carry_apy e / 100)), lst_staking_apy = 0,
            estimated_gas_cost_apy = 0, estimated_slippage_apy = 0\<rparr>,
          opp_price_deviation = 0, preflight_checks_passed = True, expires_at = None\<rparr>)"

definition auto_data :: "string \<Rightarrow> entry_terms \<Rightarrow> rat \<Rightarrow> jdata" where
  "auto_data asset e capital =
     [(''asset'', TextV asset), (''leverage'', NumV (flt (float_str (et_leverage e)))),
      (''size_usd'', NumV (flt capital)), (''source'', TextV ''autonomous''), (''created_at'', TextV ''timestamp'')]"

definition on_risk :: "exn + unit \<Rightarrow> (risk_db \<Rightarrow> risk_db) \<Rightarrow> (scanner_state, unit) action" where
  "on_risk io f = on_tables (run_stmt io (\<lambda>db. db\<lparr>sv_risk := f (sv_risk db)\<rparr>))"

definition auto_failure :: "bool \<Rightarrow> auto_answers \<Rightarrow> bool \<Rightarrow> string \<Rightarrow> string \<Rightarrow> (scanner_state, unit) action" where
  "auto_failure managed a again u reason =
     (if managed
      then on_risk (au_failure_io a again) (\<lambda>rk. fst (record_failure (au_now a) (au_today a) u reason rk))
      else ret ())"

text \<open>The balance of the user's own trader.\<close>

definition auto_balance ::
  "settings \<Rightarrow> (string option \<Rightarrow> exn + unit) \<Rightarrow> auto_answers \<Rightarrow> string \<Rightarrow> (scanner_state, pyfloat) action"
where
  "auto_balance st signer a u s =
     (s, res_bind (au_user_io a) (\<lambda>_. res_bind (from_user_id (Inr (sv_users (ns_db s) u)) u) (\<lambda>c.
           case snd (get_hl_trader st signer c) of
             Inl e \<Rightarrow> Inl e
           | Inr t \<Rightarrow> Inr (get_withdrawable_balance (au_balance a) t))))"

definition auto_result ::
  "bool \<Rightarrow> auto_answers \<Rightarrow> string \<Rightarrow> string \<Rightarrow> entry_terms \<Rightarrow> rat \<Rightarrow> manager_result \<Rightarrow> (scanner_state, unit) action"
where
  "auto_result managed a u asset e capital res =
     (case (mr_success res, mr_position res) of
        (True, Some p) \<Rightarrow>
          andthen (on_tables (run_tx (au_insert_io a) (insert_position (position_id p) u (auto_data asset e capital))))
           (\<lambda>_. if managed then on_risk (au_trade_io a) (record_trade (au_today a) u) else ret ())
      | _ \<Rightarrow> auto_failure managed a False u
               (''open_failed: '' @ (case mr_error res of None \<Rightarrow> ''None'' | Some t \<Rightarrow> t)))"

definition open_position_for_user ::
  "asgard_api \<Rightarrow> settings \<Rightarrow> (string option \<Rightarrow> exn + unit) \<Rightarrow> limits \<Rightarrow> bool \<Rightarrow> auto_answers \<Rightarrow> string
     \<Rightarrow> strategy_row \<Rightarrow> string \<Rightarrow> entry_terms \<Rightarrow> (scanner_state, unit) action"
where
  "open_position_for_user api st signer lts managed a u cfg asset e =
     catching
       (andthen (auto_balance st signer a u) (\<lambda>balance.
        andthen (lift_result (required (sg_max_position_pct cfg))) (\<lambda>pct.
        let capital = auto_capital balance pct
        in if balance < flt capital then ret ()
           else andthen (lift_result (auto_opportunity (au_now a) u asset e capital)) (\<lambda>opp.
                andthen (open_for_user api st signer lts (au_opening a) u opp) (\<lambda>res.
                auto_result managed a u asset e capital res)))))
       (\<lambda>x. catching (auto_failure managed a True u (''open_exception: '' @ exn_text x)) (\<lambda>_. ret ()))"

section \<open>One user\<close>

text \<open>The loop over the assets, which ends at the first entry.\<close>

fun evaluate_assets ::
  "market_view \<Rightarrow> strategy_row \<Rightarrow> string list \<Rightarrow> (string \<Rightarrow> entry_terms \<Rightarrow> (scanner_state, unit) action)
     \<Rightarrow> (scanner_state, unit) action"
where
  "evaluate_assets mv cfg [] enter = ret ()"
| "evaluate_assets mv cfg (asset # rest) enter =
     (case dict_get asset (mw_funding_rates mv) of
        None \<Rightarrow> evaluate_assets mv cfg rest enter
      | Some f \<Rightarrow>
          andthen (lift_result (check_auto_entry cfg asset f (mw_volatilities mv))) (\<lambda>d.
            case d of Skip _ \<Rightarrow> evaluate_assets mv cfg rest enter | Enter e \<Rightarrow> enter asset e))"

definition open_count :: "string \<Rightarrow> service_db \<Rightarrow> int" where
  "open_count u db = int (length (filter (\<lambda>(_, p). pe_user_id p = u \<and> \<not> pe_is_closed p) (sv_positions db)))"

definition strategy_assets :: "strategy_row \<Rightarrow> string list" where
  "strategy_assets cfg =
     (case sg_assets cfg of None \<Rightarrow> [''SOL''] | Some xs \<Rightarrow> if xs = [] then [''SOL''] else xs)"

definition daily_limit_step :: "bool \<Rightarrow> auto_answers \<Rightarrow> string \<Rightarrow> (scanner_state, bool) action" where
  "daily_limit_step managed a u s =
     (if managed
      then (case au_limit_io a of
              Inl e \<Rightarrow> (s, Inl e)
            | Inr _ \<Rightarrow> (case check_daily_trade_limit (au_today a) u (sv_risk (ns_db s)) of
                (rk, below) \<Rightarrow> (s\<lparr>ns_db := (ns_db s)\<lparr>sv_risk := rk\<rparr>\<rparr>, Inr below)))
      else (s, Inr True))"

definition evaluate_user ::
  "asgard_api \<Rightarrow> settings \<Rightarrow> (string option \<Rightarrow> exn + unit) \<Rightarrow> limits \<Rightarrow> bool \<Rightarrow> auto_answers \<Rightarrow> market_view
     \<Rightarrow> string \<Rightarrow> strategy_row \<Rightarrow> (scanner_state, unit) action"
where
  "evaluate_user api st signer lts managed a mv u cfg s =
     andthen (lift_result (au_lock a)) (\<lambda>locked.
     if \<not> locked then ret ()
     else andthen (lift_result (cooldown_elapsed (au_now a) cfg)) (\<lambda>elapsed.
     if \<not> elapsed then ret ()
     else andthen (lift_result (au_paused_io a)) (\<lambda>_.
     if sv_user_paused (ns_db s) u \<noteq> None then ret ()
     else andthen (lift_result (au_count_io a)) (\<lambda>_.
     andthen (lift_result (required (sg_max_concurrent_positions cfg))) (\<lambda>m.
     if open_count u (ns_db s) \<ge> min m SYSTEM_MAX_POSITIONS then ret ()
     else andthen (daily_limit_step managed a u) (\<lambda>under.
     if \<not> under then ret ()
     else evaluate_assets mv cfg (strategy_assets cfg)
            (open_position_for_user api st signer lts managed a u cfg))))))) s"

section \<open>One cycle\<close>

definition get_enabled_users :: "service_db \<Rightarrow> (string \<times> strategy_row) list" where
  "get_enabled_users db =
     filter (\<lambda>(u, r). sg_enabled r \<and> strategy_pauses (sv_risk db) u = None) (sv_strategy db)"

definition auto_scan ::
  "asgard_api \<Rightarrow> settings \<Rightarrow> (string option \<Rightarrow> exn + unit) \<Rightarrow> limits \<Rightarrow> bool \<Rightarrow> market_view option
     \<Rightarrow> exn + unit \<Rightarrow> (string \<Rightarrow> auto_answers) \<Rightarrow> (scanner_state, unit) action"
where
  "auto_scan api st signer lts managed market io ans s =
     (case market of
        None \<Rightarrow> (s, Inr ())
      | Some mv \<Rightarrow>
          (case io of
             Inl e \<Rightarrow> (s, Inl e)
           | Inr _ \<Rightarrow>
               (fold (\<lambda>(u, cfg) s. fst (evaluate_user api st signer lts managed (ans u) mv u cfg s))
                  (get_enabled_users (ns_db s)) s, Inr ())))"

section \<open>Lemmas\<close>

lemma on_risk_keeps [simp]:
  "sv_positions (ns_db (fst (on_risk io f s))) = sv_positions (ns_db s)"
  "ns_legs (fst (on_risk io f s)) = ns_legs s"
  "ns_asgard (fst (on_risk io f s)) = ns_asgard s"
  by (simp_all add: on_risk_def on_tables_def run_stmt_def split: sum.splits)

lemma auto_failure_keeps [simp]:
  "sv_positions (ns_db (fst (auto_failure managed a again u r s))) = sv_positions (ns_db s)"
  "ns_legs (fst (auto_failure managed a again u r s)) = ns_legs s"
  by (simp_all add: auto_failure_def)

lemma auto_result_keeps [simp]: "ns_legs (fst (auto_result managed a u asset e c res s)) = ns_legs s"
  by (auto simp: auto_result_def andthen_def on_tables_def split: option.splits bool.splits sum.splits prod.splits)

lemma auto_capital_bounds: "100 \<le> auto_capital b p" "auto_capital b p \<le> 50000"
  by (simp_all add: auto_capital_def SYSTEM_MIN_POSITION_USD_def SYSTEM_MAX_POSITION_USD_def)

definition after_failure :: "bool \<Rightarrow> auto_answers \<Rightarrow> string \<Rightarrow> exn \<Rightarrow> (scanner_state, unit) action" where
  "after_failure managed a u x =
     catching (auto_failure managed a True u (''open_exception: '' @ exn_text x)) (\<lambda>_. ret ())"

lemma after_failure_keeps [simp]:
  "sv_positions (ns_db (fst (after_failure managed a u x s))) = sv_positions (ns_db s)"
  "ns_legs (fst (after_failure managed a u x s)) = ns_legs s" "\<exists>v. snd (after_failure managed a u x s) = Inr v"
proof -
  define why where "why = ''open_exception: '' @ exn_text x"
  obtain t r where f: "auto_failure managed a True u why s = (t, r)" by force
  then have run: "after_failure managed a u x s = (t, Inr ())"
    unfolding after_failure_def catching_def why_def[symmetric] by (simp split: sum.splits)
  show "sv_positions (ns_db (fst (after_failure managed a u x s))) = sv_positions (ns_db s)"
    "ns_legs (fst (after_failure managed a u x s)) = ns_legs s" "\<exists>v. snd (after_failure managed a u x s) = Inr v"
    using auto_failure_keeps[of managed a True u why s] f by (simp_all add: run)
qed

text \<open>The balance that the user can withdraw, and when it is below the capital of an entry.\<close>

definition withdrawable ::
  "settings \<Rightarrow> (string option \<Rightarrow> exn + unit) \<Rightarrow> auto_answers \<Rightarrow> string \<Rightarrow> scanner_state \<Rightarrow> pyfloat \<Rightarrow> bool" where
  "withdrawable st signer a u s b \<longleftrightarrow> au_user_io a = Inr () \<and>
     (\<exists>c t. from_user_id (Inr (sv_users (ns_db s) u)) u = Inr c \<and> snd (get_hl_trader st signer c) = Inr t \<and>
        b = get_withdrawable_balance (au_balance a) t)"

definition small_balance ::
  "settings \<Rightarrow> (string option \<Rightarrow> exn + unit) \<Rightarrow> auto_answers \<Rightarrow> string \<Rightarrow> strategy_row \<Rightarrow> scanner_state \<Rightarrow> bool" where
  "small_balance st signer a u cfg s \<longleftrightarrow>
     (\<exists>b pct. withdrawable st signer a u s b \<and> sg_max_position_pct cfg = Some pct \<and>
        b < flt (min (max (float_str (flt (b * pct))) 100) 50000))"

lemma auto_balance_Inr: "snd (auto_balance st signer a u s) = Inr b \<longleftrightarrow> withdrawable st signer a u s b"
  by (auto simp: auto_balance_def withdrawable_def res_bind_def split: sum.splits)

lemma auto_capital_eq: "auto_capital b pct = min (max (float_str (flt (b * pct))) 100) 50000"
  by (simp add: auto_capital_def SYSTEM_MIN_POSITION_USD_def SYSTEM_MAX_POSITION_USD_def)

lemma small_balance_eq:
  "auto_balance st signer a u s = (s, r) \<Longrightarrow> small_balance st signer a u cfg s \<longleftrightarrow>
     (\<exists>b pct. r = Inr b \<and> sg_max_position_pct cfg = Some pct \<and> b < flt (auto_capital b pct))"
  by (simp add: small_balance_def auto_capital_eq auto_balance_Inr[symmetric])

text \<open>How far an opening for a user gets.\<close>

lemma open_position_for_user_cases:
  assumes "open_position_for_user api st signer lts managed a u cfg asset e s = (s1, out)"
  obtains (early) x where "\<not> small_balance st signer a u cfg s" "(s1, out) = after_failure managed a u x s"
  | (poor) "small_balance st signer a u cfg s" "s1 = s" "out = Inr ()"
  | (tried) balance pct opp s2 res where "\<not> small_balance st signer a u cfg s"
      "withdrawable st signer a u s balance" "sg_max_position_pct cfg = Some pct"
      "flt (auto_capital balance pct) \<le> balance"
      "auto_opportunity (au_now a) u asset e (auto_capital balance pct) = Inr opp"
      "open_for_user api st signer lts (au_opening a) u opp s = (s2, res)"
      "(s1, out) = (case res of Inl x \<Rightarrow> after_failure managed a u x s2
         | Inr r \<Rightarrow> catching (auto_result managed a u asset e (auto_capital balance pct) r) (after_failure managed a u) s2)"
proof -
  note run = assms[unfolded open_position_for_user_def, folded after_failure_def]
  obtain r where b: "auto_balance st signer a u s = (s, r)" by (simp add: auto_balance_def)
  note small = small_balance_eq[OF b, of cfg]
  show ?thesis
  proof (cases r)
    case (Inl x)
    with run b small show ?thesis by (intro early[of x]) (simp_all add: catching_def andthen_def)
  next
    case (Inr balance)
    note b = b[unfolded Inr]
    have own: "withdrawable st signer a u s balance" using b by (simp add: auto_balance_Inr[symmetric])
    show ?thesis
    proof (cases "sg_max_position_pct cfg")
      case None
      with run b small show ?thesis
        by (intro early[of "TypeError ''unsupported operand type NoneType''"])
          (simp_all add: catching_def andthen_def required_def)
    next
      case (Some pct)
      let ?c = "auto_capital balance pct"
      consider "balance < flt ?c" | x where "\<not> balance < flt ?c" "auto_opportunity (au_now a) u asset e ?c = Inl x"
        | opp where "\<not> balance < flt ?c" "auto_opportunity (au_now a) u asset e ?c = Inr opp"
        by (cases "auto_opportunity (au_now a) u asset e ?c") auto
      then show ?thesis
      proof cases
        case 1
        with run b Some small Inr show ?thesis
          by (intro poor) (simp_all add: catching_def andthen_def required_def Let_def)
      next
        case 2
        with run b Some small Inr show ?thesis
          by (intro early[of x]) (simp_all add: catching_def andthen_def required_def Let_def)
      next
        case 3
        obtain s2 res where o: "open_for_user api st signer lts (au_opening a) u opp s = (s2, res)" by force
        have "\<not> small_balance st signer a u cfg s" using small Inr Some 3(1) by simp
        then show ?thesis
          using run b Some 3 o
          by (intro tried[OF _ own Some _ 3(2) o]) (auto simp: catching_def andthen_def required_def Let_def
              split: sum.splits prod.splits)
      qed
    qed
  qed
qed

lemma opening_legs:
  assumes "ok (ns_asgard s)" "intent_state (ns_asgard s) (og_intent (au_opening a)) = IDLE"
    and "open_position_for_user api st signer lts managed a u cfg asset e s = (s1, out)"
  shows "ns_legs s1 = ns_legs s \<or> (\<exists>balance pct opp. withdrawable st signer a u s balance \<and> sg_max_position_pct cfg = Some pct \<and>
     flt (auto_capital balance pct) \<le> balance \<and>
     auto_opportunity (au_now a) u asset e (auto_capital balance pct) = Inr opp \<and>
     ns_legs s1 = ns_legs s @ [(u, OpenLong (opp_asset opp) (flt (dec (deployed_capital_usd opp / 2)))
       (flt (opp_leverage opp)) (selected_protocol opp))])"
  using assms(3)
proof (cases rule: open_position_for_user_cases)
  case (early x)
  then show ?thesis using after_failure_keeps(2)[of managed a u x s] by (metis fst_conv)
next
  case (tried balance pct opp s2 res)
  note call = tried(6,7)
  have after: "ns_legs (fst (catching m (after_failure managed a u) t)) = ns_legs (fst (m t))" for m t
    by (cases "m t") (auto simp: catching_def split: sum.splits)
  have "ns_legs s1 = ns_legs s2"
    using call(2) after_failure_keeps(2)[of managed a u _ s2]
      after[of "auto_result managed a u asset e (auto_capital balance pct) _" s2]
    by (auto split: sum.splits) (metis auto_result_keeps fst_conv after_failure_keeps(2))+
  with open_for_user_orders[OF assms(1,2) call(1)] tried(2-5) show ?thesis by auto
qed simp





lemma check_auto_entry_Enter:
  assumes "check_auto_entry cfg asset f vols = Inr (Enter e)"
  shows "hf_rate_8hr f < 0" "\<exists>m. sg_min_funding_rate_8hr cfg = Some m \<and> m \<le> \<bar>hf_rate_8hr f\<bar>"
    "\<exists>mv. sg_max_funding_volatility cfg = Some mv \<and> get_or (dict_get asset vols) 1 \<le> mv"
    "\<exists>mc. sg_min_carry_apy cfg = Some mc \<and> mc \<le> estimated_carry (hf_rate_8hr f) (et_leverage e)"
    "sg_max_leverage cfg = Some (et_leverage e)" "et_funding_rate_8hr e = hf_rate_8hr f"
  using assms
  by (auto simp: check_auto_entry_def Let_def required_def split: if_splits option.splits)

lemma evaluate_assets_entry:
  assumes "ns_legs (fst (evaluate_assets mv cfg xs enter s)) \<noteq> ns_legs s"
  shows "\<exists>asset f e. asset \<in> set xs \<and> dict_get asset (mw_funding_rates mv) = Some f \<and>
     check_auto_entry cfg asset f (mw_volatilities mv) = Inr (Enter e) \<and>
     evaluate_assets mv cfg xs enter s = enter asset e s"
  using assms
proof (induction xs)
  case (Cons x xs)
  show ?case
  proof (cases "dict_get x (mw_funding_rates mv)")
    case None
    with Cons show ?thesis by auto
  next
    case (Some f)
    show ?thesis
    proof (cases "check_auto_entry cfg x f (mw_volatilities mv)")
      case (Inl y)
      with Cons.prems Some show ?thesis by (simp add: andthen_def)
    next
      case (Inr d)
      with Cons Some show ?thesis by (cases d) (auto simp: andthen_def)
    qed
  qed
qed simp

lemma daily_limit_step_Inr:
  assumes "daily_limit_step managed a u s = (s1, Inr True)"
  shows "ns_legs s1 = ns_legs s" "ns_asgard s1 = ns_asgard s"
    "managed \<Longrightarrow> trades_today (au_today a) (sv_risk (ns_db s)) u < 20"
  using assms check_limit_ok[of "au_today a" u "sv_risk (ns_db s)"]
  by (auto simp: daily_limit_step_def RISK_MAX_DAILY_TRADES_def split: if_splits sum.splits prod.splits)

lemma daily_limit_step_users: "daily_limit_step managed a u s = (s1, r) \<Longrightarrow> sv_users (ns_db s1) = sv_users (ns_db s)"
  by (auto simp: daily_limit_step_def split: if_splits sum.splits prod.splits)

lemma daily_limit_step_legs: "daily_limit_step managed a u s = (s1, r) \<Longrightarrow> ns_legs s1 = ns_legs s"
  by (auto simp: daily_limit_step_def split: if_splits sum.splits prod.splits)

lemma evaluate_user_reaches:
  assumes "evaluate_user api st signer lts managed a mv u cfg s = (s1, out)" "ns_legs s1 \<noteq> ns_legs s"
  shows "au_lock a = Inr True" "cooldown_elapsed (au_now a) cfg = Inr True" "sv_user_paused (ns_db s) u = None"
    "\<exists>m. sg_max_concurrent_positions cfg = Some m \<and> open_count u (ns_db s) < min m SYSTEM_MAX_POSITIONS"
    "\<exists>s2. daily_limit_step managed a u s = (s2, Inr True) \<and> evaluate_assets mv cfg (strategy_assets cfg)
        (open_position_for_user api st signer lts managed a u cfg) s2 = (s1, out)"
  using assms daily_limit_step_legs[of managed a u s]
  unfolding evaluate_user_def andthen_def required_def
  by (auto split: sum.splits if_splits option.splits prod.splits)

lemma cooldown_elapsed_minimum:
  "cooldown_elapsed now cfg = Inr True \<Longrightarrow> sg_last_close_time cfg = Some t \<Longrightarrow>
     now - t \<ge> 5 * 60 * 10 ^ 6 \<and>
     (\<exists>c. (if sg_cooldown_at_close cfg = None then sg_cooldown_minutes cfg else sg_cooldown_at_close cfg) = Some c \<and>
        now - t \<ge> c * 60 * 10 ^ 6)"
  by (auto simp: cooldown_elapsed_def required_def SYSTEM_MIN_COOLDOWN_MINUTES_def max_def
      split: option.splits if_splits)

text \<open>The asset and the terms of the entry behind a call.\<close>

lemma evaluate_user_entry:
  assumes "evaluate_user api st signer lts managed a mv u cfg s = (s1, out)" "ns_legs s1 \<noteq> ns_legs s"
  obtains s2 asset f e where "asset \<in> set (strategy_assets cfg)" "dict_get asset (mw_funding_rates mv) = Some f"
    "check_auto_entry cfg asset f (mw_volatilities mv) = Inr (Enter e)"
    "open_position_for_user api st signer lts managed a u cfg asset e s2 = (s1, out)"
    "ns_legs s2 = ns_legs s" "ns_asgard s2 = ns_asgard s" "sv_users (ns_db s2) = sv_users (ns_db s)"
    "managed \<Longrightarrow> trades_today (au_today a) (sv_risk (ns_db s)) u < 20"
proof -
  obtain s2 where d: "daily_limit_step managed a u s = (s2, Inr True)"
    and e: "evaluate_assets mv cfg (strategy_assets cfg) (open_position_for_user api st signer lts managed a u cfg) s2 = (s1, out)"
    using evaluate_user_reaches(5)[OF assms] by blast
  have "ns_legs (fst (evaluate_assets mv cfg (strategy_assets cfg)
      (open_position_for_user api st signer lts managed a u cfg) s2)) \<noteq> ns_legs s2"
    using e assms(2) daily_limit_step_Inr(1)[OF d] by simp
  from evaluate_assets_entry[OF this] obtain asset f t where
    x: "asset \<in> set (strategy_assets cfg)" "dict_get asset (mw_funding_rates mv) = Some f"
      "check_auto_entry cfg asset f (mw_volatilities mv) = Inr (Enter t)"
      "evaluate_assets mv cfg (strategy_assets cfg) (open_position_for_user api st signer lts managed a u cfg) s2 =
        open_position_for_user api st signer lts managed a u cfg asset t s2" by blast
  show thesis
    using e[unfolded x(4)] that[OF x(1-3) _ daily_limit_step_Inr(1,2)[OF d] daily_limit_step_users[OF d]]
      daily_limit_step_Inr(3)[OF d] by simp
qed

section \<open>Properties\<close>

text \<open>C23: Every order the scanner makes for a user opens a long leg for that user on half of a capital: the
  strategy's share of the balance that the user can withdraw, but at least 100 and at most 50000 dollars;
  the balance covers that capital, and the leverage is the strategy's own and between 1.1 and 4. No
  other call is made.\<close>

theorem auto_orders_bounded:
  assumes "ok (ns_asgard s)" "intent_state (ns_asgard s) (og_intent (au_opening a)) = IDLE"
    and "evaluate_user api st signer lts managed a mv u cfg s = (s1, out)"
  shows "ns_legs s1 = ns_legs s \<or> (\<exists>balance pct lev as. withdrawable st signer a u s balance \<and>
     sg_max_position_pct cfg = Some pct \<and> sg_max_leverage cfg = Some lev \<and>
     (let capital = min (max (float_str (flt (balance * pct))) 100) 50000
      in flt capital \<le> balance \<and> 11/10 \<le> float_str lev \<and> float_str lev \<le> 4 \<and>
         ns_legs s1 = ns_legs s @ [(u, OpenLong as (flt (dec (capital / 2))) (flt (float_str lev)) MARGINFI)]))"
proof (cases "ns_legs s1 = ns_legs s")
  case False
  obtain s2 asset f e where "asset \<in> set (strategy_assets cfg)" "dict_get asset (mw_funding_rates mv) = Some f"
    and e: "check_auto_entry cfg asset f (mw_volatilities mv) = Inr (Enter e)"
    and run: "open_position_for_user api st signer lts managed a u cfg asset e s2 = (s1, out)"
    and s2: "ns_legs s2 = ns_legs s" "ns_asgard s2 = ns_asgard s" "sv_users (ns_db s2) = sv_users (ns_db s)"
    and "managed \<Longrightarrow> trades_today (au_today a) (sv_risk (ns_db s)) u < 20"
    by (rule evaluate_user_entry[OF assms(3) False]) (rule that)
  obtain balance pct opp where o: "withdrawable st signer a u s2 balance" "sg_max_position_pct cfg = Some pct"
      "flt (auto_capital balance pct) \<le> balance"
      "auto_opportunity (au_now a) u asset e (auto_capital balance pct) = Inr opp"
      "ns_legs s1 = ns_legs s2 @ [(u, OpenLong (opp_asset opp) (flt (dec (deployed_capital_usd opp / 2)))
         (flt (opp_leverage opp)) (selected_protocol opp))]"
    using opening_legs[OF _ _ run] assms(1,2) False s2 by auto
  from o(4) have "selected_protocol opp = MARGINFI"
    "opp_leverage opp = float_str (et_leverage e)" "deployed_capital_usd opp = auto_capital balance pct"
    "11/10 \<le> float_str (et_leverage e)" "float_str (et_leverage e) \<le> 4"
    by (auto simp: auto_opportunity_def Let_def make_opportunity_Inr res_bind_def split: sum.splits)
  moreover have "withdrawable st signer a u s balance" using o(1) s2(3) by (simp add: withdrawable_def)
  ultimately show ?thesis
    using o s2(1) check_auto_entry_Enter(5)[OF e]
    by (auto simp: Let_def auto_capital_eq[symmetric])
qed simp


text \<open>C22: When the scanner makes a call for a user: the lock was granted, at least five minutes have passed
  since the last close, and the cooldown set at that close (or the strategy's, when none was set), the user
  is not paused, has fewer open positions than the strategy allows and fewer than three, is below the
  daily limit when a risk manager is given; and the call opens a long of the asset of the strategy
  whose negative rate, volatility and carry at the strategy's leverage meet all the thresholds.\<close>

theorem auto_orders_need:
  assumes "ok (ns_asgard s)" "intent_state (ns_asgard s) (og_intent (au_opening a)) = IDLE"
    and "evaluate_user api st signer lts managed a mv u cfg s = (s1, out)"
  shows "ns_legs s1 = ns_legs s \<or>
    (au_lock a = Inr True \<and> (\<forall>t. sg_last_close_time cfg = Some t \<longrightarrow> au_now a - t \<ge> 5 * 60 * 10 ^ 6 \<and>
        (\<exists>c. (if sg_cooldown_at_close cfg = None then sg_cooldown_minutes cfg else sg_cooldown_at_close cfg) = Some c \<and>
           au_now a - t \<ge> c * 60 * 10 ^ 6)) \<and>
     sv_user_paused (ns_db s) u = None \<and>
     (\<exists>m. sg_max_concurrent_positions cfg = Some m \<and>
        int (length (filter (\<lambda>(_, p). pe_user_id p = u \<and> \<not> pe_is_closed p) (sv_positions (ns_db s)))) < min m 3) \<and>
     (managed \<longrightarrow> trades_today (au_today a) (sv_risk (ns_db s)) u < 20) \<and>
     (\<exists>asset as f lev amount. asset \<in> set (strategy_assets cfg) \<and> asset_of_value asset = Inr as \<and>
        ns_legs s1 = ns_legs s @ [(u, OpenLong as amount (flt (float_str lev)) MARGINFI)] \<and>
        dict_get asset (mw_funding_rates mv) = Some f \<and>
        hf_rate_8hr f < 0 \<and> (\<exists>m. sg_min_funding_rate_8hr cfg = Some m \<and> m \<le> \<bar>hf_rate_8hr f\<bar>) \<and>
        (\<exists>v. sg_max_funding_volatility cfg = Some v \<and> get_or (dict_get asset (mw_volatilities mv)) 1 \<le> v) \<and>
        sg_max_leverage cfg = Some lev \<and>
        (\<exists>mc. sg_min_carry_apy cfg = Some mc \<and>
           mc \<le> flt (flt (flt (flt (\<bar>hf_rate_8hr f\<bar> * 3) * 365) * lev) * 100))))"
proof (cases "ns_legs s1 = ns_legs s")
  case False
  note r = evaluate_user_reaches[OF assms(3) False]
  obtain s2 asset f e where
    f: "asset \<in> set (strategy_assets cfg)" "dict_get asset (mw_funding_rates mv) = Some f"
    and e: "check_auto_entry cfg asset f (mw_volatilities mv) = Inr (Enter e)"
    and run: "open_position_for_user api st signer lts managed a u cfg asset e s2 = (s1, out)"
    and s2: "ns_legs s2 = ns_legs s" "ns_asgard s2 = ns_asgard s" "sv_users (ns_db s2) = sv_users (ns_db s)"
    and today: "managed \<Longrightarrow> trades_today (au_today a) (sv_risk (ns_db s)) u < 20"
    by (rule evaluate_user_entry[OF assms(3) False]) (rule that)
  obtain capital opp where o: "auto_opportunity (au_now a) u asset e capital = Inr opp"
      "ns_legs s1 = ns_legs s2 @ [(u, OpenLong (opp_asset opp) (flt (dec (deployed_capital_usd opp / 2)))
         (flt (opp_leverage opp)) (selected_protocol opp))]"
    using opening_legs[OF _ _ run] assms(1,2) False s2 by auto
  from o(1) have "selected_protocol opp = MARGINFI" "asset_of_value asset = Inr (opp_asset opp)"
    "opp_leverage opp = float_str (et_leverage e)"
    by (auto simp: auto_opportunity_def Let_def make_opportunity_Inr res_bind_def split: sum.splits)
  with o(2) s2(1) have "asset_of_value asset = Inr (opp_asset opp)" "ns_legs s1 = ns_legs s @ [(u, OpenLong (opp_asset opp)
      (flt (dec (deployed_capital_usd opp / 2))) (flt (float_str (et_leverage e))) MARGINFI)]" by simp_all
  with f check_auto_entry_Enter[OF e, unfolded estimated_carry_def]
  have "\<exists>asset as f lev amount. asset \<in> set (strategy_assets cfg) \<and> asset_of_value asset = Inr as \<and>
        ns_legs s1 = ns_legs s @ [(u, OpenLong as amount (flt (float_str lev)) MARGINFI)] \<and>
        dict_get asset (mw_funding_rates mv) = Some f \<and>
        hf_rate_8hr f < 0 \<and> (\<exists>m. sg_min_funding_rate_8hr cfg = Some m \<and> m \<le> \<bar>hf_rate_8hr f\<bar>) \<and>
        (\<exists>v. sg_max_funding_volatility cfg = Some v \<and> get_or (dict_get asset (mw_volatilities mv)) 1 \<le> v) \<and>
        sg_max_leverage cfg = Some lev \<and>
        (\<exists>mc. sg_min_carry_apy cfg = Some mc \<and>
           mc \<le> flt (flt (flt (flt (\<bar>hf_rate_8hr f\<bar> * 3) * 365) * lev) * 100))" by blast
  then show ?thesis
    using r(1,3) r(4)[unfolded open_count_def SYSTEM_MAX_POSITIONS_def] today cooldown_elapsed_minimum[OF r(2)]
    by blast
qed simp

section \<open>Instances\<close>

definition wit_strategy :: strategy_row where
  "wit_strategy = \<lparr>sg_enabled = True, sg_assets = None, sg_min_carry_apy = Some 15, sg_min_funding_rate_8hr = Some 0,
     sg_max_funding_volatility = Some 1, sg_max_position_pct = Some 1, sg_max_concurrent_positions = Some 2,
     sg_max_leverage = Some 3, sg_min_exit_carry_apy = None, sg_take_profit_pct = None, sg_stop_loss_pct = None,
     sg_cooldown_minutes = Some 30, sg_last_close_time = Some 0, sg_cooldown_at_close = None,
     sg_protocols = None, sg_auto_reopen = Some True, sg_version = 1\<rparr>"

definition wit_auto :: auto_answers where
  "wit_auto = \<lparr>au_now = 60 * 10 ^ 6, au_today = 0, au_lock = Inr True, au_paused_io = Inr (), au_count_io = Inr (),
     au_limit_io = Inr (), au_user_io = Inl (ExternalError ''connection''), au_balance = Inl (ExternalError ''timeout''),
     au_opening = \<lparr>og_user_io = Inr (), og_intent = ''i1'', og_open = wit_answers\<rparr>,
     au_insert_io = Inr (), au_trade_io = Inr (), au_failure_io = (\<lambda>_. Inr ())\<rparr>"

definition wit_auto_state :: scanner_state where
  "wit_auto_state = \<lparr>ns_db = \<lparr>sv_users = [''u1'' \<mapsto> wit_user], sv_user_paused = Map.empty, sv_positions = [],
     sv_history = [], sv_intents = [], sv_strategy = [(''u1'', wit_strategy)], sv_risk = wit_risk_db\<rparr>,
     ns_asgard = wit_asgard, ns_legs = []\<rparr>"


lemma wit_auto_fresh:
  "ok (ns_asgard wit_auto_state)" "intent_state (ns_asgard wit_auto_state) (og_intent (au_opening wit_auto)) = IDLE"
  "au_failure_io wit_auto again = Inr ()"
  by (simp_all add: wit_auto_state_def wit_asgard_def wit_auto_def tx_table_ok_empty)

definition wit_market :: market_view where
  "wit_market = \<lparr>mw_funding_rates = [], mw_volatilities = []\<rparr>"

theorem auto_orders_bounded_witness:
  "\<exists>s1 out. evaluate_user (wit_api True) wit_settings (\<lambda>_. Inr ()) wit_limits True
       (wit_auto\<lparr>au_now := 60 * 60 * 10 ^ 6, au_user_io := Inr ()\<rparr>) wit_market ''u1'' wit_strategy wit_auto_state = (s1, out) \<and>
     length (ns_legs s1) \<le> 1"
proof -
  let ?a = "wit_auto\<lparr>au_now := 60 * 60 * 10 ^ 6, au_user_io := Inr ()\<rparr>"
  obtain s1 out where o: "evaluate_user (wit_api True) wit_settings (\<lambda>_. Inr ()) wit_limits True ?a wit_market
      ''u1'' wit_strategy wit_auto_state = (s1, out)" by force
  have "intent_state (ns_asgard wit_auto_state) (og_intent (au_opening ?a)) = IDLE" using wit_auto_fresh(2) by simp
  from auto_orders_bounded[OF wit_auto_fresh(1) this o] o show ?thesis by (auto simp: wit_auto_state_def Let_def)
qed


text \<open>One minute after a close nothing is called, although the cooldown column at the close is NULL.\<close>

theorem auto_orders_need_witness:
  "ns_legs (fst (evaluate_user (wit_api True) wit_settings (\<lambda>_. Inr ()) wit_limits True wit_auto wit_market ''u1'' wit_strategy
      wit_auto_state)) = []"
proof -
  obtain s1 out where o: "evaluate_user (wit_api True) wit_settings (\<lambda>_. Inr ()) wit_limits True wit_auto wit_market ''u1''
      wit_strategy wit_auto_state = (s1, out)" by force
  from auto_orders_need[OF wit_auto_fresh(1,2) o] o show ?thesis
    by (auto simp: wit_auto_state_def wit_auto_def wit_strategy_def)
qed

end
