(* ===== verification/PositionMonitor.thy ===== *)
theory PositionMonitor
  imports ServiceDb RiskEngine
begin

text \<open>
  The multi-tenant position monitor (\<open>bot/core/position_monitor.py\<close>): one cycle over the open
  positions of all users, the checks of one position, and the automatic exit.

  A session is what one user's monitoring works on: the tables, the transaction store with the Asgard
  calls, and the trader of the user's context. The answers of the venues, of the database and of the
  clock are a record per position. The oracle returns \<open>FundingRate\<close> objects; the monitor also
  accepts dictionaries and numbers, and calls \<open>float\<close> on what it gets. An asset that is not a
  text raises here (every writer stores a text). Waiting and the background task are left out.
\<close>

section \<open>Data\<close>

record monitor_session =
  ms_db :: service_db
  ms_asgard :: asgard_state
  ms_trader :: trader

record check_answers =
  ck_now :: datetime
  ck_today :: int
  ck_state :: "exn + clearinghouse"
  ck_update_io :: "exn + unit"
  ck_close :: "nat \<Rightarrow> order_answers"
  ck_close_intent :: string
  ck_tx_io :: "exn + unit"
  ck_cooldown_io :: "exn + unit"
  ck_failure_io :: "exn + unit"

datatype funding_info = RateObject hl_funding | RateDict jdata | RateNumber jsv

text \<open>The number in what the oracle gives, 0 when it is false; \<open>float\<close> of an object without
  \<open>__float__\<close> raises.\<close>

definition falsy_zero :: "jsv \<Rightarrow> exn + pyfloat" where
  "falsy_zero v = (if truthy_v v then to_float v else Inr 0)"

fun funding_value :: "funding_info \<Rightarrow> exn + pyfloat" where
  "funding_value (RateObject f) = Inl (TypeError ''float() argument must be a string or a real number'')"
| "funding_value (RateDict d) = falsy_zero (field d ''funding'' (NumV 0))"
| "funding_value (RateNumber v) = falsy_zero v"

definition asset_of :: "jdata \<Rightarrow> exn + string" where
  "asset_of d =
     (case field d ''asset'' (TextV ''SOL'') of TextV s \<Rightarrow> Inr s | _ \<Rightarrow> Inl (TypeError ''asset''))"

definition pda_of :: "jdata \<Rightarrow> string option" where
  "pda_of d = (case field d ''asgard_pda'' NullV of TextV s \<Rightarrow> (if s = [] then None else Some s) | _ \<Rightarrow> None)"

definition size_of :: "jdata \<Rightarrow> jsv" where
  "size_of d = (case dict_get ''hyperliquid_size'' d of Some v \<Rightarrow> v | None \<Rightarrow> field d ''hl_size'' NullV)"

section \<open>Parts of the session\<close>

definition on_db :: "(service_db, 'a) action \<Rightarrow> (monitor_session, 'a) action" where
  "on_db m s = (case m (ms_db s) of (d, r) \<Rightarrow> (s\<lparr>ms_db := d\<rparr>, r))"

definition on_user_asgard :: "(asgard_state, 'a) action \<Rightarrow> (monitor_session, 'a) action" where
  "on_user_asgard m s = (case m (ms_asgard s) of (a, r) \<Rightarrow> (s\<lparr>ms_asgard := a\<rparr>, r))"

definition on_user_trader :: "(trader \<Rightarrow> trader \<times> 'a) \<Rightarrow> (monitor_session, 'a) action" where
  "on_user_trader m s = (case m (ms_trader s) of (t, r) \<Rightarrow> (s\<lparr>ms_trader := t\<rparr>, Inr r))"

section \<open>Exit conditions\<close>

definition evaluate_exit ::
  "datetime \<Rightarrow> position_info option \<Rightarrow> pyfloat option \<Rightarrow> funding_info option \<Rightarrow> exn + exit_decision option"
where
  "evaluate_exit now hp health funding =
     (if (case health of None \<Rightarrow> False | Some h \<Rightarrow> h \<le> flt (10/100))
      then Inr (Some (exit_now now HEALTH_FACTOR NORMAL [(''health_factor'', DFloat (the health))]))
      else if (case hp of None \<Rightarrow> False | Some p \<Rightarrow> pi_margin_fraction p < flt (10/100))
      then Inr (Some (exit_now now MARGIN_FRACTION NORMAL
                 [(''margin_fraction'', DFloat (pi_margin_fraction (the hp)))]))
      else case funding of
        None \<Rightarrow> Inr None
      | Some f \<Rightarrow> res_bind (funding_value f) (\<lambda>x.
          if x > 0 then Inr (Some (exit_now now FUNDING_FLIP NORMAL [(''funding_rate'', DFloat x)]))
          else Inr None))"

definition size_usd_of :: "jdata \<Rightarrow> jsv" where
  "size_usd_of d =
     (let v = field d ''size_usd'' NullV
      in if truthy_v v then v else field d ''deployed_capital_usd'' (NumV 0))"

text \<open>The profit and loss in percent of the size, when there is a positive size.\<close>

definition pnl_pct :: "jdata \<Rightarrow> exn + pyfloat option" where
  "pnl_pct d =
     (if \<not> truthy_v (size_usd_of d) then Inr None
      else res_bind (to_float (size_usd_of d)) (\<lambda>s.
        if s > 0
        then res_bind (to_float (field d ''total_pnl'' (NumV 0))) (\<lambda>p. Inr (Some (flt (flt (p / s) * 100))))
        else Inr None))"

definition carry_apy :: "pyfloat \<Rightarrow> pyfloat \<Rightarrow> pyfloat" where
  "carry_apy rate lev = flt (flt (flt (flt (\<bar>rate\<bar> * 3) * 365) * lev) * 100)"

definition stop_loss_exit :: "datetime \<Rightarrow> jdata \<Rightarrow> strategy_row \<Rightarrow> exn + exit_decision option" where
  "stop_loss_exit now d cfg =
     (case sg_stop_loss_pct cfg of
        None \<Rightarrow> Inr None
      | Some sl \<Rightarrow> res_bind (pnl_pct d) (\<lambda>p. Inr (case p of
            Some x \<Rightarrow> if x \<le> - sl
                       then Some (exit_now now STOP_LOSS NORMAL
                              [(''pnl_pct'', DFloat (round2 x)), (''stop_loss_pct'', DFloat sl)])
                       else None
          | None \<Rightarrow> None)))"

definition take_profit_exit :: "datetime \<Rightarrow> jdata \<Rightarrow> strategy_row \<Rightarrow> exn + exit_decision option" where
  "take_profit_exit now d cfg =
     (case sg_take_profit_pct cfg of
        None \<Rightarrow> Inr None
      | Some tp \<Rightarrow> res_bind (pnl_pct d) (\<lambda>p. Inr (case p of
            Some x \<Rightarrow> if x \<ge> tp
                       then Some (exit_now now TARGET_PROFIT NORMAL
                              [(''pnl_pct'', DFloat (round2 x)), (''take_profit_pct'', DFloat tp)])
                       else None
          | None \<Rightarrow> None)))"

definition min_carry_exit ::
  "datetime \<Rightarrow> jdata \<Rightarrow> strategy_row \<Rightarrow> funding_info option \<Rightarrow> exn + exit_decision option" where
  "min_carry_exit now d cfg funding =
     (case (sg_min_exit_carry_apy cfg, funding) of
        (Some m, Some f) \<Rightarrow>
          res_bind (funding_value f) (\<lambda>rate.
            if rate = 0 then Inr None
            else res_bind (to_float (field d ''leverage'' (NumV 3))) (\<lambda>lev.
              if rate \<ge> 0 \<or> carry_apy rate lev < m
              then Inr (Some (exit_now now NEGATIVE_APY NORMAL
                     [(''current_carry_apy'', DFloat (round2 (carry_apy rate lev))),
                      (''min_exit_carry_apy'', DFloat m), (''funding_rate_8hr'', DFloat rate)]))
              else Inr None))
      | _ \<Rightarrow> Inr None)"

definition check_user_exit_thresholds ::
  "datetime \<Rightarrow> jdata \<Rightarrow> strategy_row \<Rightarrow> funding_info option \<Rightarrow> exn + exit_decision option" where
  "check_user_exit_thresholds now d cfg funding =
     res_bind (stop_loss_exit now d cfg) (\<lambda>a. case a of Some x \<Rightarrow> Inr (Some x) | None \<Rightarrow>
     res_bind (take_profit_exit now d cfg) (\<lambda>b. case b of Some x \<Rightarrow> Inr (Some x) | None \<Rightarrow>
       min_carry_exit now d cfg funding))"

section \<open>The automatic exit\<close>

fun detail_json :: "detail \<Rightarrow> jsv" where
  "detail_json (DFloat x) = NumV x"
| "detail_json (DBool b) = NumV (if b then 1 else 0)"
| "detail_json (DStr s) = TextV s"

definition closed_data :: "exit_decision \<Rightarrow> jdata \<Rightarrow> jdata" where
  "closed_data xd d =
     dict_put ''exit_details'' (DictV (map (\<lambda>(k, v). (k, detail_json v)) (ed_details xd)))
      (dict_put ''exit_reason'' (case ed_reason xd of None \<Rightarrow> NullV | Some r \<Rightarrow> TextV (exit_reason_value r))
        (dict_put ''closed_at'' (TextV ''timestamp'') d))"

definition archive_tx :: "string \<Rightarrow> string \<Rightarrow> string \<Rightarrow> exit_decision \<Rightarrow> jdata \<Rightarrow> service_db \<Rightarrow> exn + service_db" where
  "archive_tx u i a xd d db =
     insert_history i \<lparr>ce_user_id = u, ce_asset = a, ce_pnl_usd = field d ''total_pnl'' (NumV 0),
         ce_funding_earned_usd = field d ''funding_earned'' (NumV 0)\<rparr>
       (close_position_entry i (closed_data xd d) db)"

text \<open>What follows the short leg: the long leg, whose failure is only logged, the transaction that closes
  and archives the row, and the best-effort cooldown.\<close>

definition record_cooldown :: "check_answers \<Rightarrow> string \<Rightarrow> (monitor_session, unit) action" where
  "record_cooldown a u =
     catching (on_db (run_stmt (ck_cooldown_io a)
         (update_strategy u (\<lambda>r. r\<lparr>sg_last_close_time := Some (ck_now a),
            sg_cooldown_at_close := sg_cooldown_minutes r\<rparr>)))) (\<lambda>_. ret ())"

definition finish_exit ::
  "asgard_api \<Rightarrow> asgard_manager \<Rightarrow> check_answers \<Rightarrow> string \<Rightarrow> string \<Rightarrow> string \<Rightarrow> jdata \<Rightarrow> exit_decision
     \<Rightarrow> (monitor_session, unit) action"
where
  "finish_exit api am a u i asset d xd =
     andthen (case pda_of d of
                None \<Rightarrow> ret ()
              | Some pda \<Rightarrow> andthen (on_user_asgard (close_asgard api am (ck_now a) (ck_close_intent a) pda))
                             (\<lambda>_. ret ())) (\<lambda>_.
     andthen (on_db (run_tx (ck_tx_io a) (archive_tx u i asset xd d))) (\<lambda>_.
     record_cooldown a u))"

definition note_failure :: "check_answers \<Rightarrow> string \<Rightarrow> exn \<Rightarrow> (monitor_session, unit) action" where
  "note_failure a u e =
     catching (on_db (run_stmt (ck_failure_io a) (\<lambda>db. db\<lparr>sv_risk :=
        fst (record_failure (ck_now a) (ck_today a) u (''exit_failed: '' @ exn_text e) (sv_risk db))\<rparr>)))
      (\<lambda>_. ret ())"

definition auto_exit ::
  "asgard_api \<Rightarrow> asgard_manager \<Rightarrow> check_answers \<Rightarrow> string \<Rightarrow> string \<Rightarrow> string \<Rightarrow> jdata \<Rightarrow> exit_decision
     \<Rightarrow> (monitor_session, unit) action"
where
  "auto_exit api am a u i asset d xd =
     catching
       (if truthy_v (size_of d)
        then andthen (lift_result (to_float (size_of d))) (\<lambda>x.
             andthen (on_user_trader (close_short (ck_close a) asset (float_str \<bar>x\<bar>) 15)) (\<lambda>r.
             if \<not> or_success r then ret () else finish_exit api am a u i asset d xd))
        else finish_exit api am a u i asset d xd)
       (note_failure a u)"

section \<open>One position\<close>

definition live_updates ::
  "position_info option \<Rightarrow> pyfloat option \<Rightarrow> funding_info option \<Rightarrow> exn + (string \<times> jsv) list" where
  "live_updates hp health funding =
     (let hl = (case hp of None \<Rightarrow> [] | Some p \<Rightarrow>
            [(''hl_unrealized_pnl'', NumV (pi_unrealized_pnl p)), (''hl_margin_fraction'', NumV (pi_margin_fraction p)),
             (''hl_liquidation_px'', num_opt (pi_liquidation_px p))]);
          ag = (case health of None \<Rightarrow> [] | Some h \<Rightarrow> [(''asgard_health_factor'', NumV h)])
      in case funding of
           None \<Rightarrow> Inr (hl @ ag)
         | Some f \<Rightarrow> res_bind (funding_value f) (\<lambda>x. Inr (hl @ ag @ [(''current_funding_rate'', NumV x)])))"

definition asgard_health ::
  "asgard_api \<Rightarrow> jdata \<Rightarrow> (monitor_session, pyfloat option) action" where
  "asgard_health api d =
     (case pda_of d of
        None \<Rightarrow> ret None
      | Some pda \<Rightarrow> catching (andthen (on_user_asgard (monitor_health api pda))
                     (\<lambda>h. ret (map_option hs_health_factor h))) (\<lambda>_. ret None))"

definition check_position ::
  "asgard_api \<Rightarrow> asgard_manager \<Rightarrow> check_answers \<Rightarrow> (string, funding_info) dict \<Rightarrow> strategy_row option
     \<Rightarrow> string \<Rightarrow> string \<Rightarrow> jdata \<Rightarrow> (monitor_session, unit) action"
where
  "check_position api am a rates cfg u i d =
     andthen (lift_result (asset_of d)) (\<lambda>asset s.
       let hp = get_hl_position (ck_state a) asset (ms_trader s); funding = dict_get asset rates
       in andthen (asgard_health api d) (\<lambda>health.
          andthen (lift_result (live_updates hp health funding)) (\<lambda>ups.
          andthen (if ups = [] then ret ()
                   else on_db (run_stmt (ck_update_io a)
                     (set_position_data i (fold (\<lambda>(k, v). dict_put k v) ups d)))) (\<lambda>_.
          andthen (lift_result (evaluate_exit (ck_now a) hp health funding)) (\<lambda>xd.
          andthen (lift_result (case (xd, cfg) of
                     (None, Some c) \<Rightarrow> check_user_exit_thresholds (ck_now a) d c funding
                   | _ \<Rightarrow> Inr xd)) (\<lambda>xd1.
          case xd1 of None \<Rightarrow> ret () | Some x \<Rightarrow> auto_exit api am a u i asset d x))))) s)"

section \<open>One user, one cycle\<close>

record monitor_state =
  mn_db :: service_db
  mn_asgard :: asgard_state
  mn_orders :: "(string \<times> hl_call) list"

record user_answers =
  ua_config_io :: "exn + unit"
  ua_user_io :: "exn + unit"
  ua_time :: int
  ua_rates :: "exn + meta_response"
  ua_check :: "string \<Rightarrow> check_answers"

definition current_rates :: "int \<Rightarrow> exn + meta_response \<Rightarrow> (string, funding_info) dict" where
  "current_rates now ans =
     (case get_current_funding_rates now ans of
        Inl _ \<Rightarrow> []
      | Inr r \<Rightarrow> map (\<lambda>(c, f). (c, RateObject f)) r)"

definition monitor_user ::
  "asgard_api \<Rightarrow> settings \<Rightarrow> (string option \<Rightarrow> exn + unit) \<Rightarrow> user_answers \<Rightarrow> string
     \<Rightarrow> (string \<times> jdata) list \<Rightarrow> (monitor_state, unit) action"
where
  "monitor_user api st signer a u ps m =
     (case ua_config_io a of
        Inl e \<Rightarrow> (m, Inl e)
      | Inr _ \<Rightarrow>
          (case res_bind (res_bind (ua_user_io a) (\<lambda>_. from_user_id (Inr (sv_users (mn_db m) u)) u))
                  (\<lambda>c. res_bind (trader_init st signer (uc_evm_address c)) (\<lambda>t. Inr (c, t))) of
             Inl e \<Rightarrow> (m, Inl e)
           | Inr (c, t) \<Rightarrow>
               let am = asgard_manager_init st (uc_solana_address c);
                   rates = current_rates (ua_time a) (ua_rates a);
                   cfg = dict_get u (sv_strategy (mn_db m));
                   s = fold (\<lambda>(i, d) s. fst (check_position api am (ua_check a i) rates cfg u i d s)) ps
                         \<lparr>ms_db = mn_db m, ms_asgard = mn_asgard m, ms_trader = t\<rparr>
               in (\<lparr>mn_db = ms_db s, mn_asgard = ms_asgard s,
                    mn_orders = mn_orders m @ map (Pair u) (hl_calls (ms_trader s))\<rparr>, Inr ())))"

text \<open>The open rows, grouped by user in the order of their first row.\<close>

definition open_rows :: "service_db \<Rightarrow> (string \<times> position_entry) list" where
  "open_rows db = filter (\<lambda>(i, p). \<not> pe_is_closed p) (sv_positions db)"

definition group_rows :: "(string \<times> position_entry) list \<Rightarrow> (string, (string \<times> jdata) list) dict" where
  "group_rows rows =
     fold (\<lambda>(i, p) g. dict_put (pe_user_id p)
             ((case dict_get (pe_user_id p) g of None \<Rightarrow> [] | Some l \<Rightarrow> l) @ [(i, pe_data p)]) g) rows []"

definition service_cycle ::
  "asgard_api \<Rightarrow> settings \<Rightarrow> (string option \<Rightarrow> exn + unit) \<Rightarrow> exn + unit \<Rightarrow> (string \<Rightarrow> user_answers)
     \<Rightarrow> (monitor_state, unit) action"
where
  "service_cycle api st signer io ans m =
     (case io of
        Inl e \<Rightarrow> (m, Inl e)
      | Inr _ \<Rightarrow>
          (fold (\<lambda>(u, ps) m. fst (monitor_user api st signer (ans u) u ps m))
             (group_rows (open_rows (mn_db m))) m, Inr ()))"

text \<open>One turn of the loop: the consecutive errors afterwards and the seconds it sleeps.\<close>

definition loop_turn :: "exn + unit \<Rightarrow> nat \<Rightarrow> nat \<times> nat" where
  "loop_turn r n =
     (case r of
        Inr _ \<Rightarrow> (0, 30)
      | Inl _ \<Rightarrow> if n + 1 \<ge> 5 then (0, 120) else (n + 1, 30))"

section \<open>Lemmas\<close>

text \<open>What a step may change.\<close>

lemma asgard_health_cases:
  "\<exists>ag h. asgard_health api d s = (s\<lparr>ms_asgard := ag\<rparr>, Inr h) \<and> tx_store ag = tx_store (ms_asgard s)"
proof (cases "pda_of d")
  case None
  then show ?thesis by (intro exI[of _ "ms_asgard s"]) (simp add: asgard_health_def)
next
  case (Some pda)
  obtain ag r where m: "monitor_health api pda (ms_asgard s) = (ag, r)" by force
  then have "tx_store ag = tx_store (ms_asgard s)"
    by (auto simp: monitor_health_def get_position_state_def andthen_def catching_def call_eq
        split: prod.splits sum.splits)
  with Some m show ?thesis
    by (cases r) (auto simp: asgard_health_def catching_def andthen_def on_user_asgard_def
        intro!: exI[of _ ag])
qed

lemma funding_object_raises:
  "live_updates hp h (Some (RateObject f)) = Inl (TypeError ''float() argument must be a string or a real number'')"
  by (simp add: live_updates_def Let_def)

lemma check_position_blind:
  assumes "asset_of d = Inr asset" "dict_get asset rates = Some (RateObject f)"
  shows "\<exists>ag. check_position api am a rates cfg u i d s = (s\<lparr>ms_asgard := ag\<rparr>,
      Inl (TypeError ''float() argument must be a string or a real number'')) \<and>
    tx_store ag = tx_store (ms_asgard s)"
proof -
  obtain ag h where "asgard_health api d s = (s\<lparr>ms_asgard := ag\<rparr>, Inr h)" "tx_store ag = tx_store (ms_asgard s)"
    using asgard_health_cases by blast
  then show ?thesis
    using assms by (intro exI[of _ ag]) (simp add: check_position_def andthen_def Let_def funding_object_raises)
qed

lemma group_step:
  assumes "\<And>u ps i d. (u, ps) \<in> set g \<Longrightarrow> (i, d) \<in> set ps \<Longrightarrow> R u i d" and "R (pe_user_id p) i (pe_data p)"
    and "(u, ps) \<in> set (dict_put (pe_user_id p)
        ((case dict_get (pe_user_id p) g of None \<Rightarrow> [] | Some l \<Rightarrow> l) @ [(i, pe_data p)]) g)" "(j, d) \<in> set ps"
  shows "R u j d"
proof -
  have "(pe_user_id p, l) \<in> set g" if "dict_get (pe_user_id p) g = Some l" for l
    using that by (auto simp: dict_get_def dest: map_of_SomeD)
  with assms show ?thesis
    by (fastforce simp: dict_put_def split: if_splits option.splits)
qed

lemma group_rows_from:
  assumes "\<And>u ps i d. (u, ps) \<in> set g \<Longrightarrow> (i, d) \<in> set ps \<Longrightarrow> R u i d"
    and "\<And>i p. (i, p) \<in> set rows \<Longrightarrow> R (pe_user_id p) i (pe_data p)"
  shows "(u, ps) \<in> set (fold (\<lambda>(i, p) g. dict_put (pe_user_id p)
             ((case dict_get (pe_user_id p) g of None \<Rightarrow> [] | Some l \<Rightarrow> l) @ [(i, pe_data p)]) g) rows g) \<Longrightarrow>
     (i, d) \<in> set ps \<Longrightarrow> R u i d"
  using assms
proof (induction rows arbitrary: g)
  case (Cons r rows)
  obtain i0 p where r: "r = (i0, p)" by force
  show ?case
  proof (rule Cons.IH[OF _ Cons.prems(2)])
    show "(u, ps) \<in> set (fold (\<lambda>(i, p) g. dict_put (pe_user_id p)
        ((case dict_get (pe_user_id p) g of None \<Rightarrow> [] | Some l \<Rightarrow> l) @ [(i, pe_data p)]) g) rows
        (dict_put (pe_user_id p) ((case dict_get (pe_user_id p) g of None \<Rightarrow> [] | Some l \<Rightarrow> l) @ [(i0, pe_data p)]) g))"
      using Cons.prems(1) by (simp add: r)
    show "R u' j d'" if "(u', ps') \<in> set (dict_put (pe_user_id p)
        ((case dict_get (pe_user_id p) g of None \<Rightarrow> [] | Some l \<Rightarrow> l) @ [(i0, pe_data p)]) g)" "(j, d') \<in> set ps'" for u' ps' j d'
      using group_step[of g R, OF Cons.prems(3) _ that] Cons.prems(4)[of i0 p] by (auto simp: r)
    show "R (pe_user_id p') i' (pe_data p')" if "(i', p') \<in> set rows" for i' p'
      using Cons.prems(4) that by auto
  qed
qed auto

lemma group_rows_sound:
  "(u, ps) \<in> set (group_rows rows) \<Longrightarrow> (i, d) \<in> set ps \<Longrightarrow>
     \<exists>p. (i, p) \<in> set rows \<and> pe_user_id p = u \<and> pe_data p = d"
  unfolding group_rows_def
  by (rule group_rows_from[of "[]" "\<lambda>u i d. \<exists>p. (i, p) \<in> set rows \<and> pe_user_id p = u \<and> pe_data p = d"]) auto

lemma trader_init_calls: "trader_init st signer w = Inr t \<Longrightarrow> hl_calls t = []"
  by (auto simp: trader_init_def Let_def split: if_splits sum.splits exn.splits)

lemma current_rates_get:
  "get_current_funding_rates now ans = Inr r \<Longrightarrow> dict_get c (current_rates now ans) = map_option RateObject (dict_get c r)"
  by (simp add: current_rates_def dict_get_def map_of_map)

text \<open>The funding rates could be fetched for the user and contain the asset of the row.\<close>

definition rate_known :: "user_answers \<Rightarrow> jdata \<Rightarrow> bool" where
  "rate_known a d \<longleftrightarrow> (\<forall>asset. asset_of d = Inr asset \<longrightarrow>
     (\<exists>r f. get_current_funding_rates (ua_time a) (ua_rates a) = Inr r \<and> dict_get asset r = Some f))"

definition untouched :: "monitor_session \<Rightarrow> monitor_session \<Rightarrow> bool" where
  "untouched s t \<longleftrightarrow> ms_db t = ms_db s \<and> ms_trader t = ms_trader s \<and> tx_store (ms_asgard t) = tx_store (ms_asgard s)"

lemma check_known_untouched:
  assumes "rate_known a d"
  shows "untouched s (fst (check_position api am ck (current_rates (ua_time a) (ua_rates a)) cfg u i d s))"
proof (cases "asset_of d")
  case (Inl e)
  then show ?thesis by (simp add: check_position_def andthen_def untouched_def)
next
  case (Inr asset)
  with assms obtain f where "dict_get asset (current_rates (ua_time a) (ua_rates a)) = Some (RateObject f)"
    by (auto simp: rate_known_def current_rates_get)
  then obtain ag where "check_position api am ck (current_rates (ua_time a) (ua_rates a)) cfg u i d s
      = (s\<lparr>ms_asgard := ag\<rparr>, Inl (TypeError ''float() argument must be a string or a real number''))"
    "tx_store ag = tx_store (ms_asgard s)"
    using check_position_blind[OF Inr] by blast
  then show ?thesis by (simp add: untouched_def)
qed

lemma checks_known_untouched:
  assumes "\<And>i d. (i, d) \<in> set ps \<Longrightarrow> rate_known a d"
  shows "untouched s (fold (\<lambda>(i, d) s. fst (check_position api am (ck i)
           (current_rates (ua_time a) (ua_rates a)) cfg u i d s)) ps s)"
  using assms
proof (induction ps arbitrary: s)
  case (Cons p ps)
  obtain i d where p: "p = (i, d)" by force
  define s1 where "s1 = fst (check_position api am (ck i) (current_rates (ua_time a) (ua_rates a)) cfg u i d s)"
  have "untouched s s1" unfolding s1_def by (rule check_known_untouched) (use Cons.prems p in auto)
  moreover have "untouched s1 (fold (\<lambda>(i, d) s. fst (check_position api am (ck i)
           (current_rates (ua_time a) (ua_rates a)) cfg u i d s)) ps s1)"
    by (rule Cons.IH) (use Cons.prems in auto)
  ultimately show ?case by (simp add: p s1_def[symmetric] untouched_def)
qed (simp add: untouched_def)

lemma monitor_user_blind:
  assumes "\<And>i d. (i, d) \<in> set ps \<Longrightarrow> rate_known a d"
  shows "mn_db (fst (monitor_user api st signer a u ps m)) = mn_db m \<and>
    mn_orders (fst (monitor_user api st signer a u ps m)) = mn_orders m \<and>
    tx_store (mn_asgard (fst (monitor_user api st signer a u ps m))) = tx_store (mn_asgard m)"
proof -
  note run = checks_known_untouched[where a = a and ps = ps, OF assms, unfolded untouched_def]
  show ?thesis
    by (auto simp: monitor_user_def Let_def run res_bind_Inr_iff trader_init_calls split: sum.splits)
qed

section \<open>The exit\<close>

lemma archive_tx_ok:
  assumes "db_ok db" "dict_get i (sv_positions db) = Some p" "dict_get i (sv_history db) = None"
    and "archive_tx u i asset xd d db = Inr db1"
  shows "db_ok db1 \<and> (\<exists>q. dict_get i (sv_positions db1) = Some q \<and> pe_is_closed q \<and> pe_user_id q = pe_user_id p) \<and>
    dict_get i (sv_history db1) \<noteq> None"
proof -
  note get = get_close_position_entry[of db i i "closed_data xd d"]
  have db1: "db1 = close_position_entry i (closed_data xd d) db
      \<lparr>sv_history := dict_put i \<lparr>ce_user_id = u, ce_asset = asset, ce_pnl_usd = field d ''total_pnl'' (NumV 0),
         ce_funding_earned_usd = field d ''funding_earned'' (NumV 0)\<rparr> (sv_history db)\<rparr>"
    using assms by (simp add: archive_tx_def insert_history_def)
  have "db_ok (close_position_entry i (closed_data xd d) db)" using assms(1) by simp
  then have "db_ok db1" by (simp add: db1 db_ok_def dict.inv_put)
  moreover have "dict_get i (sv_history db1) \<noteq> None"
    using assms(1) by (simp add: db1 db_ok_def dict.get_put_same)
  moreover have "dict_get i (sv_positions db1) = Some (p\<lparr>pe_data := closed_data xd d, pe_is_closed := True\<rparr>)"
    using get assms(1,2) by (simp add: db1 db_ok_def)
  ultimately show ?thesis by simp
qed

lemma archive_tx_Inr:
  "dict_get i (sv_history db) = None \<Longrightarrow> \<exists>db1. archive_tx u i asset xd d db = Inr db1"
  by (simp add: archive_tx_def insert_history_def)

lemma archive_tx_Inl:
  "dict_get i (sv_history db) \<noteq> None \<Longrightarrow> \<exists>e. archive_tx u i asset xd d db = Inl e"
  by (simp add: archive_tx_def insert_history_def)

lemma close_asgard_returns: "\<exists>ag r. close_asgard api am now i pda s = (ag, Inr r)"
  by (auto simp: close_asgard_def catching_def split: prod.splits sum.splits)

lemma note_failure_returns:
  "\<exists>rk. note_failure a u e s = (s\<lparr>ms_db := (ms_db s)\<lparr>sv_risk := rk\<rparr>\<rparr>, Inr ())"
proof (cases "ck_failure_io a")
  case (Inl x)
  then show ?thesis by (intro exI[of _ "sv_risk (ms_db s)"]) (simp add: note_failure_def catching_def on_db_def run_stmt_def)
qed (auto simp: note_failure_def catching_def on_db_def run_stmt_def)

lemma update_strategy_only: "\<exists>sg. update_strategy u f db = db\<lparr>sv_strategy := sg\<rparr>"
proof (cases "dict_get u (sv_strategy db)")
  case None
  then show ?thesis by (intro exI[of _ "sv_strategy db"]) (simp add: update_strategy_def)
qed (auto simp: update_strategy_def)

lemma record_cooldown_returns:
  "\<exists>sg. record_cooldown a u s = (s\<lparr>ms_db := (ms_db s)\<lparr>sv_strategy := sg\<rparr>\<rparr>, Inr ())"
proof (cases "ck_cooldown_io a")
  case (Inl x)
  then show ?thesis
    by (intro exI[of _ "sv_strategy (ms_db s)"]) (simp add: record_cooldown_def catching_def on_db_def run_stmt_def)
next
  case (Inr x)
  then show ?thesis
    using update_strategy_only[of u "\<lambda>r. r\<lparr>sg_last_close_time := Some (ck_now a),
      sg_cooldown_at_close := sg_cooldown_minutes r\<rparr>" "ms_db s"]
    by (auto simp: record_cooldown_def catching_def on_db_def run_stmt_def)
qed

text \<open>The long leg of an exit: one closing call when the row has a PDA, which never raises.\<close>

definition long_called ::
  "asgard_api \<Rightarrow> asgard_manager \<Rightarrow> check_answers \<Rightarrow> jdata \<Rightarrow> asgard_state \<Rightarrow> asgard_state" where
  "long_called api am a d ag =
     (case pda_of d of None \<Rightarrow> ag
      | Some pda \<Rightarrow> fst (close_asgard api am (ck_now a) (ck_close_intent a) pda ag))"

lemma long_leg_step:
  "(case pda_of d of None \<Rightarrow> ret ()
      | Some pda \<Rightarrow> andthen (on_user_asgard (close_asgard api am (ck_now a) (ck_close_intent a) pda)) (\<lambda>_. ret ())) s
     = (s\<lparr>ms_asgard := long_called api am a d (ms_asgard s)\<rparr>, Inr ())"
proof (cases "pda_of d")
  case (Some pda)
  obtain ag r where "close_asgard api am (ck_now a) (ck_close_intent a) pda (ms_asgard s) = (ag, Inr r)"
    using close_asgard_returns by blast
  with Some show ?thesis by (simp add: andthen_def on_user_asgard_def long_called_def)
qed (simp add: long_called_def)

lemma finish_exit_eq:
  "case run_tx (ck_tx_io a) (archive_tx u i asset xd d) (ms_db s) of
        (db, Inl e) \<Rightarrow> finish_exit api am a u i asset d xd s =
            (s\<lparr>ms_asgard := long_called api am a d (ms_asgard s), ms_db := db\<rparr>, Inl e)
      | (db, Inr _) \<Rightarrow> (\<exists>sg. finish_exit api am a u i asset d xd s =
            (s\<lparr>ms_asgard := long_called api am a d (ms_asgard s), ms_db := db\<lparr>sv_strategy := sg\<rparr>\<rparr>, Inr ()))"
proof -
  define ag where "ag = long_called api am a d (ms_asgard s)"
  note long = long_leg_step[where d = d and api = api and am = am and a = a and s = s, folded ag_def]
  obtain db r where tx: "run_tx (ck_tx_io a) (archive_tx u i asset xd d) (ms_db s) = (db, r)" by force
  show ?thesis
  proof (cases r)
    case (Inl e)
    with long tx show ?thesis by (simp add: finish_exit_def andthen_def on_db_def ag_def)
  next
    case (Inr v)
    with long tx record_cooldown_returns[of a u "s\<lparr>ms_asgard := ag, ms_db := db\<rparr>"] show ?thesis
      by (auto simp: finish_exit_def andthen_def on_db_def ag_def)
  qed
qed

lemma finish_exit_ok:
  assumes "db_ok (ms_db s)" "dict_get i (sv_positions (ms_db s)) = Some p"
    and "dict_get i (sv_history (ms_db s)) = None" "ck_tx_io a = Inr ()"
  shows "\<exists>s1 q. finish_exit api am a u i asset d xd s = (s1, Inr ()) \<and> ms_trader s1 = ms_trader s \<and>
    dict_get i (sv_positions (ms_db s1)) = Some q \<and> pe_is_closed q \<and> dict_get i (sv_history (ms_db s1)) \<noteq> None \<and>
    ms_asgard s1 = long_called api am a d (ms_asgard s)"
proof -
  obtain db1 where tx: "archive_tx u i asset xd d (ms_db s) = Inr db1"
    using archive_tx_Inr[OF assms(3)] by blast
  obtain q where "dict_get i (sv_positions db1) = Some q" "pe_is_closed q" "dict_get i (sv_history db1) \<noteq> None"
    using archive_tx_ok[OF assms(1-3) tx] by blast
  with finish_exit_eq[where d = d and s = s and a = a and u = u and i = i and asset = asset and xd = xd and api = api and am = am] tx assms(4) show ?thesis by (auto simp: run_tx_def)
qed

lemma finish_exit_fails:
  assumes "ck_tx_io a \<noteq> Inr () \<or> dict_get i (sv_history (ms_db s)) \<noteq> None"
  shows "\<exists>s1 e. finish_exit api am a u i asset d xd s = (s1, Inl e) \<and> ms_trader s1 = ms_trader s \<and> ms_db s1 = ms_db s \<and>
    ms_asgard s1 = long_called api am a d (ms_asgard s)"
  using assms finish_exit_eq[where d = d and s = s and a = a and u = u and i = i and asset = asset and xd = xd and api = api and am = am] archive_tx_Inl[of i "ms_db s" u asset xd d]
  by (cases "ck_tx_io a") (auto simp: run_tx_def split: sum.splits prod.splits)

section \<open>Whose rows a user's monitoring changes\<close>

definition only_own :: "string \<Rightarrow> string set \<Rightarrow> service_db \<Rightarrow> service_db \<Rightarrow> bool" where
  "only_own u ids db0 db \<longleftrightarrow> db_ok db \<and>
     (\<forall>j. j \<notin> ids \<longrightarrow> dict_get j (sv_positions db) = dict_get j (sv_positions db0)
        \<and> dict_get j (sv_history db) = dict_get j (sv_history db0)) \<and>
     (\<forall>j. map_option pe_user_id (dict_get j (sv_positions db)) = map_option pe_user_id (dict_get j (sv_positions db0))) \<and>
     (\<forall>v. v \<noteq> u \<longrightarrow> dict_get v (sv_strategy db) = dict_get v (sv_strategy db0)
        \<and> risk_tracking (sv_risk db) v = risk_tracking (sv_risk db0) v
        \<and> strategy_pauses (sv_risk db) v = strategy_pauses (sv_risk db0) v) \<and>
     sv_users db = sv_users db0 \<and> sv_user_paused db = sv_user_paused db0 \<and> sv_intents db = sv_intents db0"

lemma record_failure_other:
  "v \<noteq> u \<Longrightarrow> risk_tracking (fst (record_failure now today u reason r)) v = risk_tracking r v \<and>
     strategy_pauses (fst (record_failure now today u reason r)) v = strategy_pauses r v"
  by (auto simp: record_failure_def Let_def split: option.splits)

lemma only_own_statements:
  assumes "only_own u ids db0 db" "i \<in> ids"
  shows "only_own u ids db0 (set_position_data i d db)"
    and "only_own u ids db0 (update_strategy u f db)"
    and "only_own u ids db0 (db\<lparr>sv_risk := fst (record_failure now today u reason (sv_risk db))\<rparr>)"
    and "archive_tx u i asset xd d db = Inr db1 \<Longrightarrow> only_own u ids db0 db1"
proof -
  have ok: "db_ok db" using assms(1) by (simp add: only_own_def)
  then have oks: "dict_ok (sv_positions db)" "dict_ok (sv_strategy db)" "dict_ok (sv_history db)"
    by (simp_all add: db_ok_def)
  show "only_own u ids db0 (set_position_data i d db)"
    using assms ok oks by (simp add: only_own_def get_set_position_data option.map_comp comp_def)
  show "only_own u ids db0 (update_strategy u f db)"
    using assms ok oks by (auto simp: only_own_def get_update_strategy)
  show "only_own u ids db0 (db\<lparr>sv_risk := fst (record_failure now today u reason (sv_risk db))\<rparr>)"
    using assms ok by (auto simp: only_own_def db_ok_def record_failure_other)
  have "db_ok (close_position_entry i (closed_data xd d) db)" using ok by simp
  then show "only_own u ids db0 db1" if "archive_tx u i asset xd d db = Inr db1"
    using that assms oks
    by (auto simp: archive_tx_def insert_history_def only_own_def db_ok_def dict.inv_put
        dict.get_put get_close_position_entry option.map_comp comp_def split: if_splits)
qed

abbreviation "keeps_foreign u ids db0 \<equiv> preserves (\<lambda>s. only_own u ids db0 (ms_db s))"

lemma keeps_parts [intro, simp]:
  "keeps_foreign u ids db0 (on_user_asgard m)" "keeps_foreign u ids db0 (on_user_trader n)"
  by (auto simp: preserves_def on_user_asgard_def on_user_trader_def split: prod.splits)

lemma keeps_stmt:
  "(\<And>db. only_own u ids db0 db \<Longrightarrow> only_own u ids db0 (f db)) \<Longrightarrow> keeps_foreign u ids db0 (on_db (run_stmt io f))"
  by (auto simp: preserves_def on_db_def run_stmt_def split: sum.splits)

lemma keeps_tx:
  "(\<And>db db1. only_own u ids db0 db \<Longrightarrow> f db = Inr db1 \<Longrightarrow> only_own u ids db0 db1) \<Longrightarrow>
     keeps_foreign u ids db0 (on_db (run_tx io f))"
  by (auto simp: preserves_def on_db_def run_tx_def split: sum.splits)

lemma keeps_finish:
  assumes "i \<in> ids"
  shows "keeps_foreign u ids db0 (finish_exit api am a u i asset d xd)"
proof -
  have tx: "keeps_foreign u ids db0 (on_db (run_tx (ck_tx_io a) (archive_tx u i asset xd d)))"
    by (rule keeps_tx, rule only_own_statements(4)[OF _ assms])
  have cool: "keeps_foreign u ids db0 (record_cooldown a u)"
    unfolding record_cooldown_def
    by (intro preserves_catching keeps_stmt preserves_pure only_own_statements(2)[OF _ assms])
  show ?thesis unfolding finish_exit_def
    by (intro preserves_andthen tx cool) (auto split: option.splits)
qed

lemma keeps_exit:
  assumes "i \<in> ids"
  shows "keeps_foreign u ids db0 (auto_exit api am a u i asset d xd)"
proof -
  have fail: "keeps_foreign u ids db0 (note_failure a u e)" for e
    unfolding note_failure_def
    by (intro preserves_catching keeps_stmt preserves_pure only_own_statements(3)[OF _ assms])
  have "keeps_foreign u ids db0 (if \<not> or_success r then ret () else finish_exit api am a u i asset d xd)" for r
    by (simp add: keeps_finish[OF assms])
  then show ?thesis unfolding auto_exit_def
    using keeps_finish[OF assms] fail by (auto intro!: preserves_catching preserves_andthen)
qed

lemma keeps_health: "keeps_foreign u ids db0 (asgard_health api d)"
  unfolding asgard_health_def by (auto split: option.splits intro!: preserves_catching preserves_andthen)

lemma keeps_check:
  assumes "i \<in> ids"
  shows "keeps_foreign u ids db0 (check_position api am a rates cfg u i d)"
proof -
  have up: "keeps_foreign u ids db0 (if ups = [] then ret () else on_db (run_stmt (ck_update_io a) (set_position_data i e)))"
    for ups e by (auto intro!: keeps_stmt only_own_statements(1)[OF _ assms])
  have ex: "keeps_foreign u ids db0 (case x of None \<Rightarrow> ret () | Some y \<Rightarrow> auto_exit api am a u i asset d y)" for x asset
    by (auto simp: keeps_exit[OF assms] split: option.splits)
  have body: "keeps_foreign u ids db0 (andthen (asgard_health api d) (\<lambda>health.
       andthen (lift_result (live_updates hp health funding)) (\<lambda>ups.
       andthen (if ups = [] then ret ()
                else on_db (run_stmt (ck_update_io a) (set_position_data i (fold (\<lambda>(k, v). dict_put k v) ups d)))) (\<lambda>_.
       andthen (lift_result (evaluate_exit (ck_now a) hp health funding)) (\<lambda>xd.
       andthen (lift_result (case (xd, cfg) of
                  (None, Some c) \<Rightarrow> check_user_exit_thresholds (ck_now a) d c funding
                | _ \<Rightarrow> Inr xd)) (\<lambda>xd1.
       case xd1 of None \<Rightarrow> ret () | Some x \<Rightarrow> auto_exit api am a u i asset d x))))))" for hp funding asset
    by (intro preserves_andthen keeps_health preserves_pure up ex)
  show ?thesis
    using body unfolding check_position_def preserves_def andthen_def Let_def
    by (auto split: sum.splits)
qed

lemma monitor_user_only_own:
  assumes "db_ok (mn_db m)"
  shows "only_own u (fst ` set ps) (mn_db m) (mn_db (fst (monitor_user api st signer a u ps m)))"
proof -
  have refl: "only_own u (fst ` set ps) (mn_db m) (mn_db m)" using assms by (simp add: only_own_def)
  have run: "only_own u (fst ` set ps) (mn_db m) (ms_db (fold (\<lambda>(i, d) s. fst (check_position api am (ua_check a i) rates cfg u i d s)) qs s))"
    if "set qs \<subseteq> set ps" "only_own u (fst ` set ps) (mn_db m) (ms_db s)" for am rates cfg qs s
    using that
  proof (induction qs arbitrary: s)
    case (Cons q qs)
    obtain i d where q: "q = (i, d)" by force
    have "i \<in> fst ` set ps" using Cons.prems(1) q by force
    from keeps_check[OF this, unfolded preserves_def] Cons q show ?case by auto
  qed simp
  show ?thesis
    using refl run[of ps] by (auto simp: monitor_user_def Let_def split: sum.splits)
qed

section \<open>Cycles and known rates\<close>

lemma cycle_blind:
  assumes "\<And>u ps i d. (u, ps) \<in> set (group_rows (open_rows (mn_db m))) \<Longrightarrow> (i, d) \<in> set ps \<Longrightarrow> rate_known (ans u) d"
  shows "mn_db (fst (service_cycle api st signer io ans m)) = mn_db m \<and>
    mn_orders (fst (service_cycle api st signer io ans m)) = mn_orders m \<and>
    tx_store (mn_asgard (fst (service_cycle api st signer io ans m))) = tx_store (mn_asgard m)"
proof -
  have "mn_db (fold (\<lambda>(u, ps) m. fst (monitor_user api st signer (ans u) u ps m)) g n) = mn_db n \<and>
      mn_orders (fold (\<lambda>(u, ps) m. fst (monitor_user api st signer (ans u) u ps m)) g n) = mn_orders n \<and>
      tx_store (mn_asgard (fold (\<lambda>(u, ps) m. fst (monitor_user api st signer (ans u) u ps m)) g n)) = tx_store (mn_asgard n)"
    if "\<And>u ps i d. (u, ps) \<in> set g \<Longrightarrow> (i, d) \<in> set ps \<Longrightarrow> rate_known (ans u) d" for g n
    using that
  proof (induction g arbitrary: n)
    case (Cons x g)
    obtain u ps where x: "x = (u, ps)" by force
    have "rate_known (ans u) d" if "(i, d) \<in> set ps" for i d using Cons.prems x that by auto
    note first = monitor_user_blind[OF this, of ps]
    have "rate_known (ans v) d" if "(v, qs) \<in> set g" "(i, d) \<in> set qs" for v qs i d
      using Cons.prems that by auto
    from Cons.IH[OF this] show ?case by (simp add: x first)
  qed simp
  from this[OF assms] show ?thesis by (auto simp: service_cycle_def split: sum.splits)
qed

text \<open>The same for one row: the others may change.\<close>

lemma checks_keep_row:
  fixes api am ck cfg u
  assumes "db_ok (ms_db s)" "\<And>d. (i, d) \<in> set ps \<Longrightarrow> rate_known a d"
  defines "t \<equiv> fold (\<lambda>(j, d) s. fst (check_position api am (ck j) (current_rates (ua_time a) (ua_rates a)) cfg u j d s)) ps s"
  shows "db_ok (ms_db t) \<and> dict_get i (sv_positions (ms_db t)) = dict_get i (sv_positions (ms_db s))"
  using assms(1,2) unfolding t_def
proof (induction ps arbitrary: s)
  case (Cons p ps)
  obtain j d where p: "p = (j, d)" by force
  define s1 where "s1 = fst (check_position api am (ck j) (current_rates (ua_time a) (ua_rates a)) cfg u j d s)"
  have "db_ok (ms_db s1) \<and> dict_get i (sv_positions (ms_db s1)) = dict_get i (sv_positions (ms_db s))"
  proof (cases "j = i")
    case True
    with Cons.prems(2)[of d] p check_known_untouched[of a d s api am "ck j" cfg u j] Cons.prems(1)
    show ?thesis by (simp add: s1_def untouched_def)
  next
    case False
    have "only_own u {j} (ms_db s) (ms_db s)" using Cons.prems(1) by (simp add: only_own_def)
    with keeps_check[of j "{j}" u "ms_db s" api am "ck j" "current_rates (ua_time a) (ua_rates a)" cfg d]
    have "only_own u {j} (ms_db s) (ms_db s1)" by (auto simp: preserves_def s1_def)
    with False show ?thesis by (simp add: only_own_def)
  qed
  with Cons.IH[of s1] Cons.prems(2) show ?case by (simp add: p s1_def[symmetric])
qed simp

lemma monitor_user_keeps_row:
  assumes "db_ok (mn_db m)" "\<And>d. (i, d) \<in> set ps \<Longrightarrow> rate_known a d"
  shows "db_ok (mn_db (fst (monitor_user api st signer a u ps m))) \<and>
    dict_get i (sv_positions (mn_db (fst (monitor_user api st signer a u ps m)))) = dict_get i (sv_positions (mn_db m))"
proof -
  have "db_ok (ms_db \<lparr>ms_db = mn_db m, ms_asgard = mn_asgard m, ms_trader = t\<rparr>)" for t using assms(1) by simp
  note run = checks_keep_row[where i = i and ps = ps and a = a, OF this assms(2)]
  show ?thesis using assms(1) run by (auto simp: monitor_user_def Let_def split: sum.splits)
qed

lemma cycle_keeps_row:
  assumes "db_ok (mn_db m)"
    and "\<And>u ps d. (u, ps) \<in> set (group_rows (open_rows (mn_db m))) \<Longrightarrow> (i, d) \<in> set ps \<Longrightarrow> rate_known (ans u) d"
  shows "dict_get i (sv_positions (mn_db (fst (service_cycle api st signer io ans m)))) = dict_get i (sv_positions (mn_db m))"
proof -
  have "dict_get i (sv_positions (mn_db (fold (\<lambda>(u, ps) m. fst (monitor_user api st signer (ans u) u ps m)) g n))) =
      dict_get i (sv_positions (mn_db n))"
    if "db_ok (mn_db n)" "\<And>u ps d. (u, ps) \<in> set g \<Longrightarrow> (i, d) \<in> set ps \<Longrightarrow> rate_known (ans u) d" for g n
    using that
  proof (induction g arbitrary: n)
    case (Cons x g)
    obtain u ps where x: "x = (u, ps)" by force
    have "rate_known (ans u) d" if "(i, d) \<in> set ps" for d using Cons.prems(2) x that by auto
    note first = monitor_user_keeps_row[where ps = ps and a = "ans u" and u = u, OF Cons.prems(1) this]
    have "rate_known (ans v) d" if "(v, qs) \<in> set g" "(i, d) \<in> set qs" for v qs d
      using Cons.prems(2) that by auto
    from Cons.IH[OF _ this] first show ?case by (simp add: x)
  qed simp
  from this[OF assms] show ?thesis by (auto simp: service_cycle_def split: sum.splits)
qed

section \<open>Properties\<close>

text \<open>C9: The monitor is blind to a position while the funding rates can be fetched for its user and
  list the asset of its row: \<open>float\<close> of the oracle's \<open>FundingRate\<close> raises before the row is
  updated or any exit condition is evaluated, whatever the health factor and the margin are and whether the
  refresh of the Asgard position answers or not. No cycle then changes the row, whatever it does for other
  rows; and if all open rows are such, it changes no table, sends no order and builds no transaction. (A
  row whose asset the exchange does not list, such as a staked SOL token, is not covered.)\<close>

theorem monitor_blind_with_rates:
  assumes "db_ok (mn_db m)"
  shows "(\<forall>i p. dict_get i (sv_positions (mn_db m)) = Some p \<longrightarrow> rate_known (ans (pe_user_id p)) (pe_data p) \<longrightarrow>
      dict_get i (sv_positions (mn_db (fst (service_cycle api st signer io ans m)))) = Some p) \<and>
    ((\<forall>(i, p) \<in> set (open_rows (mn_db m)). rate_known (ans (pe_user_id p)) (pe_data p)) \<longrightarrow>
      mn_db (fst (service_cycle api st signer io ans m)) = mn_db m \<and>
      mn_orders (fst (service_cycle api st signer io ans m)) = mn_orders m \<and>
      tx_store (mn_asgard (fst (service_cycle api st signer io ans m))) = tx_store (mn_asgard m))"
proof (intro conjI allI impI)
  fix i p
  assume row: "dict_get i (sv_positions (mn_db m)) = Some p" and known: "rate_known (ans (pe_user_id p)) (pe_data p)"
  have "rate_known (ans u) d" if "(u, ps) \<in> set (group_rows (open_rows (mn_db m)))" "(i, d) \<in> set ps" for u ps d
  proof -
    note grouped = group_rows_sound[OF that]
    obtain q where "(i, q) \<in> set (sv_positions (mn_db m))" "pe_user_id q = u" "pe_data q = d"
      using grouped by (auto simp: open_rows_def)
    with row assms have "q = p" by (simp add: db_ok_def dict_get_set[symmetric])
    with known \<open>pe_user_id q = u\<close> \<open>pe_data q = d\<close> show ?thesis by simp
  qed
  from cycle_keeps_row[where api = api and st = st and signer = signer and io = io, OF assms this] row
  show "dict_get i (sv_positions (mn_db (fst (service_cycle api st signer io ans m)))) = Some p" by simp
next
  assume "\<forall>(i, p) \<in> set (open_rows (mn_db m)). rate_known (ans (pe_user_id p)) (pe_data p)"
  then have "rate_known (ans u) d"
    if "(u, ps) \<in> set (group_rows (open_rows (mn_db m)))" "(i, d) \<in> set ps" for u ps i d
    using group_rows_sound[OF that] by auto
  note blind = cycle_blind[where m = m and ans = ans and api = api and st = st and signer = signer and io = io, OF this]
  show "mn_db (fst (service_cycle api st signer io ans m)) = mn_db m"
    "mn_orders (fst (service_cycle api st signer io ans m)) = mn_orders m"
    "tx_store (mn_asgard (fst (service_cycle api st signer io ans m))) = tx_store (mn_asgard m)"
    using blind by simp_all
qed

text \<open>C10: What an automatic exit of a position with a recorded short does. The short is closed first; if
  that fails nothing else happens. Otherwise the long is closed by one call when the row names its PDA,
  and then, whatever that call answered, the row is closed and archived; but if that last transaction
  fails, the row stays open as it was although both closing calls were made.\<close>

theorem monitor_exit_outcomes:
  assumes "db_ok (ms_db s)" "dict_get i (sv_positions (ms_db s)) = Some p"
    and "dict_get i (sv_history (ms_db s)) = None" "size_of d = NumV x" "x \<noteq> 0"
    and "close_short (ck_close a) asset (float_str \<bar>x\<bar>) 15 (ms_trader s) = (t, r)"
  shows "\<exists>s1. auto_exit api am a u i asset d xd s = (s1, Inr ()) \<and> ms_trader s1 = t \<and>
    (if \<not> or_success r then ms_db s1 = ms_db s \<and> ms_asgard s1 = ms_asgard s
     else ms_asgard s1 = (case pda_of d of None \<Rightarrow> ms_asgard s
            | Some pda \<Rightarrow> fst (close_asgard api am (ck_now a) (ck_close_intent a) pda (ms_asgard s))) \<and>
       (if ck_tx_io a = Inr ()
        then (\<exists>q. dict_get i (sv_positions (ms_db s1)) = Some q \<and> pe_is_closed q) \<and>
          dict_get i (sv_history (ms_db s1)) \<noteq> None
        else dict_get i (sv_positions (ms_db s1)) = Some p \<and> dict_get i (sv_history (ms_db s1)) = None))"
proof -
  let ?s = "s\<lparr>ms_trader := t\<rparr>"
  have run: "auto_exit api am a u i asset d xd s =
      catching (if \<not> or_success r then ret () else finish_exit api am a u i asset d xd) (note_failure a u) ?s"
    using assms(4-6) by (simp add: auto_exit_def catching_def andthen_def on_user_trader_def)
  show ?thesis
  proof (cases "or_success r \<and> ck_tx_io a \<noteq> Inr ()")
    case True
    then obtain s1 e where f: "finish_exit api am a u i asset d xd ?s = (s1, Inl e)" "ms_trader s1 = t" "ms_db s1 = ms_db s"
      "ms_asgard s1 = long_called api am a d (ms_asgard s)"
      using finish_exit_fails[where s = ?s and i = i and a = a and u = u and asset = asset and d = d and xd = xd
          and api = api and am = am] by auto
    with note_failure_returns[of a u e s1] True run assms(2,3) show ?thesis
      by (auto simp: catching_def long_called_def)
  next
    case False
    with finish_exit_ok[where s = ?s and i = i and a = a and u = u and asset = asset and d = d and xd = xd
          and api = api and am = am, OF _ _ _ ] assms(1-3) run
    show ?thesis by (auto simp: catching_def long_called_def)
  qed
qed

text \<open>A row that records neither a short size nor a PDA is closed and archived without any call to a
  venue.\<close>

lemma exit_without_orders:
  assumes "db_ok (ms_db s)" "dict_get i (sv_positions (ms_db s)) = Some p"
    and "dict_get i (sv_history (ms_db s)) = None" "ck_tx_io a = Inr ()"
    and "\<not> truthy_v (size_of d)" "pda_of d = None"
  shows "\<exists>s1 q. auto_exit api am a u i asset d xd s = (s1, Inr ()) \<and> ms_trader s1 = ms_trader s \<and>
    ms_asgard s1 = ms_asgard s \<and> dict_get i (sv_positions (ms_db s1)) = Some q \<and> pe_is_closed q"
  using finish_exit_ok[OF assms(1-4), of api am u asset d xd] assms(5,6)
  by (auto simp: auto_exit_def catching_def long_called_def)

text \<open>The stop-loss, the take-profit and the minimum carry of a user's strategy never close a position
  whose data has no \<open>total_pnl\<close>, when the limits are positive: the profit is then taken as 0, and
  the carry check raises on the oracle's rates.\<close>

theorem user_thresholds_never_fire:
  assumes "dict_get ''total_pnl'' d = None"
    and "\<And>sl. sg_stop_loss_pct cfg = Some sl \<Longrightarrow> 0 < sl" "\<And>tp. sg_take_profit_pct cfg = Some tp \<Longrightarrow> 0 < tp"
  shows "check_user_exit_thresholds now d cfg (map_option RateObject f) \<noteq> Inr (Some x)"
proof -
  have pnl: "pnl_pct d = Inr (Some y) \<Longrightarrow> y = 0" for y
    using assms(1) by (auto simp: pnl_pct_def field_None res_bind_Inr_iff split: if_splits)
  have "stop_loss_exit now d cfg \<noteq> Inr (Some y)" for y
    using assms(2) pnl by (force simp: stop_loss_exit_def res_bind_Inr_iff split: option.splits if_splits)
  moreover have "take_profit_exit now d cfg \<noteq> Inr (Some y)" for y
    using assms(3) pnl by (force simp: take_profit_exit_def res_bind_Inr_iff split: option.splits if_splits)
  moreover have "min_carry_exit now d cfg (map_option RateObject f) \<noteq> Inr (Some y)" for y
    by (cases f) (auto simp: min_carry_exit_def split: option.splits)
  ultimately show ?thesis
    by (auto simp: check_user_exit_thresholds_def res_bind_Inr_iff split: option.splits)
qed

text \<open>Monitoring one user changes no row, strategy, risk record or history entry of another, whatever the
  venues and the database answer.\<close>

theorem monitor_isolates_users:
  assumes "dict_ok (sv_positions db)" "(u, ps) \<in> set (group_rows (open_rows db))" "db_ok (mn_db m)"
    and "dict_get j (sv_positions db) = Some q" "pe_user_id q \<noteq> u"
  shows "let db1 = mn_db (fst (monitor_user api st signer a u ps m)) in
     dict_get j (sv_positions db1) = dict_get j (sv_positions (mn_db m)) \<and>
     dict_get j (sv_history db1) = dict_get j (sv_history (mn_db m)) \<and>
     dict_get (pe_user_id q) (sv_strategy db1) = dict_get (pe_user_id q) (sv_strategy (mn_db m)) \<and>
     risk_tracking (sv_risk db1) (pe_user_id q) = risk_tracking (sv_risk (mn_db m)) (pe_user_id q)"
proof -
  have "j \<notin> fst ` set ps"
  proof
    assume "j \<in> fst ` set ps"
    then obtain d p where "(j, p) \<in> set (sv_positions db)" "pe_user_id p = u"
      using group_rows_sound[OF assms(2)] by (force simp: open_rows_def)
    then have "dict_get j (sv_positions db) = Some p" using assms(1) by (simp add: dict_get_set)
    with assms(4,5) \<open>pe_user_id p = u\<close> show False by simp
  qed
  with monitor_user_only_own[OF assms(3), of u ps api st signer a] assms(5) show ?thesis
    by (auto simp: only_own_def Let_def)
qed

definition rows_of :: "string \<Rightarrow> (string \<times> position_entry) list \<Rightarrow> (string \<times> jdata) list" where
  "rows_of u rows = map (\<lambda>(i, p). (i, pe_data p)) (filter (\<lambda>(i, p). pe_user_id p = u) rows)"

text \<open>The grouping of the rows is the reference one: the rows of a user in their order, and no entry
  for a user without rows.\<close>

theorem group_rows_reference:
  "dict_ok (group_rows rows) \<and>
   dict_get u (group_rows rows) = (if rows_of u rows = [] then None else Some (rows_of u rows))"
proof (induction rows arbitrary: u rule: rev_induct)
  case Nil
  then show ?case by (simp add: group_rows_def rows_of_def dict_ok_def dict_get_def)
next
  case (snoc x rows)
  obtain i p where x: "x = (i, p)" by force
  let ?g = "group_rows rows"
  have step: "group_rows (rows @ [x]) = dict_put (pe_user_id p)
      ((case dict_get (pe_user_id p) ?g of None \<Rightarrow> [] | Some l \<Rightarrow> l) @ [(i, pe_data p)]) ?g"
    by (simp add: group_rows_def x)
  have rows: "rows_of u (rows @ [x]) = rows_of u rows @ (if pe_user_id p = u then [(i, pe_data p)] else [])"
    by (simp add: rows_of_def x)
  show ?case
    using snoc.IH[of u] snoc.IH[of "pe_user_id p"]
    by (auto simp: step rows dict.inv_put dict.get_put split: option.splits if_splits)
qed

section \<open>Instances\<close>

definition wit_data :: jdata where
  "wit_data = [(''asset'', TextV ''SOL''), (''leverage'', NumV 3), (''size_usd'', NumV 1000)]"

definition wit_service_db :: "jdata \<Rightarrow> service_db" where
  "wit_service_db d = \<lparr>sv_users = [''u1'' \<mapsto> wit_user, ''u2'' \<mapsto> wit_user], sv_user_paused = Map.empty,
     sv_positions = [(''p1'', \<lparr>pe_user_id = ''u1'', pe_data = d, pe_is_closed = False\<rparr>),
                     (''p2'', \<lparr>pe_user_id = ''u2'', pe_data = d, pe_is_closed = False\<rparr>)],
     sv_history = [], sv_intents = [], sv_strategy = [], sv_risk = wit_risk_db\<rparr>"

definition wit_check :: check_answers where
  "wit_check = \<lparr>ck_now = 5, ck_today = 0, ck_state = Inl (ExternalError ''timeout''), ck_update_io = Inr (),
     ck_close = (\<lambda>_. wit_lost), ck_close_intent = ''c1'', ck_tx_io = Inr (), ck_cooldown_io = Inr (),
     ck_failure_io = Inr ()\<rparr>"

definition wit_user_answers :: user_answers where
  "wit_user_answers = \<lparr>ua_config_io = Inr (), ua_user_io = Inr (), ua_time = 0, ua_rates = wit_meta,
     ua_check = (\<lambda>_. wit_check)\<rparr>"

definition wit_monitor :: "jdata \<Rightarrow> monitor_state" where
  "wit_monitor d = \<lparr>mn_db = wit_service_db d, mn_asgard = wit_asgard, mn_orders = []\<rparr>"

definition wit_session :: "jdata \<Rightarrow> monitor_session" where
  "wit_session d = \<lparr>ms_db = wit_service_db d, ms_asgard = wit_asgard, ms_trader = wit_trader\<rparr>"

lemma wit_service_db_ok: "db_ok (wit_service_db d)"
  by (simp add: db_ok_def wit_service_db_def dict_ok_def)

lemma wit_service_rows:
  "dict_get ''p1'' (sv_positions (wit_service_db d)) = Some \<lparr>pe_user_id = ''u1'', pe_data = d, pe_is_closed = False\<rparr>"
  "dict_get ''p2'' (sv_positions (wit_service_db d)) = Some \<lparr>pe_user_id = ''u2'', pe_data = d, pe_is_closed = False\<rparr>"
  "dict_get i (sv_history (wit_service_db d)) = None"
  by (simp_all add: wit_service_db_def dict_get_def)

theorem monitor_blind_with_rates_witness:
  "mn_db (fst (service_cycle (wit_api False) wit_settings (\<lambda>_. Inr ()) (Inr ()) (\<lambda>_. wit_user_answers)
      (wit_monitor wit_data))) = wit_service_db wit_data"
proof -
  have data: "\<And>i p. (i, p) \<in> set (open_rows (mn_db (wit_monitor wit_data))) \<Longrightarrow> pe_data p = wit_data"
    by (auto simp: open_rows_def wit_monitor_def wit_service_db_def)
  have "asset_of wit_data = Inr ''SOL''" by (simp add: asset_of_def field_def wit_data_def dict_get_def)
  then have "rate_known wit_user_answers wit_data"
    using wit_meta_rate[of 0] by (simp add: rate_known_def wit_user_answers_def)
  then have "rate_known wit_user_answers (pe_data p)"
    if "(i, p) \<in> set (open_rows (mn_db (wit_monitor wit_data)))" for i p
    using data[OF that] by simp
  then have "\<forall>(i, p) \<in> set (open_rows (mn_db (wit_monitor wit_data))). rate_known wit_user_answers (pe_data p)" by auto
  moreover have "db_ok (mn_db (wit_monitor wit_data))" "mn_db (wit_monitor wit_data) = wit_service_db wit_data"
    by (simp_all add: wit_monitor_def wit_service_db_ok)
  ultimately show ?thesis
    using monitor_blind_with_rates[where m = "wit_monitor wit_data" and ans = "\<lambda>_. wit_user_answers"] by simp
qed

theorem monitor_exit_outcomes_witness:
  "\<exists>s1. auto_exit (wit_api True) wit_am wit_check ''u1'' ''p1'' ''SOL'' [(''hl_size'', NumV 2)]
       (exit_now 5 HEALTH_FACTOR NORMAL []) (wit_session [(''hl_size'', NumV 2)]) = (s1, Inr ()) \<and>
     ms_trader s1 = fst (close_short (\<lambda>_. wit_lost) ''SOL'' (float_str 2) 15 wit_trader)"
proof -
  let ?d = "[(''hl_size'', NumV 2)]"
  have ok: "db_ok (ms_db (wit_session ?d))"
    "dict_get ''p1'' (sv_positions (ms_db (wit_session ?d))) = Some \<lparr>pe_user_id = ''u1'', pe_data = ?d, pe_is_closed = False\<rparr>"
    "dict_get ''p1'' (sv_history (ms_db (wit_session ?d))) = None"
    by (simp_all add: wit_session_def wit_service_db_ok wit_service_rows)
  have sz: "size_of ?d = NumV 2" "(2 :: rat) \<noteq> 0" by (simp_all add: size_of_def field_def dict_get_def)
  obtain t r where "close_short (ck_close wit_check) ''SOL'' (float_str \<bar>2\<bar>) 15 (ms_trader (wit_session ?d)) = (t, r)"
    by force
  from monitor_exit_outcomes[OF ok sz this, of "wit_api True" wit_am "''u1''" "exit_now 5 HEALTH_FACTOR NORMAL []"] this
  show ?thesis by (auto simp: wit_session_def wit_check_def)
qed

theorem user_thresholds_never_fire_witness:
  "\<nexists>x. check_user_exit_thresholds 0 wit_data
      \<lparr>sg_enabled = True, sg_assets = None, sg_min_carry_apy = None, sg_min_funding_rate_8hr = None,
       sg_max_funding_volatility = None, sg_max_position_pct = None, sg_max_concurrent_positions = None,
       sg_max_leverage = None, sg_min_exit_carry_apy = Some 5, sg_take_profit_pct = Some 20,
       sg_stop_loss_pct = Some 10, sg_cooldown_minutes = None, sg_last_close_time = None,
       sg_cooldown_at_close = None, sg_protocols = None, sg_auto_reopen = Some True, sg_version = 1\<rparr> (map_option RateObject None) = Inr (Some x)"
  by (rule notI, elim exE, erule notE[OF user_thresholds_never_fire, rotated -1])
    (simp_all add: wit_data_def dict_get_def)

theorem monitor_isolates_users_witness:
  "dict_get ''p2'' (sv_positions (mn_db (fst (monitor_user (wit_api True) wit_settings (\<lambda>_. Inr ()) wit_user_answers
      ''u1'' [(''p1'', wit_data)] (wit_monitor wit_data)))))
   = Some \<lparr>pe_user_id = ''u2'', pe_data = wit_data, pe_is_closed = False\<rparr>"
proof -
  have g: "(''u1'', [(''p1'', wit_data)]) \<in> set (group_rows (open_rows (wit_service_db wit_data)))"
    by (simp add: group_rows_def open_rows_def wit_service_db_def dict_put_def dict_get_def)
  have ok: "dict_ok (sv_positions (wit_service_db wit_data))" "db_ok (mn_db (wit_monitor wit_data))"
    using wit_service_db_ok[of wit_data] by (simp_all add: db_ok_def wit_monitor_def)
  have "pe_user_id \<lparr>pe_user_id = ''u2'', pe_data = wit_data, pe_is_closed = False\<rparr> \<noteq> ''u1''" by simp
  from monitor_isolates_users[OF ok(1) g ok(2) wit_service_rows(2) this, of "wit_api True" wit_settings
      "\<lambda>_. Inr ()" wit_user_answers] wit_service_rows(2)[of wit_data]
  show ?thesis by (simp add: Let_def wit_monitor_def)
qed

end
