(* ===== verification/Services.thy ===== *)
theory Services
  imports IntentScanner AutonomousScanner PositionMonitor
begin

text \<open>
  The three services that work on the same tables (started in \<open>backend/dashboard/main.py\<close>, with
  the scanner of \<open>bot/core/autonomous_scanner.py\<close>): every run of them is a sequence of cycles of
  the monitor, the intent scanner and the autonomous scanner, in any order and with any answers of the
  venues, the database and the clock.
\<close>

section \<open>Runs\<close>

record services_state =
  vs_db :: service_db
  vs_asgard :: asgard_state

definition monitor_turn ::
  "asgard_api \<Rightarrow> settings \<Rightarrow> (string option \<Rightarrow> exn + unit) \<Rightarrow> exn + unit \<Rightarrow> (string \<Rightarrow> user_answers)
     \<Rightarrow> services_state \<Rightarrow> services_state"
where
  "monitor_turn api st signer io ans x =
     (let m = fst (service_cycle api st signer io ans \<lparr>mn_db = vs_db x, mn_asgard = vs_asgard x, mn_orders = []\<rparr>)
      in \<lparr>vs_db = mn_db m, vs_asgard = mn_asgard m\<rparr>)"

definition scanner_turn :: "(scanner_state, unit) action \<Rightarrow> services_state \<Rightarrow> services_state" where
  "scanner_turn scan x =
     (let s = fst (scan \<lparr>ns_db = vs_db x, ns_asgard = vs_asgard x, ns_legs = []\<rparr>)
      in \<lparr>vs_db = ns_db s, vs_asgard = ns_asgard s\<rparr>)"

inductive services :: "services_state \<Rightarrow> services_state \<Rightarrow> bool" where
  monitored: "services x (monitor_turn api st signer io ans x)"
| intents_scanned: "services x (scanner_turn (intent_scan api st signer lts io now ians) x)"
| users_scanned: "services x (scanner_turn (auto_scan api st signer lts managed market io aans) x)"

inductive_cases servicesE: "services x y"

section \<open>Well-formed tables\<close>

text \<open>The tables are keyed, and an executed intent refers to a position of its user.\<close>

definition tables_ok :: "service_db \<Rightarrow> bool" where
  "tables_ok db \<longleftrightarrow> db_ok db \<and> (\<forall>i r. dict_get i (sv_intents db) = Some r \<longrightarrow> has_position db r)"

text \<open>What every service keeps of the rows: the closed positions as they are, the owners of all.\<close>

definition rows_kept :: "service_db \<Rightarrow> service_db \<Rightarrow> bool" where
  "rows_kept db0 db \<longleftrightarrow>
     (\<forall>j p. dict_get j (sv_positions db0) = Some p \<longrightarrow>
        (\<exists>q. dict_get j (sv_positions db) = Some q \<and> pe_user_id q = pe_user_id p \<and> (pe_is_closed p \<longrightarrow> q = p)))"

lemma rows_kept_refl [simp]: "rows_kept db db"
  by (simp add: rows_kept_def)

lemma rows_kept_trans [trans]: "rows_kept db db1 \<Longrightarrow> rows_kept db1 db2 \<Longrightarrow> rows_kept db db2"
  unfolding rows_kept_def by metis

lemma has_position_kept: "has_position db r \<Longrightarrow> rows_kept db db1 \<Longrightarrow> has_position db1 r"
  unfolding has_position_def rows_kept_def by metis

section \<open>The monitor\<close>

text \<open>The rows outside \<open>ids\<close> and the owners of all rows are as in \<open>db0\<close>.\<close>

definition rows_from :: "string set \<Rightarrow> service_db \<Rightarrow> service_db \<Rightarrow> bool" where
  "rows_from ids db0 db \<longleftrightarrow> db_ok db \<and> sv_intents db = sv_intents db0 \<and>
     (\<forall>j. j \<notin> ids \<longrightarrow> dict_get j (sv_positions db) = dict_get j (sv_positions db0)) \<and>
     (\<forall>j. map_option pe_user_id (dict_get j (sv_positions db)) = map_option pe_user_id (dict_get j (sv_positions db0)))"

lemma monitor_user_rows:
  assumes "rows_from ids db0 (mn_db m)" "fst ` set ps \<subseteq> ids"
  shows "rows_from ids db0 (mn_db (fst (monitor_user api st signer a u ps m)))"
proof -
  have "db_ok (mn_db m)" using assms(1) by (simp add: rows_from_def)
  note own = monitor_user_only_own[OF this, of u ps api st signer a, unfolded only_own_def]
  have "j \<notin> fst ` set ps" if "j \<notin> ids" for j using assms(2) that by blast
  with own assms(1) show ?thesis by (simp add: rows_from_def)
qed

lemma monitor_cycle_rows:
  assumes "rows_from ids db0 (mn_db m)" "\<And>u ps. (u, ps) \<in> set g \<Longrightarrow> fst ` set ps \<subseteq> ids"
  shows "rows_from ids db0 (mn_db (fold (\<lambda>(u, ps) m. fst (monitor_user api st signer (ans u) u ps m)) g m))"
  using assms
proof (induction g arbitrary: m)
  case (Cons x g)
  obtain u ps where x: "x = (u, ps)" by force
  have "rows_from ids db0 (mn_db (fst (monitor_user api st signer (ans u) u ps m)))"
    by (rule monitor_user_rows[OF Cons.prems(1)]) (use Cons.prems(2)[of u ps] x in simp)
  note Cons.IH[OF this]
  moreover have "fst ` set qs \<subseteq> ids" if "(v, qs) \<in> set g" for v qs using Cons.prems(2)[of v qs] that by simp
  ultimately show ?case by (simp add: x)
qed simp

lemma closed_not_open:
  assumes "db_ok db" "dict_get j (sv_positions db) = Some p" "pe_is_closed p"
  shows "j \<notin> fst ` set (open_rows db)"
proof
  assume "j \<in> fst ` set (open_rows db)"
  then obtain q where q: "(j, q) \<in> set (sv_positions db)" "\<not> pe_is_closed q" by (auto simp: open_rows_def)
  moreover have "dict_ok (sv_positions db)" using assms(1) by (simp add: db_ok_def)
  ultimately have "dict_get j (sv_positions db) = Some q" by (simp add: dict_get_set)
  with assms(2,3) q(2) show False by simp
qed

lemma monitor_turn_keeps:
  assumes "db_ok (vs_db x)"
  shows "db_ok (vs_db (monitor_turn api st signer io ans x))"
    "sv_intents (vs_db (monitor_turn api st signer io ans x)) = sv_intents (vs_db x)"
    "rows_kept (vs_db x) (vs_db (monitor_turn api st signer io ans x))"
proof -
  let ?db = "vs_db x" and ?m = "\<lparr>mn_db = vs_db x, mn_asgard = vs_asgard x, mn_orders = []\<rparr>"
  let ?ids = "fst ` set (open_rows ?db)"
  have "fst ` set ps \<subseteq> ?ids" if "(u, ps) \<in> set (group_rows (open_rows ?db))" for u ps
    using group_rows_sound[OF that] by force
  then have "rows_from ?ids ?db (mn_db (fst (service_cycle api st signer io ans ?m)))"
    using monitor_cycle_rows[of ?ids ?db ?m "group_rows (open_rows ?db)"] assms
    by (auto simp: service_cycle_def rows_from_def split: sum.splits)
  then have rows: "rows_from ?ids ?db (vs_db (monitor_turn api st signer io ans x))"
    by (simp add: monitor_turn_def Let_def)
  then show "db_ok (vs_db (monitor_turn api st signer io ans x))"
    "sv_intents (vs_db (monitor_turn api st signer io ans x)) = sv_intents ?db"
    by (simp_all add: rows_from_def)
  show "rows_kept ?db (vs_db (monitor_turn api st signer io ans x))"
    unfolding rows_kept_def
  proof (intro allI impI)
    fix j p assume j: "dict_get j (sv_positions ?db) = Some p"
    let ?get = "\<lambda>j. dict_get j (sv_positions (vs_db (monitor_turn api st signer io ans x)))"
    have "map_option pe_user_id (?get j) = Some (pe_user_id p)" using rows j by (simp add: rows_from_def)
    moreover have "?get j = Some p" if "pe_is_closed p"
      using rows closed_not_open[OF assms j that] j by (simp add: rows_from_def)
    ultimately show "\<exists>q. ?get j = Some q \<and> pe_user_id q = pe_user_id p \<and> (pe_is_closed p \<longrightarrow> q = p)" by auto
  qed
qed

section \<open>The autonomous scanner\<close>

text \<open>It only adds rows.\<close>

definition grown :: "service_db \<Rightarrow> scanner_state \<Rightarrow> bool" where
  "grown db0 s \<longleftrightarrow> db_ok (ns_db s) \<and> sv_intents (ns_db s) = sv_intents db0 \<and>
     (\<forall>j p. dict_get j (sv_positions db0) = Some p \<longrightarrow> dict_get j (sv_positions (ns_db s)) = Some p)"

lemma grown_risk: "preserves (grown db0) (on_risk io f)"
  by (auto simp: preserves_def grown_def on_risk_def on_tables_def run_stmt_def db_ok_def split: sum.splits)

lemma grown_failure: "preserves (grown db0) (auto_failure managed a again u why)"
  by (simp add: auto_failure_def grown_risk)

lemma grown_insert: "preserves (grown db0) (on_tables (run_tx io (insert_position pid u d)))"
proof -
  have "grown db0 (s\<lparr>ns_db := (ns_db s)\<lparr>sv_positions := dict_put pid p (sv_positions (ns_db s))\<rparr>\<rparr>)"
    if "grown db0 s" "dict_get pid (sv_positions (ns_db s)) = None" for s p
  proof -
    have "dict_ok (sv_positions (ns_db s))" using that(1) by (simp add: grown_def db_ok_def)
    then show ?thesis using that by (auto simp: grown_def db_ok_def dict.inv_put dict.get_put)
  qed
  then show ?thesis
    by (auto simp: preserves_def on_tables_def run_tx_def insert_position_def split: sum.splits)
qed

lemma grown_opening:
  "preserves (grown db0) (open_position_for_user api st signer lts managed a u cfg asset e)"
proof -
  have opn: "preserves (grown db0) (open_for_user api st signer lts (au_opening a) u opp)" for opp
    by (simp add: preserves_def grown_def open_for_user_db)
  have bal: "preserves (grown db0) (auto_balance st signer a u)"
    by (simp add: preserves_def auto_balance_def)
  have res: "preserves (grown db0) (auto_result managed a u asset e c r)" for c r
    unfolding auto_result_def
    by (auto intro!: preserves_andthen grown_insert grown_risk grown_failure split: option.splits bool.splits)
  show ?thesis unfolding open_position_for_user_def Let_def
    by (intro preserves_catching preserves_andthen bal preserves_pure grown_failure)
      (auto intro!: preserves_andthen opn res)
qed

lemma grown_assets:
  "(\<And>asset e. preserves (grown db0) (enter asset e)) \<Longrightarrow> preserves (grown db0) (evaluate_assets mv cfg xs enter)"
  by (induction xs) (auto intro!: preserves_andthen split: option.splits entry_choice.splits)

lemma grown_user: "preserves (grown db0) (evaluate_user api st signer lts managed a mv u cfg)"
proof -
  have daily: "preserves (grown db0) (daily_limit_step managed a u)"
    by (auto simp: preserves_def daily_limit_step_def grown_def db_ok_def split: sum.splits prod.splits)
  have "preserves (grown db0) (\<lambda>s. andthen (lift_result (au_lock a)) (k s) s)" if "\<And>s v. preserves (grown db0) (k s v)" for k
    using that by (auto simp: preserves_def andthen_def split: sum.splits)
  note lock = this
  show ?thesis unfolding evaluate_user_def
    by (rule lock) (auto intro!: preserves_andthen daily grown_assets grown_opening)
qed

lemma auto_scan_grown: "db_ok db \<Longrightarrow> grown db (fst (auto_scan api st signer lts managed market io ans
    \<lparr>ns_db = db, ns_asgard = ag, ns_legs = []\<rparr>))"
proof -
  assume ok: "db_ok db"
  have "grown db (fold (\<lambda>(u, cfg) s. fst (evaluate_user api st signer lts managed (ans u) mv u cfg s)) us s)"
    if "grown db s" for mv us s
    using that by (induction us arbitrary: s) (use grown_user[unfolded preserves_def] in force)+
  moreover have "grown db \<lparr>ns_db = db, ns_asgard = ag, ns_legs = []\<rparr>" using ok by (simp add: grown_def)
  ultimately show ?thesis by (auto simp: auto_scan_def split: option.splits sum.splits)
qed

section \<open>Every service\<close>

lemma services_keep:
  assumes "services x y" "tables_ok (vs_db x)"
  shows "tables_ok (vs_db y)" "rows_kept (vs_db x) (vs_db y)"
proof -
  have ok: "db_ok (vs_db x)" using assms(2) by (simp add: tables_ok_def)
  have grown: "tables_ok (ns_db s) \<and> rows_kept (vs_db x) (ns_db s)" if "grown (vs_db x) s" for s
  proof -
    have "rows_kept (vs_db x) (ns_db s)" using that by (auto simp: grown_def rows_kept_def)
    moreover have "has_position (ns_db s) r" if "dict_get i (sv_intents (ns_db s)) = Some r" for i r
      using has_position_kept[OF _ calculation, of r] \<open>grown (vs_db x) s\<close> assms(2) that
      by (auto simp: grown_def tables_ok_def)
    ultimately show ?thesis using that by (simp add: tables_ok_def grown_def)
  qed
  have "tables_ok (vs_db y) \<and> rows_kept (vs_db x) (vs_db y)"
    using assms(1)
  proof cases
    case (monitored api st signer io ans)
    note keep = monitor_turn_keeps[OF ok, of api st signer io ans]
    have "has_position (vs_db y) r" if "dict_get i (sv_intents (vs_db y)) = Some r" for i r
      using has_position_kept[OF _ keep(3), of r] keep(2) assms(2) that monitored by (auto simp: tables_ok_def)
    with keep monitored show ?thesis by (simp add: tables_ok_def)
  next
    case (intents_scanned api st signer lts io now ians)
    let ?s = "\<lparr>ns_db = vs_db x, ns_asgard = vs_asgard x, ns_legs = []\<rparr>"
    define t where "t = fst (intent_scan api st signer lts io now ians ?s)"
    have y: "vs_db y = ns_db t" using intents_scanned by (simp add: scanner_turn_def t_def Let_def)
    show ?thesis
    proof (cases io)
      case (Inl e)
      then show ?thesis using assms(2) by (simp add: y t_def intent_scan_def)
    next
      case (Inr v)
      have okd: "db_ok (ns_db ?s)" using ok by simp
      note rows = scannable_rows[OF okd]
      have scan: "dict_get i (sv_intents (ns_db ?s)) = Some r \<and> (in_status r = Pending \<or> in_status r = Active)"
        if "(i, r) \<in> set (scannable (ns_db ?s))" for i r using that rows(2)[of i r] by simp
      have run: "t = fold (\<lambda>(i, r) s. fst (process_intent api st signer lts (ians i) now i r s)) (scannable (ns_db ?s)) ?s"
        using Inr by (simp add: t_def intent_scan_def)
      note f = scan_fold[OF okd rows(1) scan, of api st signer lts ians now, folded run]
      then have f: "db_ok (ns_db t)"
        "\<And>j. j \<notin> fst ` set (scannable (vs_db x)) \<Longrightarrow> dict_get j (sv_intents (ns_db t)) = dict_get j (sv_intents (vs_db x))"
        "\<And>pid p. dict_get pid (sv_positions (vs_db x)) = Some p \<Longrightarrow> dict_get pid (sv_positions (ns_db t)) = Some p"
        "\<And>i r. (i, r) \<in> set (scannable (vs_db x)) \<Longrightarrow> \<exists>r1. dict_get i (sv_intents (ns_db t)) = Some r1 \<and> has_position (ns_db t) r1"
        by auto
      have kept: "rows_kept (vs_db x) (ns_db t)" using f(3) by (auto simp: rows_kept_def)
      have "has_position (ns_db t) r" if "dict_get i (sv_intents (ns_db t)) = Some r" for i r
      proof (cases "i \<in> fst ` set (scannable (vs_db x))")
        case True
        with f(4) that show ?thesis by fastforce
      next
        case False
        with f(2) that assms(2) have "has_position (vs_db x) r" by (auto simp: tables_ok_def)
        then show ?thesis by (rule has_position_kept[OF _ kept])
      qed
      with f(1) kept show ?thesis by (simp add: y tables_ok_def)
    qed
  next
    case (users_scanned api st signer lts managed market io aans)
    with grown[OF auto_scan_grown[OF ok]] show ?thesis by (simp add: scanner_turn_def Let_def)
  qed
  then show "tables_ok (vs_db y)" "rows_kept (vs_db x) (vs_db y)" by simp_all
qed

lemma services_run:
  assumes "services\<^sup>*\<^sup>* x y" "tables_ok (vs_db x)"
  shows "tables_ok (vs_db y) \<and> rows_kept (vs_db x) (vs_db y)"
  using assms
  by (induction rule: rtranclp_induct) (auto dest: services_keep intro: rows_kept_trans)

section \<open>Properties\<close>

text \<open>C11: The tables stay well-formed under every interleaving of the three services: they stay keyed, an
  executed intent refers to a position of the same user, and no position loses its row or its owner.\<close>

theorem services_tables_typed:
  assumes "services\<^sup>*\<^sup>* x y" "tables_ok (vs_db x)"
  shows "tables_ok (vs_db y) \<and> (\<forall>i p. dict_get i (sv_positions (vs_db x)) = Some p \<longrightarrow>
     (\<exists>q. dict_get i (sv_positions (vs_db y)) = Some q \<and> pe_user_id q = pe_user_id p))"
  using services_run[OF assms] unfolding rows_kept_def by blast

text \<open>C12: A closed position is final: no later cycle of any service changes its row.\<close>

theorem closed_positions_final:
  assumes "services\<^sup>*\<^sup>* x y" "tables_ok (vs_db x)"
    and "dict_get i (sv_positions (vs_db x)) = Some p" "pe_is_closed p"
  shows "dict_get i (sv_positions (vs_db y)) = Some p"
  using services_run[OF assms(1,2)] assms(3,4) unfolding rows_kept_def by metis

text \<open>C25: A position that a scanner stored is closed without any call to a venue: what the scanners write has
  neither the size of the short nor the address of the long position, so an automatic exit of the row
  only closes and archives it, and both legs stay open.\<close>

theorem scanner_positions_close_without_orders:
  assumes "db_ok db" "d = intent_data n r \<or> d = auto_data asset e capital"
    and "insert_position i u d db = Inr (ms_db s)" "dict_get i (sv_history (ms_db s)) = None" "ck_tx_io a = Inr ()"
  shows "\<exists>s1 q. auto_exit api am a u i as d xd s = (s1, Inr ()) \<and> ms_trader s1 = ms_trader s \<and>
    ms_asgard s1 = ms_asgard s \<and> dict_get i (sv_positions (ms_db s1)) = Some q \<and> pe_is_closed q"
proof -
  have db: "ms_db s = db\<lparr>sv_positions := dict_put i \<lparr>pe_user_id = u, pe_data = d, pe_is_closed = False\<rparr> (sv_positions db)\<rparr>"
    using assms(3) by (simp add: insert_position_def split: if_splits)
  have "db_ok (ms_db s)" "dict_get i (sv_positions (ms_db s)) = Some \<lparr>pe_user_id = u, pe_data = d, pe_is_closed = False\<rparr>"
    using assms(1) by (simp_all add: db db_ok_def dict.inv_put dict.get_put_same)
  moreover have "\<not> truthy_v (size_of d)" "pda_of d = None"
    using assms(2) by (auto simp: size_of_def pda_of_def field_def intent_data_def auto_data_def dict_get_def)
  ultimately show ?thesis using exit_without_orders[where d = d and s = s and i = i and a = a] assms(4,5) by blast
qed

section \<open>Instances\<close>

definition wit_services :: services_state where
  "wit_services = \<lparr>vs_db = (wit_service_db wit_data)\<lparr>sv_positions :=
      [(''p1'', \<lparr>pe_user_id = ''u1'', pe_data = wit_data, pe_is_closed = True\<rparr>)]\<rparr>, vs_asgard = wit_asgard\<rparr>"

definition wit_after :: services_state where
  "wit_after = scanner_turn (auto_scan (wit_api False) wit_settings (\<lambda>_. Inr ()) wit_limits True None (Inr ())
     (\<lambda>_. wit_auto)) (monitor_turn (wit_api False) wit_settings (\<lambda>_. Inr ()) (Inr ()) (\<lambda>_. wit_user_answers) wit_services)"

lemma wit_services_run: "services\<^sup>*\<^sup>* wit_services wit_after"
  unfolding wit_after_def by (meson monitored users_scanned r_into_rtranclp rtranclp.rtrancl_into_rtrancl)

lemma wit_services_ok: "tables_ok (vs_db wit_services)"
  by (simp add: tables_ok_def wit_services_def wit_service_db_def db_ok_def dict_ok_def dict_get_def)

theorem services_tables_typed_witness: "tables_ok (vs_db wit_after)"
  using services_tables_typed[OF wit_services_run wit_services_ok] by simp

theorem closed_positions_final_witness:
  "dict_get ''p1'' (sv_positions (vs_db wit_after)) = Some \<lparr>pe_user_id = ''u1'', pe_data = wit_data, pe_is_closed = True\<rparr>"
  by (rule closed_positions_final[OF wit_services_run wit_services_ok]) (simp_all add: wit_services_def dict_get_def)

theorem scanner_positions_close_without_orders_witness:
  "\<exists>db1 s1. insert_position ''p9'' ''u1'' (intent_data ''n1'' wit_intent) (wit_service_db wit_data) = Inr db1 \<and>
     auto_exit (wit_api True) wit_am wit_check ''u1'' ''p9'' ''SOL'' (intent_data ''n1'' wit_intent)
       (exit_now 5 HEALTH_FACTOR NORMAL []) ((wit_session wit_data)\<lparr>ms_db := db1\<rparr>) = (s1, Inr ()) \<and>
     ms_trader s1 = wit_trader"
proof -
  let ?d = "intent_data ''n1'' wit_intent"
  obtain db1 where ins: "insert_position ''p9'' ''u1'' ?d (wit_service_db wit_data) = Inr db1"
    and h: "sv_history db1 = []"
    by (simp add: insert_position_def wit_service_db_def dict_get_def)
  have "insert_position ''p9'' ''u1'' ?d (wit_service_db wit_data) = Inr (ms_db ((wit_session wit_data)\<lparr>ms_db := db1\<rparr>))"
    "dict_get ''p9'' (sv_history (ms_db ((wit_session wit_data)\<lparr>ms_db := db1\<rparr>))) = None" "ck_tx_io wit_check = Inr ()"
    using ins h by (simp_all add: wit_check_def dict_get_def)
  from scanner_positions_close_without_orders[OF wit_service_db_ok disjI1[OF refl] this] ins show ?thesis
    by (simp add: wit_session_def) blast
qed

end
