(* ===== verification/OutageDetector.thy ===== *)
theory OutageDetector
  imports Models
begin

text \<open>
  Outage detection (\<open>shared/chain/outage_detector.py\<close>): the health of a chain from its checks, the
  window of failures and the callbacks. The state is a map per chain; the clock readings and the answers
  of the health checks are arguments. A call of the callbacks is traced with its chain and status; an
  exception of a callback is caught. The task of the monitoring loop is left out, its body is one turn.
\<close>

section \<open>Data\<close>

record chain_health =
  ht_status :: chain_status
  last_check :: datetime
  ht_failures :: nat
  last_success :: "datetime option"
  error_message :: "string option"
  latency_ms :: "pyfloat option"

record outage_detector =
  health_status :: "chain \<Rightarrow> chain_health"
  failure_timestamps :: "chain \<Rightarrow> datetime list"
  callback_count :: nat
  notified :: "(chain \<times> chain_status) list"

definition MAX_CONSECUTIVE_FAILURES :: nat where "MAX_CONSECUTIVE_FAILURES = 3"
definition FAILURE_WINDOW_SECONDS :: int where "FAILURE_WINDOW_SECONDS = 15"

definition outage_detector_init :: "datetime \<Rightarrow> outage_detector" where
  "outage_detector_init now =
     \<lparr>health_status = (\<lambda>_. \<lparr>ht_status = HEALTHY, last_check = now, ht_failures = 0, last_success = None,
         error_message = None, latency_ms = None\<rparr>),
      failure_timestamps = (\<lambda>_. []), callback_count = 0, notified = []\<rparr>"

definition register_callback :: "outage_detector \<Rightarrow> outage_detector" where
  "register_callback d = d\<lparr>callback_count := callback_count d + 1\<rparr>"

section \<open>Checks\<close>

definition notify_callbacks :: "chain \<Rightarrow> chain_status \<Rightarrow> outage_detector \<Rightarrow> outage_detector" where
  "notify_callbacks c st d = d\<lparr>notified := notified d @ replicate (callback_count d) (c, st)\<rparr>"

definition record_chain_success :: "datetime \<Rightarrow> chain \<Rightarrow> pyfloat \<Rightarrow> outage_detector \<Rightarrow> outage_detector" where
  "record_chain_success now c latency d =
     (let old = ht_status (health_status d c);
          d1 = d\<lparr>health_status := (health_status d)(c :=
                   \<lparr>ht_status = HEALTHY, last_check = now, ht_failures = 0, last_success = Some now,
                    error_message = None, latency_ms = Some latency\<rparr>),
                 failure_timestamps := (failure_timestamps d)(c := [])\<rparr>
      in if old = OUTAGE then notify_callbacks c HEALTHY d1 else d1)"

definition status_for :: "nat \<Rightarrow> chain_status" where
  "status_for n = (if n \<ge> MAX_CONSECUTIVE_FAILURES then OUTAGE else if n > 0 then DEGRADED else HEALTHY)"

definition record_chain_failure :: "datetime \<Rightarrow> chain \<Rightarrow> string \<Rightarrow> outage_detector \<Rightarrow> outage_detector" where
  "record_chain_failure now c err d =
     (let old = ht_status (health_status d c);
          ts = filter (\<lambda>t. t > now - FAILURE_WINDOW_SECONDS * 10 ^ 6) (failure_timestamps d c @ [now]);
          new = status_for (length ts);
          d1 = d\<lparr>health_status := (health_status d)(c :=
                   \<lparr>ht_status = new, last_check = now, ht_failures = length ts, last_success = None,
                    error_message = Some err, latency_ms = None\<rparr>),
                 failure_timestamps := (failure_timestamps d)(c := ts)\<rparr>
      in if new \<noteq> old then notify_callbacks c new d1 else d1)"

text \<open>One check: the start, the answer of the client and the clock when it is back.\<close>

definition check_chain_health ::
  "datetime \<Rightarrow> exn + bool \<Rightarrow> datetime \<Rightarrow> chain \<Rightarrow> outage_detector \<Rightarrow> outage_detector" where
  "check_chain_health start answer now c d =
     (case answer of
        Inr True \<Rightarrow> record_chain_success now c (flt (flt (of_int (now - start) / 10 ^ 6) * 1000)) d
      | Inr False \<Rightarrow> record_chain_failure now c ''Health check returned false'' d
      | Inl e \<Rightarrow> record_chain_failure now c ''error'' d)"

definition get_chain_status :: "chain \<Rightarrow> outage_detector \<Rightarrow> chain_health" where
  "get_chain_status c d = health_status d c"

definition is_healthy :: "chain \<Rightarrow> outage_detector \<Rightarrow> bool" where
  "is_healthy c d = (ht_status (health_status d c) = HEALTHY)"

definition is_outage :: "chain \<Rightarrow> outage_detector \<Rightarrow> bool" where
  "is_outage c d = (ht_status (health_status d c) = OUTAGE)"

definition outage_turn ::
  "(chain \<Rightarrow> datetime \<times> (exn + bool) \<times> datetime) \<Rightarrow> outage_detector \<Rightarrow> outage_detector" where
  "outage_turn ans d =
     fold (\<lambda>c d. case ans c of (start, a, now) \<Rightarrow> check_chain_health start a now c d) [SOLANA, ARBITRUM] d"

section \<open>Runs\<close>

text \<open>The checks of one chain: the time and whether it succeeded. The reference counts the failures since
  the last success that are less than 15 seconds old at the last check.\<close>

datatype check = Good datetime pyfloat | Bad datetime string

fun check_time :: "check \<Rightarrow> datetime" where
  "check_time (Good t l) = t"
| "check_time (Bad t e) = t"

fun check_step :: "chain \<Rightarrow> check \<Rightarrow> outage_detector \<Rightarrow> outage_detector" where
  "check_step c (Good t l) d = record_chain_success t c l d"
| "check_step c (Bad t e) d = record_chain_failure t c e d"

fun trailing_bad :: "check list \<Rightarrow> datetime list" where
  "trailing_bad [] = []"
| "trailing_bad (x # xs) = (case x of Good _ _ \<Rightarrow> [] | Bad t _ \<Rightarrow> t # trailing_bad xs)"

definition recent_failures :: "check list \<Rightarrow> datetime list" where
  "recent_failures xs =
     (case rev xs of [] \<Rightarrow> []
      | x # _ \<Rightarrow> filter (\<lambda>t. t > check_time x - 15 * 10 ^ 6) (rev (trailing_bad (rev xs))))"

text \<open>The status after a run of checks of a chain, and the statuses of all its prefixes.\<close>

definition status_after :: "check list \<Rightarrow> chain_status" where
  "status_after xs =
     (let n = length (recent_failures xs) in if n \<ge> 3 then OUTAGE else if n > 0 then DEGRADED else HEALTHY)"

definition run_checks :: "chain \<Rightarrow> check list \<Rightarrow> outage_detector \<Rightarrow> outage_detector" where
  "run_checks c xs d = fold (check_step c) xs d"

section \<open>Lemmas\<close>

lemma run_checks_snoc: "run_checks c (xs @ [x]) d = check_step c x (run_checks c xs d)"
  by (simp add: run_checks_def)

lemma notify_keeps [simp]:
  "health_status (notify_callbacks c st d) = health_status d"
  "failure_timestamps (notify_callbacks c st d) = failure_timestamps d"
  "callback_count (notify_callbacks c st d) = callback_count d"
  by (simp_all add: notify_callbacks_def)

lemma success_state [simp]:
  "failure_timestamps (record_chain_success t c l d) c = []"
  "ht_status (health_status (record_chain_success t c l d) c) = HEALTHY"
  by (simp_all add: record_chain_success_def Let_def)

lemma failure_state:
  "failure_timestamps (record_chain_failure t c e d) c =
     filter (\<lambda>x. x > t - 15 * 10 ^ 6) (failure_timestamps d c @ [t])"
  "ht_status (health_status (record_chain_failure t c e d) c) =
     status_for (length (failure_timestamps (record_chain_failure t c e d) c))"
  by (simp_all add: record_chain_failure_def Let_def FAILURE_WINDOW_SECONDS_def)

lemma recent_good [simp]: "recent_failures (xs @ [Good t l]) = []"
  by (simp add: recent_failures_def)

lemma recent_bad:
  assumes "\<And>x. x \<in> set xs \<Longrightarrow> check_time x \<le> t"
  shows "recent_failures (xs @ [Bad t e]) = filter (\<lambda>x. x > t - 15 * 10 ^ 6) (recent_failures xs @ [t])"
proof (cases xs rule: rev_cases)
  case Nil
  then show ?thesis by (simp add: recent_failures_def)
next
  case (snoc ys y)
  have "check_time y \<le> t" using assms[of y] snoc by simp
  then have "filter (\<lambda>x. x > t - 15 * 10 ^ 6) (filter (\<lambda>x. x > check_time y - 15 * 10 ^ 6) zs) =
      filter (\<lambda>x. x > t - 15 * 10 ^ 6) zs" for zs :: "datetime list"
    by (induction zs) auto
  then show ?thesis by (simp add: recent_failures_def snoc rev_filter)
qed

lemma timestamps_reference:
  assumes "sorted (map check_time xs)" "failure_timestamps d c = []"
  shows "failure_timestamps (run_checks c xs d) c = recent_failures xs"
  using assms(1)
proof (induction xs rule: rev_induct)
  case Nil
  then show ?case using assms(2) by (simp add: run_checks_def recent_failures_def)
next
  case (snoc x xs)
  have ih: "failure_timestamps (run_checks c xs d) c = recent_failures xs"
    using snoc by (simp add: sorted_append)
  show ?case
  proof (cases x)
    case (Good t l)
    then show ?thesis by (simp add: run_checks_snoc)
  next
    case (Bad t e)
    have "check_time y \<le> t" if "y \<in> set xs" for y using snoc.prems that by (simp add: sorted_append Bad)
    from recent_bad[OF this] show ?thesis by (simp add: run_checks_snoc Bad failure_state ih)
  qed
qed

lemma other_chain:
  "c' \<noteq> c \<Longrightarrow> health_status (run_checks c xs d) c' = health_status d c'"
proof (induction xs rule: rev_induct)
  case (snoc x xs)
  then show ?case
    by (cases x) (simp_all add: run_checks_snoc record_chain_success_def record_chain_failure_def Let_def)
qed (simp add: run_checks_def)

text \<open>Failures that are at least half a window apart: no third one is in the window.\<close>

lemma spaced_suffix:
  fixes ts :: "int list"
  assumes "sorted_wrt (\<lambda>a b. b + 7500000 \<le> a) ts" "\<And>x. x \<in> set ts \<Longrightarrow> x \<le> t"
  shows "length (filter (\<lambda>x. x > t - 15000000) ts) \<le> 2"
proof (cases ts)
  case (Cons a us)
  show ?thesis
  proof (cases us)
    case (Cons b vs)
    have "x \<le> t - 15000000" if "x \<in> set vs" for x
    proof -
      have "b + 7500000 \<le> a" "x + 7500000 \<le> b" "a \<le> t"
        using assms(1) assms(2)[of a] that by (simp_all add: \<open>ts = a # us\<close> Cons)
      then show ?thesis by linarith
    qed
    then have "filter (\<lambda>x. x > t - 15000000) vs = []" by (auto simp: filter_empty_conv not_less)
    then show ?thesis using \<open>ts = a # us\<close> Cons by simp
  qed (simp add: \<open>ts = a # us\<close>)
qed simp

lemma trailing_bad_sub: "trailing_bad xs = take (length (trailing_bad xs)) (map check_time xs)"
  by (induction xs) (auto split: check.splits)

section \<open>Properties\<close>

lemma run_checks_status:
  assumes "sorted (map check_time xs)" "d = outage_detector_init now"
  shows "ht_status (health_status (run_checks c xs d) c) = status_after xs \<and>
     (\<forall>c'. c' \<noteq> c \<longrightarrow> health_status (run_checks c xs d) c' = health_status d c')"
proof -
  have init: "failure_timestamps d c = []" "ht_status (health_status d c) = HEALTHY"
    by (simp_all add: assms(2) outage_detector_init_def)
  have "ht_status (health_status (run_checks c xs d) c) = status_for (length (recent_failures xs))"
  proof (cases xs rule: rev_cases)
    case Nil
    then show ?thesis using init(2) by (simp add: run_checks_def recent_failures_def status_for_def MAX_CONSECUTIVE_FAILURES_def)
  next
    case (snoc ys y)
    show ?thesis
    proof (cases y)
      case (Good t l)
      with snoc show ?thesis by (simp add: run_checks_snoc status_for_def MAX_CONSECUTIVE_FAILURES_def)
    next
      case (Bad t e)
      with snoc show ?thesis
        using timestamps_reference[OF assms(1) init(1)] by (simp add: run_checks_snoc failure_state(2))
    qed
  qed
  then show ?thesis
    using other_chain by (simp add: status_after_def status_for_def MAX_CONSECUTIVE_FAILURES_def Let_def)
qed

text \<open>After any run of checks with the clock not going back, the status of a chain is the reference one:
  an outage exactly when at least three failures since the last success are less than 15 seconds older
  than the last check, degraded with one or two, and the other chain is not touched.\<close>

theorem outage_status_reference:
  assumes "sorted (map check_time xs)" "d = outage_detector_init now"
  shows "ht_status (health_status (run_checks c xs d) c) = status_after xs \<and>
     (\<forall>c'. c' \<noteq> c \<longrightarrow> health_status (run_checks c xs d) c' = health_status d c')"
  using assms by (rule run_checks_status)

text \<open>A chain that fails for good is not reported as an outage when its failed checks are at least 7.5
  seconds apart, as they are when a check waits for a timeout: at most two fall into the window.\<close>

theorem slow_failures_never_outage:
  assumes "sorted_wrt (\<lambda>x y. check_time x + 7500000 \<le> check_time y) xs" "d = outage_detector_init now"
  shows "\<not> is_outage c (run_checks c xs d)"
proof -
  have "sorted (map check_time xs)"
    using assms(1) by (simp add: sorted_map) (rule sorted_wrt_mono_rel[OF _ assms(1)], simp)
  note ts = timestamps_reference[OF this, of d c]
  have st: "ht_status (health_status (run_checks c xs d) c) = status_after xs"
    using run_checks_status[OF \<open>sorted (map check_time xs)\<close> assms(2)] by simp
  have "length (recent_failures xs) \<le> 2"
  proof (cases xs rule: rev_cases)
    case Nil
    then show ?thesis by (simp add: recent_failures_def)
  next
    case (snoc ys y)
    let ?ts = "trailing_bad (rev xs)"
    have "sorted_wrt (\<lambda>a b. b + 7500000 \<le> a) (map check_time (rev xs))"
      using assms(1) by (simp add: sorted_wrt_map sorted_wrt_rev)
    then have "sorted_wrt (\<lambda>a b. b + 7500000 \<le> a) ?ts"
      using trailing_bad_sub[of "rev xs"] by (metis sorted_wrt_take)
    moreover have "x \<le> check_time y" if "x \<in> set ?ts" for x
    proof -
      have "x \<in> set (map check_time (rev xs))" using that trailing_bad_sub[of "rev xs"] by (metis in_set_takeD)
      then show ?thesis using assms(1) by (auto simp: snoc sorted_wrt_append)
    qed
    ultimately have "length (filter (\<lambda>x. x > check_time y - 15000000) ?ts) \<le> 2" by (rule spaced_suffix)
    then show ?thesis by (simp add: recent_failures_def snoc rev_filter[symmetric])
  qed
  then show ?thesis by (simp add: is_outage_def st status_after_def Let_def)
qed

section \<open>Instances\<close>

theorem outage_status_reference_witness:
  "ht_status (health_status (run_checks SOLANA
      [Bad 0 ''e'', Bad 5000000 ''e'', Good 6000000 1, Bad 7000000 ''e'', Bad 9000000 ''e'', Bad 12000000 ''e'']
      (outage_detector_init 0)) SOLANA) = OUTAGE"
  by (subst outage_status_reference[OF _ refl, THEN conjunct1])
    (simp_all add: status_after_def recent_failures_def)

theorem slow_failures_never_outage_witness:
  "\<not> is_outage ARBITRUM (run_checks ARBITRUM
      [Bad 0 ''timeout'', Bad 10000000 ''timeout'', Bad 20000000 ''timeout'', Bad 30000000 ''timeout'']
      (outage_detector_init 0))"
  by (rule slow_failures_never_outage[OF _ refl]) simp

end
