(* ===== verification/TransactionValidator.thy ===== *)
theory TransactionValidator
  imports Json
begin

text \<open>
  The transaction validator (\<open>shared/security/transaction_validator.py\<close>): the allow-lists of
  programs and contracts, the checks of domains, actions and withdrawals, and the batch. The result keeps
  the programs it names; other reasons are abbreviated. The sets are Isabelle sets, their listing has
  no order.
\<close>

section \<open>Data\<close>

datatype validation_result =
    VALID | INVALID_PROGRAM | INVALID_WITHDRAWAL | INVALID_SIGNATURE | INVALID_CHAIN_ID | INVALID_DOMAIN
  | UNKNOWN_TRANSACTION

record tx_validation =
  tv_valid :: bool
  tv_result :: validation_result
  tv_reason :: "string option"
  programs_checked :: "string list"
  rejected_programs :: "string list"

record tx_validator =
  allowed_solana_programs :: "string set"
  allowed_hyperliquid_contracts :: "string set"
  authorized_withdrawal_solana :: "string option"
  authorized_withdrawal_hyperliquid :: "string option"
  arbitrum_chain_id :: int

definition DEFAULT_SOLANA_PROGRAMS :: "string list" where
  "DEFAULT_SOLANA_PROGRAMS =
     [''MFv2hWf31Z9kbCa1snEPYcvnvbsWBcWAjjaTzMX2Q9'', ''KLend2g3cP87fffoy8q1mQqGKjrxFtd9BKE1rM5cCp'',
      ''So1endDqUFYhgUNLA3P8wDxzDEaF1ZpCtiE2YfLJ1'', ''dRiftyHA39MWEi3m9aunc5MzRF1JYuBsbn6VPcn33UH'',
      ''AsgardXXXXXXXXXXXXXXXXXXXXXXXXXXXXXXXXXXXXXXX'']"

definition DEFAULT_HYPERLIQUID_CONTRACTS :: "string list" where
  "DEFAULT_HYPERLIQUID_CONTRACTS = [''0x0000000000000000000000000000000000000000'']"

definition ARBITRUM_CHAIN_ID :: int where "ARBITRUM_CHAIN_ID = 42161"

text \<open>\<open>xs or default\<close> on a list that may be missing.\<close>

definition or_list :: "'a list option \<Rightarrow> 'a list \<Rightarrow> 'a list" where
  "or_list x d = (case x of None \<Rightarrow> d | Some l \<Rightarrow> if l = [] then d else l)"

definition make_validator ::
  "string list option \<Rightarrow> string list option \<Rightarrow> string option \<Rightarrow> string option \<Rightarrow> int \<Rightarrow> tx_validator" where
  "make_validator ps cs sol hl cid =
     \<lparr>allowed_solana_programs = set (or_list ps DEFAULT_SOLANA_PROGRAMS),
      allowed_hyperliquid_contracts = set (or_list cs DEFAULT_HYPERLIQUID_CONTRACTS),
      authorized_withdrawal_solana = sol, authorized_withdrawal_hyperliquid = hl, arbitrum_chain_id = cid\<rparr>"

definition accepted_tx :: "string option \<Rightarrow> string list \<Rightarrow> tx_validation" where
  "accepted_tx why ps = \<lparr>tv_valid = True, tv_result = VALID, tv_reason = why, programs_checked = ps,
     rejected_programs = []\<rparr>"

definition rejected_tx :: "validation_result \<Rightarrow> string \<Rightarrow> string list \<Rightarrow> string list \<Rightarrow> tx_validation" where
  "rejected_tx r why ps rej = \<lparr>tv_valid = False, tv_result = r, tv_reason = Some why, programs_checked = ps,
     rejected_programs = rej\<rparr>"

section \<open>Solana\<close>

definition validate_solana_program :: "tx_validator \<Rightarrow> string \<Rightarrow> bool" where
  "validate_solana_program v p = (p \<in> allowed_solana_programs v)"

definition validate_solana_programs :: "tx_validator \<Rightarrow> string list \<Rightarrow> tx_validation" where
  "validate_solana_programs v ps =
     (let rejected = filter (\<lambda>p. \<not> validate_solana_program v p) ps
      in if rejected \<noteq> [] then rejected_tx INVALID_PROGRAM ''Unknown programs'' ps rejected
         else accepted_tx None ps)"

definition validate_solana_withdrawal :: "tx_validator \<Rightarrow> string \<Rightarrow> tx_validation" where
  "validate_solana_withdrawal v dest =
     (case authorized_withdrawal_solana v of
        None \<Rightarrow> rejected_tx INVALID_WITHDRAWAL ''No authorized withdrawal address configured'' [] []
      | Some w \<Rightarrow>
          if dest \<noteq> w then rejected_tx INVALID_WITHDRAWAL ''Unauthorized withdrawal destination'' [] []
          else accepted_tx (Some ''Withdrawal to authorized address'') [])"

section \<open>Hyperliquid\<close>

definition validate_hyperliquid_domain :: "tx_validator \<Rightarrow> jdata \<Rightarrow> tx_validation" where
  "validate_hyperliquid_domain v d =
     (if field d ''chainId'' NullV \<noteq> NumV (of_int (arbitrum_chain_id v))
      then rejected_tx INVALID_CHAIN_ID ''Invalid chain ID'' [] []
      else if field d ''name'' NullV \<noteq> TextV ''Hyperliquid''
      then rejected_tx INVALID_DOMAIN ''Invalid domain name'' [] []
      else accepted_tx (Some ''EIP-712 domain valid'') [])"

definition validate_hyperliquid_withdrawal :: "tx_validator \<Rightarrow> string \<Rightarrow> tx_validation" where
  "validate_hyperliquid_withdrawal v dest =
     (case authorized_withdrawal_hyperliquid v of
        None \<Rightarrow> rejected_tx INVALID_WITHDRAWAL ''No authorized withdrawal address configured'' [] []
      | Some w \<Rightarrow>
          if map lower dest \<noteq> map lower w
          then rejected_tx INVALID_WITHDRAWAL ''Unauthorized withdrawal destination'' [] []
          else accepted_tx (Some ''Withdrawal to authorized address'') [])"

text \<open>A destination that is not a text has no \<open>lower\<close>.\<close>

definition validate_hyperliquid_action :: "tx_validator \<Rightarrow> string \<Rightarrow> jdata \<Rightarrow> exn + tx_validation" where
  "validate_hyperliquid_action v action ps =
     (if action \<notin> {''order'', ''updateLeverage'', ''cancel'', ''withdraw''}
      then Inr (rejected_tx UNKNOWN_TRANSACTION ''Unknown action type'' [] [])
      else if action = ''withdraw'' \<and> truthy_v (field ps ''destination'' NullV)
      then (case field ps ''destination'' NullV of
              TextV dest \<Rightarrow> Inr (validate_hyperliquid_withdrawal v dest)
            | _ \<Rightarrow> (if authorized_withdrawal_hyperliquid v = None
                    then Inr (rejected_tx INVALID_WITHDRAWAL ''No authorized withdrawal address configured'' [] [])
                    else Inl (AttributeError ''lower'')))
      else Inr (accepted_tx (Some ''Action type valid'') []))"

section \<open>Changing the allow-lists\<close>

definition add_allowed_solana_program :: "string \<Rightarrow> tx_validator \<Rightarrow> tx_validator" where
  "add_allowed_solana_program p v = v\<lparr>allowed_solana_programs := insert p (allowed_solana_programs v)\<rparr>"

definition remove_allowed_solana_program :: "string \<Rightarrow> tx_validator \<Rightarrow> tx_validator" where
  "remove_allowed_solana_program p v = v\<lparr>allowed_solana_programs := allowed_solana_programs v - {p}\<rparr>"

definition add_allowed_hyperliquid_contract :: "string \<Rightarrow> tx_validator \<Rightarrow> tx_validator" where
  "add_allowed_hyperliquid_contract c v =
     v\<lparr>allowed_hyperliquid_contracts := insert c (allowed_hyperliquid_contracts v)\<rparr>"

definition get_allowed_programs_summary :: "tx_validator \<Rightarrow> (string \<times> string set) list" where
  "get_allowed_programs_summary v =
     [(''solana'', allowed_solana_programs v), (''hyperliquid'', allowed_hyperliquid_contracts v)]"

section \<open>Batches\<close>

record batch_tx =
  bx_chain :: "string option"
  bx_program_ids :: "string list option"
  bx_domain :: "jdata option"

definition validate_one :: "tx_validator \<Rightarrow> batch_tx \<Rightarrow> tx_validation" where
  "validate_one v t =
     (if bx_chain t = Some ''solana''
      then validate_solana_programs v (case bx_program_ids t of None \<Rightarrow> [] | Some ps \<Rightarrow> ps)
      else if bx_chain t = Some ''hyperliquid''
      then validate_hyperliquid_domain v (case bx_domain t of None \<Rightarrow> [] | Some d \<Rightarrow> d)
      else rejected_tx UNKNOWN_TRANSACTION ''Unknown chain'' [] [])"

definition validate_transaction_batch :: "tx_validator \<Rightarrow> batch_tx list \<Rightarrow> tx_validation list" where
  "validate_transaction_batch v ts = map (validate_one v) ts"

section \<open>Histories of the allow-list\<close>

datatype list_op = AddProgram string | RemoveProgram string | AddContract string

fun list_step :: "list_op \<Rightarrow> tx_validator \<Rightarrow> tx_validator" where
  "list_step (AddProgram p) v = add_allowed_solana_program p v"
| "list_step (RemoveProgram p) v = remove_allowed_solana_program p v"
| "list_step (AddContract c) v = add_allowed_hyperliquid_contract c v"

text \<open>The last operation on a program decides, read from the end.\<close>

fun allowed_by :: "bool \<Rightarrow> string \<Rightarrow> list_op list \<Rightarrow> bool" where
  "allowed_by b p [] = b"
| "allowed_by b p (AddProgram q # ops) = (if q = p then True else allowed_by b p ops)"
| "allowed_by b p (RemoveProgram q # ops) = (if q = p then False else allowed_by b p ops)"
| "allowed_by b p (AddContract c # ops) = allowed_by b p ops"

lemma list_steps_keep:
  "arbitrum_chain_id (fold list_step ops v) = arbitrum_chain_id v \<and>
   authorized_withdrawal_hyperliquid (fold list_step ops v) = authorized_withdrawal_hyperliquid v"
proof (induction ops arbitrary: v)
  case (Cons a ops)
  then show ?case
    by (cases a) (simp_all add: add_allowed_solana_program_def remove_allowed_solana_program_def
        add_allowed_hyperliquid_contract_def)
qed simp

lemma allowed_by_history:
  "p \<in> allowed_solana_programs (fold list_step ops v) \<longleftrightarrow> allowed_by (p \<in> allowed_solana_programs v) p (rev ops)"
proof (induction ops rule: rev_induct)
  case (snoc a ops)
  then show ?case
    by (cases a) (auto simp: add_allowed_solana_program_def remove_allowed_solana_program_def
        add_allowed_hyperliquid_contract_def)
qed simp

lemma solana_valid_iff: "tv_valid (validate_solana_programs v ps) \<longleftrightarrow> set ps \<subseteq> allowed_solana_programs v"
  by (auto simp: validate_solana_programs_def validate_solana_program_def Let_def accepted_tx_def rejected_tx_def
      filter_empty_conv)

section \<open>Properties\<close>

text \<open>What a batch lets pass, after any history of the allow-lists: a Solana transaction exactly when
  the last operation on each of its programs allows it, a Hyperliquid transaction exactly when its domain
  has the chain and the name, and nothing else. The actions, their destinations and the contracts of a
  transaction do not matter.\<close>

theorem batch_valid_exact:
  "map tv_valid (validate_transaction_batch (fold list_step ops v) ts) =
   map (\<lambda>t.
     (bx_chain t = Some ''solana'' \<and>
        (\<forall>p \<in> set (case bx_program_ids t of None \<Rightarrow> [] | Some ps \<Rightarrow> ps).
           allowed_by (p \<in> allowed_solana_programs v) p (rev ops))) \<or>
     (bx_chain t = Some ''hyperliquid'' \<and>
        (\<exists>d. bx_domain t = Some d \<and> dict_get ''chainId'' d = Some (NumV (of_int (arbitrum_chain_id v))) \<and>
           dict_get ''name'' d = Some (TextV ''Hyperliquid'')))) ts"
proof -
  have "tv_valid (validate_hyperliquid_domain w d) \<longleftrightarrow>
      dict_get ''chainId'' d = Some (NumV (of_int (arbitrum_chain_id w))) \<and> dict_get ''name'' d = Some (TextV ''Hyperliquid'')"
    for w d
    by (auto simp: validate_hyperliquid_domain_def field_def accepted_tx_def rejected_tx_def split: option.splits)
  then show ?thesis
    by (auto simp: validate_transaction_batch_def validate_one_def solana_valid_iff subset_iff allowed_by_history
        list_steps_keep rejected_tx_def dict_get_def split: option.splits)
qed

text \<open>A withdrawal action passes exactly when it names no destination or, up to case, the authorized
  one: leaving the destination out gets around the check, even when no address is authorized.\<close>

theorem withdraw_action_exact:
  assumes "validate_hyperliquid_action v ''withdraw'' ps = Inr r"
  shows "tv_valid r \<longleftrightarrow> \<not> truthy_v (field ps ''destination'' NullV) \<or>
     (\<exists>dest w. field ps ''destination'' NullV = TextV dest \<and> authorized_withdrawal_hyperliquid v = Some w \<and>
        map lower dest = map lower w)"
  using assms
  by (auto simp: validate_hyperliquid_action_def validate_hyperliquid_withdrawal_def accepted_tx_def rejected_tx_def
      split: if_splits jsv.splits option.splits)

section \<open>Instances\<close>

definition wit_validator :: tx_validator where
  "wit_validator = make_validator (Some [''Prog1'']) None None None ARBITRUM_CHAIN_ID"

theorem batch_valid_exact_witness:
  "map tv_valid (validate_transaction_batch (fold list_step [AddProgram ''Prog2'', RemoveProgram ''Prog1''] wit_validator)
      [\<lparr>bx_chain = Some ''solana'', bx_program_ids = Some [''Prog2''], bx_domain = None\<rparr>,
       \<lparr>bx_chain = Some ''solana'', bx_program_ids = Some [''Prog2'', ''Prog1''], bx_domain = None\<rparr>]) = [True, False]"
  unfolding batch_valid_exact by simp

theorem withdraw_action_exact_witness:
  "\<exists>r. validate_hyperliquid_action wit_validator ''withdraw'' [] = Inr r \<and> tv_valid r"
proof -
  obtain r where r: "validate_hyperliquid_action wit_validator ''withdraw'' [] = Inr r"
    by (simp add: validate_hyperliquid_action_def field_def dict_get_def)
  with withdraw_action_exact[OF r] show ?thesis by (simp add: field_def dict_get_def)
qed

end
