(* ===== verification/Encryption.thy ===== *)
theory Encryption
  imports Prelude "HOL-Library.Word"
begin

text \<open>
  Field and key encryption (\<open>shared/security/encryption.py\<close>): the key hierarchy, the stored formats and
  the manager of a session. Bytes are \<open>8 word\<close>s. SHA-256 and HMAC of the standard library are
  written out; AES-GCM and Argon2id of the packages \<open>cryptography\<close> and \<open>argon2\<close> are a
  parameter, with the documented laws of the former as the hypothesis \<open>aead_ok\<close>. Random bytes are
  arguments. A text is its UTF-8 bytes: encoding keeps them, decoding checks them. Overwriting the keys
  in memory is left out.
\<close>

unbundle bit_operations_syntax

type_synonym byte = "8 word"

datatype crypt_error = EncryptionError string | DecryptionError string | TamperDetectedError string

section \<open>SHA-256\<close>

definition sha_k :: "32 word list" where
  "sha_k =
    [1116352408, 1899447441, 3049323471, 3921009573, 961987163, 1508970993, 2453635748, 2870763221,
     3624381080, 310598401, 607225278, 1426881987, 1925078388, 2162078206, 2614888103, 3248222580,
     3835390401, 4022224774, 264347078, 604807628, 770255983, 1249150122, 1555081692, 1996064986,
     2554220882, 2821834349, 2952996808, 3210313671, 3336571891, 3584528711, 113926993, 338241895,
     666307205, 773529912, 1294757372, 1396182291, 1695183700, 1986661051, 2177026350, 2456956037,
     2730485921, 2820302411, 3259730800, 3345764771, 3516065817, 3600352804, 4094571909, 275423344,
     430227734, 506948616, 659060556, 883997877, 958139571, 1322822218, 1537002063, 1747873779,
     1955562222, 2024104815, 2227730452, 2361852424, 2428436474, 2756734187, 3204031479, 3329325298]"

type_synonym sha_state = "32 word \<times> 32 word \<times> 32 word \<times> 32 word \<times> 32 word \<times> 32 word \<times> 32 word \<times> 32 word"

definition sha_init :: sha_state where
  "sha_init = (1779033703, 3144134277, 1013904242, 2773480762, 1359893119, 2600822924, 528734635, 1541459225)"

definition word_bytes :: "nat \<Rightarrow> 'a::len word \<Rightarrow> byte list" where
  "word_bytes k w = map (\<lambda>i. ucast (drop_bit (8 * i) w)) (rev [0..<k])"

definition word_be :: "byte list \<Rightarrow> 32 word" where
  "word_be bs = fold (\<lambda>b w. push_bit 8 w OR ucast b) bs 0"

definition sha_pad :: "byte list \<Rightarrow> byte list" where
  "sha_pad m = m @ [0x80] @ replicate ((119 - length m mod 64) mod 64) 0 @ word_bytes 8 (of_nat (8 * length m) :: 64 word)"

function chunks :: "nat \<Rightarrow> 'a list \<Rightarrow> 'a list list" where
  "chunks n xs = (if xs = [] \<or> n = 0 then [] else take n xs # chunks n (drop n xs))"
  by pat_completeness auto
termination by (relation "measure (length \<circ> snd)") auto

declare chunks.simps [simp del]

definition sha_s0 :: "32 word \<Rightarrow> 32 word" where
  "sha_s0 x = word_rotr 7 x XOR word_rotr 18 x XOR drop_bit 3 x"

definition sha_s1 :: "32 word \<Rightarrow> 32 word" where
  "sha_s1 x = word_rotr 17 x XOR word_rotr 19 x XOR drop_bit 10 x"

text \<open>The schedule, newest word first.\<close>

fun sha_extend :: "nat \<Rightarrow> 32 word list \<Rightarrow> 32 word list" where
  "sha_extend 0 ws = ws"
| "sha_extend (Suc n) ws = sha_extend n ((sha_s1 (ws ! 1) + ws ! 6 + sha_s0 (ws ! 14) + ws ! 15) # ws)"

definition sha_schedule :: "byte list \<Rightarrow> 32 word list" where
  "sha_schedule block = rev (sha_extend 48 (rev (map word_be (chunks 4 block))))"

fun sha_round :: "32 word \<times> 32 word \<Rightarrow> sha_state \<Rightarrow> sha_state" where
  "sha_round (k, w) (a, b, c, d, e, f, g, h) =
     (let t1 = h + (word_rotr 6 e XOR word_rotr 11 e XOR word_rotr 25 e) + ((e AND f) XOR (NOT e AND g)) + k + w;
          t2 = (word_rotr 2 a XOR word_rotr 13 a XOR word_rotr 22 a) + ((a AND b) XOR (a AND c) XOR (b AND c))
      in (t1 + t2, a, b, c, d + t1, e, f, g))"

fun sha_add :: "sha_state \<Rightarrow> sha_state \<Rightarrow> sha_state" where
  "sha_add (a, b, c, d, e, f, g, h) (a', b', c', d', e', f', g', h') =
     (a + a', b + b', c + c', d + d', e + e', f + f', g + g', h + h')"

definition sha_block :: "byte list \<Rightarrow> sha_state \<Rightarrow> sha_state" where
  "sha_block block st = sha_add st (fold sha_round (zip sha_k (sha_schedule block)) st)"

fun sha_digest :: "sha_state \<Rightarrow> byte list" where
  "sha_digest (a, b, c, d, e, f, g, h) = concat (map (word_bytes 4) [a, b, c, d, e, f, g, h])"

definition sha256 :: "byte list \<Rightarrow> byte list" where
  "sha256 m = sha_digest (fold sha_block (chunks 64 (sha_pad m)) sha_init)"

definition hmac_sha256 :: "byte list \<Rightarrow> byte list \<Rightarrow> byte list" where
  "hmac_sha256 key m =
     (let k = (if length key > 64 then sha256 key else key);
          k64 = k @ replicate (64 - length k) 0
      in sha256 (map (\<lambda>b. b XOR 0x5c) k64 @ sha256 (map (\<lambda>b. b XOR 0x36) k64 @ m)))"

section \<open>UTF-8\<close>

text \<open>Decoding accepts the shortest forms only, no surrogates and nothing above U+10FFFF.\<close>

definition cont :: "nat \<Rightarrow> bool" where "cont b \<longleftrightarrow> 128 \<le> b \<and> b < 192"

fun utf8_valid :: "nat list \<Rightarrow> bool" where
  "utf8_valid [] = True"
| "utf8_valid (a # bs) =
     (if a < 128 then utf8_valid bs
      else if 194 \<le> a \<and> a < 224
      then (case bs of b # cs \<Rightarrow> cont b \<and> utf8_valid cs | _ \<Rightarrow> False)
      else if 224 \<le> a \<and> a < 240
      then (case bs of b # c # cs \<Rightarrow> cont b \<and> cont c \<and> (a = 224 \<longrightarrow> 160 \<le> b) \<and> (a = 237 \<longrightarrow> b < 160) \<and> utf8_valid cs
            | _ \<Rightarrow> False)
      else if 240 \<le> a \<and> a < 245
      then (case bs of b # c # d # cs \<Rightarrow> cont b \<and> cont c \<and> cont d \<and> (a = 240 \<longrightarrow> 144 \<le> b) \<and> (a = 244 \<longrightarrow> b < 144)
              \<and> utf8_valid cs
            | _ \<Rightarrow> False)
      else False)"

definition is_text :: "byte list \<Rightarrow> bool" where
  "is_text bs = utf8_valid (map unat bs)"

section \<open>Stored formats\<close>

definition AES_KEY_SIZE :: nat where "AES_KEY_SIZE = 32"
definition AES_NONCE_SIZE :: nat where "AES_NONCE_SIZE = 12"
definition HMAC_SIZE :: nat where "HMAC_SIZE = 32"
definition SALT_SIZE :: nat where "SALT_SIZE = 32"
definition DEK_SIZE :: nat where "DEK_SIZE = 32"

record encrypted_field =
  ef_salt :: "byte list"
  ef_nonce :: "byte list"
  ef_ciphertext :: "byte list"
  ef_hmac :: "byte list"

text \<open>Python's \<open>data[i:-j]\<close> and \<open>data[-j:]\<close> for \<open>0 < j\<close> at most the length.\<close>

definition middle :: "nat \<Rightarrow> nat \<Rightarrow> 'a list \<Rightarrow> 'a list" where
  "middle i j xs = drop i (take (length xs - j) xs)"

definition suffix_of :: "nat \<Rightarrow> 'a list \<Rightarrow> 'a list" where
  "suffix_of j xs = drop (length xs - j) xs"

definition to_bytes :: "encrypted_field \<Rightarrow> byte list" where
  "to_bytes f = ef_salt f @ ef_nonce f @ ef_ciphertext f @ ef_hmac f"

definition from_bytes :: "byte list \<Rightarrow> crypt_error + encrypted_field" where
  "from_bytes data =
     (if length data < SALT_SIZE + AES_NONCE_SIZE + HMAC_SIZE
      then Inl (DecryptionError ''Invalid encrypted field: too short'')
      else Inr \<lparr>ef_salt = take SALT_SIZE data, ef_nonce = take AES_NONCE_SIZE (drop SALT_SIZE data),
             ef_ciphertext = middle (SALT_SIZE + AES_NONCE_SIZE) HMAC_SIZE data,
             ef_hmac = suffix_of HMAC_SIZE data\<rparr>)"

section \<open>External primitives\<close>

record crypto =
  aead_encrypt :: "byte list \<Rightarrow> byte list \<Rightarrow> byte list \<Rightarrow> exn + byte list"
  aead_decrypt :: "byte list \<Rightarrow> byte list \<Rightarrow> byte list \<Rightarrow> exn + byte list"
  argon2id :: "byte list \<Rightarrow> byte list \<Rightarrow> exn + byte list"

text \<open>What AES-GCM promises for keys of 32 and nonces of 12 bytes: it encrypts into the length of the
  plaintext and a tag of 16 bytes, and it decrypts exactly what it encrypted. (The package refuses
  plaintexts of two gigabytes and more, which are out of the model.)\<close>

definition aead_ok :: "crypto \<Rightarrow> bool" where
  "aead_ok c \<longleftrightarrow> (\<forall>k n. length k = 32 \<longrightarrow> length n = 12 \<longrightarrow>
     (\<forall>p. \<exists>x. aead_encrypt c k n p = Inr x \<and> length x = length p + 16) \<and>
     (\<forall>p x. aead_decrypt c k n x = Inr p \<longleftrightarrow> aead_encrypt c k n p = Inr x))"

text \<open>What Argon2id promises: a key of the length that was asked for.\<close>

definition kdf_ok :: "crypto \<Rightarrow> bool" where
  "kdf_ok c \<longleftrightarrow> (\<forall>p s k. argon2id c p s = Inr k \<longrightarrow> length k = 32)"

definition derive_kek :: "crypto \<Rightarrow> byte list \<Rightarrow> byte list \<Rightarrow> crypt_error + byte list" where
  "derive_kek c password salt =
     (if length salt \<noteq> SALT_SIZE then Inl (EncryptionError ''Salt must be 32 bytes'')
      else case argon2id c password salt of
             Inl e \<Rightarrow> Inl (EncryptionError ''Argon2id derivation failed'')
           | Inr k \<Rightarrow> Inr k)"

definition derive_hmac_key :: "byte list \<Rightarrow> byte list" where
  "derive_hmac_key dek = sha256 (map of_char ''hmac-key:'' @ dek)"

section \<open>Fields\<close>

definition encrypt_field :: "crypto \<Rightarrow> byte list \<Rightarrow> byte list \<Rightarrow> byte list \<Rightarrow> crypt_error + byte list" where
  "encrypt_field c nonce plaintext dek =
     (if length dek \<noteq> DEK_SIZE then Inl (EncryptionError ''DEK must be 32 bytes'')
      else case aead_encrypt c dek nonce plaintext of
             Inl e \<Rightarrow> Inl (EncryptionError ''Field encryption failed'')
           | Inr x \<Rightarrow> Inr (nonce @ x @ hmac_sha256 (derive_hmac_key dek) x))"

definition decrypt_field :: "crypto \<Rightarrow> byte list \<Rightarrow> byte list \<Rightarrow> crypt_error + byte list" where
  "decrypt_field c encrypted dek =
     (if length dek \<noteq> DEK_SIZE then Inl (DecryptionError ''DEK must be 32 bytes'')
      else if length encrypted < AES_NONCE_SIZE + HMAC_SIZE + 1
      then Inl (DecryptionError ''Invalid encrypted field: too short'')
      else
        let nonce = take AES_NONCE_SIZE encrypted; mac = suffix_of HMAC_SIZE encrypted;
            x = middle AES_NONCE_SIZE HMAC_SIZE encrypted
        in if mac \<noteq> hmac_sha256 (derive_hmac_key dek) x
           then Inl (TamperDetectedError ''HMAC verification failed'')
           else case aead_decrypt c dek nonce x of
                  Inl e \<Rightarrow> Inl (DecryptionError ''Field decryption failed'')
                | Inr p \<Rightarrow> if is_text p then Inr p else Inl (DecryptionError ''Field decryption failed''))"

section \<open>The data key\<close>

definition encrypt_dek ::
  "crypto \<Rightarrow> byte list \<Rightarrow> byte list \<Rightarrow> byte list \<Rightarrow> byte list \<Rightarrow> crypt_error + byte list" where
  "encrypt_dek c nonce dek kek salt =
     (if length dek \<noteq> DEK_SIZE then Inl (EncryptionError ''DEK must be 32 bytes'')
      else if length kek \<noteq> AES_KEY_SIZE then Inl (EncryptionError ''KEK must be 32 bytes'')
      else if length salt \<noteq> SALT_SIZE then Inl (EncryptionError ''Salt must be 32 bytes'')
      else case aead_encrypt c kek nonce dek of
             Inl e \<Rightarrow> Inl (EncryptionError ''DEK encryption failed'')
           | Inr x \<Rightarrow> Inr (salt @ nonce @ x @ hmac_sha256 (derive_hmac_key kek) x))"

definition decrypt_dek :: "crypto \<Rightarrow> byte list \<Rightarrow> byte list \<Rightarrow> crypt_error + byte list" where
  "decrypt_dek c encrypted kek =
     (if length kek \<noteq> AES_KEY_SIZE then Inl (DecryptionError ''KEK must be 32 bytes'')
      else if length encrypted < SALT_SIZE + AES_NONCE_SIZE + HMAC_SIZE + 1
      then Inl (DecryptionError ''Invalid encrypted DEK: too short'')
      else
        let nonce = take AES_NONCE_SIZE (drop SALT_SIZE encrypted); mac = suffix_of HMAC_SIZE encrypted;
            x = middle (SALT_SIZE + AES_NONCE_SIZE) HMAC_SIZE encrypted
        in if mac \<noteq> hmac_sha256 (derive_hmac_key kek) x
           then Inl (TamperDetectedError ''DEK HMAC verification failed'')
           else case aead_decrypt c kek nonce x of
                  Inl e \<Rightarrow> Inl (DecryptionError ''DEK decryption failed'')
                | Inr dek \<Rightarrow>
                    if length dek \<noteq> DEK_SIZE then Inl (DecryptionError ''DEK decryption failed'') else Inr dek)"

text \<open>The random bytes of the set-up: the salt, the key and the nonce.\<close>

definition setup_encryption ::
  "crypto \<Rightarrow> byte list \<Rightarrow> byte list \<Rightarrow> byte list \<Rightarrow> byte list \<Rightarrow> crypt_error + (byte list \<times> byte list)" where
  "setup_encryption c salt dek nonce password =
     (case derive_kek c password salt of
        Inl e \<Rightarrow> Inl e
      | Inr kek \<Rightarrow>
          (case encrypt_dek c nonce dek kek salt of Inl e \<Rightarrow> Inl e | Inr x \<Rightarrow> Inr (x, salt)))"

definition unlock_encryption ::
  "crypto \<Rightarrow> byte list \<Rightarrow> byte list \<Rightarrow> byte list \<Rightarrow> crypt_error + byte list" where
  "unlock_encryption c password encrypted salt =
     (case derive_kek c password salt of Inl e \<Rightarrow> Inl e | Inr kek \<Rightarrow> decrypt_dek c encrypted kek)"

section \<open>The manager of a session\<close>

type_synonym encryption_manager = "byte list option"

definition is_unlocked :: "encryption_manager \<Rightarrow> bool" where
  "is_unlocked m = (m \<noteq> None)"

definition manager_dek :: "encryption_manager \<Rightarrow> crypt_error + byte list" where
  "manager_dek m = (case m of None \<Rightarrow> Inl (EncryptionError ''Encryption not unlocked'') | Some d \<Rightarrow> Inr d)"

definition manager_unlock ::
  "crypto \<Rightarrow> byte list \<Rightarrow> byte list \<Rightarrow> byte list \<Rightarrow> encryption_manager \<Rightarrow> encryption_manager \<times> (crypt_error + unit)" where
  "manager_unlock c password encrypted salt m =
     (case unlock_encryption c password encrypted salt of Inl e \<Rightarrow> (m, Inl e) | Inr d \<Rightarrow> (Some d, Inr ()))"

definition unlock_with_dek ::
  "crypto \<Rightarrow> byte list \<Rightarrow> byte list \<Rightarrow> encryption_manager \<Rightarrow> encryption_manager \<times> (crypt_error + unit)" where
  "unlock_with_dek c encrypted kek m =
     (case decrypt_dek c encrypted kek of Inl e \<Rightarrow> (m, Inl e) | Inr d \<Rightarrow> (Some d, Inr ()))"

definition manager_lock :: "encryption_manager \<Rightarrow> encryption_manager" where
  "manager_lock m = None"

definition manager_encrypt :: "crypto \<Rightarrow> byte list \<Rightarrow> byte list \<Rightarrow> encryption_manager \<Rightarrow> crypt_error + byte list" where
  "manager_encrypt c nonce p m =
     (case manager_dek m of Inl e \<Rightarrow> Inl e | Inr d \<Rightarrow> encrypt_field c nonce p d)"

definition manager_decrypt :: "crypto \<Rightarrow> byte list \<Rightarrow> encryption_manager \<Rightarrow> crypt_error + byte list" where
  "manager_decrypt c x m = (case manager_dek m of Inl e \<Rightarrow> Inl e | Inr d \<Rightarrow> decrypt_field c x d)"

section \<open>Lemmas\<close>

lemma length_word_bytes [simp]: "length (word_bytes k w) = k"
  by (simp add: word_bytes_def)

lemma length_sha_digest: "length (sha_digest st) = 32"
  by (induction st rule: sha_digest.induct) simp

lemma length_sha256 [simp]: "length (sha256 m) = 32"
  by (simp add: sha256_def length_sha_digest)

lemma length_hmac [simp]: "length (hmac_sha256 k m) = 32"
  by (simp add: hmac_sha256_def Let_def)

lemmas sizes = AES_KEY_SIZE_def AES_NONCE_SIZE_def HMAC_SIZE_def SALT_SIZE_def DEK_SIZE_def

lemma split_stored:
  assumes "length nonce = i" "length mac = j"
  shows "take i (nonce @ x @ mac) = nonce" "suffix_of j (nonce @ x @ mac) = mac" "middle i j (nonce @ x @ mac) = x"
  using assms by (simp_all add: suffix_of_def middle_def)

lemma join_stored:
  assumes "i + j \<le> length xs"
  shows "xs = take i xs @ middle i j xs @ suffix_of j xs"
proof -
  have "min i (length xs - j) = i" using assms by simp
  then have "take i xs @ middle i j xs = take (length xs - j) xs"
    using append_take_drop_id[of i "take (length xs - j) xs"] by (simp add: middle_def)
  then show ?thesis by (simp add: suffix_of_def flip: append_assoc)
qed

lemma aead_back:
  assumes "aead_ok c" "length k = 32" "length n = 12" "aead_encrypt c k n p = Inr x"
  shows "aead_decrypt c k n x = Inr p" "length x = length p + 16"
proof -
  obtain y where "aead_encrypt c k n p = Inr y" "length y = length p + 16"
    using assms(1-3) unfolding aead_ok_def by blast
  with assms show "aead_decrypt c k n x = Inr p" "length x = length p + 16" by (simp_all add: aead_ok_def)
qed

lemma decrypt_encrypted:
  assumes "aead_ok c" "length dek = 32" "is_text p" "length nonce = 12" "encrypt_field c nonce p dek = Inr b"
  shows "decrypt_field c b dek = Inr p"
proof -
  note n = assms(4) and e = assms(5)
  from e obtain x where x: "aead_encrypt c dek nonce p = Inr x" "b = nonce @ x @ hmac_sha256 (derive_hmac_key dek) x"
    using assms(2) by (auto simp: encrypt_field_def sizes split: sum.splits)
  note b = x(2)
  have "aead_decrypt c dek nonce x = Inr p" "length x = length p + 16" by (rule aead_back[OF assms(1,2) n x(1)])+
  with split_stored[OF n length_hmac, of x "derive_hmac_key dek" x] assms(2,3) n show ?thesis
    by (simp add: decrypt_field_def sizes Let_def b)
qed

lemma stored_dek_decrypts:
  assumes "aead_ok c" "encrypt_dek c nonce dek kek salt = Inr stored" "length nonce = 12"
  shows "decrypt_dek c stored kek = Inr dek"
    and "length z = 32 \<Longrightarrow> decrypt_dek c (z @ drop 32 stored) kek = Inr dek"
proof -
  have l: "length dek = 32" "length kek = 32" "length salt = 32"
    using assms(2) by (simp_all add: encrypt_dek_def sizes split: if_splits)
  obtain x where x: "aead_encrypt c kek nonce dek = Inr x"
    using assms(2) l by (cases "aead_encrypt c kek nonce dek") (simp_all add: encrypt_dek_def sizes)
  with assms(2) l have st: "stored = salt @ nonce @ x @ hmac_sha256 (derive_hmac_key kek) x"
    by (simp add: encrypt_dek_def sizes)
  have d: "aead_decrypt c kek nonce x = Inr dek" "length x = length dek + 16"
    by (rule aead_back[OF assms(1) l(2) assms(3) x])+
  have z: "decrypt_dek c (z @ nonce @ x @ hmac_sha256 (derive_hmac_key kek) x) kek = Inr dek" if z: "length z = 32" for z
  proof -
    have "length (z @ nonce) = 32 + 12" using z assms(3) by simp
    note parts = split_stored[OF this length_hmac, of x "derive_hmac_key kek" x]
    show ?thesis
      using parts(2,3) d z assms(3) l by (simp add: decrypt_dek_def sizes Let_def)
  qed
  from z[OF l(3)] show "decrypt_dek c stored kek = Inr dek" by (simp add: st)
  show "length z = 32 \<Longrightarrow> decrypt_dek c (z @ drop 32 stored) kek = Inr dek" using z l(3) by (simp add: st)
qed

section \<open>Properties\<close>

text \<open>Serialising a stored field and reading it back gives the same bytes; and reading back what was
  serialised gives the same parts when the salt, the nonce and the code have their sizes.\<close>

theorem field_bytes_roundtrip:
  "(from_bytes data = Inr f \<longrightarrow> to_bytes f = data) \<and>
   (length (ef_salt f) = 32 \<and> length (ef_nonce f) = 12 \<and> length (ef_hmac f) = 32 \<longrightarrow> from_bytes (to_bytes f) = Inr f)"
proof (intro conjI impI)
  assume f: "from_bytes data = Inr f"
  then have len: "32 + 12 + 32 \<le> length data" by (simp add: from_bytes_def sizes split: if_splits)
  have "take 32 data @ take 12 (drop 32 data) = take (32 + 12) data"
    using take_add[of 32 12 data] by simp
  with f join_stored[of "32 + 12" 32 data] len show "to_bytes f = data"
    by (auto simp: from_bytes_def to_bytes_def sizes split: if_splits simp flip: append_assoc)
next
  assume l: "length (ef_salt f) = 32 \<and> length (ef_nonce f) = 12 \<and> length (ef_hmac f) = 32"
  then have "middle (32 + 12) 32 ((ef_salt f @ ef_nonce f) @ ef_ciphertext f @ ef_hmac f) = ef_ciphertext f"
    "suffix_of 32 ((ef_salt f @ ef_nonce f) @ ef_ciphertext f @ ef_hmac f) = ef_hmac f"
    by (intro split_stored; simp)+
  with l show "from_bytes (to_bytes f) = Inr f"
    by (simp add: from_bytes_def to_bytes_def sizes)
qed

text \<open>C40: Decryption is the exact inverse of encryption: it accepts the bytes that encryption makes of a text
  with some nonce, and nothing else, so that every change of the stored bytes is refused.\<close>

theorem field_decrypts_exactly:
  assumes "aead_ok c" "length dek = 32" "is_text p"
  shows "decrypt_field c b dek = Inr p \<longleftrightarrow> (\<exists>nonce. length nonce = 12 \<and> encrypt_field c nonce p dek = Inr b)"
proof
  assume d: "decrypt_field c b dek = Inr p"
  let ?n = "take 12 b" and ?x = "middle 12 32 b"
  have len: "12 + 32 \<le> length b" using d by (simp add: decrypt_field_def sizes split: if_splits)
  have "aead_decrypt c dek ?n ?x = Inr p" "suffix_of 32 b = hmac_sha256 (derive_hmac_key dek) ?x"
    using d by (auto simp: decrypt_field_def sizes Let_def split: if_splits sum.splits)
  moreover have "aead_encrypt c dek ?n p = Inr ?x"
    using assms(1,2) calculation(1) len by (auto simp: aead_ok_def)
  ultimately have "encrypt_field c ?n p dek = Inr b"
    using join_stored[OF len] assms(2) by (simp add: encrypt_field_def sizes)
  moreover have "length ?n = 12" using len by simp
  ultimately show "\<exists>nonce. length nonce = 12 \<and> encrypt_field c nonce p dek = Inr b" by blast
next
  assume "\<exists>nonce. length nonce = 12 \<and> encrypt_field c nonce p dek = Inr b"
  then show "decrypt_field c b dek = Inr p" using decrypt_encrypted[OF assms] by blast
qed

text \<open>The key hierarchy: after the set-up with a password, unlocking with the same password and the stored
  salt gives the data key back, and the manager then decrypts what it encrypts; the salt inside the
  stored key is not authenticated, any other one is accepted as well.\<close>

theorem unlock_after_setup:
  assumes "aead_ok c" "kdf_ok c" "length dek = 32" "length nonce = 12" "length salt' = 32"
    and "setup_encryption c salt dek nonce password = Inr (stored, s)"
  shows "manager_unlock c password stored s m = (Some dek, Inr ()) \<and>
    manager_unlock c password (salt' @ drop 32 stored) s m = (Some dek, Inr ())"
proof -
  obtain kek where kek: "derive_kek c password salt = Inr kek"
    using assms(6) by (cases "derive_kek c password salt") (simp_all add: setup_encryption_def)
  then have e: "encrypt_dek c nonce dek kek salt = Inr stored" and s: "s = salt"
    using assms(6) by (simp_all add: setup_encryption_def split: sum.splits)
  with stored_dek_decrypts[OF assms(1) _ assms(4)] assms(5) kek show ?thesis
    by (simp add: manager_unlock_def unlock_encryption_def)
qed

section \<open>Instances\<close>

text \<open>A cipher that satisfies the laws: the bytes shifted by the key, with the nonce in the tag.\<close>

definition wit_crypto :: crypto where
  "wit_crypto =
     \<lparr>aead_encrypt = (\<lambda>k n p. Inr (map (\<lambda>b. b + hd k) p @ n @ replicate 4 (hd k))),
      aead_decrypt = (\<lambda>k n x. let m = length x - 16
         in if 16 \<le> length x \<and> drop m x = n @ replicate 4 (hd k) then Inr (map (\<lambda>b. b - hd k) (take m x))
            else Inl (ValueError ''InvalidTag'')),
      argon2id = (\<lambda>p s. Inr (replicate 32 (of_nat (length p))))\<rparr>"

lemma wit_crypto_ok: "aead_ok wit_crypto" "kdf_ok wit_crypto"
proof -
  have "aead_decrypt wit_crypto k n x = Inr p \<longleftrightarrow> aead_encrypt wit_crypto k n p = Inr x" if "length n = 12" for k n x p
  proof
    assume d: "aead_decrypt wit_crypto k n x = Inr p"
    let ?m = "length x - 16"
    have "p = map (\<lambda>b. b - hd k) (take ?m x)" "drop ?m x = n @ replicate 4 (hd k)"
      using d by (auto simp: wit_crypto_def Let_def split: if_splits)
    then have "aead_encrypt wit_crypto k n p = Inr (take ?m x @ drop ?m x)"
      by (simp add: wit_crypto_def comp_def)
    then show "aead_encrypt wit_crypto k n p = Inr x" by simp
  next
    assume "aead_encrypt wit_crypto k n p = Inr x"
    then show "aead_decrypt wit_crypto k n x = Inr p"
      using that by (auto simp: wit_crypto_def Let_def comp_def)
  qed
  then show "aead_ok wit_crypto" by (auto simp: aead_ok_def) (simp add: wit_crypto_def)
  show "kdf_ok wit_crypto" by (auto simp: kdf_ok_def wit_crypto_def)
qed

theorem field_bytes_roundtrip_witness:
  "from_bytes (to_bytes \<lparr>ef_salt = replicate 32 1, ef_nonce = replicate 12 2, ef_ciphertext = [7],
      ef_hmac = replicate 32 3\<rparr>)
   = Inr \<lparr>ef_salt = replicate 32 1, ef_nonce = replicate 12 2, ef_ciphertext = [7], ef_hmac = replicate 32 3\<rparr>"
  by (rule field_bytes_roundtrip[THEN conjunct2, rule_format]) simp

theorem field_decrypts_exactly_witness:
  "\<exists>b. encrypt_field wit_crypto (replicate 12 5) [104, 105] (replicate 32 9) = Inr b \<and>
     decrypt_field wit_crypto b (replicate 32 9) = Inr [104, 105]"
proof -
  obtain b where b: "encrypt_field wit_crypto (replicate 12 5) [104, 105] (replicate 32 9) = Inr b"
    by (simp add: encrypt_field_def sizes wit_crypto_def)
  have "is_text [104, 105]" by (simp add: is_text_def)
  moreover have "length (replicate 32 (9::byte)) = 32" "length (replicate 12 (5::byte)) = 12" by simp_all
  ultimately show ?thesis using field_decrypts_exactly[OF wit_crypto_ok(1)] b by blast
qed

theorem unlock_after_setup_witness:
  "\<exists>stored. setup_encryption wit_crypto (replicate 32 1) (replicate 32 2) (replicate 12 3) [112] = Inr (stored, replicate 32 1) \<and>
     manager_unlock wit_crypto [112] stored (replicate 32 1) None = (Some (replicate 32 2), Inr ())"
proof -
  obtain stored where st: "setup_encryption wit_crypto (replicate 32 1) (replicate 32 2) (replicate 12 3) [112]
      = Inr (stored, replicate 32 1)"
    by (simp add: setup_encryption_def derive_kek_def encrypt_dek_def sizes wit_crypto_def)
  have "length (replicate 32 (2::byte)) = 32" "length (replicate 12 (3::byte)) = 12" "length (replicate 32 (0::byte)) = 32"
    by simp_all
  from unlock_after_setup[OF wit_crypto_ok this st] st show ?thesis by blast
qed

end
