(* ===== verification/Retry.thy ===== *)
theory Retry
  imports Prelude
begin

text \<open>
  The retry decorators (\<open>shared/utils/retry.py\<close>): the configurations and what they hand to
  \<open>tenacity\<close>. The decorator of \<open>tenacity\<close> itself is a parameter, from this specification
  and the outcomes of the attempts (numbered from 0) to the outcome of the call; \<open>tenacity_ok\<close> states
  what it documents for a limit on the attempts. The exceptions a configuration names are a predicate;
  the built-in \<open>IOError\<close>, \<open>ConnectionError\<close> and \<open>TimeoutError\<close> are subclasses of
  \<open>OSError\<close>, as \<open>FileNotFoundError\<close> is.
\<close>

section \<open>Configurations\<close>

record retry_config =
  rt_max_attempts :: nat
  rt_max_delay_seconds :: "pyfloat option"
  rt_wait_strategy :: string
  rt_wait_min :: pyfloat
  rt_wait_max :: pyfloat
  rt_wait_fixed_seconds :: pyfloat
  rt_retry_exceptions :: "exn \<Rightarrow> bool"

definition default_retry_config :: retry_config where
  "default_retry_config = \<lparr>rt_max_attempts = 3, rt_max_delay_seconds = None, rt_wait_strategy = ''exponential'',
     rt_wait_min = 1, rt_wait_max = 60, rt_wait_fixed_seconds = 2, rt_retry_exceptions = (\<lambda>_. True)\<rparr>"

definition is_os_error :: "exn \<Rightarrow> bool" where
  "is_os_error e = (case e of OSError _ \<Rightarrow> True | FileNotFoundError \<Rightarrow> True | _ \<Rightarrow> False)"

definition ASGARD_RETRY :: retry_config where
  "ASGARD_RETRY = default_retry_config\<lparr>rt_max_attempts := 3, rt_wait_strategy := ''exponential'',
     rt_wait_min := flt (1/2), rt_wait_max := 5, rt_retry_exceptions := is_os_error\<rparr>"

definition HYPERLIQUID_RETRY :: retry_config where
  "HYPERLIQUID_RETRY = default_retry_config\<lparr>rt_max_attempts := 15, rt_wait_strategy := ''fixed'',
     rt_wait_fixed_seconds := 2, rt_retry_exceptions := is_os_error\<rparr>"

definition RPC_RETRY :: retry_config where
  "RPC_RETRY = default_retry_config\<lparr>rt_max_attempts := 5, rt_wait_strategy := ''exponential'',
     rt_wait_min := flt (1/2), rt_wait_max := 10, rt_retry_exceptions := is_os_error\<rparr>"

section \<open>What the decorator is given\<close>

datatype stop = After_attempt nat | After_delay pyfloat
datatype wait = Wait_fixed pyfloat | Wait_exponential pyfloat pyfloat pyfloat

record retry_spec =
  rs_stops :: "stop list"
  rs_wait :: wait
  rs_on :: "exn \<Rightarrow> bool"
  rs_reraise :: bool

definition get_stop_condition :: "retry_config \<Rightarrow> stop list" where
  "get_stop_condition c = [After_attempt (rt_max_attempts c)] @
     (case rt_max_delay_seconds c of None \<Rightarrow> [] | Some d \<Rightarrow> if d = 0 then [] else [After_delay d])"

definition get_wait_strategy :: "retry_config \<Rightarrow> wait" where
  "get_wait_strategy c =
     (if rt_wait_strategy c = ''fixed'' then Wait_fixed (rt_wait_fixed_seconds c)
      else Wait_exponential 1 (rt_wait_min c) (rt_wait_max c))"

definition retry_with_config :: "retry_config \<Rightarrow> retry_spec" where
  "retry_with_config c = \<lparr>rs_stops = get_stop_condition c, rs_wait = get_wait_strategy c,
     rs_on = rt_retry_exceptions c, rs_reraise = True\<rparr>"

text \<open>\<open>retry\<close> builds the configuration from its arguments.\<close>

definition retry_decorator ::
  "nat \<Rightarrow> pyfloat option \<Rightarrow> string \<Rightarrow> pyfloat \<Rightarrow> pyfloat \<Rightarrow> pyfloat \<Rightarrow> (exn \<Rightarrow> bool) \<Rightarrow> retry_spec" where
  "retry_decorator n d strategy lo hi fixed on =
     retry_with_config \<lparr>rt_max_attempts = n, rt_max_delay_seconds = d, rt_wait_strategy = strategy,
       rt_wait_min = lo, rt_wait_max = hi, rt_wait_fixed_seconds = fixed, rt_retry_exceptions = on\<rparr>"

definition retry_rpc :: retry_spec where
  "retry_rpc = retry_with_config RPC_RETRY"

section \<open>What tenacity documents\<close>

type_synonym 'a retrier = "retry_spec \<Rightarrow> (nat \<Rightarrow> exn + 'a) \<Rightarrow> exn + 'a"

definition retried :: "retry_spec \<Rightarrow> exn + 'a \<Rightarrow> bool" where
  "retried spec r = (case r of Inl e \<Rightarrow> rs_on spec e | Inr _ \<Rightarrow> False)"

text \<open>The outcome is that of the last attempt made; every attempt before it raised an exception that is
  retried, and after such an exception it stops only at the limit.\<close>

definition tenacity_ok :: "'a retrier \<Rightarrow> bool" where
  "tenacity_ok t \<longleftrightarrow> (\<forall>spec n f. rs_stops spec = [After_attempt n] \<longrightarrow> 0 < n \<longrightarrow> rs_reraise spec \<longrightarrow>
     (\<exists>k < n. t spec f = f k \<and> (\<forall>i < k. retried spec (f i)) \<and> (retried spec (f k) \<longrightarrow> Suc k = n)))"

section \<open>Lemmas\<close>

lemma retry_rpc_simps [simp]:
  "rs_stops retry_rpc = [After_attempt 5]" "rs_reraise retry_rpc" "rs_on retry_rpc = is_os_error"
  by (simp_all add: retry_rpc_def retry_with_config_def get_stop_condition_def RPC_RETRY_def default_retry_config_def)

lemma tenacity_first:
  assumes "tenacity_ok t" "rs_stops spec = [After_attempt n]" "0 < n" "rs_reraise spec" "\<not> retried spec (f 0)"
  shows "t spec f = f 0"
proof -
  obtain k where "t spec f = f k" "\<forall>i < k. retried spec (f i)"
    using assms(1-4) unfolding tenacity_ok_def by blast
  with assms(5) show ?thesis by (cases k) auto
qed

lemma tenacity_last:
  assumes "tenacity_ok t" "rs_stops spec = [After_attempt n]" "0 < n" "rs_reraise spec"
    and "\<And>i. i < n \<Longrightarrow> retried spec (f i)"
  shows "t spec f = f (n - 1)"
proof -
  obtain k where "k < n" "t spec f = f k" "retried spec (f k) \<longrightarrow> Suc k = n"
    using assms(1-4) unfolding tenacity_ok_def by blast
  with assms(5) show ?thesis by auto
qed

text \<open>The decorator written out, for a limit on the attempts.\<close>

fun attempts :: "(exn \<Rightarrow> bool) \<Rightarrow> nat \<Rightarrow> nat \<Rightarrow> (nat \<Rightarrow> exn + 'a) \<Rightarrow> exn + 'a" where
  "attempts on k 0 f = f k"
| "attempts on k (Suc n) f =
     (case f k of Inl e \<Rightarrow> if on e then attempts on (Suc k) n f else Inl e | Inr v \<Rightarrow> Inr v)"

lemma attempts_first [simp]: "f k = Inr v \<Longrightarrow> attempts on k n f = Inr v"
  by (cases n) simp_all

definition plain_tenacity :: "'a retrier" where
  "plain_tenacity spec f =
     (case rs_stops spec of [After_attempt n] \<Rightarrow> attempts (rs_on spec) 0 (n - 1) f | _ \<Rightarrow> f 0)"

lemma attempts_spec:
  "\<exists>j. k \<le> j \<and> j \<le> k + n \<and> attempts (rs_on spec) k n f = f j \<and> (\<forall>i. k \<le> i \<longrightarrow> i < j \<longrightarrow> retried spec (f i))
     \<and> (retried spec (f j) \<longrightarrow> j = k + n)"
proof (induction n arbitrary: k)
  case 0
  show ?case by (intro exI[of _ k]) auto
next
  case (Suc n)
  show ?case
  proof (cases "retried spec (f k)")
    case True
    then have "attempts (rs_on spec) k (Suc n) f = attempts (rs_on spec) (Suc k) n f"
      by (auto simp: retried_def split: sum.splits)
    moreover obtain j where "Suc k \<le> j" "j \<le> Suc k + n" "attempts (rs_on spec) (Suc k) n f = f j"
      "\<forall>i. Suc k \<le> i \<longrightarrow> i < j \<longrightarrow> retried spec (f i)" "retried spec (f j) \<longrightarrow> j = Suc k + n"
      using Suc.IH[of "Suc k"] by blast
    moreover have "retried spec (f i)" if "k \<le> i" "i < j" for i
      using that True calculation(5) by (cases "i = k") auto
    ultimately show ?thesis by (intro exI[of _ j]) (simp del: attempts.simps)
  next
    case False
    then have "attempts (rs_on spec) k (Suc n) f = f k" by (auto simp: retried_def split: sum.splits)
    with False show ?thesis by (intro exI[of _ k]) auto
  qed
qed

lemma plain_tenacity_ok: "tenacity_ok plain_tenacity"
  unfolding tenacity_ok_def
proof (intro allI impI)
  fix spec :: retry_spec and n and f :: "nat \<Rightarrow> exn + 'a"
  show "rs_stops spec = [After_attempt n] \<Longrightarrow> 0 < n \<Longrightarrow> \<exists>k < n. plain_tenacity spec f = f k \<and> (\<forall>i < k. retried spec (f i)) \<and> (retried spec (f k) \<longrightarrow> Suc k = n)"
  proof -
    assume n: "rs_stops spec = [After_attempt n]" "0 < n"
    obtain j where j: "j \<le> n - 1" "attempts (rs_on spec) 0 (n - 1) f = f j" "\<forall>i < j. retried spec (f i)"
      "retried spec (f j) \<longrightarrow> j = n - 1"
      using attempts_spec[of 0 "n - 1" spec f] by auto
    have "j < n" "retried spec (f j) \<longrightarrow> Suc j = n" using j(1,4) n(2) by auto
    with j(2,3) show ?thesis by (intro exI[of _ j]) (simp add: plain_tenacity_def n(1))
  qed
qed

end
