(* ===== verification/Transfers.thy ===== *)
theory Transfers
  imports UserContext Retry
begin

text \<open>
  Moving funds (\<open>bot/venues/hyperliquid/depositor.py\<close>, \<open>bot/venues/solana_transferor.py\<close>,
  \<open>bot/services/gas_funder.py\<close>) and the confirmation loops of the chain clients
  (\<open>shared/chain/arbitrum.py\<close>, \<open>shared/chain/solana.py\<close>).

  Replies of the chains, the signer and the exchange are arguments, in the order of the calls. What is
  broadcast is traced in the object, also when its reply is lost. A confirmation loop takes the answer of
  each poll with the seconds that have passed, for each attempt of its retry decorator; a poll of the receipt takes at least half a second, so 242
  polls are more than the time limit of 120 seconds allows. Error texts are abbreviated.
\<close>

section \<open>Confirmation\<close>

text \<open>A receipt that is missing, or its status.\<close>

fun wait_receipt :: "(nat \<Rightarrow> (exn + bool option) \<times> rat) \<Rightarrow> nat \<Rightarrow> nat \<Rightarrow> exn + unit" where
  "wait_receipt polls k 0 = Inl (OSError ''Transaction not confirmed'')"
| "wait_receipt polls k (Suc n) =
     (case polls k of
        (Inl e, _) \<Rightarrow> Inl e
      | (Inr (Some True), _) \<Rightarrow> Inr ()
      | (Inr (Some False), _) \<Rightarrow> Inl (ExternalError ''Transaction failed'')
      | (Inr None, elapsed) \<Rightarrow>
          if elapsed > 120 then Inl (OSError ''Transaction not confirmed'') else wait_receipt polls (Suc k) n)"

definition wait_for_transaction_receipt :: "(nat \<Rightarrow> (exn + bool option) \<times> rat) \<Rightarrow> exn + unit" where
  "wait_for_transaction_receipt polls = wait_receipt polls 0 242"

fun confirm_loop :: "(nat \<Rightarrow> exn + signature_status option) \<Rightarrow> nat \<Rightarrow> nat \<Rightarrow> exn + bool" where
  "confirm_loop st k 0 = Inr False"
| "confirm_loop st k (Suc n) =
     (case st k of
        Inl e \<Rightarrow> Inl e
      | Inr None \<Rightarrow> confirm_loop st (Suc k) n
      | Inr (Some x) \<Rightarrow>
          if ss_err x \<noteq> None then Inl (ExternalError ''Transaction failed'')
          else if ss_confirmed x then Inr True else confirm_loop st (Suc k) n)"

definition confirm_transaction :: "(nat \<Rightarrow> exn + signature_status option) \<Rightarrow> exn + bool" where
  "confirm_transaction st = confirm_loop st 0 60"

section \<open>The depositor\<close>

datatype evm_tx = TokenTransfer string int | EthTransfer string int

record depositor =
  dp_wallet_address :: "string option"
  dp_trader :: "trader option"
  dp_bridge :: string
  evm_sent :: "evm_tx list"
  hl_withdrawals :: "(rat \<times> string option) list"

record evm_answers =
  ew_prepare :: "exn + unit"
  ew_sign :: "exn + unit"
  ew_send :: "exn + string"
  ew_receipt :: "nat \<Rightarrow> nat \<Rightarrow> (exn + bool option) \<times> rat"
  ew_retry :: "unit retrier"

record deposit_result =
  dr_success :: bool
  dr_approve_tx_hash :: "string option"
  dr_tx_hash :: "string option"
  dr_amount :: "rat option"
  dr_error :: "string option"

definition failed_transfer :: "string \<Rightarrow> deposit_result" where
  "failed_transfer why = \<lparr>dr_success = False, dr_approve_tx_hash = None, dr_tx_hash = None, dr_amount = None,
     dr_error = Some why\<rparr>"

definition done_transfer :: "string option \<Rightarrow> rat \<Rightarrow> deposit_result" where
  "done_transfer h x = \<lparr>dr_success = True, dr_approve_tx_hash = None, dr_tx_hash = h, dr_amount = Some x,
     dr_error = None\<rparr>"

definition MIN_ETH_FOR_BRIDGE :: rat where "MIN_ETH_FOR_BRIDGE = 2/1000"

text \<open>Building, signing, sending and waiting; the nonce, the fees and the building are one answer.\<close>

definition broadcast :: "evm_answers \<Rightarrow> evm_tx \<Rightarrow> (depositor, string) action" where
  "broadcast a tx =
     andthen (lift_result (ew_prepare a)) (\<lambda>_.
     andthen (lift_result (ew_sign a)) (\<lambda>_.
     andthen (\<lambda>d. (d\<lparr>evm_sent := evm_sent d @ [tx]\<rparr>, ew_send a)) (\<lambda>h.
     andthen (lift_result (ew_retry a retry_rpc (\<lambda>k. wait_for_transaction_receipt (ew_receipt a k)))) (\<lambda>_. ret h))))"

definition raw_units :: "rat \<Rightarrow> rat \<Rightarrow> int" where
  "raw_units scale amount = trunc (dec (amount * scale))"

text \<open>Sixty polls, five seconds apart.\<close>

fun poll_balance :: "(nat \<Rightarrow> exn + pyfloat) \<Rightarrow> pyfloat \<Rightarrow> nat \<Rightarrow> nat \<Rightarrow> bool" where
  "poll_balance bal target k 0 = False"
| "poll_balance bal target k (Suc n) =
     (case bal k of
        Inl e \<Rightarrow> poll_balance bal target (Suc k) n
      | Inr x \<Rightarrow> if x \<ge> target then True else poll_balance bal target (Suc k) n)"

definition credit_target :: "pyfloat \<Rightarrow> rat \<Rightarrow> pyfloat" where
  "credit_target before expected = flt (before + flt (flt expected * flt (95/100)))"

definition poll_hl_credit ::
  "exn + clearinghouse \<Rightarrow> (nat \<Rightarrow> exn + clearinghouse) \<Rightarrow> rat \<Rightarrow> depositor \<Rightarrow> bool" where
  "poll_hl_credit before polls expected d =
     (case dp_trader d of
        None \<Rightarrow> True
      | Some t \<Rightarrow> poll_balance (\<lambda>k. Inr (get_deposited_balance (polls k) t))
                  (credit_target (get_deposited_balance before t) expected) 0 60)"

definition poll_arb_credit :: "exn + rat \<Rightarrow> (nat \<Rightarrow> exn + rat) \<Rightarrow> rat \<Rightarrow> bool" where
  "poll_arb_credit before polls expected =
     (case before of
        Inl e \<Rightarrow> True
      | Inr b \<Rightarrow> poll_balance (\<lambda>k. map_sum id flt (polls k)) (credit_target (flt b) expected) 0 60)"

record deposit_answers =
  dw_addresses :: "exn + unit"
  dw_usdc :: "exn + rat"
  dw_eth :: "exn + rat"
  dw_tx :: evm_answers
  dw_hl_before :: "exn + clearinghouse"
  dw_hl_polls :: "nat \<Rightarrow> exn + clearinghouse"

text \<open>The answer of the polling is logged only.\<close>

definition deposit :: "deposit_answers \<Rightarrow> pyfloat \<Rightarrow> (depositor, deposit_result) action" where
  "deposit a amount_usdc =
     (let amount = float_str amount_usdc
      in andthen (lift_result (dw_addresses a)) (\<lambda>_.
         andthen (lift_result (dw_usdc a)) (\<lambda>usdc.
         if usdc < amount then ret (failed_transfer ''Insufficient USDC on Arbitrum'')
         else andthen (lift_result (dw_eth a)) (\<lambda>eth.
         if eth < MIN_ETH_FOR_BRIDGE then ret (failed_transfer ''Insufficient ETH for gas'')
         else andthen
           (catching (andthen (\<lambda>d. broadcast (dw_tx a) (TokenTransfer (dp_bridge d) (raw_units (10 ^ 6) amount)) d)
                       (\<lambda>h. ret (done_transfer (Some h) amount)))
                     (\<lambda>e. ret (failed_transfer ''Bridge transfer tx failed'')))
           (\<lambda>r. if dr_success r
                then (\<lambda>d. let credited = poll_hl_credit (dw_hl_before a) (dw_hl_polls a) amount d in (d, Inr r))
                else ret r)))))"

record withdraw_answers =
  ww_balance :: "exn + clearinghouse"
  ww_sign :: "exn + unit"
  ww_exchange :: "exn + unit"
  ww_before :: "exn + rat"
  ww_polls :: "nat \<Rightarrow> exn + rat"

definition withdraw :: "withdraw_answers \<Rightarrow> pyfloat \<Rightarrow> (depositor, deposit_result) action" where
  "withdraw a amount_usdc d =
     (let amount = float_str amount_usdc
      in case dp_trader d of
           None \<Rightarrow> (d, Inr (failed_transfer ''No HL trader configured''))
         | Some t \<Rightarrow>
             if \<not> has_signer t then (d, Inr (failed_transfer ''HL trader missing signer''))
             else if get_deposited_balance (ww_balance a) t < flt amount
             then (d, Inr (failed_transfer ''Insufficient HL balance''))
             else
               (case ww_sign a of
                  Inl e \<Rightarrow> (d, Inr (failed_transfer ''Withdrawal submission failed''))
                | Inr _ \<Rightarrow>
                    let d1 = d\<lparr>hl_withdrawals := hl_withdrawals d @ [(amount, dp_wallet_address d)]\<rparr>
                    in case ww_exchange a of
                         Inl e \<Rightarrow> (d1, Inr (failed_transfer ''Withdrawal submission failed''))
                       | Inr _ \<Rightarrow>
                           let credited = poll_arb_credit (ww_before a) (ww_polls a) amount
                           in (d1, Inr (done_transfer None amount))))"

definition transfer_usdc_evm :: "deposit_answers \<Rightarrow> string \<Rightarrow> pyfloat \<Rightarrow> (depositor, deposit_result) action" where
  "transfer_usdc_evm a dest amount_usdc =
     (let amount = float_str amount_usdc
      in andthen (lift_result (dw_addresses a)) (\<lambda>_.
         andthen (lift_result (dw_usdc a)) (\<lambda>usdc.
         if usdc < amount then ret (failed_transfer ''Insufficient USDC on Arbitrum'')
         else andthen (lift_result (dw_eth a)) (\<lambda>eth.
         if eth < MIN_ETH_FOR_BRIDGE then ret (failed_transfer ''Insufficient ETH for gas'')
         else catching (andthen (broadcast (dw_tx a) (TokenTransfer dest (raw_units (10 ^ 6) amount)))
                         (\<lambda>h. ret (done_transfer (Some h) amount)))
                       (\<lambda>e. ret (failed_transfer ''USDC transfer failed''))))))"

definition transfer_eth_evm :: "deposit_answers \<Rightarrow> string \<Rightarrow> pyfloat \<Rightarrow> (depositor, deposit_result) action" where
  "transfer_eth_evm a dest amount_eth =
     (let amount = float_str amount_eth
      in andthen (lift_result (dw_addresses a)) (\<lambda>_.
         andthen (lift_result (dw_eth a)) (\<lambda>eth.
         if eth < dec (amount + MIN_ETH_FOR_BRIDGE) then ret (failed_transfer ''Insufficient ETH'')
         else catching (andthen (broadcast (dw_tx a) (EthTransfer dest (raw_units (10 ^ 18) amount)))
                         (\<lambda>h. ret (done_transfer (Some h) amount)))
                       (\<lambda>e. ret (failed_transfer ''ETH transfer failed'')))))"

section \<open>The Solana transferor\<close>

datatype sol_ix = SolTransfer string int | CreateTokenAccount string | TokenTransferChecked string int

record transferor =
  tf_wallet_address :: "string option"
  sol_sent :: "sol_ix list list"

record sol_answers =
  sw_keys :: "exn + unit"
  sw_usdc :: "exn + pyfloat"
  sw_balance :: "exn + pyfloat"
  sw_dest_balance :: "exn + pyfloat"
  sw_build :: "exn + unit"
  sw_sign :: "exn + unit"
  sw_send :: "exn + string"
  sw_status :: "nat \<Rightarrow> nat \<Rightarrow> exn + signature_status option"
  sw_retry :: "bool retrier"

definition MIN_SOL_RESERVE :: rat where "MIN_SOL_RESERVE = 1/100"

definition build_sign_send :: "sol_answers \<Rightarrow> sol_ix list \<Rightarrow> (transferor, string) action" where
  "build_sign_send a ixs =
     andthen (lift_result (sw_build a)) (\<lambda>_.
     andthen (lift_result (sw_sign a)) (\<lambda>_.
     andthen (\<lambda>t. (t\<lparr>sol_sent := sol_sent t @ [ixs]\<rparr>, sw_send a)) (\<lambda>sig.
     andthen (lift_result (sw_retry a retry_rpc (\<lambda>k. confirm_transaction (sw_status a k)))) (\<lambda>ok.
     if ok then ret sig else raising (ExternalError ''Transaction not confirmed within timeout'')))))"

definition sol_outcome :: "sol_answers \<Rightarrow> sol_ix list \<Rightarrow> rat \<Rightarrow> string \<Rightarrow> (transferor, deposit_result) action" where
  "sol_outcome a ixs amount why =
     catching (andthen (build_sign_send a ixs) (\<lambda>sig. ret (done_transfer (Some sig) amount)))
              (\<lambda>e. ret (failed_transfer why))"

definition transfer_sol_to :: "sol_answers \<Rightarrow> string \<Rightarrow> pyfloat \<Rightarrow> (transferor, deposit_result) action" where
  "transfer_sol_to a dest amount_sol =
     (let amount = float_str amount_sol
      in andthen (lift_result (sw_balance a)) (\<lambda>b.
         if float_str b < dec (amount + MIN_SOL_RESERVE) then ret (failed_transfer ''Insufficient SOL'')
         else andthen (lift_result (sw_keys a)) (\<lambda>_.
              sol_outcome a [SolTransfer dest (raw_units (10 ^ 9) amount)] amount ''SOL transfer failed'')))"

definition transfer_usdc_sol :: "sol_answers \<Rightarrow> string \<Rightarrow> pyfloat \<Rightarrow> (transferor, deposit_result) action" where
  "transfer_usdc_sol a dest amount_usdc =
     (let amount = float_str amount_usdc
      in andthen (lift_result (sw_usdc a)) (\<lambda>u.
         if float_str u < amount then ret (failed_transfer ''Insufficient USDC on Solana'')
         else andthen (lift_result (sw_balance a)) (\<lambda>b.
         if float_str b < MIN_SOL_RESERVE then ret (failed_transfer ''Insufficient SOL for fees'')
         else andthen (lift_result (sw_keys a)) (\<lambda>_.
         andthen (lift_result (sw_dest_balance a)) (\<lambda>x.
           sol_outcome a ((if x = 0 then [CreateTokenAccount dest] else [])
               @ [TokenTransferChecked dest (raw_units (10 ^ 6) amount)]) amount ''USDC transfer failed'')))))"

section \<open>The transfer objects of a user\<close>

definition hl_depositor_init :: "settings \<Rightarrow> (string option \<Rightarrow> exn + unit) \<Rightarrow> string \<Rightarrow> user_context \<Rightarrow> exn + depositor" where
  "hl_depositor_init st signer bridge c =
     (case snd (get_hl_trader st signer c) of
        Inl e \<Rightarrow> Inl e
      | Inr t \<Rightarrow> Inr \<lparr>dp_wallet_address = uc_evm_address c, dp_trader = Some t, dp_bridge = bridge,
               evm_sent = [], hl_withdrawals = []\<rparr>)"

definition solana_transferor_init :: "user_context \<Rightarrow> transferor" where
  "solana_transferor_init c = \<lparr>tf_wallet_address = uc_solana_address c, sol_sent = []\<rparr>"

section \<open>The gas funder\<close>

record gas_funder =
  gf_top_up :: rat
  gf_min_balance :: rat
  gf_sent :: "(string \<times> int) list"

record gas_answers =
  ga_balance :: "exn + rat"
  ga_funder :: "exn + rat"
  ga_prepare :: "exn + unit"
  ga_send :: "exn + string"

datatype gas_summary = FunderLow nat | GasSummary nat nat nat

definition gas_funder_init :: gas_funder where
  "gas_funder_init = \<lparr>gf_top_up = 5/1000, gf_min_balance = 2/1000, gf_sent = []\<rparr>"

text \<open>The checksum, the nonce, the gas price and the signature are one answer.\<close>

definition send_eth :: "gas_answers \<Rightarrow> string \<Rightarrow> (gas_funder, string) action" where
  "send_eth a addr =
     andthen (lift_result (ga_prepare a)) (\<lambda>_ g.
       (g\<lparr>gf_sent := gf_sent g @ [(addr, raw_units (10 ^ 18) (gf_top_up g))]\<rparr>, ga_send a))"

text \<open>One user: whether the loop stops, or the outcome (an error, a top-up, or nothing to do).\<close>

datatype gas_step = GasStop | GasFunded | GasSkipped | GasError

definition fund_user :: "gas_answers \<Rightarrow> string \<Rightarrow> gas_funder \<Rightarrow> gas_funder \<times> gas_step" where
  "fund_user a addr g =
     (case ga_balance a of
        Inl e \<Rightarrow> (g, GasError)
      | Inr b \<Rightarrow>
          if \<not> b < gf_min_balance g then (g, GasSkipped)
          else
            (case ga_funder a of
               Inl e \<Rightarrow> (g, GasError)
             | Inr f \<Rightarrow>
                 if f < dec (gf_top_up g + 1/1000) then (g, GasStop)
                 else
                   (case send_eth a addr g of
                      (g1, Inl e) \<Rightarrow> (g1, GasError)
                    | (g1, Inr h) \<Rightarrow> (g1, GasFunded))))"

fun fund_loop :: "(nat \<Rightarrow> gas_answers) \<Rightarrow> nat \<Rightarrow> string list \<Rightarrow> nat \<times> nat \<times> nat \<Rightarrow> gas_funder \<Rightarrow> gas_funder \<times> nat \<times> nat \<times> nat"
  where
  "fund_loop ans k [] (c, n, e) g = (g, c, n, e)"
| "fund_loop ans k (addr # rest) (c, n, e) g =
     (case fund_user (ans k) addr g of
        (g1, GasStop) \<Rightarrow> (g1, c + 1, n, e)
      | (g1, GasFunded) \<Rightarrow> fund_loop ans (Suc k) rest (c + 1, n + 1, e) g1
      | (g1, GasSkipped) \<Rightarrow> fund_loop ans (Suc k) rest (c + 1, n, e) g1
      | (g1, GasError) \<Rightarrow> fund_loop ans (Suc k) rest (c + 1, n, e + 1) g1)"

definition check_and_fund_users ::
  "exn + string list \<Rightarrow> exn + rat \<Rightarrow> (nat \<Rightarrow> gas_answers) \<Rightarrow> (gas_funder, gas_summary) action" where
  "check_and_fund_users rows funder ans =
     andthen (lift_result rows) (\<lambda>addrs.
     andthen (lift_result funder) (\<lambda>f g.
       if f < gf_top_up g then (g, Inr (FunderLow (length addrs)))
       else (case fund_loop ans 0 addrs (0, 0, 0) g of
               (g1, c, n, e) \<Rightarrow> (g1, Inr (GasSummary c n e)))))"

section \<open>Lemmas\<close>

lemma trunc_mono:
  assumes "x \<le> y"
  shows "trunc x \<le> trunc y"
proof (cases "x < 0 \<and> 0 \<le> y")
  case True
  then have "0 \<le> \<lfloor>- x\<rfloor>" "0 \<le> \<lfloor>y\<rfloor>" by simp_all
  then have "- \<lfloor>- x\<rfloor> \<le> \<lfloor>y\<rfloor>" by linarith
  with True show ?thesis by (simp add: trunc_def)
next
  case False
  with assms show ?thesis by (auto simp: trunc_def intro!: floor_mono)
qed

lemma trunc_int [simp]: "trunc (of_int n) = n"
  by (simp add: trunc_def flip: of_int_minus)

text \<open>The raw amount asked for is at most the raw amount held.\<close>

lemma raw_units_le:
  assumes "0 < s" "amount \<le> of_int n / s" "\<bar>n\<bar> < 10 ^ 28"
  shows "raw_units s amount \<le> n"
proof -
  have "amount * s \<le> of_int n" using assms(1,2) by (simp add: field_simps)
  then have "dec (amount * s) \<le> of_int n" using dec.rnd_mono[of "amount * s" "of_int n"] dec_int[OF assms(3)] by simp
  then show ?thesis using trunc_mono[of "dec (amount * s)" "of_int n"] by (simp add: raw_units_def)
qed

lemma raw_units_bounds:
  assumes "0 < s" "0 \<le> amount" "amount \<le> of_int n / s" "\<bar>n\<bar> < 10 ^ 28"
  shows "\<lfloor>amount * s\<rfloor> \<le> raw_units s amount \<and> raw_units s amount \<le> \<lceil>amount * s\<rceil>"
proof -
  let ?y = "amount * s"
  have y: "0 \<le> ?y" "?y \<le> of_int n" using assms(1-3) by (simp_all add: field_simps)
  have fl: "0 \<le> \<lfloor>?y\<rfloor>" "\<lfloor>?y\<rfloor> \<le> n" using y by (auto simp: floor_le_iff)
  have ce: "0 \<le> \<lceil>?y\<rceil>" "\<lceil>?y\<rceil> \<le> n" using y by (auto simp: ceiling_le_iff le_ceiling_iff)
  have small: "\<bar>\<lfloor>?y\<rfloor>\<bar> < 10 ^ 28" "\<bar>\<lceil>?y\<rceil>\<bar> < 10 ^ 28" using fl ce assms(4) by linarith+
  have "of_int \<lfloor>?y\<rfloor> \<le> dec ?y" using dec.rnd_mono[of "of_int \<lfloor>?y\<rfloor>" ?y] dec_int[OF small(1)] by simp
  moreover have "dec ?y \<le> of_int \<lceil>?y\<rceil>" using dec.rnd_mono[of ?y "of_int \<lceil>?y\<rceil>"] dec_int[OF small(2)] by simp
  ultimately show ?thesis
    using trunc_mono[of "of_int \<lfloor>?y\<rfloor>" "dec ?y"] trunc_mono[of "dec ?y" "of_int \<lceil>?y\<rceil>"] by (simp add: raw_units_def)
qed

lemma float_str_pos_iff [simp]: "0 < float_str x \<longleftrightarrow> 0 < x"
proof -
  obtain q where q: "0 < q" "float_str x = round_sig 10 q x" using float_str_round by blast
  have "0 < round_pos 10 q y" if "0 < y" for y using round_pos_nonneg[of 10 q y] q(1) that by simp
  from this[of x] this[of "- x"] show ?thesis by (auto simp: q(2) round_sig_def)
qed

text \<open>A float up to \<open>c\<close> is written as a decimal up to \<open>c\<close>, or up to \<open>c\<close> at 17 digits.\<close>

lemma shortest_from_cases: "flt (shortest_from n p x) = x \<or> shortest_from n p x = round_sig 10 17 x"
  by (induction n p x rule: shortest_from.induct) simp_all

lemma float_str_le:
  assumes "x \<le> flt c" "float_str (flt c) = c" "c \<le> round_sig 10 17 (flt c)"
  shows "float_str x \<le> round_sig 10 17 (flt c)"
proof (rule ccontr)
  assume h: "\<not> float_str x \<le> round_sig 10 17 (flt c)"
  have "round_sig 10 17 x \<le> round_sig 10 17 (flt c)" using assms(1) by (intro round_sig_mono) simp_all
  with h have "flt (float_str x) = x" using shortest_from_cases[of 17 1 x] by (auto simp: float_str_def)
  moreover have "flt c \<le> flt (float_str x)" using h assms(3) by (intro flt.rnd_mono) simp
  ultimately have "x = flt c" using assms(1) by simp
  with h assms(2,3) show False by simp
qed

text \<open>What each transfer adds to the trace.\<close>

text \<open>A broadcast adds its transaction to the trace exactly when it was built and signed.\<close>

definition broadcast_made :: "evm_answers \<Rightarrow> bool" where
  "broadcast_made a \<longleftrightarrow> is_ok (ew_prepare a) \<and> is_ok (ew_sign a)"

definition broadcast_result :: "evm_answers \<Rightarrow> exn + string" where
  "broadcast_result a =
     res_bind (ew_prepare a) (\<lambda>_. res_bind (ew_sign a) (\<lambda>_. res_bind (ew_send a) (\<lambda>h.
     res_bind (ew_retry a retry_rpc (\<lambda>k. wait_for_transaction_receipt (ew_receipt a k))) (\<lambda>_. Inr h))))"

lemma broadcast_eq:
  "broadcast a tx d =
     (if broadcast_made a then d\<lparr>evm_sent := evm_sent d @ [tx]\<rparr> else d, broadcast_result a)"
  by (auto simp: broadcast_def broadcast_made_def broadcast_result_def andthen_def is_ok_def
      split: sum.splits)

lemma broadcast_result_made: "broadcast_result a = Inr h \<Longrightarrow> broadcast_made a"
  by (auto simp: broadcast_made_def broadcast_result_def res_bind_Inr_iff)

definition transfer_outcome :: "evm_answers \<Rightarrow> rat \<Rightarrow> string \<Rightarrow> deposit_result" where
  "transfer_outcome a amount why =
     (case broadcast_result a of Inl e \<Rightarrow> failed_transfer why | Inr h \<Rightarrow> done_transfer (Some h) amount)"

lemma catch_broadcast:
  "catching (andthen (broadcast a tx) (\<lambda>h. ret (done_transfer (Some h) amount)))
     (\<lambda>e. ret (failed_transfer why)) d =
   (if broadcast_made a then d\<lparr>evm_sent := evm_sent d @ [tx]\<rparr> else d, Inr (transfer_outcome a amount why))"
  by (simp add: catching_def andthen_def broadcast_eq transfer_outcome_def split: sum.splits)

lemma transfer_outcome_success:
  "dr_success (transfer_outcome a amount why) \<longleftrightarrow> is_ok (broadcast_result a)"
  by (simp add: transfer_outcome_def failed_transfer_def done_transfer_def is_ok_def split: sum.splits)

text \<open>The checks before a transfer, and what follows when they pass.\<close>

definition deposit_ready :: "deposit_answers \<Rightarrow> rat \<Rightarrow> bool" where
  "deposit_ready a amount \<longleftrightarrow> is_ok (dw_addresses a) \<and>
     (\<exists>u e. dw_usdc a = Inr u \<and> \<not> u < amount \<and> dw_eth a = Inr e \<and> \<not> e < MIN_ETH_FOR_BRIDGE)"

lemma deposit_eq:
  assumes "deposit_ready a (float_str x)"
  shows "deposit a x d =
    (if broadcast_made (dw_tx a)
     then d\<lparr>evm_sent := evm_sent d @ [TokenTransfer (dp_bridge d) (raw_units (10 ^ 6) (float_str x))]\<rparr> else d,
     Inr (transfer_outcome (dw_tx a) (float_str x) ''Bridge transfer tx failed''))"
  using assms
  by (auto simp: deposit_def deposit_ready_def Let_def is_ok_iff andthen_def catching_def broadcast_eq
      transfer_outcome_def failed_transfer_def done_transfer_def split: sum.splits)

lemma deposit_not_ready:
  assumes "\<not> deposit_ready a (float_str x)"
  shows "fst (deposit a x d) = d" "snd (deposit a x d) = Inr r \<Longrightarrow> \<not> dr_success r \<and> dr_tx_hash r = None"
  using assms
  by (auto simp: deposit_def deposit_ready_def Let_def is_ok_def andthen_def failed_transfer_def
      split: sum.splits if_splits)

lemma deposit_trace:
  "evm_sent (fst (deposit a x d)) = evm_sent d \<or>
   evm_sent (fst (deposit a x d)) = evm_sent d @ [TokenTransfer (dp_bridge d) (raw_units (10 ^ 6) (float_str x))]"
  "hl_withdrawals (fst (deposit a x d)) = hl_withdrawals d"
  using deposit_eq[of a x d] deposit_not_ready(1)[of a x d] by (cases "deposit_ready a (float_str x)"; simp)+

lemma deposit_result_shape:
  assumes "snd (deposit a x d) = Inr r"
  shows "if dr_success r then dr_amount r = Some (float_str x) else dr_tx_hash r = None"
  using assms deposit_eq[of a x d] deposit_not_ready(2)[of a x d r]
  by (cases "deposit_ready a (float_str x)")
    (auto simp: transfer_outcome_def failed_transfer_def done_transfer_def split: sum.splits)

lemma transfer_usdc_evm_trace:
  "evm_sent (fst (transfer_usdc_evm a dest x d)) = evm_sent d \<or>
   evm_sent (fst (transfer_usdc_evm a dest x d)) = evm_sent d @ [TokenTransfer dest (raw_units (10 ^ 6) (float_str x))]"
  "hl_withdrawals (fst (transfer_usdc_evm a dest x d)) = hl_withdrawals d"
  by (auto simp: transfer_usdc_evm_def Let_def andthen_def catching_def broadcast_eq split: sum.splits prod.splits)

lemma transfer_eth_evm_trace:
  "evm_sent (fst (transfer_eth_evm a dest x d)) = evm_sent d \<or>
   evm_sent (fst (transfer_eth_evm a dest x d)) = evm_sent d @ [EthTransfer dest (raw_units (10 ^ 18) (float_str x))]"
  "hl_withdrawals (fst (transfer_eth_evm a dest x d)) = hl_withdrawals d"
  by (auto simp: transfer_eth_evm_def Let_def andthen_def catching_def broadcast_eq split: sum.splits prod.splits)

lemma withdraw_trace:
  "hl_withdrawals (fst (withdraw a x d)) = hl_withdrawals d \<or>
   hl_withdrawals (fst (withdraw a x d)) = hl_withdrawals d @ [(float_str x, dp_wallet_address d)]"
  "evm_sent (fst (withdraw a x d)) = evm_sent d"
  by (auto simp: withdraw_def Let_def split: sum.splits option.splits)

lemma sol_outcome_trace:
  "sol_sent (fst (sol_outcome a ixs amount why t)) = sol_sent t \<or>
   sol_sent (fst (sol_outcome a ixs amount why t)) = sol_sent t @ [ixs]"
  by (auto simp: sol_outcome_def build_sign_send_def andthen_def catching_def split: sum.splits prod.splits)

lemma transfer_sol_trace:
  "sol_sent (fst (transfer_sol_to a dest x t)) = sol_sent t \<or>
   sol_sent (fst (transfer_sol_to a dest x t)) = sol_sent t @ [[SolTransfer dest (raw_units (10 ^ 9) (float_str x))]]"
  using sol_outcome_trace by (auto simp: transfer_sol_to_def Let_def andthen_def split: sum.splits)

lemma transfer_usdc_sol_trace:
  "sol_sent (fst (transfer_usdc_sol a dest x t)) = sol_sent t \<or>
   (\<exists>b. sol_sent (fst (transfer_usdc_sol a dest x t)) = sol_sent t @
     [(if b then [CreateTokenAccount dest] else []) @ [TokenTransferChecked dest (raw_units (10 ^ 6) (float_str x))]])"
proof -
  let ?ixs = "\<lambda>b. (if b then [CreateTokenAccount dest] else [])
      @ [TokenTransferChecked dest (raw_units (10 ^ 6) (float_str x))]"
  have "fst (transfer_usdc_sol a dest x t) = t \<or>
    (\<exists>b. transfer_usdc_sol a dest x t = sol_outcome a (?ixs b) (float_str x) ''USDC transfer failed'' t)"
    by (auto simp: transfer_usdc_sol_def Let_def andthen_def simp del: append.simps split: sum.splits)
  then show ?thesis using sol_outcome_trace[of a _ "float_str x" "''USDC transfer failed''" t] by metis
qed

text \<open>The gas funder as a filter over the wallets that it reaches.\<close>

definition gas_low :: "gas_funder \<Rightarrow> gas_answers \<Rightarrow> bool" where
  "gas_low g a = (case ga_balance a of Inl _ \<Rightarrow> False | Inr b \<Rightarrow> b < gf_min_balance g)"

definition gas_covered :: "gas_funder \<Rightarrow> gas_answers \<Rightarrow> bool" where
  "gas_covered g a = (case ga_funder a of Inl _ \<Rightarrow> False | Inr f \<Rightarrow> \<not> f < dec (gf_top_up g + 1/1000))"

definition gas_stops :: "gas_funder \<Rightarrow> gas_answers \<Rightarrow> bool" where
  "gas_stops g a \<longleftrightarrow> gas_low g a \<and> is_ok (ga_funder a) \<and> \<not> gas_covered g a"

definition gas_sends :: "gas_funder \<Rightarrow> gas_answers \<Rightarrow> bool" where
  "gas_sends g a \<longleftrightarrow> gas_low g a \<and> gas_covered g a \<and> is_ok (ga_prepare a)"

definition gas_fails :: "gas_funder \<Rightarrow> gas_answers \<Rightarrow> bool" where
  "gas_fails g a \<longleftrightarrow> \<not> is_ok (ga_balance a)
     \<or> gas_low g a \<and> \<not> (is_ok (ga_funder a) \<and> is_ok (ga_prepare a) \<and> is_ok (ga_send a))"

definition reached :: "gas_funder \<Rightarrow> (nat \<Rightarrow> gas_answers) \<Rightarrow> (nat \<times> string) list \<Rightarrow> (nat \<times> string) list" where
  "reached g ans xs = takeWhile (\<lambda>(k, _). \<not> gas_stops g (ans k)) xs"

lemma fund_user_eq:
  "fund_user a addr g =
     (if gas_sends g a then g\<lparr>gf_sent := gf_sent g @ [(addr, raw_units (10 ^ 18) (gf_top_up g))]\<rparr> else g,
      if gas_stops g a then GasStop else if gas_fails g a then GasError
      else if gas_low g a then GasFunded else GasSkipped)"
  by (auto simp: fund_user_def send_eth_def andthen_def gas_sends_def gas_stops_def gas_fails_def gas_low_def
      gas_covered_def is_ok_def split: sum.splits)

lemma gas_params_cong:
  assumes "gf_top_up g = gf_top_up h" "gf_min_balance g = gf_min_balance h"
  shows "gas_low g = gas_low h" "gas_covered g = gas_covered h" "gas_stops g = gas_stops h"
    "gas_sends g = gas_sends h" "gas_fails g = gas_fails h"
proof -
  show low: "gas_low g = gas_low h" and covered: "gas_covered g = gas_covered h"
    using assms by (auto simp: gas_low_def gas_covered_def fun_eq_iff split: sum.splits)
  show "gas_stops g = gas_stops h" "gas_sends g = gas_sends h" "gas_fails g = gas_fails h"
    by (simp_all add: gas_stops_def gas_sends_def gas_fails_def low covered fun_eq_iff)
qed

lemma gas_sent_cong [simp]:
  "gas_stops (g\<lparr>gf_sent := x\<rparr>) = gas_stops g" "gas_sends (g\<lparr>gf_sent := x\<rparr>) = gas_sends g"
  "gas_fails (g\<lparr>gf_sent := x\<rparr>) = gas_fails g" "gas_low (g\<lparr>gf_sent := x\<rparr>) = gas_low g"
  "reached (g\<lparr>gf_sent := x\<rparr>) = reached g"
  using gas_params_cong[of "g\<lparr>gf_sent := x\<rparr>" g] by (simp_all add: reached_def fun_eq_iff)

lemma reached_Cons [simp]:
  "reached g ans [] = []"
  "reached g ans ((k, addr) # xs) = (if gas_stops g (ans k) then [] else (k, addr) # reached g ans xs)"
  by (simp_all add: reached_def)

definition top_ups :: "gas_funder \<Rightarrow> (nat \<Rightarrow> gas_answers) \<Rightarrow> (nat \<times> string) list \<Rightarrow> (string \<times> int) list" where
  "top_ups g ans xs = map (\<lambda>(_, addr). (addr, raw_units (10 ^ 18) (gf_top_up g))) (filter (\<lambda>(k, _). gas_sends g (ans k)) xs)"

definition count_by :: "(gas_answers \<Rightarrow> bool) \<Rightarrow> (nat \<Rightarrow> gas_answers) \<Rightarrow> (nat \<times> string) list \<Rightarrow> nat" where
  "count_by P ans xs = length (filter (\<lambda>(k, _). P (ans k)) xs)"

lemma count_by_Cons [simp]:
  "count_by P ans [] = 0"
  "count_by P ans ((k, addr) # xs) = (if P (ans k) then 1 else 0) + count_by P ans xs"
  by (simp_all add: count_by_def)

lemma top_ups_Cons [simp]:
  "top_ups g ans [] = []"
  "top_ups g ans ((k, addr) # xs) =
     (if gas_sends g (ans k) then [(addr, raw_units (10 ^ 18) (gf_top_up g))] else []) @ top_ups g ans xs"
  "top_ups (g\<lparr>gf_sent := x\<rparr>) = top_ups g"
  by (simp_all add: top_ups_def fun_eq_iff)

definition gas_done :: "gas_funder \<Rightarrow> gas_answers \<Rightarrow> bool" where
  "gas_done g a \<longleftrightarrow> gas_low g a \<and> \<not> gas_fails g a"

lemma gas_done_cong [simp]: "gas_done (g\<lparr>gf_sent := x\<rparr>) = gas_done g"
  by (simp add: gas_done_def fun_eq_iff)

lemma gas_stops_excludes: "gas_stops g a \<Longrightarrow> \<not> gas_sends g a"
  by (simp add: gas_stops_def gas_sends_def)

lemma fund_loop_reference:
  "fund_loop ans k addrs (c, n, e) g =
     (let xs = reached g ans (enumerate k addrs) in
      (g\<lparr>gf_sent := gf_sent g @ top_ups g ans xs\<rparr>,
       c + length xs + (if length xs < length addrs then 1 else 0),
       n + count_by (gas_done g) ans xs, e + count_by (gas_fails g) ans xs))"
  by (induction addrs arbitrary: k c n e g)
    (auto simp: fund_user_eq Let_def gas_stops_excludes gas_done_def)

section \<open>Theorems\<close>

text \<open>C38: A deposit to the exchange sends exactly one transaction, a transfer to the bridge, when its checks
  hold and the transaction can be built and signed; there is no separate approval. What it transfers is the
  requested amount in millionths of a dollar, cut to an integer (so off by less than one millionth), and
  not more than the wallet holds. It reports success, with the requested amount, exactly when the
  broadcast was confirmed, whatever the balance on the exchange says afterwards. When a check fails
  nothing is sent and no result is a success.\<close>

theorem bridge_deposit_exact:
  assumes "dw_usdc a = Inr (of_int n / 10 ^ 6)" "\<bar>n\<bar> < 10 ^ 28"
  shows "if deposit_ready a (float_str x)
    then let raw = trunc (dec (float_str x * 10 ^ 6)) in
      raw \<le> n \<and> (0 \<le> float_str x \<longrightarrow> \<lfloor>float_str x * 10 ^ 6\<rfloor> \<le> raw \<and> raw \<le> \<lceil>float_str x * 10 ^ 6\<rceil>) \<and>
      deposit a x d =
        (if broadcast_made (dw_tx a) then d\<lparr>evm_sent := evm_sent d @ [TokenTransfer (dp_bridge d) raw]\<rparr> else d,
         Inr (if is_ok (broadcast_result (dw_tx a))
              then done_transfer (Some (projr (broadcast_result (dw_tx a)))) (float_str x)
              else failed_transfer ''Bridge transfer tx failed''))
    else fst (deposit a x d) = d \<and> (\<forall>r. snd (deposit a x d) = Inr r \<longrightarrow> \<not> dr_success r \<and> dr_tx_hash r = None)"
proof (cases "deposit_ready a (float_str x)")
  case True
  then have "float_str x \<le> of_int n / 10 ^ 6" using assms(1) by (auto simp: deposit_ready_def)
  with raw_units_le[OF _ this assms(2)] raw_units_bounds[OF _ _ this assms(2)]
  have "raw_units (10 ^ 6) (float_str x) \<le> n"
    "0 \<le> float_str x \<longrightarrow> \<lfloor>float_str x * 10 ^ 6\<rfloor> \<le> raw_units (10 ^ 6) (float_str x) \<and>
       raw_units (10 ^ 6) (float_str x) \<le> \<lceil>float_str x * 10 ^ 6\<rceil>" by simp_all
  with True deposit_eq[OF True, of d] show ?thesis
    unfolding raw_units_def by (simp add: Let_def transfer_outcome_def is_ok_def split: sum.splits)
next
  case False
  with deposit_not_ready[OF False] show ?thesis by simp
qed

definition wit_deposit :: deposit_answers where
  "wit_deposit = \<lparr>dw_addresses = Inr (), dw_usdc = Inr (of_int 1000000000 / 10 ^ 6), dw_eth = Inr 1,
     dw_tx = \<lparr>ew_prepare = Inr (), ew_sign = Inr (), ew_send = Inr ''0xaa'',
       ew_receipt = (\<lambda>_ _. (Inr (Some True), 0)), ew_retry = plain_tenacity\<rparr>,
     dw_hl_before = Inl (ExternalError ''timeout''), dw_hl_polls = (\<lambda>_. Inl (ExternalError ''timeout''))\<rparr>"

definition wit_depositor :: depositor where
  "wit_depositor = \<lparr>dp_wallet_address = Some ''0x1'', dp_trader = None, dp_bridge = ''0xb'', evm_sent = [],
     hl_withdrawals = []\<rparr>"

lemma confirmed_at_once: "0 < n \<Longrightarrow> polls k = (Inr (Some True), t) \<Longrightarrow> wait_receipt polls k n = Inr ()"
  by (cases n) simp_all

lemma bridge_deposit_exact_witness:
  "deposit wit_deposit 500 wit_depositor =
     (wit_depositor\<lparr>evm_sent := [TokenTransfer ''0xb'' 500000000]\<rparr>, Inr (done_transfer (Some ''0xaa'') 500))"
proof -
  have f: "float_str 500 = 500" by code_simp
  have r: "trunc (dec (500 * 10 ^ 6)) = 500000000" using dec_int[of 500000000] by (simp add: trunc_def)
  have "deposit_ready wit_deposit (float_str 500)"
    by (simp add: deposit_ready_def wit_deposit_def f MIN_ETH_FOR_BRIDGE_def)
  moreover have "broadcast_result (dw_tx wit_deposit) = Inr ''0xaa''" "broadcast_made (dw_tx wit_deposit)"
    by (simp_all add: wit_deposit_def broadcast_result_def broadcast_made_def wait_for_transaction_receipt_def
        confirmed_at_once plain_tenacity_def)
  moreover have "dw_usdc wit_deposit = Inr (of_int 1000000000 / 10 ^ 6)" by (simp add: wit_deposit_def)
  ultimately show ?thesis
    using bridge_deposit_exact[of wit_deposit 1000000000 500 wit_depositor]
    by (simp add: f r wit_depositor_def Let_def)
qed

text \<open>C39: The funding loop equals its reference: with less than one top-up in the funder nobody is funded, and
  otherwise exactly the users below the threshold are topped up, in order, up to the first one whose
  top-up the balance of the funder no longer covers, and the summary counts them.\<close>

theorem gas_top_ups_exact:
  "check_and_fund_users (Inr addrs) (Inr f) ans g =
     (if f < gf_top_up g then (g, Inr (FunderLow (length addrs)))
      else let xs = reached g ans (enumerate 0 addrs) in
        (g\<lparr>gf_sent := gf_sent g @ top_ups g ans xs\<rparr>,
         Inr (GasSummary (length xs + (if length xs < length addrs then 1 else 0))
           (count_by (gas_done g) ans xs) (count_by (gas_fails g) ans xs))))"
  by (simp add: check_and_fund_users_def andthen_def fund_loop_reference Let_def)

end
