(* ===== verification/FundingJobs.thy ===== *)
theory FundingJobs
  imports Transfers
begin

text \<open>
  The funding jobs of the dashboard (\<open>backend/dashboard/api/funding.py\<close>) and the reconciler of stuck
  deposits (\<open>bot/services/deposit_reconciler.py\<close>) on the table \<open>deposit_history\<close>
  (\<open>migrations/010\<close>, \<open>012\<close>, \<open>016\<close>).

  The state is the table, the Redis locks with their expiry, the background tasks that run, and what the
  transfer objects have sent for each user. A request takes its lock and starts its task in one turn; a
  task does its work in one turn at its end, so the time it takes is the time between the two turns.
  Job ids and the clock are arguments; so are the answers of Redis, of the database and of the chains.
  \<open>MAX_AUTO_BRIDGE_USDC\<close> has its default. Texts for people are abbreviated.
\<close>

section \<open>The table\<close>

datatype direction = Dir_deposit | Dir_withdraw | Dir_wallet_transfer
datatype job_status = Job_pending | Job_running | Job_completed | Job_failed
datatype deposit_stage = Initiated | Bridge_confirmed | Hl_credited

record funding_row =
  fr_user_id :: string
  fr_direction :: direction
  fr_amount_usdc :: pyfloat
  fr_status :: job_status
  fr_stage :: deposit_stage
  fr_approve_tx_hash :: "string option"
  fr_bridge_tx_hash :: "string option"
  fr_error :: "string option"
  fr_created_at :: datetime
  fr_completed_at :: "datetime option"

definition new_funding_row :: "string \<Rightarrow> direction \<Rightarrow> pyfloat \<Rightarrow> datetime \<Rightarrow> funding_row" where
  "new_funding_row u dir x now = \<lparr>fr_user_id = u, fr_direction = dir, fr_amount_usdc = real_column x,
     fr_status = Job_pending, fr_stage = Initiated, fr_approve_tx_hash = None, fr_bridge_tx_hash = None,
     fr_error = None, fr_created_at = now, fr_completed_at = None\<rparr>"

datatype job_kind = Deposit_job | Withdraw_job | Transfer_job string string string

record funding_job =
  fj_user :: string
  fj_kind :: job_kind
  fj_amount :: pyfloat
  fj_started :: datetime

record funding_state =
  fu_rows :: "(string, funding_row) dict"
  fu_locks :: "string \<rightharpoonup> string \<times> datetime"
  fu_jobs :: "(string, funding_job) dict"
  fu_evm :: "(string \<times> evm_tx) list"
  fu_hl :: "(string \<times> rat \<times> string option) list"
  fu_sol :: "(string \<times> sol_ix list) list"

definition funding_init :: funding_state where
  "funding_init = \<lparr>fu_rows = [], fu_locks = (\<lambda>_. None), fu_jobs = [], fu_evm = [], fu_hl = [], fu_sol = []\<rparr>"

section \<open>Requests\<close>

datatype http_error = HttpError nat string | ServerCrash exn

record request_answers =
  rq_redis :: "exn + unit"
  rq_insert :: "exn + unit"
  rq_delete :: "exn + unit"

definition MAX_AUTO_BRIDGE_USDC :: pyfloat where "MAX_AUTO_BRIDGE_USDC = 25000"

definition LOCK_TTL :: int where "LOCK_TTL = seconds 600"

definition lock_free :: "datetime \<Rightarrow> string \<Rightarrow> funding_state \<Rightarrow> bool" where
  "lock_free now u s = (case fu_locks s u of None \<Rightarrow> True | Some (_, expires) \<Rightarrow> expires \<le> now)"

definition insert_row :: "string \<Rightarrow> funding_row \<Rightarrow> exn + unit \<Rightarrow> funding_state \<Rightarrow> exn + funding_state" where
  "insert_row j r io s =
     (case io of
        Inl e \<Rightarrow> Inl e
      | Inr _ \<Rightarrow> if dict_get j (fu_rows s) = None then Inr (s\<lparr>fu_rows := dict_put j r (fu_rows s)\<rparr>)
               else Inl (ExternalError ''duplicate key''))"

definition direction_of :: "job_kind \<Rightarrow> direction" where
  "direction_of k = (case k of Deposit_job \<Rightarrow> Dir_deposit | Withdraw_job \<Rightarrow> Dir_withdraw
     | Transfer_job _ _ _ \<Rightarrow> Dir_wallet_transfer)"

definition create_job ::
  "request_answers \<Rightarrow> datetime \<Rightarrow> string \<Rightarrow> string \<Rightarrow> job_kind \<Rightarrow> pyfloat \<Rightarrow> funding_state \<Rightarrow>
     funding_state \<times> (http_error + string)" where
  "create_job a now u j k x s =
     (case rq_redis a of
        Inl e \<Rightarrow> (s, Inl (ServerCrash e))
      | Inr _ \<Rightarrow>
          if \<not> lock_free now u s then (s, Inl (HttpError 409 ''A funding operation is already in progress''))
          else
            let s1 = s\<lparr>fu_locks := (fu_locks s)(u \<mapsto> (j, now + LOCK_TTL))\<rparr>
            in case insert_row j (new_funding_row u (direction_of k) x now) (rq_insert a) s1 of
                 Inl _ \<Rightarrow>
                   (case rq_delete a of
                      Inl e \<Rightarrow> (s1, Inl (ServerCrash e))
                    | Inr _ \<Rightarrow> (s1\<lparr>fu_locks := (fu_locks s1)(u := None)\<rparr>,
                              Inl (HttpError 500 ''Failed to create job'')))
               | Inr s2 \<Rightarrow>
                   (s2\<lparr>fu_jobs := dict_put j \<lparr>fj_user = u, fj_kind = k, fj_amount = x, fj_started = now\<rparr> (fu_jobs s2)\<rparr>,
                    Inr j))"

text \<open>The field check of the request models, and the cap.\<close>

definition deposit_to_hl ::
  "request_answers \<Rightarrow> datetime \<Rightarrow> string \<Rightarrow> string \<Rightarrow> pyfloat \<Rightarrow> funding_state \<Rightarrow>
     funding_state \<times> (http_error + string)" where
  "deposit_to_hl a now u j x s =
     (if \<not> x > 0 then (s, Inl (HttpError 422 ''greater_than''))
      else if x > MAX_AUTO_BRIDGE_USDC then (s, Inl (HttpError 400 ''Maximum bridge deposit''))
      else create_job a now u j Deposit_job x s)"

record withdraw_check =
  wc_user :: "exn + user_row option"
  wc_signer :: "string option \<Rightarrow> exn + unit"
  wc_state :: "exn + clearinghouse"

definition withdrawable_of :: "withdraw_check \<Rightarrow> settings \<Rightarrow> string \<Rightarrow> exn + pyfloat" where
  "withdrawable_of w st u =
     res_bind (from_user_id (wc_user w) u) (\<lambda>c.
     res_bind (snd (get_hl_trader st (wc_signer w) c)) (\<lambda>t. Inr (get_withdrawable_balance (wc_state w) t)))"

definition withdraw_from_hl ::
  "withdraw_check \<Rightarrow> settings \<Rightarrow> request_answers \<Rightarrow> datetime \<Rightarrow> string \<Rightarrow> string \<Rightarrow> pyfloat \<Rightarrow> funding_state \<Rightarrow>
     funding_state \<times> (http_error + string)" where
  "withdraw_from_hl w st a now u j x s =
     (if \<not> x > 0 then (s, Inl (HttpError 422 ''greater_than''))
      else case withdrawable_of w st u of
        Inl e \<Rightarrow> (s, Inl (HttpError 500 ''Failed to check withdrawable balance''))
      | Inr b \<Rightarrow>
          if x > b then (s, Inl (HttpError 400 ''not available for withdrawal''))
          else create_job a now u j Withdraw_job x s)"

text \<open>The digits that \<open>int(dest, 16)\<close> takes after the prefix: single underscores may stand
  between them and before the first.\<close>

definition is_hex :: "char \<Rightarrow> bool" where
  "is_hex c = (is_digit c \<or> 97 \<le> (of_char (lower c) :: nat) \<and> of_char (lower c) \<le> (102 :: nat))"

fun hex_body :: "string \<Rightarrow> bool" where
  "hex_body [] = False"
| "hex_body [c] = is_hex c"
| "hex_body (c # d # cs) = ((c = CHR ''_'' \<and> is_hex d \<or> is_hex c) \<and> hex_body (d # cs))"

definition valid_evm_address :: "string \<Rightarrow> bool" where
  "valid_evm_address dest = (take 2 dest = ''0x'' \<and> length dest = 42 \<and> hex_body (drop 2 dest))"

definition valid_tokens :: "string \<Rightarrow> string list option" where
  "valid_tokens chain = (if chain = ''arbitrum'' then Some [''USDC'', ''ETH'']
     else if chain = ''solana'' then Some [''USDC'', ''SOL''] else None)"

definition over_cap :: "string \<Rightarrow> pyfloat \<Rightarrow> bool" where
  "over_cap token x = (token = ''USDC'' \<and> x > MAX_AUTO_BRIDGE_USDC \<or> token = ''ETH'' \<and> x > flt (1/10)
     \<or> token = ''SOL'' \<and> x > 100)"

definition wallet_transfer ::
  "request_answers \<Rightarrow> datetime \<Rightarrow> string \<Rightarrow> string \<Rightarrow> pyfloat \<Rightarrow> string \<Rightarrow> string \<Rightarrow> string \<Rightarrow> funding_state \<Rightarrow>
     funding_state \<times> (http_error + string)" where
  "wallet_transfer a now u j x destination token chain s =
     (if \<not> x > 0 then (s, Inl (HttpError 422 ''greater_than''))
      else case valid_tokens chain of
        None \<Rightarrow> (s, Inl (HttpError 400 ''Supported chains: arbitrum, solana''))
      | Some tokens \<Rightarrow>
          if token \<notin> set tokens then (s, Inl (HttpError 400 ''Token not supported''))
          else
            let dest = strip destination
            in if chain = ''arbitrum'' \<and> \<not> valid_evm_address dest
               then (s, Inl (HttpError 400 ''Invalid EVM destination address''))
               else if chain \<noteq> ''arbitrum'' \<and> (length dest < 32 \<or> length dest > 44)
               then (s, Inl (HttpError 400 ''Invalid Solana destination address''))
               else if over_cap token x then (s, Inl (HttpError 400 ''Maximum transfer''))
               else create_job a now u j (Transfer_job dest token chain) x s)"

definition get_funding_job_status ::
  "exn + unit \<Rightarrow> string \<Rightarrow> string \<Rightarrow> funding_state \<Rightarrow> http_error + string \<times> funding_row" where
  "get_funding_job_status io u j s =
     (case io of
        Inl e \<Rightarrow> Inl (ServerCrash e)
      | Inr _ \<Rightarrow>
          (case dict_get j (fu_rows s) of
             Some r \<Rightarrow> if fr_user_id r = u then Inr (j, r) else Inl (HttpError 404 ''Job not found'')
           | None \<Rightarrow> Inl (HttpError 404 ''Job not found'')))"

text \<open>Rows of the same time stand in the order of the table.\<close>

definition get_funding_history ::
  "exn + unit \<Rightarrow> string \<Rightarrow> funding_state \<Rightarrow> http_error + (string \<times> funding_row) list" where
  "get_funding_history io u s =
     (case io of
        Inl e \<Rightarrow> Inl (ServerCrash e)
      | Inr _ \<Rightarrow> Inr (take 20 (sort_key (\<lambda>(_, r). - fr_created_at r)
                       (filter (\<lambda>(_, r). fr_user_id r = u) (fu_rows s)))))"

section \<open>Tasks\<close>

record job_answers =
  jb_running :: "exn + unit"
  jb_user :: "exn + user_row option"
  jb_client :: "exn + unit"
  jb_signer :: "string option \<Rightarrow> exn + unit"
  jb_deposit :: deposit_answers
  jb_withdraw :: withdraw_answers
  jb_sol :: sol_answers
  jb_update :: "exn + unit"
  jb_failed :: "exn + unit"
  jb_release :: "exn + unit"

definition update_row :: "string \<Rightarrow> (funding_row \<Rightarrow> funding_row) \<Rightarrow> exn + unit \<Rightarrow> (funding_state, unit) action" where
  "update_row j f io s =
     (case io of
        Inl e \<Rightarrow> (s, Inl e)
      | Inr _ \<Rightarrow>
          (case dict_get j (fu_rows s) of
             None \<Rightarrow> (s, Inr ())
           | Some r \<Rightarrow> (s\<lparr>fu_rows := dict_put j (f r) (fu_rows s)\<rparr>, Inr ())))"

definition job_context :: "job_answers \<Rightarrow> string \<Rightarrow> exn + user_context" where
  "job_context a u = res_bind (from_user_id (jb_user a) u) (\<lambda>c. res_bind (jb_client a) (\<lambda>_. Inr c))"

definition with_depositor ::
  "job_answers \<Rightarrow> settings \<Rightarrow> string \<Rightarrow> string \<Rightarrow> (depositor, 'a) action \<Rightarrow> (funding_state, 'a) action" where
  "with_depositor a st bridge u m s =
     (case res_bind (job_context a u) (hl_depositor_init st (jb_signer a) bridge) of
        Inl e \<Rightarrow> (s, Inl e)
      | Inr d \<Rightarrow>
          (case m d of (d1, r) \<Rightarrow>
             (s\<lparr>fu_evm := fu_evm s @ map (Pair u) (evm_sent d1), fu_hl := fu_hl s @ map (Pair u) (hl_withdrawals d1)\<rparr>, r)))"

definition with_transferor ::
  "job_answers \<Rightarrow> string \<Rightarrow> (transferor, 'a) action \<Rightarrow> (funding_state, 'a) action" where
  "with_transferor a u m s =
     (case job_context a u of
        Inl e \<Rightarrow> (s, Inl e)
      | Inr c \<Rightarrow>
          (case m (solana_transferor_init c) of (t1, r) \<Rightarrow>
             (s\<lparr>fu_sol := fu_sol s @ map (Pair u) (sol_sent t1)\<rparr>, r)))"

definition row_failed :: "datetime \<Rightarrow> string option \<Rightarrow> funding_row \<Rightarrow> funding_row" where
  "row_failed now why r = r\<lparr>fr_status := Job_failed, fr_error := why, fr_completed_at := Some now\<rparr>"

definition amount_truthy :: "deposit_result \<Rightarrow> bool" where
  "amount_truthy r = (case dr_amount r of None \<Rightarrow> False | Some x \<Rightarrow> x \<noteq> 0)"

definition deposit_row :: "datetime \<Rightarrow> deposit_result \<Rightarrow> funding_row \<Rightarrow> funding_row" where
  "deposit_row now res r =
     (if dr_success res
      then r\<lparr>fr_status := Job_completed, fr_approve_tx_hash := dr_approve_tx_hash res,
             fr_bridge_tx_hash := dr_tx_hash res,
             fr_stage := (if amount_truthy res then Hl_credited else Bridge_confirmed),
             fr_completed_at := Some now\<rparr>
      else (row_failed now (dr_error res) r)
             \<lparr>fr_stage := (if truthy (dr_tx_hash res) then Bridge_confirmed else Initiated),
              fr_approve_tx_hash := dr_approve_tx_hash res, fr_bridge_tx_hash := dr_tx_hash res\<rparr>)"

definition completed_row :: "datetime \<Rightarrow> deposit_result \<Rightarrow> funding_row \<Rightarrow> funding_row" where
  "completed_row now res r =
     (if dr_success res then r\<lparr>fr_status := Job_completed, fr_completed_at := Some now\<rparr>
      else row_failed now (dr_error res) r)"

definition transfer_row :: "datetime \<Rightarrow> deposit_result \<Rightarrow> funding_row \<Rightarrow> funding_row" where
  "transfer_row now res r =
     (if dr_success res
      then r\<lparr>fr_status := Job_completed, fr_bridge_tx_hash := dr_tx_hash res, fr_completed_at := Some now\<rparr>
      else row_failed now (dr_error res) r)"

definition execute_deposit ::
  "job_answers \<Rightarrow> settings \<Rightarrow> string \<Rightarrow> datetime \<Rightarrow> string \<Rightarrow> string \<Rightarrow> pyfloat \<Rightarrow> (funding_state, unit) action" where
  "execute_deposit a st bridge now u j x =
     andthen (update_row j (\<lambda>r. r\<lparr>fr_status := Job_running\<rparr>) (jb_running a)) (\<lambda>_.
     andthen (with_depositor a st bridge u (deposit (jb_deposit a) x)) (\<lambda>res.
       update_row j (deposit_row now res) (jb_update a)))"

definition execute_withdraw ::
  "job_answers \<Rightarrow> settings \<Rightarrow> string \<Rightarrow> datetime \<Rightarrow> string \<Rightarrow> string \<Rightarrow> pyfloat \<Rightarrow> (funding_state, unit) action" where
  "execute_withdraw a st bridge now u j x =
     andthen (update_row j (\<lambda>r. r\<lparr>fr_status := Job_running\<rparr>) (jb_running a)) (\<lambda>_.
     andthen (with_depositor a st bridge u (withdraw (jb_withdraw a) x)) (\<lambda>res.
       update_row j (completed_row now res) (jb_update a)))"

definition execute_wallet_transfer ::
  "job_answers \<Rightarrow> settings \<Rightarrow> string \<Rightarrow> datetime \<Rightarrow> string \<Rightarrow> string \<Rightarrow> pyfloat \<Rightarrow> string \<Rightarrow> string \<Rightarrow> string \<Rightarrow>
     (funding_state, unit) action" where
  "execute_wallet_transfer a st bridge now u j x dest token chain =
     andthen (update_row j (\<lambda>r. r\<lparr>fr_status := Job_running\<rparr>) (jb_running a)) (\<lambda>_.
     andthen
       (if chain = ''solana''
        then with_transferor a u
               (if token = ''SOL'' then transfer_sol_to (jb_sol a) dest x else transfer_usdc_sol (jb_sol a) dest x)
        else with_depositor a st bridge u
               (if token = ''ETH'' then transfer_eth_evm (jb_deposit a) dest x
                else transfer_usdc_evm (jb_deposit a) dest x))
       (\<lambda>res. update_row j (transfer_row now res) (jb_update a)))"

definition execute_job ::
  "job_answers \<Rightarrow> settings \<Rightarrow> string \<Rightarrow> datetime \<Rightarrow> string \<Rightarrow> funding_job \<Rightarrow> (funding_state, unit) action" where
  "execute_job a st bridge now j b =
     (case fj_kind b of
        Deposit_job \<Rightarrow> execute_deposit a st bridge now (fj_user b) j (fj_amount b)
      | Withdraw_job \<Rightarrow> execute_withdraw a st bridge now (fj_user b) j (fj_amount b)
      | Transfer_job dest token chain \<Rightarrow>
          execute_wallet_transfer a st bridge now (fj_user b) j (fj_amount b) dest token chain)"

text \<open>The handler, and the lock: deleted by its key, whoever holds it.\<close>

definition job_handled ::
  "job_answers \<Rightarrow> settings \<Rightarrow> string \<Rightarrow> datetime \<Rightarrow> string \<Rightarrow> funding_job \<Rightarrow> (funding_state, unit) action" where
  "job_handled a st bridge now j b =
     catching (execute_job a st bridge now j b)
       (\<lambda>e. catching (update_row j (row_failed now (Some (exn_text e))) (jb_failed a)) (\<lambda>_. ret ()))"

definition release_lock :: "exn + unit \<Rightarrow> string \<Rightarrow> funding_state \<Rightarrow> funding_state" where
  "release_lock io u s = (case io of Inl _ \<Rightarrow> s | Inr _ \<Rightarrow> s\<lparr>fu_locks := (fu_locks s)(u := None)\<rparr>)"

definition finish_job :: "job_answers \<Rightarrow> settings \<Rightarrow> string \<Rightarrow> datetime \<Rightarrow> string \<Rightarrow> funding_state \<Rightarrow> funding_state" where
  "finish_job a st bridge now j s =
     (case dict_get j (fu_jobs s) of
        None \<Rightarrow> s
      | Some b \<Rightarrow>
          let s1 = release_lock (jb_release a) (fj_user b) (fst (job_handled a st bridge now j b s))
          in s1\<lparr>fu_jobs := dict_del j (fu_jobs s1)\<rparr>)"

section \<open>The reconciler\<close>

record recon_answers =
  rc_user :: "exn + user_row option"
  rc_signer :: "string option \<Rightarrow> exn + unit"
  rc_state :: "exn + clearinghouse"
  rc_update :: "exn + unit"

definition STUCK_THRESHOLD :: int where "STUCK_THRESHOLD = seconds (5 * 60)"

definition stuck_rows :: "datetime \<Rightarrow> funding_state \<Rightarrow> (string \<times> funding_row) list" where
  "stuck_rows now s =
     sort_key (\<lambda>(_, r). fr_created_at r)
       (filter (\<lambda>(_, r). fr_direction r = Dir_deposit \<and> fr_stage r = Bridge_confirmed
                  \<and> fr_created_at r < now - STUCK_THRESHOLD) (fu_rows s))"

definition recon_balance :: "recon_answers \<Rightarrow> settings \<Rightarrow> string \<Rightarrow> exn + pyfloat" where
  "recon_balance a st u =
     res_bind (from_user_id (rc_user a) u) (\<lambda>c.
     res_bind (snd (get_hl_trader st (rc_signer a) c)) (\<lambda>t. Inr (get_deposited_balance (rc_state a) t)))"

definition credited_row :: "datetime \<Rightarrow> funding_row \<Rightarrow> funding_row" where
  "credited_row now r =
     (if fr_stage r = Bridge_confirmed
      then r\<lparr>fr_stage := Hl_credited, fr_status := Job_completed, fr_completed_at := Some now\<rparr> else r)"

definition reconcile_row ::
  "recon_answers \<Rightarrow> settings \<Rightarrow> datetime \<Rightarrow> string \<times> funding_row \<Rightarrow> (funding_state, bool) action" where
  "reconcile_row a st now jr =
     catching
       (andthen (lift_result (recon_balance a st (fr_user_id (snd jr)))) (\<lambda>b.
          if b > 0 then andthen (update_row (fst jr) (credited_row now) (rc_update a)) (\<lambda>_. ret True)
          else ret False))
       (\<lambda>_. ret False)"

fun reconcile_loop ::
  "(nat \<Rightarrow> recon_answers) \<Rightarrow> settings \<Rightarrow> datetime \<Rightarrow> nat \<Rightarrow> (string \<times> funding_row) list \<Rightarrow> nat \<times> nat \<Rightarrow>
     funding_state \<Rightarrow> funding_state \<times> nat \<times> nat" where
  "reconcile_loop ans st now k [] (rec, stuck) s = (s, rec, stuck)"
| "reconcile_loop ans st now k (jr # rest) (rec, stuck) s =
     (case reconcile_row (ans k) st now jr s of
        (s1, r) \<Rightarrow> reconcile_loop ans st now (Suc k) rest
                   (if r = Inr True then (rec + 1, stuck) else (rec, stuck + 1)) s1)"

definition reconcile_stuck_deposits ::
  "exn + unit \<Rightarrow> (nat \<Rightarrow> recon_answers) \<Rightarrow> settings \<Rightarrow> datetime \<Rightarrow> (funding_state, nat \<times> nat \<times> nat) action" where
  "reconcile_stuck_deposits io ans st now s =
     (case io of
        Inl e \<Rightarrow> (s, Inl e)
      | Inr _ \<Rightarrow>
          let rows = stuck_rows now s
          in if rows = [] then (s, Inr (0, 0, 0))
             else (case reconcile_loop ans st now 0 rows (0, 0) s of
                     (s1, rec, stuck) \<Rightarrow> (s1, Inr (length rows, rec, stuck))))"

section \<open>Turns\<close>

datatype funding_turn =
    Ask_deposit request_answers string string pyfloat
  | Ask_withdraw withdraw_check request_answers string string pyfloat
  | Ask_transfer request_answers string string pyfloat string string string
  | Job_ends job_answers string
  | Reconcile "exn + unit" "nat \<Rightarrow> recon_answers"

fun funding_step :: "settings \<Rightarrow> string \<Rightarrow> datetime \<times> funding_turn \<Rightarrow> funding_state \<Rightarrow> funding_state" where
  "funding_step st bridge (now, Ask_deposit a u j x) s = fst (deposit_to_hl a now u j x s)"
| "funding_step st bridge (now, Ask_withdraw w a u j x) s = fst (withdraw_from_hl w st a now u j x s)"
| "funding_step st bridge (now, Ask_transfer a u j x dest token chain) s =
     fst (wallet_transfer a now u j x dest token chain s)"
| "funding_step st bridge (now, Job_ends a j) s = finish_job a st bridge now j s"
| "funding_step st bridge (now, Reconcile io ans) s = fst (reconcile_stuck_deposits io ans st now s)"

definition funding_run :: "settings \<Rightarrow> string \<Rightarrow> (datetime \<times> funding_turn) list \<Rightarrow> funding_state" where
  "funding_run st bridge ts = fold (funding_step st bridge) ts funding_init"

section \<open>Lemmas\<close>

text \<open>What an accepted request guarantees of its job.\<close>

definition valid_job :: "job_kind \<Rightarrow> pyfloat \<Rightarrow> bool" where
  "valid_job k x \<longleftrightarrow> 0 < x \<and>
     (case k of
        Deposit_job \<Rightarrow> x \<le> MAX_AUTO_BRIDGE_USDC
      | Withdraw_job \<Rightarrow> True
      | Transfer_job dest token chain \<Rightarrow> \<not> over_cap token x \<and>
          (chain = ''arbitrum'' \<and> (token = ''USDC'' \<or> token = ''ETH'') \<and> valid_evm_address dest \<or>
           chain = ''solana'' \<and> (token = ''USDC'' \<or> token = ''SOL'') \<and> 32 \<le> length dest \<and> length dest \<le> 44))"

definition accepts :: "datetime \<Rightarrow> string \<Rightarrow> string \<Rightarrow> job_kind \<Rightarrow> pyfloat \<Rightarrow> funding_state \<Rightarrow> funding_state \<Rightarrow> bool" where
  "accepts now u j k x s s1 \<longleftrightarrow> lock_free now u s \<and> dict_get j (fu_rows s) = None \<and>
     s1 = s\<lparr>fu_locks := (fu_locks s)(u \<mapsto> (j, now + LOCK_TTL)),
            fu_rows := dict_put j (new_funding_row u (direction_of k) x now) (fu_rows s),
            fu_jobs := dict_put j \<lparr>fj_user = u, fj_kind = k, fj_amount = x, fj_started = now\<rparr> (fu_jobs s)\<rparr>"

definition refuses :: "datetime \<Rightarrow> string \<Rightarrow> funding_state \<Rightarrow> funding_state \<Rightarrow> bool" where
  "refuses now u s s1 \<longleftrightarrow> s1 = s \<or> lock_free now u s \<and> (\<exists>l. s1 = s\<lparr>fu_locks := (fu_locks s)(u := l)\<rparr>)"

lemma create_job_cases:
  "(\<exists>e. snd (create_job a now u j k x s) = Inl e) \<and> refuses now u s (fst (create_job a now u j k x s)) \<or>
   snd (create_job a now u j k x s) = Inr j \<and> accepts now u j k x s (fst (create_job a now u j k x s))"
  by (auto simp: create_job_def Let_def insert_row_def accepts_def refuses_def split: sum.splits if_splits)

lemma valid_tokens_Some:
  "valid_tokens chain = Some ts \<longleftrightarrow>
     chain = ''arbitrum'' \<and> ts = [''USDC'', ''ETH''] \<or> chain = ''solana'' \<and> ts = [''USDC'', ''SOL'']"
  by (auto simp: valid_tokens_def)

lemma deposit_to_hl_cases:
  "(\<exists>e. snd (deposit_to_hl a now u j x s) = Inl e) \<and> refuses now u s (fst (deposit_to_hl a now u j x s)) \<or>
   snd (deposit_to_hl a now u j x s) = Inr j \<and> valid_job Deposit_job x \<and>
     accepts now u j Deposit_job x s (fst (deposit_to_hl a now u j x s))"
  using create_job_cases[of a now u j Deposit_job x s]
  by (auto simp: deposit_to_hl_def valid_job_def refuses_def)

lemma withdraw_from_hl_cases:
  "(\<exists>e. snd (withdraw_from_hl w st a now u j x s) = Inl e) \<and> refuses now u s (fst (withdraw_from_hl w st a now u j x s)) \<or>
   snd (withdraw_from_hl w st a now u j x s) = Inr j \<and> valid_job Withdraw_job x \<and>
     (\<exists>b. withdrawable_of w st u = Inr b \<and> x \<le> b) \<and>
     accepts now u j Withdraw_job x s (fst (withdraw_from_hl w st a now u j x s))"
  using create_job_cases[of a now u j Withdraw_job x s]
  by (auto simp: withdraw_from_hl_def valid_job_def refuses_def split: sum.splits)

lemma wallet_transfer_cases:
  "(\<exists>e. snd (wallet_transfer a now u j x dest token chain s) = Inl e) \<and>
     refuses now u s (fst (wallet_transfer a now u j x dest token chain s)) \<or>
   snd (wallet_transfer a now u j x dest token chain s) = Inr j \<and>
     valid_job (Transfer_job (strip dest) token chain) x \<and>
     accepts now u j (Transfer_job (strip dest) token chain) x s (fst (wallet_transfer a now u j x dest token chain s))"
proof (cases "0 < x \<and> (\<exists>ts. valid_tokens chain = Some ts \<and> token \<in> set ts) \<and>
    (if chain = ''arbitrum'' then valid_evm_address (strip dest) else 32 \<le> length (strip dest) \<and> length (strip dest) \<le> 44) \<and>
    \<not> over_cap token x")
  case True
  then have "wallet_transfer a now u j x dest token chain s =
      create_job a now u j (Transfer_job (strip dest) token chain) x s"
    by (auto simp: wallet_transfer_def Let_def split: if_splits)
  moreover have "valid_job (Transfer_job (strip dest) token chain) x"
    using True by (auto simp: valid_job_def valid_tokens_Some)
  ultimately show ?thesis using create_job_cases[of a now u j "Transfer_job (strip dest) token chain" x s] by simp
next
  case False
  then have "\<exists>e. wallet_transfer a now u j x dest token chain s = (s, Inl e)"
    by (auto simp: wallet_transfer_def Let_def split: option.splits if_splits)
  then show ?thesis by (auto simp: refuses_def)
qed

text \<open>Rows: what identifies a row stays, and no row gets stuck.\<close>

definition row_profile :: "funding_row \<Rightarrow> string \<times> direction \<times> pyfloat \<times> datetime" where
  "row_profile r = (fr_user_id r, fr_direction r, fr_amount_usdc r, fr_created_at r)"

definition profile :: "funding_state \<Rightarrow> (string \<times> string \<times> direction \<times> pyfloat \<times> datetime) list" where
  "profile s = map (\<lambda>(i, r). (i, row_profile r)) (fu_rows s)"

definition unstuck :: "funding_state \<Rightarrow> bool" where
  "unstuck s \<longleftrightarrow> (\<forall>(i, r) \<in> set (fu_rows s). fr_stage r \<noteq> Bridge_confirmed)"

definition keeps_rows :: "funding_state \<Rightarrow> funding_state \<Rightarrow> bool" where
  "keeps_rows s s1 \<longleftrightarrow> profile s1 = profile s \<and> (unstuck s \<longrightarrow> unstuck s1)"

definition ledger :: "funding_state \<Rightarrow> (string \<times> evm_tx) list \<times> (string \<times> rat \<times> string option) list \<times>
    (string \<times> sol_ix list) list" where
  "ledger s = (fu_evm s, fu_hl s, fu_sol s)"

definition harmless :: "(funding_row \<Rightarrow> funding_row) \<Rightarrow> bool" where
  "harmless f \<longleftrightarrow> (\<forall>r. row_profile (f r) = row_profile r \<and>
     (fr_stage r \<noteq> Bridge_confirmed \<longrightarrow> fr_stage (f r) \<noteq> Bridge_confirmed))"

lemma keeps_rows_refl [simp]: "keeps_rows s s"
  by (simp add: keeps_rows_def)

lemma keeps_rows_trans: "keeps_rows s s1 \<Longrightarrow> keeps_rows s1 s2 \<Longrightarrow> keeps_rows s s2"
  by (auto simp: keeps_rows_def)

lemma profile_ids: "map fst (fu_rows s) = map fst (profile s)"
  by (simp add: profile_def comp_def case_prod_beta)

lemma keeps_rows_dict: "keeps_rows s s1 \<Longrightarrow> dict_ok (fu_rows s1) \<longleftrightarrow> dict_ok (fu_rows s)"
  by (simp add: dict_ok_def profile_ids keeps_rows_def)

lemma dict_put_existing:
  assumes "dict_ok d" "dict_get k d = Some r"
  shows "dict_put k v d = map (\<lambda>(i, w). (i, if i = k then v else w)) d"
    "(k, w) \<in> set d \<Longrightarrow> w = r"
proof -
  have "(k, r) \<in> set d" using assms dict_get_set by metis
  then have "k \<in> set (map fst d)" by force
  then show "dict_put k v d = map (\<lambda>(i, w). (i, if i = k then v else w)) d" unfolding dict_put_def by simp
  show "(k, w) \<in> set d \<Longrightarrow> w = r" using assms(2) dict_get_set[OF assms(1), of k w] by simp
qed

lemma update_row_keeps:
  assumes "dict_ok (fu_rows s)" "harmless f"
  shows "keeps_rows s (fst (update_row j f io s)) \<and> ledger (fst (update_row j f io s)) = ledger s \<and>
    fu_jobs (fst (update_row j f io s)) = fu_jobs s \<and> fu_locks (fst (update_row j f io s)) = fu_locks s"
proof (cases "is_ok io \<and> dict_get j (fu_rows s) \<noteq> None")
  case False
  then have "fst (update_row j f io s) = s" by (auto simp: update_row_def is_ok_def split: sum.splits option.splits)
  then show ?thesis by simp
next
  case True
  then obtain r where r: "dict_get j (fu_rows s) = Some r" by auto
  have eq: "fst (update_row j f io s) = s\<lparr>fu_rows := map (\<lambda>(i, w). (i, if i = j then f r else w)) (fu_rows s)\<rparr>"
    using True r dict_put_existing(1)[OF assms(1) r, of "f r"] by (auto simp: update_row_def is_ok_iff)
  have "row_profile (if i = j then f r else w) = row_profile w \<and>
      (fr_stage w \<noteq> Bridge_confirmed \<longrightarrow> fr_stage (if i = j then f r else w) \<noteq> Bridge_confirmed)"
    if "(i, w) \<in> set (fu_rows s)" for i w
    using that assms(2) dict_put_existing(2)[OF assms(1) r, of w] by (auto simp: harmless_def)
  then show ?thesis
    unfolding eq keeps_rows_def profile_def unstuck_def ledger_def by (auto simp: case_prod_beta)
qed

text \<open>The row updates of the tasks are harmless, those after a deposit because a positive amount
  never counts as missing and a failed transfer has no hash.\<close>

lemma harmless_updates:
  "harmless (\<lambda>r. r\<lparr>fr_status := Job_running\<rparr>)"
  "harmless (row_failed now why)"
  "harmless (completed_row now res)"
  "harmless (transfer_row now res)"
  by (simp_all add: harmless_def row_profile_def row_failed_def completed_row_def transfer_row_def)

lemma harmless_deposit_row:
  assumes "if dr_success res then dr_amount res = Some y else dr_tx_hash res = None" "0 < y"
  shows "harmless (deposit_row now res)"
  using assms
  by (auto simp: harmless_def row_profile_def row_failed_def deposit_row_def amount_truthy_def split: if_splits)

text \<open>Bounds on what one task sends.\<close>

fun evm_bounded :: "string \<Rightarrow> evm_tx \<Rightarrow> bool" where
  "evm_bounded bridge (TokenTransfer to raw) =
     (0 \<le> raw \<and> raw \<le> 25000 * 10 ^ 6 \<and> (to = bridge \<or> valid_evm_address to))"
| "evm_bounded bridge (EthTransfer to raw) = (0 \<le> raw \<and> raw \<le> 10 ^ 17 + 10 \<and> valid_evm_address to)"

fun sol_bounded :: "sol_ix \<Rightarrow> bool" where
  "sol_bounded (SolTransfer to raw) = (0 \<le> raw \<and> raw \<le> 100 * 10 ^ 9)"
| "sol_bounded (CreateTokenAccount to) = True"
| "sol_bounded (TokenTransferChecked to raw) = (0 \<le> raw \<and> raw \<le> 25000 * 10 ^ 6)"

definition sends_once :: "string \<Rightarrow> string \<Rightarrow> funding_state \<Rightarrow> funding_state \<Rightarrow> bool" where
  "sends_once bridge u s s1 \<longleftrightarrow> ledger s1 = ledger s \<or>
     (\<exists>tx. evm_bounded bridge tx \<and> ledger s1 = (fu_evm s @ [(u, tx)], fu_hl s, fu_sol s)) \<or>
     (\<exists>w. ledger s1 = (fu_evm s, fu_hl s @ [(u, w)], fu_sol s)) \<or>
     (\<exists>ixs. list_all sol_bounded ixs \<and> ledger s1 = (fu_evm s, fu_hl s, fu_sol s @ [(u, ixs)]))"

lemma raw_units_nonneg: "0 \<le> s \<Longrightarrow> 0 \<le> x \<Longrightarrow> 0 \<le> raw_units s x"
  by (simp add: raw_units_def trunc_def)

lemma float_str_nonneg: "0 < x \<Longrightarrow> 0 \<le> float_str x"
  by (simp add: less_imp_le)

lemma raw_units_caps:
  shows "x \<le> 25000 \<Longrightarrow> raw_units (10 ^ 6) (float_str x) \<le> 25000 * 10 ^ 6"
    and "x \<le> 100 \<Longrightarrow> raw_units (10 ^ 9) (float_str x) \<le> 100 * 10 ^ 9"
    and "x \<le> flt (1/10) \<Longrightarrow> raw_units (10 ^ 18) (float_str x) \<le> 10 ^ 17 + 10"
proof -
  have e: "flt 25000 = (25000 :: rat)" "float_str 25000 = 25000" "round_sig 10 17 25000 = 25000"
    "flt 100 = (100 :: rat)" "float_str 100 = 100" "round_sig 10 17 100 = 100"
    "float_str (flt (1/10)) = 1/10" "round_sig 10 17 (flt (1/10)) = 10000000000000001 / 10 ^ 17"
    by code_simp+
  show "x \<le> 25000 \<Longrightarrow> raw_units (10 ^ 6) (float_str x) \<le> 25000 * 10 ^ 6"
    using float_str_le[of x 25000] raw_units_le[of "10 ^ 6" "float_str x" "25000 * 10 ^ 6"] by (simp add: e)
  show "x \<le> 100 \<Longrightarrow> raw_units (10 ^ 9) (float_str x) \<le> 100 * 10 ^ 9"
    using float_str_le[of x 100] raw_units_le[of "10 ^ 9" "float_str x" "100 * 10 ^ 9"] by (simp add: e)
  show "x \<le> flt (1/10) \<Longrightarrow> raw_units (10 ^ 18) (float_str x) \<le> 10 ^ 17 + 10"
    using float_str_le[of x "1/10"] raw_units_le[of "10 ^ 18" "float_str x" "10 ^ 17 + 10"] by (simp add: e)
qed

definition tables :: "funding_state \<Rightarrow> (string, funding_row) dict \<times> (string, funding_job) dict \<times>
    (string \<rightharpoonup> string \<times> datetime)" where
  "tables s = (fu_rows s, fu_jobs s, fu_locks s)"

lemma hl_depositor_init_Inr:
  "hl_depositor_init st signer bridge c = Inr d \<Longrightarrow>
     dp_bridge d = bridge \<and> evm_sent d = [] \<and> hl_withdrawals d = [] \<and> dp_wallet_address d = uc_evm_address c"
  by (auto simp: hl_depositor_init_def split: sum.splits)

definition one_transfer :: "string \<Rightarrow> (depositor, 'a) action \<Rightarrow> bool" where
  "one_transfer bridge m \<longleftrightarrow> (\<forall>d. dp_bridge d = bridge \<longrightarrow> evm_sent d = [] \<longrightarrow> hl_withdrawals d = [] \<longrightarrow>
     evm_sent (fst (m d)) = [] \<and> length (hl_withdrawals (fst (m d))) \<le> 1 \<or>
     hl_withdrawals (fst (m d)) = [] \<and> (\<exists>tx. evm_bounded bridge tx \<and> evm_sent (fst (m d)) = [tx]))"

lemma short_list: "length xs \<le> Suc 0 \<Longrightarrow> xs = [] \<or> (\<exists>x. xs = [x])"
  by (cases xs) auto

lemma with_depositor_ledger:
  assumes "one_transfer bridge m"
  shows "sends_once bridge u s (fst (with_depositor a st bridge u m s)) \<and>
    tables (fst (with_depositor a st bridge u m s)) = tables s"
proof (cases "res_bind (job_context a u) (hl_depositor_init st (jb_signer a) bridge)")
  case (Inl e)
  then show ?thesis by (simp add: with_depositor_def sends_once_def)
next
  case (Inr d)
  then have d: "dp_bridge d = bridge" "evm_sent d = []" "hl_withdrawals d = []"
    by (auto simp: res_bind_Inr_iff dest: hl_depositor_init_Inr)
  with assms have "evm_sent (fst (m d)) = [] \<and> length (hl_withdrawals (fst (m d))) \<le> 1 \<or>
     hl_withdrawals (fst (m d)) = [] \<and> (\<exists>tx. evm_bounded bridge tx \<and> evm_sent (fst (m d)) = [tx])"
    unfolding one_transfer_def by blast
  with Inr show ?thesis
    by (auto simp: with_depositor_def sends_once_def ledger_def tables_def split: prod.splits dest!: short_list)
qed

lemma with_transferor_ledger:
  assumes "\<And>t. sol_sent t = [] \<Longrightarrow> sol_sent (fst (m t)) = [] \<or> (\<exists>ixs. list_all sol_bounded ixs \<and> sol_sent (fst (m t)) = [ixs])"
  shows "sends_once bridge u s (fst (with_transferor a u m s)) \<and> tables (fst (with_transferor a u m s)) = tables s"
proof (cases "job_context a u")
  case (Inl e)
  then show ?thesis by (simp add: with_transferor_def sends_once_def)
next
  case (Inr c)
  with assms[of "solana_transferor_init c"] show ?thesis
    by (auto simp: with_transferor_def sends_once_def ledger_def tables_def solana_transferor_init_def split: prod.splits)
qed

lemma one_transferI:
  assumes "\<And>d. dp_bridge d = bridge \<Longrightarrow> evm_sent (fst (m d)) = evm_sent d \<or> evm_sent (fst (m d)) = evm_sent d @ [tx]"
    and "\<And>d. hl_withdrawals (fst (m d)) = hl_withdrawals d" "evm_bounded bridge tx"
  shows "one_transfer bridge m"
  unfolding one_transfer_def
proof (intro allI impI)
  fix d :: depositor
  assume "dp_bridge d = bridge" "evm_sent d = []" "hl_withdrawals d = []"
  then show "evm_sent (fst (m d)) = [] \<and> length (hl_withdrawals (fst (m d))) \<le> 1 \<or>
     hl_withdrawals (fst (m d)) = [] \<and> (\<exists>tx. evm_bounded bridge tx \<and> evm_sent (fst (m d)) = [tx])"
    using assms(1)[of d] assms(2)[of d] assms(3) by auto
qed

lemma jobs_send_once:
  "valid_job Deposit_job x \<Longrightarrow> one_transfer bridge (deposit a x)"
  "one_transfer bridge (withdraw w x)"
  "0 < x \<Longrightarrow> \<not> over_cap ''USDC'' x \<Longrightarrow> valid_evm_address dest \<Longrightarrow> one_transfer bridge (transfer_usdc_evm a dest x)"
  "0 < x \<Longrightarrow> \<not> over_cap ''ETH'' x \<Longrightarrow> valid_evm_address dest \<Longrightarrow> one_transfer bridge (transfer_eth_evm a dest x)"
proof -
  have pos: "0 < x \<Longrightarrow> 0 \<le> raw_units (10 ^ n) (float_str x)" for n
    by (rule raw_units_nonneg) (simp_all add: less_imp_le)
  show "valid_job Deposit_job x \<Longrightarrow> one_transfer bridge (deposit a x)"
    using raw_units_caps(1)[of x] pos[of 6] deposit_trace[of a x]
    by (intro one_transferI[where tx = "TokenTransfer bridge (raw_units (10 ^ 6) (float_str x))"])
      (auto simp: valid_job_def MAX_AUTO_BRIDGE_USDC_def)
  show "one_transfer bridge (withdraw w x)"
    unfolding one_transfer_def
  proof (intro allI impI disjI1)
    fix d :: depositor
    assume "evm_sent d = []" "hl_withdrawals d = []"
    then show "evm_sent (fst (withdraw w x d)) = [] \<and> length (hl_withdrawals (fst (withdraw w x d))) \<le> 1"
      using withdraw_trace[of w x d] by auto
  qed
  show "0 < x \<Longrightarrow> \<not> over_cap ''USDC'' x \<Longrightarrow> valid_evm_address dest \<Longrightarrow> one_transfer bridge (transfer_usdc_evm a dest x)"
    using raw_units_caps(1)[of x] pos[of 6] transfer_usdc_evm_trace[of a dest x]
    by (intro one_transferI[where tx = "TokenTransfer dest (raw_units (10 ^ 6) (float_str x))"])
      (auto simp: over_cap_def MAX_AUTO_BRIDGE_USDC_def)
  show "0 < x \<Longrightarrow> \<not> over_cap ''ETH'' x \<Longrightarrow> valid_evm_address dest \<Longrightarrow> one_transfer bridge (transfer_eth_evm a dest x)"
    using raw_units_caps(3)[of x] pos[of 18] transfer_eth_evm_trace[of a dest x]
    by (intro one_transferI[where tx = "EthTransfer dest (raw_units (10 ^ 18) (float_str x))"])
      (auto simp: over_cap_def)
qed

definition job_effect :: "string \<Rightarrow> string \<Rightarrow> funding_state \<Rightarrow> funding_state \<Rightarrow> bool" where
  "job_effect bridge u s s1 \<longleftrightarrow> keeps_rows s s1 \<and> sends_once bridge u s s1 \<and> fu_jobs s1 = fu_jobs s \<and> fu_locks s1 = fu_locks s"

lemma sends_once_cong:
  "ledger s = ledger t \<Longrightarrow> ledger s1 = ledger t1 \<Longrightarrow> sends_once bridge u s s1 \<longleftrightarrow> sends_once bridge u t t1"
  by (simp add: sends_once_def ledger_def)

lemma keeps_rows_cong:
  "fu_rows s = fu_rows t \<Longrightarrow> fu_rows s1 = fu_rows t1 \<Longrightarrow> keeps_rows s s1 \<longleftrightarrow> keeps_rows t t1"
  by (simp add: keeps_rows_def profile_def unstuck_def)

lemma update_row_effect:
  assumes "dict_ok (fu_rows s)" "harmless f"
  shows "job_effect bridge u s (fst (update_row j f io s))"
  using update_row_keeps[OF assms, of j io] by (simp add: job_effect_def sends_once_def)

lemma job_effect_then_update:
  assumes "job_effect bridge u s s1" "dict_ok (fu_rows s)" "harmless f"
  shows "job_effect bridge u s (fst (update_row j f io s1))"
proof -
  have ok: "dict_ok (fu_rows s1)" using assms keeps_rows_dict by (auto simp: job_effect_def)
  show ?thesis
    using assms(1) update_row_keeps[OF ok assms(3), of j io] sends_once_cong[of s s s1 "fst (update_row j f io s1)"]
      keeps_rows_trans[of s s1]
    by (auto simp: job_effect_def)
qed

lemma job_steps:
  assumes ok: "dict_ok (fu_rows s)" and f: "harmless f"
    and m: "\<And>t. sends_once bridge u t (fst (m t)) \<and> tables (fst (m t)) = tables t"
    and g: "\<And>t t1 res. m t = (t1, Inr res) \<Longrightarrow> harmless (g res)"
  shows "job_effect bridge u s
    (fst (andthen (update_row j f io) (\<lambda>_. andthen m (\<lambda>res. update_row j (g res) io2)) s))"
proof -
  let ?s1 = "fst (update_row j f io s)"
  have k: "keeps_rows s ?s1" "ledger ?s1 = ledger s" "fu_jobs ?s1 = fu_jobs s" "fu_locks ?s1 = fu_locks s"
    using update_row_keeps[OF ok f, of j io] by auto
  obtain s2 r where m2: "m ?s1 = (s2, r)" by fastforce
  with m[of ?s1] have s2: "sends_once bridge u ?s1 s2" "tables s2 = tables ?s1" by auto
  have e2: "job_effect bridge u s s2"
    using k s2 sends_once_cong[of s ?s1 s2 s2] keeps_rows_cong[of s s ?s1 s2] by (simp add: job_effect_def tables_def)
  have e1: "job_effect bridge u s ?s1" by (rule update_row_effect[OF ok f])
  show ?thesis
  proof (cases "snd (update_row j f io s)")
    case (Inl e)
    then show ?thesis using e1 by (cases "update_row j f io s") (simp add: andthen_def)
  next
    case (Inr x)
    then have "andthen (update_row j f io) (\<lambda>_. andthen m (\<lambda>res. update_row j (g res) io2)) s =
        andthen m (\<lambda>res. update_row j (g res) io2) ?s1"
      by (cases "update_row j f io s") (simp add: andthen_def)
    then show ?thesis
      using e2 m2 job_effect_then_update[OF e2 ok] g[of ?s1 s2]
      by (cases r) (simp_all add: andthen_def)
  qed
qed

lemma with_depositor_result:
  "with_depositor a st bridge u m s = (s1, Inr res) \<Longrightarrow> \<exists>d. snd (m d) = Inr res"
  unfolding with_depositor_def
  by (auto split: sum.splits prod.splits) (metis snd_conv)

lemma execute_job_effect:
  assumes ok: "dict_ok (fu_rows s)" and v: "valid_job (fj_kind b) (fj_amount b)"
  shows "job_effect bridge (fj_user b) s (fst (execute_job a st bridge now j b s))"
proof (cases "fj_kind b")
  case Deposit_job
  have h: "harmless (deposit_row now res)"
    if "with_depositor a st bridge (fj_user b) (deposit (jb_deposit a) (fj_amount b)) t = (t1, Inr res)" for t t1 res
  proof -
    from with_depositor_result[OF that] obtain d where "snd (deposit (jb_deposit a) (fj_amount b) d) = Inr res" ..
    then show ?thesis
      using deposit_result_shape v by (intro harmless_deposit_row[where y = "float_str (fj_amount b)"])
        (auto simp: valid_job_def)
  qed
  show ?thesis
    unfolding execute_job_def Deposit_job execute_deposit_def job_kind.case
    by (rule job_steps[OF ok harmless_updates(1) with_depositor_ledger h])
      (use v Deposit_job jobs_send_once(1) in simp)
next
  case Withdraw_job
  show ?thesis
    unfolding execute_job_def Withdraw_job execute_withdraw_def job_kind.case
    by (rule job_steps[OF ok harmless_updates(1) with_depositor_ledger[OF jobs_send_once(2)] harmless_updates(3)])
next
  case (Transfer_job dest token chain)
  note v = v[unfolded Transfer_job valid_job_def job_kind.case]
  let ?m = "if chain = ''solana''
    then with_transferor a (fj_user b)
      (if token = ''SOL'' then transfer_sol_to (jb_sol a) dest (fj_amount b)
       else transfer_usdc_sol (jb_sol a) dest (fj_amount b))
    else with_depositor a st bridge (fj_user b)
      (if token = ''ETH'' then transfer_eth_evm (jb_deposit a) dest (fj_amount b)
       else transfer_usdc_evm (jb_deposit a) dest (fj_amount b))"
  have "sends_once bridge (fj_user b) t (fst (?m t)) \<and> tables (fst (?m t)) = tables t" for t
  proof (cases "chain = ''solana''")
    case True
    have pos: "0 \<le> raw_units (10 ^ n) (float_str (fj_amount b))" for n
      using v by (intro raw_units_nonneg) (simp_all add: less_imp_le)
    have "sol_sent (fst (transfer_sol_to (jb_sol a) dest (fj_amount b) t)) = [] \<or>
      (\<exists>ixs. list_all sol_bounded ixs \<and> sol_sent (fst (transfer_sol_to (jb_sol a) dest (fj_amount b) t)) = [ixs])"
      if "sol_sent t = []" "token = ''SOL''" for t
      using that v True transfer_sol_trace[of "jb_sol a" dest "fj_amount b" t] pos[of 9] raw_units_caps(2)[of "fj_amount b"]
      by (auto simp: over_cap_def)
    moreover have bounded: "list_all sol_bounded (if c then [CreateTokenAccount dest] else [])" for c by simp
    moreover have "sol_sent (fst (transfer_usdc_sol (jb_sol a) dest (fj_amount b) t)) = [] \<or>
      (\<exists>ixs. list_all sol_bounded ixs \<and> sol_sent (fst (transfer_usdc_sol (jb_sol a) dest (fj_amount b) t)) = [ixs])"
      if "sol_sent t = []" "token \<noteq> ''SOL''" for t
      using that v True transfer_usdc_sol_trace[of "jb_sol a" dest "fj_amount b" t] pos[of 6] raw_units_caps(1)[of "fj_amount b"]
      by (auto simp: over_cap_def MAX_AUTO_BRIDGE_USDC_def bounded)
    ultimately show ?thesis
      using True with_transferor_ledger[of "if token = ''SOL'' then transfer_sol_to (jb_sol a) dest (fj_amount b)
         else transfer_usdc_sol (jb_sol a) dest (fj_amount b)"] by auto
  next
    case False
    then show ?thesis
      using v with_depositor_ledger[OF jobs_send_once(3)] with_depositor_ledger[OF jobs_send_once(4)] by auto
  qed
  from job_steps[OF ok harmless_updates(1) this harmless_updates(4)] show ?thesis
    unfolding execute_job_def Transfer_job execute_wallet_transfer_def job_kind.case .
qed

lemma job_handled_effect:
  assumes "dict_ok (fu_rows s)" "valid_job (fj_kind b) (fj_amount b)"
  shows "job_effect bridge (fj_user b) s (fst (job_handled a st bridge now j b s))"
  using execute_job_effect[OF assms, of bridge a st now j]
    job_effect_then_update[OF execute_job_effect[OF assms] assms(1) harmless_updates(2)]
  by (auto simp: job_handled_def catching_def split: prod.splits sum.splits) (metis fst_conv)+

section \<open>The invariant\<close>

definition rows_of :: "string \<Rightarrow> funding_state \<Rightarrow> nat" where
  "rows_of u s = length (filter (\<lambda>(_, r). fr_user_id r = u) (fu_rows s))"

definition jobs_of :: "string \<Rightarrow> funding_state \<Rightarrow> nat" where
  "jobs_of u s = length (filter (\<lambda>(_, b). fj_user b = u) (fu_jobs s))"

definition sent_by :: "string \<Rightarrow> funding_state \<Rightarrow> nat" where
  "sent_by u s = length (filter (\<lambda>(v, _). v = u) (fu_evm s)) + length (filter (\<lambda>(v, _). v = u) (fu_hl s))
     + length (filter (\<lambda>(v, _). v = u) (fu_sol s))"

definition ledger_bounded :: "string \<Rightarrow> funding_state \<Rightarrow> bool" where
  "ledger_bounded bridge s \<longleftrightarrow> (\<forall>(_, tx) \<in> set (fu_evm s). evm_bounded bridge tx) \<and>
     (\<forall>(_, ixs) \<in> set (fu_sol s). list_all sol_bounded ixs)"

definition funding_ok :: "string \<Rightarrow> funding_state \<Rightarrow> bool" where
  "funding_ok bridge s \<longleftrightarrow> dict_ok (fu_rows s) \<and> dict_ok (fu_jobs s) \<and> unstuck s \<and> ledger_bounded bridge s \<and>
     (\<forall>(j, b) \<in> set (fu_jobs s). j \<in> fst ` set (fu_rows s) \<and> valid_job (fj_kind b) (fj_amount b)) \<and>
     (\<forall>u. sent_by u s + jobs_of u s \<le> rows_of u s)"

lemma rows_of_profile: "rows_of u s = length (filter (\<lambda>(_, p). fst p = u) (profile s))"
  by (simp add: rows_of_def profile_def row_profile_def filter_map comp_def case_prod_beta')

lemma keys_profile: "fst ` set (fu_rows s) = fst ` set (profile s)"
  by (force simp: profile_def)

lemma funding_init_ok: "funding_ok bridge funding_init"
  by (simp add: funding_ok_def funding_init_def dict_ok_def unstuck_def ledger_bounded_def sent_by_def jobs_of_def)

lemma refuses_ok: "funding_ok bridge s \<Longrightarrow> refuses now u s s1 \<Longrightarrow> funding_ok bridge s1"
  by (auto simp: refuses_def funding_ok_def unstuck_def ledger_bounded_def sent_by_def jobs_of_def rows_of_def)

lemma dict_put_new: "dict_get k d = None \<Longrightarrow> dict_put k v d = d @ [(k, v)]"
  by (auto simp: dict_put_def dict_get_def map_of_eq_None_iff)

lemma accepts_ok:
  assumes ok: "funding_ok bridge s" and v: "valid_job k x" and a: "accepts now u j k x s s1"
  shows "funding_ok bridge s1"
proof -
  have new: "dict_get j (fu_rows s) = None" using a by (simp add: accepts_def)
  then have "j \<notin> fst ` set (fu_rows s)" by (simp add: dict_get_def map_of_eq_None_iff)
  with ok have "dict_get j (fu_jobs s) = None"
    by (auto simp: funding_ok_def dict_get_def map_of_eq_None_iff)
  with a new have s1: "s1 = s\<lparr>fu_locks := (fu_locks s)(u \<mapsto> (j, now + LOCK_TTL)),
      fu_rows := fu_rows s @ [(j, new_funding_row u (direction_of k) x now)],
      fu_jobs := fu_jobs s @ [(j, \<lparr>fj_user = u, fj_kind = k, fj_amount = x, fj_started = now\<rparr>)]\<rparr>"
    by (simp add: accepts_def dict_put_new)
  have d: "dict_ok (fu_rows s1)" "dict_ok (fu_jobs s1)"
    using a ok dict.inv_put by (auto simp: accepts_def funding_ok_def)
  have c: "sent_by w s1 + jobs_of w s1 \<le> rows_of w s1" for w
    using ok by (simp add: s1 funding_ok_def sent_by_def jobs_of_def rows_of_def new_funding_row_def)
  show ?thesis
    using ok v d c unfolding funding_ok_def
    by (auto simp: s1 unstuck_def ledger_bounded_def new_funding_row_def)
qed

lemma jobs_of_del:
  assumes "dict_get j d = Some b"
  shows "length (filter (\<lambda>(_, b). fj_user b = u) (dict_del j d)) + (if fj_user b = u then 1 else 0)
    \<le> length (filter (\<lambda>(_, b). fj_user b = u) d)"
  using assms
proof (induction d)
  case (Cons p d)
  have "length (filter (\<lambda>(_, b). fj_user b = u) (dict_del j d)) \<le> length (filter (\<lambda>(_, b). fj_user b = u) d)"
    unfolding dict_del_def filter_filter by (rule filter_length_le_if_imp) auto
  with Cons show ?case by (cases p) (auto simp: dict_get_def dict_del_def split: if_splits)
qed (simp add: dict_get_def)

lemma sends_once_sent: "sends_once bridge u s s1 \<Longrightarrow> sent_by w s1 \<le> sent_by w s + (if u = w then 1 else 0)"
  by (auto simp: sends_once_def ledger_def sent_by_def)

lemma sends_once_bounded: "sends_once bridge u s s1 \<Longrightarrow> ledger_bounded bridge s \<Longrightarrow> ledger_bounded bridge s1"
  by (auto simp: sends_once_def ledger_def ledger_bounded_def)

lemma finish_job_ok:
  assumes ok: "funding_ok bridge s"
  shows "funding_ok bridge (finish_job a st bridge now j s)"
proof (cases "dict_get j (fu_jobs s)")
  case None
  with ok show ?thesis by (simp add: finish_job_def)
next
  case (Some b)
  let ?s1 = "fst (job_handled a st bridge now j b s)" and ?s2 = "finish_job a st bridge now j s"
  have jb: "(j, b) \<in> set (fu_jobs s)" using ok Some dict_get_set[of "fu_jobs s" j b] by (auto simp: funding_ok_def)
  with ok have e: "job_effect bridge (fj_user b) s ?s1"
    by (intro job_handled_effect) (auto simp: funding_ok_def)
  have s2: "fu_rows ?s2 = fu_rows ?s1" "ledger ?s2 = ledger ?s1" "fu_jobs ?s2 = dict_del j (fu_jobs s)"
    using e Some by (auto simp: finish_job_def Let_def release_lock_def ledger_def job_effect_def split: sum.splits)
  have e2: "keeps_rows s ?s2" "sends_once bridge (fj_user b) s ?s2"
    using e s2 keeps_rows_cong[of s s ?s1 ?s2] sends_once_cong[of s s ?s1 ?s2] by (auto simp: job_effect_def)
  have d: "dict_ok (fu_rows ?s2)" "dict_ok (fu_jobs ?s2)" "unstuck ?s2"
    using ok e2(1) keeps_rows_dict[OF e2(1)] s2(3) dict.inv_del by (auto simp: funding_ok_def keeps_rows_def)
  have "sent_by w ?s2 + jobs_of w ?s2 \<le> rows_of w ?s2" for w
  proof -
    have "sent_by w ?s2 \<le> sent_by w s + (if fj_user b = w then 1 else 0)" by (rule sends_once_sent[OF e2(2)])
    moreover have "jobs_of w ?s2 + (if fj_user b = w then 1 else 0) \<le> jobs_of w s"
      using jobs_of_del[OF Some, of w] by (simp add: jobs_of_def s2(3))
    moreover have "rows_of w ?s2 = rows_of w s" using e2(1) by (simp add: rows_of_profile keeps_rows_def)
    moreover have "sent_by w s + jobs_of w s \<le> rows_of w s" using ok by (simp add: funding_ok_def)
    ultimately show ?thesis by linarith
  qed
  moreover have "fst ` set (fu_rows ?s2) = fst ` set (fu_rows s)" using e2(1) by (simp add: keys_profile keeps_rows_def)
  moreover have "set (fu_jobs ?s2) \<subseteq> set (fu_jobs s)" by (auto simp: s2(3) dict_del_def)
  ultimately show ?thesis
    using ok d sends_once_bounded[OF e2(2)] unfolding funding_ok_def by blast
qed

lemma stuck_rows_unstuck: "unstuck s \<Longrightarrow> stuck_rows now s = []"
proof -
  assume "unstuck s"
  then have "filter (\<lambda>(_, r). fr_direction r = Dir_deposit \<and> fr_stage r = Bridge_confirmed
      \<and> fr_created_at r < now - STUCK_THRESHOLD) (fu_rows s) = []"
    by (auto simp: unstuck_def filter_empty_conv)
  then show ?thesis by (simp add: stuck_rows_def)
qed

lemma reconcile_unstuck:
  "unstuck s \<Longrightarrow> reconcile_stuck_deposits (Inr ()) ans st now s = (s, Inr (0, 0, 0))"
  "unstuck s \<Longrightarrow> fst (reconcile_stuck_deposits io ans st now s) = s"
  by (auto simp: reconcile_stuck_deposits_def stuck_rows_unstuck split: sum.splits)

definition answered :: "datetime \<Rightarrow> string \<Rightarrow> string \<Rightarrow> job_kind \<Rightarrow> pyfloat \<Rightarrow> funding_state \<Rightarrow> funding_state \<Rightarrow> bool" where
  "answered now u j k x s s1 \<longleftrightarrow> refuses now u s s1 \<or> valid_job k x \<and> accepts now u j k x s s1"

lemma requests_answered:
  "answered now u j Deposit_job x s (fst (deposit_to_hl a now u j x s))"
  "answered now u j Withdraw_job x s (fst (withdraw_from_hl w st a now u j x s))"
  "answered now u j (Transfer_job (strip dest) token chain) x s (fst (wallet_transfer a now u j x dest token chain s))"
  using deposit_to_hl_cases[of a now u j x s] withdraw_from_hl_cases[of w st a now u j x s]
    wallet_transfer_cases[of a now u j x dest token chain s]
  by (auto simp only: answered_def)

lemma answered_ok: "funding_ok bridge s \<Longrightarrow> answered now u j k x s s1 \<Longrightarrow> funding_ok bridge s1"
  unfolding answered_def using refuses_ok accepts_ok by blast

lemma funding_step_ok:
  assumes ok: "funding_ok bridge s"
  shows "funding_ok bridge (funding_step st bridge (now, t) s)"
proof (cases t)
  case (Ask_deposit a u j x)
  then show ?thesis by (simp add: answered_ok[OF ok requests_answered(1)])
next
  case (Ask_withdraw w a u j x)
  then show ?thesis by (simp add: answered_ok[OF ok requests_answered(2)])
next
  case (Ask_transfer a u j x dest token chain)
  then show ?thesis by (simp add: answered_ok[OF ok requests_answered(3)])
next
  case (Job_ends a j)
  then show ?thesis using finish_job_ok[OF ok] by simp
next
  case (Reconcile io ans)
  then show ?thesis using ok reconcile_unstuck(2) by (simp add: funding_ok_def)
qed

lemma funding_run_ok: "funding_ok bridge (funding_run st bridge ts)"
proof -
  have "funding_ok bridge s \<Longrightarrow> funding_ok bridge (fold (funding_step st bridge) ts s)" for s
    by (induction ts arbitrary: s) (auto simp: funding_step_ok)
  then show ?thesis using funding_init_ok by (simp add: funding_run_def)
qed

section \<open>The lock\<close>

definition lock_inv :: "funding_state \<Rightarrow> bool" where
  "lock_inv s \<longleftrightarrow> distinct (map (fj_user \<circ> snd) (fu_jobs s)) \<and>
     (\<forall>j b. (j, b) \<in> set (fu_jobs s) \<longrightarrow> fu_locks s (fj_user b) = Some (j, fj_started b + LOCK_TTL))"

definition young :: "datetime \<Rightarrow> funding_state \<Rightarrow> bool" where
  "young now s = list_all (\<lambda>(_, b). now < fj_started b + LOCK_TTL) (fu_jobs s)"

text \<open>A run in which every task ends within the life of its lock.\<close>

fun timely :: "settings \<Rightarrow> string \<Rightarrow> (datetime \<times> funding_turn) list \<Rightarrow> funding_state \<Rightarrow> bool" where
  "timely st bridge [] s = True"
| "timely st bridge (nt # ts) s = (young (fst nt) s \<and> timely st bridge ts (funding_step st bridge nt s))"

lemma lock_free_no_job:
  assumes "lock_inv s" "young now s" "lock_free now u s" "(j, b) \<in> set (fu_jobs s)"
  shows "fj_user b \<noteq> u"
  using assms by (fastforce simp: lock_inv_def young_def lock_free_def list_all_iff split: option.splits)

lemma refuses_lock_inv: "lock_inv s \<Longrightarrow> young now s \<Longrightarrow> refuses now u s s1 \<Longrightarrow> lock_inv s1"
  using lock_free_no_job[of s now u] by (auto simp: refuses_def lock_inv_def)

lemma accepts_lock_inv:
  assumes inv: "lock_inv s" and y: "young now s" and ok: "funding_ok bridge s" and a: "accepts now u j k x s s1"
  shows "lock_inv s1"
proof -
  have new: "dict_get j (fu_rows s) = None" "lock_free now u s" using a by (simp_all add: accepts_def)
  then have "j \<notin> fst ` set (fu_rows s)" by (simp add: dict_get_def map_of_eq_None_iff)
  with ok have "dict_get j (fu_jobs s) = None" by (auto simp: funding_ok_def dict_get_def map_of_eq_None_iff)
  then have jobs: "fu_jobs s1 = fu_jobs s @ [(j, \<lparr>fj_user = u, fj_kind = k, fj_amount = x, fj_started = now\<rparr>)]"
    and locks: "fu_locks s1 = (fu_locks s)(u \<mapsto> (j, now + LOCK_TTL))"
    using a by (simp_all add: accepts_def dict_put_new)
  have other: "fj_user b \<noteq> u" if "(i, b) \<in> set (fu_jobs s)" for i b
    by (rule lock_free_no_job[OF inv y new(2) that])
  show ?thesis
    using inv other unfolding lock_inv_def jobs locks by (fastforce simp: comp_def)
qed

lemma finish_job_lock_inv:
  assumes inv: "lock_inv s" and ok: "funding_ok bridge s"
  shows "lock_inv (finish_job a st bridge now j s)"
proof (cases "dict_get j (fu_jobs s)")
  case None
  with inv show ?thesis by (simp add: finish_job_def)
next
  case (Some b)
  let ?s1 = "fst (job_handled a st bridge now j b s)" and ?s2 = "finish_job a st bridge now j s"
  have jb: "(j, b) \<in> set (fu_jobs s)" using ok Some dict_get_set[of "fu_jobs s" j b] by (auto simp: funding_ok_def)
  with ok have "job_effect bridge (fj_user b) s ?s1" by (intro job_handled_effect) (auto simp: funding_ok_def)
  then have s2: "fu_jobs ?s2 = dict_del j (fu_jobs s)"
    "fu_locks ?s2 = fu_locks s \<or> fu_locks ?s2 = (fu_locks s)(fj_user b := None)"
    using Some by (auto simp: finish_job_def Let_def release_lock_def job_effect_def split: sum.splits)
  have d: "distinct (map (fj_user \<circ> snd) (dict_del j (fu_jobs s)))"
    using inv by (simp add: lock_inv_def dict_del_def distinct_map_filter)
  have other: "fj_user c \<noteq> fj_user b" if "(i, c) \<in> set (dict_del j (fu_jobs s))" for i c
  proof
    assume "fj_user c = fj_user b"
    moreover have "(i, c) \<in> set (fu_jobs s)" "i \<noteq> j" using that by (auto simp: dict_del_def)
    ultimately show False using inv jb unfolding lock_inv_def by (metis option.inject prod.inject)
  qed
  show ?thesis
    using inv d other s2(2) unfolding lock_inv_def s2(1)
    by (force simp: dict_del_def)
qed

lemma funding_step_lock_inv:
  assumes inv: "lock_inv s" and y: "young now s" and ok: "funding_ok bridge s"
  shows "lock_inv (funding_step st bridge (now, t) s)"
proof -
  have a: "lock_inv s1" if "answered now u j k x s s1" for u j k x s1
    using that refuses_lock_inv[OF inv y] accepts_lock_inv[OF inv y ok] by (auto simp: answered_def)
  show ?thesis
  proof (cases t)
    case (Reconcile io ans)
    then show ?thesis using inv ok reconcile_unstuck(2) by (simp add: funding_ok_def)
  next
    case (Job_ends a j)
    then show ?thesis using finish_job_lock_inv[OF inv ok] by simp
  qed (simp_all add: a[OF requests_answered(1)] a[OF requests_answered(2)] a[OF requests_answered(3)])
qed

lemma timely_lock_inv:
  "lock_inv s \<Longrightarrow> funding_ok bridge s \<Longrightarrow> timely st bridge ts s \<Longrightarrow> lock_inv (fold (funding_step st bridge) ts s)"
  by (induction ts arbitrary: s) (auto simp: funding_step_lock_inv funding_step_ok)

lemma update_row_get:
  assumes "dict_ok (fu_rows s)" "dict_get j (fu_rows s) = Some r"
  shows "update_row j f (Inr ()) s = (s\<lparr>fu_rows := dict_put j (f r) (fu_rows s)\<rparr>, Inr ())"
    "dict_ok (dict_put j (f r) (fu_rows s))" "dict_get j (dict_put j (f r) (fu_rows s)) = Some (f r)"
  using assms by (simp_all add: update_row_def dict.inv_put dict.get_put)

section \<open>Theorems\<close>

text \<open>C35: What the funding interface can send, over every sequence of requests, jobs and reconciliations: each
  transaction on Arbitrum is a transfer to the bridge of at most 25000 USDC or one of ether of at most
  0.1 (up to the rounding of a float), each one on Solana moves at most 100 SOL or 25000 USDC, and the
  transfers of a user plus the open jobs of the user are never more than the accepted requests.\<close>

theorem funding_transfers_bounded:
  "list_all (\<lambda>(_, tx). evm_bounded bridge tx) (fu_evm (funding_run st bridge ts)) \<and>
   list_all (\<lambda>(_, ixs). list_all sol_bounded ixs) (fu_sol (funding_run st bridge ts)) \<and>
   sent_by u (funding_run st bridge ts) + jobs_of u (funding_run st bridge ts) \<le> rows_of u (funding_run st bridge ts)"
  using funding_run_ok[of bridge st ts] by (simp add: funding_ok_def ledger_bounded_def list_all_iff)

text \<open>The reconciler of stuck deposits is dead: no sequence of requests and jobs stores a row in the stage
  bridge_confirmed, so that a reconciliation changes nothing and counts nothing, whatever its
  collaborators answer.\<close>

theorem reconciler_never_acts:
  "list_all (\<lambda>(_, r). fr_stage r \<noteq> Bridge_confirmed) (fu_rows (funding_run st bridge ts)) \<and>
   reconcile_stuck_deposits (Inr ()) ans st now (funding_run st bridge ts) = (funding_run st bridge ts, Inr (0, 0, 0))"
  using funding_run_ok[of bridge st ts] reconcile_unstuck(1)
  by (simp add: funding_ok_def unstuck_def list_all_iff)

text \<open>C37: As long as every job ends, and every request comes, while the lock of the job is younger than its 600
  seconds, no user has two funding jobs at a time.\<close>

theorem funding_mutual_exclusion:
  assumes "timely st bridge ts funding_init"
  shows "distinct (map (fj_user \<circ> snd) (fu_jobs (funding_run st bridge ts)))"
  using timely_lock_inv[OF _ funding_init_ok assms]
  by (simp add: funding_run_def lock_inv_def funding_init_def)

definition wit_request :: request_answers where
  "wit_request = \<lparr>rq_redis = Inr (), rq_insert = Inr (), rq_delete = Inr ()\<rparr>"

definition wit_turns :: "(datetime \<times> funding_turn) list" where
  "wit_turns = [(0, Ask_deposit wit_request ''u1'' ''j1'' 100), (1, Ask_deposit wit_request ''u1'' ''j2'' 50),
     (2, Ask_deposit wit_request ''u2'' ''j3'' 70)]"

lemma wit_funding_run:
  "map (fj_user \<circ> snd) (fu_jobs (funding_run st bridge wit_turns)) = [''u1'', ''u2'']"
  "timely st bridge wit_turns funding_init"
  by (simp_all add: wit_turns_def funding_run_def funding_init_def wit_request_def deposit_to_hl_def create_job_def
      MAX_AUTO_BRIDGE_USDC_def lock_free_def insert_row_def LOCK_TTL_def seconds_def dict_put_def dict_get_def
      young_def Let_def)

lemma funding_mutual_exclusion_witness:
  "distinct (map (fj_user \<circ> snd) (fu_jobs (funding_run wit_settings ''0xb'' wit_turns))) \<and>
   map (fj_user \<circ> snd) (fu_jobs (funding_run wit_settings ''0xb'' wit_turns)) = [''u1'', ''u2'']"
  using funding_mutual_exclusion[OF wit_funding_run(2)] wit_funding_run(1) by simp

text \<open>The lock does not outlive its 600 seconds: after them a second job of the same user is admitted beside
  the running one, and the end of the first job deletes the lock of the second.\<close>

theorem expired_lock_admits_second:
  fixes st bridge ts now j2 x
  defines "s \<equiv> funding_run st bridge ts"
  assumes "dict_get j (fu_jobs s) = Some b" "fu_locks s (fj_user b) = Some (j, fj_started b + LOCK_TTL)"
    and "fj_started b + LOCK_TTL \<le> now" "dict_get j2 (fu_rows s) = None" "0 < x" "x \<le> 25000"
    and "jb_release a = Inr ()"
  shows "\<exists>s1 b2. deposit_to_hl \<lparr>rq_redis = Inr (), rq_insert = Inr (), rq_delete = Inr ()\<rparr> now (fj_user b) j2 x s
      = (s1, Inr j2) \<and>
    dict_get j (fu_jobs s1) = Some b \<and> dict_get j2 (fu_jobs s1) = Some b2 \<and> fj_user b2 = fj_user b \<and>
    lock_free later (fj_user b) (finish_job a st bridge t j s1) \<and>
    dict_get j2 (fu_jobs (finish_job a st bridge t j s1)) = Some b2"
proof -
  have ok: "funding_ok bridge s" unfolding s_def by (rule funding_run_ok)
  let ?q = "\<lparr>rq_redis = Inr (), rq_insert = Inr (), rq_delete = Inr ()\<rparr>"
  let ?b2 = "\<lparr>fj_user = fj_user b, fj_kind = Deposit_job, fj_amount = x, fj_started = now\<rparr>"
  obtain s1 where s1: "deposit_to_hl ?q now (fj_user b) j2 x s = (s1, Inr j2)"
    "fu_jobs s1 = dict_put j2 ?b2 (fu_jobs s)"
    using assms(2-7) by (simp add: deposit_to_hl_def MAX_AUTO_BRIDGE_USDC_def create_job_def lock_free_def insert_row_def)
  have "j \<in> fst ` set (fu_rows s)"
    using ok assms(2) dict_get_set[of "fu_jobs s" j b] by (auto simp: funding_ok_def)
  with assms(5) have ne: "j \<noteq> j2" by (auto simp: dict_get_def map_of_eq_None_iff)
  have d: "dict_ok (fu_jobs s)" using ok by (simp add: funding_ok_def)
  then have g: "dict_get j (fu_jobs s1) = Some b" "dict_get j2 (fu_jobs s1) = Some ?b2" "dict_ok (fu_jobs s1)"
    using ne assms(2) by (simp_all add: s1(2) dict.get_put dict.inv_put)
  have ok1: "funding_ok bridge s1"
    using answered_ok[OF ok requests_answered(1)[of now "fj_user b" j2 x s ?q]] s1(1) by simp
  then have e: "job_effect bridge (fj_user b) s1 (fst (job_handled a st bridge t j b s1))"
    using g(1) dict_get_set[OF g(3), of j b] by (intro job_handled_effect) (auto simp: funding_ok_def)
  have "fu_locks (finish_job a st bridge t j s1) (fj_user b) = None"
    "fu_jobs (finish_job a st bridge t j s1) = dict_del j (fu_jobs s1)"
    using g(1) assms(8) e by (auto simp: finish_job_def Let_def release_lock_def job_effect_def)
  then show ?thesis using s1(1) g ne by (auto simp: lock_free_def dict.get_del)
qed

definition wit_answers :: job_answers where
  "wit_answers = \<lparr>jb_running = Inr (), jb_user = Inr (Some wit_user), jb_client = Inr (), jb_signer = (\<lambda>_. Inr ()),
     jb_deposit = wit_deposit,
     jb_withdraw = \<lparr>ww_balance = Inl InvalidOperation, ww_sign = Inr (), ww_exchange = Inr (), ww_before = Inr 0,
       ww_polls = (\<lambda>_. Inr 0)\<rparr>,
     jb_sol = \<lparr>sw_keys = Inr (), sw_usdc = Inr 0, sw_balance = Inr 0, sw_dest_balance = Inr 0, sw_build = Inr (),
       sw_sign = Inr (), sw_send = Inr ''s'', sw_status = (\<lambda>_ _. Inr None), sw_retry = plain_tenacity\<rparr>,
     jb_update = Inr (), jb_failed = Inr (), jb_release = Inr ()\<rparr>"

definition wit_job :: funding_job where
  "wit_job = \<lparr>fj_user = ''u1'', fj_kind = Deposit_job, fj_amount = 100, fj_started = 0\<rparr>"

lemma wit_funding_state:
  "dict_get ''j1'' (fu_jobs (funding_run st bridge wit_turns)) = Some wit_job"
  "fu_locks (funding_run st bridge wit_turns) ''u1'' = Some (''j1'', LOCK_TTL)"
  "dict_get ''j4'' (fu_rows (funding_run st bridge wit_turns)) = None"
  "dict_get ''j1'' (fu_rows (funding_run st bridge wit_turns)) = Some (new_funding_row ''u1'' Dir_deposit 100 0)"
  by (simp_all add: wit_turns_def funding_run_def funding_init_def wit_request_def deposit_to_hl_def create_job_def
      MAX_AUTO_BRIDGE_USDC_def lock_free_def insert_row_def LOCK_TTL_def seconds_def dict_put_def dict_get_def
      Let_def wit_job_def direction_of_def)

lemma expired_lock_admits_second_witness:
  "\<exists>s1 b2. deposit_to_hl wit_request LOCK_TTL ''u1'' ''j4'' 50 (funding_run wit_settings ''0xb'' wit_turns) = (s1, Inr ''j4'') \<and>
     dict_get ''j1'' (fu_jobs s1) = Some wit_job \<and> dict_get ''j4'' (fu_jobs s1) = Some b2 \<and> fj_user b2 = ''u1'' \<and>
     lock_free (LOCK_TTL + 1) ''u1'' (finish_job wit_answers wit_settings ''0xb'' LOCK_TTL ''j1'' s1)"
  using expired_lock_admits_second[of "''j1''" wit_settings "''0xb''" wit_turns wit_job LOCK_TTL "''j4''" 50 wit_answers
      "LOCK_TTL + 1" LOCK_TTL] wit_funding_state[of wit_settings "''0xb''"]
  by (auto simp: wit_job_def wit_answers_def wit_request_def)

text \<open>A wait for a receipt that does not come: the polls of one attempt up to the time limit.\<close>

definition no_receipt :: "(nat \<Rightarrow> (exn + bool option) \<times> rat) \<Rightarrow> nat \<Rightarrow> rat \<Rightarrow> bool" where
  "no_receipt polls n t \<longleftrightarrow> n < 242 \<and> (\<forall>k < n. \<exists>u \<le> 120. polls k = (Inr None, u)) \<and> polls n = (Inr None, t) \<and> 120 < t"

lemma wait_receipt_timeout:
  assumes "\<forall>k. j \<le> k \<and> k < n \<longrightarrow> (\<exists>u \<le> 120. polls k = (Inr None, u))" "polls n = (Inr None, t)" "120 < t" "j \<le> n"
    and "n < j + fuel"
  shows "wait_receipt polls j fuel = Inl (OSError ''Transaction not confirmed'')"
  using assms
proof (induction fuel arbitrary: j)
  case (Suc fuel)
  show ?case
  proof (cases "j = n")
    case True
    with Suc.prems show ?thesis by simp
  next
    case False
    with Suc.prems obtain u where "u \<le> 120" "polls j = (Inr None, u)" by (metis le_neq_implies_less order_refl)
    moreover have "wait_receipt polls (Suc j) fuel = Inl (OSError ''Transaction not confirmed'')"
      using Suc.prems False by (intro Suc.IH) auto
    ultimately show ?thesis by simp
  qed
qed simp

text \<open>A broadcast whose receipt does not come is waited for five times, because the wait itself is retried on
  its own TimeoutError: the transaction is out, the result is an error, and the waiting alone takes
  longer than the funding lock lives.\<close>

theorem receipt_wait_outlives_lock:
  assumes "tenacity_ok (ew_retry a)" "\<And>i. i < 5 \<Longrightarrow> no_receipt (ew_receipt a i) (n i) (t i)"
    and "ew_prepare a = Inr ()" "ew_sign a = Inr ()" "ew_send a = Inr h"
  shows "broadcast_made a \<and> broadcast_result a = Inl (OSError ''Transaction not confirmed'') \<and>
    of_int LOCK_TTL < (\<Sum>i < 5. t i) * 10 ^ 6"
proof -
  have w: "wait_for_transaction_receipt (ew_receipt a i) = Inl (OSError ''Transaction not confirmed'')" if "i < 5" for i
    using assms(2)[OF that] unfolding no_receipt_def wait_for_transaction_receipt_def
    by (intro wait_receipt_timeout[where n = "n i" and t = "t i"]) auto
  have "ew_retry a retry_rpc (\<lambda>k. wait_for_transaction_receipt (ew_receipt a k)) =
      wait_for_transaction_receipt (ew_receipt a (5 - 1))"
    by (rule tenacity_last[OF assms(1)]) (simp_all add: w retried_def is_os_error_def)
  then have r: "broadcast_result a = Inl (OSError ''Transaction not confirmed'')"
    by (simp add: broadcast_result_def assms(3-5) w)
  have "120 < t i" if "i < 5" for i using assms(2)[OF that] by (simp add: no_receipt_def)
  from this[of 0] this[of 1] this[of 2] this[of 3] this[of 4] have "600 < (\<Sum>i < 5. t i)"
    by (simp add: eval_nat_numeral)
  then show ?thesis using r assms(3,4) by (simp add: broadcast_made_def LOCK_TTL_def seconds_def)
qed

lemma receipt_wait_outlives_lock_witness:
  "broadcast_result \<lparr>ew_prepare = Inr (), ew_sign = Inr (), ew_send = Inr ''0xaa'',
      ew_receipt = (\<lambda>_ k. (Inr None, of_nat k * 121)), ew_retry = plain_tenacity\<rparr> =
     Inl (OSError ''Transaction not confirmed'')"
  using receipt_wait_outlives_lock[of "\<lparr>ew_prepare = Inr (), ew_sign = Inr (), ew_send = Inr ''0xaa'',
      ew_receipt = (\<lambda>_ k. (Inr None, of_nat k * 121)), ew_retry = plain_tenacity\<rparr>" "\<lambda>_. 1" "\<lambda>_. 121" "''0xaa''"]
  by (simp add: plain_tenacity_ok no_receipt_def)

text \<open>C36: The row of a deposit job whose transfer is ready: completed with the hash of the transfer and the stage
  hl_credited exactly when the transfer and the update of the row succeed, whether or not the credit
  was seen; failed otherwise; and failed without the hash, after the money has moved, when only the
  update of the row fails. At most one transfer is sent.\<close>

theorem deposit_job_outcome:
  assumes "fj_kind b = Deposit_job" "0 < fj_amount b" "dict_ok (fu_rows s)" "dict_get j (fu_rows s) = Some r"
    and "jb_running a = Inr ()" "jb_failed a = Inr ()"
    and "res_bind (job_context a (fj_user b)) (hl_depositor_init st (jb_signer a) bridge) = Inr d"
    and "deposit_ready (jb_deposit a) (float_str (fj_amount b))"
  shows "dict_get j (fu_rows (fst (job_handled a st bridge now j b s))) =
     Some (case (broadcast_result (dw_tx (jb_deposit a)), jb_update a) of
       (Inr h, Inr _) \<Rightarrow> r\<lparr>fr_status := Job_completed, fr_approve_tx_hash := None, fr_bridge_tx_hash := Some h,
          fr_stage := Hl_credited, fr_completed_at := Some now\<rparr>
     | (Inl _, Inr _) \<Rightarrow> r\<lparr>fr_status := Job_failed, fr_error := Some ''Bridge transfer tx failed'', fr_stage := Initiated,
          fr_approve_tx_hash := None, fr_bridge_tx_hash := None, fr_completed_at := Some now\<rparr>
     | (_, Inl e) \<Rightarrow> r\<lparr>fr_status := Job_failed, fr_error := Some (exn_text e), fr_completed_at := Some now\<rparr>) \<and>
   fu_evm (fst (job_handled a st bridge now j b s)) = fu_evm s @
     (if broadcast_made (dw_tx (jb_deposit a))
      then [(fj_user b, TokenTransfer bridge (raw_units (10 ^ 6) (float_str (fj_amount b))))] else [])"
proof -
  let ?R = "\<lambda>r. r\<lparr>fr_status := Job_running\<rparr>" and ?D = "transfer_outcome (dw_tx (jb_deposit a)) (float_str (fj_amount b)) ''Bridge transfer tx failed''"
  let ?s1 = "s\<lparr>fu_rows := dict_put j (?R r) (fu_rows s)\<rparr>"
  let ?s2 = "?s1\<lparr>fu_evm := fu_evm s @ (if broadcast_made (dw_tx (jb_deposit a))
      then [(fj_user b, TokenTransfer bridge (raw_units (10 ^ 6) (float_str (fj_amount b))))] else [])\<rparr>"
  have d: "dp_bridge d = bridge" "evm_sent d = []" "hl_withdrawals d = []"
    using assms(7) by (auto simp: res_bind_Inr_iff dest: hl_depositor_init_Inr)
  have w: "with_depositor a st bridge (fj_user b) (deposit (jb_deposit a) (fj_amount b)) ?s1 = (?s2, Inr ?D)"
    by (simp add: with_depositor_def assms(7) deposit_eq[OF assms(8)] d)
  note g = update_row_get[OF assms(3,4)]
  have run: "execute_job a st bridge now j b s = update_row j (deposit_row now ?D) (jb_update a) ?s2"
    using w by (simp add: execute_job_def assms(1,5) execute_deposit_def andthen_def g(1))
  have r2: "dict_ok (fu_rows ?s2)" "dict_get j (fu_rows ?s2) = Some (?R r)" using g(2,3)[of ?R] by simp_all
  note g2 = update_row_get[OF r2]
  show ?thesis
  proof (cases "jb_update a")
    case (Inl e)
    then have "execute_job a st bridge now j b s = (?s2, Inl e)" by (simp add: run update_row_def)
    then show ?thesis
      using Inl assms(6) g2(1) g2(3)[of "row_failed now (Some (exn_text e))"]
      by (simp add: job_handled_def catching_def row_failed_def split: sum.splits)
  next
    case (Inr x)
    have "fst (job_handled a st bridge now j b s) = ?s2\<lparr>fu_rows := dict_put j (deposit_row now ?D (?R r)) (fu_rows ?s2)\<rparr>"
      using Inr g2(1) by (simp add: job_handled_def run catching_def)
    moreover have "deposit_row now ?D (?R r) = (case broadcast_result (dw_tx (jb_deposit a)) of
        Inr h \<Rightarrow> r\<lparr>fr_status := Job_completed, fr_approve_tx_hash := None, fr_bridge_tx_hash := Some h,
          fr_stage := Hl_credited, fr_completed_at := Some now\<rparr>
      | Inl _ \<Rightarrow> r\<lparr>fr_status := Job_failed, fr_error := Some ''Bridge transfer tx failed'', fr_stage := Initiated,
          fr_approve_tx_hash := None, fr_bridge_tx_hash := None, fr_completed_at := Some now\<rparr>)"
      using float_str_pos_iff[of "fj_amount b"] assms(2)
      by (cases "float_str (fj_amount b) = 0") (simp_all add: transfer_outcome_def deposit_row_def row_failed_def
          failed_transfer_def done_transfer_def amount_truthy_def split: sum.splits)
    ultimately show ?thesis using Inr g2(3)[of "deposit_row now ?D"] by (simp split: sum.splits)
  qed
qed

lemma deposit_job_outcome_witness:
  "\<exists>r. dict_get ''j1'' (fu_rows (fst (job_handled wit_answers wit_settings ''0xb'' 60 ''j1'' wit_job
       (funding_run wit_settings ''0xb'' wit_turns)))) = Some r \<and> fr_status r = Job_completed \<and> fr_stage r = Hl_credited"
proof -
  have f: "float_str 100 = 100" by code_simp
  obtain d where "res_bind (job_context wit_answers (fj_user wit_job)) (hl_depositor_init wit_settings (jb_signer wit_answers) ''0xb'') = Inr d"
    by (auto simp: job_context_def wit_answers_def from_user_id_def wit_user_def or_text_def hl_depositor_init_def
        get_hl_trader_def trader_init_def)
  moreover have "deposit_ready (jb_deposit wit_answers) (float_str (fj_amount wit_job))"
    by (simp add: deposit_ready_def wit_deposit_def wit_answers_def wit_job_def f MIN_ETH_FOR_BRIDGE_def)
  moreover have "dict_ok (fu_rows (funding_run wit_settings ''0xb'' wit_turns))"
    using funding_run_ok[of "''0xb''" wit_settings wit_turns] by (simp add: funding_ok_def)
  moreover have "broadcast_result (dw_tx (jb_deposit wit_answers)) = Inr ''0xaa''"
    by (simp add: wit_answers_def wit_deposit_def broadcast_result_def wait_for_transaction_receipt_def confirmed_at_once plain_tenacity_def)
  moreover have "fj_kind wit_job = Deposit_job" "0 < fj_amount wit_job" "jb_running wit_answers = Inr ()"
    "jb_failed wit_answers = Inr ()" "jb_update wit_answers = Inr ()"
    by (simp_all add: wit_job_def wit_answers_def)
  ultimately show ?thesis
    using deposit_job_outcome[of wit_job "funding_run wit_settings ''0xb'' wit_turns" "''j1''" _ wit_answers wit_settings
        "''0xb''" d 60] wit_funding_state(4)[of wit_settings "''0xb''"] by simp
qed

end
