(* ===== verification/PrivySigner.thy ===== *)
theory PrivySigner
  imports Prelude
begin

text \<open>
  Signing with Privy (\<open>bot/venues/privy_signer.py\<close>): the metrics, the circuit breaker that all
  signers share, the classification of errors by their text and the call with its retries.

  The module state is the breaker and the metrics. Clock readings, the creation of the client and the
  replies of the service are arguments, per attempt. Texts are ASCII; parameters and replies of the
  service are texts.
\<close>

section \<open>Metrics\<close>

record signing_event =
  se_timestamp :: pyfloat
  se_result :: string
  se_method :: string
  se_wallet_id :: string

record signing_metrics =
  mt_window :: pyfloat
  mt_events :: "signing_event list"

definition METRICS_WINDOW_SECONDS :: pyfloat where "METRICS_WINDOW_SECONDS = 86400"

definition record_event :: "pyfloat \<Rightarrow> string \<Rightarrow> string \<Rightarrow> string \<Rightarrow> signing_metrics \<Rightarrow> signing_metrics" where
  "record_event now result method wallet m = m\<lparr>mt_events := mt_events m @
     [\<lparr>se_timestamp = now, se_result = result, se_method = method, se_wallet_id = wallet\<rparr>]\<rparr>"

definition prune_events :: "pyfloat \<Rightarrow> signing_metrics \<Rightarrow> signing_metrics" where
  "prune_events now m =
     m\<lparr>mt_events := dropWhile (\<lambda>e. se_timestamp e < flt (now - mt_window m)) (mt_events m)\<rparr>"

definition count_result :: "signing_event \<Rightarrow> (string, nat) dict \<Rightarrow> (string, nat) dict" where
  "count_result e c =
     dict_put (se_result e) ((case dict_get (se_result e) c of None \<Rightarrow> 0 | Some n \<Rightarrow> n) + 1) c"

definition no_counts :: "(string, nat) dict" where
  "no_counts = [(''success'', 0), (''policy_denied'', 0), (''error'', 0), (''circuit_open'', 0)]"

text \<open>The clock is read twice.\<close>

definition signing_summary ::
  "pyfloat \<Rightarrow> pyfloat \<Rightarrow> pyfloat option \<Rightarrow> signing_metrics \<Rightarrow> signing_metrics \<times> (string, nat) dict" where
  "signing_summary t1 t2 window m =
     (let m1 = prune_events t1 m; cutoff = flt (t2 - py_or window (mt_window m1))
      in (m1, fold count_result (filter (\<lambda>e. se_timestamp e \<ge> cutoff) (mt_events m1)) no_counts))"

definition total_last_hour :: "pyfloat \<Rightarrow> pyfloat \<Rightarrow> signing_metrics \<Rightarrow> signing_metrics \<times> nat" where
  "total_last_hour t1 t2 m = (case signing_summary t1 t2 (Some 3600) m of (m1, c) \<Rightarrow> (m1, sum_list (map snd c)))"

definition policy_violations_24h :: "pyfloat \<Rightarrow> pyfloat \<Rightarrow> signing_metrics \<Rightarrow> signing_metrics \<times> nat" where
  "policy_violations_24h t1 t2 m =
     (case signing_summary t1 t2 (Some 86400) m of
        (m1, c) \<Rightarrow> (m1, case dict_get ''policy_denied'' c of None \<Rightarrow> 0 | Some n \<Rightarrow> n))"

section \<open>Errors\<close>

datatype signing_error = Policy_denied string | Signing_failed string bool | Signing_raised exn

definition is_policy_denial :: "exn \<Rightarrow> bool" where
  "is_policy_denial e =
     list_ex (\<lambda>kw. contains kw (map lower (exn_text e)))
       [''policy'', ''denied'', ''not allowed'', ''blocked'', ''forbidden'']"

definition is_retriable :: "exn \<Rightarrow> bool" where
  "is_retriable e =
     list_ex (\<lambda>kw. contains kw (map lower (exn_text e)))
       [''timeout'', ''timed out'', ''connection'', ''502'', ''503'', ''504'', ''temporarily unavailable'',
        ''rate limit'', ''429'']"

section \<open>The circuit breaker\<close>

record signing_breaker =
  sb_threshold :: nat
  sb_cooldown :: pyfloat
  sb_failures :: nat
  sb_tripped_at :: "pyfloat option"

definition signing_breaker_init :: signing_breaker where
  "signing_breaker_init = \<lparr>sb_threshold = 5, sb_cooldown = 60, sb_failures = 0, sb_tripped_at = None\<rparr>"

definition breaker_is_open :: "pyfloat \<Rightarrow> signing_breaker \<Rightarrow> signing_breaker \<times> bool" where
  "breaker_is_open now b =
     (case sb_tripped_at b of
        None \<Rightarrow> (b, False)
      | Some t \<Rightarrow>
          if flt (now - t) \<ge> sb_cooldown b then (b\<lparr>sb_tripped_at := None, sb_failures := 0\<rparr>, False)
          else (b, True))"

definition breaker_success :: "signing_breaker \<Rightarrow> signing_breaker" where
  "breaker_success b = b\<lparr>sb_failures := 0, sb_tripped_at := None\<rparr>"

definition breaker_failure :: "pyfloat \<Rightarrow> signing_breaker \<Rightarrow> signing_breaker" where
  "breaker_failure now b =
     (let b1 = b\<lparr>sb_failures := sb_failures b + 1\<rparr>
      in if sb_failures b1 \<ge> sb_threshold b1 \<and> sb_tripped_at b1 = None then b1\<lparr>sb_tripped_at := Some now\<rparr> else b1)"

section \<open>Calls\<close>

record signing_module =
  md_breaker :: signing_breaker
  md_metrics :: signing_metrics

definition signing_module_init :: signing_module where
  "signing_module_init = \<lparr>md_breaker = signing_breaker_init,
     md_metrics = \<lparr>mt_window = METRICS_WINDOW_SECONDS, mt_events = []\<rparr>\<rparr>"

text \<open>A signer has a wallet id, an address or both.\<close>

record privy_signer =
  ps_wallet_id :: "string option"
  ps_address :: string

definition privy_signer_init :: "string option \<Rightarrow> string option \<Rightarrow> exn + privy_signer" where
  "privy_signer_init wallet addr =
     (if wallet = None \<and> addr = None then Inl (ValueError ''Either wallet_id or wallet_address must be provided'')
      else Inr \<lparr>ps_wallet_id = wallet, ps_address = (case addr of None \<Rightarrow> [] | Some s \<Rightarrow> s)\<rparr>)"

definition signer_wallet_id :: "privy_signer \<Rightarrow> exn + string" where
  "signer_wallet_id p =
     (case ps_wallet_id p of
        None \<Rightarrow> Inl (ValueError ''wallet_id not set. Pass wallet_id to constructor (address->ID resolution has been removed).'')
      | Some w \<Rightarrow> Inr w)"

record rpc_answers =
  rp_now :: pyfloat
  rp_logged :: "nat \<Rightarrow> pyfloat"
  rp_failed :: pyfloat
  rp_client :: "nat \<Rightarrow> exn + unit"
  rp_reply :: "nat \<Rightarrow> exn + string"

definition RETRY_MAX_ATTEMPTS :: nat where "RETRY_MAX_ATTEMPTS = 3"

definition log_signing :: "pyfloat \<Rightarrow> string \<Rightarrow> string \<Rightarrow> privy_signer \<Rightarrow> signing_module \<Rightarrow> signing_module" where
  "log_signing now result method p s =
     s\<lparr>md_metrics := record_event now result method (case ps_wallet_id p of None \<Rightarrow> [] | Some w \<Rightarrow> w) (md_metrics s)\<rparr>"

definition on_breaker :: "(signing_breaker \<Rightarrow> signing_breaker) \<Rightarrow> signing_module \<Rightarrow> signing_module" where
  "on_breaker f s = s\<lparr>md_breaker := f (md_breaker s)\<rparr>"

text \<open>Building an error names the wallet, which raises without one.\<close>

definition raise_signing :: "privy_signer \<Rightarrow> signing_error \<Rightarrow> signing_error" where
  "raise_signing p err = (case signer_wallet_id p of Inl e \<Rightarrow> Signing_raised e | Inr _ \<Rightarrow> err)"

definition rpc_attempt :: "rpc_answers \<Rightarrow> privy_signer \<Rightarrow> nat \<Rightarrow> exn + string" where
  "rpc_attempt a p k = res_bind (rp_client a k) (\<lambda>_. res_bind (signer_wallet_id p) (\<lambda>_. rp_reply a k))"

text \<open>The second number counts the attempts left, this one included.\<close>

fun rpc_loop ::
  "rpc_answers \<Rightarrow> privy_signer \<Rightarrow> string \<Rightarrow> nat \<Rightarrow> nat \<Rightarrow> signing_module \<Rightarrow> signing_module \<times> (signing_error + string)"
  where
  "rpc_loop a p method k 0 s =
     (on_breaker (breaker_failure (rp_failed a)) s, Inl (raise_signing p (Signing_failed ''None'' True)))"
| "rpc_loop a p method k (Suc n) s =
     (case rpc_attempt a p k of
        Inr v \<Rightarrow> (on_breaker breaker_success (log_signing (rp_logged a k) ''success'' method p s), Inr v)
      | Inl e \<Rightarrow>
          if is_policy_denial e
          then (log_signing (rp_logged a k) ''policy_denied'' method p s,
                Inl (raise_signing p (Policy_denied (exn_text e))))
          else if is_retriable e \<and> 0 < n then rpc_loop a p method (Suc k) n s
          else (log_signing (rp_logged a k) ''error'' method p (on_breaker (breaker_failure (rp_failed a)) s),
                Inl (raise_signing p (Signing_failed (exn_text e) (is_retriable e)))))"

definition call_rpc ::
  "rpc_answers \<Rightarrow> privy_signer \<Rightarrow> string \<Rightarrow> signing_module \<Rightarrow> signing_module \<times> (signing_error + string)" where
  "call_rpc a p method s =
     (case breaker_is_open (rp_now a) (md_breaker s) of
        (b, True) \<Rightarrow>
          (log_signing (rp_logged a 0) ''circuit_open'' method p (s\<lparr>md_breaker := b\<rparr>),
           Inl (raise_signing p (Signing_failed ''Signing circuit breaker is open'' True)))
      | (b, False) \<Rightarrow> rpc_loop a p method 0 RETRY_MAX_ATTEMPTS (s\<lparr>md_breaker := b\<rparr>))"

section \<open>What is signed\<close>

datatype tx_value = Tx_int int | Tx_text string | Tx_none

definition hex_digit :: "nat \<Rightarrow> char" where
  "hex_digit n = (if n < 10 then char_of (48 + n) else char_of (87 + n))"

fun hex_digits :: "nat \<Rightarrow> string" where
  "hex_digits n = (if n < 16 then [hex_digit n] else hex_digits (n div 16) @ [hex_digit (n mod 16)])"

definition py_hex :: "int \<Rightarrow> string" where
  "py_hex n = (if n < 0 then ''-'' else []) @ ''0x'' @ hex_digits (nat \<bar>n\<bar>)"

definition eth_key :: "string \<Rightarrow> string" where
  "eth_key k =
     (if k = ''chainId'' then ''chain_id'' else if k = ''gasPrice'' then ''gas_price''
      else if k = ''gas'' then ''gas_limit'' else if k = ''maxFeePerGas'' then ''max_fee_per_gas''
      else if k = ''maxPriorityFeePerGas'' then ''max_priority_fee_per_gas'' else k)"

definition eth_params :: "(string, tx_value) dict \<Rightarrow> (string, tx_value) dict" where
  "eth_params tx = fold (\<lambda>(k, v). dict_put (eth_key k) (case v of Tx_int n \<Rightarrow> Tx_text (py_hex n) | _ \<Rightarrow> v)) tx []"

definition sign_typed_data_v4 ::
  "rpc_answers \<Rightarrow> privy_signer \<Rightarrow> signing_module \<Rightarrow> signing_module \<times> (signing_error + string)" where
  "sign_typed_data_v4 a p s = call_rpc a p ''eth_signTypedData_v4'' s"

text \<open>The log text takes a prefix of the receiver. The parameters sent are the second component.\<close>

definition sign_eth_transaction ::
  "rpc_answers \<Rightarrow> privy_signer \<Rightarrow> (string, tx_value) dict \<Rightarrow> signing_module \<Rightarrow>
     signing_module \<times> (string, tx_value) dict \<times> (signing_error + string)" where
  "sign_eth_transaction a p tx s =
     (case dict_get ''to'' tx of
        Some (Tx_int _) \<Rightarrow> (s, [], Inl (Signing_raised (TypeError ''not subscriptable'')))
      | Some Tx_none \<Rightarrow> (s, [], Inl (Signing_raised (TypeError ''not subscriptable'')))
      | _ \<Rightarrow> (case call_rpc a p ''eth_signTransaction'' s of (s1, r) \<Rightarrow> (s1, eth_params tx, r)))"

definition sign_solana_transaction ::
  "rpc_answers \<Rightarrow> privy_signer \<Rightarrow> signing_module \<Rightarrow> signing_module \<times> (signing_error + string)" where
  "sign_solana_transaction a p s = call_rpc a p ''signTransaction'' s"

section \<open>Lemmas\<close>

lemma on_breaker_simps [simp]:
  "md_breaker (on_breaker f s) = f (md_breaker s)" "md_metrics (on_breaker f s) = md_metrics s"
  "md_breaker (log_signing t r m p s) = md_breaker s"
  by (simp_all add: on_breaker_def log_signing_def)

text \<open>The attempt that decides: the first that is not worth a retry, or the last.\<close>

definition retry_worthy :: "exn + string \<Rightarrow> bool" where
  "retry_worthy r = (case r of Inl e \<Rightarrow> \<not> is_policy_denial e \<and> is_retriable e | Inr _ \<Rightarrow> False)"

fun deciding_from :: "(nat \<Rightarrow> exn + string) \<Rightarrow> nat \<Rightarrow> nat \<Rightarrow> nat" where
  "deciding_from out k 0 = k"
| "deciding_from out k (Suc n) = (if retry_worthy (out k) then deciding_from out (Suc k) n else k)"

text \<open>What the deciding attempt makes of the module and of the call.\<close>

definition decided ::
  "rpc_answers \<Rightarrow> privy_signer \<Rightarrow> string \<Rightarrow> nat \<Rightarrow> signing_module \<Rightarrow> signing_module \<times> (signing_error + string)" where
  "decided a p method k s =
     (case rpc_attempt a p k of
        Inr v \<Rightarrow> (on_breaker breaker_success (log_signing (rp_logged a k) ''success'' method p s), Inr v)
      | Inl e \<Rightarrow>
          if is_policy_denial e
          then (log_signing (rp_logged a k) ''policy_denied'' method p s, Inl (raise_signing p (Policy_denied (exn_text e))))
          else (log_signing (rp_logged a k) ''error'' method p (on_breaker (breaker_failure (rp_failed a)) s),
                Inl (raise_signing p (Signing_failed (exn_text e) (is_retriable e)))))"

lemma rpc_loop_decided:
  "rpc_loop a p method k (Suc n) s = decided a p method (deciding_from (rpc_attempt a p) k n) s"
  by (induction n arbitrary: k) (auto simp: decided_def retry_worthy_def split: sum.splits)

lemma deciding_from_bound: "k \<le> deciding_from out k n" "deciding_from out k n \<le> k + n"
  by (induction n arbitrary: k) (auto, (metis Suc_leD add_Suc_right add_Suc)+)

lemma not_open [simp]: "sb_tripped_at b = None \<Longrightarrow> breaker_is_open t b = (b, False)"
  by (simp add: breaker_is_open_def)

text \<open>A call of a signer without a wallet id.\<close>

lemma no_wallet_not_policy:
  "\<not> is_policy_denial (ValueError ''wallet_id not set. Pass wallet_id to constructor (address->ID resolution has been removed).'')"
  "\<not> is_retriable (ValueError ''wallet_id not set. Pass wallet_id to constructor (address->ID resolution has been removed).'')"
  by code_simp+

lemma no_wallet_call:
  assumes "ps_wallet_id p = None" "\<And>k. rp_client a k = Inr ()" "sb_tripped_at (md_breaker s) = None"
  shows "md_breaker (fst (call_rpc a p method s)) = breaker_failure (rp_failed a) (md_breaker s)"
  using assms no_wallet_not_policy
  by (simp add: call_rpc_def RETRY_MAX_ATTEMPTS_def numeral_3_eq_3 rpc_attempt_def signer_wallet_id_def)

lemma failure_not_tripped:
  "sb_tripped_at b = None \<Longrightarrow> sb_failures b + 1 < sb_threshold b \<Longrightarrow>
     breaker_failure t b = b\<lparr>sb_failures := sb_failures b + 1\<rparr>"
  by (simp add: breaker_failure_def Let_def)

lemma failures_trip:
  assumes "sb_tripped_at (md_breaker s) = None" "sb_failures (md_breaker s) + length as = sb_threshold (md_breaker s)"
    and "as \<noteq> []" "\<forall>a \<in> set as. \<forall>k. rp_client a k = Inr ()" "ps_wallet_id p = None"
  shows "sb_tripped_at (md_breaker (fold (\<lambda>a s. fst (call_rpc a p method s)) as s)) = Some (rp_failed (last as)) \<and>
    sb_cooldown (md_breaker (fold (\<lambda>a s. fst (call_rpc a p method s)) as s)) = sb_cooldown (md_breaker s)"
  using assms
proof (induction as arbitrary: s)
  case (Cons a as)
  let ?s1 = "fst (call_rpc a p method s)"
  have b: "md_breaker ?s1 = breaker_failure (rp_failed a) (md_breaker s)"
    using Cons.prems by (intro no_wallet_call) auto
  show ?case
  proof (cases "as = []")
    case True
    with b Cons.prems show ?thesis by (simp add: breaker_failure_def Let_def)
  next
    case False
    then have "length as > 0" by simp
    with Cons.prems b have "md_breaker ?s1 = (md_breaker s)\<lparr>sb_failures := sb_failures (md_breaker s) + 1\<rparr>"
      by (simp add: failure_not_tripped)
    then show ?thesis using Cons.IH[of ?s1] Cons.prems False by simp
  qed
qed simp

text \<open>Metrics: a history of recordings and prunings, and what is left of it.\<close>

datatype metric_op = Record_op signing_event | Prune_op pyfloat

fun metric_step :: "metric_op \<Rightarrow> signing_metrics \<Rightarrow> signing_metrics" where
  "metric_step (Record_op e) m = record_event (se_timestamp e) (se_result e) (se_method e) (se_wallet_id e) m"
| "metric_step (Prune_op t) m = prune_events t m"

definition recorded :: "metric_op list \<Rightarrow> signing_event list" where
  "recorded ops = concat (map (\<lambda>op. case op of Record_op e \<Rightarrow> [e] | Prune_op _ \<Rightarrow> []) ops)"

lemma filter_dropWhile_old:
  assumes "c \<le> d"
  shows "filter (\<lambda>e. d \<le> f e) (dropWhile (\<lambda>e. f e < (c :: rat)) es) = filter (\<lambda>e. d \<le> f e) es"
  using assms by (induction es) auto

lemma metric_run_filter:
  assumes "\<forall>t. Prune_op t \<in> set ops \<longrightarrow> flt (t - mt_window m) \<le> d"
  shows "mt_window (fold metric_step ops m) = mt_window m \<and>
    filter (\<lambda>e. d \<le> se_timestamp e) (mt_events (fold metric_step ops m)) =
    filter (\<lambda>e. d \<le> se_timestamp e) (mt_events m @ recorded ops)"
  using assms
proof (induction ops arbitrary: m)
  case (Cons op ops)
  let ?m1 = "metric_step op m"
  have w: "mt_window ?m1 = mt_window m"
    by (cases op) (simp_all add: record_event_def prune_events_def)
  have f: "filter (\<lambda>e. d \<le> se_timestamp e) (mt_events ?m1) =
      filter (\<lambda>e. d \<le> se_timestamp e) (mt_events m @ recorded [op])"
    using Cons.prems
    by (cases op) (auto simp: record_event_def prune_events_def recorded_def filter_dropWhile_old)
  have "recorded (op # ops) = recorded [op] @ recorded ops" by (simp add: recorded_def)
  with Cons.IH[of ?m1] Cons.prems w f show ?case by simp
qed (simp add: recorded_def)

lemma count_result_ok: "dict_ok c \<Longrightarrow> dict_ok (count_result e c)"
  by (simp add: count_result_def dict.inv_put)

lemma counts_exact:
  assumes "dict_ok c" "dict_get r c = Some n"
  shows "dict_get r (fold count_result es c) = Some (n + length (filter (\<lambda>e. se_result e = r) es))"
  using assms
proof (induction es arbitrary: c n)
  case (Cons e es)
  have "dict_get r (count_result e c) = Some (n + (if se_result e = r then 1 else 0))"
    using Cons.prems by (auto simp: count_result_def dict.get_put)
  with Cons.IH[OF count_result_ok[OF Cons.prems(1), of e]] show ?case by simp
qed simp

section \<open>Theorems\<close>

text \<open>Five signing calls of one user without a wallet open the circuit breaker that all users share, so the
  next call of a user with a wallet is refused.\<close>

theorem missing_wallet_trips_breaker:
  assumes "sb_tripped_at (md_breaker s) = None" "sb_failures (md_breaker s) = 0" "sb_threshold (md_breaker s) = 5"
    and "length as = 5" "\<forall>a \<in> set as. \<forall>k. rp_client a k = Inr ()" "ps_wallet_id p = None"
    and "ps_wallet_id q = Some w" "flt (rp_now b - rp_failed (last as)) < sb_cooldown (md_breaker s)"
  shows "snd (call_rpc b q method (fold (\<lambda>a s. fst (call_rpc a p method2 s)) as s)) =
    Inl (Signing_failed ''Signing circuit breaker is open'' True)"
proof -
  have "as \<noteq> []" using assms(4) by auto
  from failures_trip[OF assms(1) _ this assms(5,6), of method2] assms(2-4,7,8) show ?thesis
    by (simp add: call_rpc_def breaker_is_open_def raise_signing_def signer_wallet_id_def)
qed

text \<open>The retry loop of a signing call agrees with its reference: the first attempt, of at most three, whose
  reply is not worth a retry decides the call.\<close>

theorem rpc_reference:
  assumes "breaker_is_open (rp_now a) (md_breaker s) = (b, False)"
  shows "call_rpc a p method s = decided a p method (deciding_from (rpc_attempt a p) 0 2) (s\<lparr>md_breaker := b\<rparr>) \<and>
    deciding_from (rpc_attempt a p) 0 2 \<le> 2"
  using assms deciding_from_bound(2)[of "rpc_attempt a p" 0 2]
  by (simp add: call_rpc_def RETRY_MAX_ATTEMPTS_def rpc_loop_decided numeral_3_eq_3 numeral_2_eq_2 del: rpc_loop.simps)

text \<open>The summary of the signing metrics is exact after every history of recordings and prunings with the
  clock not going back: each result is counted as often as it was recorded in the window asked for,
  when that is at most a day.\<close>

theorem signing_summary_exact:
  assumes "\<forall>t. Prune_op t \<in> set ops \<longrightarrow> t \<le> t1" "t1 \<le> t2" "py_or window METRICS_WINDOW_SECONDS \<le> METRICS_WINDOW_SECONDS"
    and "r \<in> {''success'', ''policy_denied'', ''error'', ''circuit_open''}"
  shows "dict_get r (snd (signing_summary t1 t2 window (fold metric_step ops (md_metrics signing_module_init)))) =
    Some (length (filter (\<lambda>e. se_result e = r \<and>
      flt (t2 - py_or window METRICS_WINDOW_SECONDS) \<le> se_timestamp e) (recorded ops)))"
proof -
  let ?init = "md_metrics signing_module_init" and ?d = "flt (t2 - py_or window METRICS_WINDOW_SECONDS)"
  let ?m = "fold metric_step (ops @ [Prune_op t1]) ?init"
  have w: "mt_window ?init = METRICS_WINDOW_SECONDS" "mt_events ?init = []" by (simp_all add: signing_module_init_def)
  have "\<forall>t. Prune_op t \<in> set (ops @ [Prune_op t1]) \<longrightarrow> flt (t - mt_window ?init) \<le> ?d"
    using assms(1-3) by (auto simp: w intro!: flt.rnd_mono)
  from metric_run_filter[OF this] have m: "mt_window ?m = METRICS_WINDOW_SECONDS"
    "filter (\<lambda>e. ?d \<le> se_timestamp e) (mt_events ?m) = filter (\<lambda>e. ?d \<le> se_timestamp e) (recorded ops)"
    by (simp_all add: w recorded_def)
  have "snd (signing_summary t1 t2 window (fold metric_step ops ?init)) =
      fold count_result (filter (\<lambda>e. ?d \<le> se_timestamp e) (recorded ops)) no_counts"
    unfolding m(2)[symmetric] using m(1) by (simp add: signing_summary_def Let_def)
  moreover have "dict_ok no_counts" "dict_get r no_counts = Some 0"
    using assms(4) by (auto simp: no_counts_def dict_ok_def dict_get_def)
  ultimately show ?thesis using counts_exact[of no_counts r 0] by (simp add: conj_commute)
qed

section \<open>Witnesses\<close>

definition wit_rpc :: "exn + string \<Rightarrow> rpc_answers" where
  "wit_rpc r = \<lparr>rp_now = 10, rp_logged = (\<lambda>_. 10), rp_failed = 10, rp_client = (\<lambda>_. Inr ()), rp_reply = (\<lambda>_. r)\<rparr>"

definition wit_signer :: privy_signer where
  "wit_signer = \<lparr>ps_wallet_id = Some ''w'', ps_address = ''0xuser''\<rparr>"

lemma missing_wallet_trips_breaker_witness:
  "snd (call_rpc (wit_rpc (Inr ''sig'')) wit_signer ''signTransaction''
      (fold (\<lambda>a s. fst (call_rpc a (wit_signer\<lparr>ps_wallet_id := None\<rparr>) ''signTransaction'' s))
        (replicate 5 (wit_rpc (Inr ''sig''))) signing_module_init)) =
    Inl (Signing_failed ''Signing circuit breaker is open'' True)"
  by (rule missing_wallet_trips_breaker[where w = "''w''"])
    (simp_all add: signing_module_init_def signing_breaker_init_def wit_rpc_def wit_signer_def)

lemma rpc_reference_witness:
  "call_rpc (wit_rpc (Inl (ExternalError ''timeout''))) wit_signer ''m'' signing_module_init =
     decided (wit_rpc (Inl (ExternalError ''timeout''))) wit_signer ''m'' 2 signing_module_init"
proof -
  have "retry_worthy (Inl (ExternalError ''timeout''))" by code_simp
  then have "deciding_from (rpc_attempt (wit_rpc (Inl (ExternalError ''timeout''))) wit_signer) 0 2 = 2"
    by (simp add: numeral_2_eq_2 rpc_attempt_def wit_rpc_def signer_wallet_id_def wit_signer_def)
  moreover have "breaker_is_open (rp_now (wit_rpc (Inl (ExternalError ''timeout'')))) (md_breaker signing_module_init) =
      (md_breaker signing_module_init, False)"
    by (simp add: signing_module_init_def signing_breaker_init_def)
  ultimately show ?thesis
    using rpc_reference[of "wit_rpc (Inl (ExternalError ''timeout''))" signing_module_init] by simp
qed

definition wit_ops :: "metric_op list" where
  "wit_ops = [Record_op \<lparr>se_timestamp = 0, se_result = ''error'', se_method = ''m'', se_wallet_id = ''w''\<rparr>,
     Prune_op 10, Record_op \<lparr>se_timestamp = 90000, se_result = ''error'', se_method = ''m'', se_wallet_id = ''w''\<rparr>,
     Prune_op 90000]"

lemma signing_summary_exact_witness:
  "dict_get ''error'' (snd (signing_summary 90000 90000 None (fold metric_step wit_ops (md_metrics signing_module_init)))) =
    Some 1"
proof -
  have c: "flt (90000 - METRICS_WINDOW_SECONDS) = 3600" by code_simp
  show ?thesis
    using signing_summary_exact[of wit_ops 90000 90000 None "''error''"]
    by (simp add: wit_ops_def recorded_def c)
qed

end
