(* ===== verification/Sessions.thy ===== *)
theory Sessions
  imports Encryption UserContext
begin

text \<open>
  Sessions of the dashboard (\<open>backend/dashboard/auth.py\<close>): login, lookup with its two time limits,
  activity, logout, clean-up, and the dependencies of the routes.

  Redis is a map from a session id to the stored session and the time it expires (a key is gone from then
  on); the session is stored as it is, the JSON text and back being the identity. The managers of the
  process are a dictionary, \<open>sessions\<close> and \<open>user_keys\<close> are tables. Random bytes, tokens, the
  clock and the outcome of each statement and each connection to Redis are arguments. A method reads the
  clock once; a method is one step, also where the code awaits between reading and writing Redis or the
  tables (creating and touching a session), so requests come one after the other; the secret and the ids of users are ASCII texts. A manager is a value here: that a request
  in flight sees its manager locked by a logout is not represented.
\<close>

section \<open>Data\<close>

record session_data =
  sd_id :: string
  sd_privy_user_id :: string
  sd_email :: "string option"
  sd_created_at :: datetime
  sd_expires_at :: datetime
  sd_last_activity :: datetime
  sd_csrf_token :: string
  sd_ip_address :: string
  sd_user_agent :: string

record session_manager =
  sn_redis :: "string \<rightharpoonup> session_data \<times> datetime"
  sn_managers :: "(string, encryption_manager) dict"
  sn_has_db :: bool
  sn_sessions :: "(string, session_data) dict"
  sn_user_keys :: "string \<rightharpoonup> byte list"

datatype session_error =
  Invalid_session string | Crypt_failed crypt_error | Session_crash exn | Http_failure nat string

definition INACTIVITY_TIMEOUT :: int where "INACTIVITY_TIMEOUT = seconds (30 * 60)"
definition MAX_SESSION_SECONDS :: int where "MAX_SESSION_SECONDS = 8 * 60 * 60"

definition session_expired :: "datetime \<Rightarrow> session_data \<Rightarrow> bool" where
  "session_expired now d = (now > sd_expires_at d)"

definition session_inactive :: "datetime \<Rightarrow> session_data \<Rightarrow> bool" where
  "session_inactive now d = (now > sd_last_activity d + INACTIVITY_TIMEOUT)"

definition touched :: "datetime \<Rightarrow> session_data \<Rightarrow> session_data" where
  "touched now d = d\<lparr>sd_last_activity := now\<rparr>"

section \<open>Redis\<close>

definition redis_get :: "datetime \<Rightarrow> string \<Rightarrow> session_manager \<Rightarrow> session_data option" where
  "redis_get now i s =
     (case sn_redis s i of None \<Rightarrow> None | Some (d, expires) \<Rightarrow> if now < expires then Some d else None)"

definition redis_put :: "datetime \<Rightarrow> int \<Rightarrow> string \<Rightarrow> session_data \<Rightarrow> session_manager \<Rightarrow> session_manager" where
  "redis_put now ttl i d s = s\<lparr>sn_redis := (sn_redis s)(i \<mapsto> (d, now + seconds ttl))\<rparr>"

section \<open>Login\<close>

definition session_kek :: "string \<Rightarrow> string \<Rightarrow> byte list" where
  "session_kek user secret = hmac_sha256 (map of_char secret) (map of_char user)"

record key_answers =
  ky_select :: "exn + unit"
  ky_dek :: "byte list"
  ky_salt :: "byte list"
  ky_nonce :: "byte list"
  ky_insert :: "exn + unit"

definition stored_dek :: "string \<Rightarrow> session_manager \<Rightarrow> byte list option" where
  "stored_dek user s = (case sn_user_keys s user of None \<Rightarrow> None | Some k \<Rightarrow> if k = [] then None else Some k)"

definition create_dek ::
  "crypto \<Rightarrow> key_answers \<Rightarrow> string \<Rightarrow> byte list \<Rightarrow> session_manager \<Rightarrow> session_manager \<times> (session_error + byte list)" where
  "create_dek c a user kek s =
     (case encrypt_dek c (ky_nonce a) (ky_dek a) kek (ky_salt a) of
        Inl e \<Rightarrow> (s, Inl (Crypt_failed e))
      | Inr x \<Rightarrow>
          if \<not> sn_has_db s then (s, Inr x)
          else (case ky_insert a of
                  Inl e \<Rightarrow> (s, Inl (Session_crash e))
                | Inr _ \<Rightarrow> (s\<lparr>sn_user_keys := (sn_user_keys s)(user \<mapsto> x)\<rparr>, Inr x)))"

definition get_or_create_dek ::
  "crypto \<Rightarrow> key_answers \<Rightarrow> string \<Rightarrow> byte list \<Rightarrow> session_manager \<Rightarrow> session_manager \<times> (session_error + byte list)" where
  "get_or_create_dek c a user kek s =
     (if sn_has_db s \<and> \<not> is_ok (ky_select a) then (s, Inl (Session_crash (projl (ky_select a))))
      else if sn_has_db s \<and> stored_dek user s \<noteq> None then (s, Inr (the (stored_dek user s)))
      else create_dek c a user kek s)"

record login =
  lg_user :: string
  lg_email :: "string option"
  lg_ip :: string
  lg_agent :: string
  lg_session_id :: string
  lg_csrf_token :: string

definition new_session :: "datetime \<Rightarrow> login \<Rightarrow> session_data" where
  "new_session now l = \<lparr>sd_id = lg_session_id l, sd_privy_user_id = lg_user l, sd_email = lg_email l,
     sd_created_at = now, sd_expires_at = now + seconds (8 * 60 * 60), sd_last_activity = now,
     sd_csrf_token = lg_csrf_token l, sd_ip_address = lg_ip l, sd_user_agent = lg_agent l\<rparr>"

record login_answers =
  la_key :: key_answers
  la_redis :: "exn + unit"
  la_insert :: "exn + unit"

definition create_session ::
  "crypto \<Rightarrow> string \<Rightarrow> login_answers \<Rightarrow> datetime \<Rightarrow> login \<Rightarrow> session_manager \<Rightarrow>
     session_manager \<times> (session_error + session_data \<times> encryption_manager)" where
  "create_session c secret a now l s =
     (let d = new_session now l; i = sd_id d; kek = session_kek (lg_user l) secret
      in case get_or_create_dek c (la_key a) (lg_user l) kek s of
           (s1, Inl e) \<Rightarrow> (s1, Inl e)
         | (s1, Inr x) \<Rightarrow>
             (case unlock_with_dek c x kek None of
                (m, Inl e) \<Rightarrow> (s1, Inl (Crypt_failed e))
              | (m, Inr _) \<Rightarrow>
                  (case la_redis a of
                     Inl e \<Rightarrow> (s1, Inl (Session_crash e))
                   | Inr _ \<Rightarrow>
                       let s2 = redis_put now MAX_SESSION_SECONDS i d s1;
                           s3 = s2\<lparr>sn_managers := dict_put i m (sn_managers s2)\<rparr>
                       in if \<not> sn_has_db s3 then (s3, Inr (d, m))
                          else (case la_insert a of
                                  Inl e \<Rightarrow> (s3, Inl (Session_crash e))
                                | Inr _ \<Rightarrow> (s3\<lparr>sn_sessions := dict_put i d (sn_sessions s3)\<rparr>, Inr (d, m))))))"

section \<open>Use\<close>

text \<open>How the calls to Redis and the table end: the lookup, the deletion and its statement, the lookup and
  the write of an activity.\<close>

record session_io =
  si_redis :: "exn + unit"
  si_gone :: "exn + unit"
  si_delete :: "exn + unit"
  si_touch :: "exn + unit"
  si_set :: "exn + unit"

definition destroy_session :: "session_io \<Rightarrow> string \<Rightarrow> session_manager \<Rightarrow> session_manager \<times> (session_error + unit)" where
  "destroy_session io i s =
     (case si_gone io of
        Inl e \<Rightarrow> (s, Inl (Session_crash e))
      | Inr _ \<Rightarrow>
          let s1 = s\<lparr>sn_redis := (sn_redis s)(i := None), sn_managers := dict_del i (sn_managers s)\<rparr>
          in if \<not> sn_has_db s1 then (s1, Inr ())
             else (case si_delete io of
                     Inl e \<Rightarrow> (s1, Inl (Session_crash e))
                   | Inr _ \<Rightarrow> (s1\<lparr>sn_sessions := dict_del i (sn_sessions s1)\<rparr>, Inr ())))"

text \<open>A session that is over is destroyed before the error, unless destroying it raises.\<close>

definition end_session :: "session_io \<Rightarrow> string \<Rightarrow> string \<Rightarrow> session_manager \<Rightarrow> session_manager \<times> (session_error + 'a)" where
  "end_session io why i s =
     (case destroy_session io i s of
        (s1, Inl e) \<Rightarrow> (s1, Inl e)
      | (s1, Inr _) \<Rightarrow> (s1, Inl (Invalid_session why)))"

text \<open>A session whose manager is not in this process gets a new, locked one.\<close>

definition get_session ::
  "session_io \<Rightarrow> datetime \<Rightarrow> string \<Rightarrow> session_manager \<Rightarrow>
     session_manager \<times> (session_error + (session_data \<times> encryption_manager) option)" where
  "get_session io now i s =
     (case si_redis io of
        Inl e \<Rightarrow> (s, Inl (Session_crash e))
      | Inr _ \<Rightarrow>
        (case redis_get now i s of
           None \<Rightarrow> (s\<lparr>sn_managers := dict_del i (sn_managers s)\<rparr>, Inr None)
         | Some d \<Rightarrow>
             if session_expired now d
             then end_session io ''Session expired - please log in again'' i s
             else if session_inactive now d
             then end_session io ''Session timed out due to inactivity'' i s
             else (s, Inr (Some (d, case dict_get i (sn_managers s) of None \<Rightarrow> None | Some m \<Rightarrow> m)))))"

text \<open>\<open>compare_digest\<close> takes ASCII texts only.\<close>

definition is_ascii :: "string \<Rightarrow> bool" where
  "is_ascii s = list_all (\<lambda>c. (of_char c :: nat) < 128) s"

definition compare_digest :: "string \<Rightarrow> string \<Rightarrow> exn + bool" where
  "compare_digest x y = (if is_ascii x \<and> is_ascii y then Inr (x = y) else Inl (TypeError ''non-ASCII''))"

definition validate_csrf ::
  "session_io \<Rightarrow> datetime \<Rightarrow> string \<Rightarrow> string \<Rightarrow> session_manager \<Rightarrow> session_manager \<times> (session_error + bool)" where
  "validate_csrf io now i token s =
     (case get_session io now i s of
        (s1, Inl e) \<Rightarrow> (s1, Inl e)
      | (s1, Inr None) \<Rightarrow> (s1, Inr False)
      | (s1, Inr (Some (d, _))) \<Rightarrow>
          (s1, case compare_digest (sd_csrf_token d) token of Inl e \<Rightarrow> Inl (Session_crash e) | Inr b \<Rightarrow> Inr b))"

definition remaining_seconds :: "datetime \<Rightarrow> session_data \<Rightarrow> int" where
  "remaining_seconds now d = trunc (total_seconds (sd_expires_at d - now))"

definition touch_session :: "session_io \<Rightarrow> datetime \<Rightarrow> string \<Rightarrow> session_manager \<Rightarrow> session_manager \<times> (session_error + unit)" where
  "touch_session io now i s =
     (case si_touch io of
        Inl e \<Rightarrow> (s, Inl (Session_crash e))
      | Inr _ \<Rightarrow>
        (case redis_get now i s of
           None \<Rightarrow> (s, Inr ())
         | Some d \<Rightarrow>
             if remaining_seconds now d > 0
             then (case si_set io of
                     Inl e \<Rightarrow> (s, Inl (Session_crash e))
                   | Inr _ \<Rightarrow> (redis_put now (remaining_seconds now d) i (touched now d) s, Inr ()))
             else (s, Inr ())))"

definition cleanup_expired :: "session_io \<Rightarrow> datetime \<Rightarrow> session_manager \<Rightarrow> session_manager \<times> (session_error + nat)" where
  "cleanup_expired io now s =
     (case si_redis io of
        Inl e \<Rightarrow> (s, Inl (Session_crash e))
      | Inr _ \<Rightarrow>
          let gone = filter (\<lambda>i. redis_get now i s = None) (map fst (sn_managers s))
          in (s\<lparr>sn_managers := fold dict_del gone (sn_managers s)\<rparr>, Inr (length gone)))"

section \<open>The dependencies of the routes\<close>

definition get_current_session ::
  "session_io \<Rightarrow> datetime \<Rightarrow> string option \<Rightarrow> session_manager \<Rightarrow>
     session_manager \<times> (session_error + session_data \<times> encryption_manager)" where
  "get_current_session io now cookie s =
     (case cookie of
        None \<Rightarrow> (s, Inl (Http_failure 401 ''Not authenticated''))
      | Some i \<Rightarrow>
          if i = [] then (s, Inl (Http_failure 401 ''Not authenticated''))
          else
            (case get_session io now i s of
               (s1, Inl (Invalid_session why)) \<Rightarrow> (s1, Inl (Http_failure 401 why))
             | (s1, Inl e) \<Rightarrow> (s1, Inl e)
             | (s1, Inr None) \<Rightarrow> (s1, Inl (Http_failure 401 ''Invalid session''))
             | (s1, Inr (Some x)) \<Rightarrow>
                 (case touch_session io now i s1 of (s2, Inl e) \<Rightarrow> (s2, Inl e) | (s2, Inr _) \<Rightarrow> (s2, Inr x))))"

definition require_csrf ::
  "session_io \<Rightarrow> datetime \<Rightarrow> string option \<Rightarrow> string option \<Rightarrow> session_manager \<Rightarrow>
     session_manager \<times> (session_error + unit)" where
  "require_csrf io now cookie token s =
     (if \<not> truthy cookie \<or> \<not> truthy token then (s, Inl (Http_failure 403 ''CSRF token required''))
      else
        (case validate_csrf io now (the cookie) (the token) s of
           (s1, Inl e) \<Rightarrow> (s1, Inl e)
         | (s1, Inr b) \<Rightarrow> (s1, if b then Inr () else Inl (Http_failure 403 ''Invalid CSRF token''))))"

definition get_encryption_manager :: "session_data \<times> encryption_manager \<Rightarrow> session_error + encryption_manager" where
  "get_encryption_manager x =
     (if is_unlocked (snd x) then Inr (snd x) else Inl (Http_failure 401 ''Encryption not unlocked''))"

text \<open>Every user has the role \<open>admin\<close>.\<close>

definition require_role :: "string list \<Rightarrow> session_data \<times> encryption_manager \<Rightarrow> session_error + string" where
  "require_role roles x =
     (if ''admin'' \<in> set roles then Inr (sd_privy_user_id (fst x)) else Inl (Http_failure 403 ''Insufficient permissions''))"

definition verify_api_key :: "string \<Rightarrow> string \<Rightarrow> exn + bool" where
  "verify_api_key configured key = (if configured = [] then Inr False else compare_digest key configured)"

section \<open>Runs\<close>

datatype session_op =
    Log_in login_answers login
  | Use_session session_io "string option"
  | Check_csrf session_io "string option" "string option"
  | Log_out session_io string
  | Clean_up session_io

fun session_step :: "crypto \<Rightarrow> string \<Rightarrow> datetime \<times> session_op \<Rightarrow> session_manager \<Rightarrow> session_manager" where
  "session_step c secret (now, Log_in a l) s = fst (create_session c secret a now l s)"
| "session_step c secret (now, Use_session io cookie) s = fst (get_current_session io now cookie s)"
| "session_step c secret (now, Check_csrf io cookie token) s = fst (require_csrf io now cookie token s)"
| "session_step c secret (now, Log_out io i) s = fst (destroy_session io i s)"
| "session_step c secret (now, Clean_up io) s = fst (cleanup_expired io now s)"

definition no_sessions :: "bool \<Rightarrow> session_manager" where
  "no_sessions db = \<lparr>sn_redis = (\<lambda>_. None), sn_managers = [], sn_has_db = db, sn_sessions = [], sn_user_keys = (\<lambda>_. None)\<rparr>"

definition session_run :: "crypto \<Rightarrow> string \<Rightarrow> (datetime \<times> session_op) list \<Rightarrow> session_manager \<Rightarrow> session_manager" where
  "session_run c secret ops s = fold (session_step c secret) ops s"

section \<open>Lemmas\<close>

lemma redis_get_stored: "redis_get now i s = Some d \<Longrightarrow> \<exists>ex. sn_redis s i = Some (d, ex)"
  by (auto simp: redis_get_def split: option.splits if_splits)

text \<open>What the operations do to the stored sessions.\<close>

lemma destroy_redis: "sn_redis (fst (destroy_session io i s)) \<in> {sn_redis s, (sn_redis s)(i := None)}"
  by (simp add: destroy_session_def Let_def split: sum.splits)

lemma end_session_fst [simp]: "fst (end_session io why i s) = fst (destroy_session io i s)"
  by (simp add: end_session_def split: prod.splits sum.splits)

lemma get_session_redis: "sn_redis (fst (get_session io now i s)) \<in> {sn_redis s, (sn_redis s)(i := None)}"
  using destroy_redis[of io i s] by (simp add: get_session_def split: sum.splits option.splits)

lemma get_session_Some:
  "get_session io now i s = (s1, Inr (Some (d, m))) \<Longrightarrow>
     s1 = s \<and> redis_get now i s = Some d \<and> \<not> session_expired now d \<and> \<not> session_inactive now d"
  by (auto simp: get_session_def end_session_def split: sum.splits option.splits if_splits prod.splits)

lemma touch_redis:
  "sn_redis (fst (touch_session io now i s)) = sn_redis s \<or>
     (\<exists>d ex. redis_get now i s = Some d \<and> sn_redis (fst (touch_session io now i s)) = (sn_redis s)(i \<mapsto> (touched now d, ex)))"
  by (cases "redis_get now i s") (auto simp: touch_session_def redis_put_def split: sum.splits)

lemma create_redis:
  "sn_redis (fst (create_session c secret a now l s)) \<in>
     {sn_redis s, (sn_redis s)(lg_session_id l \<mapsto> (new_session now l, now + seconds MAX_SESSION_SECONDS))}"
proof -
  have k: "sn_redis s1 = sn_redis s" if "get_or_create_dek c (la_key a) (lg_user l) kek s = (s1, r)" for s1 r kek
    using that by (auto simp: get_or_create_dek_def create_dek_def split: if_splits sum.splits)
  show ?thesis
    by (auto simp: create_session_def Let_def redis_put_def new_session_def split: prod.splits sum.splits dest!: k)
qed

lemma require_csrf_redis:
  "sn_redis (fst (require_csrf io now cookie token s)) \<in> {sn_redis s, (sn_redis s)(the cookie := None)}"
  using get_session_redis[of io now "the cookie" s]
  by (auto simp: require_csrf_def validate_csrf_def split: sum.splits option.splits prod.splits)

text \<open>A stored session comes from a login of the run, and its activity from a use of it.\<close>

definition genuine :: "(datetime \<times> session_op) list \<Rightarrow> string \<Rightarrow> session_data \<Rightarrow> bool" where
  "genuine ops i d \<longleftrightarrow> (\<exists>t a l u. (t, Log_in a l) \<in> set ops \<and> lg_session_id l = i \<and>
     d = (new_session t l)\<lparr>sd_last_activity := u\<rparr> \<and> (u = t \<or> (\<exists>io. (u, Use_session io (Some i)) \<in> set ops)))"

definition sessions_genuine :: "(datetime \<times> session_op) list \<Rightarrow> session_manager \<Rightarrow> bool" where
  "sessions_genuine ops s \<longleftrightarrow> (\<forall>i d ex. sn_redis s i = Some (d, ex) \<longrightarrow> genuine ops i d)"

lemma genuine_mono: "genuine ops i d \<Longrightarrow> genuine (ops @ rest) i d"
  unfolding genuine_def by fastforce

lemma sessions_genuine_shrink:
  assumes "sessions_genuine ops s" "sn_redis s1 \<in> {sn_redis s, (sn_redis s)(i := None)}"
  shows "sessions_genuine (ops @ rest) s1"
  using assms genuine_mono by (fastforce simp: sessions_genuine_def split: if_splits)

lemma sessions_genuine_step:
  assumes g: "sessions_genuine ops s"
  shows "sessions_genuine (ops @ [op]) (session_step c secret op s)"
proof -
  obtain now o' where op: "op = (now, o')" by (cases op)
  show ?thesis
  proof (cases o')
    case (Log_in a l)
    have "genuine (ops @ [op]) (lg_session_id l) (new_session now l)"
      unfolding genuine_def op Log_in
      by (intro exI[of _ now] exI[of _ a] exI[of _ l]) (simp add: new_session_def)
    then show ?thesis
      using create_redis[of c secret a now l s] g genuine_mono[of ops _ _ "[op]"]
      by (auto simp: op Log_in sessions_genuine_def split: if_splits)
  next
    case (Use_session io cookie)
    show ?thesis
    proof (cases "\<exists>i d m. cookie = Some i \<and> i \<noteq> [] \<and> get_session io now i s = (s, Inr (Some (d, m)))")
      case True
      then obtain i d m where i: "cookie = Some i" "i \<noteq> []" "get_session io now i s = (s, Inr (Some (d, m)))" by blast
      have st: "session_step c secret op s = fst (touch_session io now i s)"
        using i by (simp add: op Use_session get_current_session_def split: prod.splits sum.splits)
      have "genuine (ops @ [op]) i (touched now d')" if r: "redis_get now i s = Some d'" for d'
      proof -
        obtain ex where "sn_redis s i = Some (d', ex)" using redis_get_stored[OF r] by blast
        with g have "genuine ops i d'" unfolding sessions_genuine_def by blast
        then obtain t a l u where "(t, Log_in a l) \<in> set ops" "lg_session_id l = i"
          "d' = (new_session t l)\<lparr>sd_last_activity := u\<rparr>"
          unfolding genuine_def by blast
        then show ?thesis
          unfolding genuine_def op Use_session i(1)
          by (intro exI[of _ t] exI[of _ a] exI[of _ l] exI[of _ now]) (auto simp: touched_def)
      qed
      then show ?thesis
        using touch_redis[of io now i s] g genuine_mono[of ops _ _ "[op]"]
        by (auto simp: st sessions_genuine_def split: if_splits)
    next
      case False
      have "sn_redis (session_step c secret op s) \<in> {sn_redis s, (sn_redis s)(the cookie := None)}"
        using get_session_redis[of io now "the cookie" s] False get_session_Some[of io now "the cookie" s]
        by (force simp: op Use_session get_current_session_def split: option.splits prod.splits sum.splits session_error.splits)
      with g show ?thesis by (rule sessions_genuine_shrink)
    qed
  next
    case (Check_csrf io cookie token)
    with sessions_genuine_shrink[OF g require_csrf_redis] show ?thesis by (simp add: op)
  next
    case (Log_out io i)
    with sessions_genuine_shrink[OF g destroy_redis] show ?thesis by (simp add: op)
  next
    case (Clean_up io)
    have "sn_redis (fst (cleanup_expired io now s)) = sn_redis s"
      by (simp add: cleanup_expired_def Let_def split: sum.splits)
    with g show ?thesis using Clean_up sessions_genuine_shrink[of ops s _ "[]"] by (simp add: op)
  qed
qed

lemma sessions_genuine_run: "sessions_genuine ops (session_run c secret ops (no_sessions db))"
proof (induction ops rule: rev_induct)
  case Nil
  then show ?case by (simp add: session_run_def no_sessions_def sessions_genuine_def)
next
  case (snoc op ops)
  from sessions_genuine_step[OF this, of op c secret] show ?case by (simp add: session_run_def)
qed

text \<open>The data key of a user stays, and every login unlocks the stored one.\<close>

definition has_key :: "string \<Rightarrow> byte list \<Rightarrow> session_manager \<Rightarrow> bool" where
  "has_key user x s \<longleftrightarrow> sn_has_db s \<and> sn_user_keys s user = Some x \<and> x \<noteq> []"

lemma key_frame:
  "sn_user_keys (fst (destroy_session io i s)) = sn_user_keys s"
  "sn_has_db (fst (destroy_session io i s)) = sn_has_db s"
  "sn_user_keys (fst (get_session io now i s)) = sn_user_keys s"
  "sn_has_db (fst (get_session io now i s)) = sn_has_db s"
  "sn_user_keys (fst (touch_session io now i s)) = sn_user_keys s"
  "sn_has_db (fst (touch_session io now i s)) = sn_has_db s"
proof -
  show d: "sn_user_keys (fst (destroy_session io i s)) = sn_user_keys s"
    "sn_has_db (fst (destroy_session io i s)) = sn_has_db s"
    by (simp_all add: destroy_session_def Let_def split: sum.splits)
  show "sn_user_keys (fst (get_session io now i s)) = sn_user_keys s"
    "sn_has_db (fst (get_session io now i s)) = sn_has_db s"
    by (simp_all add: get_session_def d split: sum.splits option.splits)
  show "sn_user_keys (fst (touch_session io now i s)) = sn_user_keys s"
    "sn_has_db (fst (touch_session io now i s)) = sn_has_db s"
    by (simp_all add: touch_session_def redis_put_def split: sum.splits option.splits)
qed

lemma create_keeps_key: "has_key user x s \<Longrightarrow> has_key user x (fst (create_session c secret a now l s))"
proof -
  assume h: "has_key user x s"
  have "has_key user x s1" if "get_or_create_dek c (la_key a) (lg_user l) kek s = (s1, r)" for s1 r kek
    using h that by (auto simp: has_key_def get_or_create_dek_def create_dek_def stored_dek_def
        split: if_splits sum.splits option.splits)
  with h show ?thesis
    by (auto simp: create_session_def Let_def redis_put_def has_key_def split: prod.splits sum.splits)
qed

lemma step_keeps_key: "has_key user x s \<Longrightarrow> has_key user x (session_step c secret op s)"
proof -
  assume h: "has_key user x s"
  have k: "has_key user x s1" if "sn_user_keys s1 = sn_user_keys s0" "sn_has_db s1 = sn_has_db s0" "has_key user x s0" for s0 s1
    using that by (simp add: has_key_def)
  have g: "has_key user x (fst (get_session io now i s))" for io now i
    using h by (rule k[rotated 2]) (simp_all add: key_frame)
  have t: "has_key user x (fst (touch_session io now i (fst (get_session io now i s))))" for io now i
    using g[of io now i] by (rule k[rotated 2]) (simp_all add: key_frame)
  obtain now o' where op: "op = (now, o')" by (cases op)
  show ?thesis
  proof (cases o')
    case (Log_in a l)
    with create_keeps_key[OF h] show ?thesis by (simp add: op)
  next
    case (Use_session io cookie)
    have "session_step c secret op s \<in> {s, fst (get_session io now (the cookie) s),
        fst (touch_session io now (the cookie) (fst (get_session io now (the cookie) s)))}"
      by (auto simp: op Use_session get_current_session_def split: option.splits prod.splits sum.splits session_error.splits)
    with h g t show ?thesis by auto
  next
    case (Check_csrf io cookie token)
    have "session_step c secret op s \<in> {s, fst (get_session io now (the cookie) s)}"
      by (auto simp: op Check_csrf require_csrf_def validate_csrf_def split: option.splits prod.splits sum.splits)
    with h g show ?thesis by auto
  next
    case (Log_out io i)
    with h show ?thesis by (simp add: op has_key_def key_frame)
  next
    case (Clean_up io)
    with h show ?thesis by (simp add: op has_key_def cleanup_expired_def Let_def split: sum.splits)
  qed
qed

lemma run_keeps_key: "has_key user x s \<Longrightarrow> has_key user x (session_run c secret ops s)"
  unfolding session_run_def by (induction ops arbitrary: s) (simp_all add: step_keeps_key)

lemma decrypted_nonempty: "decrypt_dek c x kek = Inr dek \<Longrightarrow> x \<noteq> [] \<and> length dek = 32"
  by (auto simp: decrypt_dek_def sizes Let_def split: if_splits sum.splits)

lemma create_unlocks:
  assumes "create_session c secret a now l s = (s1, Inr (d, m))" "sn_has_db s"
  shows "\<exists>x dek. has_key (lg_user l) x s1 \<and> decrypt_dek c x (session_kek (lg_user l) secret) = Inr dek \<and>
    m = Some dek \<and> (\<forall>y. has_key (lg_user l) y s \<longrightarrow> y = x)"
proof -
  let ?kek = "session_kek (lg_user l) secret"
  obtain s0 x where x: "get_or_create_dek c (la_key a) (lg_user l) ?kek s = (s0, Inr x)"
    and u: "\<exists>dek. decrypt_dek c x ?kek = Inr dek \<and> m = Some dek"
    and s1: "sn_user_keys s1 = sn_user_keys s0" "sn_has_db s1 = sn_has_db s0"
    using assms(1) by (auto simp: create_session_def Let_def unlock_with_dek_def redis_put_def
        split: prod.splits sum.splits if_splits)
  then have "x \<noteq> []" using decrypted_nonempty by blast
  moreover have "sn_user_keys s0 (lg_user l) = Some x \<and> sn_has_db s0 \<and> (\<forall>y. has_key (lg_user l) y s \<longrightarrow> y = x)"
    using x assms(2) by (auto simp: get_or_create_dek_def create_dek_def stored_dek_def has_key_def
        split: if_splits sum.splits option.splits)
  ultimately show ?thesis using u s1 by (auto simp: has_key_def)
qed

lemma relogin_same_key:
  assumes "create_session c secret a t l s = (s1, Inr (d, m))" "sn_has_db s"
    and "create_session c secret a' t' l' (session_run c secret ops s1) = (s2, Inr (d', m'))" "lg_user l' = lg_user l"
  shows "m' = m \<and> (\<exists>dek. m = Some dek \<and> length dek = 32)"
proof -
  obtain x dek where x: "has_key (lg_user l) x s1" "decrypt_dek c x (session_kek (lg_user l) secret) = Inr dek" "m = Some dek"
    using create_unlocks[OF assms(1,2)] by blast
  have "has_key (lg_user l) x (session_run c secret ops s1)" using x(1) by (rule run_keeps_key)
  moreover from this have "sn_has_db (session_run c secret ops s1)" by (simp add: has_key_def)
  ultimately show ?thesis
    using create_unlocks[OF assms(3)] x assms(4) decrypted_nonempty[OF x(2)] by (fastforce simp: has_key_def)
qed


lemma end_session_error:
  "end_session io why i s = (s1, r) \<Longrightarrow> (\<exists>e. r = Inl e) \<and> (\<forall>code w. r \<noteq> Inl (Http_failure code w))"
  by (auto simp: end_session_def destroy_session_def Let_def split: sum.splits prod.splits if_splits)

lemma get_session_over:
  assumes "redis_get now i s = Some d" "session_expired now d \<or> session_inactive now d" "si_redis io = Inr ()"
  shows "\<exists>s1 e. get_session io now i s = (s1, Inl e) \<and> (\<forall>code w. e \<noteq> Http_failure code w)"
proof -
  have "\<exists>why. get_session io now i s = end_session io why i s"
    using assms by (auto simp: get_session_def)
  then obtain why s1 r where "get_session io now i s = (s1, r)" "end_session io why i s = (s1, r)"
    by (metis surj_pair)
  with end_session_error[of io why i s s1 r] show ?thesis by auto
qed

section \<open>Properties\<close>

text \<open>C15: A request gets a session only when some login of the run made it, at most eight hours ago, and it
  was last used, or made, at most 30 minutes ago: over every sequence of logins, requests, CSRF checks,
  logouts and clean-ups, whatever fails on the way.\<close>

theorem session_needs_recent_login:
  assumes "snd (get_current_session io now cookie (session_run c secret ops (no_sessions db))) = Inr (d, m)"
  shows "\<exists>i t a l u. cookie = Some i \<and> (t, Log_in a l) \<in> set ops \<and> lg_session_id l = i \<and>
    d = (new_session t l)\<lparr>sd_last_activity := u\<rparr> \<and> (u = t \<or> (\<exists>io. (u, Use_session io (Some i)) \<in> set ops)) \<and>
    now \<le> t + seconds (8 * 60 * 60) \<and> now \<le> u + seconds (30 * 60)"
proof -
  let ?s = "session_run c secret ops (no_sessions db)"
  obtain i s1 where i: "cookie = Some i" "get_session io now i ?s = (s1, Inr (Some (d, m)))"
    using assms by (auto simp: get_current_session_def split: option.splits if_splits prod.splits sum.splits session_error.splits)
  note g = get_session_Some[OF i(2)]
  then obtain ex where "sn_redis ?s i = Some (d, ex)" using redis_get_stored by blast
  then have "genuine ops i d" using sessions_genuine_run[of ops c secret db] by (simp add: sessions_genuine_def)
  then obtain t a l u where "(t, Log_in a l) \<in> set ops" "lg_session_id l = i"
    "d = (new_session t l)\<lparr>sd_last_activity := u\<rparr>" "u = t \<or> (\<exists>io. (u, Use_session io (Some i)) \<in> set ops)"
    unfolding genuine_def by blast
  moreover have "now \<le> t + seconds (8 * 60 * 60)" "now \<le> u + seconds (30 * 60)"
    using g calculation(3) by (simp_all add: session_expired_def session_inactive_def new_session_def INACTIVITY_TIMEOUT_def)
  ultimately show ?thesis using i(1) by blast
qed


text \<open>What a check of the CSRF token accepts: exactly the token of a session that is neither over nor
  inactive, both texts being ASCII. A session that is over ends in an error which is no HTTP answer.\<close>

theorem csrf_check_exact:
  assumes "truthy cookie" "truthy token" "si_redis io = Inr ()"
  shows "(snd (require_csrf io now cookie token s) = Inr () \<longleftrightarrow>
      (\<exists>d. redis_get now (the cookie) s = Some d \<and> \<not> session_expired now d \<and> \<not> session_inactive now d \<and>
         is_ascii (sd_csrf_token d) \<and> is_ascii (the token) \<and> sd_csrf_token d = the token)) \<and>
    (\<forall>d code why. redis_get now (the cookie) s = Some d \<and> session_inactive now d \<longrightarrow>
       snd (require_csrf io now cookie token s) \<noteq> Inl (Http_failure code why))"
proof (cases "redis_get now (the cookie) s")
  case None
  with assms show ?thesis by (simp add: require_csrf_def validate_csrf_def get_session_def)
next
  case (Some d)
  show ?thesis
  proof (cases "session_expired now d \<or> session_inactive now d")
    case True
    obtain s1 e where g: "get_session io now (the cookie) s = (s1, Inl e)" "\<forall>code w. e \<noteq> Http_failure code w"
      using get_session_over[OF Some True assms(3)] by blast
    have "snd (require_csrf io now cookie token s) = Inl e"
      using assms(1,2) g(1) by (simp add: require_csrf_def validate_csrf_def)
    with True Some g(2) show ?thesis by auto
  next
    case False
    with assms Some show ?thesis
      by (auto simp: require_csrf_def validate_csrf_def get_session_def compare_digest_def)
  qed
qed

text \<open>C27: With a working database, one secret of the server and requests one after the other, what a user
  encrypted in one session is readable in every later session of the user, whatever logins, requests,
  logouts and clean-ups (each with its failures of the database and the store) come in between. Two first
  logins that overlap break it: \<open>first_logins_race\<close>.\<close>

theorem relogin_reads_data:
  assumes "aead_ok c" "is_text p" "length nonce = 12" "sn_has_db s"
    and "create_session c secret a t l s = (s1, Inr (d, m))"
    and "create_session c secret a' t' l' (session_run c secret ops s1) = (s2, Inr (d', m'))" "lg_user l' = lg_user l"
    and "manager_encrypt c nonce p m = Inr b"
  shows "manager_decrypt c b m' = Inr p"
proof -
  obtain dek where dek: "m' = m" "m = Some dek" "length dek = 32"
    using relogin_same_key[OF assms(5,4,6,7)] by blast
  have "encrypt_field c nonce p dek = Inr b" using assms(8) dek(2) by (simp add: manager_encrypt_def manager_dek_def)
  from decrypt_encrypted[OF assms(1) dek(3) assms(2,3) this] dek show ?thesis
    by (simp add: manager_decrypt_def manager_dek_def)
qed

text \<open>Two first logins of a user at a time: the second one, which had read no key before the first stored
  its own, replaces it, and every later session has the key of the second.\<close>

theorem first_logins_race:
  assumes "aead_ok c" "create_session c secret a t l s = (s1, Inr (d, m))" "sn_has_db s" "length (ky_nonce k) = 12"
    and "create_dek c k (lg_user l) (session_kek (lg_user l) secret) s1 = (s2, Inr x)"
    and "create_session c secret a' t' l' s2 = (s3, Inr (d', m'))" "lg_user l' = lg_user l"
  shows "m' = Some (ky_dek k)"
proof -
  let ?kek = "session_kek (lg_user l) secret"
  have db: "sn_has_db s1" using create_unlocks[OF assms(2,3)] by (auto simp: has_key_def)
  then have e: "encrypt_dek c (ky_nonce k) (ky_dek k) ?kek (ky_salt k) = Inr x"
    and s2: "sn_has_db s2" "sn_user_keys s2 (lg_user l) = Some x"
    using assms(5) by (auto simp: create_dek_def split: sum.splits)
  note x = stored_dek_decrypts(1)[OF assms(1) e assms(4)]
  then have "has_key (lg_user l') x s2" using s2 decrypted_nonempty assms(7) by (auto simp: has_key_def)
  with create_unlocks[OF assms(6) s2(1)] x assms(7) show ?thesis by auto
qed

section \<open>Instances\<close>

definition wit_io :: session_io where
  "wit_io = \<lparr>si_redis = Inr (), si_gone = Inr (), si_delete = Inr (), si_touch = Inr (), si_set = Inr ()\<rparr>"

definition wit_keys :: "byte \<Rightarrow> key_answers" where
  "wit_keys k = \<lparr>ky_select = Inr (), ky_dek = replicate 32 k, ky_salt = replicate 32 1, ky_nonce = replicate 12 2,
     ky_insert = Inr ()\<rparr>"

definition wit_login_answers :: login_answers where
  "wit_login_answers = \<lparr>la_key = wit_keys 7, la_redis = Inr (), la_insert = Inr ()\<rparr>"

definition wit_login :: "string \<Rightarrow> login" where
  "wit_login i = \<lparr>lg_user = ''did:1'', lg_email = None, lg_ip = ''::1'', lg_agent = ''ua'', lg_session_id = i, lg_csrf_token = ''tok''\<rparr>"

definition wit_stored_key :: "byte list" where
  "wit_stored_key = projr (encrypt_dek wit_crypto (replicate 12 2) (replicate 32 7) (session_kek ''did:1'' ''secret'') (replicate 32 1))"

lemma wit_key:
  "encrypt_dek wit_crypto (replicate 12 2) (replicate 32 7) (session_kek ''did:1'' ''secret'') (replicate 32 1) = Inr wit_stored_key"
  "decrypt_dek wit_crypto wit_stored_key (session_kek ''did:1'' ''secret'') = Inr (replicate 32 7)"
  "wit_stored_key \<noteq> []"
proof -
  show e: "encrypt_dek wit_crypto (replicate 12 2) (replicate 32 7) (session_kek ''did:1'' ''secret'') (replicate 32 1) = Inr wit_stored_key"
    by (simp add: wit_stored_key_def encrypt_dek_def sizes session_kek_def wit_crypto_def)
  show d: "decrypt_dek wit_crypto wit_stored_key (session_kek ''did:1'' ''secret'') = Inr (replicate 32 7)"
    by (rule stored_dek_decrypts(1)[OF wit_crypto_ok(1) e]) simp
  show "wit_stored_key \<noteq> []" using decrypted_nonempty[OF d] by simp
qed

definition wit_signed_in :: "datetime \<Rightarrow> string \<Rightarrow> session_manager \<Rightarrow> session_manager" where
  "wit_signed_in t i s = s\<lparr>sn_redis := (sn_redis s)(i \<mapsto> (new_session t (wit_login i), t + seconds MAX_SESSION_SECONDS)),
     sn_managers := dict_put i (Some (replicate 32 7)) (sn_managers s), sn_user_keys := (sn_user_keys s)(''did:1'' \<mapsto> wit_stored_key),
     sn_sessions := dict_put i (new_session t (wit_login i)) (sn_sessions s)\<rparr>"

lemma wit_create:
  assumes "sn_has_db s" "sn_user_keys s ''did:1'' \<in> {None, Some wit_stored_key}"
  shows "create_session wit_crypto ''secret'' wit_login_answers t (wit_login i) s =
    (wit_signed_in t i s, Inr (new_session t (wit_login i), Some (replicate 32 7)))"
  using assms wit_key
  by (cases s; cases "sn_user_keys s ''did:1''")
    (auto simp: create_session_def wit_login_def wit_login_answers_def wit_keys_def Let_def get_or_create_dek_def create_dek_def
      stored_dek_def unlock_with_dek_def redis_put_def wit_signed_in_def new_session_def fun_upd_idem)

definition wit_ops :: "(datetime \<times> session_op) list" where
  "wit_ops = [(0, Log_in wit_login_answers (wit_login ''s1''))]"

lemma wit_run:
  "session_run wit_crypto ''secret'' wit_ops (no_sessions True) = wit_signed_in 0 ''s1'' (no_sessions True)"
  by (simp add: session_run_def wit_ops_def wit_create no_sessions_def)

lemma wit_lookup:
  "redis_get 60 ''s1'' (wit_signed_in 0 ''s1'' (no_sessions True)) = Some (new_session 0 (wit_login ''s1''))"
  by (simp add: redis_get_def wit_signed_in_def seconds_def MAX_SESSION_SECONDS_def)

lemma wit_valid:
  "\<not> session_expired 60 (new_session 0 (wit_login i))" "\<not> session_inactive 60 (new_session 0 (wit_login i))"
  by (simp_all add: session_expired_def session_inactive_def new_session_def seconds_def INACTIVITY_TIMEOUT_def)

lemma wit_manager_kept:
  "dict_get i (sn_managers (wit_signed_in t i (no_sessions True))) = Some (Some (replicate 32 7))"
  by (simp add: wit_signed_in_def no_sessions_def dict_put_def dict_get_def)

lemma wit_session_made:
  "snd (get_current_session wit_io 60 (Some ''s1'') (session_run wit_crypto ''secret'' wit_ops (no_sessions True))) =
     Inr (new_session 0 (wit_login ''s1''), Some (replicate 32 7))"
  by (simp add: wit_run get_current_session_def get_session_def wit_io_def wit_lookup wit_valid touch_session_def wit_manager_kept)

lemma session_needs_recent_login_witness:
  "\<exists>t a l. (t, Log_in a l) \<in> set wit_ops \<and> lg_session_id l = ''s1'' \<and> 60 \<le> t + seconds (8 * 60 * 60)"
  using session_needs_recent_login[OF wit_session_made] by blast


lemma csrf_check_exact_witness:
  "snd (require_csrf wit_io 60 (Some ''s1'') (Some ''tok'')
     (session_run wit_crypto ''secret'' wit_ops (no_sessions True))) = Inr ()"
proof -
  have "is_ascii ''tok''" by code_simp
  then show ?thesis
    using csrf_check_exact[of "Some ''s1''" "Some ''tok''" wit_io 60] wit_lookup wit_valid[of "''s1''"]
    by (simp add: wit_run truthy_def wit_io_def) (simp add: new_session_def wit_login_def)
qed

lemma wit_relogin:
  "create_session wit_crypto ''secret'' wit_login_answers 0 (wit_login ''s1'') (no_sessions True) =
     (wit_signed_in 0 ''s1'' (no_sessions True), Inr (new_session 0 (wit_login ''s1''), Some (replicate 32 7)))"
  "create_session wit_crypto ''secret'' wit_login_answers 9 (wit_login ''s2'')
     (session_run wit_crypto ''secret'' [] (wit_signed_in 0 ''s1'' (no_sessions True))) =
     (wit_signed_in 9 ''s2'' (wit_signed_in 0 ''s1'' (no_sessions True)),
      Inr (new_session 9 (wit_login ''s2''), Some (replicate 32 7)))"
  by (simp_all add: wit_create session_run_def) (simp_all add: wit_create no_sessions_def wit_signed_in_def)

lemma relogin_reads_data_witness:
  "\<exists>b. manager_encrypt wit_crypto (replicate 12 5) [104, 105] (Some (replicate 32 7)) = Inr b \<and>
     manager_decrypt wit_crypto b (Some (replicate 32 7)) = Inr [104, 105]"
proof -
  obtain b where b: "manager_encrypt wit_crypto (replicate 12 5) [104, 105] (Some (replicate 32 7)) = Inr b"
    by (simp add: manager_encrypt_def manager_dek_def encrypt_field_def sizes wit_crypto_def)
  have "is_text [104, 105]" "sn_has_db (no_sessions True)" "length (replicate 12 (5::byte)) = 12"
    by (simp_all add: is_text_def no_sessions_def)
  from relogin_reads_data[OF wit_crypto_ok(1) this(1,3,2) wit_relogin refl[THEN trans] b] b show ?thesis
    by (auto simp: wit_login_def)
qed

end
