(* ===== verification/InternalApi.thy ===== *)
theory InternalApi
  imports Bot FundingJobs
begin

text \<open>
  The internal HTTP interface of the bot (\<open>bot/core/internal_api.py\<close>) and the tokens it accepts
  (\<open>shared/auth/internal_jwt.py\<close>, the sender being \<open>BotBridge._request\<close>).

  A handler is a function of the bot, if there is one, to its answer; the package that signs and checks
  JWTs is a parameter. An error that a handler does not catch is the answer 500. JSON texts of
  decimals and dates are the values themselves; responses are the fields the dashboard reads.
\<close>

section \<open>Tokens\<close>

record claims =
  jc_sub :: string
  jc_iat :: int
  jc_exp :: int

record jwt_codec =
  jwt_encode :: "claims \<Rightarrow> string \<Rightarrow> string"
  jwt_decode :: "int \<Rightarrow> string \<Rightarrow> string \<Rightarrow> exn + claims"

text \<open>What PyJWT promises of a token it made: it has dots, and decoding it with the same secret gives the
  claims back from the second they were issued until they expire.\<close>

definition jwt_ok :: "jwt_codec \<Rightarrow> bool" where
  "jwt_ok j \<longleftrightarrow> (\<forall>c k. contains ''.'' (jwt_encode j c k) \<and>
     (\<forall>now. jwt_decode j now (jwt_encode j c k) k =
        (if jc_exp c \<le> now then Inl (ExternalError ''Signature has expired'')
         else if now < jc_iat c then Inl (ExternalError ''The token is not yet valid (iat)'')
         else Inr c)))"

definition TOKEN_TTL_SECONDS :: int where "TOKEN_TTL_SECONDS = 60"

definition generate_internal_jwt :: "jwt_codec \<Rightarrow> int \<Rightarrow> string \<Rightarrow> string \<Rightarrow> string" where
  "generate_internal_jwt j now user secret =
     jwt_encode j \<lparr>jc_sub = user, jc_iat = now, jc_exp = now + TOKEN_TTL_SECONDS\<rparr> secret"

definition verify_internal_jwt :: "jwt_codec \<Rightarrow> int \<Rightarrow> string \<Rightarrow> string \<Rightarrow> exn + string" where
  "verify_internal_jwt j now token secret = res_bind (jwt_decode j now token secret) (\<lambda>c. Inr (jc_sub c))"

text \<open>The token of a request of the dashboard; a missing token is formatted as None.\<close>

definition bearer :: "jwt_codec \<Rightarrow> int \<Rightarrow> string option \<Rightarrow> string option \<Rightarrow> string" where
  "bearer j now user token =
     (if truthy user \<and> truthy token then generate_internal_jwt j now (the user) (the token)
      else case token of None \<Rightarrow> ''None'' | Some t \<Rightarrow> t)"

definition get_server_secret :: "string option \<Rightarrow> http_error + string" where
  "get_server_secret file =
     (case file of None \<Rightarrow> Inl (HttpError 500 ''Server secret not configured'') | Some s \<Rightarrow> Inr (strip s))"

definition verify_internal_token :: "jwt_codec \<Rightarrow> int \<Rightarrow> string option \<Rightarrow> string \<Rightarrow> http_error + string" where
  "verify_internal_token j now file token =
     (case get_server_secret file of
        Inl e \<Rightarrow> Inl e
      | Inr secret \<Rightarrow>
          let user = (if contains ''.'' token
                      then (case verify_internal_jwt j now token secret of Inl e \<Rightarrow> '''' | Inr u \<Rightarrow> u) else '''')
          in if user \<noteq> '''' then Inr user
             else if token = secret then Inr '''' else Inl (HttpError 401 ''Invalid internal token''))"

definition get_bot :: "bot option \<Rightarrow> http_error + bot" where
  "get_bot b = (case b of None \<Rightarrow> Inl (HttpError 503 ''Bot not initialized'') | Some x \<Rightarrow> Inr x)"

section \<open>Positions\<close>

record position_summary =
  su_position_id :: string
  su_asset :: string
  su_status :: string
  su_leverage :: decimal
  su_deployed_usd :: decimal
  su_long_value_usd :: decimal
  su_short_value_usd :: decimal
  su_delta :: decimal
  su_delta_ratio :: decimal
  su_asgard_hf :: decimal
  su_hyperliquid_mf :: decimal
  su_total_pnl_usd :: decimal
  su_funding_pnl_usd :: decimal
  su_opened_at :: datetime
  su_hold_duration_hours :: pyfloat

definition position_to_summary :: "datetime \<Rightarrow> combined_position \<Rightarrow> position_summary" where
  "position_to_summary now p =
     \<lparr>su_position_id = position_id p, su_asset = asset_value (ap_asset (asgard p)), su_status = status p,
      su_leverage = ap_leverage (asgard p), su_deployed_usd = collateral_usd (asgard p),
      su_long_value_usd = current_value_usd (asgard p), su_short_value_usd = size_usd (hyperliquid p),
      su_delta = delta p, su_delta_ratio = delta_ratio p, su_asgard_hf = current_health_factor (asgard p),
      su_hyperliquid_mf = margin_fraction (hyperliquid p), su_total_pnl_usd = total_pnl p,
      su_funding_pnl_usd = net_funding_pnl p, su_opened_at = created_at p,
      su_hold_duration_hours = flt (total_seconds (now - created_at p) / 3600)\<rparr>"

record position_detail = position_summary +
  de_borrowed_usd :: decimal
  de_position_size_usd :: decimal
  de_position_pnl :: decimal
  de_total_pnl_pct :: decimal
  de_at_risk :: bool
  de_distance_to_liquidation :: decimal

definition position_to_detail :: "datetime \<Rightarrow> combined_position \<Rightarrow> position_detail" where
  "position_to_detail now p =
     position_summary.extend (position_to_summary now p)
       (let mf = margin_fraction (hyperliquid p); x = collateral_usd (asgard p);
            distance = (if mf > 0 then dec (1 / mf) else 0)
        in position_detail.fields (token_b_borrowed (asgard p)) (position_size_usd (asgard p))
             (dec (pnl_usd (asgard p) + unrealized_pnl (hyperliquid p)))
             (if x = 0 then 0 else dec (total_pnl p / x)) (is_at_risk p)
             (min (current_health_factor (asgard p)) (if distance = 0 then 1 else distance)))"

definition get_positions_internal ::
  "jwt_codec \<Rightarrow> int \<Rightarrow> string option \<Rightarrow> string \<Rightarrow> datetime \<Rightarrow> bot option \<Rightarrow>
     http_error + (string, position_summary) dict" where
  "get_positions_internal j t file token now b =
     (case verify_internal_token j t file token of
        Inl e \<Rightarrow> Inl e
      | Inr user \<Rightarrow>
          (case get_bot b of
             Inl e \<Rightarrow> Inl e
           | Inr x \<Rightarrow>
               let ps = get_positions x None;
                   mine = (if user \<noteq> '''' then filter (\<lambda>(i, p). cp_user_id p = Some user) ps else ps)
               in Inr (map (\<lambda>(i, p). (i, position_to_summary now p)) mine)))"

definition get_position_detail_internal ::
  "jwt_codec \<Rightarrow> int \<Rightarrow> string option \<Rightarrow> string \<Rightarrow> datetime \<Rightarrow> string \<Rightarrow> bot option \<Rightarrow> http_error + position_detail" where
  "get_position_detail_internal j t file token now i b =
     (case verify_internal_token j t file token of
        Inl e \<Rightarrow> Inl e
      | Inr user \<Rightarrow>
          (case get_bot b of
             Inl e \<Rightarrow> Inl e
           | Inr x \<Rightarrow>
               (case dict_get i (get_positions x None) of
                  None \<Rightarrow> Inl (HttpError 404 ''Position not found'')
                | Some p \<Rightarrow>
                    if user \<noteq> '''' \<and> cp_user_id p \<noteq> Some user then Inl (HttpError 404 ''Position not found'')
                    else Inr (position_to_detail now p))))"

section \<open>Pausing\<close>

definition scope_of :: "string option \<Rightarrow> pause_scope" where
  "scope_of s =
     (case map_of [(''all'', ALL_OPS), (''entry'', ENTRY), (''exit'', EXIT), (''asgard'', ASGARD),
        (''hyperliquid'', HYPERLIQUID)] (case s of None \<Rightarrow> ''all'' | Some x \<Rightarrow> x) of
        None \<Rightarrow> ALL_OPS | Some x \<Rightarrow> x)"

text \<open>A missing key of the request and a refused API key are exceptions.\<close>

definition pause_internal ::
  "datetime \<Rightarrow> string option \<Rightarrow> string option \<Rightarrow> string option \<Rightarrow> bot \<Rightarrow> bot \<times> (http_error + bool)" where
  "pause_internal now key reason scope b =
     (case (key, reason) of
        (Some k, Some r) \<Rightarrow>
          (case pause_bot now k r (scope_of scope) b of
             (b1, Inl e) \<Rightarrow> (b1, Inl (HttpError 500 ''Internal Server Error''))
           | (b1, Inr _) \<Rightarrow> (b1, Inr True))
      | _ \<Rightarrow> (b, Inl (HttpError 500 ''Internal Server Error'')))"

definition resume_internal :: "datetime \<Rightarrow> string option \<Rightarrow> bot \<Rightarrow> bot \<times> (http_error + bool)" where
  "resume_internal now key b =
     (case key of
        None \<Rightarrow> (b, Inl (HttpError 500 ''Internal Server Error''))
      | Some k \<Rightarrow>
          (case resume_bot now k b of
             (b1, Inl e) \<Rightarrow> (b1, Inl (HttpError 500 ''Internal Server Error''))
           | (b1, Inr _) \<Rightarrow> (b1, Inr True)))"

section \<open>Opening and closing\<close>

record api_result =
  ar_success :: bool
  ar_position_id :: "string option"
  ar_protocol :: "string option"
  ar_error :: "string option"
  ar_stage :: "string option"

definition api_failure :: "string option \<Rightarrow> string option \<Rightarrow> api_result" where
  "api_failure err stage =
     \<lparr>ar_success = False, ar_position_id = None, ar_protocol = None, ar_error = err, ar_stage = stage\<rparr>"

record open_request =
  oq_asset :: string
  oq_leverage :: pyfloat
  oq_size_usd :: pyfloat
  oq_venue :: "string option"

record internal_open_answers =
  oa_markets :: "exn + market_strategy list"
  oa_funding_now :: int
  oa_funding :: "exn + meta_response"
  oa_close_client :: "exn + unit"
  oa_now :: datetime
  oa_id :: string
  oa_preflight :: preflight_answers
  oa_intent :: string
  oa_open :: open_position_answers

definition upper :: "char \<Rightarrow> char" where
  "upper c = (if 97 \<le> (of_char c :: nat) \<and> of_char c \<le> (122 :: nat) then char_of ((of_char c :: nat) - 32) else c)"

definition protocol_named :: "string \<Rightarrow> exn + protocol" where
  "protocol_named s =
     (case map_of [(''MARGINFI'', MARGINFI), (''KAMINO'', KAMINO), (''SOLEND'', SOLEND), (''DRIFT'', DRIFT)] s of
        None \<Rightarrow> Inl (KeyError s) | Some p \<Rightarrow> Inr p)"

definition protocol_name :: "protocol \<Rightarrow> string" where
  "protocol_name p = (case p of MARGINFI \<Rightarrow> ''MARGINFI'' | KAMINO \<Rightarrow> ''KAMINO'' | SOLEND \<Rightarrow> ''SOLEND'' | DRIFT \<Rightarrow> ''DRIFT'')"

text \<open>The rate of SOL, the client being closed in any case.\<close>

definition sol_funding :: "internal_open_answers \<Rightarrow> exn + hl_funding option" where
  "sol_funding a =
     (case oa_close_client a of
        Inl e \<Rightarrow> Inl e
      | Inr _ \<Rightarrow> res_bind (get_current_funding_rates (oa_funding_now a) (oa_funding a)) (\<lambda>d. Inr (dict_get ''SOL'' d)))"

definition market_failure :: api_result where
  "market_failure = api_failure (Some ''Failed to get Hyperliquid funding rate'') (Some ''market_data'')"

definition capacity_of :: "protocol \<Rightarrow> protocol_rate list \<Rightarrow> decimal" where
  "capacity_of p rs = (case find (\<lambda>r. pr_protocol r = p) rs of None \<Rightarrow> 0 | Some r \<Rightarrow> float_str (max_borrow_capacity r))"

definition internal_opportunity ::
  "internal_open_answers \<Rightarrow> asset \<Rightarrow> decimal \<Rightarrow> decimal \<Rightarrow> net_carry_result \<Rightarrow> hl_funding \<Rightarrow> decimal \<Rightarrow> exn + opportunity" where
  "internal_opportunity a as lev sz best f capacity =
     (let fund = \<lparr>fr_timestamp = oa_now a, fr_coin = ''SOL'', rate_8hr = float_str (hf_rate_8hr f)\<rparr>
      in make_opportunity
        \<lparr>opp_id = oa_id a, opp_timestamp = oa_now a, opp_asset = as, selected_protocol = nc_protocol best,
         opp_rates = \<lparr>ar_protocol_id = protocol_value (nc_protocol best), token_a_mint = get_mint as,
           token_b_mint = USDC_MINT, token_a_lending_apy = float_str (nc_lending_rate best),
           token_b_borrowing_apy = float_str (nc_borrowing_rate best), token_b_max_borrow_capacity = capacity\<rparr>,
         hyperliquid_coin = ''SOL'', current_funding = fund, predicted_funding = None, funding_volatility = 0,
         opp_leverage = lev, deployed_capital_usd = sz, opp_position_size_usd = dec (sz * lev),
         score = \<lparr>funding_apy = dec (dabs (rate_annual fund) * lev), net_carry_apy = float_str (nc_net_carry_apy best),
           lst_staking_apy = 0, estimated_gas_cost_apy = 0, estimated_slippage_apy = 0\<rparr>,
         opp_price_deviation = 0, preflight_checks_passed = False, expires_at = None\<rparr>)"

text \<open>With an override the variable \<open>protocol_result\<close> is never bound.\<close>

definition overridden :: "internal_open_answers \<Rightarrow> asset \<Rightarrow> (bot, api_result) action" where
  "overridden a as =
     andthen (lift_result (sol_funding a)) (\<lambda>f. case f of
        None \<Rightarrow> ret market_failure
      | Some r \<Rightarrow>
          andthen (lift_result (snd (get_borrowing_rates (oa_markets a) (get_mint as) True market_data_init)))
            (\<lambda>_. raising (RuntimeError ''protocol_result'')))"

definition open_checked :: "bot_env \<Rightarrow> internal_open_answers \<Rightarrow> opportunity \<Rightarrow> protocol \<Rightarrow> (bot, api_result) action" where
  "open_checked env a opp p b =
     (case run_preflight_checks (lm_consensus (en_limits env)) (oa_preflight a) (pm_trader (bt_manager b)) opp of
        (opp1, checks) \<Rightarrow>
          if \<not> pf_passed checks then (b, Inr (api_failure (Some ''Preflight checks failed'') (Some ''preflight'')))
          else andthen
            (on_manager (open_position (en_api env) (en_asgard env) (oa_intent a) (en_limits env) (oa_open a)
               (opp1\<lparr>preflight_checks_passed := True\<rparr>)))
            (\<lambda>r. if \<not> mr_success r then ret (api_failure (mr_error r) (mr_stage r))
                 else case mr_position r of
                        None \<Rightarrow> raising (AttributeError ''position_id'')
                      | Some q \<Rightarrow> ret \<lparr>ar_success = True, ar_position_id = Some (position_id q),
                          ar_protocol = Some (protocol_name p), ar_error = None, ar_stage = None\<rparr>) b)"

definition auto_selected :: "bot_env \<Rightarrow> internal_open_answers \<Rightarrow> asset \<Rightarrow> decimal \<Rightarrow> decimal \<Rightarrow> (bot, api_result) action" where
  "auto_selected env a as lev sz =
     (case select_best_protocol (oa_markets a) as (flt sz) (flt lev) (flt (12/10)) market_data_init of
        (md, Inl e) \<Rightarrow> raising e
      | (md, Inr None) \<Rightarrow> raising (AttributeError ''protocol'')
      | (md, Inr (Some best)) \<Rightarrow>
          andthen (lift_result (sol_funding a)) (\<lambda>f. case f of
             None \<Rightarrow> ret market_failure
           | Some r \<Rightarrow>
               andthen (lift_result (snd (get_borrowing_rates (oa_markets a) (get_mint as) True md))) (\<lambda>rs.
               andthen (lift_result (internal_opportunity a as lev sz best r (capacity_of (nc_protocol best) rs))) (\<lambda>opp.
               open_checked env a opp (nc_protocol best)))))"

definition open_position_internal :: "bot_env \<Rightarrow> internal_open_answers \<Rightarrow> open_request \<Rightarrow> bot \<Rightarrow> bot \<times> api_result" where
  "open_position_internal env a q b =
     (case catching
        (andthen (lift_result (asset_of_value (oq_asset q))) (\<lambda>as.
           if truthy (oq_venue q)
           then andthen (lift_result (protocol_named (map upper (the (oq_venue q))))) (\<lambda>_. overridden a as)
           else auto_selected env a as (float_str (oq_leverage q)) (float_str (oq_size_usd q))))
        (\<lambda>e. ret (api_failure (Some (exn_text e)) (Some ''unknown''))) b of
        (b1, Inr r) \<Rightarrow> (b1, r)
      | (b1, Inl e) \<Rightarrow> (b1, api_failure (Some (exn_text e)) (Some ''unknown'')))"

definition close_position_internal ::
  "bot_env \<Rightarrow> close_answers \<Rightarrow> string \<Rightarrow> string \<Rightarrow> bot \<Rightarrow> bot \<times> api_result" where
  "close_position_internal env a i reason b =
     (case on_manager (close_position (en_api env) (en_asgard env) a i
             (case exit_reason_of_value reason of None \<Rightarrow> MANUAL | Some r \<Rightarrow> r)) b of
        (b1, Inl e) \<Rightarrow> (b1, api_failure (Some (exn_text e)) None)
      | (b1, Inr r) \<Rightarrow>
          (b1, if mr_success r then \<lparr>ar_success = True, ar_position_id = Some i, ar_protocol = None, ar_error = None,
                 ar_stage = None\<rparr>
               else api_failure (mr_error r) None))"

section \<open>Requests\<close>

text \<open>A handler that changes the bot, after the token and the bot were checked.\<close>

definition authorised ::
  "jwt_codec \<Rightarrow> int \<Rightarrow> string option \<Rightarrow> string \<Rightarrow> (bot \<Rightarrow> bot \<times> (http_error + 'a)) \<Rightarrow> bot option \<Rightarrow>
     bot option \<times> (http_error + 'a)" where
  "authorised j t file token f b =
     (case verify_internal_token j t file token of
        Inl e \<Rightarrow> (b, Inl e)
      | Inr _ \<Rightarrow>
          (case b of
             None \<Rightarrow> (None, Inl (HttpError 503 ''Bot not initialized''))
           | Some x \<Rightarrow> (case f x of (x1, r) \<Rightarrow> (Some x1, r))))"

definition answering :: "(bot \<Rightarrow> bot \<times> 'a) \<Rightarrow> bot \<Rightarrow> bot \<times> (http_error + 'a)" where
  "answering f b = (case f b of (b1, r) \<Rightarrow> (b1, Inr r))"

section \<open>The bot with its interface\<close>

inductive api_step :: "bot_env \<Rightarrow> bot \<Rightarrow> bot \<Rightarrow> bool" for env where
  turn: "bot_step env b c \<Longrightarrow> api_step env b c"
| open_request: "intent_state (pm_asgard (bt_manager b)) (oa_intent a) = IDLE \<Longrightarrow>
    api_step env b (fst (open_position_internal env a q b))"
| close_request: "api_step env b (fst (close_position_internal env a i reason b))"

inductive api_reach :: "bot_env \<Rightarrow> bot \<Rightarrow> bot \<Rightarrow> bool" for env b0 where
  start: "api_reach env b0 b0"
| step: "api_reach env b0 b \<Longrightarrow> api_step env b c \<Longrightarrow> api_reach env b0 c"

section \<open>Lemmas\<close>

lemma bearer_jwt:
  "truthy user \<Longrightarrow> truthy token \<Longrightarrow> bearer j now user token =
     jwt_encode j \<lparr>jc_sub = the user, jc_iat = now, jc_exp = now + 60\<rparr> (the token)"
  by (simp add: bearer_def generate_internal_jwt_def TOKEN_TTL_SECONDS_def)

text \<open>What an opening of the bot's manager leaves when the manager is the program's own.\<close>

definition unopened :: "bot \<Rightarrow> bot \<Rightarrow> bool" where
  "unopened b c \<longleftrightarrow> pm_positions (bt_manager c) = pm_positions (bt_manager b) \<and> ok (pm_asgard (bt_manager c)) \<and>
     bt_positions c = bt_positions b \<and> bt_store c = bt_store b"

lemma open_position_keeps_ok:
  assumes "ok (pm_asgard s)" "intent_state (pm_asgard s) i = IDLE" "open_position api am i lts a opp s = (s1, out)"
  shows "ok (pm_asgard s1)"
  using assms(3)[unfolded open_position_def]
proof (cases rule: open_position_with_cases)
  case (raised e ag)
  then show ?thesis using open_long_outcome[OF assms(1,2)] by (metis prod.inject sum.distinct(1))
next
  case (answered ag r)
  obtain s2 r2 where o: "open_long_position api am (ap_now a) i (opp_asset opp) (flt (dec (deployed_capital_usd opp / 2)))
      (flt (opp_leverage opp)) (Some (selected_protocol opp)) (pm_asgard s) = (s2, Inr r2)" "ok s2" "op_position r2 = None"
    using open_long_outcome[OF assms(1,2)] by blast
  with answered show ?thesis by auto
qed (use assms(1) in auto)

lemma open_checked_fails:
  assumes "ok (pm_asgard (bt_manager b))" "intent_state (pm_asgard (bt_manager b)) (oa_intent a) = IDLE"
    and "open_checked env a opp p b = (b1, r)"
  shows "unopened b b1 \<and> (\<forall>x. r = Inr x \<longrightarrow> \<not> ar_success x)"
proof -
  obtain opp1 checks where pf: "run_preflight_checks (lm_consensus (en_limits env)) (oa_preflight a) (pm_trader (bt_manager b)) opp =
      (opp1, checks)" by force
  show ?thesis
  proof (cases "pf_passed checks")
    case False
    with assms(1,3) pf show ?thesis by (auto simp: open_checked_def api_failure_def unopened_def)
  next
    case True
    let ?open = "open_position (en_api env) (en_asgard env) (oa_intent a) (en_limits env) (oa_open a)
        (opp1\<lparr>preflight_checks_passed := True\<rparr>)"
    obtain m1 out where o: "?open (bt_manager b) = (m1, out)" by force
    have n: "pm_positions m1 = pm_positions (bt_manager b)" "\<forall>x. out = Inr x \<longrightarrow> \<not> mr_success x" "ok (pm_asgard m1)"
      using asgard_long.never_opens[OF _ o[unfolded open_position_def]] open_position_keeps_ok[OF assms(1,2) o] assms(1,2)
      by auto
    then have "unopened b (b\<lparr>bt_manager := m1\<rparr>)" by (simp add: unopened_def)
    with True pf o n assms(3) show ?thesis
      by (cases out) (auto simp: open_checked_def on_manager_def andthen_def api_failure_def)
  qed
qed

lemma open_internal_fails:
  assumes "ok (pm_asgard (bt_manager b))" "intent_state (pm_asgard (bt_manager b)) (oa_intent a) = IDLE"
    and "open_position_internal env a q b = (b1, r)"
  shows "unopened b b1 \<and> \<not> ar_success r"
proof -
  define body where "body = andthen (lift_result (asset_of_value (oq_asset q))) (\<lambda>as.
           if truthy (oq_venue q)
           then andthen (lift_result (protocol_named (map upper (the (oq_venue q))))) (\<lambda>_. overridden a as)
           else auto_selected env a as (float_str (oq_leverage q)) (float_str (oq_size_usd q)))"
  have u: "unopened b b" using assms(1) by (simp add: unopened_def)
  have c: "unopened b (fst (open_checked env a opp p b))"
    "snd (open_checked env a opp p b) = Inr x \<Longrightarrow> \<not> ar_success x" for opp p x
    using open_checked_fails[OF assms(1,2), of env opp p] by (metis prod.collapse)+
  have "unopened b (fst (body b)) \<and> (\<forall>x. snd (body b) = Inr x \<longrightarrow> \<not> ar_success x)"
    unfolding body_def andthen_def overridden_def auto_selected_def
    using u c
    by (auto simp: market_failure_def api_failure_def split: sum.splits option.splits prod.splits)
  with assms(3) show ?thesis
    by (auto simp: open_position_internal_def catching_def api_failure_def body_def[symmetric] split: prod.splits sum.splits)
qed

lemma close_internal_unknown:
  "pm_positions (bt_manager b) = [] \<Longrightarrow>
     close_position_internal env a i reason b = (b, api_failure (Some (''Position '' @ i @ '' not found'')) None)"
  by (simp add: close_position_internal_def on_manager_def close_position_def dict_get_def fail_at_def api_failure_def)

lemma api_reach_inv:
  assumes "api_reach env b0 b" "pm_positions (bt_manager b0) = []" "ok (pm_asgard (bt_manager b0))"
  shows "pm_positions (bt_manager b) = [] \<and> ok (pm_asgard (bt_manager b))"
  using assms
proof (induction rule: api_reach.induct)
  case (step b c)
  then have i: "pm_positions (bt_manager b) = []" "ok (pm_asgard (bt_manager b))" by simp_all
  from step.hyps(2) show ?case
  proof (cases rule: api_step.cases)
    case turn
    with i bot_step_same[of env b c] show ?thesis by (simp add: same_trades_def)
  next
    case (open_request a q)
    with i open_internal_fails[OF i(2), of a env q] show ?thesis
      by (cases "open_position_internal env a q b") (auto simp: unopened_def)
  next
    case (close_request a k reason)
    with i close_internal_unknown[OF i(1)] show ?thesis by simp
  qed
qed simp

section \<open>Properties\<close>

text \<open>C28: The token that the dashboard sends for a user is accepted as that user for exactly 60 seconds; after
  them the request is refused.\<close>

theorem internal_token_roundtrip:
  assumes "jwt_ok j" "user \<noteq> []" "strip file \<noteq> []" "now \<le> t" "bearer j now (Some user) (Some (strip file)) \<noteq> strip file"
  shows "verify_internal_token j t (Some file) (bearer j now (Some user) (Some (strip file))) =
    (if t < now + 60 then Inr user else Inl (HttpError 401 ''Invalid internal token''))"
  using assms
  by (auto simp: verify_internal_token_def get_server_secret_def bearer_jwt truthy_def verify_internal_jwt_def jwt_ok_def Let_def)

text \<open>C17: A request with the token of a user is answered with positions of that user only; a position without
  an owner, or of another user, is neither listed nor shown in detail.\<close>

theorem internal_positions_scoped:
  assumes "verify_internal_token j t file token = Inr user" "user \<noteq> []"
  shows "(\<forall>ps i su. get_positions_internal j t file token now b = Inr ps \<longrightarrow> (i, su) \<in> set ps \<longrightarrow>
      (\<exists>x p. b = Some x \<and> (i, p) \<in> set (get_positions x None) \<and> cp_user_id p = Some user \<and> su = position_to_summary now p)) \<and>
    (\<forall>i de. get_position_detail_internal j t file token now i b = Inr de \<longrightarrow>
      (\<exists>x p. b = Some x \<and> dict_get i (get_positions x None) = Some p \<and> cp_user_id p = Some user \<and>
         de = position_to_detail now p))"
  using assms
  by (auto simp: get_positions_internal_def get_position_detail_internal_def get_bot_def Let_def
      split: option.splits if_splits)

text \<open>C7: With its interface the bot still never trades: in every state reached from the setup, whatever the
  loops, recovery, administration, openings (each with a fresh intent) and closings did before, an
  opening through the interface fails, a closing fails as "not found", and the manager has no position.\<close>

theorem internal_api_never_trades:
  assumes "api_reach env (setup_bot cfg key temp rl sz d m db) b" "pm_positions m = []" "ok (pm_asgard m)"
  shows "pm_positions (bt_manager b) = [] \<and>
    (\<forall>a q. intent_state (pm_asgard (bt_manager b)) (oa_intent a) = IDLE \<longrightarrow>
       \<not> ar_success (snd (open_position_internal env a q b))) \<and>
    (\<forall>a i reason. close_position_internal env a i reason b =
       (b, api_failure (Some (''Position '' @ i @ '' not found'')) None))"
proof -
  have i: "pm_positions (bt_manager b) = []" "ok (pm_asgard (bt_manager b))"
    using api_reach_inv[OF assms(1)] assms(2,3) by simp_all
  moreover have "\<not> ar_success (snd (open_position_internal env a q b))"
    if "intent_state (pm_asgard (bt_manager b)) (oa_intent a) = IDLE" for a q
    using open_internal_fails[OF i(2) that, of env q] by (cases "open_position_internal env a q b") auto
  ultimately show ?thesis using close_internal_unknown by simp
qed

text \<open>An opening that names a protocol makes no venue call at all and fails.\<close>

theorem override_never_opens:
  assumes "truthy (oq_venue q)"
  shows "\<exists>r. open_position_internal env a q b = (b, r) \<and> \<not> ar_success r"
  using assms
  by (auto simp: open_position_internal_def catching_def andthen_def overridden_def market_failure_def api_failure_def
      split: sum.splits option.splits)

section \<open>Instances\<close>

definition wit_number :: "int \<Rightarrow> string" where
  "wit_number x = (if x < 0 then ''-'' else ''+'') @ replicate (nat \<bar>x\<bar>) (CHR ''1'')"

definition wit_read :: "string \<Rightarrow> int" where
  "wit_read s = (if take 1 s = ''-'' then - int (length s - 1) else int (length s - 1))"

definition wit_codec :: jwt_codec where
  "wit_codec = \<lparr>jwt_encode = (\<lambda>c k. ''.'' @ wit_number (jc_iat c) @ ''.'' @ wit_number (jc_exp c) @ ''.'' @ jc_sub c),
     jwt_decode = (\<lambda>now t k.
       let r = tl t; i = takeWhile (\<lambda>c. c \<noteq> CHR ''.'') r; r2 = tl (dropWhile (\<lambda>c. c \<noteq> CHR ''.'') r);
           e = wit_read (takeWhile (\<lambda>c. c \<noteq> CHR ''.'') r2); u = tl (dropWhile (\<lambda>c. c \<noteq> CHR ''.'') r2)
       in if e \<le> now then Inl (ExternalError ''Signature has expired'')
          else if now < wit_read i then Inl (ExternalError ''The token is not yet valid (iat)'')
          else Inr \<lparr>jc_sub = u, jc_iat = wit_read i, jc_exp = e\<rparr>)\<rparr>"

lemma wit_number_inv:
  "wit_read (wit_number x) = x" "takeWhile (\<lambda>c. c \<noteq> CHR ''.'') (wit_number x @ CHR ''.'' # y) = wit_number x"
  "dropWhile (\<lambda>c. c \<noteq> CHR ''.'') (wit_number x @ CHR ''.'' # y) = CHR ''.'' # y"
  by (simp_all add: wit_read_def wit_number_def takeWhile_append dropWhile_append)

lemma wit_codec_ok: "jwt_ok wit_codec"
  by (auto simp: jwt_ok_def wit_codec_def Let_def wit_number_inv contains_def)

lemma wit_user_token:
  "verify_internal_token wit_codec 100 (Some ''k'') (bearer wit_codec 90 (Some ''u1'') (Some ''k'')) = Inr ''u1''"
  using wit_codec_ok
  by (simp add: verify_internal_token_def get_server_secret_def bearer_jwt truthy_def verify_internal_jwt_def jwt_ok_def
      Let_def strip_def is_ws_def)

theorem internal_token_roundtrip_witness:
  "verify_internal_token wit_codec 100 (Some ''k'') (bearer wit_codec 90 (Some ''u1'') (Some ''k'')) = Inr ''u1'' \<and>
   verify_internal_token wit_codec 150 (Some ''k'') (bearer wit_codec 90 (Some ''u1'') (Some ''k'')) =
     Inl (HttpError 401 ''Invalid internal token'')"
proof -
  have k: "strip ''k'' = ''k''" by (simp add: strip_def is_ws_def)
  have "bearer wit_codec 90 (Some ''u1'') (Some ''k'') \<noteq> ''k''"
    by (simp add: bearer_jwt truthy_def wit_codec_def)
  then show ?thesis
    using internal_token_roundtrip[OF wit_codec_ok, of "''u1''" "''k''" 90 100]
      internal_token_roundtrip[OF wit_codec_ok, of "''u1''" "''k''" 90 150] k by simp
qed

definition wit_owned_bot :: bot where
  "wit_owned_bot = (wit_bot ''k'')\<lparr>bt_positions := [(''u1'', [(''p1'', wit_pair\<lparr>cp_user_id := Some ''u1''\<rparr>)]),
     (''u2'', [(''p2'', wit_pair\<lparr>cp_user_id := Some ''u2''\<rparr>)])]\<rparr>"

theorem internal_positions_scoped_witness:
  "\<exists>ps. get_positions_internal wit_codec 100 (Some ''k'') (bearer wit_codec 90 (Some ''u1'') (Some ''k'')) 0 (Some wit_owned_bot) =
     Inr ps \<and> map fst ps = [''p1''] \<and>
     list_all (\<lambda>(i, su). \<exists>p. cp_user_id p = Some ''u1'' \<and> su = position_to_summary 0 p) ps"
proof -
  let ?t = "bearer wit_codec 90 (Some ''u1'') (Some ''k'')"
  obtain ps where ps: "get_positions_internal wit_codec 100 (Some ''k'') ?t 0 (Some wit_owned_bot) = Inr ps" "map fst ps = [''p1'']"
    by (simp add: get_positions_internal_def wit_user_token get_bot_def get_positions_def wit_owned_bot_def dict_put_def
        wit_bot_def setup_bot_def)
  then show ?thesis
    using internal_positions_scoped[OF wit_user_token, of 0 "Some wit_owned_bot"] by (fastforce simp: list_all_iff)
qed

lemma wit_bot_manager: "bt_manager (wit_bot key) = wit_manager\<lparr>pm_positions := []\<rparr>"
  by (simp add: wit_bot_def setup_bot_def Let_def)

definition wit_open_answers :: internal_open_answers where
  "wit_open_answers = \<lparr>oa_markets = Inl (ExternalError ''timeout''), oa_funding_now = 0,
     oa_funding = Inl (ExternalError ''timeout''), oa_close_client = Inr (), oa_now = 0, oa_id = ''o1'',
     oa_preflight = \<lparr>pa_sol_balance = Inl (ExternalError ''timeout''), pa_usdc_balance = Inr 0,
       pa_hl_state = Inl (ExternalError ''timeout''), pa_prices = wit_venues, pa_markets = Inl (ExternalError ''timeout'')\<rparr>, oa_intent = ''i9'', oa_open = PositionManager.wit_answers\<rparr>"

definition wit_open_request :: open_request where
  "wit_open_request = \<lparr>oq_asset = ''SOL'', oq_leverage = 3, oq_size_usd = 1000, oq_venue = None\<rparr>"

theorem internal_api_never_trades_witness:
  "\<not> ar_success (snd (open_position_internal wit_env wit_open_answers wit_open_request
     (fst (recover_state (Inr ()) 0 None (wit_bot ''k'')))))"
proof -
  have r: "api_reach wit_env (wit_bot ''k'') (fst (recover_state (Inr ()) 0 None (wit_bot ''k'')))"
    by (rule api_reach.step[OF api_reach.start api_step.turn[OF bot_step.recover]])
  have m: "pm_asgard (bt_manager (fst (recover_state (Inr ()) 0 None (wit_bot ''k'')))) = wit_asgard"
    using bot_step_same[OF bot_step.recover[of wit_env "wit_bot ''k''" "Inr ()" 0 None]]
    by (simp add: same_trades_def wit_bot_manager wit_manager_def)
  show ?thesis
    using internal_api_never_trades[OF r[unfolded wit_bot_def], folded wit_bot_def] m
    by (simp add: wit_manager_def wit_asgard_def wit_open_answers_def tx_table_ok_empty)
qed

theorem override_never_opens_witness:
  "\<not> ar_success (snd (open_position_internal wit_env wit_open_answers (wit_open_request\<lparr>oq_venue := Some ''kamino''\<rparr>) (wit_bot ''k'')))"
  using override_never_opens[of "wit_open_request\<lparr>oq_venue := Some ''kamino''\<rparr>" wit_env wit_open_answers "wit_bot ''k''"]
  by (auto simp: truthy_def)

end
