(* ===== verification/ErrorCatalogue.thy ===== *)
theory ErrorCatalogue
  imports Prelude
begin

text \<open>
  The error catalogue (\<open>bot/core/errors/codes.py\<close>) and the functions of the dashboard that turn the text
  of an error into one of its codes (\<open>backend/dashboard/api/positions.py\<close>).

  A member of the enumeration \<open>ErrorCode\<close> is the triple it is declared with; looking a member up by
  value compares with these triples, so a text finds none.
\<close>

section \<open>Codes\<close>

datatype error_category =
    Cat_general | Cat_validation | Cat_asgard | Cat_hyperliquid | Cat_position | Cat_risk | Cat_wallet
  | Cat_network | Cat_auth

definition category_values :: "(string \<times> error_category) list" where
  "category_values =
    [(''GEN'', Cat_general), (''VAL'', Cat_validation), (''ASG'', Cat_asgard), (''HLQ'', Cat_hyperliquid),
     (''POS'', Cat_position), (''RSK'', Cat_risk), (''WAL'', Cat_wallet), (''NET'', Cat_network), (''AUT'', Cat_auth)]"

definition error_codes :: "(string \<times> string \<times> nat) list" where
  "error_codes =
    [(''GEN-0001'', ''An unexpected error occurred'', 500),
     (''GEN-0002'', ''Internal server error'', 500),
     (''GEN-0003'', ''Feature not yet implemented'', 501),
     (''GEN-0004'', ''Request timed out'', 504),
     (''VAL-0001'', ''Invalid input provided'', 400),
     (''VAL-0002'', ''Required field is missing'', 400),
     (''VAL-0003'', ''Leverage must be between 1.1x and 4x'', 400),
     (''VAL-0004'', ''Position size is invalid'', 400),
     (''VAL-0005'', ''Position size below minimum'', 400),
     (''VAL-0006'', ''Position size above maximum'', 400),
     (''VAL-0007'', ''Unsupported asset'', 400),
     (''ASG-0001'', ''Asgard API error'', 502),
     (''ASG-0002'', ''Insufficient liquidity on Asgard'', 400),
     (''ASG-0003'', ''Failed to open Asgard position'', 502),
     (''ASG-0004'', ''Failed to build Asgard transaction'', 502),
     (''ASG-0005'', ''Failed to sign Asgard transaction'', 500),
     (''ASG-0006'', ''Failed to submit Asgard transaction'', 502),
     (''ASG-0007'', ''Asgard transaction timed out'', 504),
     (''ASG-0008'', ''Insufficient collateral for Asgard position'', 400),
     (''ASG-0009'', ''Asgard health factor too low'', 400),
     (''HLQ-0001'', ''Hyperliquid API error'', 502),
     (''HLQ-0002'', ''Failed to open Hyperliquid position'', 502),
     (''HLQ-0003'', ''Insufficient margin on Hyperliquid'', 400),
     (''HLQ-0004'', ''Failed to set leverage on Hyperliquid'', 502),
     (''HLQ-0005'', ''Failed to place Hyperliquid order'', 502),
     (''HLQ-0006'', ''Hyperliquid retries exhausted'', 502),
     (''HLQ-0007'', ''Hyperliquid position not found'', 404),
     (''POS-0001'', ''Position not found'', 404),
     (''POS-0002'', ''Position already closed'', 400),
     (''POS-0003'', ''Failed to close position'', 502),
     (''POS-0004'', ''Failed to unwind position'', 502),
     (''POS-0005'', ''Asymmetric position detected'', 500),
     (''RSK-0001'', ''Opportunity rejected by risk engine'', 400),
     (''RSK-0002'', ''Funding rate is unfavorable'', 400),
     (''RSK-0003'', ''Price deviation between venues too high'', 400),
     (''RSK-0004'', ''Market volatility too high'', 400),
     (''RSK-0005'', ''Circuit breaker triggered'', 503),
     (''RSK-0006'', ''Maximum positions reached'', 400),
     (''WAL-0001'', ''Insufficient SOL for gas'', 400),
     (''WAL-0002'', ''Insufficient USDC collateral'', 400),
     (''WAL-0003'', ''Insufficient ETH for gas'', 400),
     (''WAL-0004'', ''Wallet not connected'', 401),
     (''NET-0001'', ''Network error'', 503),
     (''NET-0002'', ''Solana RPC error'', 503),
     (''NET-0003'', ''Arbitrum RPC error'', 503),
     (''NET-0004'', ''Rate limited by external API'', 429),
     (''AUT-0001'', ''Unauthorized'', 401),
     (''AUT-0002'', ''Forbidden'', 403),
     (''AUT-0003'', ''Invalid authentication token'', 401)]"

definition ERROR_DESCRIPTIONS :: "(string \<times> string) list" where
  "ERROR_DESCRIPTIONS =
    [(''GEN-0001'', ''An unexpected error occurred. Please try again or contact support if the problem persists.''),
     (''GEN-0002'', ''An internal server error occurred. Our team has been notified.''),
     (''GEN-0003'', ''This feature is not yet implemented. Check our roadmap for updates.''),
     (''GEN-0004'', ''The request timed out. Please try again.''),
     (''VAL-0001'', ''The input provided is invalid. Check the field format and try again.''),
     (''VAL-0002'', ''A required field is missing from your request.''),
     (''VAL-0003'', ''Leverage must be between 1.1x and 4.0x. Adjust your leverage setting.''),
     (''VAL-0004'', ''The position size is invalid. Must be a positive number.''),
     (''VAL-0005'', ''Position size is below the minimum. Increase your position size.''),
     (''VAL-0006'', ''Position size is above your configured maximum. Reduce the size or update your settings.''),
     (''VAL-0007'', ''This asset is not supported. Currently only SOL is supported.''),
     (''ASG-0001'', ''The Asgard API returned an error. This may be temporary.''),
     (''ASG-0002'', ''Insufficient liquidity available on Asgard for this position size.''),
     (''ASG-0003'', ''Failed to open position on Asgard. The transaction may have failed on-chain.''),
     (''ASG-0004'', ''Failed to build the Asgard transaction. Try again.''),
     (''ASG-0005'', ''Failed to sign the transaction with your wallet. Ensure your wallet is connected.''),
     (''ASG-0006'', ''Failed to submit the transaction to Solana. The network may be congested.''),
     (''ASG-0007'', ''The Asgard transaction timed out. Check your wallet for the transaction status.''),
     (''ASG-0008'', ''Insufficient collateral tokens in your wallet for this position.''),
     (''ASG-0009'', ''The health factor would be too low with these parameters. Reduce leverage.''),
     (''HLQ-0001'', ''The Hyperliquid API returned an error. This may be temporary.''),
     (''HLQ-0002'', ''Failed to open position on Hyperliquid. Check your margin balance.''),
     (''HLQ-0003'', ''Insufficient margin available on Hyperliquid. Deposit more USDC.''),
     (''HLQ-0004'', ''Failed to set leverage on Hyperliquid. Try again.''),
     (''HLQ-0005'', ''Failed to place order on Hyperliquid. The order may have been rejected.''),
     (''HLQ-0006'', ''All retry attempts exhausted for Hyperliquid operation. Contact support.''),
     (''HLQ-0007'', ''The Hyperliquid position was not found. It may have been closed.''),
     (''POS-0001'', ''The position you requested was not found. Check the position ID.''),
     (''POS-0002'', ''This position has already been closed.''),
     (''POS-0003'', ''Failed to close the position. One or both legs may have failed.''),
     (''POS-0004'', ''Failed to unwind the position during error recovery. Contact support.''),
     (''POS-0005'', ''Position became asymmetric (one leg only). This is an error state.''),
     (''RSK-0001'', ''The opportunity was rejected by the risk engine. Check your settings.''),
     (''RSK-0002'', ''The funding rate is currently unfavorable for opening a position.''),
     (''RSK-0003'', ''Price deviation between venues exceeds your configured threshold.''),
     (''RSK-0004'', ''Market volatility is too high according to your settings.''),
     (''RSK-0005'', ''Circuit breaker triggered due to market conditions. Trading paused.''),
     (''RSK-0006'', ''Maximum number of positions reached. Close a position first.''),
     (''WAL-0001'', ''Insufficient SOL in wallet for transaction fees. Add more SOL.''),
     (''WAL-0002'', ''Insufficient USDC in wallet for collateral. Deposit more USDC.''),
     (''WAL-0003'', ''Insufficient ETH in wallet for Arbitrum gas fees.''),
     (''WAL-0004'', ''No wallet connected. Connect your wallet to proceed.''),
     (''NET-0001'', ''A network error occurred. Check your internet connection.''),
     (''NET-0002'', ''Solana RPC error. The network may be experiencing issues.''),
     (''NET-0003'', ''Arbitrum RPC error. The network may be experiencing issues.''),
     (''NET-0004'', ''Rate limited by external API. Please wait before trying again.''),
     (''AUT-0001'', ''You are not authorized. Please log in.''),
     (''AUT-0002'', ''You don'' @ [CHR 0x27] @ ''t have permission to perform this action.''),
     (''AUT-0003'', ''Your session has expired. Please log in again.'')]"

datatype enum_value = TextValue string | TripleValue "string \<times> string \<times> nat"

definition ErrorCode :: "enum_value \<Rightarrow> exn + string \<times> string \<times> nat" where
  "ErrorCode v =
     (case v of
        TextValue s \<Rightarrow> Inl (ValueError (CHR 0x27 # s @ CHR 0x27 # '' is not a valid ErrorCode''))
      | TripleValue t \<Rightarrow> if t \<in> set error_codes then Inr t else Inl (ValueError ''not a valid ErrorCode''))"

text \<open>\<open>code.split("-")[0]\<close> and the category of that value.\<close>

definition category_of_code :: "string \<Rightarrow> exn + error_category" where
  "category_of_code code =
     (case map_of category_values (takeWhile (\<lambda>c. c \<noteq> CHR ''-'') code) of
        None \<Rightarrow> Inl (ValueError ''not a valid ErrorCategory'') | Some c \<Rightarrow> Inr c)"

definition get_error_info :: "string \<times> string \<times> nat \<Rightarrow> exn + (string \<times> string \<times> error_category \<times> nat)" where
  "get_error_info e = res_bind (category_of_code (fst e)) (\<lambda>c. Inr (fst e, fst (snd e), c, snd (snd e)))"

definition get_error_description :: "string \<Rightarrow> string" where
  "get_error_description code =
     (case map_of ERROR_DESCRIPTIONS code of
        None \<Rightarrow> ''No additional information available for this error.'' | Some d \<Rightarrow> d)"

section \<open>From texts to codes\<close>

definition has_any :: "string list \<Rightarrow> string \<Rightarrow> bool" where
  "has_any parts s = list_ex (\<lambda>p. contains p s) parts"

text \<open>The rules for the legs and the risk checks apply by the stage; \<open>None\<close> is a stage that is null.\<close>

definition wallet_code :: "string \<Rightarrow> string option" where
  "wallet_code s =
     (if has_any [''wallet not connected'', ''unauthorized''] s then Some ''WAL-0004''
      else if has_any [''insufficient sol'', ''not enough sol''] s then Some ''WAL-0001''
      else if has_any [''insufficient usdc'', ''not enough usdc''] s then Some ''WAL-0002''
      else if has_any [''insufficient eth''] s then Some ''WAL-0003''
      else None)"

definition asgard_code :: "string \<Rightarrow> string" where
  "asgard_code s =
     (if has_any [''insufficient liquidity''] s then ''ASG-0002''
      else if has_any [''health factor''] s then ''ASG-0009''
      else if has_any [''collateral''] s then ''ASG-0008''
      else if contains ''transaction'' s \<and> contains ''timeout'' s then ''ASG-0007''
      else if has_any [''sign''] s then ''ASG-0005''
      else if has_any [''submit''] s then ''ASG-0006''
      else if has_any [''build''] s then ''ASG-0004''
      else ''ASG-0003'')"

definition hyperliquid_code :: "string \<Rightarrow> string" where
  "hyperliquid_code s =
     (if has_any [''insufficient margin''] s then ''HLQ-0003''
      else if has_any [''leverage''] s then ''HLQ-0004''
      else if has_any [''order''] s then ''HLQ-0005''
      else if has_any [''retry'', ''exhausted''] s then ''HLQ-0006''
      else ''HLQ-0002'')"

definition risk_code :: "string \<Rightarrow> string" where
  "risk_code s =
     (if has_any [''funding rate''] s then ''RSK-0002''
      else if has_any [''price deviation''] s then ''RSK-0003''
      else if has_any [''volatility''] s then ''RSK-0004''
      else if has_any [''circuit breaker''] s then ''RSK-0005''
      else if has_any [''maximum positions'', ''max positions''] s then ''RSK-0006''
      else ''RSK-0001'')"

definition general_code :: "string \<Rightarrow> string" where
  "general_code s =
     (if has_any [''rate limit''] s then ''NET-0004''
      else if contains ''solana'' s \<and> has_any [''rpc'', ''network''] s then ''NET-0002''
      else if contains ''arbitrum'' s \<and> has_any [''rpc'', ''network''] s then ''NET-0003''
      else if has_any [''network'', ''connection''] s then ''NET-0001''
      else if contains ''leverage'' s \<and> has_any [''invalid'', ''range''] s then ''VAL-0003''
      else if contains ''size'' s
      then (if has_any [''small'', ''minimum''] s then ''VAL-0005''
            else if has_any [''large'', ''maximum''] s then ''VAL-0006'' else ''VAL-0004'')
      else ''GEN-0001'')"

definition map_error_to_code :: "string \<Rightarrow> string option \<Rightarrow> string" where
  "map_error_to_code msg stage =
     (let s = map lower msg
      in case wallet_code s of
           Some c \<Rightarrow> c
         | None \<Rightarrow>
             if stage = Some ''asgard'' then asgard_code s
             else if stage = Some ''hyperliquid'' then hyperliquid_code s
             else if stage = Some ''risk_check'' then risk_code s
             else general_code s)"

definition map_close_error_to_code :: "string \<Rightarrow> string" where
  "map_close_error_to_code msg =
     (let s = map lower msg
      in if has_any [''wallet not connected''] s then ''WAL-0004''
         else if has_any [''position not found''] s then ''POS-0001''
         else if has_any [''already closed''] s then ''POS-0002''
         else if has_any [''unwind''] s then ''POS-0004''
         else if has_any [''asymmetric''] s then ''POS-0005''
         else if has_any [''hyperliquid''] s then ''HLQ-0007''
         else if has_any [''asgard''] s then ''ASG-0003''
         else ''POS-0003'')"

section \<open>Lemmas\<close>

definition catalogued :: "string \<Rightarrow> bool" where
  "catalogued c \<longleftrightarrow> c \<in> fst ` set error_codes"

definition catalogued_codes :: "string list" where
  "catalogued_codes = map fst error_codes"

lemma codes_simps: "catalogued c \<longleftrightarrow> c \<in> set catalogued_codes"
  by (simp add: catalogued_def catalogued_codes_def)

lemma mapped_parts:
  "wallet_code s = Some c \<Longrightarrow> catalogued c" "catalogued (asgard_code s)" "catalogued (hyperliquid_code s)"
  "catalogued (risk_code s)" "catalogued (general_code s)"
  by (auto simp: wallet_code_def asgard_code_def hyperliquid_code_def risk_code_def general_code_def
      codes_simps catalogued_codes_def error_codes_def split: if_splits)

end
