(* ===== verification/AccountApi.thy ===== *)
theory AccountApi
  imports ServiceDb FundingJobs
begin

text \<open>
  The account interface of the dashboard: the strategy of a user (\<open>backend/dashboard/api/strategy.py\<close>,
  \<open>shared/config/strategy_defaults.py\<close>), the balances (\<open>api/balances.py\<close>) and the intents
  (\<open>api/intents.py\<close>).

  A handler is a function of the tables. One that reads a row and writes it later takes the tables of
  both moments, since other requests and the services run in between. A failing statement is an
  exception that no handler catches: the answer 500. Columns of type REAL round what is stored.
\<close>

section \<open>Strategy\<close>

definition MAX_POSITIONS_CAP :: int where "MAX_POSITIONS_CAP = 3"
definition SYSTEM_MAX_LEVERAGE :: pyfloat where "SYSTEM_MAX_LEVERAGE = 5"
definition SYSTEM_MIN_STOP_LOSS_PCT :: pyfloat where "SYSTEM_MIN_STOP_LOSS_PCT = 1"
definition MIN_COOLDOWN_MINUTES :: int where "MIN_COOLDOWN_MINUTES = 5"

definition DEFAULTS :: strategy_row where
  "DEFAULTS = \<lparr>sg_enabled = False, sg_assets = Some [''SOL''], sg_min_carry_apy = Some 15,
     sg_min_funding_rate_8hr = Some (flt (5/1000)), sg_max_funding_volatility = Some (1/2),
     sg_max_position_pct = Some (1/4), sg_max_concurrent_positions = Some 2, sg_max_leverage = Some 3,
     sg_min_exit_carry_apy = Some 5, sg_take_profit_pct = None, sg_stop_loss_pct = Some 10,
     sg_cooldown_minutes = Some 30, sg_last_close_time = None, sg_cooldown_at_close = None,
     sg_protocols = None, sg_auto_reopen = Some True, sg_version = 1\<rparr>"

record strategy_update =
  up_enabled :: "bool option"
  up_assets :: "string list option"
  up_protocols :: "string list option"
  up_min_carry_apy :: "pyfloat option"
  up_min_funding_rate_8hr :: "pyfloat option"
  up_max_funding_volatility :: "pyfloat option"
  up_max_position_pct :: "pyfloat option"
  up_max_concurrent_positions :: "int option"
  up_max_leverage :: "pyfloat option"
  up_min_exit_carry_apy :: "pyfloat option"
  up_take_profit_pct :: "pyfloat option"
  up_stop_loss_pct :: "pyfloat option"
  up_auto_reopen :: "bool option"
  up_cooldown_minutes :: "int option"
  up_version :: int

text \<open>The bounds of a field that may be left out.\<close>

definition in_bounds :: "'a::linorder option \<Rightarrow> 'a option \<Rightarrow> 'a option \<Rightarrow> bool" where
  "in_bounds lo hi x =
     (case x of None \<Rightarrow> True
      | Some v \<Rightarrow> (case lo of None \<Rightarrow> True | Some l \<Rightarrow> l \<le> v) \<and> (case hi of None \<Rightarrow> True | Some h \<Rightarrow> v \<le> h))"

definition validate_assets :: "string list option \<Rightarrow> bool" where
  "validate_assets v = (case v of None \<Rightarrow> True | Some as \<Rightarrow> set as \<subseteq> {''SOL''})"

definition valid_update :: "strategy_update \<Rightarrow> bool" where
  "valid_update u \<longleftrightarrow>
     validate_assets (up_assets u) \<and>
     in_bounds (Some 0) (Some 200) (up_min_carry_apy u) \<and>
     in_bounds (Some 0) None (up_min_funding_rate_8hr u) \<and>
     in_bounds (Some 0) (Some 1) (up_max_funding_volatility u) \<and>
     (\<forall>x \<in> set_option (up_max_position_pct u). 0 < x \<and> x \<le> 1) \<and>
     in_bounds (Some 1) (Some MAX_POSITIONS_CAP) (up_max_concurrent_positions u) \<and>
     in_bounds (Some (flt (11/10))) (Some SYSTEM_MAX_LEVERAGE) (up_max_leverage u) \<and>
     in_bounds (Some 0) None (up_min_exit_carry_apy u) \<and>
     in_bounds (Some 0) None (up_take_profit_pct u) \<and>
     in_bounds (Some SYSTEM_MIN_STOP_LOSS_PCT) (Some 100) (up_stop_loss_pct u) \<and>
     in_bounds (Some MIN_COOLDOWN_MINUTES) None (up_cooldown_minutes u)"

definition no_update :: "strategy_update \<Rightarrow> bool" where
  "no_update u \<longleftrightarrow> up_enabled u = None \<and> up_assets u = None \<and> up_protocols u = None \<and> up_min_carry_apy u = None \<and>
     up_min_funding_rate_8hr u = None \<and> up_max_funding_volatility u = None \<and> up_max_position_pct u = None \<and>
     up_max_concurrent_positions u = None \<and> up_max_leverage u = None \<and> up_min_exit_carry_apy u = None \<and>
     up_take_profit_pct u = None \<and> up_stop_loss_pct u = None \<and> up_auto_reopen u = None \<and>
     up_cooldown_minutes u = None"

text \<open>The columns of the fields that were given; the numbers are REAL.\<close>

definition given :: "'a option \<Rightarrow> 'a option \<Rightarrow> 'a option" where
  "given x old = (case x of None \<Rightarrow> old | Some v \<Rightarrow> Some v)"

definition apply_update :: "strategy_update \<Rightarrow> strategy_row \<Rightarrow> strategy_row" where
  "apply_update u r =
     r\<lparr>sg_enabled := (case up_enabled u of None \<Rightarrow> sg_enabled r | Some b \<Rightarrow> b),
       sg_assets := given (up_assets u) (sg_assets r),
       sg_protocols := given (up_protocols u) (sg_protocols r),
       sg_min_carry_apy := given (map_option real_column (up_min_carry_apy u)) (sg_min_carry_apy r),
       sg_min_funding_rate_8hr := given (map_option real_column (up_min_funding_rate_8hr u)) (sg_min_funding_rate_8hr r),
       sg_max_funding_volatility := given (map_option real_column (up_max_funding_volatility u)) (sg_max_funding_volatility r),
       sg_max_position_pct := given (map_option real_column (up_max_position_pct u)) (sg_max_position_pct r),
       sg_max_concurrent_positions := given (up_max_concurrent_positions u) (sg_max_concurrent_positions r),
       sg_max_leverage := given (map_option real_column (up_max_leverage u)) (sg_max_leverage r),
       sg_min_exit_carry_apy := given (map_option real_column (up_min_exit_carry_apy u)) (sg_min_exit_carry_apy r),
       sg_take_profit_pct := given (map_option real_column (up_take_profit_pct u)) (sg_take_profit_pct r),
       sg_stop_loss_pct := given (map_option real_column (up_stop_loss_pct u)) (sg_stop_loss_pct r),
       sg_auto_reopen := given (up_auto_reopen u) (sg_auto_reopen r),
       sg_cooldown_minutes := given (up_cooldown_minutes u) (sg_cooldown_minutes r)\<rparr>"

text \<open>The row an insert makes of the defaults: the columns are REAL.\<close>

definition default_columns :: strategy_row where
  "default_columns = DEFAULTS\<lparr>sg_min_funding_rate_8hr := Some (real_column (flt (5/1000)))\<rparr>"

record strategy_response =
  re_row :: strategy_row
  re_is_default :: bool

definition server_error :: http_error where
  "server_error = HttpError 500 ''Internal Server Error''"

text \<open>The response model refuses a missing value where it wants a number or a flag.\<close>

definition complete_row :: "strategy_row \<Rightarrow> bool" where
  "complete_row r \<longleftrightarrow> sg_min_carry_apy r \<noteq> None \<and> sg_min_funding_rate_8hr r \<noteq> None \<and>
     sg_max_funding_volatility r \<noteq> None \<and> sg_max_position_pct r \<noteq> None \<and> sg_max_concurrent_positions r \<noteq> None \<and>
     sg_max_leverage r \<noteq> None \<and> sg_min_exit_carry_apy r \<noteq> None \<and> sg_stop_loss_pct r \<noteq> None \<and>
     sg_auto_reopen r \<noteq> None \<and> sg_cooldown_minutes r \<noteq> None"

definition get_strategy :: "exn + unit \<Rightarrow> string \<Rightarrow> service_db \<Rightarrow> http_error + strategy_response" where
  "get_strategy io u db =
     (case io of
        Inl e \<Rightarrow> Inl server_error
      | Inr _ \<Rightarrow>
          (case dict_get u (sv_strategy db) of
             None \<Rightarrow> Inr \<lparr>re_row = DEFAULTS, re_is_default = True\<rparr>
           | Some r \<Rightarrow>
               let shown = r\<lparr>sg_assets := (case sg_assets r of None \<Rightarrow> sg_assets DEFAULTS
                                          | Some as \<Rightarrow> if as = [] then sg_assets DEFAULTS else Some as)\<rparr>
               in if complete_row r then Inr \<lparr>re_row = shown, re_is_default = False\<rparr> else Inl server_error))"

record update_answers =
  ua_read :: "exn + unit"
  ua_write :: "exn + unit"
  ua_again :: "exn + unit"

text \<open>\<open>db\<close> is read, \<open>db'\<close> is written: an insert that finds a row raises, an update whose version has
  passed changes nothing.\<close>

definition write_strategy :: "string \<Rightarrow> strategy_update \<Rightarrow> bool \<Rightarrow> service_db \<Rightarrow> exn + service_db" where
  "write_strategy u body exists db' =
     (if \<not> exists
      then if dict_get u (sv_strategy db') = None
           then Inr (db'\<lparr>sv_strategy := dict_put u (apply_update body default_columns) (sv_strategy db')\<rparr>)
           else Inl (ExternalError ''duplicate key'')
      else Inr (case dict_get u (sv_strategy db') of
             None \<Rightarrow> db'
           | Some r \<Rightarrow>
               if sg_version r = up_version body
               then db'\<lparr>sv_strategy := dict_put u ((apply_update body r)\<lparr>sg_version := sg_version r + 1\<rparr>) (sv_strategy db')\<rparr>
               else db'))"

definition update_strategy_api ::
  "update_answers \<Rightarrow> string \<Rightarrow> strategy_update \<Rightarrow> service_db \<Rightarrow> service_db \<Rightarrow>
     service_db \<times> (http_error + strategy_response)" where
  "update_strategy_api a u body db db' =
     (if \<not> valid_update body then (db', Inl (HttpError 422 ''validation''))
      else if no_update body then (db', Inl (HttpError 400 ''No fields to update''))
      else if \<not> is_ok (ua_read a) then (db', Inl server_error)
      else
        let row = dict_get u (sv_strategy db)
        in if row \<noteq> None \<and> sg_version (the row) \<noteq> up_version body
           then (db', Inl (HttpError 409 ''Config was modified by another request''))
           else if \<not> is_ok (ua_write a) then (db', Inl server_error)
           else (case write_strategy u body (row \<noteq> None) db' of
                   Inl e \<Rightarrow> (db', Inl server_error)
                 | Inr db2 \<Rightarrow> (db2, get_strategy (ua_again a) u db2)))"

text \<open>Pausing and resuming insert the row if there is none.\<close>

definition set_enabled :: "string \<Rightarrow> bool \<Rightarrow> service_db \<Rightarrow> service_db" where
  "set_enabled u b db =
     db\<lparr>sv_strategy := dict_put u ((case dict_get u (sv_strategy db) of None \<Rightarrow> default_columns | Some r \<Rightarrow> r)
          \<lparr>sg_enabled := b\<rparr>) (sv_strategy db)\<rparr>"

definition pause_with :: "pause_cause \<Rightarrow> datetime \<Rightarrow> string \<Rightarrow> service_db \<Rightarrow> service_db" where
  "pause_with cause now u db = (set_enabled u False db)\<lparr>sv_risk := pause_for_risk now u cause (sv_risk db)\<rparr>"

definition pause_strategy :: "exn + unit \<Rightarrow> datetime \<Rightarrow> string \<Rightarrow> service_db \<Rightarrow> service_db \<times> (http_error + unit)" where
  "pause_strategy io now u db =
     (case io of Inl e \<Rightarrow> (db, Inl server_error) | Inr _ \<Rightarrow> (pause_with UserRequested now u db, Inr ()))"

definition resume_strategy :: "exn + unit \<Rightarrow> string \<Rightarrow> service_db \<Rightarrow> service_db \<times> (http_error + unit)" where
  "resume_strategy io u db =
     (case io of
        Inl e \<Rightarrow> (db, Inl server_error)
      | Inr _ \<Rightarrow> ((set_enabled u True db)\<lparr>sv_risk := (sv_risk db)\<lparr>strategy_pauses := (strategy_pauses (sv_risk db))(u := None)\<rparr>\<rparr>,
                  Inr ()))"

definition bot_status :: "string \<Rightarrow> service_db \<Rightarrow> string \<times> pause_cause option" where
  "bot_status u db =
     (case dict_get u (sv_strategy db) of
        None \<Rightarrow> (''inactive'', None)
      | Some r \<Rightarrow>
          (case strategy_pauses (sv_risk db) u of
             Some p \<Rightarrow> (''paused'', Some (sp_paused_reason p))
           | None \<Rightarrow> (if sg_enabled r then ''active'' else ''inactive'', None)))"

section \<open>Balances\<close>

record token_balance =
  tb_symbol :: string
  tb_balance :: pyfloat
  tb_usd_value :: "pyfloat option"

record chain_balance =
  cb_address :: string
  cb_native_balance :: pyfloat
  cb_native_symbol :: string
  cb_tokens :: "token_balance list"

text \<open>Two calls of a chain; any failure gives no balance at all.\<close>

definition chain_balances :: "string \<Rightarrow> string \<Rightarrow> exn + pyfloat \<Rightarrow> exn + pyfloat \<Rightarrow> chain_balance option" where
  "chain_balances coin addr native usdc =
     (case (native, usdc) of
        (Inr x, Inr y) \<Rightarrow> Some \<lparr>cb_address = addr, cb_native_balance = x, cb_native_symbol = coin,
            cb_tokens = [\<lparr>tb_symbol = ''USDC'', tb_balance = y, tb_usd_value = Some y\<rparr>]\<rparr>
      | _ \<Rightarrow> None)"

definition get_solana_balances :: "exn + pyfloat \<Rightarrow> exn + pyfloat \<Rightarrow> string \<Rightarrow> chain_balance option" where
  "get_solana_balances sol usdc addr = chain_balances ''SOL'' addr sol usdc"

text \<open>The client of Arbitrum gives decimals.\<close>

definition get_arbitrum_balances :: "exn + decimal \<Rightarrow> exn + decimal \<Rightarrow> string \<Rightarrow> chain_balance option" where
  "get_arbitrum_balances eth usdc addr =
     chain_balances ''ETH'' addr (res_bind eth (Inr \<circ> flt)) (res_bind usdc (Inr \<circ> flt))"

definition get_hl_clearinghouse_balance ::
  "settings \<Rightarrow> (string option \<Rightarrow> exn + unit) \<Rightarrow> exn + clearinghouse \<Rightarrow> string \<Rightarrow> pyfloat option" where
  "get_hl_clearinghouse_balance st signer ans addr =
     (case trader_init st signer (Some addr) of
        Inl e \<Rightarrow> None
      | Inr t \<Rightarrow> (let b = get_deposited_balance ans t in Some (if b > 0 then b else 0)))"

text \<open>What a caller passes as the balance on the exchange: a number, if any, or (\<open>create_intent\<close>) the
  balances of a chain, which have no order.\<close>

datatype margin_argument = Margin "pyfloat option" | Chain_margin chain_balance

definition below_ten :: "margin_argument \<Rightarrow> exn + bool" where
  "below_ten m =
     (case m of
        Margin None \<Rightarrow> Inr True
      | Margin (Some x) \<Rightarrow> Inr (x < 10)
      | Chain_margin b \<Rightarrow> Inl (TypeError ''not supported between instances of ChainBalance and int''))"

definition check_sufficient_funds :: "chain_balance option \<Rightarrow> margin_argument \<Rightarrow> exn + bool \<times> string" where
  "check_sufficient_funds solana margin =
     (case solana of
        None \<Rightarrow> Inr (False, ''Solana wallet not configured'')
      | Some s \<Rightarrow>
          if cb_native_balance s < flt (5/100) then Inr (False, ''Insufficient SOL for gas'')
          else
            (case find (\<lambda>t. tb_symbol t = ''USDC'') (cb_tokens s) of
               None \<Rightarrow> Inr (False, ''Insufficient USDC on Solana'')
             | Some t \<Rightarrow>
                 if tb_balance t < 10 then Inr (False, ''Insufficient USDC on Solana'')
                 else res_bind (below_ten margin) (\<lambda>low.
                   Inr (if low then (False, ''Insufficient USDC on Hyperliquid'') else (True, '''')))))"

record balance_answers =
  ba_row :: "exn + unit"
  ba_sol :: "exn + pyfloat"
  ba_sol_usdc :: "exn + pyfloat"
  ba_eth :: "exn + decimal"
  ba_arb_usdc :: "exn + decimal"
  ba_state :: "exn + clearinghouse"

record balances_response =
  bl_solana :: "chain_balance option"
  bl_arbitrum :: "chain_balance option"
  bl_clearinghouse :: "pyfloat option"
  bl_total_usd :: "pyfloat option"
  bl_sufficient :: bool

definition add_values :: "chain_balance option \<Rightarrow> pyfloat \<Rightarrow> pyfloat" where
  "add_values b sum0 =
     (case b of None \<Rightarrow> sum0
      | Some c \<Rightarrow> fold (\<lambda>t x. case tb_usd_value t of None \<Rightarrow> x | Some v \<Rightarrow> if v = 0 then x else flt (x + v)) (cb_tokens c) sum0)"

definition get_balances ::
  "settings \<Rightarrow> (string option \<Rightarrow> exn + unit) \<Rightarrow> balance_answers \<Rightarrow> string \<Rightarrow> service_db \<Rightarrow> http_error + balances_response" where
  "get_balances st signer a u db =
     (case ba_row a of
        Inl e \<Rightarrow> Inl server_error
      | Inr _ \<Rightarrow>
          (case sv_users db u of
             None \<Rightarrow> Inl (HttpError 404 ''User not found'')
           | Some r \<Rightarrow>
               let sol = or_text (usr_server_solana_address r) (usr_solana_address r);
                   evm = or_text (usr_server_evm_address r) (usr_evm_address r);
                   solana = (if truthy sol then get_solana_balances (ba_sol a) (ba_sol_usdc a) (the sol) else None);
                   arb = (if truthy evm then get_arbitrum_balances (ba_eth a) (ba_arb_usdc a) (the evm) else None);
                   hl = (if truthy evm then get_hl_clearinghouse_balance st signer (ba_state a) (the evm) else None);
                   worth = add_values arb (add_values solana 0)
               in (case check_sufficient_funds solana (Margin hl) of
                     Inl e \<Rightarrow> Inl server_error
                   | Inr (enough, why) \<Rightarrow> Inr \<lparr>bl_solana = solana, bl_arbitrum = arb, bl_clearinghouse = hl,
                       bl_total_usd = (if worth > 0 then Some worth else None), bl_sufficient = enough\<rparr>)))"

definition check_funds :: "http_error + balances_response \<Rightarrow> http_error + bool \<times> string option \<times> pyfloat" where
  "check_funds ans =
     (case ans of
        Inl e \<Rightarrow> Inl e
      | Inr b \<Rightarrow> Inr (bl_sufficient b, map_option cb_address (bl_solana b),
                     case bl_solana b of None \<Rightarrow> 0 | Some s \<Rightarrow> cb_native_balance s))"

section \<open>Intents\<close>

record intent_request =
  ir_asset :: string
  ir_leverage :: pyfloat
  ir_size_usd :: pyfloat
  ir_min_funding_rate :: "pyfloat option"
  ir_max_funding_volatility :: "pyfloat option"
  ir_max_entry_price :: "pyfloat option"
  ir_expires_in_hours :: "pyfloat option"

definition valid_intent_request :: "intent_request \<Rightarrow> bool" where
  "valid_intent_request q \<longleftrightarrow> flt (11/10) \<le> ir_leverage q \<and> ir_leverage q \<le> 4 \<and> 100 \<le> ir_size_usd q \<and>
     in_bounds (Some 1) (Some 720) (ir_expires_in_hours q)"

text \<open>\<open>timedelta(hours=x)\<close> rounds to microseconds.\<close>

definition expiry :: "datetime \<Rightarrow> intent_request \<Rightarrow> datetime option" where
  "expiry now q =
     (case ir_expires_in_hours q of None \<Rightarrow> None
      | Some h \<Rightarrow> if h = 0 then None else Some (now + round_half_even (h * 3600 * 10 ^ 6)))"

definition new_intent :: "datetime \<Rightarrow> string \<Rightarrow> intent_request \<Rightarrow> intent_row" where
  "new_intent now u q =
     \<lparr>in_user_id = u, in_asset = ir_asset q, in_leverage = real_column (ir_leverage q),
      in_size_usd = real_column (ir_size_usd q),
      in_min_funding_rate = map_option real_column (ir_min_funding_rate q),
      in_max_funding_volatility = map_option real_column (ir_max_funding_volatility q),
      in_max_entry_price = map_option real_column (ir_max_entry_price q), in_status = Pending,
      in_position_id = None, in_execution_error = None, in_expires_at = expiry now q\<rparr>"

record intent_request_answers =
  ia_user :: "exn + unit"
  ia_sol :: "exn + pyfloat"
  ia_sol_usdc :: "exn + pyfloat"
  ia_eth :: "exn + decimal"
  ia_arb_usdc :: "exn + decimal"
  ia_existing :: "exn + unit"
  ia_insert :: "exn + unit"

definition has_open_intent :: "string \<Rightarrow> string \<Rightarrow> service_db \<Rightarrow> bool" where
  "has_open_intent u asset db =
     list_ex (\<lambda>(i, r). in_user_id r = u \<and> in_asset r = asset \<and> (in_status r = Pending \<or> in_status r = Active)) (sv_intents db)"

definition create_intent ::
  "intent_request_answers \<Rightarrow> datetime \<Rightarrow> string \<Rightarrow> string \<Rightarrow> intent_request \<Rightarrow> service_db \<Rightarrow>
     service_db \<times> (http_error + string)" where
  "create_intent a now i u q db =
     (if \<not> valid_intent_request q then (db, Inl (HttpError 422 ''validation''))
      else if \<not> is_ok (ia_user a) then (db, Inl server_error)
      else
        (case sv_users db u of
           None \<Rightarrow> (db, Inl (HttpError 404 ''User not found''))
         | Some r \<Rightarrow>
             let solana = (if truthy (usr_solana_address r)
                           then get_solana_balances (ia_sol a) (ia_sol_usdc a) (the (usr_solana_address r)) else None);
                 arb = (if truthy (usr_evm_address r)
                        then get_arbitrum_balances (ia_eth a) (ia_arb_usdc a) (the (usr_evm_address r)) else None)
             in (case check_sufficient_funds solana (case arb of None \<Rightarrow> Margin None | Some b \<Rightarrow> Chain_margin b) of
                   Inl e \<Rightarrow> (db, Inl server_error)
                 | Inr (enough, why) \<Rightarrow>
                     if \<not> enough then (db, Inl (HttpError 400 (''Insufficient funds: '' @ why)))
                     else if \<not> is_ok (ia_existing a) then (db, Inl server_error)
                     else if has_open_intent u (ir_asset q) db
                     then (db, Inl (HttpError 409 ''Active intent already exists''))
                     else if \<not> is_ok (ia_insert a) \<or> dict_get i (sv_intents db) \<noteq> None then (db, Inl server_error)
                     else (db\<lparr>sv_intents := dict_put i (new_intent now u q) (sv_intents db)\<rparr>, Inr i))))"

definition list_intents :: "string \<Rightarrow> intent_status option \<Rightarrow> service_db \<Rightarrow> (string \<times> intent_row) list" where
  "list_intents u st db =
     filter (\<lambda>(i, r). in_user_id r = u \<and> (case st of None \<Rightarrow> True | Some x \<Rightarrow> in_status r = x)) (sv_intents db)"

definition own_intent :: "string \<Rightarrow> string \<Rightarrow> service_db \<Rightarrow> intent_row option" where
  "own_intent i u db =
     (case dict_get i (sv_intents db) of None \<Rightarrow> None | Some r \<Rightarrow> if in_user_id r = u then Some r else None)"

definition get_intent :: "exn + unit \<Rightarrow> string \<Rightarrow> string \<Rightarrow> service_db \<Rightarrow> http_error + intent_row" where
  "get_intent io i u db =
     (case io of
        Inl e \<Rightarrow> Inl server_error
      | Inr _ \<Rightarrow> (case own_intent i u db of None \<Rightarrow> Inl (HttpError 404 ''Intent not found'') | Some r \<Rightarrow> Inr r))"

text \<open>\<open>db\<close> is read, \<open>db'\<close> is written; the update names the id only.\<close>

definition cancel_intent ::
  "exn + unit \<Rightarrow> exn + unit \<Rightarrow> string \<Rightarrow> string \<Rightarrow> service_db \<Rightarrow> service_db \<Rightarrow> service_db \<times> (http_error + unit)" where
  "cancel_intent io io' i u db db' =
     (case get_intent io i u db of
        Inl e \<Rightarrow> (db', Inl e)
      | Inr r \<Rightarrow>
          if in_status r \<noteq> Pending \<and> in_status r \<noteq> Active then (db', Inl (HttpError 400 ''Cannot cancel intent''))
          else (case io' of
                  Inl e \<Rightarrow> (db', Inl server_error)
                | Inr _ \<Rightarrow> (update_intent i (\<lambda>r. r\<lparr>in_status := Cancelled\<rparr>) db', Inr ())))"

section \<open>Runs\<close>

text \<open>An update, a creation and a cancellation carry the tables they read.\<close>

datatype account_op =
    Update_strategy update_answers string strategy_update service_db
  | Pause_strategy "exn + unit" datetime string
  | Resume_strategy "exn + unit" string
  | Create_intent intent_request_answers datetime string string intent_request
  | Cancel_intent "exn + unit" "exn + unit" string string service_db

fun account_step :: "account_op \<Rightarrow> service_db \<Rightarrow> service_db" where
  "account_step (Update_strategy a u body db0) db = fst (update_strategy_api a u body db0 db)"
| "account_step (Pause_strategy io now u) db = fst (pause_strategy io now u db)"
| "account_step (Resume_strategy io u) db = fst (resume_strategy io u db)"
| "account_step (Create_intent a now i u q) db = fst (create_intent a now i u q db)"
| "account_step (Cancel_intent io io' i u db0) db = fst (cancel_intent io io' i u db0 db)"

section \<open>Lemmas\<close>

lemma real_column_mono: "x \<le> y \<Longrightarrow> real_column x \<le> real_column y"
  by (simp add: real_column_def round_sig_mono)

lemma real_column_pos: "0 < x \<Longrightarrow> 0 < real_column x"
  using round_pos_nonneg[of 2 24 x] by (simp add: real_column_def round_sig_def)

lemma real_column_int: "\<bar>m\<bar> < 2 ^ 24 \<Longrightarrow> real_column (of_int m) = of_int m"
  using round_sig_exact[of 2 m 24 0] by (simp add: real_column_def)

lemma real_column_caps [simp]:
  "real_column 0 = 0" "real_column 1 = 1" "real_column 5 = 5" "real_column 100 = 100" "real_column 200 = 200"
  using real_column_int[of 0] real_column_int[of 1] real_column_int[of 5] real_column_int[of 100] real_column_int[of 200]
  by simp_all

lemma real_column_leverage: "11/10 \<le> real_column (flt (11/10))"
  by code_simp

text \<open>The caps of the system, on a row as it is stored.\<close>

definition caps_ok :: "strategy_row \<Rightarrow> bool" where
  "caps_ok r \<longleftrightarrow>
     (\<forall>x \<in> set_option (sg_max_leverage r). 11/10 \<le> x \<and> x \<le> SYSTEM_MAX_LEVERAGE) \<and>
     (\<forall>n \<in> set_option (sg_max_concurrent_positions r). 1 \<le> n \<and> n \<le> MAX_POSITIONS_CAP) \<and>
     (\<forall>x \<in> set_option (sg_max_position_pct r). 0 < x \<and> x \<le> 1) \<and>
     (\<forall>x \<in> set_option (sg_stop_loss_pct r). SYSTEM_MIN_STOP_LOSS_PCT \<le> x \<and> x \<le> 100) \<and>
     (\<forall>n \<in> set_option (sg_cooldown_minutes r). MIN_COOLDOWN_MINUTES \<le> n) \<and>
     (\<forall>x \<in> set_option (sg_max_funding_volatility r). 0 \<le> x \<and> x \<le> 1) \<and>
     (\<forall>x \<in> set_option (sg_min_carry_apy r). 0 \<le> x \<and> x \<le> 200) \<and>
     (\<forall>as \<in> set_option (sg_assets r). set as \<subseteq> {''SOL''})"

lemmas cap_defs = SYSTEM_MAX_LEVERAGE_def MAX_POSITIONS_CAP_def SYSTEM_MIN_STOP_LOSS_PCT_def MIN_COOLDOWN_MINUTES_def

lemma given_ball: "\<forall>v \<in> set_option new. P v \<Longrightarrow> \<forall>v \<in> set_option old. P v \<Longrightarrow> \<forall>v \<in> set_option (given new old). P v"
  by (cases new) (auto simp: given_def)

lemma apply_update_fields:
  "sg_max_leverage (apply_update u r) = given (map_option real_column (up_max_leverage u)) (sg_max_leverage r)"
  "sg_max_concurrent_positions (apply_update u r) = given (up_max_concurrent_positions u) (sg_max_concurrent_positions r)"
  "sg_max_position_pct (apply_update u r) = given (map_option real_column (up_max_position_pct u)) (sg_max_position_pct r)"
  "sg_stop_loss_pct (apply_update u r) = given (map_option real_column (up_stop_loss_pct u)) (sg_stop_loss_pct r)"
  "sg_cooldown_minutes (apply_update u r) = given (up_cooldown_minutes u) (sg_cooldown_minutes r)"
  "sg_max_funding_volatility (apply_update u r) =
     given (map_option real_column (up_max_funding_volatility u)) (sg_max_funding_volatility r)"
  "sg_min_carry_apy (apply_update u r) = given (map_option real_column (up_min_carry_apy u)) (sg_min_carry_apy r)"
  "sg_assets (apply_update u r) = given (up_assets u) (sg_assets r)"
  by (simp_all add: apply_update_def)

lemma caps_defaults: "caps_ok default_columns"
  by (simp add: caps_ok_def default_columns_def DEFAULTS_def cap_defs)

lemma in_bounds_Some: "in_bounds (Some l) (Some h) (Some v) \<longleftrightarrow> l \<le> v \<and> v \<le> h" "in_bounds (Some l) None (Some v) \<longleftrightarrow> l \<le> v"
  by (simp_all add: in_bounds_def)

lemma caps_column:
  "in_bounds (Some l) (Some h) x \<Longrightarrow> l' \<le> real_column l \<Longrightarrow> real_column h = h \<Longrightarrow> v \<in> set_option (map_option real_column x) \<Longrightarrow>
     l' \<le> v \<and> v \<le> h"
  using real_column_mono[of l] real_column_mono[of _ h] by (cases x) (auto simp: in_bounds_def intro: order_trans)

lemma caps_apply:
  assumes "valid_update u" "caps_ok r"
  shows "caps_ok (apply_update u r)"
proof -
  note v = assms(1)[unfolded valid_update_def]
  have lev: "\<forall>x \<in> set_option (map_option real_column (up_max_leverage u)). 11/10 \<le> x \<and> x \<le> 5"
    by (intro ballI caps_column[OF _ real_column_leverage]) (use v in \<open>simp_all add: cap_defs\<close>)
  have stop: "\<forall>x \<in> set_option (map_option real_column (up_stop_loss_pct u)). 1 \<le> x \<and> x \<le> 100"
    by (intro ballI caps_column[of 1 100 _ 1]) (use v in \<open>simp_all add: cap_defs\<close>)
  have vol: "\<forall>x \<in> set_option (map_option real_column (up_max_funding_volatility u)). 0 \<le> x \<and> x \<le> 1"
    by (intro ballI caps_column[of 0 1 _ 0]) (use v in simp_all)
  have carry: "\<forall>x \<in> set_option (map_option real_column (up_min_carry_apy u)). 0 \<le> x \<and> x \<le> 200"
    by (intro ballI caps_column[of 0 200 _ 0]) (use v in simp_all)
  have pct: "\<forall>x \<in> set_option (map_option real_column (up_max_position_pct u)). 0 < x \<and> x \<le> 1"
    using v real_column_mono[of _ 1] by (cases "up_max_position_pct u") (auto simp: real_column_pos)
  have rest: "\<forall>n \<in> set_option (up_max_concurrent_positions u). 1 \<le> n \<and> n \<le> 3"
    "\<forall>n \<in> set_option (up_cooldown_minutes u). 5 \<le> n" "\<forall>as \<in> set_option (up_assets u). set as \<subseteq> {''SOL''}"
    using v by (auto simp: in_bounds_def cap_defs validate_assets_def split: option.splits)
  note old = assms(2)[unfolded caps_ok_def cap_defs]
  show ?thesis
    unfolding caps_ok_def apply_update_fields cap_defs
    by (intro conjI given_ball lev stop vol carry pct rest) (use old in blast)+
qed

definition all_caps :: "service_db \<Rightarrow> bool" where
  "all_caps db \<longleftrightarrow> dict_ok (sv_strategy db) \<and> (\<forall>u r. dict_get u (sv_strategy db) = Some r \<longrightarrow> caps_ok r)"

lemma all_caps_put:
  "all_caps db \<Longrightarrow> caps_ok r \<Longrightarrow> all_caps (db\<lparr>sv_strategy := dict_put u r (sv_strategy db)\<rparr>)"
  by (auto simp: all_caps_def dict.inv_put dict.get_put split: if_splits)

lemma all_caps_cong: "sv_strategy db' = sv_strategy db \<Longrightarrow> all_caps db' = all_caps db"
  by (simp add: all_caps_def)

lemma caps_version [simp]: "caps_ok (r\<lparr>sg_version := n\<rparr>) = caps_ok r" "caps_ok (r\<lparr>sg_enabled := b\<rparr>) = caps_ok r"
  by (simp_all add: caps_ok_def)

lemma write_strategy_caps:
  assumes "write_strategy u body x db = Inr db2" "valid_update body" "all_caps db"
  shows "all_caps db2"
proof -
  have "db2 = db \<or> (\<exists>r. caps_ok r \<and> db2 = db\<lparr>sv_strategy := dict_put u r (sv_strategy db)\<rparr>)"
    using assms(1,3) caps_apply[OF assms(2)] caps_defaults
    by (auto simp: write_strategy_def all_caps_def split: if_splits option.splits) (metis caps_version(1))+
  with all_caps_put[OF assms(3)] assms(3) show ?thesis by auto
qed

lemma set_enabled_caps: "all_caps db \<Longrightarrow> all_caps (set_enabled u b db)"
  unfolding set_enabled_def by (rule all_caps_put) (auto simp: all_caps_def caps_defaults split: option.splits)

lemma funds_never_enough:
  "check_sufficient_funds solana (case arb of None \<Rightarrow> Margin None | Some b \<Rightarrow> Chain_margin b) \<noteq> Inr (True, w)"
  by (auto simp: check_sufficient_funds_def below_ten_def split: option.splits if_splits)

lemma create_intent_keeps: "\<exists>e. create_intent a now i u q db = (db, Inl e)"
proof (cases "valid_intent_request q \<and> is_ok (ia_user a)")
  case True
  show ?thesis
  proof (cases "sv_users db u")
    case (Some r)
    define solana where "solana = (if truthy (usr_solana_address r)
                           then get_solana_balances (ia_sol a) (ia_sol_usdc a) (the (usr_solana_address r)) else None)"
    define arb where "arb = (if truthy (usr_evm_address r)
                        then get_arbitrum_balances (ia_eth a) (ia_arb_usdc a) (the (usr_evm_address r)) else None)"
    define x where "x = check_sufficient_funds solana (case arb of None \<Rightarrow> Margin None | Some b \<Rightarrow> Chain_margin b)"
    then have "x \<noteq> Inr (True, w)" for w using funds_never_enough[of solana arb] by simp
    moreover have "create_intent a now i u q db = (case x of Inl e \<Rightarrow> (db, Inl server_error)
        | Inr (enough, why) \<Rightarrow> if \<not> enough then (db, Inl (HttpError 400 (''Insufficient funds: '' @ why)))
            else create_intent a now i u q db)"
      using True Some by (simp add: create_intent_def Let_def solana_def[symmetric] arb_def[symmetric] x_def[symmetric] split: sum.split)
    ultimately show ?thesis by (cases x) (auto split: prod.splits if_splits)
  qed (use True in \<open>simp add: create_intent_def\<close>)
qed (auto simp: create_intent_def)

lemma account_step_caps: "all_caps db \<Longrightarrow> all_caps (account_step op db)"
proof (induction op db rule: account_step.induct)
  case (1 a u body db0 db)
  then show ?case
    using write_strategy_caps by (auto simp: update_strategy_api_def Let_def split: sum.splits)
next
  case (2 io now u db)
  have "all_caps (pause_with UserRequested now u db)"
    using set_enabled_caps[OF 2, of u False] all_caps_cong[of "pause_with UserRequested now u db"]
    by (simp add: pause_with_def)
  with 2 show ?case by (simp add: pause_strategy_def split: sum.splits)
next
  case (3 io u db)
  then show ?case
    using set_enabled_caps[OF 3, of u True] by (auto simp: resume_strategy_def all_caps_def split: sum.splits)
next
  case (4 a now i u q db)
  then show ?case using create_intent_keeps[of a now i u q db] by auto
next
  case (5 io io' i u db0 db)
  have "sv_strategy (fst (cancel_intent io io' i u db0 db)) = sv_strategy db"
    by (auto simp: cancel_intent_def split: sum.splits)
  from all_caps_cong[OF this] 5 show ?case by simp
qed

text \<open>Every column of an updated row.\<close>

lemma apply_update_columns:
  fixes body r n
  defines "q \<equiv> (apply_update body r)\<lparr>sg_version := n\<rparr>"
  shows "sg_version q = n"
    "sg_enabled q = (case up_enabled body of None \<Rightarrow> sg_enabled r | Some b \<Rightarrow> b)"
    "sg_assets q = (if up_assets body = None then sg_assets r else up_assets body)"
    "sg_protocols q = (if up_protocols body = None then sg_protocols r else up_protocols body)"
    "sg_min_carry_apy q = (case up_min_carry_apy body of None \<Rightarrow> sg_min_carry_apy r | Some x \<Rightarrow> Some (real_column x))"
    "sg_min_funding_rate_8hr q = (case up_min_funding_rate_8hr body of None \<Rightarrow> sg_min_funding_rate_8hr r | Some x \<Rightarrow> Some (real_column x))"
    "sg_max_funding_volatility q = (case up_max_funding_volatility body of None \<Rightarrow> sg_max_funding_volatility r | Some x \<Rightarrow> Some (real_column x))"
    "sg_max_position_pct q = (case up_max_position_pct body of None \<Rightarrow> sg_max_position_pct r | Some x \<Rightarrow> Some (real_column x))"
    "sg_max_concurrent_positions q = (if up_max_concurrent_positions body = None then sg_max_concurrent_positions r else up_max_concurrent_positions body)"
    "sg_max_leverage q = (case up_max_leverage body of None \<Rightarrow> sg_max_leverage r | Some x \<Rightarrow> Some (real_column x))"
    "sg_min_exit_carry_apy q = (case up_min_exit_carry_apy body of None \<Rightarrow> sg_min_exit_carry_apy r | Some x \<Rightarrow> Some (real_column x))"
    "sg_take_profit_pct q = (case up_take_profit_pct body of None \<Rightarrow> sg_take_profit_pct r | Some x \<Rightarrow> Some (real_column x))"
    "sg_stop_loss_pct q = (case up_stop_loss_pct body of None \<Rightarrow> sg_stop_loss_pct r | Some x \<Rightarrow> Some (real_column x))"
    "sg_auto_reopen q = (if up_auto_reopen body = None then sg_auto_reopen r else up_auto_reopen body)"
    "sg_cooldown_minutes q = (if up_cooldown_minutes body = None then sg_cooldown_minutes r else up_cooldown_minutes body)"
    "sg_last_close_time q = sg_last_close_time r"
    "sg_cooldown_at_close q = sg_cooldown_at_close r"
  unfolding q_def apply_update_def by (simp_all add: given_def split: option.split)

section \<open>Properties\<close>

text \<open>C20: The caps of the system hold for every stored strategy after any run of the account interface, with
  updates that read any older tables, and roundings of the columns included.\<close>

theorem strategy_caps_kept:
  assumes "all_caps db"
  shows "all_caps (fold account_step ops db)"
  using assms by (induction ops arbitrary: db) (auto intro: account_step_caps)

text \<open>C21: An update under optimistic locking. A version that is not the one of the row at the moment of
  reading is refused. Otherwise, when the row has that version still at the moment of writing, each column
  holds the given value (rounded where the column is REAL) or, when none was given, what it held, the
  version grows by one and no other row changes; when another request came between, nothing is written
  and yet, if the row of that request has all its columns, the answer is a success that shows it.\<close>

theorem strategy_update_locked:
  assumes "valid_update body" "\<not> no_update body" "ua_read a = Inr ()" "ua_write a = Inr ()" "ua_again a = Inr ()"
    and "dict_get u (sv_strategy db) = Some r"
    and "dict_get u (sv_strategy db') = Some r'" "dict_ok (sv_strategy db')" "update_strategy_api a u body db db' = (db2, out)"
  shows "(sg_version r \<noteq> up_version body \<longrightarrow>
      db2 = db' \<and> out = Inl (HttpError 409 ''Config was modified by another request'')) \<and>
    (sg_version r = up_version body \<and> sg_version r' = sg_version r \<longrightarrow>
      (\<exists>q. dict_get u (sv_strategy db2) = Some q \<and> sg_version q = sg_version r + 1 \<and>
        sg_enabled q = (case up_enabled body of None \<Rightarrow> sg_enabled r' | Some b \<Rightarrow> b) \<and>
        sg_assets q = (if up_assets body = None then sg_assets r' else up_assets body) \<and>
        sg_protocols q = (if up_protocols body = None then sg_protocols r' else up_protocols body) \<and>
        sg_min_carry_apy q = (case up_min_carry_apy body of None \<Rightarrow> sg_min_carry_apy r' | Some x \<Rightarrow> Some (real_column x)) \<and>
        sg_min_funding_rate_8hr q = (case up_min_funding_rate_8hr body of
            None \<Rightarrow> sg_min_funding_rate_8hr r' | Some x \<Rightarrow> Some (real_column x)) \<and>
        sg_max_funding_volatility q = (case up_max_funding_volatility body of
            None \<Rightarrow> sg_max_funding_volatility r' | Some x \<Rightarrow> Some (real_column x)) \<and>
        sg_max_position_pct q = (case up_max_position_pct body of
            None \<Rightarrow> sg_max_position_pct r' | Some x \<Rightarrow> Some (real_column x)) \<and>
        sg_max_concurrent_positions q = (if up_max_concurrent_positions body = None
            then sg_max_concurrent_positions r' else up_max_concurrent_positions body) \<and>
        sg_max_leverage q = (case up_max_leverage body of None \<Rightarrow> sg_max_leverage r' | Some x \<Rightarrow> Some (real_column x)) \<and>
        sg_min_exit_carry_apy q = (case up_min_exit_carry_apy body of
            None \<Rightarrow> sg_min_exit_carry_apy r' | Some x \<Rightarrow> Some (real_column x)) \<and>
        sg_take_profit_pct q = (case up_take_profit_pct body of
            None \<Rightarrow> sg_take_profit_pct r' | Some x \<Rightarrow> Some (real_column x)) \<and>
        sg_stop_loss_pct q = (case up_stop_loss_pct body of None \<Rightarrow> sg_stop_loss_pct r' | Some x \<Rightarrow> Some (real_column x)) \<and>
        sg_auto_reopen q = (if up_auto_reopen body = None then sg_auto_reopen r' else up_auto_reopen body) \<and>
        sg_cooldown_minutes q = (if up_cooldown_minutes body = None then sg_cooldown_minutes r' else up_cooldown_minutes body) \<and>
        sg_last_close_time q = sg_last_close_time r' \<and> sg_cooldown_at_close q = sg_cooldown_at_close r') \<and>
      (\<forall>v. v \<noteq> u \<longrightarrow> dict_get v (sv_strategy db2) = dict_get v (sv_strategy db'))) \<and>
    (sg_version r = up_version body \<and> sg_version r' \<noteq> sg_version r \<longrightarrow>
      db2 = db' \<and> (complete_row r' \<longrightarrow> (\<exists>x. out = Inr x \<and> sg_version (re_row x) = sg_version r')))"
proof -
  note written = assms(1-5) assms(9)[unfolded update_strategy_api_def write_strategy_def Let_def]
  have stale: "sg_version r \<noteq> up_version body \<Longrightarrow>
      db2 = db' \<and> out = Inl (HttpError 409 ''Config was modified by another request'')"
    using written assms(6) by simp
  have lost: "db2 = db' \<and> (complete_row r' \<longrightarrow> (\<exists>x. out = Inr x \<and> sg_version (re_row x) = sg_version r'))"
    if "sg_version r = up_version body" "sg_version r' \<noteq> sg_version r"
    using written assms(6,7) that by (auto simp: get_strategy_def Let_def)
  have kept: "dict_get u (sv_strategy db2) = Some ((apply_update body r')\<lparr>sg_version := sg_version r + 1\<rparr>)"
    "\<forall>v. v \<noteq> u \<longrightarrow> dict_get v (sv_strategy db2) = dict_get v (sv_strategy db')"
    if "sg_version r = up_version body" "sg_version r' = sg_version r"
    using written assms(6-8) that by (auto simp: dict.get_put)
  show ?thesis
    using stale lost kept apply_update_columns[where body = body and r = r' and n = "sg_version r + 1"] by blast
qed

text \<open>C19: No intent can be created: with every answer of the chains and in every state of the tables the
  request fails, because the balances of Arbitrum are passed where the balance on the exchange is
  expected; nothing is stored.\<close>

theorem no_intent_created:
  "fst (create_intent a now i u q db) = db \<and> (\<exists>e. snd (create_intent a now i u q db) = Inl e)"
  using create_intent_keeps[of a now i u q db] by auto

text \<open>A cancellation does not look at the status again: an intent that was executed between the read and
  the write is stored as cancelled, with the position it has opened.\<close>

theorem cancel_overwrites_execution:
  assumes "own_intent i u db = Some r" "in_status r = Active" "dict_ok (sv_intents db')"
    and "dict_get i (sv_intents db') = Some (r\<lparr>in_status := Executed, in_position_id := Some p\<rparr>)"
  shows "\<exists>db2. cancel_intent (Inr ()) (Inr ()) i u db db' = (db2, Inr ()) \<and>
    dict_get i (sv_intents db2) = Some (r\<lparr>in_status := Cancelled, in_position_id := Some p\<rparr>) \<and>
    sv_positions db2 = sv_positions db'"
  using assms by (simp add: cancel_intent_def get_intent_def update_intent_def dict.get_put)

text \<open>Resuming takes back every pause, those of the risk limits included: the drawdown, the failures and
  the counters stay as they were, and the strategy is enabled.\<close>

theorem resume_lifts_risk_pause:
  assumes "dict_ok (sv_strategy db)"
  shows "\<exists>db2 r. resume_strategy (Inr ()) u db = (db2, Inr ()) \<and> strategy_pauses (sv_risk db2) u = None \<and>
    risk_tracking (sv_risk db2) = risk_tracking (sv_risk db) \<and> dict_get u (sv_strategy db2) = Some r \<and> sg_enabled r"
  using assms by (simp add: resume_strategy_def set_enabled_def dict.get_put)

section \<open>Instances\<close>

definition wit_tables :: service_db where
  "wit_tables = \<lparr>sv_users = [''u1'' \<mapsto> wit_user], sv_user_paused = Map.empty, sv_positions = [], sv_history = [],
     sv_intents = [(''i1'', \<lparr>in_user_id = ''u1'', in_asset = ''SOL'', in_leverage = 3, in_size_usd = 1000,
       in_min_funding_rate = None, in_max_funding_volatility = None, in_max_entry_price = None, in_status = Active,
       in_position_id = None, in_execution_error = None, in_expires_at = None\<rparr>)],
     sv_strategy = [(''u1'', default_columns)],
     sv_risk = \<lparr>risk_tracking = Map.empty, strategy_pauses =
       [''u1'' \<mapsto> \<lparr>sp_paused_at = 0, sp_paused_reason = DrawdownLimit 25\<rparr>]\<rparr>\<rparr>"

definition wit_update :: strategy_update where
  "wit_update = \<lparr>up_enabled = Some True, up_assets = None, up_protocols = None, up_min_carry_apy = None,
     up_min_funding_rate_8hr = None, up_max_funding_volatility = None, up_max_position_pct = None,
     up_max_concurrent_positions = Some 3, up_max_leverage = Some 4, up_min_exit_carry_apy = None,
     up_take_profit_pct = None, up_stop_loss_pct = None, up_auto_reopen = None, up_cooldown_minutes = None,
     up_version = 1\<rparr>"

definition wit_update_answers :: update_answers where
  "wit_update_answers = \<lparr>ua_read = Inr (), ua_write = Inr (), ua_again = Inr ()\<rparr>"

lemma wit_update_valid: "valid_update wit_update" "\<not> no_update wit_update"
proof -
  have "flt (11/10) \<le> 4" by code_simp
  then show "valid_update wit_update"
    by (simp add: valid_update_def wit_update_def in_bounds_def validate_assets_def cap_defs)
qed (simp add: no_update_def wit_update_def)

lemma wit_tables_row: "dict_get ''u1'' (sv_strategy wit_tables) = Some default_columns" "dict_ok (sv_strategy wit_tables)"
  "sg_version default_columns = up_version wit_update"
  by (simp_all add: wit_tables_def dict_get_def dict_ok_def default_columns_def DEFAULTS_def wit_update_def)

theorem strategy_caps_kept_witness:
  "all_caps (fold account_step [Update_strategy wit_update_answers ''u1'' wit_update wit_tables,
     Pause_strategy (Inr ()) 5 ''u2''] wit_tables)"
proof -
  have "all_caps wit_tables"
    using caps_defaults by (auto simp: all_caps_def wit_tables_def dict_get_def dict_ok_def split: if_splits)
  then show ?thesis by (rule strategy_caps_kept)
qed

theorem strategy_update_locked_witness:
  "\<exists>db2 out r. update_strategy_api wit_update_answers ''u1'' wit_update wit_tables wit_tables = (db2, out) \<and>
     dict_get ''u1'' (sv_strategy db2) = Some r \<and> sg_version r = 2 \<and> sg_max_concurrent_positions r = Some 3 \<and>
     sg_assets r = sg_assets default_columns"
proof -
  obtain db2 out where o: "update_strategy_api wit_update_answers ''u1'' wit_update wit_tables wit_tables = (db2, out)" by force
  have f: "sg_version default_columns = 1" "up_max_concurrent_positions wit_update = Some 3" "up_assets wit_update = None"
    by (simp_all add: default_columns_def DEFAULTS_def wit_update_def)
  have a: "ua_read wit_update_answers = Inr ()" "ua_write wit_update_answers = Inr ()" "ua_again wit_update_answers = Inr ()"
    by (simp_all add: wit_update_answers_def)
  obtain r where "dict_get ''u1'' (sv_strategy db2) = Some r" "sg_version r = 2" "sg_max_concurrent_positions r = Some 3"
     "sg_assets r = sg_assets default_columns"
    using strategy_update_locked[OF wit_update_valid a wit_tables_row(1) wit_tables_row(1,2) o] wit_tables_row(3) f by auto
  with o show ?thesis by blast
qed

theorem cancel_overwrites_execution_witness:
  "\<exists>db2 r. cancel_intent (Inr ()) (Inr ()) ''i1'' ''u1'' wit_tables
      (update_intent ''i1'' (\<lambda>r. r\<lparr>in_status := Executed, in_position_id := Some ''p1''\<rparr>) wit_tables) = (db2, Inr ()) \<and>
     dict_get ''i1'' (sv_intents db2) = Some r \<and> in_status r = Cancelled \<and> in_position_id r = Some ''p1''"
proof -
  obtain r where r: "own_intent ''i1'' ''u1'' wit_tables = Some r" "in_status r = Active"
    by (simp add: own_intent_def wit_tables_def dict_get_def)
  have "dict_ok (sv_intents (update_intent ''i1'' (\<lambda>r. r\<lparr>in_status := Executed, in_position_id := Some ''p1''\<rparr>) wit_tables))"
    "dict_get ''i1'' (sv_intents (update_intent ''i1'' (\<lambda>r. r\<lparr>in_status := Executed, in_position_id := Some ''p1''\<rparr>) wit_tables)) =
       Some (r\<lparr>in_status := Executed, in_position_id := Some ''p1''\<rparr>)"
    using r by (auto simp: own_intent_def wit_tables_def update_intent_def dict_get_def dict_put_def dict_ok_def)
  from cancel_overwrites_execution[OF r this] show ?thesis by auto
qed

theorem resume_lifts_risk_pause_witness:
  "\<exists>db2. resume_strategy (Inr ()) ''u1'' wit_tables = (db2, Inr ()) \<and> strategy_pauses (sv_risk wit_tables) ''u1'' \<noteq> None \<and>
     strategy_pauses (sv_risk db2) ''u1'' = None"
  using resume_lifts_risk_pause[OF wit_tables_row(2), of "''u1''"] by (auto simp: wit_tables_def)

end
