(* ===== verification/PositionJobs.thy ===== *)
theory PositionJobs
  imports InternalApi UserOpening ErrorCatalogue AccountApi
begin

text \<open>
  The positions of the dashboard (\<open>backend/dashboard/api/positions.py\<close>) and its bridge to the bot
  (\<open>backend/dashboard/bot_bridge.py\<close>).

  The desk is the tables with the user's side of the venues, the bot behind the bridge, the bridge with
  its cache, the jobs, the locks in Redis, the tasks that run and the events that were published. A
  request takes one turn, and so does a task, at its end. Ids, clocks and the answers of Redis, of the
  database, of the network and of the venues are arguments. Redis keeps a lock until it expires. Texts
  for people are abbreviated where no code reads them; columns that nothing reads are left out.
\<close>

section \<open>The bridge\<close>

datatype cached = Cached_positions "(string, position_summary) dict" | Cached_detail position_detail

record bridge =
  br_token :: "string option"
  br_cache :: "string \<Rightarrow> cached option"
  br_time :: "string \<Rightarrow> datetime option"

datatype bridge_error = Bot_unavailable string | Bridge_failure exn

definition bridge_exn :: "bridge_error \<Rightarrow> exn" where
  "bridge_exn e = (case e of Bot_unavailable s \<Rightarrow> ExternalError s | Bridge_failure x \<Rightarrow> x)"

text \<open>What the network does with a call: it may be lost before the bot has handled it, or its reply
  after; \<open>wi_slow\<close> is the two seconds that listing positions waits.\<close>

record wire =
  wi_now :: int
  wi_bot_now :: int
  wi_time :: datetime
  wi_file :: "string option"
  wi_send :: "bridge_error + unit"
  wi_reply :: "bridge_error + unit"
  wi_slow :: bool

definition CACHE_TTL :: int where "CACHE_TTL = seconds 5"

definition is_cache_fresh :: "datetime \<Rightarrow> string \<Rightarrow> bridge \<Rightarrow> bool" where
  "is_cache_fresh now k br = (case br_time br k of None \<Rightarrow> False | Some t \<Rightarrow> now - t < CACHE_TTL)"

definition get_cached :: "datetime \<Rightarrow> string \<Rightarrow> bridge \<Rightarrow> cached option" where
  "get_cached now k br = (if is_cache_fresh now k br then br_cache br k else None)"

definition set_cached :: "datetime \<Rightarrow> string \<Rightarrow> cached \<Rightarrow> bridge \<Rightarrow> bridge" where
  "set_cached now k v br = br\<lparr>br_cache := (br_cache br)(k \<mapsto> v), br_time := (br_time br)(k \<mapsto> now)\<rparr>"

definition invalidate_cache :: "string option \<Rightarrow> bridge \<Rightarrow> bridge" where
  "invalidate_cache k br =
     (if truthy k then br\<lparr>br_time := (br_time br)(the k := None)\<rparr> else br\<lparr>br_time := (\<lambda>_. None)\<rparr>)"

definition bridge_request ::
  "jwt_codec \<Rightarrow> wire \<Rightarrow> bridge \<Rightarrow> string option \<Rightarrow> (string \<Rightarrow> bot option \<Rightarrow> bot option \<times> (http_error + 'a)) \<Rightarrow>
     bot option \<Rightarrow> bot option \<times> (bridge_error + 'a)" where
  "bridge_request j w br user f b =
     (case wi_send w of
        Inl e \<Rightarrow> (b, Inl e)
      | Inr _ \<Rightarrow>
          (case f (bearer j (wi_now w) user (br_token br)) b of
             (b1, r) \<Rightarrow>
               (b1, case wi_reply w of
                      Inl e \<Rightarrow> Inl e
                    | Inr _ \<Rightarrow> (case r of Inl _ \<Rightarrow> Inl (Bridge_failure (ExternalError ''HTTP status error'')) | Inr x \<Rightarrow> Inr x))))"

definition positions_key :: "string option \<Rightarrow> string" where
  "positions_key user = ''positions_'' @ (if truthy user then the user else ''all'')"

definition stale_positions :: "string \<Rightarrow> bridge_error \<Rightarrow> bridge \<Rightarrow> bridge \<times> (bridge_error + (string, position_summary) dict)" where
  "stale_positions k e br = (br, case br_cache br k of Some (Cached_positions ps) \<Rightarrow> Inr ps | _ \<Rightarrow> Inl e)"

definition bridge_get_positions ::
  "jwt_codec \<Rightarrow> wire \<Rightarrow> string option \<Rightarrow> bot option \<Rightarrow> bridge \<Rightarrow>
     bridge \<times> (bridge_error + (string, position_summary) dict)" where
  "bridge_get_positions j w user b br =
     (let k = positions_key user
      in case get_cached (wi_time w) k br of
           Some (Cached_positions ps) \<Rightarrow> (br, Inr ps)
         | _ \<Rightarrow>
             if wi_slow w then stale_positions k (Bot_unavailable ''No cached positions available'') br
             else
               (case snd (bridge_request j w br user
                       (\<lambda>t b. (b, get_positions_internal j (wi_bot_now w) (wi_file w) t (wi_time w) b)) b) of
                  Inl (Bot_unavailable m) \<Rightarrow> stale_positions k (Bot_unavailable m) br
                | Inl e \<Rightarrow> (br, Inl e)
                | Inr ps \<Rightarrow> (set_cached (wi_time w) k (Cached_positions ps) br, Inr ps)))"

definition bridge_get_detail ::
  "jwt_codec \<Rightarrow> wire \<Rightarrow> string \<Rightarrow> bot option \<Rightarrow> bridge \<Rightarrow> bridge \<times> (bridge_error + position_detail)" where
  "bridge_get_detail j w i b br =
     (let k = ''position_detail_'' @ i
      in case get_cached (wi_time w) k br of
           Some (Cached_detail x) \<Rightarrow> (br, Inr x)
         | _ \<Rightarrow>
             (case snd (bridge_request j w br None
                     (\<lambda>t b. (b, get_position_detail_internal j (wi_bot_now w) (wi_file w) t (wi_time w) i b)) b) of
                Inl e \<Rightarrow> (br, Inl e)
              | Inr x \<Rightarrow> (set_cached (wi_time w) k (Cached_detail x) br, Inr x)))"

definition bridge_open_position ::
  "jwt_codec \<Rightarrow> bot_env \<Rightarrow> wire \<Rightarrow> internal_open_answers \<Rightarrow> open_request \<Rightarrow> string option \<Rightarrow> bot option \<Rightarrow> bridge \<Rightarrow>
     bot option \<times> bridge \<times> (bridge_error + api_result)" where
  "bridge_open_position j env w a q user b br =
     (case bridge_request j w br user
             (\<lambda>t. authorised j (wi_bot_now w) (wi_file w) t (answering (open_position_internal env a q))) b of
        (b1, Inl e) \<Rightarrow> (b1, br, Inl e)
      | (b1, Inr r) \<Rightarrow> (b1, if ar_success r then invalidate_cache (Some ''positions'') br else br, Inr r))"

definition bridge_close_position ::
  "jwt_codec \<Rightarrow> bot_env \<Rightarrow> wire \<Rightarrow> close_answers \<Rightarrow> string \<Rightarrow> string \<Rightarrow> bot option \<Rightarrow> bridge \<Rightarrow>
     bot option \<times> bridge \<times> (bridge_error + api_result)" where
  "bridge_close_position j env w a i reason b br =
     (case bridge_request j w br None
             (\<lambda>t. authorised j (wi_bot_now w) (wi_file w) t (answering (close_position_internal env a i reason))) b of
        (b1, Inl e) \<Rightarrow> (b1, br, Inl e)
      | (b1, Inr r) \<Rightarrow> (b1, if ar_success r then invalidate_cache (Some ''positions'') br else br, Inr r))"

definition bridge_pause ::
  "jwt_codec \<Rightarrow> wire \<Rightarrow> string \<Rightarrow> string \<Rightarrow> string \<Rightarrow> bot option \<Rightarrow> bridge \<Rightarrow> bot option \<times> bridge \<times> (bridge_error + bool)" where
  "bridge_pause j w key reason scope b br =
     (case bridge_request j w br None
             (\<lambda>t. authorised j (wi_bot_now w) (wi_file w) t (pause_internal (wi_time w) (Some key) (Some reason) (Some scope))) b of
        (b1, Inl e) \<Rightarrow> (b1, br, Inl e)
      | (b1, Inr r) \<Rightarrow> (b1, if r then invalidate_cache (Some ''pause_state'') br else br, Inr r))"

definition bridge_resume ::
  "jwt_codec \<Rightarrow> wire \<Rightarrow> string \<Rightarrow> bot option \<Rightarrow> bridge \<Rightarrow> bot option \<times> bridge \<times> (bridge_error + bool)" where
  "bridge_resume j w key b br =
     (case bridge_request j w br None
             (\<lambda>t. authorised j (wi_bot_now w) (wi_file w) t (resume_internal (wi_time w) (Some key))) b of
        (b1, Inl e) \<Rightarrow> (b1, br, Inl e)
      | (b1, Inr r) \<Rightarrow> (b1, if r then invalidate_cache (Some ''pause_state'') br else br, Inr r))"

section \<open>The desk\<close>

datatype job_params = Open_params open_request | Close_params string bool

record job_row =
  jb_user :: string
  jb_status :: job_status
  jb_params :: job_params
  jb_position_id :: "string option"
  jb_error :: "string option"
  jb_error_code :: "string option"
  jb_error_stage :: "string option"
  jb_created_at :: datetime

datatype desk_task = Open_task string open_request | Close_task string string

datatype desk_event = Position_opened string "string option" | Position_closed string string

record desk =
  dk_user :: scanner_state
  dk_bot :: "bot option"
  dk_bridge :: "bridge option"
  dk_jobs :: "(string, job_row) dict"
  dk_locks :: "string \<rightharpoonup> string \<times> datetime"
  dk_tasks :: "(string, desk_task) dict"
  dk_events :: "desk_event list"

record desk_env =
  dv_bot :: bot_env
  dv_jwt :: jwt_codec
  dv_api :: asgard_api
  dv_settings :: settings
  dv_signer :: "string option \<Rightarrow> exn + unit"
  dv_limits :: limits

definition new_job :: "string \<Rightarrow> job_params \<Rightarrow> datetime \<Rightarrow> job_row" where
  "new_job u p now = \<lparr>jb_user = u, jb_status = Job_pending, jb_params = p, jb_position_id = None, jb_error = None,
     jb_error_code = None, jb_error_stage = None, jb_created_at = now\<rparr>"

definition insert_job :: "string \<Rightarrow> job_row \<Rightarrow> exn + unit \<Rightarrow> desk \<Rightarrow> exn + desk" where
  "insert_job j r io d =
     (case io of
        Inl e \<Rightarrow> Inl e
      | Inr _ \<Rightarrow> if dict_get j (dk_jobs d) = None then Inr (d\<lparr>dk_jobs := dict_put j r (dk_jobs d)\<rparr>)
               else Inl (ExternalError ''duplicate key''))"

definition update_job :: "string \<Rightarrow> (job_row \<Rightarrow> job_row) \<Rightarrow> desk \<Rightarrow> desk" where
  "update_job j f d =
     (case dict_get j (dk_jobs d) of None \<Rightarrow> d | Some r \<Rightarrow> d\<lparr>dk_jobs := dict_put j (f r) (dk_jobs d)\<rparr>)"

definition add_task :: "string \<Rightarrow> desk_task \<Rightarrow> desk \<Rightarrow> desk" where
  "add_task j t d = d\<lparr>dk_tasks := dict_put j t (dk_tasks d)\<rparr>"

definition on_user :: "(scanner_state, 'a) action \<Rightarrow> (desk, 'a) action" where
  "on_user m d = (case m (dk_user d) of (s, r) \<Rightarrow> (d\<lparr>dk_user := s\<rparr>, r))"

text \<open>A statement of a job: it runs or raises.\<close>

definition job_io :: "exn + unit \<Rightarrow> (desk \<Rightarrow> desk) \<Rightarrow> (desk, unit) action" where
  "job_io io f d = (case io of Inl e \<Rightarrow> (d, Inl e) | Inr _ \<Rightarrow> (f d, Inr ()))"

definition failed_with :: "string \<Rightarrow> string \<Rightarrow> job_row \<Rightarrow> job_row" where
  "failed_with msg code r = r\<lparr>jb_status := Job_failed, jb_error := Some msg, jb_error_code := Some code\<rparr>"

section \<open>Reading positions\<close>

text \<open>\<open>Decimal(str(v))\<close> of a value of the stored document.\<close>

definition to_decimal :: "jsv \<Rightarrow> exn + decimal" where
  "to_decimal v = (case v of NumV x \<Rightarrow> Inr (float_str x) | _ \<Rightarrow> Inl InvalidOperation)"

definition row_to_position_summary :: "datetime \<Rightarrow> datetime \<Rightarrow> string \<Rightarrow> jdata \<Rightarrow> exn + position_summary" where
  "row_to_position_summary now created i d =
     (case field d ''asset'' (TextV ''SOL'') of
        TextV asset \<Rightarrow>
          res_bind (to_decimal (field d ''leverage'' (NumV 3))) (\<lambda>lev.
          res_bind (to_decimal (field d ''size_usd'' (NumV 0))) (\<lambda>sz.
          Inr \<lparr>su_position_id = i, su_asset = asset, su_status = ''open'', su_leverage = lev, su_deployed_usd = sz,
            su_long_value_usd = 0, su_short_value_usd = 0, su_delta = 0, su_delta_ratio = 0, su_asgard_hf = 0,
            su_hyperliquid_mf = 0, su_total_pnl_usd = 0, su_funding_pnl_usd = 0, su_opened_at = created,
            su_hold_duration_hours = flt (of_int (round_half_even (flt (total_seconds (now - created) / 3600) * 100)) / 100)\<rparr>))
      | _ \<Rightarrow> Inl (ValueError ''Input should be a valid string''))"

fun collect_rows :: "('a \<Rightarrow> exn + 'b) \<Rightarrow> 'a list \<Rightarrow> exn + 'b list" where
  "collect_rows f [] = Inr []"
| "collect_rows f (x # xs) = res_bind (f x) (\<lambda>y. res_bind (collect_rows f xs) (\<lambda>ys. Inr (y # ys)))"

definition user_open_rows :: "string \<Rightarrow> service_db \<Rightarrow> (string \<times> position_entry) list" where
  "user_open_rows u db = filter (\<lambda>(i, p). pe_user_id p = u \<and> \<not> pe_is_closed p) (sv_positions db)"

definition list_positions_from_db ::
  "exn + unit \<Rightarrow> datetime \<Rightarrow> (string \<Rightarrow> datetime) \<Rightarrow> string \<Rightarrow> service_db \<Rightarrow> exn + position_summary list" where
  "list_positions_from_db io now created u db =
     res_bind io (\<lambda>_. collect_rows (\<lambda>(i, p). row_to_position_summary now (created i) i (pe_data p)) (user_open_rows u db))"

definition list_positions ::
  "desk_env \<Rightarrow> wire \<Rightarrow> exn + unit \<Rightarrow> (string \<Rightarrow> datetime) \<Rightarrow> string \<Rightarrow> desk \<Rightarrow> desk \<times> (http_error + position_summary list)" where
  "list_positions v w io created u d =
     (let fallback = (case list_positions_from_db io (wi_time w) created u (ns_db (dk_user d)) of
                        Inl e \<Rightarrow> Inl server_error | Inr ps \<Rightarrow> Inr ps)
      in case dk_bridge d of
           None \<Rightarrow> (d, fallback)
         | Some br \<Rightarrow>
             (case bridge_get_positions (dv_jwt v) w (Some u) (dk_bot d) br of
                (br1, Inl e) \<Rightarrow> (d\<lparr>dk_bridge := Some br1\<rparr>, fallback)
              | (br1, Inr ps) \<Rightarrow> (d\<lparr>dk_bridge := Some br1\<rparr>, Inr (map snd ps))))"

text \<open>The fall back to the row takes closed positions too; its detail has no figures.\<close>

definition read_position ::
  "desk_env \<Rightarrow> wire \<Rightarrow> wire \<Rightarrow> exn + unit \<Rightarrow> (string \<Rightarrow> datetime) \<Rightarrow> string \<Rightarrow> string \<Rightarrow> desk \<Rightarrow>
     desk \<times> (http_error + position_summary \<times> position_detail option)" where
  "read_position v w w' io created i u d =
     (let fallback =
            (case io of
               Inl e \<Rightarrow> Inl server_error
             | Inr _ \<Rightarrow>
                 (case dict_get i (sv_positions (ns_db (dk_user d))) of
                    None \<Rightarrow> Inl (HttpError 404 ''Position not found'')
                  | Some p \<Rightarrow>
                      if pe_user_id p \<noteq> u then Inl (HttpError 404 ''Position not found'')
                      else (case row_to_position_summary (wi_time w) (created i) i (pe_data p) of
                              Inl e \<Rightarrow> Inl server_error | Inr s \<Rightarrow> Inr (s, None))))
      in case dk_bridge d of
           None \<Rightarrow> (d, fallback)
         | Some br \<Rightarrow>
             (case bridge_get_positions (dv_jwt v) w (Some u) (dk_bot d) br of
                (br1, Inl e) \<Rightarrow> (d\<lparr>dk_bridge := Some br1\<rparr>, fallback)
              | (br1, Inr ps) \<Rightarrow>
                  (case dict_get i ps of
                     None \<Rightarrow> (d\<lparr>dk_bridge := Some br1\<rparr>, Inl (HttpError 404 ''Position not found''))
                   | Some s \<Rightarrow>
                       (case bridge_get_detail (dv_jwt v) w' i (dk_bot d) br1 of
                          (br2, Inl e) \<Rightarrow> (d\<lparr>dk_bridge := Some br2\<rparr>, fallback)
                        | (br2, Inr x) \<Rightarrow> (d\<lparr>dk_bridge := Some br2\<rparr>, Inr (s, Some x))))))"

section \<open>Opening\<close>

definition valid_open_request :: "open_request \<Rightarrow> bool" where
  "valid_open_request q \<longleftrightarrow> flt (11/10) \<le> oq_leverage q \<and> oq_leverage q \<le> 4 \<and> 100 \<le> oq_size_usd q"

definition venue_protocol :: "string option \<Rightarrow> protocol" where
  "venue_protocol s =
     (case map_of [(''marginfi'', MARGINFI), (''kamino'', KAMINO), (''solend'', SOLEND), (''drift'', DRIFT)]
        (map lower (case s of None \<Rightarrow> [] | Some x \<Rightarrow> x)) of
        None \<Rightarrow> KAMINO | Some p \<Rightarrow> p)"

definition build_opportunity :: "datetime \<Rightarrow> string \<Rightarrow> open_request \<Rightarrow> exn + opportunity" where
  "build_opportunity now j q =
     res_bind (asset_of_value (map upper (oq_asset q))) (\<lambda>as.
     let p = venue_protocol (oq_venue q); capital = float_str (oq_size_usd q); lev = float_str (oq_leverage q);
         sz = dec (capital * lev);
         fund = \<lparr>fr_timestamp = now, fr_coin = asset_value as, rate_8hr = -1/10000\<rparr>
     in make_opportunity
       \<lparr>opp_id = ''direct-'' @ j, opp_timestamp = now, opp_asset = as, selected_protocol = p,
        opp_rates = \<lparr>ar_protocol_id = protocol_value p, token_a_mint = [], token_b_mint = USDC_MINT,
          token_a_lending_apy = 5/100, token_b_borrowing_apy = 8/100, token_b_max_borrow_capacity = dec (sz * 2)\<rparr>,
        hyperliquid_coin = ''SOL'', current_funding = fund, predicted_funding = None, funding_volatility = 3/10,
        opp_leverage = lev, deployed_capital_usd = capital, opp_position_size_usd = sz,
        score = \<lparr>funding_apy = dabs (rate_annual fund), net_carry_apy = 0, lst_staking_apy = 0,
          estimated_gas_cost_apy = 0, estimated_slippage_apy = 0\<rparr>,
        opp_price_deviation = 0, preflight_checks_passed = False, expires_at = None\<rparr>)"

record direct_answers =
  dc_user :: "exn + unit"
  dc_now :: datetime
  dc_preflight :: preflight_answers
  dc_intent :: string
  dc_open :: open_position_answers
  dc_insert :: "exn + unit"

fun joined :: "string list \<Rightarrow> string" where
  "joined [] = []"
| "joined [x] = x"
| "joined (x # xs) = x @ ''; '' @ joined xs"

text \<open>\<open>CombinedPosition\<close> has no \<open>to_dict\<close>: the document stored is its text, in which no reader finds a
  field; here it is the document without fields.\<close>

definition execute_position_direct ::
  "desk_env \<Rightarrow> direct_answers \<Rightarrow> string \<Rightarrow> open_request \<Rightarrow> string \<Rightarrow> (scanner_state, api_result) action" where
  "execute_position_direct v a j q u s =
     (case res_bind (dc_user a) (\<lambda>_. from_user_id (Inr (sv_users (ns_db s) u)) u) of
        Inl e \<Rightarrow> (s, Inl e)
      | Inr c \<Rightarrow>
     (case from_user_context (dv_settings v) (dv_signer v) (ns_asgard s) c of
        Inl e \<Rightarrow> (s, Inl e)
      | Inr (am, pm) \<Rightarrow>
     (case build_opportunity (dc_now a) j q of
        Inl e \<Rightarrow> (s, Inl e)
      | Inr opp \<Rightarrow>
     (case run_preflight_checks (lm_consensus (dv_limits v)) (dc_preflight a) (pm_trader pm) opp of
        (opp1, checks) \<Rightarrow>
          if \<not> pf_passed checks
          then (s, Inr (api_failure (Some (''Preflight checks failed: '' @ joined (pf_errors checks))) (Some ''preflight'')))
          else
            (case open_position (dv_api v) am (dc_intent a) (dv_limits v) (dc_open a) opp1 pm of
               (pm1, r) \<Rightarrow>
                 let s1 = s\<lparr>ns_asgard := pm_asgard pm1, ns_legs := ns_legs s @ map (Pair u) (leg_calls pm1)\<rparr>
                 in case r of
                      Inl e \<Rightarrow> (s1, Inl e)
                    | Inr res \<Rightarrow>
                        (case (mr_success res, mr_position res) of
                           (True, Some p) \<Rightarrow>
                             andthen (on_tables (run_tx (dc_insert a) (insert_position (position_id p) u [])))
                               (\<lambda>_. ret \<lparr>ar_success = True, ar_position_id = Some (position_id p), ar_protocol = oq_venue q,
                                      ar_error = None, ar_stage = None\<rparr>) s1
                         | _ \<Rightarrow> (s1, Inr (api_failure (or_text (mr_error res) (Some ''Unknown error''))
                                                  (or_text (mr_stage res) (Some ''execution''))))))))))"

section \<open>The job of an opening\<close>

record open_job_answers =
  jo_running :: "exn + unit"
  jo_direct :: direct_answers
  jo_wire :: wire
  jo_bot :: internal_open_answers
  jo_done :: "exn + unit"
  jo_publish :: "exn + unit"
  jo_crash :: "exn + unit"
  jo_redis :: "exn + unit"

text \<open>Without a bridge the job names its code; \<open>None\<close> is the early return.\<close>

definition no_bridge :: "exn + unit \<Rightarrow> string \<Rightarrow> (desk, api_result option) action" where
  "no_bridge io j =
     andthen (lift_result (res_bind (ErrorCode (TextValue ''GEN-0002'')) get_error_info)) (\<lambda>info.
     andthen (job_io io (update_job j (failed_with (fst (snd info)) ''GEN-0002''))) (\<lambda>_. ret None))"

definition open_by_bridge :: "desk_env \<Rightarrow> open_job_answers \<Rightarrow> string \<Rightarrow> open_request \<Rightarrow> string \<Rightarrow> (desk, api_result option) action" where
  "open_by_bridge v a j q u d =
     (case dk_bridge d of
        None \<Rightarrow> no_bridge (jo_done a) j d
      | Some br \<Rightarrow>
          (case bridge_open_position (dv_jwt v) (dv_bot v) (jo_wire a) (jo_bot a) q (Some u) (dk_bot d) br of
             (b1, br1, r) \<Rightarrow>
               (d\<lparr>dk_bot := b1, dk_bridge := Some br1\<rparr>,
                case r of Inl e \<Rightarrow> Inl (bridge_exn e) | Inr x \<Rightarrow> Inr (Some x))))"

definition attempt_open :: "desk_env \<Rightarrow> open_job_answers \<Rightarrow> string \<Rightarrow> open_request \<Rightarrow> string \<Rightarrow> (desk, api_result option) action" where
  "attempt_open v a j q u d =
     (case on_user (execute_position_direct v (jo_direct a) j q u) d of
        (d1, Inl (ValueError m)) \<Rightarrow> open_by_bridge v a j q u d1
      | (d1, Inl e) \<Rightarrow> (d1, Inl e)
      | (d1, Inr r) \<Rightarrow> (d1, Inr (Some r)))"

definition finish_open :: "open_job_answers \<Rightarrow> string \<Rightarrow> string \<Rightarrow> api_result \<Rightarrow> (desk, unit) action" where
  "finish_open a j u r =
     (if ar_success r
      then andthen (job_io (jo_done a) (update_job j (\<lambda>x. x\<lparr>jb_status := Job_completed, jb_position_id := ar_position_id r\<rparr>)))
             (\<lambda>_. job_io (jo_publish a) (\<lambda>d. d\<lparr>dk_events := dk_events d @ [Position_opened u (ar_position_id r)]\<rparr>))
      else (case ar_error r of
              None \<Rightarrow> raising (AttributeError ''lower'')
            | Some msg \<Rightarrow> job_io (jo_done a)
                (update_job j (\<lambda>x. (failed_with msg (map_error_to_code msg (ar_stage r)) x)\<lparr>jb_error_stage := ar_stage r\<rparr>))))"

definition set_running :: "exn + unit \<Rightarrow> string \<Rightarrow> (desk, unit) action" where
  "set_running io j = job_io io (update_job j (\<lambda>r. r\<lparr>jb_status := Job_running\<rparr>))"

text \<open>What the handler of an exception stores, as far as the tables work.\<close>

definition crashed :: "exn + unit \<Rightarrow> (string \<Rightarrow> string) \<Rightarrow> string \<Rightarrow> (desk, unit) action \<Rightarrow> desk \<Rightarrow> desk" where
  "crashed io code j m d =
     (case m d of
        (d1, Inr _) \<Rightarrow> d1
      | (d1, Inl e) \<Rightarrow>
          (case io of Inl _ \<Rightarrow> d1 | Inr _ \<Rightarrow> update_job j (failed_with (exn_text e) (code (exn_text e))) d1))"

definition execute_position_job :: "desk_env \<Rightarrow> open_job_answers \<Rightarrow> string \<Rightarrow> open_request \<Rightarrow> string \<Rightarrow> desk \<Rightarrow> desk" where
  "execute_position_job v a j q u d =
     (let d1 = crashed (jo_crash a) (\<lambda>m. map_error_to_code m (Some ''unknown'')) j
           (andthen (set_running (jo_running a) j) (\<lambda>_.
            andthen (attempt_open v a j q u) (\<lambda>r. case r of None \<Rightarrow> ret () | Some x \<Rightarrow> finish_open a j u x))) d
      in case jo_redis a of Inl _ \<Rightarrow> d1 | Inr _ \<Rightarrow> d1\<lparr>dk_locks := (dk_locks d1)(u := None)\<rparr>)"

section \<open>The job of a closing\<close>

record close_job_answers =
  jc_running :: "exn + unit"
  jc_wire :: wire
  jc_close :: close_answers
  jc_done :: "exn + unit"
  jc_publish :: "exn + unit"
  jc_crash :: "exn + unit"

definition attempt_close :: "desk_env \<Rightarrow> close_job_answers \<Rightarrow> string \<Rightarrow> string \<Rightarrow> (desk, api_result option) action" where
  "attempt_close v a j i d =
     (case dk_bridge d of
        None \<Rightarrow> no_bridge (jc_done a) j d
      | Some br \<Rightarrow>
          (case bridge_close_position (dv_jwt v) (dv_bot v) (jc_wire a) (jc_close a) i ''manual'' (dk_bot d) br of
             (b1, br1, r) \<Rightarrow>
               (d\<lparr>dk_bot := b1, dk_bridge := Some br1\<rparr>,
                case r of Inl e \<Rightarrow> Inl (bridge_exn e) | Inr x \<Rightarrow> Inr (Some x))))"

definition finish_close :: "close_job_answers \<Rightarrow> string \<Rightarrow> string \<Rightarrow> string \<Rightarrow> api_result \<Rightarrow> (desk, unit) action" where
  "finish_close a j i u r =
     (if ar_success r
      then andthen (job_io (jc_done a) (update_job j (\<lambda>x. x\<lparr>jb_status := Job_completed\<rparr>)))
             (\<lambda>_. job_io (jc_publish a) (\<lambda>d. d\<lparr>dk_events := dk_events d @ [Position_closed u i]\<rparr>))
      else (case ar_error r of
              None \<Rightarrow> raising (AttributeError ''lower'')
            | Some msg \<Rightarrow> job_io (jc_done a) (update_job j (failed_with msg (map_close_error_to_code msg)))))"

definition execute_close_job :: "desk_env \<Rightarrow> close_job_answers \<Rightarrow> string \<Rightarrow> string \<Rightarrow> string \<Rightarrow> desk \<Rightarrow> desk" where
  "execute_close_job v a j i u d =
     crashed (jc_crash a) map_close_error_to_code j
       (andthen (set_running (jc_running a) j) (\<lambda>_.
        andthen (attempt_close v a j i) (\<lambda>r. case r of None \<Rightarrow> ret () | Some x \<Rightarrow> finish_close a j i u x))) d"

section \<open>Requests\<close>

record desk_request =
  dr_redis :: "exn + unit"
  dr_insert :: "exn + unit"

definition POSITION_LOCK_TTL :: int where "POSITION_LOCK_TTL = seconds 30"

definition position_lock_free :: "datetime \<Rightarrow> string \<Rightarrow> desk \<Rightarrow> bool" where
  "position_lock_free now u d = (case dk_locks d u of None \<Rightarrow> True | Some (_, expires) \<Rightarrow> expires \<le> now)"

definition request_open :: "desk_request \<Rightarrow> datetime \<Rightarrow> string \<Rightarrow> string \<Rightarrow> open_request \<Rightarrow> desk \<Rightarrow> desk \<times> (http_error + string)" where
  "request_open a now j u q d =
     (if \<not> valid_open_request q then (d, Inl (HttpError 422 ''validation''))
      else case dr_redis a of
        Inl e \<Rightarrow> (d, Inl (HttpError 500 ''Failed to create position''))
      | Inr _ \<Rightarrow>
          if \<not> position_lock_free now u d then (d, Inl (HttpError 409 ''A position operation is already in progress''))
          else
            let d1 = d\<lparr>dk_locks := (dk_locks d)(u \<mapsto> (j, now + POSITION_LOCK_TTL))\<rparr>
            in case insert_job j (new_job u (Open_params q) now) (dr_insert a) d1 of
                 Inl e \<Rightarrow> (d1, Inl (HttpError 500 ''Failed to create position''))
               | Inr d2 \<Rightarrow> (add_task j (Open_task u q) d2, Inr j))"

text \<open>The handler of all exceptions takes the answers 404 and 503 too.\<close>

definition request_close ::
  "desk_env \<Rightarrow> wire \<Rightarrow> exn + unit \<Rightarrow> datetime \<Rightarrow> string \<Rightarrow> string \<Rightarrow> string \<Rightarrow> desk \<Rightarrow> desk \<times> (http_error + string)" where
  "request_close v w io now j i u d =
     (let failed = HttpError 500 ''Failed to create close job''
      in case dk_bridge d of
           None \<Rightarrow> (d, Inl failed)
         | Some br \<Rightarrow>
             (case bridge_get_positions (dv_jwt v) w (Some u) (dk_bot d) br of
                (br1, Inl e) \<Rightarrow> (d\<lparr>dk_bridge := Some br1\<rparr>, Inl failed)
              | (br1, Inr ps) \<Rightarrow>
                  let d1 = d\<lparr>dk_bridge := Some br1\<rparr>
                  in if dict_get i ps = None then (d1, Inl failed)
                     else case insert_job j (new_job u (Close_params i False) now) io d1 of
                            Inl e \<Rightarrow> (d1, Inl failed)
                          | Inr d2 \<Rightarrow> (add_task j (Close_task u i) d2, Inr j)))"

record close_all_answers =
  cl_pause :: "exn + unit"
  cl_read :: "exn + unit"
  cl_id :: "nat \<Rightarrow> string"
  cl_insert :: "nat \<Rightarrow> exn + unit"

fun create_close_jobs ::
  "close_all_answers \<Rightarrow> datetime \<Rightarrow> string \<Rightarrow> nat \<Rightarrow> string list \<Rightarrow> desk \<Rightarrow> desk \<times> (exn + string list)" where
  "create_close_jobs a now u k [] d = (d, Inr [])"
| "create_close_jobs a now u k (i # is) d =
     (case insert_job (cl_id a k) (new_job u (Close_params i True) now) (cl_insert a k) d of
        Inl e \<Rightarrow> (d, Inl e)
      | Inr d1 \<Rightarrow>
          (case create_close_jobs a now u (Suc k) is (add_task (cl_id a k) (Close_task u i) d1) of
             (d2, Inl e) \<Rightarrow> (d2, Inl e)
           | (d2, Inr js) \<Rightarrow> (d2, Inr (cl_id a k # js))))"

definition with_tables :: "(service_db \<Rightarrow> service_db) \<Rightarrow> desk \<Rightarrow> desk" where
  "with_tables f d = d\<lparr>dk_user := (dk_user d)\<lparr>ns_db := f (ns_db (dk_user d))\<rparr>\<rparr>"

definition close_all_positions ::
  "close_all_answers \<Rightarrow> datetime \<Rightarrow> string \<Rightarrow> desk \<Rightarrow> desk \<times> (http_error + nat \<times> string list)" where
  "close_all_positions a now u d =
     (case cl_pause a of
        Inl e \<Rightarrow> (d, Inl server_error)
      | Inr _ \<Rightarrow>
          let d1 = with_tables (pause_with EmergencyCloseAll now u) d
          in case cl_read a of
               Inl e \<Rightarrow> (d1, Inl server_error)
             | Inr _ \<Rightarrow>
                 let rows = map fst (user_open_rows u (ns_db (dk_user d1)))
                 in if rows = [] then (d1, Inr (0, []))
                    else (case create_close_jobs a now u 0 rows d1 of
                            (d2, Inl e) \<Rightarrow> (d2, Inl server_error)
                          | (d2, Inr js) \<Rightarrow> (d2, Inr (length rows, js))))"

definition get_job_status :: "exn + unit \<Rightarrow> string \<Rightarrow> string \<Rightarrow> desk \<Rightarrow> http_error + job_row" where
  "get_job_status io j u d =
     (case io of
        Inl e \<Rightarrow> Inl server_error
      | Inr _ \<Rightarrow>
          (case dict_get j (dk_jobs d) of
             None \<Rightarrow> Inl (HttpError 404 ''Job not found'')
           | Some r \<Rightarrow> if jb_user r \<noteq> [] \<and> jb_user r \<noteq> u then Inl (HttpError 404 ''Job not found'') else Inr r))"

definition list_jobs :: "exn + unit \<Rightarrow> nat \<Rightarrow> string \<Rightarrow> desk \<Rightarrow> http_error + (string \<times> job_row) list" where
  "list_jobs io limit u d =
     (case io of
        Inl e \<Rightarrow> Inl server_error
      | Inr _ \<Rightarrow> Inr (take limit (sort_key (\<lambda>(j, r). - jb_created_at r) (filter (\<lambda>(j, r). jb_user r = u) (dk_jobs d)))))"

section \<open>The report of the checks\<close>

definition CHECK_LABELS :: "(string \<times> string) list" where
  "CHECK_LABELS = [(''wallet_balance'', ''Wallet balances''), (''price_consensus'', ''Price consensus''),
     (''funding_validation'', ''Funding rates''), (''protocol_capacity'', ''Protocol capacity''),
     (''fee_market'', ''Fee market''), (''opportunity_simulation'', ''Position simulation'')]"

record check_report =
  cr_key :: string
  cr_label :: string
  cr_passed :: bool
  cr_error :: "string option"

fun report_checks :: "(string \<times> string) list \<Rightarrow> (string \<times> bool) list \<Rightarrow> string list \<Rightarrow> check_report list" where
  "report_checks [] checks errs = []"
| "report_checks ((k, l) # ks) checks errs =
     (if map_of checks k = Some True
      then \<lparr>cr_key = k, cr_label = l, cr_passed = True, cr_error = None\<rparr> # report_checks ks checks errs
      else \<lparr>cr_key = k, cr_label = l, cr_passed = False, cr_error = (case errs of [] \<Rightarrow> None | e # _ \<Rightarrow> Some e)\<rparr>
        # report_checks ks checks (tl errs))"

definition run_preflight ::
  "desk_env \<Rightarrow> direct_answers \<Rightarrow> string \<Rightarrow> open_request \<Rightarrow> string \<Rightarrow> desk \<Rightarrow> http_error + bool \<times> check_report list" where
  "run_preflight v a j q u d =
     (if \<not> valid_open_request q then Inl (HttpError 422 ''validation'')
      else case res_bind (dc_user a) (\<lambda>_. from_user_id (Inr (sv_users (ns_db (dk_user d)) u)) u) of
        Inl (ValueError m) \<Rightarrow> Inl (HttpError 400 m)
      | Inl e \<Rightarrow> Inl server_error
      | Inr c \<Rightarrow>
          (case res_bind (from_user_context (dv_settings v) (dv_signer v) (ns_asgard (dk_user d)) c) (\<lambda>(am, pm).
                res_bind (build_opportunity (dc_now a) (''preflight-'' @ j) q) (\<lambda>opp.
                Inr (snd (run_preflight_checks (lm_consensus (dv_limits v)) (dc_preflight a) (pm_trader pm) opp)))) of
             Inl e \<Rightarrow> Inl (HttpError 500 ''Preflight checks failed unexpectedly'')
           | Inr r \<Rightarrow> Inr (pf_passed r, report_checks CHECK_LABELS (pf_checks r) (pf_errors r))))"

section \<open>The desk at work\<close>

text \<open>Requests, jobs and turns of the bot; the services that the process runs beside them on the same
  tables are added in \<open>Dashboard\<close>.\<close>

inductive desk_step :: "desk_env \<Rightarrow> desk \<Rightarrow> desk \<Rightarrow> bool" for v where
  ask_open: "desk_step v d (fst (request_open a now j u q d))"
| ask_close: "desk_step v d (fst (request_close v w io now j i u d))"
| ask_close_all: "desk_step v d (fst (close_all_positions a now u d))"
| look: "desk_step v d (fst (list_positions v w io created u d))"
| look_at: "desk_step v d (fst (read_position v w w' io created i u d))"
| open_turn: "dict_get j (dk_tasks d) = Some (Open_task u q) \<Longrightarrow>
    intent_state (ns_asgard (dk_user d)) (dc_intent (jo_direct a)) = IDLE \<Longrightarrow>
    (\<And>b. dk_bot d = Some b \<Longrightarrow> intent_state (pm_asgard (bt_manager b)) (oa_intent (jo_bot a)) = IDLE) \<Longrightarrow>
    desk_step v d ((execute_position_job v a j q u d)\<lparr>dk_tasks := dict_del j (dk_tasks d)\<rparr>)"
| close_turn: "dict_get j (dk_tasks d) = Some (Close_task u i) \<Longrightarrow>
    desk_step v d ((execute_close_job v c j i u d)\<lparr>dk_tasks := dict_del j (dk_tasks d)\<rparr>)"
| bot_turn: "dk_bot d = Some b \<Longrightarrow> api_step (dv_bot v) b b' \<Longrightarrow> desk_step v d (d\<lparr>dk_bot := Some b'\<rparr>)"

inductive desk_reach :: "desk_env \<Rightarrow> desk \<Rightarrow> desk \<Rightarrow> bool" for v d0 where
  start: "desk_reach v d0 d0"
| step: "desk_reach v d0 d \<Longrightarrow> desk_step v d e \<Longrightarrow> desk_reach v d0 e"

section \<open>Lemmas\<close>

definition bot_quiet :: "bot option \<Rightarrow> bool" where
  "bot_quiet b \<longleftrightarrow> (\<forall>x. b = Some x \<longrightarrow> pm_positions (bt_manager x) = [] \<and> ok (pm_asgard (bt_manager x)))"

definition job_ok :: "job_row \<Rightarrow> bool" where
  "job_ok r \<longleftrightarrow> jb_status r \<noteq> Job_completed \<and> (\<forall>c. jb_error_code r = Some c \<longrightarrow> catalogued c)"

text \<open>Nothing was traded since \<open>d0\<close>, and no job is done.\<close>

definition calm :: "desk \<Rightarrow> desk \<Rightarrow> bool" where
  "calm d0 d \<longleftrightarrow> sv_positions (ns_db (dk_user d)) = sv_positions (ns_db (dk_user d0)) \<and>
     (db_ok (ns_db (dk_user d0)) \<longrightarrow> db_ok (ns_db (dk_user d))) \<and> ok (ns_asgard (dk_user d)) \<and>
     bot_quiet (dk_bot d) \<and> dk_events d = dk_events d0 \<and> dict_ok (dk_jobs d) \<and>
     (\<forall>j r. dict_get j (dk_jobs d) = Some r \<longrightarrow> job_ok r)"

lemma calm_fields [simp]:
  "calm d0 (d\<lparr>dk_locks := l\<rparr>) = calm d0 d" "calm d0 (d\<lparr>dk_tasks := ts\<rparr>) = calm d0 d" "calm d0 (d\<lparr>dk_bridge := br\<rparr>) = calm d0 d"
  "calm d0 (add_task j t d) = calm d0 d"
  by (simp_all add: calm_def add_task_def)

lemma codes_catalogued: "catalogued (map_error_to_code m st)" "catalogued (map_close_error_to_code m)" "catalogued ''GEN-0002''"
  using mapped_parts(1)[of "map lower m"] mapped_parts(2-5)[of "map lower m"]
  by (auto simp: map_error_to_code_def map_close_error_to_code_def Let_def codes_simps catalogued_codes_def error_codes_def
      split: option.splits)

lemma job_ok_updates:
  "job_ok r \<Longrightarrow> job_ok (r\<lparr>jb_status := Job_running\<rparr>)" "catalogued c \<Longrightarrow> job_ok (failed_with m c r)"
  "catalogued c \<Longrightarrow> job_ok ((failed_with m c r)\<lparr>jb_error_stage := st\<rparr>)"
  by (simp_all add: job_ok_def failed_with_def)

lemma update_job_fields [simp]:
  "dk_user (update_job j f d) = dk_user d" "dk_bot (update_job j f d) = dk_bot d" "dk_events (update_job j f d) = dk_events d"
  "dk_bridge (update_job j f d) = dk_bridge d" "dk_locks (update_job j f d) = dk_locks d" "dk_tasks (update_job j f d) = dk_tasks d"
  by (simp_all add: update_job_def split: option.splits)

lemma calm_dict: "calm d0 d \<Longrightarrow> dict_ok (dk_jobs d)"
  by (simp add: calm_def)

lemma get_update_job:
  "dict_ok (dk_jobs d) \<Longrightarrow> dict_get i (dk_jobs (update_job j f d)) =
     (if i = j then map_option f (dict_get j (dk_jobs d)) else dict_get i (dk_jobs d))"
  by (simp add: update_job_def dict.get_put split: option.splits)

lemma calm_jobs:
  assumes "calm d0 d" "job_ok r"
  shows "calm d0 (d\<lparr>dk_jobs := dict_put j r (dk_jobs d)\<rparr>)"
  using assms dict.get_put[OF calm_dict[OF assms(1)], of _ j r] by (simp add: calm_def dict.inv_put)

lemma calm_update_job: "calm d0 d \<Longrightarrow> (\<And>r. job_ok r \<Longrightarrow> job_ok (f r)) \<Longrightarrow> calm d0 (update_job j f d)"
proof (cases "dict_get j (dk_jobs d)")
  case (Some r)
  assume "calm d0 d" "\<And>r. job_ok r \<Longrightarrow> job_ok (f r)"
  with calm_jobs[of d0 d "f r" j] Some show ?thesis by (simp add: update_job_def calm_def)
qed (simp add: update_job_def)

lemma job_ok_new: "job_ok (new_job u p now)"
  by (simp add: new_job_def job_ok_def)

lemma calm_insert_job: "insert_job j (new_job u p now) io d = Inr d1 \<Longrightarrow> calm d0 d \<Longrightarrow> calm d0 d1"
  using calm_jobs job_ok_new by (auto simp: insert_job_def split: sum.splits if_splits)

lemma calm_with_tables:
  "calm d0 d \<Longrightarrow> (\<And>db. sv_positions (f db) = sv_positions db \<and> (db_ok db \<longrightarrow> db_ok (f db))) \<Longrightarrow> calm d0 (with_tables f d)"
  by (simp add: calm_def with_tables_def)

lemma calm_refl:
  "ok (ns_asgard (dk_user d)) \<Longrightarrow> bot_quiet (dk_bot d) \<Longrightarrow> dk_jobs d = [] \<Longrightarrow> calm d d"
  by (simp add: calm_def dict_get_def dict_ok_def)

text \<open>Neither side opens.\<close>

lemma direct_fails:
  assumes "ok (ns_asgard s)" "intent_state (ns_asgard s) (dc_intent a) = IDLE" "execute_position_direct v a j q u s = (s1, out)"
  shows "ns_db s1 = ns_db s \<and> ok (ns_asgard s1) \<and> (\<forall>r. out = Inr r \<longrightarrow> \<not> ar_success r)"
proof -
  have o: "ok (pm_asgard m1) \<and> (\<forall>r. res = Inr r \<longrightarrow> \<not> mr_success r)"
    if "from_user_context (dv_settings v) (dv_signer v) (ns_asgard s) c = Inr (am, pm)"
      "open_position (dv_api v) am (dc_intent a) (dv_limits v) (dc_open a) opp pm = (m1, res)" for c am pm m1 res opp
  proof -
    have pm: "pm_asgard pm = ns_asgard s" using from_user_context_fresh[OF that(1)] by simp
    from asgard_long.never_opens[OF _ that(2)[unfolded open_position_def]] open_position_keeps_ok[OF _ _ that(2)] assms(1,2) pm
    show ?thesis by simp
  qed
  from assms(1,3) show ?thesis
    by (auto simp: execute_position_direct_def Let_def api_failure_def dest!: o
        split: sum.splits prod.splits if_splits bool.splits option.splits)
qed

lemma bridge_request_bot:
  assumes "bridge_request j w br user f b = (b1, r)"
  shows "b1 = b \<or> (\<exists>t r'. f t b = (b1, r') \<and> (\<forall>x. r = Inr x \<longrightarrow> r' = Inr x))"
  using assms by (fastforce simp: bridge_request_def split: sum.splits prod.splits)

lemma authorised_answers:
  assumes "authorised j t file token (answering f) b = (b1, r)"
  shows "b1 = b \<and> (\<exists>e. r = Inl e) \<or> (\<exists>x y. b = Some x \<and> f x = (the b1, y) \<and> b1 \<noteq> None \<and> r = Inr y)"
  using assms by (auto simp: authorised_def answering_def split: sum.splits option.splits prod.splits)

lemma bridge_call_bot:
  assumes "bridge_request j w br user (\<lambda>t. authorised k n file t (answering f)) b = (b1, r)"
  shows "(b1 = b \<or> (\<exists>x y. b = Some x \<and> f x = (the b1, y) \<and> b1 \<noteq> None)) \<and>
    (\<forall>y. r = Inr y \<longrightarrow> (\<exists>x. b = Some x \<and> f x = (the b1, y) \<and> b1 \<noteq> None))"
proof -
  have "f x = (the b1, y) \<and> b1 \<noteq> None" if "r = Inr y" "b = Some x" for x y
    using assms that by (auto simp: bridge_request_def authorised_def answering_def split: sum.splits option.splits prod.splits)
  moreover have "b \<noteq> None" if "r = Inr y" for y
    using assms that by (auto simp: bridge_request_def authorised_def split: sum.splits option.splits prod.splits)
  ultimately show ?thesis using bridge_request_bot[OF assms] authorised_answers by (metis not_None_eq)
qed

lemma bridge_open_fails:
  assumes "bot_quiet b" "\<And>x. b = Some x \<Longrightarrow> intent_state (pm_asgard (bt_manager x)) (oa_intent a) = IDLE"
    and "bridge_open_position j env w a q user b br = (b1, br1, r)"
  shows "bot_quiet b1 \<and> br1 = br \<and> (\<forall>x. r = Inr x \<longrightarrow> \<not> ar_success x)"
proof -
  let ?call = "bridge_request j w br user
             (\<lambda>t. authorised j (wi_bot_now w) (wi_file w) t (answering (open_position_internal env a q))) b"
  obtain b2 r2 where c: "?call = (b2, r2)" by force
  have f: "unopened x y \<and> \<not> ar_success z" if "b = Some x" "open_position_internal env a q x = (y, z)" for x y z
    using open_internal_fails[OF _ _ that(2)] assms(1,2) that(1) by (simp add: bot_quiet_def)
  note m = bridge_call_bot[OF c]
  have "bot_quiet b2" using m[THEN conjunct1]
  proof (elim disjE exE conjE)
    fix x y
    assume x: "b = Some x" "open_position_internal env a q x = (the b2, y)" "b2 \<noteq> None"
    from f[OF x(1,2)] x assms(1) show ?thesis by (auto simp: bot_quiet_def unopened_def)
  qed (use assms(1) in simp)
  moreover have "\<not> ar_success y" if r2: "r2 = Inr y" for y
  proof -
    obtain x where "b = Some x" "open_position_internal env a q x = (the b2, y)" using m[THEN conjunct2] r2 by blast
    from f[OF this] show ?thesis by simp
  qed
  ultimately show ?thesis using assms(3) c by (auto simp: bridge_open_position_def split: sum.splits)
qed

lemma bridge_close_fails:
  assumes "bot_quiet b" "bridge_close_position j env w a i reason b br = (b1, br1, r)"
  shows "bot_quiet b1 \<and> br1 = br \<and> (\<forall>x. r = Inr x \<longrightarrow> \<not> ar_success x)"
proof -
  let ?call = "bridge_request j w br None
             (\<lambda>t. authorised j (wi_bot_now w) (wi_file w) t (answering (close_position_internal env a i reason))) b"
  obtain b2 r2 where c: "?call = (b2, r2)" by force
  have f: "y = x \<and> \<not> ar_success z" if "b = Some x" "close_position_internal env a i reason x = (y, z)" for x y z
    using close_internal_unknown[of x env a i reason] assms(1) that by (auto simp: bot_quiet_def api_failure_def)
  note m = bridge_call_bot[OF c]
  have "bot_quiet b2" using m[THEN conjunct1]
  proof (elim disjE exE conjE)
    fix x y
    assume x: "b = Some x" "close_position_internal env a i reason x = (the b2, y)" "b2 \<noteq> None"
    from f[OF x(1,2)] x assms(1) show ?thesis by (auto simp: bot_quiet_def)
  qed (use assms(1) in simp)
  moreover have "\<not> ar_success y" if r2: "r2 = Inr y" for y
  proof -
    obtain x where "b = Some x" "close_position_internal env a i reason x = (the b2, y)" using m[THEN conjunct2] r2 by blast
    from f[OF this] show ?thesis by simp
  qed
  ultimately show ?thesis using assms(2) c by (auto simp: bridge_close_position_def split: sum.splits)
qed

text \<open>The exception of naming the code by its text.\<close>

lemma no_bridge_raises: "no_bridge io j d = (d, Inl (ValueError ([CHR 0x27] @ ''GEN-0002'' @ CHR 0x27 # '' is not a valid ErrorCode'')))"
  by (simp add: no_bridge_def andthen_def ErrorCode_def res_bind_def)

definition fresh_intents :: "open_job_answers \<Rightarrow> desk \<Rightarrow> bool" where
  "fresh_intents a d \<longleftrightarrow> intent_state (ns_asgard (dk_user d)) (dc_intent (jo_direct a)) = IDLE \<and>
     (\<forall>b. dk_bot d = Some b \<longrightarrow> intent_state (pm_asgard (bt_manager b)) (oa_intent (jo_bot a)) = IDLE)"

lemma open_by_bridge_fails:
  assumes "calm d0 d" "\<And>b. dk_bot d = Some b \<Longrightarrow> intent_state (pm_asgard (bt_manager b)) (oa_intent (jo_bot a)) = IDLE"
    and "open_by_bridge v a j q u d = (d1, r)"
  shows "calm d0 d1 \<and> dk_jobs d1 = dk_jobs d \<and> r \<noteq> Inr None \<and> (\<forall>x. r = Inr (Some x) \<longrightarrow> \<not> ar_success x)"
proof (cases "dk_bridge d")
  case None
  with assms(1,3) show ?thesis by (auto simp: open_by_bridge_def no_bridge_raises)
next
  case (Some br)
  have q: "bot_quiet (dk_bot d)" using assms(1) by (simp add: calm_def)
  obtain b1 br1 r1 where b: "bridge_open_position (dv_jwt v) (dv_bot v) (jo_wire a) (jo_bot a) q (Some u) (dk_bot d) br = (b1, br1, r1)"
    by (metis surj_pair)
  from bridge_open_fails[OF q assms(2) b] Some b assms(1,3) show ?thesis
    by (auto simp: open_by_bridge_def calm_def split: sum.splits)
qed

lemma attempt_open_fails:
  assumes "calm d0 d" "fresh_intents a d" "attempt_open v a j q u d = (d1, r)"
  shows "calm d0 d1 \<and> dk_jobs d1 = dk_jobs d \<and> r \<noteq> Inr None \<and> (\<forall>x. r = Inr (Some x) \<longrightarrow> \<not> ar_success x)"
proof -
  obtain s out where e: "execute_position_direct v (jo_direct a) j q u (dk_user d) = (s, out)" by force
  have f: "ns_db s = ns_db (dk_user d) \<and> ok (ns_asgard s) \<and> (\<forall>r. out = Inr r \<longrightarrow> \<not> ar_success r)"
    using direct_fails[OF _ _ e] assms(1,2) by (simp add: calm_def fresh_intents_def)
  define d2 where "d2 = d\<lparr>dk_user := s\<rparr>"
  have c: "calm d0 d2" using assms(1) f by (simp add: calm_def d2_def)
  have o: "on_user (execute_position_direct v (jo_direct a) j q u) d = (d2, out)" by (simp add: on_user_def e d2_def)
  show ?thesis
  proof (cases "\<exists>m. out = Inl (ValueError m)")
    case True
    then have "open_by_bridge v a j q u d2 = (d1, r)" using assms(3) o by (auto simp: attempt_open_def)
    moreover have "dk_bot d2 = Some b \<Longrightarrow> intent_state (pm_asgard (bt_manager b)) (oa_intent (jo_bot a)) = IDLE" for b
      using assms(2) by (simp add: d2_def fresh_intents_def)
    ultimately have "calm d0 d1 \<and> dk_jobs d1 = dk_jobs d2 \<and> r \<noteq> Inr None \<and> (\<forall>x. r = Inr (Some x) \<longrightarrow> \<not> ar_success x)"
      using open_by_bridge_fails[OF c] by blast
    then show ?thesis by (simp add: d2_def)
  next
    case False
    with assms(3) o have "d1 = d2 \<and> r = (case out of Inl e \<Rightarrow> Inl e | Inr x \<Rightarrow> Inr (Some x))"
      by (auto simp: attempt_open_def split: sum.splits exn.splits)
    with c f show ?thesis by (auto simp: d2_def split: sum.splits)
  qed
qed

lemma set_running_calm:
  assumes "calm d0 d" "set_running io j d = (d1, r)"
  shows "calm d0 d1 \<and> (fresh_intents a d1 = fresh_intents a d) \<and>
    (\<forall>x. dict_get j (dk_jobs d) = Some x \<longrightarrow> (\<exists>y. dict_get j (dk_jobs d1) = Some y \<and> jb_user y = jb_user x))"
  using assms calm_update_job[OF assms(1), of "\<lambda>r. r\<lparr>jb_status := Job_running\<rparr>" j] job_ok_updates(1) calm_dict[OF assms(1)]
  by (auto simp: set_running_def job_io_def fresh_intents_def get_update_job split: sum.splits)

text \<open>What an unsuccessful try leaves in the job: it raises, or the row says why it failed.\<close>

definition told :: "string \<Rightarrow> desk \<Rightarrow> desk \<Rightarrow> bool" where
  "told j d e \<longleftrightarrow> (\<forall>x. dict_get j (dk_jobs d) = Some x \<longrightarrow> (\<exists>y m c. dict_get j (dk_jobs e) = Some y \<and> jb_user y = jb_user x \<and>
     jb_status y = Job_failed \<and> jb_error y = Some m \<and> jb_error_code y = Some c \<and> catalogued c))"

lemma told_update:
  "dict_ok (dk_jobs d) \<Longrightarrow> catalogued c \<Longrightarrow> told j d (update_job j (failed_with m c) d)"
  "dict_ok (dk_jobs d) \<Longrightarrow> catalogued c \<Longrightarrow> told j d (update_job j (\<lambda>x. (failed_with m c x)\<lparr>jb_error_stage := st\<rparr>) d)"
  by (auto simp: told_def get_update_job failed_with_def)

lemma finish_open_fails:
  assumes "\<not> ar_success r" "finish_open a j u r d = (d1, out)" "calm d0 d"
  shows "calm d0 d1 \<and> (case out of Inl e \<Rightarrow> d1 = d | Inr _ \<Rightarrow> told j d d1)"
  using assms calm_update_job[OF assms(3)] job_ok_updates(3) told_update(2)[OF calm_dict[OF assms(3)]] codes_catalogued(1)
  by (auto simp: finish_open_def job_io_def split: option.splits sum.splits)

lemma finish_close_fails:
  assumes "\<not> ar_success r" "finish_close a j i u r d = (d1, out)" "calm d0 d"
  shows "calm d0 d1 \<and> (case out of Inl e \<Rightarrow> d1 = d | Inr _ \<Rightarrow> told j d d1)"
  using assms calm_update_job[OF assms(3)] job_ok_updates(2) told_update(1)[OF calm_dict[OF assms(3)]] codes_catalogued(2)
  by (auto simp: finish_close_def job_io_def split: option.splits sum.splits)

lemma crashed_told:
  assumes "m d = (d1, out)" "calm d0 d1" "\<And>s. catalogued (code s)"
    and "(\<exists>y. out = Inr y) \<Longrightarrow> told j d d1"
    and "\<And>x. dict_get j (dk_jobs d) = Some x \<Longrightarrow> \<exists>y. dict_get j (dk_jobs d1) = Some y \<and> jb_user y = jb_user x"
  shows "calm d0 (crashed io code j m d) \<and> (io = Inr () \<longrightarrow> told j d (crashed io code j m d))"
proof (cases out)
  case (Inr y)
  with assms show ?thesis by (simp add: crashed_def)
next
  case (Inl e)
  let ?d = "update_job j (failed_with (exn_text e) (code (exn_text e))) d1"
  have "calm d0 ?d" using calm_update_job[OF assms(2)] job_ok_updates(2)[OF assms(3)] by blast
  moreover have "told j d ?d"
    using told_update(1)[OF calm_dict[OF assms(2)] assms(3), of j "exn_text e" "exn_text e"] assms(5) unfolding told_def by metis
  ultimately show ?thesis using assms(1,2) Inl by (simp add: crashed_def split: sum.splits)
qed

lemma job_body:
  assumes calm: "calm d0 d" and code: "\<And>s. catalogued (code s)"
    and attempt: "\<And>d1 d2 r. set_running io j d = (d1, Inr ()) \<Longrightarrow> T d1 = (d2, r) \<Longrightarrow>
      calm d0 d2 \<and> dk_jobs d2 = dk_jobs d1 \<and> r \<noteq> Inr None \<and> (\<forall>x. r = Inr (Some x) \<longrightarrow> \<not> ar_success x)"
    and finish: "\<And>x d2 e out. \<not> ar_success x \<Longrightarrow> F x d2 = (e, out) \<Longrightarrow> calm d0 d2 \<Longrightarrow>
      calm d0 e \<and> (case out of Inl _ \<Rightarrow> e = d2 | Inr _ \<Rightarrow> told j d2 e)"
  defines "body \<equiv> andthen (set_running io j) (\<lambda>_. andthen T (\<lambda>r. case r of None \<Rightarrow> ret () | Some x \<Rightarrow> F x))"
  shows "calm d0 (crashed io' code j body d) \<and> (io' = Inr () \<longrightarrow> told j d (crashed io' code j body d))"
proof -
  obtain d1 r1 where r: "set_running io j d = (d1, r1)" by force
  note run = set_running_calm[OF calm r]
  have "\<exists>e out. body d = (e, out) \<and> calm d0 e \<and> ((\<exists>y. out = Inr y) \<longrightarrow> told j d e) \<and>
     (\<forall>x. dict_get j (dk_jobs d) = Some x \<longrightarrow> (\<exists>y. dict_get j (dk_jobs e) = Some y \<and> jb_user y = jb_user x))"
  proof (cases r1)
    case (Inl e)
    with r run show ?thesis by (auto simp: body_def andthen_def)
  next
    case (Inr z)
    obtain d2 r2 where t: "T d1 = (d2, r2)" by force
    have "set_running io j d = (d1, Inr ())" using r Inr by simp
    note tried = attempt[OF this t]
    show ?thesis
    proof (cases r2)
      case (Inl e)
      with r \<open>r1 = Inr z\<close> run t tried show ?thesis by (auto simp: body_def andthen_def)
    next
      case (Inr y)
      with tried obtain x where x: "r2 = Inr (Some x)" "\<not> ar_success x" by (cases y) auto
      obtain e out where f: "F x d2 = (e, out)" by force
      with finish[OF x(2) f] tried have c: "calm d0 e" "case out of Inl _ \<Rightarrow> e = d2 | Inr _ \<Rightarrow> told j d2 e" by auto
      have b: "body d = (e, out)" using r \<open>r1 = Inr z\<close> t x f by (simp add: body_def andthen_def)
      have k: "dict_get j (dk_jobs d) = Some x \<Longrightarrow> \<exists>y. dict_get j (dk_jobs d2) = Some y \<and> jb_user y = jb_user x" for x
        using run tried by simp
      have "told j d e" if "told j d2 e" using that k unfolding told_def by metis
      with b c k show ?thesis by (cases out) (auto simp: told_def)
    qed
  qed
  then obtain e out where b: "body d = (e, out)" "calm d0 e" "(\<exists>y. out = Inr y) \<Longrightarrow> told j d e"
    "\<And>x. dict_get j (dk_jobs d) = Some x \<Longrightarrow> \<exists>y. dict_get j (dk_jobs e) = Some y \<and> jb_user y = jb_user x" by blast
  show ?thesis by (rule crashed_told[where code = code and m = body and d = d, OF b(1,2) code]) (use b(3,4) in blast)+
qed

lemma open_job_calm:
  assumes "calm d0 d" "fresh_intents a d"
  shows "calm d0 (execute_position_job v a j q u d) \<and>
    (jo_crash a = Inr () \<longrightarrow> told j d (execute_position_job v a j q u d))"
proof -
  have told_locks: "told j d (y\<lparr>dk_locks := l\<rparr>) = told j d y" for y l by (simp add: told_def)
  have "calm d0 d2 \<and> dk_jobs d2 = dk_jobs d1 \<and> r \<noteq> Inr None \<and> (\<forall>x. r = Inr (Some x) \<longrightarrow> \<not> ar_success x)"
    if "set_running (jo_running a) j d = (d1, Inr ())" "attempt_open v a j q u d1 = (d2, r)" for d1 d2 r
    using attempt_open_fails[OF _ _ that(2)] set_running_calm[OF assms(1) that(1), of a] assms(2) by blast
  note c = job_body[where T = "attempt_open v a j q u" and io' = "jo_crash a" and
      code = "\<lambda>m. map_error_to_code m (Some ''unknown'')", OF assms(1) codes_catalogued(1) this finish_open_fails]
  show ?thesis using c by (simp add: execute_position_job_def Let_def told_locks split: sum.splits)
qed

lemma attempt_close_fails:
  assumes "calm d0 d" "attempt_close v a j i d = (d1, r)"
  shows "calm d0 d1 \<and> dk_jobs d1 = dk_jobs d \<and> r \<noteq> Inr None \<and> (\<forall>x. r = Inr (Some x) \<longrightarrow> \<not> ar_success x)"
proof (cases "dk_bridge d")
  case None
  with assms show ?thesis by (auto simp: attempt_close_def no_bridge_raises)
next
  case (Some br)
  have q: "bot_quiet (dk_bot d)" using assms(1) by (simp add: calm_def)
  obtain b1 br1 r1 where b: "bridge_close_position (dv_jwt v) (dv_bot v) (jc_wire a) (jc_close a) i ''manual'' (dk_bot d) br = (b1, br1, r1)"
    by (metis surj_pair)
  from bridge_close_fails[OF q b] Some b assms show ?thesis
    by (auto simp: attempt_close_def calm_def split: sum.splits)
qed

lemma close_job_calm:
  assumes "calm d0 d"
  shows "calm d0 (execute_close_job v a j i u d) \<and> (jc_crash a = Inr () \<longrightarrow> told j d (execute_close_job v a j i u d))"
proof -
  have "calm d0 d2 \<and> dk_jobs d2 = dk_jobs d1 \<and> r \<noteq> Inr None \<and> (\<forall>x. r = Inr (Some x) \<longrightarrow> \<not> ar_success x)"
    if "set_running (jc_running a) j d = (d1, Inr ())" "attempt_close v a j i d1 = (d2, r)" for d1 d2 r
    using attempt_close_fails[OF _ that(2)] set_running_calm[OF assms that(1)] by blast
  then show ?thesis
    unfolding execute_close_job_def by (intro job_body[OF assms codes_catalogued(2) _ finish_close_fails]) blast+
qed

lemma create_close_jobs_calm:
  "create_close_jobs a now u k is d = (d1, r) \<Longrightarrow> calm d0 d \<Longrightarrow>
     calm d0 d1 \<and> dk_user d1 = dk_user d \<and> (\<forall>js. r = Inr js \<longrightarrow> length js = length is)"
proof (induction a now u k "is" d arbitrary: d1 r rule: create_close_jobs.induct)
  case (2 a now u k i "is" d)
  show ?case
  proof (cases "insert_job (cl_id a k) (new_job u (Close_params i True) now) (cl_insert a k) d")
    case (Inl e)
    with 2 show ?thesis by auto
  next
    case (Inr d2)
    let ?d = "add_task (cl_id a k) (Close_task u i) d2"
    obtain d3 r3 where c: "create_close_jobs a now u (Suc k) is ?d = (d3, r3)" by force
    have "dk_user ?d = dk_user d" using Inr by (auto simp: insert_job_def add_task_def split: sum.splits if_splits)
    moreover have "calm d0 ?d" using calm_insert_job[OF Inr 2(3)] by simp
    ultimately show ?thesis using 2(1)[OF Inr c] 2(2) Inr c by (auto split: sum.splits)
  qed
qed auto

lemma pause_with_keeps:
  "sv_positions (pause_with c now u db) = sv_positions db" "db_ok db \<Longrightarrow> db_ok (pause_with c now u db)"
  by (simp_all add: pause_with_def set_enabled_def db_ok_def dict.inv_put)

lemma upper_lst: "map upper ''jitoSOL'' = ''JITOSOL''" "map upper ''jupSOL'' = ''JUPSOL''"
  by code_simp+

text \<open>Looking changes the cache of the bridge only.\<close>

lemma looking:
  "\<exists>br. fst (list_positions v w io created u d) = d\<lparr>dk_bridge := br\<rparr>"
  "\<exists>br. fst (read_position v w w' io created i u d) = d\<lparr>dk_bridge := br\<rparr>"
proof -
  have same: "\<exists>br. d = d\<lparr>dk_bridge := br\<rparr>" by (rule exI[of _ "dk_bridge d"]) simp
  obtain br1 r1 where p: "bridge_get_positions (dv_jwt v) w (Some u) (dk_bot d) (the (dk_bridge d)) = (br1, r1)" by force
  obtain br2 r2 where g: "bridge_get_detail (dv_jwt v) w' i (dk_bot d) br1 = (br2, r2)" by force
  show "\<exists>br. fst (list_positions v w io created u d) = d\<lparr>dk_bridge := br\<rparr>"
    unfolding list_positions_def Let_def using p same by (cases "dk_bridge d"; cases r1) auto
  show "\<exists>br. fst (read_position v w w' io created i u d) = d\<lparr>dk_bridge := br\<rparr>"
  proof (cases "dk_bridge d")
    case None
    with same show ?thesis unfolding read_position_def Let_def by auto
  next
    case (Some br)
    show ?thesis
    proof (cases r1)
      case (Inl e)
      with Some p show ?thesis unfolding read_position_def Let_def by auto
    next
      case (Inr ps)
      with Some p g show ?thesis unfolding read_position_def Let_def
        by (cases "dict_get i ps"; cases r2) auto
    qed
  qed
qed

lemma desk_step_calm:
  assumes "desk_step v d e" "calm d0 d"
  shows "calm d0 e"
  using assms(1)
proof (cases rule: desk_step.cases)
  case (ask_open a now j u q)
  have "calm d0 d2" if "insert_job j (new_job u (Open_params q) now) io (d\<lparr>dk_locks := l\<rparr>) = Inr d2" for io l d2
    using calm_insert_job[OF that] assms(2) by simp
  then show ?thesis using assms(2) ask_open
    by (auto simp: request_open_def Let_def split: sum.splits)
next
  case (ask_close w io now j i u)
  have "calm d0 d2" if "insert_job j (new_job u (Close_params i False) now) io (d\<lparr>dk_bridge := br\<rparr>) = Inr d2" for br d2
    using calm_insert_job[OF that] assms(2) by simp
  then show ?thesis using assms(2) ask_close
    by (auto simp: request_close_def Let_def split: option.splits prod.splits sum.splits)
next
  case (ask_close_all a now u)
  let ?d = "with_tables (pause_with EmergencyCloseAll now u) d"
  have c: "calm d0 ?d" using calm_with_tables[OF assms(2)] pause_with_keeps by blast
  have "calm d0 d2" if "create_close_jobs a now u 0 is ?d = (d2, r)" for "is" d2 r
    using create_close_jobs_calm[OF that c] by blast
  then show ?thesis using ask_close_all c assms(2)
    by (auto simp: close_all_positions_def Let_def split: sum.splits prod.splits)
next
  case (look w io created u)
  with looking(1)[of v w io created u d] assms(2) show ?thesis by auto
next
  case (look_at w w' io created i u)
  with looking(2)[of v w w' io created i u d] assms(2) show ?thesis by auto
next
  case (open_turn j u q a)
  then have "fresh_intents a d" by (simp add: fresh_intents_def)
  from open_job_calm[OF assms(2) this] open_turn show ?thesis by simp
next
  case (close_turn j u i c)
  with close_job_calm[OF assms(2)] show ?thesis by simp
next
  case (bot_turn b b')
  then have q: "pm_positions (bt_manager b) = []" "ok (pm_asgard (bt_manager b))"
    using assms(2) by (simp_all add: calm_def bot_quiet_def)
  from api_reach_inv[OF api_reach.step[OF api_reach.start bot_turn(3)] q] bot_turn(1) assms(2)
  show ?thesis by (simp add: calm_def bot_quiet_def)
qed

lemma desk_reach_calm: "desk_reach v d e \<Longrightarrow> calm d0 d \<Longrightarrow> calm d0 e"
  by (induction rule: desk_reach.induct) (auto intro: desk_step_calm)

section \<open>Properties\<close>

text \<open>C5: The dashboard never trades. From tables and a bot in which nothing was opened yet, no run of
  requests, of jobs (with a fresh intent each) and of turns of the bot ever opens or closes a position:
  the table of positions stays as it is, no event is published, no job is completed, and every code
  that a job stores is one of the catalogue.\<close>

theorem desk_never_trades:
  assumes "desk_reach v d0 d" "ok (ns_asgard (dk_user d0))" "bot_quiet (dk_bot d0)" "dk_jobs d0 = []"
  shows "sv_positions (ns_db (dk_user d)) = sv_positions (ns_db (dk_user d0)) \<and> dk_events d = dk_events d0 \<and>
    (\<forall>j r. dict_get j (dk_jobs d) = Some r \<longrightarrow> jb_status r \<noteq> Job_completed \<and>
       (\<forall>c. jb_error_code r = Some c \<longrightarrow> catalogued c))"
  using desk_reach_calm[OF assms(1) calm_refl[OF assms(2-4)]] by (simp add: calm_def job_ok_def)

text \<open>C18: Every job of an opening ends, and its owner is told: when the tables work at its end, the row of the
  job says that it failed, with a text and a code of the catalogue, and the user can ask again.\<close>

theorem open_job_told:
  assumes "desk_reach v d0 d" "ok (ns_asgard (dk_user d0))" "bot_quiet (dk_bot d0)" "dk_jobs d0 = []"
    and "fresh_intents a d" "jo_crash a = Inr ()" "jo_redis a = Inr ()" "get_job_status io j u d = Inr r"
  shows "\<exists>x m c. get_job_status io j u (execute_position_job v a j q u d) = Inr x \<and> jb_status x = Job_failed \<and>
    jb_error x = Some m \<and> jb_error_code x = Some c \<and> catalogued c \<and>
    (\<forall>now. position_lock_free now u (execute_position_job v a j q u d))"
proof -
  have c: "calm d0 d" by (rule desk_reach_calm[OF assms(1) calm_refl[OF assms(2-4)]])
  have r: "dict_get j (dk_jobs d) = Some r" "jb_user r = [] \<or> jb_user r = u"
    using assms(8) by (auto simp: get_job_status_def split: sum.splits option.splits if_splits)
  from open_job_calm[OF c assms(5)] assms(6) have "told j d (execute_position_job v a j q u d)" by blast
  then obtain x m k where x: "dict_get j (dk_jobs (execute_position_job v a j q u d)) = Some x" "jb_user x = jb_user r"
    "jb_status x = Job_failed" "jb_error x = Some m" "jb_error_code x = Some k" "catalogued k"
    using r(1) unfolding told_def by blast
  moreover have "dk_locks (execute_position_job v a j q u d) u = None"
    using assms(7) by (simp add: execute_position_job_def Let_def)
  ultimately show ?thesis using assms(8) r(2)
    by (auto simp: get_job_status_def position_lock_free_def split: sum.splits)
qed

text \<open>A request for jitoSOL or jupSOL of a user with wallets is not executed with them: the capital letters
  of the asset name no asset, and the job goes to the bot, which trades on the account of the platform.\<close>

theorem lst_request_goes_to_platform:
  assumes "oq_asset q \<in> {''jitoSOL'', ''jupSOL''}" "dc_user (jo_direct a) = Inr ()"
    and "from_user_id (Inr (sv_users (ns_db (dk_user d)) u)) u = Inr c"
    and "from_user_context (dv_settings v) (dv_signer v) (ns_asgard (dk_user d)) c = Inr x"
  shows "attempt_open v a j q u d = open_by_bridge v a j q u d"
proof -
  have "\<exists>m. asset_of_value (map upper (oq_asset q)) = Inl (ValueError m)"
    using assms(1) upper_lst by (auto simp: asset_of_value_def)
  then obtain m where m: "asset_of_value (map upper (oq_asset q)) = Inl (ValueError m)" by blast
  obtain am pm where x: "x = (am, pm)" by force
  have "execute_position_direct v (jo_direct a) j q u (dk_user d) = (dk_user d, Inl (ValueError m))"
    using assms(2-4) m x by (simp add: execute_position_direct_def build_opportunity_def res_bind_def)
  then show ?thesis by (simp add: attempt_open_def on_user_def)
qed

text \<open>The bridge drops the wrong entry of its cache: right after an opening or a closing through it, a list
  of positions that is younger than five seconds is answered as it was before.\<close>

theorem bridge_serves_stale_positions:
  assumes "get_cached (wi_time w') (positions_key user) br = Some (Cached_positions ps)"
  shows "(case bridge_open_position j env w a q other b br of
      (b1, br1, _) \<Rightarrow> bridge_get_positions j w' user b1 br1 = (br1, Inr ps)) \<and>
    (case bridge_close_position j env w ca i reason b br of
      (b1, br1, _) \<Rightarrow> bridge_get_positions j w' user b1 br1 = (br1, Inr ps))"
proof -
  have "positions_key user \<noteq> ''positions''" by (simp add: positions_key_def)
  then have "get_cached (wi_time w') (positions_key user) (invalidate_cache (Some ''positions'') br) = Some (Cached_positions ps)"
    using assms by (auto simp: get_cached_def is_cache_fresh_def invalidate_cache_def truthy_def split: if_splits)
  with assms show ?thesis
    by (auto simp: bridge_open_position_def bridge_close_position_def bridge_get_positions_def Let_def
        split: prod.splits sum.splits)
qed

definition check_errors :: "(string \<times> string list) list" where
  "check_errors = [(''wallet_balance'', [''Insufficient wallet balance'']),
     (''price_consensus'', [''Price consensus check failed'', ''Price deviation exceeds 0.5%'']),
     (''funding_validation'', [''Funding rate validation failed'']),
     (''protocol_capacity'', [''Selected protocol lacks capacity'']), (''fee_market'', []),
     (''opportunity_simulation'', [''Opportunity simulation failed''])]"

definition check_matches :: "(string \<times> bool) list \<Rightarrow> check_report \<Rightarrow> bool" where
  "check_matches checks c \<longleftrightarrow> map_of checks (cr_key c) = Some (cr_passed c) \<and>
     (if cr_passed c then cr_error c = None
      else case (cr_error c, map_of check_errors (cr_key c)) of (Some e, Some es) \<Rightarrow> e \<in> set es | _ \<Rightarrow> False)"

definition checks_of :: "bool \<Rightarrow> bool \<Rightarrow> bool \<Rightarrow> bool \<Rightarrow> (string \<times> bool) list" where
  "checks_of w p f k = [(''wallet_balance'', w), (''price_consensus'', p), (''funding_validation'', f),
     (''protocol_capacity'', k), (''fee_market'', True), (''opportunity_simulation'', True)]"

definition errors_of :: "bool \<Rightarrow> bool \<Rightarrow> bool \<Rightarrow> bool \<Rightarrow> bool \<Rightarrow> string list" where
  "errors_of w p f k c = (if w then [] else [''Insufficient wallet balance''])
     @ (if p then [] else [if c then ''Price deviation exceeds 0.5%'' else ''Price consensus check failed''])
     @ (if f then [] else [''Funding rate validation failed''])
     @ (if k then [] else [''Selected protocol lacks capacity''])"

definition checklist_ok :: "(string \<times> bool) list \<Rightarrow> string list \<Rightarrow> bool \<Rightarrow> bool" where
  "checklist_ok checks errs passed \<longleftrightarrow> map cr_key (report_checks CHECK_LABELS checks errs) = map fst checks \<and>
    list_all (check_matches checks) (report_checks CHECK_LABELS checks errs) \<and>
    (passed \<longleftrightarrow> list_all cr_passed (report_checks CHECK_LABELS checks errs))"

lemma checklist_cases: "checklist_ok (checks_of w p f k) (errors_of w p f k c) (w \<and> p \<and> f \<and> k)"
  by (induct w; induct p; induct f; induct k; induct c; code_simp)

lemma preflight_shape:
  assumes "run_preflight_checks max_dev a t opp = (opp1, r)"
  shows "\<exists>w p f k c. pf_checks r = checks_of w p f k \<and> pf_errors r = errors_of w p f k c \<and> pf_passed r = (w \<and> p \<and> f \<and> k)"
proof -
  let ?w = "check_wallet_balance a t opp"
  obtain o1 p err where v: "(case check_consensus max_dev (pa_prices a) (opp_asset opp) ''SOL'' of
               Inl e \<Rightarrow> (opp, False, [''Price consensus check failed''])
             | Inr c \<Rightarrow> (opp\<lparr>opp_price_deviation := cr_price_deviation c\<rparr>, is_within_threshold c,
                        if is_within_threshold c then [] else [''Price deviation exceeds 0.5%''])) = (o1, p, err)"
    by (rule prod_cases3)
  define c where "c = is_ok (check_consensus max_dev (pa_prices a) (opp_asset opp) ''SOL'')"
  have err: "err = (if p then [] else [if c then ''Price deviation exceeds 0.5%'' else ''Price consensus check failed''])"
    using v by (auto simp: c_def split: sum.splits)
  obtain o2 k where k: "check_protocol_capacity a o1 = (o2, k)" by force
  have "r = \<lparr>pf_passed = list_all snd (checks_of ?w p (check_funding_validation o1) k),
      pf_checks = checks_of ?w p (check_funding_validation o1) k,
      pf_errors = errors_of ?w p (check_funding_validation o1) k c\<rparr>"
    using assms unfolding run_preflight_checks_def Let_def v prod.case k simulate_opportunity_def
    by (auto simp: checks_of_def errors_of_def err)
  then show ?thesis
    by (intro exI[of _ ?w] exI[of _ p] exI[of _ "check_funding_validation o1"] exI[of _ k] exI[of _ c]) (simp add: checks_of_def)
qed

text \<open>What the checklist shows: it has the six checks in order, with their own verdicts, and a failed check
  shows its own error and no other.\<close>

theorem checklist_matches:
  assumes "run_preflight_checks max_dev a t opp = (opp1, r)"
  shows "map cr_key (report_checks CHECK_LABELS (pf_checks r) (pf_errors r)) = map fst (pf_checks r) \<and>
    list_all (check_matches (pf_checks r)) (report_checks CHECK_LABELS (pf_checks r) (pf_errors r)) \<and>
    (pf_passed r \<longleftrightarrow> list_all cr_passed (report_checks CHECK_LABELS (pf_checks r) (pf_errors r)))"
  using preflight_shape[OF assms] checklist_cases unfolding checklist_ok_def by metis

section \<open>Instances\<close>

definition wit_desk_env :: desk_env where
  "wit_desk_env = \<lparr>dv_bot = wit_env, dv_jwt = wit_codec, dv_api = wit_api False, dv_settings = wit_settings,
     dv_signer = (\<lambda>_. Inr ()), dv_limits = wit_limits\<rparr>"

definition wit_desk :: desk where
  "wit_desk = \<lparr>dk_user = \<lparr>ns_db = wit_tables\<lparr>sv_positions := [(''p1'', \<lparr>pe_user_id = ''u1'', pe_data = [], pe_is_closed = False\<rparr>)]\<rparr>,
       ns_asgard = wit_asgard, ns_legs = []\<rparr>,
     dk_bot = Some (wit_bot ''k''), dk_bridge = Some \<lparr>br_token = Some ''k'', br_cache = (\<lambda>_. None), br_time = (\<lambda>_. None)\<rparr>,
     dk_jobs = [], dk_locks = Map.empty, dk_tasks = [], dk_events = []\<rparr>"

lemma wit_desk_quiet: "ok (ns_asgard (dk_user wit_desk))" "bot_quiet (dk_bot wit_desk)" "dk_jobs wit_desk = []"
  by (simp_all add: wit_desk_def wit_asgard_def tx_table_ok_empty bot_quiet_def wit_bot_manager wit_manager_def)

definition wit_close_all :: close_all_answers where
  "wit_close_all = \<lparr>cl_pause = Inr (), cl_read = Inr (), cl_id = (\<lambda>_. ''j0''), cl_insert = (\<lambda>_. Inr ())\<rparr>"

definition wit_wire :: wire where
  "wit_wire = \<lparr>wi_now = 90, wi_bot_now = 91, wi_time = 0, wi_file = Some ''k'', wi_send = Inr (), wi_reply = Inr (), wi_slow = False\<rparr>"

definition wit_close_job :: close_job_answers where
  "wit_close_job = \<lparr>jc_running = Inr (), jc_wire = wit_wire,
     jc_close = \<lparr>ca_now = 1, ca_exit_time = 2, ca_intent = ''i2'', ca_close = (\<lambda>_. wit_lost)\<rparr>,
     jc_done = Inr (), jc_publish = Inr (), jc_crash = Inr ()\<rparr>"

definition wit_closing :: desk where
  "wit_closing = fst (close_all_positions wit_close_all 5 ''u1'' wit_desk)"

lemma wit_close_all_result: "close_all_positions wit_close_all 5 ''u1'' wit_desk = (wit_closing, Inr (1, [''j0'']))"
proof -
  have "snd (close_all_positions wit_close_all 5 ''u1'' wit_desk) = Inr (1, [''j0''])"
    by (simp add: close_all_positions_def wit_close_all_def with_tables_def user_open_rows_def pause_with_keeps wit_desk_def
        insert_job_def dict_get_def)
  then show ?thesis unfolding wit_closing_def by (metis prod.collapse)
qed

definition wit_closed :: desk where
  "wit_closed = (execute_close_job wit_desk_env wit_close_job ''j0'' ''p1'' ''u1'' wit_closing)\<lparr>dk_tasks := dict_del ''j0'' (dk_tasks wit_closing)\<rparr>"

lemma wit_close_turn: "desk_step wit_desk_env wit_closing wit_closed"
proof -
  have "dict_get ''j0'' (dk_tasks wit_closing) = Some (Close_task ''u1'' ''p1'')"
    by (simp add: wit_closing_def close_all_positions_def wit_close_all_def with_tables_def user_open_rows_def pause_with_keeps
        wit_desk_def insert_job_def add_task_def dict_get_def dict_put_def)
  from desk_step.close_turn[OF this] show ?thesis
    unfolding wit_closed_def .
qed

theorem desk_never_trades_witness:
  "map fst (sv_positions (ns_db (dk_user wit_closed))) = [''p1''] \<and> dk_events wit_closed = []"
proof -
  have "desk_step wit_desk_env wit_desk wit_closing"
    unfolding wit_closing_def by (rule desk_step.ask_close_all)
  then have "desk_reach wit_desk_env wit_desk wit_closed"
    using wit_close_turn by (blast intro: desk_reach.intros)
  from desk_never_trades[OF this wit_desk_quiet] show ?thesis by (simp add: wit_desk_def)
qed

definition wit_direct :: direct_answers where
  "wit_direct = \<lparr>dc_user = Inr (), dc_now = 0,
     dc_preflight = oa_preflight wit_open_answers, dc_intent = ''i8'', dc_open = PositionManager.wit_answers, dc_insert = Inr ()\<rparr>"

definition wit_open_job :: open_job_answers where
  "wit_open_job = \<lparr>jo_running = Inr (), jo_direct = wit_direct, jo_wire = wit_wire, jo_bot = wit_open_answers, jo_done = Inr (),
     jo_publish = Inr (), jo_crash = Inr (), jo_redis = Inr ()\<rparr>"

definition wit_asked :: desk where
  "wit_asked = fst (request_open \<lparr>dr_redis = Inr (), dr_insert = Inr ()\<rparr> 0 ''j1'' ''u1'' wit_open_request wit_desk)"

lemma wit_asked_job: "get_job_status (Inr ()) ''j1'' ''u1'' wit_asked = Inr (new_job ''u1'' (Open_params wit_open_request) 0)"
proof -
  have "flt (11/10) \<le> 3" by code_simp
  then show ?thesis
    by (simp add: wit_asked_def request_open_def valid_open_request_def wit_open_request_def position_lock_free_def wit_desk_def
        insert_job_def dict_get_def dict_put_def add_task_def get_job_status_def new_job_def Let_def)
qed

theorem open_job_told_witness:
  "\<exists>x c. get_job_status (Inr ()) ''j1'' ''u1'' (execute_position_job wit_desk_env wit_open_job ''j1'' wit_open_request ''u1'' wit_asked) = Inr x \<and>
     jb_status x = Job_failed \<and> jb_error_code x = Some c \<and> catalogued c"
proof -
  have r: "desk_reach wit_desk_env wit_desk wit_asked"
    unfolding wit_asked_def by (rule desk_reach.step[OF desk_reach.start desk_step.ask_open])
  have same: "dk_user wit_asked = dk_user wit_desk" "dk_bot wit_asked = dk_bot wit_desk"
    by (auto simp: wit_asked_def request_open_def Let_def insert_job_def add_task_def wit_desk_def dict_get_def position_lock_free_def)
  have f: "fresh_intents wit_open_job wit_asked"
    by (simp add: fresh_intents_def same) (simp add: wit_desk_def wit_asgard_def wit_bot_manager wit_manager_def tx_table_ok_empty)
  have "jo_crash wit_open_job = Inr ()" "jo_redis wit_open_job = Inr ()" by (simp_all add: wit_open_job_def)
  from open_job_told[OF r wit_desk_quiet f this wit_asked_job, of wit_open_request] show ?thesis by blast
qed

theorem lst_request_goes_to_platform_witness:
  "attempt_open wit_desk_env wit_open_job ''j1'' (wit_open_request\<lparr>oq_asset := ''jitoSOL''\<rparr>) ''u1'' wit_desk =
   open_by_bridge wit_desk_env wit_open_job ''j1'' (wit_open_request\<lparr>oq_asset := ''jitoSOL''\<rparr>) ''u1'' wit_desk"
proof -
  obtain c where c: "from_user_id (Inr (sv_users (ns_db (dk_user wit_desk)) ''u1'')) ''u1'' = Inr c"
      "uc_evm_address c = Some ''0xuser''" "uc_trader c = None" "uc_asgard c = None"
    by (simp add: from_user_id_def wit_desk_def wit_tables_def wit_user_def or_text_def)
  have "\<exists>x. from_user_context (dv_settings wit_desk_env) (dv_signer wit_desk_env) (ns_asgard (dk_user wit_desk)) c = Inr x"
    using c(2-4) by (simp add: from_user_context_def get_asgard_manager_def get_hl_trader_def trader_init_def wit_desk_env_def Let_def)
  then obtain x where "from_user_context (dv_settings wit_desk_env) (dv_signer wit_desk_env) (ns_asgard (dk_user wit_desk)) c = Inr x"
    by blast
  from lst_request_goes_to_platform[OF _ _ c(1) this] show ?thesis
    by (simp add: wit_open_job_def wit_direct_def)
qed

theorem bridge_serves_stale_positions_witness:
  "let br = set_cached 0 ''positions_u1'' (Cached_positions []) \<lparr>br_token = Some ''k'', br_cache = (\<lambda>_. None), br_time = (\<lambda>_. None)\<rparr>
   in case bridge_close_position wit_codec wit_env wit_wire (jc_close wit_close_job) ''p1'' ''manual'' (dk_bot wit_desk) br of
        (b1, br1, _) \<Rightarrow> bridge_get_positions wit_codec wit_wire (Some ''u1'') b1 br1 = (br1, Inr [])"
proof -
  let ?br = "set_cached 0 ''positions_u1'' (Cached_positions []) \<lparr>br_token = Some ''k'', br_cache = (\<lambda>_. None), br_time = (\<lambda>_. None)\<rparr>"
  have "get_cached (wi_time wit_wire) (positions_key (Some ''u1'')) ?br = Some (Cached_positions [])"
    by (simp add: get_cached_def is_cache_fresh_def set_cached_def positions_key_def wit_wire_def CACHE_TTL_def seconds_def)
  from bridge_serves_stale_positions[OF this, THEN conjunct2] show ?thesis unfolding Let_def .
qed

theorem checklist_matches_witness:
  "\<exists>r o1. run_preflight_checks (5/1000) (oa_preflight wit_open_answers) wit_trader (wit_opp (1/10)) = (o1, r) \<and>
     map cr_key (report_checks CHECK_LABELS (pf_checks r) (pf_errors r)) = map fst (pf_checks r)"
proof -
  obtain o1 r where r: "run_preflight_checks (5/1000) (oa_preflight wit_open_answers) wit_trader (wit_opp (1/10)) = (o1, r)" by force
  from checklist_matches[OF r] r show ?thesis by blast
qed

end
