(* ===== verification/Dashboard.thy ===== *)
theory Dashboard
  imports PositionJobs Services
begin

text \<open>
  The whole process of \<open>backend/dashboard/main.py\<close>: requests, background jobs and the bot behind
  them (\<open>desk_step\<close>) together with the services that the process starts on the same tables, the
  position monitor and the scanners (\<open>Services\<close>), in any order.
\<close>

section \<open>Runs\<close>

definition tables_of :: "desk \<Rightarrow> services_state" where
  "tables_of d = \<lparr>vs_db = ns_db (dk_user d), vs_asgard = ns_asgard (dk_user d)\<rparr>"

definition with_services :: "services_state \<Rightarrow> desk \<Rightarrow> desk" where
  "with_services y d = d\<lparr>dk_user := (dk_user d)\<lparr>ns_db := vs_db y, ns_asgard := vs_asgard y\<rparr>\<rparr>"

text \<open>The positions that a cycle of a service closed.\<close>

definition newly_closed :: "service_db \<Rightarrow> service_db \<Rightarrow> string set" where
  "newly_closed db db1 =
     {i. \<exists>p q. dict_get i (sv_positions db) = Some p \<and> \<not> pe_is_closed p \<and>
           dict_get i (sv_positions db1) = Some q \<and> pe_is_closed q}"

text \<open>\<open>system_run v d0 K d\<close>: the process went from \<open>d0\<close> to \<open>d\<close>, and \<open>K\<close> are the positions that the cycles
  of the monitor closed on the way. A service works with new intents, so it leaves the log of the
  transactions well-formed.\<close>

inductive system_run :: "desk_env \<Rightarrow> desk \<Rightarrow> string set \<Rightarrow> desk \<Rightarrow> bool" for v d0 where
  at_start: "system_run v d0 {} d0"
| desk_turn: "system_run v d0 K d \<Longrightarrow> desk_step v d e \<Longrightarrow> system_run v d0 K e"
| monitored: "system_run v d0 K d \<Longrightarrow> y = monitor_turn api st signer io ans (tables_of d) \<Longrightarrow> ok (vs_asgard y) \<Longrightarrow>
    system_run v d0 (K \<union> newly_closed (ns_db (dk_user d)) (vs_db y)) (with_services y d)"
| intents_scanned: "system_run v d0 K d \<Longrightarrow>
    y = scanner_turn (intent_scan api st signer lts io now ians) (tables_of d) \<Longrightarrow> ok (vs_asgard y) \<Longrightarrow>
    system_run v d0 K (with_services y d)"
| users_scanned: "system_run v d0 K d \<Longrightarrow>
    y = scanner_turn (auto_scan api st signer lts managed market io aans) (tables_of d) \<Longrightarrow> ok (vs_asgard y) \<Longrightarrow>
    system_run v d0 K (with_services y d)"

section \<open>Lemmas\<close>

text \<open>What the turns keep: nothing is done, and the tables are keyed.\<close>

definition idle :: "desk \<Rightarrow> bool" where
  "idle d \<longleftrightarrow> calm d d \<and> db_ok (ns_db (dk_user d))"

text \<open>The open rows of \<open>d\<close> outside \<open>K\<close> are open in \<open>e\<close>, for the same user.\<close>

definition stays_open :: "string set \<Rightarrow> desk \<Rightarrow> desk \<Rightarrow> bool" where
  "stays_open K d e \<longleftrightarrow> (\<forall>i p. i \<notin> K \<longrightarrow> dict_get i (sv_positions (ns_db (dk_user d))) = Some p \<longrightarrow> \<not> pe_is_closed p \<longrightarrow>
     (\<exists>q. dict_get i (sv_positions (ns_db (dk_user e))) = Some q \<and> \<not> pe_is_closed q \<and> pe_user_id q = pe_user_id p))"

lemma stays_open_refl [simp]: "stays_open K d d"
  by (simp add: stays_open_def)

lemma stays_open_trans: "stays_open K d e \<Longrightarrow> stays_open K' e f \<Longrightarrow> stays_open (K \<union> K') d f"
  unfolding stays_open_def by (metis UnCI)

lemma idle_desk: "idle d \<Longrightarrow> desk_step v d e \<Longrightarrow> idle e \<and> stays_open {} d e"
  using desk_step_calm[of v d e d] by (auto simp: idle_def calm_def stays_open_def)

lemma idle_services: "idle d \<Longrightarrow> db_ok (vs_db y) \<Longrightarrow> ok (vs_asgard y) \<Longrightarrow> idle (with_services y d)"
  by (simp add: idle_def calm_def with_services_def)

lemma with_services_tables [simp]: "ns_db (dk_user (with_services y d)) = vs_db y"
  by (simp add: with_services_def)

lemma monitored_open:
  assumes "db_ok (ns_db (dk_user d))" "y = monitor_turn api st signer io ans (tables_of d)"
  shows "db_ok (vs_db y) \<and> stays_open (newly_closed (ns_db (dk_user d)) (vs_db y)) d (with_services y d)"
proof -
  have "db_ok (vs_db (tables_of d))" using assms(1) by (simp add: tables_of_def)
  note keep = monitor_turn_keeps[OF this, of api st signer io ans, folded assms(2)]
  show ?thesis
    using keep(1,3) unfolding stays_open_def rows_kept_def newly_closed_def tables_of_def by fastforce
qed

lemma intents_scanned_rows:
  assumes "db_ok (vs_db x)" "y = scanner_turn (intent_scan api st signer lts io now ians) x"
  shows "db_ok (vs_db y) \<and> (\<forall>i p. dict_get i (sv_positions (vs_db x)) = Some p \<longrightarrow> dict_get i (sv_positions (vs_db y)) = Some p)"
proof (cases io)
  case (Inl e)
  with assms show ?thesis by (simp add: scanner_turn_def intent_scan_def)
next
  case (Inr z)
  let ?s = "\<lparr>ns_db = vs_db x, ns_asgard = vs_asgard x, ns_legs = []\<rparr>"
  have okd: "db_ok (ns_db ?s)" using assms(1) by simp
  note rows = scannable_rows[OF okd]
  have scan: "dict_get i (sv_intents (ns_db ?s)) = Some r \<and> (in_status r = Pending \<or> in_status r = Active)"
    if "(i, r) \<in> set (scannable (ns_db ?s))" for i r using that rows(2)[of i r] by simp
  show ?thesis
    using scan_fold[OF okd rows(1) scan, of api st signer lts ians now] assms(2) Inr
    by (simp add: scanner_turn_def intent_scan_def Let_def)
qed

lemma users_scanned_rows:
  assumes "db_ok (vs_db x)" "y = scanner_turn (auto_scan api st signer lts managed market io aans) x"
  shows "db_ok (vs_db y) \<and> (\<forall>i p. dict_get i (sv_positions (vs_db x)) = Some p \<longrightarrow> dict_get i (sv_positions (vs_db y)) = Some p)"
  using auto_scan_grown[OF assms(1), of api st signer lts managed market io aans "vs_asgard x"] assms(2)
  by (simp add: scanner_turn_def grown_def Let_def)

lemma scanned_open:
  assumes "\<forall>i p. dict_get i (sv_positions (vs_db (tables_of d))) = Some p \<longrightarrow> dict_get i (sv_positions (vs_db y)) = Some p"
  shows "stays_open {} d (with_services y d)"
  using assms by (simp add: stays_open_def tables_of_def)

lemma system_run_open: "system_run v d K e \<Longrightarrow> idle d \<Longrightarrow> idle e \<and> stays_open K d e"
proof (induction rule: system_run.induct)
  case (desk_turn K d1 e)
  with idle_desk[of d1 v e] stays_open_trans[of K d d1 "{}" e] show ?case by simp
next
  case (monitored K d1 y api st signer io ans)
  with monitored_open[of d1 y api st signer io ans] idle_services[of d1 y]
    stays_open_trans[of K d d1 "newly_closed (ns_db (dk_user d1)) (vs_db y)" "with_services y d1"]
  show ?case by (simp add: idle_def)
next
  case (intents_scanned K d1 y api st signer lts io now ians)
  then have "db_ok (vs_db (tables_of d1))" by (simp add: idle_def tables_of_def)
  from intents_scanned_rows[OF this intents_scanned(2)] intents_scanned idle_services[of d1 y]
    stays_open_trans[of K d d1 "{}" "with_services y d1"] scanned_open[of d1 y]
  show ?case by simp
next
  case (users_scanned K d1 y api st signer lts managed market io aans)
  then have "db_ok (vs_db (tables_of d1))" by (simp add: idle_def tables_of_def)
  from users_scanned_rows[OF this users_scanned(2)] users_scanned idle_services[of d1 y]
    stays_open_trans[of K d d1 "{}" "with_services y d1"] scanned_open[of d1 y]
  show ?case by simp
qed simp

section \<open>Properties\<close>

text \<open>C6: The emergency stop of a user. It pauses the strategy at once and answers as many closed
  positions as are open, but no request, no job and no turn of the bot or of a scanner ever closes one of
  them: whatever the process does after it, those of the positions that no cycle of the monitor closed
  (by an exit of its own) are still open, and no job is completed.\<close>

theorem close_all_closes_nothing:
  assumes "system_run v d0 K0 d" "ok (ns_asgard (dk_user d0))" "bot_quiet (dk_bot d0)" "dk_jobs d0 = []"
      "db_ok (ns_db (dk_user d0))"
    and "close_all_positions a now u d = (d1, Inr (n, js))" "system_run v d1 K e"
  shows "n = length (user_open_rows u (ns_db (dk_user d))) \<and> length js = n \<and>
    strategy_pauses (sv_risk (ns_db (dk_user d1))) u = Some \<lparr>sp_paused_at = now, sp_paused_reason = EmergencyCloseAll\<rparr> \<and>
    fst ` set (user_open_rows u (ns_db (dk_user d))) - K \<subseteq> fst ` set (user_open_rows u (ns_db (dk_user e))) \<and>
    (\<forall>j r. dict_get j (dk_jobs e) = Some r \<longrightarrow> jb_status r \<noteq> Job_completed)"
proof -
  let ?d = "with_tables (pause_with EmergencyCloseAll now u) d"
  have "idle d0" using calm_refl[OF assms(2-4)] assms(5) by (simp add: idle_def)
  then have c: "calm d d" "db_ok (ns_db (dk_user d))" using system_run_open[OF assms(1)] by (simp_all add: idle_def)
  have d: "calm d ?d" using calm_with_tables[OF c(1)] pause_with_keeps by blast
  have rows: "user_open_rows u (ns_db (dk_user ?d)) = user_open_rows u (ns_db (dk_user d))"
    by (simp add: user_open_rows_def with_tables_def pause_with_keeps)
  have jobs: "calm d d2 \<and> dk_user d2 = dk_user ?d \<and> (\<forall>js. r = Inr js \<longrightarrow> length js = length is)"
    if "create_close_jobs a now u 0 is ?d = (d2, r)" for "is" d2 r
    by (rule create_close_jobs_calm[OF that d])
  have s: "n = length (user_open_rows u (ns_db (dk_user d))) \<and> length js = n \<and> dk_user d1 = dk_user ?d \<and> calm d d1"
    using assms(6) d jobs rows
    by (auto simp: close_all_positions_def Let_def split: sum.splits prod.splits if_splits)
  then have "idle d1" using c(2) by (auto simp: idle_def calm_def)
  note e = system_run_open[OF assms(7) this]
  have same: "sv_positions (ns_db (dk_user d1)) = sv_positions (ns_db (dk_user d))" using s by (simp add: with_tables_def pause_with_keeps)
  have ok: "dict_ok (sv_positions (ns_db (dk_user d)))" "dict_ok (sv_positions (ns_db (dk_user e)))"
    using c(2) e by (simp_all add: idle_def db_ok_def)
  have "fst ` set (user_open_rows u (ns_db (dk_user d))) - K \<subseteq> fst ` set (user_open_rows u (ns_db (dk_user e)))"
  proof
    fix i assume i: "i \<in> fst ` set (user_open_rows u (ns_db (dk_user d))) - K"
    then obtain p where p: "dict_get i (sv_positions (ns_db (dk_user d))) = Some p" "\<not> pe_is_closed p" "pe_user_id p = u"
      using dict_get_set[OF ok(1)] by (fastforce simp: user_open_rows_def)
    with e i same obtain q where "dict_get i (sv_positions (ns_db (dk_user e))) = Some q" "\<not> pe_is_closed q" "pe_user_id q = u"
      unfolding stays_open_def by (metis Diff_iff)
    then show "i \<in> fst ` set (user_open_rows u (ns_db (dk_user e)))"
      using dict_get_set[OF ok(2)] by (force simp: user_open_rows_def)
  qed
  moreover have "jb_status r \<noteq> Job_completed" if "dict_get j (dk_jobs e) = Some r" for j r
    using e that by (auto simp: idle_def calm_def job_ok_def)
  ultimately show ?thesis
    using s by (auto simp: with_tables_def pause_with_def pause_for_risk_def)
qed

section \<open>Instances\<close>

text \<open>The job of the stop runs, then a cycle of the monitor that cannot read the tables.\<close>

lemma unread_monitor: "monitor_turn api st signer (Inl e) ans x = x"
  by (simp add: monitor_turn_def service_cycle_def)

lemma newly_closed_self: "newly_closed db db = {}"
  by (simp add: newly_closed_def)

theorem close_all_closes_nothing_witness:
  "close_all_positions wit_close_all 5 ''u1'' wit_desk = (wit_closing, Inr (1, [''j0''])) \<and>
   system_run wit_desk_env wit_closing {} (with_services (tables_of wit_closed) wit_closed) \<and>
   ''p1'' \<in> fst ` set (user_open_rows ''u1'' (ns_db (dk_user wit_closed)))"
proof -
  have asked: "desk_step wit_desk_env wit_desk wit_closing"
    unfolding wit_closing_def by (rule desk_step.ask_close_all)
  have r: "system_run wit_desk_env wit_closing {} wit_closed"
    using system_run.desk_turn[OF system_run.at_start wit_close_turn] .
  from desk_step_calm[OF wit_close_turn desk_step_calm[OF asked calm_refl[OF wit_desk_quiet]]]
  have ok: "ok (vs_asgard (tables_of wit_closed))" unfolding calm_def tables_of_def by (elim conjE) simp
  have m: "system_run wit_desk_env wit_closing {} (with_services (tables_of wit_closed) wit_closed)"
    using system_run.monitored[OF r unread_monitor[symmetric] ok]
    by (simp add: newly_closed_self tables_of_def)
  have d: "user_open_rows ''u1'' (ns_db (dk_user wit_desk)) = [(''p1'', \<lparr>pe_user_id = ''u1'', pe_data = [], pe_is_closed = False\<rparr>)]"
    "db_ok (ns_db (dk_user wit_desk))"
    by (simp_all add: user_open_rows_def wit_desk_def wit_tables_def db_ok_def dict_ok_def)
  have "''p1'' \<in> fst ` set (user_open_rows ''u1'' (ns_db (dk_user wit_closed)))"
    using close_all_closes_nothing[OF system_run.at_start wit_desk_quiet d(2) wit_close_all_result m] d(1)
    by (simp add: tables_of_def)
  with wit_close_all_result m show ?thesis by blast
qed

end
