(* ===== verification/Spec2Isabelle.thy ===== *)
theory Spec2Isabelle
  imports Bot UserRisk LstMonitor TxStateMachine Services OutageDetector TransactionValidator Encryption
    FundingJobs PrivySigner Sessions Dashboard
begin

text \<open>
  A verification library for the Asgard Basis bot: a Python program that earns the funding rate of
  Hyperliquid perpetuals delta-neutrally, with a leveraged long of SOL or a staked SOL token on
  Solana (through Asgard) and a short of the same size on Hyperliquid. Paths below are under
  \<open>src/\<close>.

  \<^bold>\<open>The program and its theories.\<close> A scan of the bot asks the opportunity detector, which reads
  the lending rates of the Asgard protocols and the funding rates of Hyperliquid. The position manager
  runs pre-flight checks, opens the long (build, sign and submit a transaction, each step recorded by
  the transaction state machine), opens the short, validates the fills and registers the pair. The
  monitor asks the risk engine for exit conditions and the pause controller for its breakers;
  the state of the positions is kept in a SQLite file.

  \<^item> \<open>PyNum\<close>, \<open>Prelude\<close>: \<open>Decimal\<close> and \<open>float\<close> arithmetic as rounded rationals (locale
    \<open>rounding\<close>), exceptions as values, state-and-exception actions (\<open>andthen\<close>,
    \<open>catching\<close>), insertion-ordered dictionaries (locale \<open>keyed_store\<close>), texts of numbers.
  \<^item> \<open>Models\<close>, \<open>Opportunities\<close>, \<open>Positions\<close>: \<open>shared/models/*.py\<close> and
    \<open>shared/config/assets.py\<close>.
  \<^item> \<open>TxStateMachine\<close>: \<open>bot/state/state_machine.py\<close>; the table of transactions interprets
    \<open>keyed_store\<close>.
  \<^item> \<open>RiskEngine\<close>, \<open>PauseController\<close>, \<open>UserRisk\<close>, \<open>PositionSizer\<close>,
    \<open>LstMonitor\<close>, \<open>FillValidator\<close> (with the price consensus), \<open>OpportunityDetector\<close>,
    \<open>PositionManager\<close>: the files of the same names in \<open>bot/core\<close>.
  \<^item> \<open>MarketData\<close>, \<open>AsgardManager\<close>: \<open>bot/venues/asgard\<close>; \<open>FundingOracle\<close>,
    \<open>Trader\<close>: \<open>bot/venues/hyperliquid\<close>.
  \<^item> \<open>ServiceDb\<close>: the tables of the multi-tenant services (\<open>migrations\<close>); \<open>UserContext\<close>:
    \<open>bot/venues/user_context.py\<close>; \<open>UserOpening\<close>: opening for a user, shared by
    \<open>IntentScanner\<close> and \<open>AutonomousScanner\<close>; these and \<open>PositionMonitor\<close> model the files
    of the same names in \<open>bot/core\<close>; \<open>Services\<close>: the runs of the three services on the same tables.
  \<^item> \<open>Retry\<close>: \<open>shared/utils/retry.py\<close>; \<open>Transfers\<close>: the transfers of USDC, ether and SOL
    (\<open>bot/venues/hyperliquid/depositor.py\<close>, \<open>bot/venues/solana_transferor.py\<close>,
    \<open>bot/services/gas_funder.py\<close>, the waits of \<open>shared/chain\<close>); \<open>FundingJobs\<close>: the interface and
    the background jobs of \<open>backend/dashboard/api/funding.py\<close>, on top of them, with
    \<open>bot/services/deposit_reconciler.py\<close>.
  \<^item> \<open>PrivySigner\<close>: \<open>bot/venues/privy_signer.py\<close> (calls, breaker and metrics of signing);
    \<open>Encryption\<close>: \<open>shared/security/encryption.py\<close>; \<open>TransactionValidator\<close>, \<open>OutageDetector\<close>:
    \<open>shared/security/transaction_validator.py\<close>, \<open>shared/chain/outage_detector.py\<close>; \<open>Json\<close>:
    the JSON values some of these read.
  \<^item> \<open>Sessions\<close>: \<open>backend/dashboard/auth.py\<close>; \<open>AccountApi\<close>: the strategy, balances and intents of
    \<open>backend/dashboard/api\<close>; \<open>InternalApi\<close>: \<open>bot/core/internal_api.py\<close> with
    \<open>shared/auth/internal_jwt.py\<close>; \<open>PositionJobs\<close>: \<open>backend/dashboard/bot_bridge.py\<close> and
    \<open>api/positions.py\<close>, requests and background jobs on the tables and the bot; \<open>Dashboard\<close>: these together with the
    services that \<open>backend/dashboard/main.py\<close> starts beside them; \<open>ErrorCatalogue\<close>:
    \<open>bot/core/errors/codes.py\<close> and the codes that texts of errors are given.
  \<^item> \<open>Persistence\<close>: \<open>bot/state/persistence.py\<close>; \<open>Bot\<close>: \<open>bot/core/bot.py\<close> and
    \<open>bot/core/kill_switch.py\<close>, composed of the others, with the step relation of the running bot.

  \<^bold>\<open>How state and operations correspond.\<close> An object is a record of its fields, a method a function
  from the object to the changed object and its result, \<open>exn + 'a\<close> when it can raise. What comes
  from outside (replies of the venues and the signer, balances, database and connection failures, clock
  readings, new UUIDs) is an argument, one record per operation; a failed call is an exception value.
  What is sent is traced in the state (\<open>hl_calls\<close>, \<open>leg_calls\<close>, the calls of the Asgard
  state, \<open>bt_calls\<close>), in order. Log texts are left out, error texts abbreviated where nothing
  depends on them; exceptions that building them raises are kept.

  \<^bold>\<open>What the lemmas show.\<close> Per component: the effect of each operation on every branch, the
  invariants of its state over any run, and what its callers rely on. Across components: what one entry
  does to both legs with any provider of the long leg (locale \<open>long_leg\<close>) and why it cannot succeed
  with the program's own; and over any interleaving of the bot's loops, recovery, administration and
  kill switch (\<open>bot_reach\<close>), that the running bot never trades. Over any
  interleaving of the monitor and the scanners (\<open>services\<close>) the tables stay well-formed and closed
  positions final. The stored positions refine the
  history of saves and deletions, the transaction table refines the transition diagram. Over any run of
  funding requests, jobs and reconciliations (\<open>funding_run\<close>): what can be sent, when two jobs of a
  user exclude each other and when not, and that the reconciler never finds a row. Encryption and
  decryption are inverse to each other for every cipher that is. Over any run of the session manager: who
  gets a session, that a logout is final, and that data stay readable. Over any run of the dashboard with
  its jobs and the bot behind it (\<open>desk_reach\<close>): that nothing is opened or closed, and what each job
  tells its owner; with the services beside them (\<open>system_run\<close>): that an emergency stop closes
  nothing, only exits of the monitor do. Over any run of the account interface: the caps of the strategies.

  \<^bold>\<open>Bounds and termination.\<close> Every definition is total. Retry loops recurse on the number of
  attempts left, the constant of the code (15 for opening the short, 5 for closing it); the scan,
  recovery and parsing loops recurse on their list. The integer square root of the volatility starts
  from the number itself and decreases, so it ends by its measure. Waiting for a receipt is bounded by 242
  polls (120 seconds, half a second apart, and one poll beyond), for a credit by the 60 polls of the
  code, and a remote call by the attempts of its retry specification (the parameter
  \<open>tenacity_ok\<close>, the documented behaviour of the package tenacity).

  \<^bold>\<open>Not modelled.\<close> Exponent limits, infinities and the sign of zero of the number types (the parser
  of stored texts keeps infinity and NaN as values); waiting times; the order of concurrent coroutines
  within one operation. The event loop and signal handlers of the bot, HTTP and RPC clients,
  the encoding and hashing of what is signed, the rest of the dashboard (\<open>backend\<close>: the set-up
  wizard, rate limiting, event streams, statistics and the Privy log-in), scripts and the frontend are
  not modelled: they are input and output around the operations above, or code of other packages. The
  package that signs tokens is a parameter (\<open>jwt_codec\<close>, with \<open>jwt_ok\<close>). The ciphers and key derivations are parameters (\<open>crypto\<close>) with the laws \<open>aead_ok\<close> and
  \<open>kdf_ok\<close>; SHA-256 is defined.
\<close>

end
